(* ===== verification/Prelude.thy ===== *)
theory Prelude
  imports Main "HOL-Library.Word" "HOL-Library.Char_ord" "HOL-Library.List_Lexorder"
begin

text \<open>
  Shared vocabulary of the development: machine integers, results of fallible code, the
  loops that validation code is made of, and the facts about them that the component
  theories use.

  A Rust \<open>Result<T, E>\<close> is a sum: \<open>Inl e\<close> for \<open>Err(e)\<close>, \<open>Inr x\<close> for
  \<open>Ok(x)\<close>. A body \<open>a?; b?; c\<close> of checks is \<open>seq [a, b, c]\<close>, which returns the
  first error. Acceptance of such a body is a conjunction; the collection \<open>ok_iff\<close> holds
  one equivalence per validation routine, so that \<open>simp add: ok_iff\<close> turns "this record
  was accepted" into the facts it stands for.
\<close>

named_theorems ok_iff "when a validation routine accepts"

section \<open>Machine integers\<close>

type_synonym u8 = "8 word"
type_synonym i32 = "32 word"
type_synonym u32 = "32 word"
type_synonym u64 = "64 word"

text \<open>\<open>u64::checked_add\<close>: \<open>None\<close> when the sum does not fit.\<close>

definition checked_add_u64 :: "u64 \<Rightarrow> u64 \<Rightarrow> u64 option" where
  "checked_add_u64 a b = (if unat a + unat b < 2 ^ 64 then Some (a + b) else None)"

lemma checked_add_u64_Some:
  assumes "checked_add_u64 a b = Some c"
  shows "unat c = unat a + unat b"
  using assms by (auto simp: checked_add_u64_def unat_word_ariths split: if_splits)

lemma checked_succ_u64_Some:
  assumes "checked_add_u64 a 1 = Some c"
  shows "unat c = Suc (unat a)"
  using checked_add_u64_Some [OF assms] by simp

lemma checked_succ_u64_None: "checked_add_u64 a 1 = None \<longleftrightarrow> unat a = 2 ^ 64 - 1"
proof -
  have "unat a < 2 ^ 64"
    using unsigned_less [of a, where 'a = nat] by simp
  then show ?thesis
    by (auto simp: checked_add_u64_def)
qed

text \<open>\<open>u64::to_be_bytes\<close>: eight bytes, most significant first.\<close>

fun be_bytes :: "nat \<Rightarrow> nat \<Rightarrow> string" where
  "be_bytes 0 v = []"
| "be_bytes (Suc k) v = be_bytes k (v div 256) @ [char_of (v mod 256)]"

definition u64_be_bytes :: "u64 \<Rightarrow> string" where
  "u64_be_bytes w = be_bytes 8 (unat w)"

lemma length_be_bytes [simp]: "length (be_bytes k v) = k"
  by (induction k arbitrary: v) auto

lemma be_bytes_inject:
  assumes "be_bytes k v = be_bytes k w" "v < 256 ^ k" "w < 256 ^ k"
  shows "v = w"
  using assms
proof (induction k arbitrary: v w)
  case 0
  then show ?case by simp
next
  case (Suc k)
  from Suc.prems(1) have "be_bytes k (v div 256) = be_bytes k (w div 256)"
    and low: "(char_of (v mod 256) :: char) = char_of (w mod 256)" by auto
  moreover have "v div 256 < 256 ^ k" "w div 256 < 256 ^ k"
    using Suc.prems(2,3) by (auto simp: less_mult_imp_div_less mult.commute)
  ultimately have "v div 256 = w div 256" using Suc.IH [of "v div 256" "w div 256"] by simp
  moreover from low have "of_char (char_of (v mod 256)) = (of_char (char_of (w mod 256)) :: nat)"
    by simp
  then have "v mod 256 = w mod 256" by simp
  ultimately show ?case by (metis div_mult_mod_eq)
qed

lemma length_u64_be_bytes [simp]: "length (u64_be_bytes w) = 8"
  by (simp add: u64_be_bytes_def)

lemma u64_be_bytes_inject [simp]: "u64_be_bytes v = u64_be_bytes w \<longleftrightarrow> v = w"
proof
  assume "u64_be_bytes v = u64_be_bytes w"
  then have "unat v = unat w"
    using be_bytes_inject [of 8 "unat v" "unat w"]
      unsigned_less [of v, where 'a = nat] unsigned_less [of w, where 'a = nat]
    by (simp add: u64_be_bytes_def)
  then show "v = w" by (simp add: word_unat_eq_iff)
qed simp

section \<open>Results\<close>

text \<open>
  \<open>if !b { return Err(e) }\<close>. The congruence rule keeps the simplifier out of the error value
  until the branch is known to be taken.
\<close>

definition ensure :: "bool \<Rightarrow> 'e \<Rightarrow> 'e + unit" where
  "ensure b e = (if b then Inr () else Inl e)"

lemma ensure_cong [cong]: "b = b' \<Longrightarrow> ensure b e = ensure b' e"
  by simp

lemma ensure_simps [simp]: "ensure True e = Inr ()" "ensure False e = Inl e"
  by (simp_all add: ensure_def)

lemma ensure_ok [simp, ok_iff]: "ensure b e = Inr u \<longleftrightarrow> b"
  by (simp add: ensure_def)

lemma ensure_err: "ensure b e = Inl e' \<longleftrightarrow> \<not> b \<and> e' = e"
  by (auto simp: ensure_def)

fun seq :: "('e + unit) list \<Rightarrow> 'e + unit" where
  "seq [] = Inr ()"
| "seq (Inl e # cs) = Inl e"
| "seq (Inr u # cs) = seq cs"

lemma seq_Nil_ok [simp, ok_iff]: "seq [] = Inr u \<longleftrightarrow> True"
  by simp

lemma seq_Cons_ok [simp, ok_iff]: "seq (c # cs) = Inr u \<longleftrightarrow> c = Inr () \<and> seq cs = Inr ()"
  by (cases c) auto

lemma seq_append_ok: "seq (cs @ ds) = Inr u \<longleftrightarrow> seq cs = Inr () \<and> seq ds = Inr ()"
  by (induction cs) auto

lemma seq_map_ok [ok_iff]: "seq (map f xs) = Inr u \<longleftrightarrow> (\<forall>x\<in>set xs. f x = Inr ())"
  by (induction xs) auto

text \<open>\<open>let x = m?; k(x)\<close>, \<open>map_err\<close>, \<open>is_ok\<close> and \<open>ok_or_else\<close>.\<close>

fun bind_ok :: "'e + 'a \<Rightarrow> ('a \<Rightarrow> 'e + 'b) \<Rightarrow> 'e + 'b" where
  "bind_ok (Inl e) k = Inl e"
| "bind_ok (Inr x) k = k x"

lemma bind_ok_Inr [ok_iff]: "bind_ok m k = Inr y \<longleftrightarrow> (\<exists>x. m = Inr x \<and> k x = Inr y)"
  by (cases m) auto

lemma bind_ok_unit_Inr [simp]: "bind_ok (m :: 'e + unit) k = Inr y \<longleftrightarrow> m = Inr () \<and> k () = Inr y"
  by (cases m) auto

lemma bind_ok_cong [cong]: "m = m' \<Longrightarrow> bind_ok m k = bind_ok m' k"
  by simp

fun map_err :: "('e \<Rightarrow> 'f) \<Rightarrow> 'e + 'a \<Rightarrow> 'f + 'a" where
  "map_err f (Inl e) = Inl (f e)"
| "map_err f (Inr x) = Inr x"

lemma map_err_Inr [simp, ok_iff]: "map_err f m = Inr x \<longleftrightarrow> m = Inr x"
  by (cases m) auto

fun is_ok :: "'e + 'a \<Rightarrow> bool" where
  "is_ok (Inl e) = False"
| "is_ok (Inr x) = True"

lemma is_ok_iff: "is_ok m \<longleftrightarrow> (\<exists>x. m = Inr x)"
  by (cases m) auto

lemma is_ok_unit [simp]: "is_ok (m :: 'e + unit) \<longleftrightarrow> m = Inr ()"
  by (cases m) auto

definition ok_or :: "'a option \<Rightarrow> 'e \<Rightarrow> 'e + 'a" where
  "ok_or m e = (case m of None \<Rightarrow> Inl e | Some x \<Rightarrow> Inr x)"

lemma ok_or_cong [cong]: "m = m' \<Longrightarrow> ok_or m e = ok_or m' e"
  by simp

lemma ok_or_simps [simp]: "ok_or None e = Inl e" "ok_or (Some x) e = Inr x"
  by (simp_all add: ok_or_def)

lemma ok_or_Inr [simp, ok_iff]: "ok_or m e = Inr x \<longleftrightarrow> m = Some x"
  by (cases m) auto

text \<open>
  The loop \<open>for x in xs { check(x)?; if !seen.insert(key(x)) { return Err(dup(x)) } }\<close> over a
  \<open>BTreeSet\<close> of keys already seen.
\<close>

fun each_unique ::
  "('a \<Rightarrow> 'k) \<Rightarrow> ('a \<Rightarrow> 'e + unit) \<Rightarrow> ('a \<Rightarrow> 'e) \<Rightarrow> 'k set \<Rightarrow> 'a list \<Rightarrow> 'e + unit" where
  "each_unique key check dup seen [] = Inr ()"
| "each_unique key check dup seen (x # xs) =
     seq [check x, ensure (key x \<notin> seen) (dup x),
          each_unique key check dup (insert (key x) seen) xs]"

lemma each_unique_ok [ok_iff]:
  "each_unique key check dup seen xs = Inr u \<longleftrightarrow>
     (\<forall>x\<in>set xs. check x = Inr ()) \<and> distinct (map key xs) \<and> key ` set xs \<inter> seen = {}"
  by (induction xs arbitrary: seen) (auto simp del: ensure_simps)

section \<open>Lists\<close>

text \<open>\<open>iter().find(p)\<close>.\<close>

lemma find_unique:
  assumes "distinct (map key xs)" "x \<in> set xs" "key x = k"
  shows "find (\<lambda>y. key y = k) xs = Some x"
  using assms by (induction xs) (auto simp: image_iff)

lemma find_Some_iff_ex:
  "(\<exists>x. find P xs = Some x) \<longleftrightarrow> (\<exists>x\<in>set xs. P x)"
  using find_None_iff [of P xs] by (cases "find P xs") auto

lemma find_SomeD: "find P xs = Some x \<Longrightarrow> x \<in> set xs \<and> P x"
  by (auto simp: find_Some_iff in_set_conv_nth)

text \<open>\<open>filter_map\<close>.\<close>

lemma set_map_filter_iff: "y \<in> set (List.map_filter f xs) \<longleftrightarrow> (\<exists>x\<in>set xs. f x = Some y)"
  by (induction xs) (auto simp: List.map_filter_def)

lemma distinct_map_filter_keys:
  assumes "distinct (map key xs)" and key: "\<And>x y. f x = Some y \<Longrightarrow> fst y = key x"
  shows "distinct (map fst (List.map_filter f xs))"
  using assms(1)
proof (induction xs)
  case (Cons x xs)
  have "fst y \<in> key ` set xs" if "y \<in> set (List.map_filter f xs)" for y
  proof -
    from that obtain z where "z \<in> set xs" "f z = Some y" by (auto simp: set_map_filter_iff)
    with key show ?thesis by (metis image_eqI)
  qed
  then have fresh: "fst y \<noteq> key x" if "y \<in> set (List.map_filter f xs)" for y
    using that Cons.prems by (metis distinct.simps(2) list.simps(9) list.set_map)
  show ?case
  proof (cases "f x")
    case (Some z)
    then have "fst z = key x" by (rule key)
    with Some fresh Cons show ?thesis by (force simp: map_filter_simps)
  qed (use Cons in \<open>simp add: map_filter_simps\<close>)
qed (simp add: map_filter_simps)

end
