(* ===== verification/Text.thy ===== *)
theory Text
  imports Prelude
begin

text \<open>
  Rust \<open>str\<close> and \<open>[u8]\<close> values as byte lists (\<open>string\<close>, one \<open>char\<close> per byte, so
  \<open>length\<close> is \<open>len()\<close> and the lexicographic order is \<open>Ord\<close> on \<open>str\<close>), and what the
  contracts use of the standard library on them: blankness (\<open>trim().is_empty()\<close>, with
  Unicode white space in its UTF-8 encoding), ASCII classes and case, UTF-8 validity and
  decimal formatting.
\<close>

definition byte :: "char \<Rightarrow> nat" where
  "byte c = of_char c"

lemma byte_less [simp]: "byte c < 256"
  by (simp add: byte_def)

lemma byte_inject [simp]: "byte c = byte d \<longleftrightarrow> c = d"
  by (simp add: byte_def)

section \<open>Blank text\<close>

text \<open>
  The code points with the \<open>White_Space\<close> property are U+0009 to U+000D, U+0020, U+0085,
  U+00A0, U+1680, U+2000 to U+200A, U+2028, U+2029, U+202F, U+205F and U+3000. A text is
  blank when it is a sequence of their encodings.
\<close>

fun blank_bytes :: "nat list \<Rightarrow> bool" where
  "blank_bytes [] = True"
| "blank_bytes (b # bs) =
     (if b = 32 \<or> 9 \<le> b \<and> b \<le> 13 then blank_bytes bs
      else (case bs of
        [] \<Rightarrow> False
      | c # cs \<Rightarrow>
          if b = 194 then (c = 133 \<or> c = 160) \<and> blank_bytes cs
          else (case cs of
            [] \<Rightarrow> False
          | d # ds \<Rightarrow>
              (b = 225 \<and> c = 154 \<and> d = 128 \<or>
               b = 226 \<and> c = 128 \<and> (128 \<le> d \<and> d \<le> 138 \<or> d = 168 \<or> d = 169 \<or> d = 175) \<or>
               b = 226 \<and> c = 129 \<and> d = 159 \<or>
               b = 227 \<and> c = 128 \<and> d = 128) \<and> blank_bytes ds)))"

definition blank :: "string \<Rightarrow> bool" where
  "blank s = blank_bytes (map byte s)"

lemma blank_Nil [simp]: "blank []"
  by (simp add: blank_def)

lemma nonblank_Nil: "\<not> blank s \<Longrightarrow> s \<noteq> []"
  by auto

text \<open>Text whose first byte is a printable ASCII byte is not blank.\<close>

lemma graphic_not_blank:
  assumes "32 < byte c" "byte c < 128"
  shows "\<not> blank (c # s)"
  using assms by (auto simp: blank_def split: list.splits)

section \<open>ASCII\<close>

definition is_ascii_digit :: "char \<Rightarrow> bool" where
  "is_ascii_digit c \<longleftrightarrow> 48 \<le> byte c \<and> byte c \<le> 57"

definition is_ascii_uppercase :: "char \<Rightarrow> bool" where
  "is_ascii_uppercase c \<longleftrightarrow> 65 \<le> byte c \<and> byte c \<le> 90"

definition is_ascii_lowercase :: "char \<Rightarrow> bool" where
  "is_ascii_lowercase c \<longleftrightarrow> 97 \<le> byte c \<and> byte c \<le> 122"

definition is_ascii_alphanumeric :: "char \<Rightarrow> bool" where
  "is_ascii_alphanumeric c \<longleftrightarrow>
     is_ascii_digit c \<or> is_ascii_uppercase c \<or> is_ascii_lowercase c"

definition is_lower_hex :: "char \<Rightarrow> bool" where
  "is_lower_hex c \<longleftrightarrow> is_ascii_digit c \<or> 97 \<le> byte c \<and> byte c \<le> 102"

definition is_ascii_hexdigit :: "char \<Rightarrow> bool" where
  "is_ascii_hexdigit c \<longleftrightarrow> is_lower_hex c \<or> 65 \<le> byte c \<and> byte c \<le> 70"

definition is_ascii :: "string \<Rightarrow> bool" where
  "is_ascii s \<longleftrightarrow> list_all (\<lambda>c. byte c < 128) s"

definition lower_char :: "char \<Rightarrow> char" where
  "lower_char c = (if is_ascii_uppercase c then char_of (byte c + 32) else c)"

definition to_ascii_lowercase :: "string \<Rightarrow> string" where
  "to_ascii_lowercase s = map lower_char s"

definition eq_ignore_ascii_case :: "string \<Rightarrow> string \<Rightarrow> bool" where
  "eq_ignore_ascii_case a b \<longleftrightarrow> to_ascii_lowercase a = to_ascii_lowercase b"

lemmas ascii_class_defs = is_ascii_digit_def is_ascii_uppercase_def is_ascii_lowercase_def
  is_ascii_alphanumeric_def is_lower_hex_def is_ascii_hexdigit_def

lemma hexdigit_not_upper:
  "is_ascii_hexdigit c \<and> \<not> is_ascii_uppercase c \<longleftrightarrow> is_lower_hex c"
  by (auto simp: ascii_class_defs)

section \<open>UTF-8 validity\<close>

text \<open>\<open>OsStr::to_str\<close> succeeds exactly on well-formed UTF-8 (Unicode, table 3-7).\<close>

definition cont_byte :: "nat \<Rightarrow> bool" where
  "cont_byte b \<longleftrightarrow> 128 \<le> b \<and> b \<le> 191"

fun utf8_bytes :: "nat list \<Rightarrow> bool" where
  "utf8_bytes [] = True"
| "utf8_bytes (b # bs) =
     (if b < 128 then utf8_bytes bs
      else (case bs of
        [] \<Rightarrow> False
      | c # cs \<Rightarrow>
          if 194 \<le> b \<and> b \<le> 223 then cont_byte c \<and> utf8_bytes cs
          else (case cs of
            [] \<Rightarrow> False
          | d # ds \<Rightarrow>
              if 224 \<le> b \<and> b \<le> 239 then
                cont_byte c \<and> (b = 224 \<longrightarrow> 160 \<le> c) \<and> (b = 237 \<longrightarrow> c \<le> 159) \<and>
                cont_byte d \<and> utf8_bytes ds
              else (case ds of
                [] \<Rightarrow> False
              | e # es \<Rightarrow>
                  240 \<le> b \<and> b \<le> 244 \<and>
                  cont_byte c \<and> (b = 240 \<longrightarrow> 144 \<le> c) \<and> (b = 244 \<longrightarrow> c \<le> 143) \<and>
                  cont_byte d \<and> cont_byte e \<and> utf8_bytes es))))"

definition utf8_valid :: "string \<Rightarrow> bool" where
  "utf8_valid s = utf8_bytes (map byte s)"

lemma ascii_utf8: "is_ascii s \<Longrightarrow> utf8_valid s"
  unfolding is_ascii_def utf8_valid_def by (induction s) auto

section \<open>Formatting\<close>

fun show_nat :: "nat \<Rightarrow> string" where
  "show_nat n =
     (if n < 10 then [char_of (48 + n)] else show_nat (n div 10) @ [char_of (48 + n mod 10)])"

declare show_nat.simps [simp del]

definition show_u64 :: "u64 \<Rightarrow> string" where
  "show_u64 w = show_nat (unat w)"

definition show_u32 :: "u32 \<Rightarrow> string" where
  "show_u32 w = show_nat (unat w)"

text \<open>A back-quoted identifier, as the messages write it.\<close>

definition quoted :: "string \<Rightarrow> string" where
  "quoted s = ''`'' @ s @ ''`''"

end
