(* ===== verification/Paths.thy ===== *)
theory Paths
  imports Text
begin

text \<open>
  \<open>std::path::Path\<close> on Unix. A path is the list of its components, which is what \<open>==\<close>,
  \<open>Ord\<close> and every check of the contracts look at: two \<open>PathBuf\<close>s are equal in Rust exactly
  when their component lists are equal. \<open>path_of\<close> is \<open>Path::new\<close> followed by
  \<open>components()\<close>: repeated separators and interior \<open>.\<close> segments disappear, a leading
  \<open>.\<close> of a relative path is kept. \<open>Component::Prefix\<close> does not occur on Unix.
\<close>

datatype component = RootDir | CurDir | ParentDir | Normal string

type_synonym path = "component list"

fun split_slash :: "string \<Rightarrow> string \<times> string list" where
  "split_slash [] = ([], [])"
| "split_slash (c # s) =
     (case split_slash s of (seg, segs) \<Rightarrow>
        if c = CHR ''/'' then ([], seg # segs) else (c # seg, segs))"

definition segment :: "string \<Rightarrow> path" where
  "segment s =
     (if s = [] \<or> s = ''.'' then [] else if s = ''..'' then [ParentDir] else [Normal s])"

definition path_of :: "string \<Rightarrow> path" where
  "path_of s =
     (case split_slash s of (seg, segs) \<Rightarrow>
        (if seg = [] \<and> segs \<noteq> [] then [RootDir]
         else if seg = ''.'' then [CurDir] else segment seg) @ concat (map segment segs))"

definition is_absolute :: "path \<Rightarrow> bool" where
  "is_absolute p \<longleftrightarrow> (case p of RootDir # _ \<Rightarrow> True | _ \<Rightarrow> False)"

fun component_text :: "component \<Rightarrow> string option" where
  "component_text (Normal s) = Some s"
| "component_text _ = None"

definition path_utf8 :: "path \<Rightarrow> bool" where
  "path_utf8 p \<longleftrightarrow> (\<forall>s. Normal s \<in> set p \<longrightarrow> utf8_valid s)"

lemma path_utf8_code [code]:
  "path_utf8 p \<longleftrightarrow> list_all (\<lambda>c. case c of Normal s \<Rightarrow> utf8_valid s | _ \<Rightarrow> True) p"
  by (auto simp: path_utf8_def list_all_iff split: component.splits)

section \<open>The shape of parsed paths\<close>

definition wf_normal :: "string \<Rightarrow> bool" where
  "wf_normal s \<longleftrightarrow> s \<noteq> [] \<and> s \<noteq> ''.'' \<and> s \<noteq> ''..'' \<and> CHR ''/'' \<notin> set s"

definition wf_tail :: "path \<Rightarrow> bool" where
  "wf_tail p \<longleftrightarrow>
     list_all (\<lambda>c. case c of Normal s \<Rightarrow> wf_normal s | ParentDir \<Rightarrow> True | _ \<Rightarrow> False) p"

definition wf_path :: "path \<Rightarrow> bool" where
  "wf_path p \<longleftrightarrow> wf_tail p \<or> (\<exists>q. (p = RootDir # q \<or> p = CurDir # q) \<and> wf_tail q)"

lemma split_slash_no_slash:
  "split_slash s = (seg, segs) \<Longrightarrow> \<forall>x\<in>set (seg # segs). CHR ''/'' \<notin> set x"
  by (induction s arbitrary: seg segs) (auto split: prod.splits if_splits)

lemma wf_tail_segment: "CHR ''/'' \<notin> set s \<Longrightarrow> wf_tail (segment s)"
  by (auto simp: segment_def wf_tail_def wf_normal_def)

lemma wf_tail_append: "wf_tail (p @ q) \<longleftrightarrow> wf_tail p \<and> wf_tail q"
  by (simp add: wf_tail_def)

lemma wf_tail_segments:
  "\<forall>x\<in>set segs. CHR ''/'' \<notin> set x \<Longrightarrow> wf_tail (concat (map segment segs))"
  by (induction segs) (auto simp: wf_tail_append wf_tail_segment, simp add: wf_tail_def)

lemma wf_path_of: "wf_path (path_of s)"
proof -
  obtain seg segs where s: "split_slash s = (seg, segs)" by force
  from split_slash_no_slash [OF s] have "wf_tail (segment seg)"
    and "wf_tail (concat (map segment segs))"
    by (auto intro: wf_tail_segment wf_tail_segments)
  then show ?thesis
    by (auto simp: path_of_def s wf_path_def wf_tail_append)
qed

section \<open>Writing a path back\<close>

fun join_slash :: "string \<Rightarrow> string list \<Rightarrow> string" where
  "join_slash seg [] = seg"
| "join_slash seg (s # ss) = seg @ CHR ''/'' # join_slash s ss"

fun component_name :: "component \<Rightarrow> string" where
  "component_name RootDir = ''''"
| "component_name CurDir = ''.''"
| "component_name ParentDir = ''..''"
| "component_name (Normal s) = s"

text \<open>\<open>components().collect::<PathBuf>()\<close>: the canonical text of a path.\<close>

definition path_text :: "path \<Rightarrow> string" where
  "path_text p =
     (case p of
        [] \<Rightarrow> ''''
      | [RootDir] \<Rightarrow> ''/''
      | c # cs \<Rightarrow> join_slash (component_name c) (map component_name cs))"

lemma split_slash_append:
  "CHR ''/'' \<notin> set a \<Longrightarrow>
   split_slash (a @ CHR ''/'' # b) = (a, fst (split_slash b) # snd (split_slash b))"
  by (induction a) (auto split: prod.splits)

lemma split_slash_plain: "CHR ''/'' \<notin> set a \<Longrightarrow> split_slash a = (a, [])"
  by (induction a) (auto split: prod.splits)

lemma split_join_slash:
  "\<forall>x\<in>set (seg # segs). CHR ''/'' \<notin> set x \<Longrightarrow> split_slash (join_slash seg segs) = (seg, segs)"
  by (induction segs arbitrary: seg) (auto simp: split_slash_append split_slash_plain)

lemma wf_component_name: "wf_tail cs \<Longrightarrow> \<forall>x\<in>set (map component_name cs). CHR ''/'' \<notin> set x"
  by (induction cs) (auto simp: wf_tail_def wf_normal_def split: component.splits)

lemma segments_of_names: "wf_tail cs \<Longrightarrow> concat (map segment (map component_name cs)) = cs"
  by (induction cs) (auto simp: wf_tail_def segment_def wf_normal_def split: component.splits)

lemma path_of_join:
  assumes "wf_tail cs" "CHR ''/'' \<notin> set seg"
  shows "path_of (join_slash seg (map component_name cs)) =
    (if seg = [] \<and> cs \<noteq> [] then [RootDir]
     else if seg = ''.'' then [CurDir] else segment seg) @ cs"
proof -
  have "\<forall>x\<in>set (seg # map component_name cs). CHR ''/'' \<notin> set x"
    using assms(2) wf_component_name [OF assms(1)] by simp
  then have "split_slash (join_slash seg (map component_name cs)) = (seg, map component_name cs)"
    by (rule split_join_slash)
  then show ?thesis
    using segments_of_names [OF assms(1)] by (simp add: path_of_def)
qed

lemma path_text_tail:
  "wf_tail (c # cs) \<Longrightarrow> path_text (c # cs) = join_slash (component_name c) (map component_name cs)"
  by (cases cs; cases c) (auto simp: path_text_def wf_tail_def)

lemma path_of_path_text:
  assumes "wf_path p"
  shows "path_of (path_text p) = p"
proof -
  consider "p = []" | c cs where "p = c # cs" "wf_tail p"
    | q where "p = RootDir # q" "wf_tail q" | q where "p = CurDir # q" "wf_tail q"
    using assms unfolding wf_path_def by (metis list.exhaust)
  then show ?thesis
  proof cases
    case 1
    then show ?thesis by (simp add: path_text_def path_of_def segment_def)
  next
    case 2
    then have "CHR ''/'' \<notin> set (component_name c)" "wf_tail cs"
      using wf_component_name [of p] by (simp_all add: wf_tail_def)
    moreover have "component_name c \<noteq> []" "component_name c \<noteq> ''.''"
      "segment (component_name c) = [c]"
      using 2 by (cases c; auto simp: wf_tail_def wf_normal_def segment_def)+
    ultimately show ?thesis
      using 2 path_of_join [of cs "component_name c"] by (simp add: path_text_tail)
  next
    case 3
    then show ?thesis
      using path_of_join [of q "[]"]
      by (cases q) (auto simp: path_text_def path_of_def segment_def)
  next
    case 4
    then show ?thesis
      using path_of_join [of q "''.''"] by (cases q) (auto simp: path_text_def)
  qed
qed

end
