(* ===== verification/Contracts.thy ===== *)
theory Contracts
  imports Paths
begin

text \<open>
  \<open>contracts/primitives.rs\<close> and the shared checks of \<open>contracts/application.rs\<close>: digests,
  workspace grants, provider profiles, commands, acceptance criteria, budgets and sprint
  specifications, each with its validation. A field of a Rust struct keeps its name behind a
  short prefix (\<open>sp_\<close> for \<open>SprintSpec\<close>, \<open>wg_\<close> for \<open>WorkspaceGrant\<close>, ...), since
  record fields are global constants here. SHA-256 is the third-party crate \<open>sha2\<close>: a
  parameter \<open>sha\<close> of the definitions that hash.
\<close>

section \<open>Errors and shared checks\<close>

datatype contract_error = ContractError (ce_field: string) (ce_message: string)

type_synonym contract_result = "contract_error + unit"

definition require_nonblank :: "string \<Rightarrow> string \<Rightarrow> contract_result" where
  "require_nonblank field value =
     ensure (\<not> blank value) (ContractError field ''must not be blank'')"

definition require_bounded_nonblank :: "string \<Rightarrow> string \<Rightarrow> nat \<Rightarrow> contract_result" where
  "require_bounded_nonblank field value max_bytes = seq
     [require_nonblank field value,
      ensure (length value \<le> max_bytes)
        (ContractError field (''must not exceed '' @ show_nat max_bytes @ '' UTF-8 bytes''))]"

definition require_unique_nonblank :: "string \<Rightarrow> string list \<Rightarrow> contract_result" where
  "require_unique_nonblank field values =
     each_unique (\<lambda>v. v) (require_nonblank field)
       (\<lambda>v. ContractError field (''duplicate identifier '' @ quoted v)) {} values"

definition require_normalized_absolute :: "string \<Rightarrow> path \<Rightarrow> contract_result" where
  "require_normalized_absolute field p = seq
     [ensure (path_utf8 p) (ContractError field ''must be exactly representable as UTF-8''),
      ensure (is_absolute p) (ContractError field ''must be absolute''),
      ensure (list_all (\<lambda>c. c \<noteq> CurDir \<and> c \<noteq> ParentDir) p)
        (ContractError field ''must be lexically normalized without `.` or `..`'')]"

definition is_normal :: "component \<Rightarrow> bool" where
  "is_normal c \<longleftrightarrow> (case c of Normal _ \<Rightarrow> True | _ \<Rightarrow> False)"

definition require_normalized_relative :: "string \<Rightarrow> path \<Rightarrow> contract_result" where
  "require_normalized_relative field p = seq
     [ensure (path_utf8 p) (ContractError field ''must be exactly representable as UTF-8''),
      ensure (\<not> (p = [] \<or> is_absolute p))
        (ContractError field ''must be a non-empty workspace-relative path''),
      ensure (list_all is_normal p)
        (ContractError field ''must contain only normalized relative components'')]"

definition require_nonzero_timestamp :: "string \<Rightarrow> u64 \<Rightarrow> contract_result" where
  "require_nonzero_timestamp field value =
     ensure (value \<noteq> 0) (ContractError field ''must be greater than zero'')"

fun strictly_increasing :: "string list \<Rightarrow> bool" where
  "strictly_increasing (a # b # xs) = (a < b \<and> strictly_increasing (b # xs))"
| "strictly_increasing _ = True"

definition require_strict_lexical_order :: "string \<Rightarrow> string list \<Rightarrow> contract_result" where
  "require_strict_lexical_order field values =
     ensure (strictly_increasing values)
       (ContractError field ''must be in strict canonical lexical order'')"

definition CONTRACT_VERSION :: u32 where
  "CONTRACT_VERSION = 1"

definition version_message :: "u32 \<Rightarrow> string" where
  "version_message v = ''expected version '' @ show_u32 CONTRACT_VERSION @ '', got '' @ show_u32 v"

definition require_contract_envelope ::
  "string \<Rightarrow> u32 \<Rightarrow> string \<Rightarrow> string \<Rightarrow> string \<Rightarrow> string \<Rightarrow> contract_result" where
  "require_contract_envelope version_field version id_field ident sprint_field sprint_id = seq
     [ensure (version = CONTRACT_VERSION) (ContractError version_field (version_message version)),
      require_nonblank id_field ident,
      require_nonblank sprint_field sprint_id]"

lemma strictly_increasing_iff: "strictly_increasing xs \<longleftrightarrow> sorted_wrt (<) xs"
  by (induction xs rule: strictly_increasing.induct) (auto dest: less_trans)

lemma require_nonblank_ok [simp, ok_iff]: "require_nonblank f v = Inr u \<longleftrightarrow> \<not> blank v"
  by (simp add: require_nonblank_def)

lemma require_bounded_nonblank_ok [simp, ok_iff]:
  "require_bounded_nonblank f v n = Inr u \<longleftrightarrow> \<not> blank v \<and> length v \<le> n"
  by (simp add: require_bounded_nonblank_def)

lemma require_unique_nonblank_ok [simp, ok_iff]:
  "require_unique_nonblank f vs = Inr u \<longleftrightarrow> (\<forall>v\<in>set vs. \<not> blank v) \<and> distinct vs"
  by (simp add: require_unique_nonblank_def each_unique_ok)

lemma require_normalized_absolute_ok [ok_iff]:
  "require_normalized_absolute f p = Inr u \<longleftrightarrow>
     path_utf8 p \<and> is_absolute p \<and> (\<forall>c\<in>set p. c \<noteq> CurDir \<and> c \<noteq> ParentDir)"
  by (simp add: require_normalized_absolute_def list_all_iff)

lemma require_normalized_relative_ok [ok_iff]:
  "require_normalized_relative f p = Inr u \<longleftrightarrow>
     path_utf8 p \<and> p \<noteq> [] \<and> (\<forall>c\<in>set p. \<exists>s. c = Normal s)"
  by (cases p)
    (auto simp: require_normalized_relative_def list_all_iff is_normal_def is_absolute_def
      split: component.splits)

lemma require_nonzero_timestamp_ok [simp, ok_iff]:
  "require_nonzero_timestamp f v = Inr u \<longleftrightarrow> v \<noteq> 0"
  by (simp add: require_nonzero_timestamp_def)

lemma require_strict_lexical_order_ok [simp, ok_iff]:
  "require_strict_lexical_order f vs = Inr u \<longleftrightarrow> sorted_wrt (<) vs"
  by (simp add: require_strict_lexical_order_def strictly_increasing_iff)

lemma require_contract_envelope_ok [simp, ok_iff]:
  "require_contract_envelope vf v idf i sf s = Inr u \<longleftrightarrow>
     v = CONTRACT_VERSION \<and> \<not> blank i \<and> \<not> blank s"
  by (simp add: require_contract_envelope_def)

section \<open>Digests\<close>

datatype digest = Digest (digest_str: string)

definition HEX :: string where
  "HEX = ''0123456789abcdef''"

definition hex_byte :: "char \<Rightarrow> string" where
  "hex_byte b = [HEX ! (byte b div 16), HEX ! (byte b mod 16)]"

definition digest_sha256 :: "(string \<Rightarrow> string) \<Rightarrow> string \<Rightarrow> digest" where
  "digest_sha256 sha bytes = Digest (concat (map hex_byte (sha bytes)))"

definition digest_parse :: "string \<Rightarrow> contract_error + digest" where
  "digest_parse value =
     (if length value \<noteq> 64 \<or> \<not> list_all is_ascii_hexdigit value
      then Inl (ContractError ''digest'' ''must contain exactly 64 hexadecimal characters'')
      else if list_ex is_ascii_uppercase value
      then Inl (ContractError ''digest'' ''must use canonical lowercase hexadecimal'')
      else Inr (Digest value))"

definition canonical_digest :: "digest \<Rightarrow> bool" where
  "canonical_digest d \<longleftrightarrow> length (digest_str d) = 64 \<and> list_all is_lower_hex (digest_str d)"

lemma digest_parse_iff: "digest_parse v = Inr d \<longleftrightarrow> d = Digest v \<and> canonical_digest d"
proof -
  have "list_all is_lower_hex v \<longleftrightarrow>
      list_all is_ascii_hexdigit v \<and> \<not> list_ex is_ascii_uppercase v"
    using hexdigit_not_upper by (fastforce simp: list_all_iff list_ex_iff)
  then show ?thesis
    by (auto simp: digest_parse_def canonical_digest_def)
qed

lemma HEX_lower_hex: "n < 16 \<Longrightarrow> is_lower_hex (HEX ! n)"
proof -
  have "\<forall>n\<in>set [0..<16]. is_lower_hex (HEX ! n)"
    by code_simp
  then show "n < 16 \<Longrightarrow> is_lower_hex (HEX ! n)" by auto
qed

lemma hex_byte_lower_hex: "list_all is_lower_hex (hex_byte b)"
proof -
  have "byte b div 16 < 16"
    by (rule less_mult_imp_div_less) (use byte_less [of b] in simp)
  then show ?thesis
    by (simp add: hex_byte_def HEX_lower_hex)
qed

lemma length_hex_bytes: "length (concat (map hex_byte bs)) = 2 * length bs"
  by (induction bs) (auto simp: hex_byte_def)

lemma hex_bytes_lower_hex: "list_all is_lower_hex (concat (map hex_byte bs))"
  using hex_byte_lower_hex by (induction bs) auto

lemma digest_sha256_canonical: "length (sha m) = 32 \<Longrightarrow> canonical_digest (digest_sha256 sha m)"
  by (simp add: canonical_digest_def digest_sha256_def length_hex_bytes hex_bytes_lower_hex)

section \<open>Workspace grants\<close>

datatype workspace_network_policy = NetworkDenied | NetworkAllowed

record workspace_permissions =
  wp_read :: bool
  wp_write_regular_files :: bool
  wp_execute_commands :: bool
  wp_integrate_changes :: bool
  wp_apply_verified_changes :: bool

definition permissions_trusted :: workspace_permissions where
  "permissions_trusted = \<lparr>wp_read = True, wp_write_regular_files = True,
     wp_execute_commands = True, wp_integrate_changes = True, wp_apply_verified_changes = True\<rparr>"

definition permissions_read_only :: workspace_permissions where
  "permissions_read_only = \<lparr>wp_read = True, wp_write_regular_files = False,
     wp_execute_commands = False, wp_integrate_changes = False,
     wp_apply_verified_changes = False\<rparr>"

definition validate_permissions :: "workspace_permissions \<Rightarrow> contract_result" where
  "validate_permissions p = seq
     [ensure (wp_read p)
        (ContractError ''workspace_grant.permissions.read''
          ''all workspace grants must permit reads''),
      ensure (\<not> (wp_integrate_changes p \<and> \<not> wp_write_regular_files p))
        (ContractError ''workspace_grant.permissions.integrate_changes''
          ''integration requires regular-file write permission''),
      ensure (\<not> (wp_apply_verified_changes p \<and> \<not> wp_integrate_changes p))
        (ContractError ''workspace_grant.permissions.apply_verified_changes''
          ''application requires integration permission'')]"

record workspace_grant =
  wg_grant_id :: string
  wg_canonical_root :: path
  wg_permissions :: workspace_permissions
  wg_network :: workspace_network_policy
  wg_policy_version :: u32
  wg_grant_hash :: digest

definition validate_workspace_grant :: "workspace_grant \<Rightarrow> contract_result" where
  "validate_workspace_grant g = seq
     [require_nonblank ''workspace_grant.grant_id'' (wg_grant_id g),
      require_normalized_absolute ''workspace_grant.canonical_root'' (wg_canonical_root g),
      ensure (wg_policy_version g \<noteq> 0)
        (ContractError ''workspace_grant.policy_version'' ''must be greater than zero''),
      validate_permissions (wg_permissions g)]"

lemma validate_permissions_ok [ok_iff]:
  "validate_permissions p = Inr u \<longleftrightarrow>
     wp_read p \<and> (wp_integrate_changes p \<longrightarrow> wp_write_regular_files p) \<and>
     (wp_apply_verified_changes p \<longrightarrow> wp_integrate_changes p)"
  by (auto simp: validate_permissions_def)

section \<open>Providers and commands\<close>

datatype execution_origin = HostIsolated | VendorManaged | ReadOnlyOrigin

record provider_profile =
  pp_backend_id :: string
  pp_model_id :: string
  pp_execution_origin :: execution_origin

definition validate_provider_profile :: "provider_profile \<Rightarrow> contract_result" where
  "validate_provider_profile p = seq
     [require_nonblank ''provider.backend_id'' (pp_backend_id p),
      require_nonblank ''provider.model_id'' (pp_model_id p)]"

record command_spec =
  cs_program :: string
  cs_arguments :: "string list"
  cs_working_directory :: path

definition validate_command_spec :: "command_spec \<Rightarrow> contract_result" where
  "validate_command_spec c = seq
     [require_nonblank ''command.program'' (cs_program c),
      (if cs_working_directory c \<noteq> []
       then require_normalized_relative ''command.working_directory'' (cs_working_directory c)
       else Inr ())]"

section \<open>Acceptance criteria, budgets, sprints\<close>

datatype acceptance_kind = Automated command_spec | HumanJudgment

record acceptance_criterion =
  ac_criterion_id :: string
  ac_description :: string
  ac_kind :: acceptance_kind

definition validate_acceptance_criterion :: "acceptance_criterion \<Rightarrow> contract_result" where
  "validate_acceptance_criterion c = seq
     [require_nonblank ''acceptance.criterion_id'' (ac_criterion_id c),
      require_nonblank ''acceptance.description'' (ac_description c),
      (case ac_kind c of
         Automated command \<Rightarrow> validate_command_spec command
       | HumanJudgment \<Rightarrow> Inr ())]"

record sprint_budget =
  sb_max_tasks :: nat
  sb_max_attempts_per_task :: u8
  sb_max_tool_calls :: u32
  sb_max_duration_ms :: u64

definition validate_sprint_budget :: "sprint_budget \<Rightarrow> contract_result" where
  "validate_sprint_budget b = seq
     [ensure (sb_max_tasks b \<noteq> 0)
        (ContractError ''sprint.budget.max_tasks'' ''must be greater than zero''),
      ensure (sb_max_attempts_per_task b \<noteq> 0)
        (ContractError ''sprint.budget.max_attempts_per_task'' ''must be greater than zero''),
      ensure (sb_max_tool_calls b \<noteq> 0)
        (ContractError ''sprint.budget.max_tool_calls'' ''must be greater than zero''),
      ensure (sb_max_duration_ms b \<noteq> 0)
        (ContractError ''sprint.budget.max_duration_ms'' ''must be greater than zero'')]"

record sprint_spec =
  sp_sprint_id :: string
  sp_objective :: string
  sp_acceptance_criteria :: "acceptance_criterion list"
  sp_provider :: provider_profile
  sp_budget :: sprint_budget
  sp_max_workers :: u8
  sp_workspace_grant :: workspace_grant
  sp_base_snapshot :: digest

definition validate_sprint_spec :: "sprint_spec \<Rightarrow> contract_result" where
  "validate_sprint_spec s = seq
     [require_nonblank ''sprint.sprint_id'' (sp_sprint_id s),
      require_nonblank ''sprint.objective'' (sp_objective s),
      ensure (sp_acceptance_criteria s \<noteq> [])
        (ContractError ''sprint.acceptance_criteria'' ''must contain at least one criterion''),
      each_unique ac_criterion_id validate_acceptance_criterion
        (\<lambda>c. ContractError ''sprint.acceptance_criteria''
          (''duplicate criterion id '' @ quoted (ac_criterion_id c)))
        {} (sp_acceptance_criteria s),
      validate_provider_profile (sp_provider s),
      validate_sprint_budget (sp_budget s),
      ensure (1 \<le> sp_max_workers s \<and> sp_max_workers s \<le> 3)
        (ContractError ''sprint.max_workers'' ''must be between one and three''),
      validate_workspace_grant (sp_workspace_grant s)]"

text \<open>What an accepted sprint guarantees to the layers above.\<close>

lemma validate_sprint_specD:
  assumes "validate_sprint_spec s = Inr ()"
  shows "\<not> blank (sp_sprint_id s)"
    and "sp_acceptance_criteria s \<noteq> []"
    and "distinct (map ac_criterion_id (sp_acceptance_criteria s))"
    and "sb_max_attempts_per_task (sp_budget s) \<noteq> 0"
    and "1 \<le> unat (sp_max_workers s)" and "unat (sp_max_workers s) \<le> 3"
    and "validate_workspace_grant (sp_workspace_grant s) = Inr ()"
  using assms
  by (auto simp: validate_sprint_spec_def ok_iff validate_sprint_budget_def word_le_nat_alt)

end
