(* ===== verification/Kahn.thy ===== *)
theory Kahn
  imports Contracts
begin

text \<open>
  The work list at the end of \<open>TaskGraph::validate_for_sprint\<close> (Kahn's algorithm), over
  indices: \<open>dependents ! d\<close> lists the tasks that wait for task \<open>d\<close>, \<open>indegrees ! i\<close> counts
  what task \<open>i\<close> still waits for. An index out of range and a decrement below zero are the
  panics of the Rust code; they are the value \<open>None\<close>, and \<open>kahn_counts\<close> shows that they
  do not happen on the tables the caller builds.
\<close>

fun relax :: "nat list \<Rightarrow> nat list \<Rightarrow> nat list \<Rightarrow> (nat list \<times> nat list) option" where
  "relax [] indegrees ready = Some (indegrees, ready)"
| "relax (d # ds) indegrees ready =
     (if d < length indegrees \<and> indegrees ! d \<noteq> 0 then
        let indegrees' = indegrees[d := indegrees ! d - 1]
        in relax ds indegrees' (if indegrees' ! d = 0 then ready @ [d] else ready)
      else None)"

lemma sum_list_decrement:
  "d < length xs \<Longrightarrow> xs ! d \<noteq> (0::nat) \<Longrightarrow> Suc (sum_list (xs[d := xs ! d - 1])) = sum_list xs"
  by (induction xs arbitrary: d) (auto split: nat.splits simp: less_Suc_eq_0_disj)

lemma relax_measure:
  "relax ds indegrees ready = Some (indegrees', ready') \<Longrightarrow>
   sum_list indegrees' + length ready' \<le> sum_list indegrees + length ready"
proof (induction ds indegrees ready rule: relax.induct)
  case (1 indegrees ready)
  then show ?case by simp
next
  case (2 d ds indegrees ready)
  let ?i = "indegrees[d := indegrees ! d - 1]"
  from "2.prems" have d: "d < length indegrees" "indegrees ! d \<noteq> 0"
    and r: "relax ds ?i (if ?i ! d = 0 then ready @ [d] else ready) = Some (indegrees', ready')"
    by (auto simp: Let_def split: if_splits)
  have "sum_list indegrees' + length ready'
      \<le> sum_list ?i + length (if ?i ! d = 0 then ready @ [d] else ready)"
    using "2.IH" d r by (auto simp: Let_def)
  then show ?case
    using sum_list_decrement [OF d] by (auto split: if_splits)
qed

text \<open>
  \<open>while let Some(index) = ready.pop_front()\<close>. Every round removes one entry of the queue
  and pays for each entry it adds with one decrement, so the sum of the counts and the length
  of the queue get smaller.
\<close>

function kahn :: "nat list list \<Rightarrow> nat list \<Rightarrow> nat list \<Rightarrow> nat \<Rightarrow> nat option" where
  "kahn dependents indegrees [] visited = Some visited"
| "kahn dependents indegrees (index # ready) visited =
     (if index < length dependents then
        (case relax (dependents ! index) indegrees ready of
           None \<Rightarrow> None
         | Some (indegrees', ready') \<Rightarrow> kahn dependents indegrees' ready' (visited + 1))
      else None)"
  by pat_completeness auto
termination
  by (relation "measure (\<lambda>(dependents, indegrees, ready, visited).
        sum_list indegrees + length ready)")
    (auto dest: relax_measure)

definition initially_ready :: "nat list \<Rightarrow> nat list" where
  "initially_ready indegrees = filter (\<lambda>i. indegrees ! i = 0) [0..<length indegrees]"

section \<open>One round\<close>

lemma relax_result:
  assumes "\<forall>i\<in>set ds. i < length indegrees"
    and "\<forall>i<length indegrees. count_list ds i \<le> indegrees ! i"
  shows "\<exists>indegrees' new. relax ds indegrees ready = Some (indegrees', ready @ new) \<and>
    length indegrees' = length indegrees \<and>
    (\<forall>i<length indegrees. indegrees' ! i = indegrees ! i - count_list ds i) \<and>
    distinct new \<and> set new = {i \<in> set ds. indegrees' ! i = 0}"
  using assms
proof (induction ds arbitrary: indegrees ready)
  case Nil
  then show ?case by simp
next
  case (Cons d ds)
  let ?i = "indegrees[d := indegrees ! d - 1]"
  let ?r = "if ?i ! d = 0 then ready @ [d] else ready"
  from Cons.prems have d: "d < length indegrees" "indegrees ! d \<noteq> 0"
    by (auto dest!: spec [of _ d])
  have counts: "\<forall>i<length ?i. count_list ds i \<le> ?i ! i"
    using Cons.prems(2) d by (auto simp: nth_list_update)
  obtain indegrees' new where IH: "relax ds ?i ?r = Some (indegrees', ?r @ new)"
    "length indegrees' = length ?i" "\<forall>i<length ?i. indegrees' ! i = ?i ! i - count_list ds i"
    "distinct new" "set new = {i \<in> set ds. indegrees' ! i = 0}"
    using Cons.IH [of ?i ?r] Cons.prems(1) counts by auto
  have step: "relax (d # ds) indegrees ready = Some (indegrees', ?r @ new)"
    using IH(1) d by (simp add: Let_def)
  have nth: "\<forall>i<length indegrees. indegrees' ! i = indegrees ! i - count_list (d # ds) i"
    using IH(3) d by (auto simp: nth_list_update)
  show ?case
  proof (cases "?i ! d = 0")
    case True
    with counts d have "count_list ds d = 0" by auto
    then have "d \<notin> set ds" by (simp add: count_list_0_iff)
    moreover have "indegrees' ! d = 0" using nth d True by simp
    ultimately show ?thesis
      using step nth IH(2,4,5) True by (intro exI [of _ indegrees'] exI [of _ "d # new"]) auto
  next
    case False
    have "d \<in> set ds" if "indegrees' ! d = 0"
    proof (rule ccontr)
      assume "d \<notin> set ds"
      then have "count_list ds d = 0" by (simp add: count_list_0_iff)
      then show False using IH(3) d False that by auto
    qed
    then show ?thesis
      using step nth IH(2,4,5) False by (intro exI [of _ indegrees'] exI [of _ new]) auto
  qed
qed

section \<open>The invariant of the work list\<close>

text \<open>
  \<open>done\<close> is the set of indices taken from the queue so far. A count is the number of
  incoming edges from indices not yet done; the indices with count zero are those done or
  queued.
\<close>

definition pending_edges :: "nat list list \<Rightarrow> nat set \<Rightarrow> nat \<Rightarrow> nat" where
  "pending_edges D finished i = (\<Sum>d\<in>{..<length D} - finished. count_list (D ! d) i)"

definition kahn_inv :: "nat list list \<Rightarrow> nat set \<Rightarrow> nat list \<Rightarrow> nat list \<Rightarrow> bool" where
  "kahn_inv D finished indegrees ready \<longleftrightarrow>
     length indegrees = length D \<and>
     (\<forall>d<length D. \<forall>i\<in>set (D ! d). i < length D) \<and>
     finished \<subseteq> {..<length D} \<and> distinct ready \<and> set ready \<subseteq> {..<length D} - finished \<and>
     (\<forall>i<length D. indegrees ! i = pending_edges D finished i) \<and>
     (\<forall>i<length D. indegrees ! i = 0 \<longleftrightarrow> i \<in> finished \<or> i \<in> set ready)"

lemma pending_edges_insert:
  assumes "d < length D" "d \<notin> finished"
  shows "pending_edges D finished i = count_list (D ! d) i + pending_edges D (insert d finished) i"
proof -
  have "{..<length D} - insert d finished = ({..<length D} - finished) - {d}"
    by auto
  then show ?thesis
    unfolding pending_edges_def
    using sum.remove [of "{..<length D} - finished" d "\<lambda>d. count_list (D ! d) i"] assms
    by simp
qed

lemma kahn_inv_step:
  assumes inv: "kahn_inv D finished indegrees (d # ready)"
  shows "\<exists>indegrees' ready'. relax (D ! d) indegrees ready = Some (indegrees', ready') \<and>
    kahn_inv D (insert d finished) indegrees' ready'"
proof -
  from inv have d: "d < length D" "d \<notin> finished" "d \<notin> set ready"
    by (auto simp: kahn_inv_def)
  have "\<forall>i<length indegrees. count_list (D ! d) i \<le> indegrees ! i"
    using inv pending_edges_insert [OF d(1,2)] by (auto simp: kahn_inv_def)
  moreover have "\<forall>i\<in>set (D ! d). i < length indegrees"
    using inv d by (auto simp: kahn_inv_def)
  ultimately obtain indegrees' new where
    r: "relax (D ! d) indegrees ready = Some (indegrees', ready @ new)"
    and len: "length indegrees' = length indegrees"
    and nth: "\<forall>i<length indegrees. indegrees' ! i = indegrees ! i - count_list (D ! d) i"
    and new: "distinct new" "set new = {i \<in> set (D ! d). indegrees' ! i = 0}"
    using relax_result [of "D ! d" indegrees ready] by blast
  have pend: "\<forall>i<length D. indegrees' ! i = pending_edges D (insert d finished) i"
    using inv nth pending_edges_insert [OF d(1,2)] by (auto simp: kahn_inv_def)
  have fresh: "i \<notin> finished \<and> i \<noteq> d \<and> i \<notin> set ready" if "i \<in> set (D ! d)" for i
  proof -
    have "count_list (D ! d) i \<noteq> 0" using that by (simp add: count_list_0_iff)
    moreover have "i < length D" using inv d(1) that by (auto simp: kahn_inv_def)
    ultimately have "indegrees ! i \<noteq> 0"
      using inv pending_edges_insert [OF d(1,2), of i] by (auto simp: kahn_inv_def)
    then show ?thesis using inv \<open>i < length D\<close> by (auto simp: kahn_inv_def)
  qed
  have zero: "indegrees' ! i = 0 \<longleftrightarrow> i \<in> insert d finished \<or> i \<in> set (ready @ new)"
    if "i < length D" for i
  proof (cases "i \<in> set (D ! d)")
    case True
    with fresh new show ?thesis by auto
  next
    case False
    then have "indegrees' ! i = indegrees ! i"
      using nth inv that by (simp add: kahn_inv_def count_list_0_iff)
    with inv that False new show ?thesis by (auto simp: kahn_inv_def)
  qed
  have "kahn_inv D (insert d finished) indegrees' (ready @ new)"
    using inv d len pend zero new fresh unfolding kahn_inv_def by auto
  with r show ?thesis by blast
qed

section \<open>What the loop returns\<close>

text \<open>
  A set of indices in which every member waits for a member never loses a member to the
  queue; and every index left behind waits for one left behind.
\<close>

definition self_supporting :: "nat list list \<Rightarrow> nat set \<Rightarrow> bool" where
  "self_supporting D C \<longleftrightarrow> C \<subseteq> {..<length D} \<and> (\<forall>i\<in>C. \<exists>d\<in>C. i \<in> set (D ! d))"

lemma self_supporting_pending:
  assumes "self_supporting D C" "C \<inter> finished = {}" "i \<in> C"
  shows "pending_edges D finished i \<noteq> 0"
proof -
  obtain d where "d \<in> C" "i \<in> set (D ! d)"
    using assms(1,3) unfolding self_supporting_def by blast
  then have "i \<in> set (D ! d)" "d < length D" "d \<notin> finished"
    using assms(1,2) unfolding self_supporting_def by auto
  moreover from this have "count_list (D ! d) i \<noteq> 0" by (simp add: count_list_0_iff)
  ultimately show ?thesis
    using pending_edges_insert [of d D finished i] by simp
qed

lemma kahn_returns:
  assumes "kahn_inv D finished indegrees ready" "visited = card finished"
  shows "\<exists>Q. kahn D indegrees ready visited = Some (card Q) \<and> Q \<subseteq> {..<length D} \<and>
    self_supporting D ({..<length D} - Q) \<and>
    (\<forall>C. self_supporting D C \<longrightarrow> C \<inter> finished = {} \<longrightarrow> C \<inter> Q = {})"
  using assms
proof (induction D indegrees ready visited arbitrary: finished rule: kahn.induct)
  case (1 D indegrees visited)
  have "\<exists>d\<in>{..<length D} - finished. i \<in> set (D ! d)" if "i \<in> {..<length D} - finished" for i
  proof (rule ccontr)
    assume none: "\<not> ?thesis"
    then have "pending_edges D finished i = 0"
      by (auto simp: pending_edges_def count_list_0_iff intro!: sum.neutral)
    with "1.prems"(1) that show False by (auto simp: kahn_inv_def)
  qed
  then have "self_supporting D ({..<length D} - finished)"
    by (auto simp: self_supporting_def)
  then show ?case
    using "1.prems" by (intro exI [of _ finished]) (auto simp: kahn_inv_def)
next
  case (2 D indegrees d ready visited)
  obtain indegrees' ready' where r: "relax (D ! d) indegrees ready = Some (indegrees', ready')"
    and inv: "kahn_inv D (insert d finished) indegrees' ready'"
    using kahn_inv_step [OF "2.prems"(1)] by blast
  from "2.prems"(1) have d: "d < length D" "d \<notin> finished" "finite finished"
    by (auto simp: kahn_inv_def intro: finite_subset)
  then have card: "visited + 1 = card (insert d finished)"
    using "2.prems"(2) by simp
  obtain Q where Q: "kahn D indegrees' ready' (visited + 1) = Some (card Q)"
    "Q \<subseteq> {..<length D}" "self_supporting D ({..<length D} - Q)"
    "\<forall>C. self_supporting D C \<longrightarrow> C \<inter> insert d finished = {} \<longrightarrow> C \<inter> Q = {}"
    using "2.IH" [OF d(1) r _ inv card] by blast
  have "d \<notin> C" if "self_supporting D C" "C \<inter> finished = {}" for C
  proof
    assume "d \<in> C"
    with that have "pending_edges D finished d \<noteq> 0" by (rule self_supporting_pending)
    with "2.prems"(1) d(1) show False by (auto simp: kahn_inv_def)
  qed
  with Q(4) have "\<forall>C. self_supporting D C \<longrightarrow> C \<inter> finished = {} \<longrightarrow> C \<inter> Q = {}"
    by blast
  with Q r d(1) show ?case by (intro exI [of _ Q]) simp
qed

lemma kahn_counts:
  assumes "length indegrees = length D" "\<forall>d<length D. \<forall>i\<in>set (D ! d). i < length D"
    and "\<forall>i<length D. indegrees ! i = (\<Sum>d<length D. count_list (D ! d) i)"
  shows "\<exists>v. kahn D indegrees (initially_ready indegrees) 0 = Some v \<and>
    (v = length D \<longleftrightarrow> (\<forall>C. self_supporting D C \<longrightarrow> C = {}))"
proof -
  have "kahn_inv D {} indegrees (initially_ready indegrees)"
    using assms by (auto simp: kahn_inv_def initially_ready_def pending_edges_def)
  then obtain Q where Q: "kahn D indegrees (initially_ready indegrees) 0 = Some (card Q)"
    "Q \<subseteq> {..<length D}" "self_supporting D ({..<length D} - Q)"
    "\<forall>C. self_supporting D C \<longrightarrow> C \<inter> Q = {}"
    using kahn_returns [of D "{}" indegrees "initially_ready indegrees" 0] by auto
  have "card Q = length D \<longleftrightarrow> Q = {..<length D}"
    using Q(2) card_subset_eq [of "{..<length D}" Q] by auto
  also have "\<dots> \<longleftrightarrow> (\<forall>C. self_supporting D C \<longrightarrow> C = {})"
  proof
    assume "Q = {..<length D}"
    then show "\<forall>C. self_supporting D C \<longrightarrow> C = {}"
      using Q(4) unfolding self_supporting_def by blast
  next
    assume "\<forall>C. self_supporting D C \<longrightarrow> C = {}"
    then show "Q = {..<length D}" using Q(2,3) by blast
  qed
  finally show ?thesis using Q(1) by blast
qed

section \<open>Acyclicity of finite relations\<close>

lemma wf_iff_no_self_support:
  "wf r \<longleftrightarrow> (\<forall>C. (\<forall>y\<in>C. \<exists>x\<in>C. (x, y) \<in> r) \<longrightarrow> C = {})"
proof
  assume wf: "wf r"
  show "\<forall>C. (\<forall>y\<in>C. \<exists>x\<in>C. (x, y) \<in> r) \<longrightarrow> C = {}"
  proof (intro allI impI equals0I)
    fix C c
    assume sup: "\<forall>y\<in>C. \<exists>x\<in>C. (x, y) \<in> r" and "c \<in> C"
    from wf \<open>c \<in> C\<close> obtain z where "z \<in> C" "\<And>y. (y, z) \<in> r \<Longrightarrow> y \<notin> C"
      by (rule wfE_min) blast
    with sup show False by blast
  qed
next
  assume none: "\<forall>C. (\<forall>y\<in>C. \<exists>x\<in>C. (x, y) \<in> r) \<longrightarrow> C = {}"
  show "wf r"
  proof (rule wfI_min)
    fix x and Q :: "'a set"
    assume "x \<in> Q"
    then have "\<not> (\<forall>y\<in>Q. \<exists>x\<in>Q. (x, y) \<in> r)" using none by blast
    then show "\<exists>z\<in>Q. \<forall>y. (y, z) \<in> r \<longrightarrow> y \<notin> Q" by blast
  qed
qed

lemma acyclic_iff_no_self_support:
  assumes "finite r"
  shows "acyclic r \<longleftrightarrow> (\<forall>C. (\<forall>y\<in>C. \<exists>x\<in>C. (x, y) \<in> r) \<longrightarrow> C = {})"
  using assms finite_acyclic_wf [of r] wf_acyclic [of r] wf_iff_no_self_support [of r] by blast

end
