(* ===== verification/Task_Graph.thy ===== *)
theory Task_Graph
  imports Kahn
begin

text \<open>
  \<open>PathScope\<close>, \<open>TaskSpec\<close> and \<open>TaskGraph\<close> of \<open>contracts/primitives.rs\<close>. The three passes
  of \<open>TaskGraph::validate_for_sprint\<close> are three recursions over the task list: the index of
  each task id, the edges with the covered criteria, and the work list of theory Kahn.
\<close>

section \<open>Path scopes and task specifications\<close>

datatype path_scope = WorkspaceScope | RelativeScope path

definition validate_path_scope :: "path_scope \<Rightarrow> contract_result" where
  "validate_path_scope s =
     (case s of
        WorkspaceScope \<Rightarrow> Inr ()
      | RelativeScope p \<Rightarrow> require_normalized_relative ''task.path_scope'' p)"

record task_spec =
  ts_task_id :: string
  ts_goal :: string
  ts_dependencies :: "string list"
  ts_path_scopes :: "path_scope list"
  ts_acceptance_checks :: "string list"
  ts_base_snapshot :: digest
  ts_required :: bool

definition validate_task_spec :: "task_spec \<Rightarrow> contract_result" where
  "validate_task_spec t = seq
     [require_nonblank ''task.task_id'' (ts_task_id t),
      require_nonblank ''task.goal'' (ts_goal t),
      ensure (ts_path_scopes t \<noteq> [])
        (ContractError ''task.path_scopes'' ''must declare at least one scope''),
      each_unique (\<lambda>s. s) validate_path_scope
        (\<lambda>s. ContractError ''task.path_scopes'' ''must not contain duplicate scopes'')
        {} (ts_path_scopes t),
      ensure (ts_acceptance_checks t \<noteq> [])
        (ContractError ''task.acceptance_checks'' ''must contain at least one criterion id''),
      require_unique_nonblank ''task.dependencies'' (ts_dependencies t),
      require_unique_nonblank ''task.acceptance_checks'' (ts_acceptance_checks t)]"

lemma validate_task_specD:
  assumes "validate_task_spec t = Inr ()"
  shows "\<not> blank (ts_task_id t)" "ts_path_scopes t \<noteq> []" "distinct (ts_path_scopes t)"
    and "\<forall>s\<in>set (ts_path_scopes t). validate_path_scope s = Inr ()"
    and "distinct (ts_dependencies t)"
  using assms by (auto simp: validate_task_spec_def each_unique_ok)

section \<open>Task graphs\<close>

record task_graph =
  tg_graph_id :: string
  tg_tasks :: "task_spec list"

text \<open>The first loop: \<open>task_indices\<close>, one entry per task id.\<close>

fun task_indices ::
  "digest \<Rightarrow> nat \<Rightarrow> task_spec list \<Rightarrow> (string \<rightharpoonup> nat) \<Rightarrow> contract_error + (string \<rightharpoonup> nat)" where
  "task_indices base index [] indices = Inr indices"
| "task_indices base index (t # ts) indices =
     bind_ok (seq
       [validate_task_spec t,
        ensure (ts_base_snapshot t = base)
          (ContractError ''task.base_snapshot''
            (''task '' @ quoted (ts_task_id t) @ '' must use the sprint base snapshot'')),
        ensure (indices (ts_task_id t) = None)
          (ContractError ''task_graph.tasks'' (''duplicate task id '' @ quoted (ts_task_id t)))])
       (\<lambda>_. task_indices base (index + 1) ts (indices(ts_task_id t \<mapsto> index)))"

text \<open>The second loop: criteria covered, incoming counts, and dependents per task.\<close>

fun cover_criteria ::
  "string set \<Rightarrow> string list \<Rightarrow> string set \<Rightarrow> contract_error + string set" where
  "cover_criteria criteria [] covered = Inr covered"
| "cover_criteria criteria (c # cs) covered =
     bind_ok (ensure (c \<in> criteria)
         (ContractError ''task.acceptance_checks'' (''unknown criterion id '' @ quoted c)))
       (\<lambda>_. cover_criteria criteria cs (insert c covered))"

fun link_dependencies ::
  "(string \<rightharpoonup> nat) \<Rightarrow> nat \<Rightarrow> string list \<Rightarrow> nat list \<times> nat list list \<Rightarrow>
   contract_error + nat list \<times> nat list list" where
  "link_dependencies indices index [] tables = Inr tables"
| "link_dependencies indices index (d # ds) tables =
     bind_ok (ok_or (indices d)
         (ContractError ''task.dependencies'' (''unknown dependency '' @ quoted d)))
       (\<lambda>dependency_index.
         bind_ok (ensure (dependency_index \<noteq> index)
             (ContractError ''task.dependencies'' ''a task cannot depend on itself''))
           (\<lambda>_. case tables of (indegrees, dependents) \<Rightarrow>
              link_dependencies indices index ds
                (indegrees[index := indegrees ! index + 1],
                 dependents[dependency_index := dependents ! dependency_index @ [index]])))"

fun link_tasks ::
  "(string \<rightharpoonup> nat) \<Rightarrow> string set \<Rightarrow> nat \<Rightarrow> task_spec list \<Rightarrow> string set \<Rightarrow>
   nat list \<times> nat list list \<Rightarrow> contract_error + string set \<times> nat list \<times> nat list list" where
  "link_tasks indices criteria index [] covered tables = Inr (covered, tables)"
| "link_tasks indices criteria index (t # ts) covered tables =
     bind_ok (cover_criteria criteria (ts_acceptance_checks t) covered) (\<lambda>covered'.
       bind_ok (link_dependencies indices index (ts_dependencies t) tables) (\<lambda>tables'.
         link_tasks indices criteria (index + 1) ts covered' tables'))"

definition missing_criteria :: "string set \<Rightarrow> string set \<Rightarrow> string" where
  "missing_criteria criteria covered =
     (case sorted_list_of_set (criteria - covered) of
        [] \<Rightarrow> []
      | c # cs \<Rightarrow> c @ concat (map (\<lambda>d. '', '' @ d) cs))"

definition criterion_id_set :: "sprint_spec \<Rightarrow> string set" where
  "criterion_id_set s = set (map ac_criterion_id (sp_acceptance_criteria s))"

definition validate_for_sprint :: "task_graph \<Rightarrow> sprint_spec \<Rightarrow> contract_result" where
  "validate_for_sprint g s =
     (let n = length (tg_tasks g); criteria = criterion_id_set s in
      bind_ok (seq
        [validate_sprint_spec s,
         require_nonblank ''task_graph.graph_id'' (tg_graph_id g),
         ensure (tg_tasks g \<noteq> [])
           (ContractError ''task_graph.tasks'' ''must contain at least one task''),
         ensure (n \<le> sb_max_tasks (sp_budget s))
           (ContractError ''task_graph.tasks'' ''exceeds the sprint task budget'')])
      (\<lambda>_. bind_ok (task_indices (sp_base_snapshot s) 0 (tg_tasks g) Map.empty)
      (\<lambda>indices. bind_ok
        (link_tasks indices criteria 0 (tg_tasks g) {} (replicate n 0, replicate n []))
      (\<lambda>(covered, indegrees, dependents). seq
        [ensure (covered = criteria)
           (ContractError ''task_graph.acceptance_coverage''
             (''criteria not covered by any task: '' @ missing_criteria criteria covered)),
         ensure (kahn dependents indegrees (initially_ready indegrees) 0 = Some n)
           (ContractError ''task_graph.tasks'' ''dependencies must form an acyclic graph'')]))))"

definition graph_task :: "task_graph \<Rightarrow> string \<Rightarrow> task_spec option" where
  "graph_task g task_id = find (\<lambda>t. ts_task_id t = task_id) (tg_tasks g)"

section \<open>The tables of the second pass\<close>

lemma indices_Cons:
  "indices x = None \<and> distinct ids \<and> (\<forall>y\<in>set ids. (indices(x \<mapsto> k)) y = None) \<and>
     indices' = indices(x \<mapsto> k, ids [\<mapsto>] [Suc k..<Suc k + length ids]) \<longleftrightarrow>
   distinct (x # ids) \<and> (\<forall>y\<in>set (x # ids). indices y = None) \<and>
     indices' = indices(x # ids [\<mapsto>] [k..<k + length (x # ids)])"
proof -
  have upt: "[k..<k + length (x # ids)] = k # [Suc k..<Suc k + length ids]"
    by (simp add: upt_conv_Cons del: upt_Suc)
  have "(\<forall>y\<in>set ids. (indices(x \<mapsto> k)) y = None) \<longleftrightarrow>
      x \<notin> set ids \<and> (\<forall>y\<in>set ids. indices y = None)"
    by auto
  then show ?thesis
    unfolding upt by (simp del: map_upds_twist fun_upd_apply) blast
qed

lemma task_indices_ok:
  "task_indices base index ts indices = Inr indices' \<longleftrightarrow>
     (\<forall>t\<in>set ts. validate_task_spec t = Inr () \<and> ts_base_snapshot t = base) \<and>
     distinct (map ts_task_id ts) \<and> (\<forall>i\<in>set (map ts_task_id ts). indices i = None) \<and>
     indices' = indices(map ts_task_id ts [\<mapsto>] [index..<index + length ts])"
proof (induction ts arbitrary: index indices)
  case Nil
  then show ?case by auto
next
  case (Cons t ts)
  have "task_indices base index (t # ts) indices = Inr indices' \<longleftrightarrow>
      validate_task_spec t = Inr () \<and> ts_base_snapshot t = base \<and>
      indices (ts_task_id t) = None \<and>
      task_indices base (Suc index) ts (indices(ts_task_id t \<mapsto> index)) = Inr indices'"
    by simp
  then show ?case
    unfolding Cons.IH
    using indices_Cons [of indices "ts_task_id t" "map ts_task_id ts" index indices']
    by (simp del: map_upds_twist fun_upd_apply upt_Suc map_upds_Cons) blast
qed

lemma map_of_index:
  assumes "distinct ids"
  shows "[ids [\<mapsto>] [0..<length ids]] x = Some i \<longleftrightarrow> i < length ids \<and> ids ! i = x"
proof -
  have "distinct (map fst (rev (zip ids [0..<length ids])))"
    using assms by (simp add: rev_map [symmetric])
  then show ?thesis
    using map_of_eq_Some_iff [of "rev (zip ids [0..<length ids])" x i]
    by (auto simp: map_upds_def in_set_zip)
qed

lemma map_of_index_None:
  assumes "distinct ids"
  shows "[ids [\<mapsto>] [0..<length ids]] x = None \<longleftrightarrow> x \<notin> set ids"
proof -
  have "[ids [\<mapsto>] [0..<length ids]] x = None \<longleftrightarrow>
      (\<nexists>i. [ids [\<mapsto>] [0..<length ids]] x = Some i)" by simp
  also have "\<dots> \<longleftrightarrow> x \<notin> set ids"
    unfolding map_of_index [OF assms] by (auto simp: in_set_conv_nth)
  finally show ?thesis .
qed

lemma cover_criteria_ok [ok_iff]:
  "cover_criteria criteria cs covered = Inr covered' \<longleftrightarrow>
     set cs \<subseteq> criteria \<and> covered' = covered \<union> set cs"
  by (induction cs arbitrary: covered) auto

text \<open>
  The effect of one task's dependencies on the tables: its own count grows by their number,
  and it is appended to the row of each of them.
\<close>

lemma link_dependencies_ok:
  assumes "\<forall>x i. indices x = Some i \<longrightarrow> i < length D" "index < length indegrees"
  shows "link_dependencies indices index ds (indegrees, D) = Inr (indegrees', D') \<longleftrightarrow>
    (\<forall>d\<in>set ds. indices d \<noteq> None \<and> indices d \<noteq> Some index) \<and>
    indegrees' = indegrees[index := indegrees ! index + length ds] \<and>
    D' = map (\<lambda>j. D ! j @ replicate (count_list (map indices ds) (Some j)) index) [0..<length D]"
  using assms
proof (induction ds arbitrary: indegrees D)
  case Nil
  have "D = map ((!) D) [0..<length D]" by (simp add: map_nth)
  with Nil show ?case by auto
next
  case (Cons d ds)
  show ?case
  proof (cases "indices d")
    case None
    then show ?thesis by simp
  next
    case (Some k)
    then have k: "k < length D" using Cons.prems by auto
    let ?D = "D[k := D ! k @ [index]]" and ?i = "indegrees[index := indegrees ! index + 1]"
    have rows: "map (\<lambda>j. ?D ! j @ replicate (count_list (map indices ds) (Some j)) index)
        [0..<length D] =
      map (\<lambda>j. D ! j @ replicate (count_list (map indices (d # ds)) (Some j)) index)
        [0..<length D]"
      using Some k by (auto simp: nth_list_update replicate_append_same replicate_app_Cons_same)
    have "link_dependencies indices index ds (?i, ?D) = Inr (indegrees', D') \<longleftrightarrow>
      (\<forall>d\<in>set ds. indices d \<noteq> None \<and> indices d \<noteq> Some index) \<and>
      indegrees' = ?i[index := ?i ! index + length ds] \<and>
      D' = map (\<lambda>j. ?D ! j @ replicate (count_list (map indices ds) (Some j)) index)
        [0..<length ?D]"
      by (rule Cons.IH) (use Cons.prems in auto)
    then show ?thesis
      using Some Cons.prems(2) unfolding length_list_update rows by auto
  qed
qed

text \<open>The same over a whole task list, starting at position \<open>k\<close>.\<close>

definition at_position :: "nat \<Rightarrow> 'a list \<Rightarrow> nat \<Rightarrow> 'a option" where
  "at_position k ts i = (if k \<le> i \<and> i < k + length ts then Some (ts ! (i - k)) else None)"

lemma at_position_Cons:
  "at_position k (t # ts) i = (if i = k then Some t else at_position (Suc k) ts i)"
  by (auto simp: at_position_def nth_Cons' Suc_diff_Suc)

lemma at_position_Nil [simp]: "at_position k [] i = None"
  by (simp add: at_position_def)

lemma count_list_replicate: "count_list (replicate m x) y = (if x = y then m else 0)"
  by (induction m) auto

lemma link_tasks_defined:
  assumes "\<forall>x i. indices x = Some i \<longrightarrow> i < length D" "k + length ts \<le> length indegrees"
  shows "is_ok (link_tasks indices criteria k ts covered (indegrees, D)) \<longleftrightarrow>
    (\<forall>i t. at_position k ts i = Some t \<longrightarrow> set (ts_acceptance_checks t) \<subseteq> criteria \<and>
      (\<forall>d\<in>set (ts_dependencies t). indices d \<noteq> None \<and> indices d \<noteq> Some i))"
  using assms
proof (induction ts arbitrary: k covered indegrees D)
  case Nil
  then show ?case by simp
next
  case (Cons t ts)
  let ?ds = "ts_dependencies t"
  let ?i = "indegrees[k := indegrees ! k + length ?ds]"
  let ?D = "map (\<lambda>j. D ! j @ replicate (count_list (map indices ?ds) (Some j)) k) [0..<length D]"
  let ?ok = "\<lambda>i t. set (ts_acceptance_checks t) \<subseteq> criteria \<and>
    (\<forall>d\<in>set (ts_dependencies t). indices d \<noteq> None \<and> indices d \<noteq> Some i)"
  have link: "link_dependencies indices k ?ds (indegrees, D) = Inr (ii, DD) \<longleftrightarrow>
      (\<forall>d\<in>set ?ds. indices d \<noteq> None \<and> indices d \<noteq> Some k) \<and> ii = ?i \<and> DD = ?D" for ii DD
    using Cons.prems by (intro link_dependencies_ok) auto
  have "is_ok (link_tasks indices criteria k (t # ts) covered (indegrees, D)) \<longleftrightarrow>
      ?ok k t \<and> is_ok (link_tasks indices criteria (Suc k) ts
        (covered \<union> set (ts_acceptance_checks t)) (?i, ?D))"
    unfolding is_ok_iff by (simp add: bind_ok_Inr cover_criteria_ok link split_paired_Ex)
  also have "is_ok (link_tasks indices criteria (Suc k) ts
      (covered \<union> set (ts_acceptance_checks t)) (?i, ?D)) \<longleftrightarrow>
      (\<forall>i u. at_position (Suc k) ts i = Some u \<longrightarrow> ?ok i u)"
    by (rule Cons.IH) (use Cons.prems in auto)
  finally show ?case
    unfolding at_position_Cons by (auto simp: at_position_def split: if_splits)
qed

lemma link_tasks_tables:
  assumes "link_tasks indices criteria k ts covered (indegrees, D) = Inr (covered', indegrees', D')"
    and "\<forall>x i. indices x = Some i \<longrightarrow> i < length D" "k + length ts \<le> length indegrees"
  shows "covered' = covered \<union> (\<Union>t\<in>set ts. set (ts_acceptance_checks t))"
    and "length indegrees' = length indegrees" and "length D' = length D"
    and "\<forall>i<length indegrees. indegrees' ! i = indegrees ! i +
      (case at_position k ts i of None \<Rightarrow> 0 | Some t \<Rightarrow> length (ts_dependencies t))"
    and "\<forall>d<length D. \<forall>i. count_list (D' ! d) i = count_list (D ! d) i +
      (case at_position k ts i of None \<Rightarrow> 0
       | Some t \<Rightarrow> count_list (map indices (ts_dependencies t)) (Some d))"
proof -
  have "covered' = covered \<union> (\<Union>t\<in>set ts. set (ts_acceptance_checks t)) \<and>
    length indegrees' = length indegrees \<and> length D' = length D \<and>
    (\<forall>i<length indegrees. indegrees' ! i = indegrees ! i +
      (case at_position k ts i of None \<Rightarrow> 0 | Some t \<Rightarrow> length (ts_dependencies t))) \<and>
    (\<forall>d<length D. \<forall>i. count_list (D' ! d) i = count_list (D ! d) i +
      (case at_position k ts i of None \<Rightarrow> 0
       | Some t \<Rightarrow> count_list (map indices (ts_dependencies t)) (Some d)))"
    using assms
  proof (induction ts arbitrary: k covered indegrees D)
    case Nil
    then show ?case by simp
  next
    case (Cons t ts)
    let ?ds = "ts_dependencies t"
    let ?i = "indegrees[k := indegrees ! k + length ?ds]"
    let ?D = "map (\<lambda>j. D ! j @ replicate (count_list (map indices ?ds) (Some j)) k) [0..<length D]"
    let ?c = "covered \<union> set (ts_acceptance_checks t)"
    have link: "link_dependencies indices k ?ds (indegrees, D) = Inr (ii, DD) \<longleftrightarrow>
        (\<forall>d\<in>set ?ds. indices d \<noteq> None \<and> indices d \<noteq> Some k) \<and> ii = ?i \<and> DD = ?D" for ii DD
      using Cons.prems by (intro link_dependencies_ok) auto
    have "link_tasks indices criteria (Suc k) ts ?c (?i, ?D) = Inr (covered', indegrees', D')"
      using Cons.prems(1) by (simp add: bind_ok_Inr cover_criteria_ok link split_paired_Ex)
    from Cons.IH [OF this] Cons.prems(2,3) show ?case
      by (auto simp: at_position_Cons count_list_replicate nth_list_update
          at_position_def split: option.splits if_splits)
  qed
  then show "covered' = covered \<union> (\<Union>t\<in>set ts. set (ts_acceptance_checks t))"
    and "length indegrees' = length indegrees" and "length D' = length D"
    and "\<forall>i<length indegrees. indegrees' ! i = indegrees ! i +
      (case at_position k ts i of None \<Rightarrow> 0 | Some t \<Rightarrow> length (ts_dependencies t))"
    and "\<forall>d<length D. \<forall>i. count_list (D' ! d) i = count_list (D ! d) i +
      (case at_position k ts i of None \<Rightarrow> 0
       | Some t \<Rightarrow> count_list (map indices (ts_dependencies t)) (Some d))"
    by blast+
qed

end
