(* ===== verification/Graph_Check.thy ===== *)
theory Graph_Check
  imports Task_Graph
begin

text \<open>
  What \<open>TaskGraph::validate_for_sprint\<close> accepts, stated without its tables: \<open>graph_spec\<close>.
  The dependency relation of an accepted graph is acyclic, and the work list that decides this
  never reads out of range or counts below zero.
\<close>

definition depends_on :: "task_graph \<Rightarrow> (string \<times> string) set" where
  "depends_on g = {(d, i). \<exists>t\<in>set (tg_tasks g). ts_task_id t = i \<and> d \<in> set (ts_dependencies t)}"

definition task_ids :: "task_graph \<Rightarrow> string list" where
  "task_ids g = map ts_task_id (tg_tasks g)"

definition graph_spec :: "task_graph \<Rightarrow> sprint_spec \<Rightarrow> bool" where
  "graph_spec g s \<longleftrightarrow>
     validate_sprint_spec s = Inr () \<and> \<not> blank (tg_graph_id g) \<and>
     tg_tasks g \<noteq> [] \<and> length (tg_tasks g) \<le> sb_max_tasks (sp_budget s) \<and>
     (\<forall>t\<in>set (tg_tasks g). validate_task_spec t = Inr () \<and> ts_base_snapshot t = sp_base_snapshot s) \<and>
     distinct (task_ids g) \<and>
     (\<Union>t\<in>set (tg_tasks g). set (ts_acceptance_checks t)) = criterion_id_set s \<and>
     (\<forall>t\<in>set (tg_tasks g). set (ts_dependencies t) \<subseteq> set (task_ids g)) \<and>
     acyclic (depends_on g)"

lemma finite_depends_on: "finite (depends_on g)"
proof -
  have "depends_on g = (\<Union>t\<in>set (tg_tasks g). set (ts_dependencies t) \<times> {ts_task_id t})"
    by (auto simp: depends_on_def)
  then show ?thesis by simp
qed

lemma count_list_pos: "0 < count_list xs x \<longleftrightarrow> x \<in> set xs"
  using count_list_0_iff [of xs x] by auto

lemma sum_count_some:
  fixes n :: nat
  assumes "\<forall>x\<in>set ds. \<exists>i<n. f x = Some i"
  shows "(\<Sum>d<n. count_list (map f ds) (Some d)) = length ds"
  using assms
proof (induction ds)
  case Nil
  then show ?case by simp
next
  case (Cons x ds)
  then obtain i where "i < n" "f x = Some i" by auto
  then have "(\<Sum>d<n. if f x = Some d then 1 else 0) = (1 :: nat)"
    by simp
  moreover have "count_list (map f (x # ds)) (Some d) =
      (if f x = Some d then 1 else 0) + count_list (map f ds) (Some d)" for d
    by simp
  ultimately show ?case
    using Cons by (simp add: sum.distrib del: count_list.simps)
qed

text \<open>
  The tables built by the first two passes, for a list of tasks with distinct ids.
\<close>

lemma tables:
  fixes ts :: "task_spec list"
  defines "ids \<equiv> map ts_task_id ts"
  assumes dist: "distinct ids"
    and link: "link_tasks [ids [\<mapsto>] [0..<length ids]] criteria 0 ts {}
      (replicate (length ts) 0, replicate (length ts) []) = Inr (covered, indegrees, D)"
  shows "covered = (\<Union>t\<in>set ts. set (ts_acceptance_checks t))"
    and "length indegrees = length ts" "length D = length ts"
    and "\<forall>d<length ts. \<forall>i. i \<in> set (D ! d) \<longleftrightarrow> i < length ts \<and> ids ! d \<in> set (ts_dependencies (ts ! i))"
    and "\<forall>i<length ts. indegrees ! i = (\<Sum>d<length ts. count_list (D ! d) i)"
proof -
  let ?n = "length ts" and ?idx = "[ids [\<mapsto>] [0..<length ids]]"
  have len: "length ids = ?n" by (simp add: ids_def)
  have idx: "?idx x = Some i \<longleftrightarrow> i < ?n \<and> ids ! i = x" for x i
    using map_of_index [OF dist] by (simp add: len)
  have rng: "\<forall>x i. ?idx x = Some i \<longrightarrow> i < length (replicate ?n ([] :: nat list))"
    using idx by simp
  have pos: "at_position 0 ts i = (if i < ?n then Some (ts ! i) else None)" for i
    by (simp add: at_position_def)
  note T = link_tasks_tables [OF link rng]
  have known: "\<forall>x\<in>set (ts_dependencies (ts ! i)). \<exists>j<?n. ?idx x = Some j" if "i < ?n" for i
  proof -
    have "is_ok (link_tasks ?idx criteria 0 ts {} (replicate ?n 0, replicate ?n []))"
      using link by simp
    then have "\<forall>i t. at_position 0 ts i = Some t \<longrightarrow>
        (\<forall>d\<in>set (ts_dependencies t). ?idx d \<noteq> None)"
      using link_tasks_defined [OF rng, of 0 ts "replicate ?n 0"] by simp
    moreover have "at_position 0 ts i = Some (ts ! i)" using that by (simp add: pos)
    ultimately have "\<forall>d\<in>set (ts_dependencies (ts ! i)). ?idx d \<noteq> None" by blast
    then show ?thesis
      using idx by (metis not_None_eq)
  qed
  show "covered = (\<Union>t\<in>set ts. set (ts_acceptance_checks t))"
    and "length indegrees = ?n" "length D = ?n"
    using T(1-3) by simp_all
  have cnt: "count_list (D ! d) i =
      (if i < ?n then count_list (map ?idx (ts_dependencies (ts ! i))) (Some d) else 0)"
    if "d < ?n" for d i
    using T(5) that by (simp add: pos)
  show "\<forall>d<?n. \<forall>i. i \<in> set (D ! d) \<longleftrightarrow> i < ?n \<and> ids ! d \<in> set (ts_dependencies (ts ! i))"
  proof (intro allI impI)
    fix d i assume "d < ?n"
    have "i \<in> set (D ! d) \<longleftrightarrow> 0 < count_list (D ! d) i" by (simp add: count_list_pos)
    also have "\<dots> \<longleftrightarrow> i < ?n \<and> Some d \<in> ?idx ` set (ts_dependencies (ts ! i))"
      using cnt [OF \<open>d < ?n\<close>, of i] by (simp add: count_list_pos)
    also have "\<dots> \<longleftrightarrow> i < ?n \<and> ids ! d \<in> set (ts_dependencies (ts ! i))"
      using idx \<open>d < ?n\<close> by (metis (no_types, lifting) image_iff)
    finally show "i \<in> set (D ! d) \<longleftrightarrow> i < ?n \<and> ids ! d \<in> set (ts_dependencies (ts ! i))" .
  qed
  show "\<forall>i<?n. indegrees ! i = (\<Sum>d<?n. count_list (D ! d) i)"
  proof (intro allI impI)
    fix i assume i: "i < ?n"
    have "indegrees ! i = length (ts_dependencies (ts ! i))"
      using T(4) i by (simp add: pos)
    also have "\<dots> = (\<Sum>d<?n. count_list (map ?idx (ts_dependencies (ts ! i))) (Some d))"
      using sum_count_some [OF known [OF i]] by simp
    also have "\<dots> = (\<Sum>d<?n. count_list (D ! d) i)"
      by (rule sum.cong) (use cnt i in auto)
    finally show "indegrees ! i = (\<Sum>d<?n. count_list (D ! d) i)" .
  qed
qed

lemma self_supporting_iff_acyclic:
  assumes dist: "distinct (task_ids g)" and len: "length D = length (tg_tasks g)"
    and known: "\<forall>t\<in>set (tg_tasks g). set (ts_dependencies t) \<subseteq> set (task_ids g)"
    and D: "\<forall>d<length D. \<forall>i. i \<in> set (D ! d) \<longleftrightarrow>
      i < length D \<and> task_ids g ! d \<in> set (ts_dependencies (tg_tasks g ! i))"
  shows "(\<forall>C. self_supporting D C \<longrightarrow> C = {}) \<longleftrightarrow> acyclic (depends_on g)"
proof -
  let ?ids = "task_ids g" and ?ts = "tg_tasks g"
  have lid: "length ?ids = length D" by (simp add: task_ids_def len)
  have nth: "?ids ! i = ts_task_id (?ts ! i)" if "i < length D" for i
    using that len by (simp add: task_ids_def)
  have edge: "(x, ?ids ! i) \<in> depends_on g \<longleftrightarrow> x \<in> set (ts_dependencies (?ts ! i))"
    if i: "i < length D" for x i
  proof
    assume "(x, ?ids ! i) \<in> depends_on g"
    then obtain t where t: "t \<in> set ?ts" "ts_task_id t = ?ids ! i" "x \<in> set (ts_dependencies t)"
      by (auto simp: depends_on_def)
    then obtain j where j: "j < length D" "t = ?ts ! j"
      using len by (metis in_set_conv_nth)
    then have "?ids ! j = ?ids ! i" using t(2) nth by simp
    then have "j = i" using dist i j(1) lid by (simp add: nth_eq_iff_index_eq)
    with t(3) j(2) show "x \<in> set (ts_dependencies (?ts ! i))" by simp
  next
    assume "x \<in> set (ts_dependencies (?ts ! i))"
    then show "(x, ?ids ! i) \<in> depends_on g"
      using i len nth by (force simp: depends_on_def)
  qed
  have D': "i \<in> set (D ! d) \<longleftrightarrow> (?ids ! d, ?ids ! i) \<in> depends_on g"
    if "d < length D" "i < length D" for d i
    using D edge that by simp
  have "(\<forall>C. self_supporting D C \<longrightarrow> C = {}) \<longleftrightarrow>
    (\<forall>C. (\<forall>y\<in>C. \<exists>x\<in>C. (x, y) \<in> depends_on g) \<longrightarrow> C = {})"
  proof
    assume L: "\<forall>C. self_supporting D C \<longrightarrow> C = {}"
    show "\<forall>C. (\<forall>y\<in>C. \<exists>x\<in>C. (x, y) \<in> depends_on g) \<longrightarrow> C = {}"
    proof (intro allI impI)
      fix C assume C: "\<forall>y\<in>C. \<exists>x\<in>C. (x, y) \<in> depends_on g"
      let ?I = "{i. i < length D \<and> ?ids ! i \<in> C}"
      have "C \<subseteq> set ?ids" using C by (auto simp: depends_on_def task_ids_def)
      then have C_nth: "\<exists>i<length D. x = ?ids ! i" if "x \<in> C" for x
        using that lid by (metis in_set_conv_nth subsetD)
      have "self_supporting D ?I"
        unfolding self_supporting_def
      proof (intro conjI ballI)
        fix i assume "i \<in> ?I"
        then obtain x where x: "x \<in> C" "(x, ?ids ! i) \<in> depends_on g" "i < length D"
          using C by blast
        then obtain d where "d < length D" "x = ?ids ! d" using C_nth by blast
        with x D' show "\<exists>d\<in>?I. i \<in> set (D ! d)" by blast
      qed auto
      with L have "?I = {}" by blast
      with C_nth show "C = {}" by blast
    qed
  next
    assume R: "\<forall>C. (\<forall>y\<in>C. \<exists>x\<in>C. (x, y) \<in> depends_on g) \<longrightarrow> C = {}"
    show "\<forall>C. self_supporting D C \<longrightarrow> C = {}"
    proof (intro allI impI)
      fix C assume C: "self_supporting D C"
      have "\<forall>y\<in>(!) ?ids ` C. \<exists>x\<in>(!) ?ids ` C. (x, y) \<in> depends_on g"
      proof
        fix y assume "y \<in> (!) ?ids ` C"
        then obtain i where i: "i \<in> C" "y = ?ids ! i" by blast
        then obtain d where d: "d \<in> C" "i \<in> set (D ! d)"
          using C by (auto simp: self_supporting_def)
        moreover have "d < length D" "i < length D"
          using C i d by (auto simp: self_supporting_def)
        ultimately show "\<exists>x\<in>(!) ?ids ` C. (x, y) \<in> depends_on g"
          using D' i(2) by blast
      qed
      with R show "C = {}" by blast
    qed
  qed
  then show ?thesis
    using acyclic_iff_no_self_support [OF finite_depends_on] by simp
qed

section \<open>Acceptance\<close>

lemma work_list_result:
  assumes dist: "distinct (task_ids g)"
    and link: "link_tasks [task_ids g [\<mapsto>] [0..<length (task_ids g)]] criteria 0 (tg_tasks g) {}
      (replicate (length (tg_tasks g)) 0, replicate (length (tg_tasks g)) [])
      = Inr (covered, indegrees, D)"
    and known: "\<forall>t\<in>set (tg_tasks g). set (ts_dependencies t) \<subseteq> set (task_ids g)"
  shows "\<exists>v. kahn D indegrees (initially_ready indegrees) 0 = Some v \<and>
    (v = length (tg_tasks g) \<longleftrightarrow> acyclic (depends_on g))"
proof -
  note T = tables [of "tg_tasks g", folded task_ids_def, OF dist link]
  have "\<exists>v. kahn D indegrees (initially_ready indegrees) 0 = Some v \<and>
      (v = length D \<longleftrightarrow> (\<forall>C. self_supporting D C \<longrightarrow> C = {}))"
    by (rule kahn_counts) (use T(2-5) in auto)
  moreover have "(\<forall>C. self_supporting D C \<longrightarrow> C = {}) \<longleftrightarrow> acyclic (depends_on g)"
    by (rule self_supporting_iff_acyclic [OF dist _ known]) (use T(3,4) in auto)
  ultimately show ?thesis using T(3) by simp
qed

lemma dependencies_known:
  assumes "distinct (task_ids g)" "length (tg_tasks g) \<le> length indegrees"
  shows "is_ok (link_tasks [task_ids g [\<mapsto>] [0..<length (task_ids g)]] criteria 0 (tg_tasks g) {}
      (indegrees, replicate (length (tg_tasks g)) [])) \<longleftrightarrow>
    (\<forall>t\<in>set (tg_tasks g). set (ts_acceptance_checks t) \<subseteq> criteria \<and>
      set (ts_dependencies t) \<subseteq> set (task_ids g) \<and> ts_task_id t \<notin> set (ts_dependencies t))"
proof -
  let ?n = "length (tg_tasks g)" and ?idx = "[task_ids g [\<mapsto>] [0..<length (task_ids g)]]"
  have len: "length (task_ids g) = ?n" by (simp add: task_ids_def)
  have idx: "?idx x = Some i \<longleftrightarrow> i < ?n \<and> task_ids g ! i = x" for x i
    using map_of_index [OF assms(1)] len by simp
  have none: "?idx x = None \<longleftrightarrow> x \<notin> set (task_ids g)" for x
    by (rule map_of_index_None [OF assms(1)])
  have "is_ok (link_tasks ?idx criteria 0 (tg_tasks g) {} (indegrees, replicate ?n [])) \<longleftrightarrow>
    (\<forall>i t. at_position 0 (tg_tasks g) i = Some t \<longrightarrow> set (ts_acceptance_checks t) \<subseteq> criteria \<and>
      (\<forall>d\<in>set (ts_dependencies t). ?idx d \<noteq> None \<and> ?idx d \<noteq> Some i))"
    using idx assms(2) by (intro link_tasks_defined) auto
  also have "\<dots> \<longleftrightarrow> (\<forall>i<?n. let t = tg_tasks g ! i in set (ts_acceptance_checks t) \<subseteq> criteria \<and>
      set (ts_dependencies t) \<subseteq> set (task_ids g) \<and> ts_task_id t \<notin> set (ts_dependencies t))"
    unfolding at_position_def Let_def none idx
    by (auto simp: task_ids_def subset_iff)
  finally show ?thesis
    by (auto simp: Let_def all_set_conv_all_nth)
qed

text \<open>The last two passes, for a graph with distinct task ids.\<close>

lemma relationship_passes_iff:
  fixes g :: task_graph and crit :: "string set"
  defines "n \<equiv> length (tg_tasks g)"
  assumes dist: "distinct (task_ids g)"
  shows "(\<exists>covered indegrees D. link_tasks [task_ids g [\<mapsto>] [0..<length (task_ids g)]] crit 0
        (tg_tasks g) {} (replicate n 0, replicate n []) = Inr (covered, indegrees, D) \<and>
      covered = crit \<and> kahn D indegrees (initially_ready indegrees) 0 = Some n) \<longleftrightarrow>
    (\<Union>t\<in>set (tg_tasks g). set (ts_acceptance_checks t)) = crit \<and>
    (\<forall>t\<in>set (tg_tasks g). set (ts_dependencies t) \<subseteq> set (task_ids g)) \<and> acyclic (depends_on g)"
proof -
  let ?ids = "task_ids g"
  let ?link = "link_tasks [?ids [\<mapsto>] [0..<length ?ids]] crit 0 (tg_tasks g) {}
    (replicate n 0, replicate n [])"
  let ?known = "\<forall>t\<in>set (tg_tasks g). set (ts_dependencies t) \<subseteq> set ?ids"
  have defined: "is_ok ?link \<longleftrightarrow> (\<forall>t\<in>set (tg_tasks g). set (ts_acceptance_checks t) \<subseteq> crit \<and>
      set (ts_dependencies t) \<subseteq> set ?ids \<and> ts_task_id t \<notin> set (ts_dependencies t))"
    unfolding n_def by (intro dependencies_known dist) simp
  have covered: "covered = (\<Union>t\<in>set (tg_tasks g). set (ts_acceptance_checks t))"
    if "?link = Inr (covered, indegrees, D)" for covered indegrees D
    using dist that unfolding n_def
    by (intro tables(1) [of "tg_tasks g", folded task_ids_def]) auto
  have cycle: "kahn D indegrees (initially_ready indegrees) 0 = Some n \<longleftrightarrow> acyclic (depends_on g)"
    if "?link = Inr (covered, indegrees, D)" ?known for covered indegrees D
    using work_list_result [OF dist that [unfolded n_def]] by (auto simp: n_def)
  have no_self: "ts_task_id t \<notin> set (ts_dependencies t)"
    if "acyclic (depends_on g)" "t \<in> set (tg_tasks g)" for t
    using that by (auto simp: acyclic_def depends_on_def)
  show ?thesis
    using defined covered cycle no_self unfolding is_ok_iff by (fastforce simp: split_paired_Ex)
qed

lemma validated_graph_iff:
  "validate_for_sprint g s = Inr () \<longleftrightarrow> graph_spec g s"
proof -
  let ?n = "length (tg_tasks g)" and ?ids = "task_ids g" and ?crit = "criterion_id_set s"
  let ?idx = "[?ids [\<mapsto>] [0..<length ?ids]]"
  have unfold: "validate_for_sprint g s = Inr () \<longleftrightarrow>
      (validate_sprint_spec s = Inr () \<and> \<not> blank (tg_graph_id g) \<and>
       tg_tasks g \<noteq> [] \<and> ?n \<le> sb_max_tasks (sp_budget s)) \<and>
      (\<forall>t\<in>set (tg_tasks g). validate_task_spec t = Inr () \<and>
         ts_base_snapshot t = sp_base_snapshot s) \<and> distinct ?ids \<and>
      (\<exists>covered indegrees D. link_tasks ?idx ?crit 0 (tg_tasks g) {}
           (replicate ?n 0, replicate ?n []) = Inr (covered, indegrees, D) \<and> covered = ?crit \<and>
         kahn D indegrees (initially_ready indegrees) 0 = Some ?n)"
    by (simp add: validate_for_sprint_def Let_def bind_ok_Inr task_indices_ok task_ids_def
        split_paired_Ex conj_ac)
  show ?thesis
  proof (cases "distinct ?ids")
    case True
    show ?thesis
      unfolding unfold relationship_passes_iff [OF True] graph_spec_def by blast
  next
    case False
    then show ?thesis by (simp add: unfold graph_spec_def)
  qed
qed

text \<open>
  C21. \<open>TaskGraph::validate_for_sprint\<close> accepts a graph exactly when it meets \<open>graph_spec\<close>:
  the sprint is valid, the graph is named and within the task budget, every task is valid and
  starts from the sprint's snapshot, task ids are distinct, the acceptance checks are exactly
  the declared criteria, every dependency is a task of the graph, and the dependency relation
  is acyclic. The indices, counters and queue of the code decide exactly this.
\<close>

theorem validate_for_sprint_accepts:
  "validate_for_sprint g s = Inr () \<longleftrightarrow> graph_spec g s"
  by (rule validated_graph_iff)

end
