(* ===== verification/Lease.thy ===== *)
theory Lease
  imports Graph_Check
begin

text \<open>
  \<open>WorkerLease\<close> of \<open>contracts/primitives.rs\<close>: the exclusive assignment of path scopes to one
  worker, its canonical identifier, and its validation. The identifier hashes a domain tag,
  three length-prefixed components and the epoch; \<open>lease_preimage_inject\<close> shows that the
  hashed bytes determine all four.
\<close>

definition MAX_WORKER_ID_BYTES :: nat where
  "MAX_WORKER_ID_BYTES = 256"

definition WORKER_LEASE_ID_BYTES :: nat where
  "WORKER_LEASE_ID_BYTES = 70"

definition WORKER_LEASE_ID_DOMAIN :: string where
  "WORKER_LEASE_ID_DOMAIN = ''grok-build.worker-lease.v1'' @ [CHR 0x00]"

definition WORKER_LEASE_ID_PREFIX :: string where
  "WORKER_LEASE_ID_PREFIX = ''lease-''"

record worker_lease =
  wl_contract_version :: u32
  wl_lease_id :: string
  wl_sprint_id :: string
  wl_lease_epoch :: u64
  wl_task_id :: string
  wl_worker_id :: string
  wl_path_scopes :: "path_scope list"
  wl_acquired_at_unix_ms :: u64

definition worker_id_char :: "char \<Rightarrow> bool" where
  "worker_id_char c \<longleftrightarrow> is_ascii_alphanumeric c \<or> c \<in> {CHR ''-'', CHR ''_'', CHR ''.'', CHR '':''}"

definition validate_worker_id :: "string \<Rightarrow> contract_result" where
  "validate_worker_id w =
     ensure (\<not> (w = [] \<or> length w > MAX_WORKER_ID_BYTES \<or> \<not> list_all worker_id_char w))
       (ContractError ''worker_lease.worker_id''
         (''must contain 1..='' @ show_nat MAX_WORKER_ID_BYTES @
          '' ASCII alphanumeric, hyphen, underscore, period, or colon bytes''))"

definition append_identity_component :: "string \<Rightarrow> string \<Rightarrow> contract_error + string" where
  "append_identity_component preimage value =
     (if length value < 2 ^ 64
      then Inr (preimage @ u64_be_bytes (of_nat (length value)) @ value)
      else Inl (ContractError ''worker_lease.lease_id''
        ''identity component length exceeds canonical u64 encoding''))"

definition derive_lease_id ::
  "(string \<Rightarrow> string) \<Rightarrow> string \<Rightarrow> string \<Rightarrow> string \<Rightarrow> u64 \<Rightarrow> contract_error + string" where
  "derive_lease_id sha sprint_id task_id worker_id lease_epoch =
     bind_ok (seq
       [require_nonblank ''worker_lease.sprint_id'' sprint_id,
        require_nonblank ''worker_lease.task_id'' task_id,
        validate_worker_id worker_id,
        ensure (lease_epoch \<noteq> 0)
          (ContractError ''worker_lease.lease_epoch'' ''must be greater than zero'')])
     (\<lambda>_. bind_ok (append_identity_component WORKER_LEASE_ID_DOMAIN sprint_id)
     (\<lambda>p1. bind_ok (append_identity_component p1 task_id)
     (\<lambda>p2. bind_ok (append_identity_component p2 worker_id)
     (\<lambda>p3. Inr (WORKER_LEASE_ID_PREFIX @
       digest_str (digest_sha256 sha (p3 @ u64_be_bytes lease_epoch)))))))"

definition validate_lease_id_shape :: "string \<Rightarrow> contract_result" where
  "validate_lease_id_shape lease_id =
     (let e = ContractError ''worker_lease.lease_id''
        ''must use canonical lease-<lowercase-sha256> form'' in
      if take (length WORKER_LEASE_ID_PREFIX) lease_id \<noteq> WORKER_LEASE_ID_PREFIX then Inl e
      else ensure (length lease_id = WORKER_LEASE_ID_BYTES \<and>
             list_all is_lower_hex (drop (length WORKER_LEASE_ID_PREFIX) lease_id)) e)"

definition validate_worker_lease :: "(string \<Rightarrow> string) \<Rightarrow> worker_lease \<Rightarrow> contract_result" where
  "validate_worker_lease sha l =
     bind_ok (seq
       [ensure (wl_contract_version l = CONTRACT_VERSION)
          (ContractError ''worker_lease.contract_version''
            (version_message (wl_contract_version l))),
        require_nonblank ''worker_lease.sprint_id'' (wl_sprint_id l),
        ensure (wl_lease_epoch l \<noteq> 0)
          (ContractError ''worker_lease.lease_epoch'' ''must be greater than zero''),
        require_nonblank ''worker_lease.task_id'' (wl_task_id l),
        validate_worker_id (wl_worker_id l),
        validate_lease_id_shape (wl_lease_id l)])
     (\<lambda>_. bind_ok
        (derive_lease_id sha (wl_sprint_id l) (wl_task_id l) (wl_worker_id l) (wl_lease_epoch l))
     (\<lambda>expected. seq
        [ensure (wl_lease_id l = expected)
           (ContractError ''worker_lease.lease_id''
             ''does not match the canonical sprint, task, worker, and epoch identity''),
         ensure (wl_path_scopes l \<noteq> [])
           (ContractError ''worker_lease.path_scopes'' ''must contain at least one scope''),
         each_unique (\<lambda>s. s) validate_path_scope
           (\<lambda>s. ContractError ''worker_lease.path_scopes'' ''must not contain duplicate scopes'')
           {} (wl_path_scopes l),
         require_nonzero_timestamp ''worker_lease.acquired_at_unix_ms''
           (wl_acquired_at_unix_ms l)]))"

definition worker_lease_new ::
  "(string \<Rightarrow> string) \<Rightarrow> string \<Rightarrow> u64 \<Rightarrow> string \<Rightarrow> string \<Rightarrow> path_scope list \<Rightarrow> u64 \<Rightarrow>
   contract_error + worker_lease" where
  "worker_lease_new sha sprint_id lease_epoch task_id worker_id path_scopes acquired_at =
     bind_ok (derive_lease_id sha sprint_id task_id worker_id lease_epoch) (\<lambda>lease_id.
       let lease = \<lparr>wl_contract_version = CONTRACT_VERSION, wl_lease_id = lease_id,
             wl_sprint_id = sprint_id, wl_lease_epoch = lease_epoch, wl_task_id = task_id,
             wl_worker_id = worker_id, wl_path_scopes = path_scopes,
             wl_acquired_at_unix_ms = acquired_at\<rparr>
       in bind_ok (validate_worker_lease sha lease) (\<lambda>_. Inr lease))"

definition validate_assignment ::
  "(string \<Rightarrow> string) \<Rightarrow> worker_lease \<Rightarrow> string \<Rightarrow> string \<Rightarrow> string \<Rightarrow> contract_result" where
  "validate_assignment sha l sprint_id task_id worker_id = seq
     [validate_worker_lease sha l,
      ensure (wl_sprint_id l = sprint_id \<and> wl_task_id l = task_id \<and> wl_worker_id l = worker_id)
        (ContractError ''worker_lease.assignment''
          ''must exactly match the owning sprint, task, and worker'')]"

section \<open>The hashed identity\<close>

definition lease_preimage :: "string \<Rightarrow> string \<Rightarrow> string \<Rightarrow> u64 \<Rightarrow> string" where
  "lease_preimage s t w e = WORKER_LEASE_ID_DOMAIN
     @ u64_be_bytes (of_nat (length s)) @ s @ u64_be_bytes (of_nat (length t)) @ t
     @ u64_be_bytes (of_nat (length w)) @ w @ u64_be_bytes e"

lemma framed_inject:
  assumes "u64_be_bytes (of_nat (length a)) @ a @ x = u64_be_bytes (of_nat (length b)) @ b @ y"
    and "length a < 2 ^ 64" "length b < 2 ^ 64"
  shows "a = b \<and> x = y"
proof -
  from assms(1) have "u64_be_bytes (of_nat (length a)) = u64_be_bytes (of_nat (length b))"
    and rest: "a @ x = b @ y"
    by (auto simp: append_eq_append_conv)
  then have "(of_nat (length a) :: u64) = of_nat (length b)" by simp
  then have "unat (of_nat (length a) :: u64) = unat (of_nat (length b) :: u64)" by simp
  then have "length a = length b"
    using assms(2,3) by (simp add: unat_of_nat take_bit_nat_eq_self)
  with rest show ?thesis by (simp add: append_eq_append_conv)
qed

lemma lease_preimage_inject:
  assumes "lease_preimage s t w e = lease_preimage s' t' w' e'"
    and "length s < 2 ^ 64" "length t < 2 ^ 64" "length w < 2 ^ 64"
    and "length s' < 2 ^ 64" "length t' < 2 ^ 64" "length w' < 2 ^ 64"
  shows "s = s' \<and> t = t' \<and> w = w' \<and> e = e'"
proof -
  from assms(1) have s: "s = s' \<and> u64_be_bytes (of_nat (length t)) @ t @
      u64_be_bytes (of_nat (length w)) @ w @ u64_be_bytes e =
      u64_be_bytes (of_nat (length t')) @ t' @
      u64_be_bytes (of_nat (length w')) @ w' @ u64_be_bytes e'"
    unfolding lease_preimage_def by (intro framed_inject) (use assms in auto)
  then have t: "t = t' \<and> u64_be_bytes (of_nat (length w)) @ w @ u64_be_bytes e =
      u64_be_bytes (of_nat (length w')) @ w' @ u64_be_bytes e'"
    by (intro framed_inject) (use assms in auto)
  then have "w = w' \<and> u64_be_bytes e = u64_be_bytes e'"
    by (intro framed_inject) (use assms in auto)
  with s t show ?thesis by simp
qed

section \<open>Acceptance\<close>

lemma validate_worker_id_ok [ok_iff]:
  "validate_worker_id w = Inr u \<longleftrightarrow>
     w \<noteq> [] \<and> length w \<le> MAX_WORKER_ID_BYTES \<and> list_all worker_id_char w"
  by (auto simp: validate_worker_id_def)

lemma derive_lease_id_iff:
  "derive_lease_id sha s t w e = Inr i \<longleftrightarrow>
     \<not> blank s \<and> \<not> blank t \<and> validate_worker_id w = Inr () \<and> e \<noteq> 0 \<and>
     length s < 2 ^ 64 \<and> length t < 2 ^ 64 \<and> length w < 2 ^ 64 \<and>
     i = WORKER_LEASE_ID_PREFIX @ digest_str (digest_sha256 sha (lease_preimage s t w e))"
  by (auto simp: derive_lease_id_def append_identity_component_def lease_preimage_def bind_ok_Inr)

lemma validate_lease_id_shape_ok:
  "validate_lease_id_shape i = Inr u \<longleftrightarrow>
     (\<exists>h. i = WORKER_LEASE_ID_PREFIX @ h \<and> length h = 64 \<and> list_all is_lower_hex h)"
proof
  let ?k = "length WORKER_LEASE_ID_PREFIX"
  assume "validate_lease_id_shape i = Inr u"
  then have "take ?k i = WORKER_LEASE_ID_PREFIX" "length i = 70" "list_all is_lower_hex (drop ?k i)"
    unfolding validate_lease_id_shape_def Let_def WORKER_LEASE_ID_BYTES_def
    by (auto split: if_splits)
  moreover have "?k = 6" by (simp add: WORKER_LEASE_ID_PREFIX_def)
  ultimately have "i = WORKER_LEASE_ID_PREFIX @ drop ?k i" "length (drop ?k i) = 64"
    by (metis append_take_drop_id) (simp add: \<open>length i = 70\<close> \<open>?k = 6\<close>)
  with \<open>list_all is_lower_hex (drop ?k i)\<close>
  show "\<exists>h. i = WORKER_LEASE_ID_PREFIX @ h \<and> length h = 64 \<and> list_all is_lower_hex h"
    by blast
next
  assume "\<exists>h. i = WORKER_LEASE_ID_PREFIX @ h \<and> length h = 64 \<and> list_all is_lower_hex h"
  then show "validate_lease_id_shape i = Inr u"
    by (auto simp: validate_lease_id_shape_def Let_def WORKER_LEASE_ID_BYTES_def
        WORKER_LEASE_ID_PREFIX_def)
qed

lemma lease_id_shape_of_digest:
  "canonical_digest d \<Longrightarrow> validate_lease_id_shape (WORKER_LEASE_ID_PREFIX @ digest_str d) = Inr ()"
  unfolding validate_lease_id_shape_ok by (auto simp: canonical_digest_def)

text \<open>The scopes a task or a lease may carry.\<close>

definition valid_scopes :: "path_scope list \<Rightarrow> bool" where
  "valid_scopes scopes \<longleftrightarrow>
     scopes \<noteq> [] \<and> distinct scopes \<and> (\<forall>s\<in>set scopes. validate_path_scope s = Inr ())"

lemma task_scopes_valid: "validate_task_spec t = Inr () \<Longrightarrow> valid_scopes (ts_path_scopes t)"
  using validate_task_specD [of t] by (simp add: valid_scopes_def)

lemma validate_worker_leaseD:
  assumes "validate_worker_lease sha l = Inr ()"
  shows "derive_lease_id sha (wl_sprint_id l) (wl_task_id l) (wl_worker_id l) (wl_lease_epoch l)
      = Inr (wl_lease_id l)"
    and "valid_scopes (wl_path_scopes l)" and "wl_lease_epoch l \<noteq> 0"
    and "\<not> blank (wl_sprint_id l)" "\<not> blank (wl_task_id l)"
    and "validate_worker_id (wl_worker_id l) = Inr ()"
    and "wl_contract_version l = CONTRACT_VERSION" "wl_acquired_at_unix_ms l \<noteq> 0"
  using assms
  by (auto simp: validate_worker_lease_def bind_ok_Inr each_unique_ok valid_scopes_def)

lemma worker_lease_new_iff:
  assumes "\<And>m. length (sha m) = 32"
  shows "worker_lease_new sha s e t w scopes acquired = Inr l \<longleftrightarrow>
    (\<exists>i. derive_lease_id sha s t w e = Inr i \<and> valid_scopes scopes \<and> acquired \<noteq> 0 \<and>
      l = \<lparr>wl_contract_version = CONTRACT_VERSION, wl_lease_id = i, wl_sprint_id = s,
           wl_lease_epoch = e, wl_task_id = t, wl_worker_id = w, wl_path_scopes = scopes,
           wl_acquired_at_unix_ms = acquired\<rparr>)"
proof -
  have "validate_lease_id_shape i = Inr ()" if "derive_lease_id sha s t w e = Inr i" for i
    using that assms
    by (auto simp: derive_lease_id_iff intro!: lease_id_shape_of_digest digest_sha256_canonical)
  then show ?thesis
    by (auto simp: worker_lease_new_def validate_worker_lease_def Let_def bind_ok_Inr
        each_unique_ok valid_scopes_def derive_lease_id_iff)
qed

lemma worker_lease_new_valid:
  "worker_lease_new sha s e t w scopes acquired = Inr l \<Longrightarrow> validate_worker_lease sha l = Inr ()"
  by (auto simp: worker_lease_new_def Let_def bind_ok_Inr)

lemma worker_lease_new_fields:
  assumes "worker_lease_new sha s e t w scopes acquired = Inr l"
  shows "wl_sprint_id l = s" "wl_lease_epoch l = e" "wl_task_id l = t" "wl_worker_id l = w"
    "wl_path_scopes l = scopes" "wl_acquired_at_unix_ms l = acquired"
  using assms by (auto simp: worker_lease_new_def Let_def bind_ok_Inr)

end
