(* ===== verification/Scopes.thy ===== *)
theory Scopes
  imports Lease "HOL-Library.Sublist"
begin

text \<open>
  \<open>path_scopes_conflict\<close> of \<open>scheduler.rs\<close>: which path scopes exclude each other. Components
  are compared by ASCII case folding; anything that is not a list of ASCII names conflicts with
  everything.
\<close>

definition ascii_name :: "component \<Rightarrow> string option" where
  "ascii_name c =
     (case c of Normal s \<Rightarrow> (if utf8_valid s \<and> is_ascii s then Some s else None) | _ \<Rightarrow> None)"

text \<open>\<open>iter().map(f).collect::<Option<Vec<_>>>()\<close>.\<close>

fun collect_options :: "'a option list \<Rightarrow> 'a list option" where
  "collect_options [] = Some []"
| "collect_options (None # xs) = None"
| "collect_options (Some x # xs) = map_option (Cons x) (collect_options xs)"

definition normalized_utf8_components :: "path \<Rightarrow> string list option" where
  "normalized_utf8_components p =
     (case collect_options (map ascii_name p) of
        None \<Rightarrow> None
      | Some components \<Rightarrow> if components \<noteq> [] then Some components else None)"

definition relative_paths_conflict :: "path \<Rightarrow> path \<Rightarrow> bool" where
  "relative_paths_conflict left right =
     (case normalized_utf8_components left of
        None \<Rightarrow> True
      | Some lc \<Rightarrow>
          (case normalized_utf8_components right of
             None \<Rightarrow> True
           | Some rc \<Rightarrow>
               let shared_length = min (length lc) (length rc) in
               list_all (\<lambda>(a, b). eq_ignore_ascii_case a b)
                 (zip (take shared_length lc) (take shared_length rc))))"

definition path_scopes_conflict :: "path_scope \<Rightarrow> path_scope \<Rightarrow> bool" where
  "path_scopes_conflict left right =
     (case (left, right) of
        (RelativeScope p, RelativeScope q) \<Rightarrow> relative_paths_conflict p q
      | _ \<Rightarrow> True)"

definition scope_sets_conflict :: "path_scope list \<Rightarrow> path_scope list \<Rightarrow> bool" where
  "scope_sets_conflict left right = list_ex (\<lambda>l. list_ex (path_scopes_conflict l) right) left"

section \<open>What a conflict means\<close>

lemma list_all_eq_ignore_case:
  "length xs = length ys \<Longrightarrow> list_all (\<lambda>(a, b). eq_ignore_ascii_case a b) (zip xs ys) \<longleftrightarrow>
     map to_ascii_lowercase xs = map to_ascii_lowercase ys"
  by (induction xs ys rule: list_induct2) (auto simp: eq_ignore_ascii_case_def)

lemma prefix_or_prefix_iff:
  "prefix xs ys \<or> prefix ys xs \<longleftrightarrow>
     take (min (length xs) (length ys)) xs = take (min (length xs) (length ys)) ys"
proof (cases "length xs \<le> length ys")
  case True
  then have "prefix ys xs \<longleftrightarrow> xs = ys \<and> prefix xs ys"
    by (metis le_antisym length_take min.absorb1 prefix_def prefix_length_le prefix_order.eq_iff
        prefix_same_cases append_eq_conv_conj)
  with True show ?thesis
    by (auto simp: min_def prefix_def) (metis append_take_drop_id append_eq_conv_conj)+
next
  case False
  then have "\<not> prefix xs ys" using prefix_length_le by blast
  with False show ?thesis
    by (auto simp: min_def prefix_def) (metis append_take_drop_id append_eq_conv_conj)+
qed

definition folded :: "string list \<Rightarrow> string list" where
  "folded = map to_ascii_lowercase"

lemma relative_paths_conflict_folded:
  assumes "normalized_utf8_components p = Some ps" "normalized_utf8_components q = Some qs"
  shows "relative_paths_conflict p q \<longleftrightarrow>
    prefix (folded ps) (folded qs) \<or> prefix (folded qs) (folded ps)"
  using assms
  by (simp add: relative_paths_conflict_def Let_def folded_def prefix_or_prefix_iff
      list_all_eq_ignore_case take_map)

lemma relative_paths_conflict_sym: "relative_paths_conflict p q = relative_paths_conflict q p"
  by (cases "normalized_utf8_components p"; cases "normalized_utf8_components q")
    (auto simp: relative_paths_conflict_folded, auto simp: relative_paths_conflict_def)

lemma relative_paths_conflict_refl: "relative_paths_conflict p p"
  by (cases "normalized_utf8_components p")
    (auto simp: relative_paths_conflict_folded, auto simp: relative_paths_conflict_def)

lemma path_scopes_conflict_sym: "path_scopes_conflict a b = path_scopes_conflict b a"
  by (cases a; cases b) (simp_all add: path_scopes_conflict_def relative_paths_conflict_sym)

lemma path_scopes_conflict_refl: "path_scopes_conflict a a"
  by (cases a) (simp_all add: path_scopes_conflict_def relative_paths_conflict_refl)

lemma scope_sets_conflict_iff:
  "scope_sets_conflict xs ys \<longleftrightarrow> (\<exists>x\<in>set xs. \<exists>y\<in>set ys. path_scopes_conflict x y)"
  by (simp add: scope_sets_conflict_def list_ex_iff)

lemma scope_sets_conflict_sym: "scope_sets_conflict xs ys = scope_sets_conflict ys xs"
  unfolding scope_sets_conflict_iff using path_scopes_conflict_sym by blast

text \<open>The paths a scope covers: itself and everything below, up to ASCII case.\<close>

definition covers :: "path_scope \<Rightarrow> string list \<Rightarrow> bool" where
  "covers s names \<longleftrightarrow>
     (case s of
        WorkspaceScope \<Rightarrow> True
      | RelativeScope p \<Rightarrow>
          (case normalized_utf8_components p of
             None \<Rightarrow> True
           | Some ps \<Rightarrow> prefix (folded ps) (folded names)))"

lemma covers_shared_conflict:
  assumes "covers a names" "covers b names"
  shows "path_scopes_conflict a b"
proof (cases a; cases b)
  fix p q assume ab: "a = RelativeScope p" "b = RelativeScope q"
  show ?thesis
  proof (cases "normalized_utf8_components p"; cases "normalized_utf8_components q")
    fix ps qs
    assume n: "normalized_utf8_components p = Some ps" "normalized_utf8_components q = Some qs"
    with assms ab have "prefix (folded ps) (folded names)" "prefix (folded qs) (folded names)"
      by (auto simp: covers_def)
    then have "prefix (folded ps) (folded qs) \<or> prefix (folded qs) (folded ps)"
      by (metis prefix_same_cases)
    with n ab show ?thesis by (simp add: path_scopes_conflict_def relative_paths_conflict_folded)
  qed (use ab in \<open>simp_all add: path_scopes_conflict_def relative_paths_conflict_def
      split: option.splits\<close>)
qed (simp_all add: path_scopes_conflict_def)

text \<open>
  C37. Two path scopes conflict exactly when some path lies in both: a workspace scope, or a
  path that is not a list of ASCII names, covers everything, and two paths overlap when one is
  the other or an ancestor of it, ignoring ASCII case. The componentwise comparison of the
  shared prefix in the code decides this.
\<close>

theorem scopes_conflict_iff_overlap:
  "path_scopes_conflict a b \<longleftrightarrow> (\<exists>names. covers a names \<and> covers b names)"
proof
  assume conflict: "path_scopes_conflict a b"
  show "\<exists>names. covers a names \<and> covers b names"
  proof (cases a; cases b)
    fix p q assume ab: "a = RelativeScope p" "b = RelativeScope q"
    show ?thesis
    proof (cases "normalized_utf8_components p"; cases "normalized_utf8_components q")
      fix ps qs
      assume n: "normalized_utf8_components p = Some ps" "normalized_utf8_components q = Some qs"
      with conflict ab have "prefix (folded ps) (folded qs) \<or> prefix (folded qs) (folded ps)"
        by (simp add: path_scopes_conflict_def relative_paths_conflict_folded)
      then show ?thesis
        using n ab by (auto simp: covers_def)
    qed (use ab in \<open>auto simp: covers_def\<close>)
  next
    fix p assume "a = WorkspaceScope" "b = RelativeScope p"
    then show ?thesis by (cases "normalized_utf8_components p") (auto simp: covers_def)
  next
    fix p assume "b = WorkspaceScope" "a = RelativeScope p"
    then show ?thesis by (cases "normalized_utf8_components p") (auto simp: covers_def)
  qed (simp_all add: covers_def)
next
  assume "\<exists>names. covers a names \<and> covers b names"
  then show "path_scopes_conflict a b" using covers_shared_conflict by blast
qed

end
