(* ===== verification/Lifecycle.thy ===== *)
theory Lifecycle
  imports Contracts
begin

text \<open>
  \<open>state.rs\<close>: the task, worker and sprint transition tables, and the branch-typed completion
  step of a sprint. A rejected transition is the value \<open>Inl e\<close>. The three tables share one
  contract, the locale \<open>lifecycle\<close>: a step goes to the requested state, a terminal state has
  no step, and the abnormal terminal states can be entered from every other state. The table
  of tasks moreover never goes back, the locale \<open>ranked_lifecycle\<close>.
\<close>

section \<open>States and transition tables\<close>

datatype task_state =
    T_Planned | T_Ready | T_Leased | T_Running | T_Verifying | T_Candidate
  | T_Integrated | T_Blocked | T_Failed | T_Canceled | T_Unknown

datatype worker_state =
    W_Idle | W_Assigned | W_Running | W_Verifying | W_Stopping
  | W_Stopped | W_Failed | W_Canceled | W_Unknown

datatype sprint_state =
    S_Draft | S_Planning | S_Running | S_AwaitingAcceptance | S_FinalVerification | S_Applying
  | S_Completed | S_Blocked | S_Failed | S_Canceled | S_Unknown

datatype state_transition_error =
    InvalidTask task_state task_state
  | InvalidWorker worker_state worker_state
  | InvalidSprint sprint_state sprint_state
  | CompletionEvidenceRequired
  | CompletionIncomplete

definition task_is_terminal :: "task_state \<Rightarrow> bool" where
  "task_is_terminal s \<longleftrightarrow> s \<in> {T_Integrated, T_Blocked, T_Failed, T_Canceled, T_Unknown}"

definition task_is_success :: "task_state \<Rightarrow> bool" where
  "task_is_success s \<longleftrightarrow> s = T_Integrated"

definition task_transition :: "task_state \<Rightarrow> task_state \<Rightarrow> state_transition_error + task_state" where
  "task_transition s t =
     (let common_terminal = t \<in> {T_Blocked, T_Failed, T_Canceled, T_Unknown} \<and> \<not> task_is_terminal s;
          normal = (s, t) \<in> {(T_Planned, T_Ready), (T_Ready, T_Leased), (T_Leased, T_Running),
            (T_Running, T_Verifying), (T_Verifying, T_Candidate), (T_Candidate, T_Integrated)}
      in if common_terminal \<or> normal then Inr t else Inl (InvalidTask s t))"

definition worker_is_terminal :: "worker_state \<Rightarrow> bool" where
  "worker_is_terminal s \<longleftrightarrow> s \<in> {W_Stopped, W_Failed, W_Canceled, W_Unknown}"

definition worker_transition ::
  "worker_state \<Rightarrow> worker_state \<Rightarrow> state_transition_error + worker_state" where
  "worker_transition s t =
     (let failed = t \<in> {W_Failed, W_Canceled, W_Unknown} \<and> \<not> worker_is_terminal s;
          normal = (s = W_Idle \<and> t \<in> {W_Assigned, W_Stopping}
            \<or> s \<in> {W_Assigned, W_Verifying} \<and> t \<in> {W_Running, W_Idle}
            \<or> s = W_Running \<and> t \<in> {W_Verifying, W_Stopping}
            \<or> s = W_Verifying \<and> t = W_Stopping
            \<or> s = W_Stopping \<and> t = W_Stopped)
      in if failed \<or> normal then Inr t else Inl (InvalidWorker s t))"

definition sprint_is_terminal :: "sprint_state \<Rightarrow> bool" where
  "sprint_is_terminal s \<longleftrightarrow> s \<in> {S_Completed, S_Blocked, S_Failed, S_Canceled, S_Unknown}"

definition sprint_is_success :: "sprint_state \<Rightarrow> bool" where
  "sprint_is_success s \<longleftrightarrow> s = S_Completed"

definition sprint_transition ::
  "sprint_state \<Rightarrow> sprint_state \<Rightarrow> state_transition_error + sprint_state" where
  "sprint_transition s t =
     (if t = S_Completed then Inl CompletionEvidenceRequired
      else
        let alternative_terminal =
              t \<in> {S_Blocked, S_Failed, S_Canceled, S_Unknown} \<and> \<not> sprint_is_terminal s;
            normal = (s = S_Draft \<and> t = S_Planning
              \<or> s \<in> {S_Planning, S_AwaitingAcceptance, S_FinalVerification} \<and> t = S_Running
              \<or> s \<in> {S_Planning, S_Running, S_FinalVerification} \<and> t = S_AwaitingAcceptance
              \<or> s \<in> {S_Running, S_AwaitingAcceptance} \<and> t = S_FinalVerification
              \<or> s = S_FinalVerification \<and> t = S_Applying)
        in if alternative_terminal \<or> normal then Inr t else Inl (InvalidSprint s t))"

section \<open>Computed completion\<close>

datatype completion_requirement =
    ContractsValid | AllCriteriaSatisfiedByTypedBacking | AllRequiredTasksIntegrated
  | FinalSnapshotVerified | FinalSnapshotApplied | LiveHashesMatch
  | VerifiedNoOpLiveManifestCaptureAuthorized | NoUnresolvedConflicts | NoUnknownSideEffects
  | NoSurvivingProcesses | NoActiveWorkerLeases | CompletionReceiptConsistent
  | CompletionReceiptPersisted | RollbackAvailable | FinalReportAvailable

datatype completion_application_assessment = Applied | VerifiedNoOp

record completion_assessment =
  ca_application :: "completion_application_assessment option"
  ca_unmet :: "completion_requirement list"

definition is_complete :: "completion_assessment \<Rightarrow> bool" where
  "is_complete a \<longleftrightarrow> ca_application a \<noteq> None \<and> ca_unmet a = []"

definition sprint_complete ::
  "sprint_state \<Rightarrow> completion_assessment \<Rightarrow> state_transition_error + sprint_state" where
  "sprint_complete s a =
     (if \<not> (s = S_Applying \<and> ca_application a = Some Applied \<or>
            s = S_FinalVerification \<and> ca_application a = Some VerifiedNoOp)
      then Inl (InvalidSprint s S_Completed)
      else if \<not> is_complete a then Inl CompletionIncomplete
      else Inr S_Completed)"

lemmas task_table_defs = task_transition_def task_is_terminal_def Let_def
lemmas worker_table_defs = worker_transition_def worker_is_terminal_def Let_def
lemmas sprint_table_defs = sprint_transition_def sprint_is_terminal_def Let_def

section \<open>The shared contract\<close>

text \<open>A run asks for a list of states one after the other, as \<open>and_then\<close> chains do.\<close>

fun run_steps :: "('s \<Rightarrow> 's \<Rightarrow> 'e + 's) \<Rightarrow> 's \<Rightarrow> 's list \<Rightarrow> 'e + 's" where
  "run_steps step s [] = Inr s"
| "run_steps step s (t # ts) = bind_ok (step s t) (\<lambda>u. run_steps step u ts)"

locale lifecycle =
  fixes terminal :: "'s \<Rightarrow> bool" and step :: "'s \<Rightarrow> 's \<Rightarrow> 'e + 's" and aborts :: "'s set"
  assumes step_target: "step s t = Inr u \<Longrightarrow> u = t"
    and terminal_stuck: "terminal s \<Longrightarrow> step s t \<noteq> Inr u"
    and abort_enabled: "\<not> terminal s \<Longrightarrow> t \<in> aborts \<Longrightarrow> step s t = Inr t"
    and abort_terminal: "t \<in> aborts \<Longrightarrow> terminal t"
begin

lemma run_last: "run_steps step s ts = Inr u \<Longrightarrow> u = last (s # ts)"
  by (induction ts arbitrary: s) (auto simp: bind_ok_Inr dest: step_target)

lemma run_from_terminal:
  assumes "terminal s" "run_steps step s ts = Inr u"
  shows "ts = []"
  using assms by (cases ts) (auto simp: bind_ok_Inr dest: terminal_stuck)

lemma run_terminal_last:
  assumes "run_steps step s (ts @ t # us) = Inr u" "terminal t"
  shows "us = []"
  using assms
  by (induction ts arbitrary: s)
    (auto simp: bind_ok_Inr dest!: step_target dest: run_from_terminal)

lemma run_Cons:
  "run_steps step s (t # ts) = Inr u \<longleftrightarrow> step s t = Inr t \<and> run_steps step t ts = Inr u"
  by (auto simp: bind_ok_Inr dest: step_target)

lemma live_iff_abortable: "t \<in> aborts \<Longrightarrow> \<not> terminal s \<longleftrightarrow> step s t = Inr t"
  using abort_enabled terminal_stuck by blast

end

locale ranked_lifecycle = lifecycle +
  fixes rank :: "'s \<Rightarrow> nat" and top :: nat
  assumes rank_increases: "step s t = Inr u \<Longrightarrow> rank s < rank t"
    and rank_bound: "rank s \<le> top"
begin

lemma run_ranks: "run_steps step s ts = Inr u \<Longrightarrow> sorted_wrt (<) (map rank (s # ts))"
proof (induction ts arbitrary: s)
  case Nil
  then show ?case by simp
next
  case (Cons t ts)
  then have step: "step s t = Inr t" and run: "run_steps step t ts = Inr u"
    using run_Cons [of s t ts u] by blast+
  from Cons.IH [OF run] rank_increases [OF step] show ?case by fastforce
qed

lemma run_distinct: "run_steps step s ts = Inr u \<Longrightarrow> distinct (s # ts)"
  using run_ranks [of s ts u] strict_sorted_iff [of "map rank (s # ts)"]
    distinct_map [of rank "s # ts"] by blast

lemma sorted_room:
  "sorted_wrt (<) (map rank (s # ts)) \<Longrightarrow> rank s + length ts \<le> top"
proof (induction ts arbitrary: s)
  case Nil
  then show ?case using rank_bound by simp
next
  case (Cons t ts)
  then have "rank s < rank t" "rank t + length ts \<le> top" by auto
  then show ?case by simp
qed

lemma run_length: "run_steps step s ts = Inr u \<Longrightarrow> rank s + length ts \<le> top"
  using run_ranks sorted_room by blast

end

section \<open>The three tables meet it\<close>

fun task_rank :: "task_state \<Rightarrow> nat" where
  "task_rank T_Planned = 0"
| "task_rank T_Ready = 1"
| "task_rank T_Leased = 2"
| "task_rank T_Running = 3"
| "task_rank T_Verifying = 4"
| "task_rank T_Candidate = 5"
| "task_rank _ = 6"

interpretation task_lc: ranked_lifecycle task_is_terminal task_transition
  "{T_Blocked, T_Failed, T_Canceled, T_Unknown}" task_rank 6
proof unfold_locales
  fix s t u
  show "task_transition s t = Inr u \<Longrightarrow> u = t"
    by (auto simp: task_table_defs split: if_splits)
  show "task_is_terminal s \<Longrightarrow> task_transition s t \<noteq> Inr u"
    by (auto simp: task_table_defs)
  show "\<not> task_is_terminal s \<Longrightarrow> t \<in> {T_Blocked, T_Failed, T_Canceled, T_Unknown} \<Longrightarrow>
      task_transition s t = Inr t"
    by (simp add: task_transition_def)
  show "t \<in> {T_Blocked, T_Failed, T_Canceled, T_Unknown} \<Longrightarrow> task_is_terminal t"
    by (auto simp: task_is_terminal_def)
  show "task_transition s t = Inr u \<Longrightarrow> task_rank s < task_rank t"
    by (cases s) (auto simp: task_table_defs split: if_splits)
  show "task_rank s \<le> 6"
    by (cases s) auto
qed

interpretation worker_lc: lifecycle worker_is_terminal worker_transition
  "{W_Failed, W_Canceled, W_Unknown}"
  by unfold_locales (auto simp: worker_table_defs split: if_splits)

interpretation sprint_lc: lifecycle sprint_is_terminal sprint_transition
  "{S_Blocked, S_Failed, S_Canceled, S_Unknown}"
  by unfold_locales (auto simp: sprint_table_defs split: if_splits)

section \<open>Runs of the three machines\<close>

text \<open>
  C39. A task only moves forward: the states of any accepted sequence of transitions are
  pairwise distinct, so a task never re-enters a state, and no sequence is longer than six.
\<close>

theorem task_runs_move_forward:
  assumes "run_steps task_transition s ts = Inr u"
  shows "distinct (s # ts) \<and> task_rank s + length ts \<le> 6 \<and> u = last (s # ts)"
  using task_lc.run_distinct [OF assms] task_lc.run_length [OF assms] task_lc.run_last [OF assms]
  by blast

theorem task_runs_move_forward_witness:
  "distinct [T_Planned, T_Ready, T_Leased] \<and> task_rank T_Planned + length [T_Ready, T_Leased] \<le> 6
   \<and> T_Leased = last [T_Planned, T_Ready, T_Leased]"
proof -
  have "run_steps task_transition T_Planned [T_Ready, T_Leased] = Inr T_Leased"
    by code_simp
  then show ?thesis by (rule task_runs_move_forward)
qed

lemma task_step_to_integrated: "task_transition s T_Integrated = Inr u \<longleftrightarrow> s = T_Candidate \<and> u = T_Integrated"
  by (cases s) (auto simp: task_table_defs)

definition task_pipeline :: "task_state list" where
  "task_pipeline = [T_Planned, T_Ready, T_Leased, T_Running, T_Verifying, T_Candidate, T_Integrated]"

text \<open>A run that is not aborted follows the pipeline from where it stands.\<close>

lemma run_to_integrated:
  "run_steps task_transition s ts = Inr T_Integrated \<Longrightarrow>
   \<exists>done. task_pipeline = done @ s # ts"
proof (induction ts arbitrary: s)
  case Nil
  then show ?case by (auto simp: task_pipeline_def)
next
  case (Cons t ts)
  then have step: "task_transition s t = Inr t" and run: "run_steps task_transition t ts = Inr T_Integrated"
    using task_lc.run_Cons [of s t ts T_Integrated] by blast+
  from Cons.IH [OF run] obtain pre where pre: "task_pipeline = pre @ t # ts" by blast
  have live: "t \<notin> {T_Blocked, T_Failed, T_Canceled, T_Unknown}"
  proof
    assume abort: "t \<in> {T_Blocked, T_Failed, T_Canceled, T_Unknown}"
    then have "ts = []" using task_lc.run_from_terminal [OF _ run] task_lc.abort_terminal by blast
    with run abort show False by simp
  qed
  have "pre \<noteq> [] \<and> last pre = s"
    using pre step live
    by (auto simp: task_pipeline_def task_table_defs Cons_eq_append_conv split: if_splits)
  then have "pre = butlast pre @ [s]" by (metis append_butlast_last_id)
  with pre have "task_pipeline = butlast pre @ s # t # ts" by (metis append.assoc append_Cons append_Nil)
  then show ?case by blast
qed

text \<open>
  Integration is only reachable through the whole pipeline: a planned task that ends
  \<open>Integrated\<close> went through \<open>Ready\<close>, \<open>Leased\<close>, \<open>Running\<close>, \<open>Verifying\<close> and \<open>Candidate\<close>, in
  this order and nothing else.
\<close>

theorem integration_needs_the_pipeline:
  "run_steps task_transition T_Planned ts = Inr T_Integrated \<longleftrightarrow> T_Planned # ts = task_pipeline"
proof
  assume "run_steps task_transition T_Planned ts = Inr T_Integrated"
  then obtain pre where "task_pipeline = pre @ T_Planned # ts"
    using run_to_integrated by blast
  then show "T_Planned # ts = task_pipeline"
    by (auto simp: task_pipeline_def Cons_eq_append_conv)
next
  assume "T_Planned # ts = task_pipeline"
  then have "ts = [T_Ready, T_Leased, T_Running, T_Verifying, T_Candidate, T_Integrated]"
    by (simp add: task_pipeline_def)
  then show "run_steps task_transition T_Planned ts = Inr T_Integrated"
    by (simp add: task_table_defs)
qed

section \<open>Reachable sprint states\<close>

text \<open>
  A sprint moves by ordinary transitions and by the completion step. \<open>sprint_trace vs s\<close>:
  starting from \<open>Draft\<close>, the sprint went through the states \<open>vs\<close> and is now in \<open>s\<close>.
\<close>

inductive sprint_step :: "sprint_state \<Rightarrow> sprint_state \<Rightarrow> bool" where
  transition: "sprint_transition s t = Inr u \<Longrightarrow> sprint_step s u"
| complete: "sprint_complete s a = Inr u \<Longrightarrow> sprint_step s u"

inductive_cases sprint_step_to_completed: "sprint_step s S_Completed"
inductive_simps sprint_step_iff: "sprint_step s u"

inductive sprint_trace :: "sprint_state list \<Rightarrow> sprint_state \<Rightarrow> bool" where
  start: "sprint_trace [] S_Draft"
| step: "sprint_trace vs s \<Longrightarrow> sprint_step s t \<Longrightarrow> sprint_trace (vs @ [s]) t"

lemma sprint_complete_ok [ok_iff]:
  "sprint_complete s a = Inr u \<longleftrightarrow> u = S_Completed \<and> ca_unmet a = [] \<and>
     (s = S_Applying \<and> ca_application a = Some Applied \<or>
      s = S_FinalVerification \<and> ca_application a = Some VerifiedNoOp)"
  by (auto simp: sprint_complete_def is_complete_def)

lemma sprint_transition_not_completed: "sprint_transition s t = Inr u \<Longrightarrow> u \<noteq> S_Completed"
  by (auto simp: sprint_table_defs split: if_splits)

lemma sprint_step_cases:
  assumes "sprint_step s t"
  shows "t \<noteq> S_Draft \<and> \<not> sprint_is_terminal s \<and>
    (t = S_Applying \<longrightarrow> s = S_FinalVerification) \<and>
    (t = S_Completed \<longrightarrow> s \<in> {S_Applying, S_FinalVerification}) \<and>
    (t = S_Planning \<longrightarrow> s = S_Draft) \<and>
    (s = S_Draft \<longrightarrow> t = S_Planning \<or> sprint_is_terminal t)"
  using assms
  by (auto simp: sprint_step_iff ok_iff sprint_table_defs split: if_splits)

definition sprint_trace_inv :: "sprint_state list \<Rightarrow> sprint_state \<Rightarrow> bool" where
  "sprint_trace_inv vs s \<longleftrightarrow>
     (\<forall>v\<in>set vs. \<not> sprint_is_terminal v) \<and>
     (s \<noteq> S_Draft \<longrightarrow> (s = S_Planning \<or> S_Planning \<in> set vs \<or> vs = [S_Draft] \<and> sprint_is_terminal s)) \<and>
     (s = S_Draft \<longrightarrow> vs = []) \<and>
     (s = S_Applying \<longrightarrow> S_FinalVerification \<in> set vs) \<and>
     (s = S_Completed \<longrightarrow> S_FinalVerification \<in> set vs \<and>
        vs \<noteq> [] \<and> last vs \<in> {S_Applying, S_FinalVerification})"

lemma sprint_trace_invariant: "sprint_trace vs s \<Longrightarrow> sprint_trace_inv vs s"
proof (induction rule: sprint_trace.induct)
  case start
  show ?case by (simp add: sprint_trace_inv_def)
next
  case (step vs s t)
  have completed_terminal: "sprint_is_terminal S_Completed" by (simp add: sprint_is_terminal_def)
  from step.IH sprint_step_cases [OF step.hyps(2)] completed_terminal
  show ?case unfolding sprint_trace_inv_def by auto
qed

text \<open>
  No sprint completes without having been verified: on every way from \<open>Draft\<close> to
  \<open>Completed\<close> the sprint was planned and went through \<open>FinalVerification\<close>, no earlier state
  was terminal, and the last step is the completion step of an assessment with no unmet
  requirement, from \<open>Applying\<close> or (for a no-op) from \<open>FinalVerification\<close> itself.
\<close>

theorem completed_sprint_was_verified:
  assumes "sprint_trace vs S_Completed"
  shows "S_Planning \<in> set vs \<and> S_FinalVerification \<in> set vs \<and>
    (\<forall>v\<in>set vs. \<not> sprint_is_terminal v) \<and>
    (\<exists>a. sprint_complete (last vs) a = Inr S_Completed \<and> is_complete a)"
proof -
  from sprint_trace_invariant [OF assms] have inv: "sprint_trace_inv vs S_Completed" .
  then have "S_Planning \<in> set vs"
    by (auto simp: sprint_trace_inv_def)
  moreover have "\<exists>a. sprint_complete (last vs) a = Inr S_Completed \<and> is_complete a"
  proof (cases "last vs = S_Applying")
    case True
    then show ?thesis
      by (intro exI [of _ "\<lparr>ca_application = Some Applied, ca_unmet = []\<rparr>"])
        (simp add: sprint_complete_def is_complete_def)
  next
    case False
    with inv have "last vs = S_FinalVerification" by (auto simp: sprint_trace_inv_def)
    then show ?thesis
      by (intro exI [of _ "\<lparr>ca_application = Some VerifiedNoOp, ca_unmet = []\<rparr>"])
        (simp add: sprint_complete_def is_complete_def)
  qed
  ultimately show ?thesis using inv by (auto simp: sprint_trace_inv_def)
qed

lemma sprint_trace_example:
  "sprint_trace [S_Draft, S_Planning, S_Running, S_FinalVerification, S_Applying] S_Completed"
proof -
  let ?a = "\<lparr>ca_application = Some Applied, ca_unmet = []\<rparr>"
  have steps: "sprint_transition S_Draft S_Planning = Inr S_Planning"
    "sprint_transition S_Planning S_Running = Inr S_Running"
    "sprint_transition S_Running S_FinalVerification = Inr S_FinalVerification"
    "sprint_transition S_FinalVerification S_Applying = Inr S_Applying"
    "sprint_complete S_Applying ?a = Inr S_Completed"
    by (simp_all add: sprint_table_defs sprint_complete_def is_complete_def)
  note t = sprint_step.transition and s = sprint_trace.step
  have "sprint_trace ([] @ [S_Draft]) S_Planning"
    by (rule s [OF sprint_trace.start t [OF steps(1)]])
  then have "sprint_trace (([] @ [S_Draft]) @ [S_Planning]) S_Running"
    by (rule s [OF _ t [OF steps(2)]])
  then have "sprint_trace ((([] @ [S_Draft]) @ [S_Planning]) @ [S_Running]) S_FinalVerification"
    by (rule s [OF _ t [OF steps(3)]])
  then have "sprint_trace (((([] @ [S_Draft]) @ [S_Planning]) @ [S_Running])
      @ [S_FinalVerification]) S_Applying"
    by (rule s [OF _ t [OF steps(4)]])
  then have "sprint_trace ((((([] @ [S_Draft]) @ [S_Planning]) @ [S_Running])
      @ [S_FinalVerification]) @ [S_Applying]) S_Completed"
    by (rule s [OF _ sprint_step.complete [OF steps(5)]])
  then show ?thesis by simp
qed

theorem completed_sprint_was_verified_witness:
  "S_FinalVerification \<in> set [S_Draft, S_Planning, S_Running, S_FinalVerification, S_Applying] \<and>
   (\<exists>a. sprint_complete S_Applying a = Inr S_Completed \<and> is_complete a)"
  using completed_sprint_was_verified [OF sprint_trace_example] by simp

end
