(* ===== verification/Planner.thy ===== *)
theory Planner
  imports Scopes Lifecycle
begin

text \<open>
  What the three planners of \<open>scheduler.rs\<close> share: the error type, the proposal loop, worker
  identifiers and the pool limit. The loop walks the tasks in graph order, skips a task that is
  not eligible or whose scopes are taken, and gives every other task the next worker and the
  next epoch until the capacity is used up. Its guarantees are proved once, in the locale
  \<open>lease_planner\<close>; each planner interprets it with its own eligibility and lease constructor.
\<close>

definition MAX_WORKER_POOL_SIZE :: nat where
  "MAX_WORKER_POOL_SIZE = 3"

datatype scheduler_error = SchedulerError (se_field: string) (se_message: string)

type_synonym scheduler_result = "scheduler_error + unit"

fun from_contract :: "contract_error \<Rightarrow> scheduler_error" where
  "from_contract (ContractError f m) = SchedulerError f m"

record schedule_plan =
  pl_leases :: "worker_lease list"
  pl_next_lease_epoch :: u64

definition validate_worker_identifier :: "string \<Rightarrow> string \<Rightarrow> scheduler_result" where
  "validate_worker_identifier field w =
     map_err (\<lambda>e. SchedulerError field (ce_message e)) (validate_worker_id w)"

definition conflicts_with_existing ::
  "path_scope list \<Rightarrow> worker_lease list \<Rightarrow> worker_lease list \<Rightarrow> bool" where
  "conflicts_with_existing scopes active proposed =
     list_ex (\<lambda>l. scope_sets_conflict scopes (wl_path_scopes l)) (active @ proposed)"

fun propose ::
  "('t \<Rightarrow> scheduler_error + bool) \<Rightarrow> ('t \<Rightarrow> worker_lease list \<Rightarrow> bool) \<Rightarrow>
   ('t \<Rightarrow> string \<Rightarrow> u64 \<Rightarrow> scheduler_error + worker_lease) \<Rightarrow> scheduler_error \<Rightarrow>
   string list \<Rightarrow> nat \<Rightarrow> worker_lease list \<Rightarrow> u64 \<Rightarrow> 't list \<Rightarrow> scheduler_error + schedule_plan"
where
  "propose eligible blocked mk overflow workers capacity leases epoch [] =
     Inr \<lparr>pl_leases = leases, pl_next_lease_epoch = epoch\<rparr>"
| "propose eligible blocked mk overflow workers capacity leases epoch (t # ts) =
     (if length leases = capacity then Inr \<lparr>pl_leases = leases, pl_next_lease_epoch = epoch\<rparr>
      else bind_ok (eligible t) (\<lambda>ok.
        if \<not> ok \<or> blocked t leases
        then propose eligible blocked mk overflow workers capacity leases epoch ts
        else bind_ok (ok_or (checked_add_u64 epoch 1) overflow) (\<lambda>next_epoch.
          bind_ok (mk t (workers ! length leases) epoch) (\<lambda>lease.
            propose eligible blocked mk overflow workers capacity
              (leases @ [lease]) next_epoch ts))))"

lemma subseq_set_subset: "subseq xs ys \<Longrightarrow> set xs \<subseteq> set ys"
  by (induction rule: list_emb.induct) auto

lemma conflicts_with_existing_iff:
  "conflicts_with_existing scopes active proposed \<longleftrightarrow>
     (\<exists>l\<in>set active \<union> set proposed. scope_sets_conflict scopes (wl_path_scopes l))"
  by (auto simp: conflicts_with_existing_def list_ex_iff)

lemma validate_worker_identifier_ok [ok_iff]:
  "validate_worker_identifier f w = Inr u \<longleftrightarrow> validate_worker_id w = Inr ()"
  by (simp add: validate_worker_identifier_def)

section \<open>The contract of a plan\<close>

text \<open>
  Leases that exclude each other: no scope of one overlaps a scope of another.
\<close>

definition pairwise_disjoint :: "worker_lease list \<Rightarrow> bool" where
  "pairwise_disjoint ls \<longleftrightarrow>
     sorted_wrt (\<lambda>a b. \<not> scope_sets_conflict (wl_path_scopes a) (wl_path_scopes b)) ls"

lemma pairwise_disjoint_append:
  "pairwise_disjoint (xs @ ys) \<longleftrightarrow> pairwise_disjoint xs \<and> pairwise_disjoint ys \<and>
     (\<forall>x\<in>set xs. \<forall>y\<in>set ys. \<not> scope_sets_conflict (wl_path_scopes x) (wl_path_scopes y))"
  by (simp add: pairwise_disjoint_def sorted_wrt_append)

lemma pairwise_disjoint_Nil [simp]: "pairwise_disjoint []"
  by (simp add: pairwise_disjoint_def)

text \<open>What the loop keeps true of the leases proposed so far.\<close>

definition plan_sound ::
  "worker_lease list \<Rightarrow> string list \<Rightarrow> nat \<Rightarrow> u64 \<Rightarrow> worker_lease list \<Rightarrow> u64 \<Rightarrow> bool"
where
  "plan_sound taken workers capacity first leases epoch \<longleftrightarrow>
     length leases \<le> capacity \<and>
     map wl_worker_id leases = take (length leases) workers \<and>
     map (unat \<circ> wl_lease_epoch) leases = [unat first..<unat epoch] \<and>
     unat epoch = unat first + length leases \<and>
     pairwise_disjoint leases \<and>
     (\<forall>l\<in>set leases. \<forall>b\<in>set taken. \<not> scope_sets_conflict (wl_path_scopes l) (wl_path_scopes b))"

text \<open>
  Active leases and a sound plan together: disjoint scopes, no worker twice, nothing against the
  leases of other sprints, and no more than the ceiling.
\<close>

lemma plan_sound_exclusive:
  assumes S: "plan_sound (active @ blockers) (sort available) capacity first leases epoch"
    and active: "pairwise_disjoint active" "distinct (map wl_worker_id active)"
    and workers: "distinct available" "set available \<inter> wl_worker_id ` set active = {}"
    and room: "length active + capacity \<le> ceiling"
  shows "pairwise_disjoint (active @ leases)"
    and "\<forall>l\<in>set leases. \<forall>b\<in>set blockers. \<not> scope_sets_conflict (wl_path_scopes l) (wl_path_scopes b)"
    and "distinct (map wl_worker_id (active @ leases))"
    and "length (active @ leases) \<le> ceiling"
proof -
  show "pairwise_disjoint (active @ leases)"
    using S active(1) scope_sets_conflict_sym
    by (fastforce simp: plan_sound_def pairwise_disjoint_append)
  show "\<forall>l\<in>set leases. \<forall>b\<in>set blockers.
      \<not> scope_sets_conflict (wl_path_scopes l) (wl_path_scopes b)"
    using S by (auto simp: plan_sound_def)
  have new: "map wl_worker_id leases = take (length leases) (sort available)"
    using S by (simp add: plan_sound_def)
  have "set (map wl_worker_id leases) \<subseteq> set available"
    unfolding new using set_take_subset [of _ "sort available"] by simp
  moreover have "distinct (map wl_worker_id leases)"
    unfolding new using workers(1) by (simp add: distinct_take)
  ultimately show "distinct (map wl_worker_id (active @ leases))"
    using active(2) workers(2) by auto
  show "length (active @ leases) \<le> ceiling"
    using S room by (simp add: plan_sound_def)
qed

locale lease_planner =
  fixes eligible :: "'t \<Rightarrow> scheduler_error + bool"
    and blocked :: "'t \<Rightarrow> worker_lease list \<Rightarrow> bool"
    and mk :: "'t \<Rightarrow> string \<Rightarrow> u64 \<Rightarrow> scheduler_error + worker_lease"
    and ident :: "'t \<Rightarrow> string"
    and scopes :: "'t \<Rightarrow> path_scope list"
    and taken :: "worker_lease list"
  assumes mk_lease: "mk t w e = Inr l \<Longrightarrow>
      wl_task_id l = ident t \<and> wl_worker_id l = w \<and> wl_lease_epoch l = e \<and>
      wl_path_scopes l = scopes t"
    and blocked_iff: "blocked t leases \<longleftrightarrow>
      (\<exists>l\<in>set taken \<union> set leases. scope_sets_conflict (scopes t) (wl_path_scopes l))"
begin

lemma sound_Nil: "plan_sound taken workers capacity first [] first"
  by (simp add: plan_sound_def)

lemma sound_step:
  assumes s: "plan_sound taken workers capacity first leases epoch"
    and room: "length leases \<noteq> capacity" "capacity \<le> length workers"
    and free: "\<not> blocked t leases"
    and e: "checked_add_u64 epoch 1 = Some next_epoch"
    and l: "mk t (workers ! length leases) epoch = Inr lease"
  shows "plan_sound taken workers capacity first (leases @ [lease]) next_epoch"
proof -
  have len: "length leases < capacity" "length leases < length workers"
    using s room by (auto simp: plan_sound_def)
  have lease: "wl_worker_id lease = workers ! length leases" "wl_lease_epoch lease = epoch"
    "wl_path_scopes lease = scopes t"
    using mk_lease [OF l] by auto
  have "pairwise_disjoint (leases @ [lease])"
    using s free lease(3) blocked_iff [of t leases] scope_sets_conflict_sym
    by (auto simp: plan_sound_def pairwise_disjoint_append) (auto simp: pairwise_disjoint_def)
  moreover have "\<forall>b\<in>set taken. \<not> scope_sets_conflict (wl_path_scopes lease) (wl_path_scopes b)"
    using free lease(3) blocked_iff [of t leases] by auto
  moreover have "unat next_epoch = Suc (unat epoch)"
    using e by (rule checked_succ_u64_Some)
  ultimately show ?thesis
    using s len lease by (auto simp: plan_sound_def take_Suc_conv_app_nth)
qed

lemma propose_sound:
  assumes "propose eligible blocked mk overflow workers capacity leases epoch ts = Inr plan"
    and "plan_sound taken workers capacity first leases epoch" "capacity \<le> length workers"
  shows "plan_sound taken workers capacity first (pl_leases plan) (pl_next_lease_epoch plan)"
  using assms
proof (induction ts arbitrary: leases epoch)
  case Nil
  then show ?case by auto
next
  case (Cons t ts)
  then show ?case
    by (auto simp: bind_ok_Inr sound_step split: if_splits)
qed

text \<open>The proposals are for eligible tasks, in graph order.\<close>

lemma propose_subseq:
  assumes "propose eligible blocked mk overflow workers capacity leases epoch ts = Inr plan"
  shows "\<exists>picked new. subseq picked ts \<and> pl_leases plan = leases @ new \<and>
    map wl_task_id new = map ident picked \<and> map wl_path_scopes new = map scopes picked \<and>
    (\<forall>t\<in>set picked. eligible t = Inr True) \<and>
    (\<forall>l\<in>set new. \<exists>t\<in>set picked. mk t (wl_worker_id l) (wl_lease_epoch l) = Inr l)"
  using assms
proof (induction ts arbitrary: leases epoch)
  case Nil
  then show ?case by (auto intro!: exI [of _ "[]"])
next
  case (Cons t ts)
  show ?case
  proof (cases "length leases = capacity")
    case True
    with Cons.prems show ?thesis by (auto intro!: exI [of _ "[]"])
  next
    case False
    show ?thesis
    proof (cases "eligible t = Inr True \<and> \<not> blocked t leases")
      case True
      with Cons.prems False obtain next_epoch lease where
        l: "mk t (workers ! length leases) epoch = Inr lease"
        and rest: "propose eligible blocked mk overflow workers capacity
          (leases @ [lease]) next_epoch ts = Inr plan"
        by (auto simp: bind_ok_Inr)
      note L = mk_lease [OF l]
      from Cons.IH [OF rest] obtain picked new where
        "subseq picked ts" "pl_leases plan = (leases @ [lease]) @ new"
        "map wl_task_id new = map ident picked" "map wl_path_scopes new = map scopes picked"
        "\<forall>t\<in>set picked. eligible t = Inr True"
        "\<forall>l\<in>set new. \<exists>t\<in>set picked. mk t (wl_worker_id l) (wl_lease_epoch l) = Inr l"
        by blast
      then show ?thesis
        using True L l by (intro exI [of _ "t # picked"] exI [of _ "lease # new"]) auto
    next
      case skip: False
      with Cons.prems False have "propose eligible blocked mk overflow workers capacity
          leases epoch ts = Inr plan"
        by (auto simp: bind_ok_Inr split: if_splits)
      from Cons.IH [OF this] show ?thesis by blast
    qed
  qed
qed

lemma propose_extends:
  assumes "propose eligible blocked mk overflow workers capacity leases epoch ts = Inr plan"
  shows "set leases \<subseteq> set (pl_leases plan)"
  using propose_subseq [OF assms] by auto

text \<open>A task passed over while there was room is not eligible, or its scopes are taken.\<close>

lemma propose_maximal:
  assumes "propose eligible blocked mk overflow workers capacity leases epoch ts = Inr plan"
    and "length (pl_leases plan) < capacity" "t \<in> set ts" "eligible t = Inr True"
    and "ident t \<notin> wl_task_id ` set (pl_leases plan)"
  shows "blocked t (pl_leases plan)"
  using assms
proof (induction ts arbitrary: leases epoch)
  case Nil
  then show ?case by simp
next
  case (Cons u ts)
  have "length leases \<noteq> capacity"
    using Cons.prems(1,2) by auto
  show ?case
  proof (cases "eligible u = Inr True \<and> \<not> blocked u leases")
    case True
    with Cons.prems(1) \<open>length leases \<noteq> capacity\<close> obtain next_epoch lease where
      l: "mk u (workers ! length leases) epoch = Inr lease"
      and rest: "propose eligible blocked mk overflow workers capacity
        (leases @ [lease]) next_epoch ts = Inr plan"
      by (auto simp: bind_ok_Inr)
    have "lease \<in> set (pl_leases plan)" using propose_extends [OF rest] by auto
    then have "u \<noteq> t" using Cons.prems(5) mk_lease [OF l] by (auto simp: image_iff)
    with Cons.prems(3) have "t \<in> set ts" by simp
    from Cons.IH [OF rest Cons.prems(2) this Cons.prems(4,5)] show ?thesis .
  next
    case False
    with Cons.prems(1) \<open>length leases \<noteq> capacity\<close>
    have rest: "propose eligible blocked mk overflow workers capacity leases epoch ts = Inr plan"
      by (auto simp: bind_ok_Inr split: if_splits)
    show ?thesis
    proof (cases "t = u")
      case True
      with False Cons.prems(4) have "blocked t leases" by blast
      then show ?thesis using propose_extends [OF rest] blocked_iff by blast
    next
      case False
      with Cons.prems(3) have "t \<in> set ts" by simp
      from Cons.IH [OF rest Cons.prems(2) this Cons.prems(4,5)] show ?thesis .
    qed
  qed
qed

end

end
