(* ===== verification/Scheduler.thy ===== *)
theory Scheduler
  imports Planner "HOL-Library.Multiset"
begin

text \<open>
  \<open>plan_worker_leases\<close> of \<open>scheduler.rs\<close>: the planner over an explicit map of task states and
  an explicit set of active leases. The \<open>BTreeMap\<close> of task states is the list of its entries in
  key order.
\<close>

record scheduler_input =
  si_sprint :: sprint_spec
  si_graph :: task_graph
  si_task_states :: "(string \<times> task_state) list"
  si_active_leases :: "worker_lease list"
  si_workspace_blocking_leases :: "worker_lease list"
  si_available_worker_ids :: "string list"
  si_next_lease_epoch :: u64
  si_acquired_at_unix_ms :: u64

fun show_task_state :: "task_state \<Rightarrow> string" where
  "show_task_state T_Planned = ''Planned''"
| "show_task_state T_Ready = ''Ready''"
| "show_task_state T_Leased = ''Leased''"
| "show_task_state T_Running = ''Running''"
| "show_task_state T_Verifying = ''Verifying''"
| "show_task_state T_Candidate = ''Candidate''"
| "show_task_state T_Integrated = ''Integrated''"
| "show_task_state T_Blocked = ''Blocked''"
| "show_task_state T_Failed = ''Failed''"
| "show_task_state T_Canceled = ''Canceled''"
| "show_task_state T_Unknown = ''Unknown''"

definition execution_bearing :: "task_state \<Rightarrow> bool" where
  "execution_bearing s \<longleftrightarrow>
     s \<in> {T_Ready, T_Leased, T_Running, T_Verifying, T_Candidate, T_Integrated}"

text \<open>\<open>task_states[id]\<close>; every use comes after the check that the id has a state.\<close>

definition state_of :: "(string \<times> task_state) list \<Rightarrow> string \<Rightarrow> task_state" where
  "state_of states task_id = the (map_of states task_id)"

definition validate_scalar_inputs :: "scheduler_input \<Rightarrow> scheduler_result" where
  "validate_scalar_inputs i = seq
     [ensure (si_next_lease_epoch i \<noteq> 0)
        (SchedulerError ''scheduler.next_lease_epoch'' ''must be greater than zero''),
      ensure (si_acquired_at_unix_ms i \<noteq> 0)
        (SchedulerError ''scheduler.acquired_at_unix_ms'' ''must be greater than zero''),
      ensure (length (si_active_leases i) \<le> unat (sp_max_workers (si_sprint i)))
        (SchedulerError ''scheduler.active_leases''
          ''active lease count exceeds the sprint worker ceiling'')]"

definition validate_complete_task_states :: "scheduler_input \<Rightarrow> scheduler_result" where
  "validate_complete_task_states i = seq
     (map (\<lambda>t. ensure (map_of (si_task_states i) (ts_task_id t) \<noteq> None)
         (SchedulerError ''scheduler.task_states''
           (''missing state for task '' @ quoted (ts_task_id t)))) (tg_tasks (si_graph i))
      @ map (\<lambda>task_id. ensure (graph_task (si_graph i) task_id \<noteq> None)
         (SchedulerError ''scheduler.task_states''
           (''contains state for unknown task '' @ quoted task_id))) (map fst (si_task_states i)))"

definition dependency_state_check ::
  "string \<Rightarrow> (string \<times> task_state) list \<Rightarrow> string \<Rightarrow> string list \<Rightarrow> scheduler_result" where
  "dependency_state_check field states task_id dependencies =
     (let state = state_of states task_id in
      if \<not> execution_bearing state then Inr ()
      else seq (map (\<lambda>d. ensure (map_of states d = Some T_Integrated)
        (SchedulerError field
          (''task '' @ quoted task_id @ '' state '' @ show_task_state state @
           '' has non-integrated dependency '' @ quoted d))) dependencies))"

definition validate_dependency_state_consistency :: "scheduler_input \<Rightarrow> scheduler_result" where
  "validate_dependency_state_consistency i = seq
     (map (\<lambda>t. dependency_state_check ''scheduler.task_states'' (si_task_states i)
       (ts_task_id t) (ts_dependencies t)) (tg_tasks (si_graph i)))"

text \<open>
  The loop of \<open>validate_active_leases\<close>; \<open>earlier\<close> are the leases before the current one, whose
  identities are in the four sets.
\<close>

fun active_lease_checks ::
  "(string \<Rightarrow> string) \<Rightarrow> scheduler_input \<Rightarrow> worker_lease list \<Rightarrow> worker_lease list \<Rightarrow>
   scheduler_result" where
  "active_lease_checks sha i earlier [] = Inr ()"
| "active_lease_checks sha i earlier (l # ls) = seq
     [map_err from_contract (validate_worker_lease sha l),
      validate_worker_identifier ''scheduler.active_leases'' (wl_worker_id l),
      ensure (wl_sprint_id l = sp_sprint_id (si_sprint i))
        (SchedulerError ''scheduler.active_leases''
          (''lease '' @ quoted (wl_lease_id l) @ '' belongs to another sprint'')),
      ensure (wl_lease_epoch l < si_next_lease_epoch i)
        (SchedulerError ''scheduler.next_lease_epoch''
          (''first unused epoch '' @ show_u64 (si_next_lease_epoch i) @
           '' must exceed active lease epoch '' @ show_u64 (wl_lease_epoch l))),
      ensure (graph_task (si_graph i) (wl_task_id l) \<noteq> None)
        (SchedulerError ''scheduler.active_leases''
          (''lease '' @ quoted (wl_lease_id l) @ '' names an unknown task'')),
      ensure (map_option ts_path_scopes (graph_task (si_graph i) (wl_task_id l))
          = Some (wl_path_scopes l))
        (SchedulerError ''scheduler.active_leases''
          (''lease '' @ quoted (wl_lease_id l) @ '' scopes do not exactly match task '' @
           quoted (wl_task_id l))),
      ensure (wl_lease_id l \<notin> set (map wl_lease_id earlier))
        (SchedulerError ''scheduler.active_leases''
          (''duplicate lease id '' @ quoted (wl_lease_id l))),
      ensure (wl_task_id l \<notin> set (map wl_task_id earlier))
        (SchedulerError ''scheduler.active_leases''
          (''task '' @ quoted (wl_task_id l) @ '' has more than one active lease'')),
      ensure (wl_worker_id l \<notin> set (map wl_worker_id earlier))
        (SchedulerError ''scheduler.active_leases''
          (''worker '' @ quoted (wl_worker_id l) @ '' has more than one active lease'')),
      ensure (wl_lease_epoch l \<notin> set (map wl_lease_epoch earlier))
        (SchedulerError ''scheduler.active_leases''
          (''lease epoch '' @ show_u64 (wl_lease_epoch l) @ '' is reused'')),
      seq (map (\<lambda>p. ensure (\<not> scope_sets_conflict (wl_path_scopes l) (wl_path_scopes p))
        (SchedulerError ''scheduler.active_leases''
          (''active leases '' @ quoted (wl_lease_id p) @ '' and '' @ quoted (wl_lease_id l) @
           '' have conflicting scopes''))) earlier),
      active_lease_checks sha i (earlier @ [l]) ls]"

definition validate_active_leases ::
  "(string \<Rightarrow> string) \<Rightarrow> scheduler_input \<Rightarrow> scheduler_error + string set" where
  "validate_active_leases sha i =
     bind_ok (active_lease_checks sha i [] (si_active_leases i))
       (\<lambda>_. Inr (set (map wl_task_id (si_active_leases i))))"

text \<open>Leases of other sprints: valid, foreign and pairwise different.\<close>

definition check_external_blockers ::
  "(string \<Rightarrow> string) \<Rightarrow> string \<Rightarrow> string \<Rightarrow> string \<Rightarrow> worker_lease list \<Rightarrow> scheduler_result" where
  "check_external_blockers sha sprint_id field same_sprint blockers =
     each_unique wl_lease_id
       (\<lambda>l. seq [map_err from_contract (validate_worker_lease sha l),
          ensure (wl_sprint_id l \<noteq> sprint_id) (SchedulerError field same_sprint)])
       (\<lambda>l. SchedulerError field ''contains a duplicate external lease identity'')
       {} blockers"

definition validate_workspace_blocking_leases ::
  "(string \<Rightarrow> string) \<Rightarrow> scheduler_input \<Rightarrow> scheduler_result" where
  "validate_workspace_blocking_leases sha i =
     check_external_blockers sha (sp_sprint_id (si_sprint i))
       ''scheduler.workspace_blocking_leases'' ''same-sprint leases belong in active_leases''
       (si_workspace_blocking_leases i)"

text \<open>
  The loop over the available workers, shared by \<open>validate_available_workers\<close> and its typed
  twin: valid, not repeated, not active.
\<close>

fun worker_checks :: "string \<Rightarrow> string set \<Rightarrow> string set \<Rightarrow> string list \<Rightarrow> scheduler_result" where
  "worker_checks field active unique [] = Inr ()"
| "worker_checks field active unique (w # ws) = seq
     [validate_worker_identifier field w,
      ensure (w \<notin> unique) (SchedulerError field (''duplicate worker id '' @ quoted w)),
      ensure (w \<notin> active)
        (SchedulerError field (''active worker '' @ quoted w @ '' cannot also be available'')),
      worker_checks field active (insert w unique) ws]"

definition check_available_workers ::
  "string \<Rightarrow> worker_lease list \<Rightarrow> string list \<Rightarrow> scheduler_error + string list" where
  "check_available_workers field active available =
     bind_ok (seq
       [ensure (length available \<le> MAX_WORKER_POOL_SIZE)
          (SchedulerError field (''worker pool must not exceed '' @
            show_nat MAX_WORKER_POOL_SIZE @ '' available identities'')),
        ensure (length active + length available \<le> MAX_WORKER_POOL_SIZE)
          (SchedulerError field (''active and available worker pool must not exceed '' @
            show_nat MAX_WORKER_POOL_SIZE @ '' identities'')),
        worker_checks field (set (map wl_worker_id active)) {} available])
     (\<lambda>_. Inr (sort available))"

definition validate_available_workers :: "scheduler_input \<Rightarrow> scheduler_error + string list" where
  "validate_available_workers i =
     check_available_workers ''scheduler.available_worker_ids'' (si_active_leases i)
       (si_available_worker_ids i)"

definition lease_agrees :: "task_state \<Rightarrow> bool \<Rightarrow> bool" where
  "lease_agrees state has_active_lease =
     (if state \<in> {T_Leased, T_Running, T_Verifying, T_Candidate} then has_active_lease
      else if state = T_Integrated then True
      else \<not> has_active_lease)"

definition validate_task_lease_agreement :: "scheduler_input \<Rightarrow> string set \<Rightarrow> scheduler_result" where
  "validate_task_lease_agreement i active_tasks = seq
     (map (\<lambda>t. let state = state_of (si_task_states i) (ts_task_id t) in
       ensure (lease_agrees state (ts_task_id t \<in> active_tasks))
         (SchedulerError ''scheduler.task_states''
           (''task '' @ quoted (ts_task_id t) @ '' state '' @ show_task_state state @
            '' and active lease presence disagree''))) (tg_tasks (si_graph i)))"

definition propose_lease ::
  "(string \<Rightarrow> string) \<Rightarrow> string \<Rightarrow> u64 \<Rightarrow> string \<Rightarrow> path_scope list \<Rightarrow> string \<Rightarrow> u64 \<Rightarrow>
   scheduler_error + worker_lease" where
  "propose_lease sha sprint_id acquired_at task_id scopes worker_id epoch =
     map_err from_contract
       (worker_lease_new sha sprint_id epoch task_id worker_id scopes acquired_at)"

definition remaining_capacity :: "u8 \<Rightarrow> worker_lease list \<Rightarrow> nat option" where
  "remaining_capacity max_workers active =
     (if length active \<le> unat max_workers then Some (unat max_workers - length active) else None)"

definition task_eligible :: "scheduler_input \<Rightarrow> task_spec \<Rightarrow> scheduler_error + bool" where
  "task_eligible i t = Inr (map_of (si_task_states i) (ts_task_id t) = Some T_Ready)"

definition task_blocked :: "scheduler_input \<Rightarrow> task_spec \<Rightarrow> worker_lease list \<Rightarrow> bool" where
  "task_blocked i t leases \<longleftrightarrow>
     conflicts_with_existing (ts_path_scopes t) (si_active_leases i) leases \<or>
     conflicts_with_existing (ts_path_scopes t) (si_workspace_blocking_leases i) []"

definition task_lease ::
  "(string \<Rightarrow> string) \<Rightarrow> scheduler_input \<Rightarrow> task_spec \<Rightarrow> string \<Rightarrow> u64 \<Rightarrow>
   scheduler_error + worker_lease" where
  "task_lease sha i t =
     propose_lease sha (sp_sprint_id (si_sprint i)) (si_acquired_at_unix_ms i)
       (ts_task_id t) (ts_path_scopes t)"

definition plan_worker_leases ::
  "(string \<Rightarrow> string) \<Rightarrow> scheduler_input \<Rightarrow> scheduler_error + schedule_plan" where
  "plan_worker_leases sha i =
     bind_ok (seq
       [map_err from_contract (validate_for_sprint (si_graph i) (si_sprint i)),
        validate_scalar_inputs i,
        validate_complete_task_states i,
        validate_dependency_state_consistency i])
     (\<lambda>_. bind_ok (validate_active_leases sha i)
     (\<lambda>active_tasks. bind_ok (validate_workspace_blocking_leases sha i)
     (\<lambda>_. bind_ok (validate_available_workers i)
     (\<lambda>available_workers. bind_ok (validate_task_lease_agreement i active_tasks)
     (\<lambda>_. bind_ok (ok_or
         (remaining_capacity (sp_max_workers (si_sprint i)) (si_active_leases i))
         (SchedulerError ''scheduler.active_leases''
           ''active lease count exceeds the sprint worker ceiling''))
     (\<lambda>remaining. propose (task_eligible i) (task_blocked i) (task_lease sha i)
         (SchedulerError ''scheduler.next_lease_epoch''
           ''assigning a lease would overflow the durable epoch'')
         available_workers (min remaining (length available_workers)) []
         (si_next_lease_epoch i) (tg_tasks (si_graph i))))))))"

section \<open>Acceptance of the checks\<close>

lemma dependency_state_check_ok [ok_iff]:
  "dependency_state_check f states i ds = Inr u \<longleftrightarrow>
     (execution_bearing (state_of states i) \<longrightarrow> (\<forall>d\<in>set ds. map_of states d = Some T_Integrated))"
  by (auto simp: dependency_state_check_def Let_def seq_map_ok)

definition active_lease_ok :: "(string \<Rightarrow> string) \<Rightarrow> scheduler_input \<Rightarrow> worker_lease \<Rightarrow> bool" where
  "active_lease_ok sha i l \<longleftrightarrow>
     validate_worker_lease sha l = Inr () \<and> wl_sprint_id l = sp_sprint_id (si_sprint i) \<and>
     wl_lease_epoch l < si_next_lease_epoch i \<and>
     map_option ts_path_scopes (graph_task (si_graph i) (wl_task_id l)) = Some (wl_path_scopes l)"

lemma active_lease_checks_Cons:
  assumes "active_lease_checks sha i earlier (l # ls) = Inr ()"
  shows "active_lease_ok sha i l" "active_lease_checks sha i (earlier @ [l]) ls = Inr ()"
    and "wl_lease_id l \<notin> wl_lease_id ` set earlier" "wl_task_id l \<notin> wl_task_id ` set earlier"
    and "wl_worker_id l \<notin> wl_worker_id ` set earlier"
    and "wl_lease_epoch l \<notin> wl_lease_epoch ` set earlier"
    and "\<forall>p\<in>set earlier. \<not> scope_sets_conflict (wl_path_scopes l) (wl_path_scopes p)"
  using assms by (simp_all add: active_lease_ok_def seq_map_ok)

lemma active_lease_checks_each:
  "active_lease_checks sha i earlier ls = Inr () \<Longrightarrow> \<forall>l\<in>set ls. active_lease_ok sha i l"
proof (induction ls arbitrary: earlier)
  case (Cons l ls)
  from active_lease_checks_Cons(1,2) [OF Cons.prems] Cons.IH [of "earlier @ [l]"]
  show ?case by simp
qed simp

lemma active_lease_checks_distinct:
  assumes "active_lease_checks sha i earlier ls = Inr ()"
    and "f = wl_lease_id \<or> f = wl_task_id \<or> f = wl_worker_id"
  shows "distinct (map f ls) \<and> f ` set ls \<inter> f ` set earlier = {}"
  using assms
proof (induction ls arbitrary: earlier)
  case (Cons l ls)
  have "f l \<notin> f ` set earlier"
    using active_lease_checks_Cons(3-5) [OF Cons.prems(1)] Cons.prems(2) by blast
  with Cons.IH [OF active_lease_checks_Cons(2) [OF Cons.prems(1)] Cons.prems(2)]
  show ?case by auto
qed simp

lemma active_lease_checks_disjoint:
  assumes "active_lease_checks sha i earlier ls = Inr ()"
  shows "pairwise_disjoint ls \<and>
    (\<forall>l\<in>set ls. \<forall>p\<in>set earlier. \<not> scope_sets_conflict (wl_path_scopes p) (wl_path_scopes l))"
  using assms
proof (induction ls arbitrary: earlier)
  case (Cons l ls)
  from active_lease_checks_Cons(7) [OF Cons.prems]
  have "\<forall>p\<in>set earlier. \<not> scope_sets_conflict (wl_path_scopes p) (wl_path_scopes l)"
    by (simp add: scope_sets_conflict_sym)
  with Cons.IH [OF active_lease_checks_Cons(2) [OF Cons.prems]]
  show ?case by (simp add: pairwise_disjoint_def)
qed simp

lemma worker_checks_ok:
  "worker_checks f active unique ws = Inr u \<longleftrightarrow>
     (\<forall>w\<in>set ws. validate_worker_id w = Inr ()) \<and> distinct ws \<and>
     set ws \<inter> unique = {} \<and> set ws \<inter> active = {}"
  by (induction ws arbitrary: unique) (auto simp: validate_worker_identifier_ok)

lemma check_available_workers_ok:
  "check_available_workers f active available = Inr ws \<longleftrightarrow>
     length active + length available \<le> MAX_WORKER_POOL_SIZE \<and>
     (\<forall>w\<in>set available. validate_worker_id w = Inr ()) \<and> distinct available \<and>
     set available \<inter> wl_worker_id ` set active = {} \<and> ws = sort available"
  by (auto simp: check_available_workers_def worker_checks_ok)

lemma check_external_blockers_ok:
  "check_external_blockers sha s f m bs = Inr u \<longleftrightarrow>
     (\<forall>b\<in>set bs. validate_worker_lease sha b = Inr () \<and> wl_sprint_id b \<noteq> s) \<and>
     distinct (map wl_lease_id bs)"
  by (auto simp: check_external_blockers_def each_unique_ok)

lemma remaining_capacity_Some:
  "remaining_capacity m active = Some r \<longleftrightarrow>
     length active \<le> unat m \<and> r = unat m - length active"
  by (auto simp: remaining_capacity_def)

lemma propose_lease_fields:
  assumes "propose_lease sha s acquired t scopes w e = Inr l"
  shows "wl_task_id l = t \<and> wl_worker_id l = w \<and> wl_lease_epoch l = e \<and> wl_path_scopes l = scopes"
    and "wl_sprint_id l = s" "wl_acquired_at_unix_ms l = acquired"
    and "validate_worker_lease sha l = Inr ()"
  using assms worker_lease_new_fields [of sha s e t w scopes acquired l]
    worker_lease_new_valid [of sha s e t w scopes acquired l]
  by (auto simp: propose_lease_def)

interpretation v1: lease_planner "task_eligible i" "task_blocked i" "task_lease sha i"
  ts_task_id ts_path_scopes "si_active_leases i @ si_workspace_blocking_leases i" for sha i
  by unfold_locales
    (auto simp: task_lease_def task_blocked_def conflicts_with_existing_iff
      dest: propose_lease_fields)

section \<open>What an accepted plan guarantees\<close>

text \<open>The facts a successful call established on its way.\<close>

definition plan_capacity :: "scheduler_input \<Rightarrow> nat" where
  "plan_capacity i = min (unat (sp_max_workers (si_sprint i)) - length (si_active_leases i))
     (length (si_available_worker_ids i))"

lemma plan_worker_leasesD:
  assumes "plan_worker_leases sha i = Inr plan"
  shows "graph_spec (si_graph i) (si_sprint i)"
    and "validate_complete_task_states i = Inr ()"
    and "validate_dependency_state_consistency i = Inr ()"
    and "active_lease_checks sha i [] (si_active_leases i) = Inr ()"
    and "validate_workspace_blocking_leases sha i = Inr ()"
    and "check_available_workers ''scheduler.available_worker_ids'' (si_active_leases i)
      (si_available_worker_ids i) = Inr (sort (si_available_worker_ids i))"
    and "validate_task_lease_agreement i (set (map wl_task_id (si_active_leases i))) = Inr ()"
    and "length (si_active_leases i) \<le> unat (sp_max_workers (si_sprint i))"
    and "propose (task_eligible i) (task_blocked i) (task_lease sha i)
      (SchedulerError ''scheduler.next_lease_epoch''
         ''assigning a lease would overflow the durable epoch'')
      (sort (si_available_worker_ids i)) (plan_capacity i) [] (si_next_lease_epoch i)
      (tg_tasks (si_graph i)) = Inr plan"
  using assms
  by (auto simp: plan_worker_leases_def validated_graph_iff validate_active_leases_def
      validate_available_workers_def check_available_workers_ok bind_ok_Inr
      remaining_capacity_Some plan_capacity_def)

lemma plan_is_sound:
  assumes "plan_worker_leases sha i = Inr plan"
  shows "plan_sound (si_active_leases i @ si_workspace_blocking_leases i)
    (sort (si_available_worker_ids i)) (plan_capacity i) (si_next_lease_epoch i)
    (pl_leases plan) (pl_next_lease_epoch plan)"
  by (rule v1.propose_sound [OF plan_worker_leasesD(9) [OF assms] v1.sound_Nil])
    (simp add: plan_capacity_def)

text \<open>
  C6. The leases of an accepted plan, together with the active ones, never overlap: no two have
  conflicting scopes, none conflicts with a lease of another sprint on the workspace, no worker
  holds two, and there are at most \<open>max_workers\<close> of them.
\<close>

theorem planned_leases_exclude_each_other:
  assumes "plan_worker_leases sha i = Inr plan"
  shows "pairwise_disjoint (si_active_leases i @ pl_leases plan) \<and>
    (\<forall>l\<in>set (pl_leases plan). \<forall>b\<in>set (si_workspace_blocking_leases i).
      \<not> scope_sets_conflict (wl_path_scopes l) (wl_path_scopes b)) \<and>
    distinct (map wl_worker_id (si_active_leases i @ pl_leases plan)) \<and>
    length (si_active_leases i @ pl_leases plan) \<le> unat (sp_max_workers (si_sprint i))"
proof -
  note D = plan_worker_leasesD [OF assms]
  have active: "pairwise_disjoint (si_active_leases i)"
    "distinct (map wl_worker_id (si_active_leases i))"
    using active_lease_checks_disjoint [OF D(4)] active_lease_checks_distinct [OF D(4)] by auto
  have workers: "distinct (si_available_worker_ids i)"
    "set (si_available_worker_ids i) \<inter> wl_worker_id ` set (si_active_leases i) = {}"
    using D(6) by (auto simp: check_available_workers_ok)
  have "length (si_active_leases i) + plan_capacity i \<le> unat (sp_max_workers (si_sprint i))"
    using D(8) by (simp add: plan_capacity_def)
  from plan_sound_exclusive [OF plan_is_sound [OF assms] active workers this]
  show ?thesis by blast
qed

lemma state_known:
  assumes "validate_complete_task_states i = Inr ()" "t \<in> set (tg_tasks (si_graph i))"
  shows "map_of (si_task_states i) (ts_task_id t) = Some (state_of (si_task_states i) (ts_task_id t))"
  using assms by (auto simp: validate_complete_task_states_def seq_append_ok seq_map_ok state_of_def)

text \<open>
  Work is only proposed when it may start: every lease of an accepted plan is a valid lease
  of this sprint for a task of the graph that is \<open>Ready\<close>, carries exactly that task's scopes,
  has all the task's dependencies \<open>Integrated\<close>, and the task has no active lease.
\<close>

theorem planned_leases_are_ready:
  assumes "plan_worker_leases sha i = Inr plan" "l \<in> set (pl_leases plan)"
  shows "\<exists>t\<in>set (tg_tasks (si_graph i)).
    ts_task_id t = wl_task_id l \<and> ts_path_scopes t = wl_path_scopes l \<and>
    map_of (si_task_states i) (ts_task_id t) = Some T_Ready \<and>
    (\<forall>d\<in>set (ts_dependencies t). map_of (si_task_states i) d = Some T_Integrated) \<and>
    ts_task_id t \<notin> wl_task_id ` set (si_active_leases i) \<and>
    validate_assignment sha l (sp_sprint_id (si_sprint i)) (ts_task_id t) (wl_worker_id l) = Inr ()"
proof -
  note D = plan_worker_leasesD [OF assms(1)]
  from v1.propose_subseq [OF D(9)] obtain picked where
    p: "subseq picked (tg_tasks (si_graph i))"
    and e: "\<forall>t\<in>set picked. task_eligible i t = Inr True"
    and m: "\<forall>l\<in>set (pl_leases plan). \<exists>t\<in>set picked.
      task_lease sha i t (wl_worker_id l) (wl_lease_epoch l) = Inr l"
    by auto
  from m assms(2) obtain t where t: "t \<in> set picked"
    and l: "task_lease sha i t (wl_worker_id l) (wl_lease_epoch l) = Inr l" by blast
  from p t have mem: "t \<in> set (tg_tasks (si_graph i))"
    using subseq_set_subset by blast
  from e t have ready: "map_of (si_task_states i) (ts_task_id t) = Some T_Ready"
    by (auto simp: task_eligible_def)
  note F = propose_lease_fields [OF l [unfolded task_lease_def]]
  have "execution_bearing (state_of (si_task_states i) (ts_task_id t))"
    using ready by (simp add: state_of_def execution_bearing_def)
  then have deps: "\<forall>d\<in>set (ts_dependencies t). map_of (si_task_states i) d = Some T_Integrated"
    using D(3) mem by (simp add: validate_dependency_state_consistency_def seq_map_ok ok_iff)
  have "lease_agrees (state_of (si_task_states i) (ts_task_id t))
      (ts_task_id t \<in> set (map wl_task_id (si_active_leases i)))"
    using D(7) mem by (simp add: validate_task_lease_agreement_def seq_map_ok Let_def)
  then have "ts_task_id t \<notin> wl_task_id ` set (si_active_leases i)"
    using ready by (simp add: lease_agrees_def state_of_def)
  moreover have "validate_assignment sha l (sp_sprint_id (si_sprint i)) (ts_task_id t)
      (wl_worker_id l) = Inr ()"
    using F by (simp add: validate_assignment_def)
  ultimately show ?thesis using mem ready deps F(1) by (intro bexI [of _ t]) auto
qed

text \<open>
  Epochs are never reused: the proposed leases carry the consecutive epochs from
  \<open>next_lease_epoch\<close> on, all above every active epoch, and the plan's next epoch follows the
  last of them without wrapping.
\<close>

theorem planned_epochs_are_fresh:
  assumes "plan_worker_leases sha i = Inr plan"
  shows "map (unat \<circ> wl_lease_epoch) (pl_leases plan)
      = [unat (si_next_lease_epoch i)..<unat (pl_next_lease_epoch plan)] \<and>
    unat (pl_next_lease_epoch plan) = unat (si_next_lease_epoch i) + length (pl_leases plan) \<and>
    (\<forall>l\<in>set (si_active_leases i). \<forall>p\<in>set (pl_leases plan). wl_lease_epoch l < wl_lease_epoch p)"
proof (intro conjI)
  note S = plan_is_sound [OF assms]
  show epochs: "map (unat \<circ> wl_lease_epoch) (pl_leases plan)
      = [unat (si_next_lease_epoch i)..<unat (pl_next_lease_epoch plan)]"
    using S by (simp add: plan_sound_def)
  show "unat (pl_next_lease_epoch plan) = unat (si_next_lease_epoch i) + length (pl_leases plan)"
    using S by (simp add: plan_sound_def)
  have "unat (si_next_lease_epoch i) \<le> unat (wl_lease_epoch p)" if "p \<in> set (pl_leases plan)" for p
  proof -
    have "unat (wl_lease_epoch p) \<in> set (map (unat \<circ> wl_lease_epoch) (pl_leases plan))"
      using that by auto
    then show ?thesis unfolding epochs by simp
  qed
  moreover have "wl_lease_epoch l < si_next_lease_epoch i" if "l \<in> set (si_active_leases i)" for l
    using active_lease_checks_each [OF plan_worker_leasesD(4) [OF assms]] that
    by (simp add: active_lease_ok_def)
  ultimately show "\<forall>l\<in>set (si_active_leases i). \<forall>p\<in>set (pl_leases plan).
      wl_lease_epoch l < wl_lease_epoch p"
    unfolding word_less_nat_alt by fastforce
qed

text \<open>
  C34. No ready task is left without a reason: when a plan leaves capacity unused, every ready
  task it gives no lease has a scope conflict with an active lease, with a lease of another
  sprint, or with a lease of the plan itself.
\<close>

theorem plan_is_maximal:
  assumes "plan_worker_leases sha i = Inr plan"
    and "length (si_active_leases i) + length (pl_leases plan) < unat (sp_max_workers (si_sprint i))"
    and "length (pl_leases plan) < length (si_available_worker_ids i)"
    and "t \<in> set (tg_tasks (si_graph i))"
    and "map_of (si_task_states i) (ts_task_id t) = Some T_Ready"
    and "ts_task_id t \<notin> wl_task_id ` set (pl_leases plan)"
  shows "\<exists>l\<in>set (si_active_leases i) \<union> set (si_workspace_blocking_leases i) \<union> set (pl_leases plan).
    scope_sets_conflict (ts_path_scopes t) (wl_path_scopes l)"
proof -
  have "length (pl_leases plan) < plan_capacity i"
    using assms(2,3) by (simp add: plan_capacity_def)
  then have "task_blocked i t (pl_leases plan)"
    using v1.propose_maximal [OF plan_worker_leasesD(9) [OF assms(1)] _ assms(4)] assms(5,6)
    by (simp add: task_eligible_def)
  then show ?thesis
    by (auto simp: task_blocked_def conflicts_with_existing_iff)
qed

text \<open>
  The order in which the caller lists the available workers does not matter: two inputs
  that differ only in that order produce the same plan.
\<close>

theorem plan_ignores_worker_order:
  assumes "plan_worker_leases sha i = Inr plan"
    and "mset ws = mset (si_available_worker_ids i)"
  shows "plan_worker_leases sha (i\<lparr>si_available_worker_ids := ws\<rparr>) = Inr plan"
proof -
  let ?j = "i\<lparr>si_available_worker_ids := ws\<rparr>"
  have sorted: "sort ws = sort (si_available_worker_ids i)"
    by (rule properties_for_sort) (simp_all add: assms(2))
  have same: "length ws = length (si_available_worker_ids i)"
    "set ws = set (si_available_worker_ids i)" "distinct ws = distinct (si_available_worker_ids i)"
    using assms(2) mset_eq_length mset_eq_setD mset_eq_imp_distinct_iff by blast+
  have "validate_available_workers ?j = validate_available_workers i"
  proof -
    have "validate_available_workers i = Inr (sort (si_available_worker_ids i))"
      using plan_worker_leasesD(6) [OF assms(1)] by (simp add: validate_available_workers_def)
    moreover from this have "validate_available_workers ?j = Inr (sort (si_available_worker_ids i))"
      by (simp add: validate_available_workers_def check_available_workers_ok same sorted)
    ultimately show ?thesis by simp
  qed
  moreover have "active_lease_checks sha ?j earlier ls = active_lease_checks sha i earlier ls"
    for earlier ls
    by (induction ls arbitrary: earlier) (simp_all cong del: ensure_cong)
  moreover have "task_eligible ?j = task_eligible i" "task_blocked ?j = task_blocked i"
    "task_lease sha ?j = task_lease sha i"
    by (simp_all add: fun_eq_iff task_eligible_def task_blocked_def task_lease_def)
  ultimately have "plan_worker_leases sha ?j = plan_worker_leases sha i"
    by (simp add: plan_worker_leases_def validate_scalar_inputs_def
        validate_complete_task_states_def validate_dependency_state_consistency_def
        validate_active_leases_def validate_workspace_blocking_leases_def
        validate_task_lease_agreement_def cong del: ensure_cong bind_ok_cong)
  with assms(1) show ?thesis by simp
qed

end
