(* ===== verification/Example_Sprint.thy ===== *)
theory Example_Sprint
  imports Scheduler
begin

text \<open>
  Fixtures after the tests in \<open>scheduler.rs\<close>: a sprint with one human criterion and a graph of
  four tasks, of which \<open>integrated\<close> is done, \<open>ready\<close> may start, \<open>waiting\<close> depends on it, and
  \<open>overlap\<close> is ready too but works below \<open>ready\<close>'s path in another letter case.
  They are the concrete inputs of the witnesses. \<open>zero_sha\<close> stands in for SHA-256: any function
  with 32-byte results does.
\<close>

definition zero_sha :: "string \<Rightarrow> string" where
  "zero_sha m = replicate 32 (CHR 0x00)"

definition ex_digest :: "char \<Rightarrow> digest" where
  "ex_digest c = Digest (replicate 64 c)"

definition ex_sprint :: sprint_spec where
  "ex_sprint = \<lparr>sp_sprint_id = ''sprint-1'', sp_objective = ''finish the deterministic graph'',
     sp_acceptance_criteria =
       [\<lparr>ac_criterion_id = ''criterion-1'', ac_description = ''all planned work is integrated'',
         ac_kind = HumanJudgment\<rparr>],
     sp_provider = \<lparr>pp_backend_id = ''fake'', pp_model_id = ''deterministic'',
       pp_execution_origin = ReadOnlyOrigin\<rparr>,
     sp_budget = \<lparr>sb_max_tasks = 16, sb_max_attempts_per_task = 2, sb_max_tool_calls = 32,
       sb_max_duration_ms = 60000\<rparr>,
     sp_max_workers = 2,
     sp_workspace_grant = \<lparr>wg_grant_id = ''grant-1'',
       wg_canonical_root = [RootDir, Normal ''tmp'', Normal ''grok-build-scheduler-tests''],
       wg_permissions = permissions_trusted, wg_network = NetworkDenied,
       wg_policy_version = 1, wg_grant_hash = ex_digest (CHR ''b'')\<rparr>,
     sp_base_snapshot = ex_digest (CHR ''a'')\<rparr>"

definition ex_task :: "string \<Rightarrow> string list \<Rightarrow> string \<Rightarrow> task_spec" where
  "ex_task task_id dependencies p = \<lparr>ts_task_id = task_id, ts_goal = ''complete '' @ task_id,
     ts_dependencies = dependencies, ts_path_scopes = [RelativeScope (path_of p)],
     ts_acceptance_checks = [''criterion-1''], ts_base_snapshot = ex_digest (CHR ''a''),
     ts_required = True\<rparr>"

definition ex_graph :: task_graph where
  "ex_graph = \<lparr>tg_graph_id = ''graph-1'',
     tg_tasks = [ex_task ''integrated'' [] ''docs'', ex_task ''ready'' [''integrated''] ''src/a'',
       ex_task ''waiting'' [''ready''] ''src/b'', ex_task ''overlap'' [] ''SRC/A/deep'']\<rparr>"

definition ex_input :: scheduler_input where
  "ex_input = \<lparr>si_sprint = ex_sprint, si_graph = ex_graph,
     si_task_states = [(''integrated'', T_Integrated), (''overlap'', T_Ready),
       (''ready'', T_Ready), (''waiting'', T_Planned)],
     si_active_leases = [], si_workspace_blocking_leases = [],
     si_available_worker_ids = [''worker-b'', ''worker-a''], si_next_lease_epoch = 7,
     si_acquired_at_unix_ms = 1750000000000\<rparr>"

definition ex_lease :: worker_lease where
  "ex_lease = \<lparr>wl_contract_version = CONTRACT_VERSION, wl_lease_id = ''lease-'' @ replicate 64 (CHR ''0''),
     wl_sprint_id = ''sprint-1'', wl_lease_epoch = 7, wl_task_id = ''ready'',
     wl_worker_id = ''worker-a'', wl_path_scopes = [RelativeScope [Normal ''src'', Normal ''a'']],
     wl_acquired_at_unix_ms = 1750000000000\<rparr>"

lemma ex_graph_valid: "validate_for_sprint ex_graph ex_sprint = Inr ()"
  by code_simp

section \<open>Evaluation of the example\<close>

lemma zero_sha_length [simp]: "length (zero_sha m) = 32"
  by (simp add: zero_sha_def)

lemma zero_digest: "digest_sha256 zero_sha m = Digest (replicate 64 (CHR ''0''))"
proof -
  have "concat (map hex_byte (replicate 32 (CHR 0x00))) = replicate 64 (CHR ''0'')"
    by code_simp
  then show ?thesis by (simp add: digest_sha256_def zero_sha_def)
qed

lemma ex_lease_new:
  "worker_lease_new zero_sha ''sprint-1'' 7 ''ready'' ''worker-a''
     [RelativeScope [Normal ''src'', Normal ''a'']] 1750000000000 = Inr ex_lease"
proof -
  have "\<not> blank ''sprint-1''" "\<not> blank ''ready''" "validate_worker_id ''worker-a'' = Inr ()"
    "validate_path_scope (RelativeScope [Normal ''src'', Normal ''a'']) = Inr ()"
    by code_simp+
  then show ?thesis
    by (simp add: worker_lease_new_iff derive_lease_id_iff zero_digest valid_scopes_def
        ex_lease_def WORKER_LEASE_ID_PREFIX_def)
qed

lemma ex_input_checks:
  "validate_scalar_inputs ex_input = Inr ()"
  "validate_complete_task_states ex_input = Inr ()"
  "validate_dependency_state_consistency ex_input = Inr ()"
  "validate_active_leases zero_sha ex_input = Inr {}"
  "validate_available_workers ex_input = Inr [''worker-a'', ''worker-b'']"
  "validate_task_lease_agreement ex_input {} = Inr ()"
  "remaining_capacity (sp_max_workers (si_sprint ex_input)) (si_active_leases ex_input) = Some 2"
  by code_simp+

lemma ex_input_fields [simp]:
  "si_graph ex_input = ex_graph" "si_sprint ex_input = ex_sprint"
  "si_next_lease_epoch ex_input = 7" "si_active_leases ex_input = []"
  "si_workspace_blocking_leases ex_input = []"
  by (simp_all add: ex_input_def)

abbreviation "ex_ready \<equiv> ex_task ''ready'' [''integrated''] ''src/a''"
abbreviation "ex_overlap \<equiv> ex_task ''overlap'' [] ''SRC/A/deep''"

lemma ex_eligible:
  "task_eligible ex_input (ex_task ''integrated'' [] ''docs'') = Inr False"
  "task_eligible ex_input ex_ready = Inr True"
  "task_eligible ex_input (ex_task ''waiting'' [''ready''] ''src/b'') = Inr False"
  "task_eligible ex_input ex_overlap = Inr True"
  "\<not> task_blocked ex_input ex_ready []"
  "task_blocked ex_input ex_overlap [ex_lease]"
  by code_simp+

lemma ex_task_lease: "task_lease zero_sha ex_input ex_ready ''worker-a'' 7 = Inr ex_lease"
proof -
  have "ts_path_scopes ex_ready = [RelativeScope [Normal ''src'', Normal ''a'']]" by code_simp
  moreover have "ts_task_id ex_ready = ''ready''" "sp_sprint_id ex_sprint = ''sprint-1''"
    "si_acquired_at_unix_ms ex_input = 1750000000000"
    by (simp_all add: ex_task_def ex_sprint_def ex_input_def)
  ultimately show ?thesis
    using ex_lease_new by (simp add: task_lease_def propose_lease_def)
qed

abbreviation "ex_result \<equiv> \<lparr>pl_leases = [ex_lease], pl_next_lease_epoch = 8\<rparr>"

lemma ex_propose:
  "propose (task_eligible ex_input) (task_blocked ex_input) (task_lease zero_sha ex_input) e
     [''worker-a'', ''worker-b''] (Suc (Suc 0)) [] 7 (tg_tasks ex_graph) = Inr ex_result"
  by (simp add: ex_graph_def ex_eligible ex_task_lease checked_add_u64_def)

lemma ex_plan: "plan_worker_leases zero_sha ex_input = Inr ex_result"
proof -
  have "validate_workspace_blocking_leases zero_sha ex_input = Inr ()"
    by (simp add: validate_workspace_blocking_leases_def check_external_blockers_def)
  moreover note ex_input_checks(7) [unfolded ex_input_fields]
  ultimately show ?thesis
    by (simp add: plan_worker_leases_def ex_graph_valid ex_input_checks ex_propose
        cong del: bind_ok_cong)
qed

section \<open>Witnesses of the planner's guarantees\<close>

theorem planned_leases_exclude_each_other_witness:
  "pairwise_disjoint [ex_lease] \<and> distinct (map wl_worker_id [ex_lease]) \<and>
   length [ex_lease] \<le> unat (sp_max_workers ex_sprint)"
  using planned_leases_exclude_each_other [OF ex_plan] by simp

theorem planned_leases_are_ready_witness:
  "\<exists>t\<in>set (tg_tasks ex_graph). ts_task_id t = wl_task_id ex_lease \<and>
     map_of (si_task_states ex_input) (ts_task_id t) = Some T_Ready"
proof -
  have "ex_lease \<in> set (pl_leases ex_result)" by simp
  from planned_leases_are_ready [OF ex_plan this] show ?thesis by auto
qed

theorem planned_epochs_are_fresh_witness:
  "map (unat \<circ> wl_lease_epoch) [ex_lease] = [unat (7 :: u64)..<unat (8 :: u64)]"
  using planned_epochs_are_fresh [OF ex_plan] by simp

theorem plan_is_maximal_witness:
  "scope_sets_conflict (ts_path_scopes ex_overlap) (wl_path_scopes ex_lease)"
proof -
  have room: "length (si_active_leases ex_input) + length (pl_leases ex_result)
      < unat (sp_max_workers (si_sprint ex_input))"
    "length (pl_leases ex_result) < length (si_available_worker_ids ex_input)"
    by code_simp+
  have task: "ex_overlap \<in> set (tg_tasks (si_graph ex_input))"
    by (simp add: ex_graph_def)
  have state: "map_of (si_task_states ex_input) (ts_task_id ex_overlap) = Some T_Ready"
    "ts_task_id ex_overlap \<notin> wl_task_id ` set (pl_leases ex_result)"
    by (simp_all add: ex_input_def ex_task_def ex_lease_def)
  from plan_is_maximal [OF ex_plan room task state] show ?thesis by simp
qed

theorem plan_ignores_worker_order_witness:
  "plan_worker_leases zero_sha
     (ex_input\<lparr>si_available_worker_ids := [''worker-a'', ''worker-b'']\<rparr>) = Inr ex_result"
proof (rule plan_ignores_worker_order [OF ex_plan])
  show "mset [''worker-a'', ''worker-b''] = mset (si_available_worker_ids ex_input)"
    by (simp add: ex_input_def)
qed

end
