(* ===== verification/Execution.thy ===== *)
theory Execution
  imports Lease
begin

text \<open>
  The first half of \<open>contracts/execution.rs\<close>: execution policies checked against a workspace
  grant, staged change sets with the digests taken over them, and mutation artifact links.
  JSON encoding is the third-party crate \<open>serde_json\<close>: a parameter \<open>enc\<close> of the
  definitions that digest a canonical encoding, \<open>Inl\<close> carrying the text of an encoding error.
\<close>

type_synonym 'a encoder = "'a \<Rightarrow> string + string"

definition require_version :: "string \<Rightarrow> u32 \<Rightarrow> contract_result" where
  "require_version field v = ensure (v = CONTRACT_VERSION) (ContractError field (version_message v))"

lemma require_version_ok [simp, ok_iff]: "require_version f v = Inr u \<longleftrightarrow> v = CONTRACT_VERSION"
  by (simp add: require_version_def)

section \<open>Execution policies\<close>

datatype execution_network = NetworkNone | FullForAction

datatype mutation_mode = ReadOnly | ShadowWorkspace

record environment_variable =
  ev_name :: string
  ev_value :: string

definition NUL :: char where
  "NUL = CHR 0x00"

definition validate_environment_variable :: "environment_variable \<Rightarrow> contract_result" where
  "validate_environment_variable v = seq
     [require_nonblank ''execution_policy.environment.name'' (ev_name v),
      ensure (\<not> (CHR ''='' \<in> set (ev_name v) \<or> NUL \<in> set (ev_name v)))
        (ContractError ''execution_policy.environment.name'' ''must not contain `=` or NUL''),
      ensure (NUL \<notin> set (ev_value v))
        (ContractError ''execution_policy.environment.value'' ''must not contain NUL'')]"

record resource_limits =
  rl_wall_time_ms :: u64
  rl_max_output_bytes :: u64
  rl_max_processes :: u32
  rl_max_memory_bytes :: "u64 option"

definition validate_resource_limits :: "resource_limits \<Rightarrow> contract_result" where
  "validate_resource_limits r = seq
     [ensure (\<not> (rl_wall_time_ms r = 0 \<or> rl_max_output_bytes r = 0 \<or> rl_max_processes r = 0))
        (ContractError ''execution_policy.resource_limits''
          ''time, output, and process limits must be greater than zero''),
      ensure (rl_max_memory_bytes r \<noteq> Some 0)
        (ContractError ''execution_policy.resource_limits.max_memory_bytes''
          ''must be greater than zero when present'')]"

record execution_policy =
  ep_policy_id :: string
  ep_grant_hash :: digest
  ep_workspace_root :: path
  ep_read_scopes :: "path_scope list"
  ep_write_scopes :: "path_scope list"
  ep_environment :: "environment_variable list"
  ep_network :: execution_network
  ep_mutation_mode :: mutation_mode
  ep_resource_limits :: resource_limits
  ep_approval_id :: "string option"
  ep_policy_hash :: digest

definition validate_mutation_mode :: "execution_policy \<Rightarrow> contract_result" where
  "validate_mutation_mode p =
     (case ep_mutation_mode p of
        ReadOnly \<Rightarrow>
          ensure (ep_write_scopes p = [])
            (ContractError ''execution_policy.write_scopes''
              ''read-only execution cannot declare writable scopes'')
      | ShadowWorkspace \<Rightarrow>
          ensure (ep_write_scopes p \<noteq> [])
            (ContractError ''execution_policy.write_scopes''
              ''shadow-workspace execution requires a writable scope''))"

definition validate_against :: "execution_policy \<Rightarrow> workspace_grant \<Rightarrow> contract_result" where
  "validate_against p grant = seq
     [validate_workspace_grant grant,
      require_nonblank ''execution_policy.policy_id'' (ep_policy_id p),
      ensure (ep_grant_hash p = wg_grant_hash grant)
        (ContractError ''execution_policy.grant_hash'' ''does not match the authorizing grant''),
      ensure (ep_workspace_root p = wg_canonical_root grant)
        (ContractError ''execution_policy.workspace_root''
          ''does not exactly match the canonical grant root''),
      ensure (ep_read_scopes p \<noteq> [])
        (ContractError ''execution_policy.read_scopes'' ''must contain at least one scope''),
      seq (map validate_path_scope (ep_read_scopes p @ ep_write_scopes p)),
      ensure (\<not> (\<not> wp_write_regular_files (wg_permissions grant) \<and> ep_write_scopes p \<noteq> []))
        (ContractError ''execution_policy.write_scopes''
          ''grant does not authorize regular-file writes''),
      validate_mutation_mode p,
      ensure (\<not> (ep_network p = FullForAction \<and> wg_network grant \<noteq> NetworkAllowed))
        (ContractError ''execution_policy.network'' ''grant does not authorize command networking''),
      (case ep_approval_id p of
         Some approval_id \<Rightarrow> require_nonblank ''execution_policy.approval_id'' approval_id
       | None \<Rightarrow> Inr ()),
      each_unique ev_name validate_environment_variable
        (\<lambda>v. ContractError ''execution_policy.environment''
          (''duplicate environment variable '' @ quoted (ev_name v))) {} (ep_environment p),
      validate_resource_limits (ep_resource_limits p)]"

section \<open>Change sets\<close>

datatype file_operation =
    Create (fo_path: path) (fo_result: digest)
  | Modify (fo_path: path) (fo_base: digest) (fo_result: digest)
  | Delete (fo_path: path) (fo_base: digest)

definition validate_file_operation :: "file_operation \<Rightarrow> contract_result" where
  "validate_file_operation op = seq
     [require_normalized_relative ''change_set.operation.path'' (fo_path op),
      (case op of
         Modify _ base_hash result_hash \<Rightarrow>
           ensure (base_hash \<noteq> result_hash)
             (ContractError ''change_set.operation''
               ''a modification must change the content digest'')
       | _ \<Rightarrow> Inr ())]"

record change_set =
  ch_change_set_id :: string
  ch_base_snapshot :: digest
  ch_result_snapshot :: digest
  ch_operations :: "file_operation list"

definition validate_change_set :: "change_set \<Rightarrow> contract_result" where
  "validate_change_set c = seq
     [require_nonblank ''change_set.change_set_id'' (ch_change_set_id c),
      ensure ((ch_base_snapshot c = ch_result_snapshot c) = (ch_operations c = []))
        (ContractError ''change_set.operations''
          ''must be empty exactly when base and result snapshots are identical''),
      each_unique fo_path validate_file_operation
        (\<lambda>op. ContractError ''change_set.operations''
          (''duplicate target path '' @ quoted (path_text (fo_path op)))) {} (ch_operations c)]"

record touched_endpoint =
  te_path :: path
  te_base_hash :: "digest option"
  te_result_hash :: "digest option"

fun touched_endpoint_from :: "file_operation \<Rightarrow> touched_endpoint" where
  "touched_endpoint_from (Create p r) =
     \<lparr>te_path = p, te_base_hash = None, te_result_hash = Some r\<rparr>"
| "touched_endpoint_from (Modify p b r) =
     \<lparr>te_path = p, te_base_hash = Some b, te_result_hash = Some r\<rparr>"
| "touched_endpoint_from (Delete p b) =
     \<lparr>te_path = p, te_base_hash = Some b, te_result_hash = None\<rparr>"

record restored_endpoint =
  re_path :: path
  re_restored_hash :: "digest option"

fun restored_endpoint_from :: "file_operation \<Rightarrow> restored_endpoint" where
  "restored_endpoint_from (Create p r) = \<lparr>re_path = p, re_restored_hash = None\<rparr>"
| "restored_endpoint_from (Modify p b r) = \<lparr>re_path = p, re_restored_hash = Some b\<rparr>"
| "restored_endpoint_from (Delete p b) = \<lparr>re_path = p, re_restored_hash = Some b\<rparr>"

definition digest_canonical_contract ::
  "(string \<Rightarrow> string) \<Rightarrow> 'a encoder \<Rightarrow> string \<Rightarrow> 'a \<Rightarrow> string \<Rightarrow> contract_error + digest" where
  "digest_canonical_contract sha enc domain value field =
     bind_ok (map_err (\<lambda>e. ContractError field (''cannot encode canonically: '' @ e)) (enc value))
       (\<lambda>encoded. Inr (digest_sha256 sha (domain @ encoded)))"

definition applied_operations_digest ::
  "(string \<Rightarrow> string) \<Rightarrow> file_operation list encoder \<Rightarrow> change_set \<Rightarrow> contract_error + digest" where
  "applied_operations_digest sha enc c = digest_canonical_contract sha enc
     (''grok-build.applied-operations.v1'' @ [NUL]) (ch_operations c) ''change_set.operations''"

definition touched_path_endpoints_digest ::
  "(string \<Rightarrow> string) \<Rightarrow> touched_endpoint list encoder \<Rightarrow> change_set \<Rightarrow> contract_error + digest" where
  "touched_path_endpoints_digest sha enc c = digest_canonical_contract sha enc
     (''grok-build.touched-path-endpoints.v1'' @ [NUL])
     (map touched_endpoint_from (ch_operations c)) ''change_set.operations''"

definition touched_target_set_digest ::
  "(string \<Rightarrow> string) \<Rightarrow> path list encoder \<Rightarrow> change_set \<Rightarrow> contract_error + digest" where
  "touched_target_set_digest sha enc c = digest_canonical_contract sha enc
     (''grok-build.touched-target-set.v1'' @ [NUL])
     (map fo_path (ch_operations c)) ''change_set.operations''"

definition restored_base_endpoints_digest ::
  "(string \<Rightarrow> string) \<Rightarrow> restored_endpoint list encoder \<Rightarrow> change_set \<Rightarrow> contract_error + digest" where
  "restored_base_endpoints_digest sha enc c = digest_canonical_contract sha enc
     (''grok-build.restored-base-endpoints.v1'' @ [NUL])
     (map restored_endpoint_from (ch_operations c)) ''change_set.operations''"

record mutation_artifact_link =
  ml_contract_version :: u32
  ml_sprint_id :: string
  ml_effect_id :: string
  ml_observation_id :: string
  ml_input_snapshot :: digest
  ml_result_snapshot :: digest
  ml_change_set_id :: string

definition validate_mutation_artifact_link :: "mutation_artifact_link \<Rightarrow> contract_result" where
  "validate_mutation_artifact_link m = seq
     [require_version ''mutation_artifact_link.contract_version'' (ml_contract_version m),
      require_nonblank ''mutation_artifact_link.sprint_id'' (ml_sprint_id m),
      require_nonblank ''mutation_artifact_link.effect_id'' (ml_effect_id m),
      require_nonblank ''mutation_artifact_link.observation_id'' (ml_observation_id m),
      require_nonblank ''mutation_artifact_link.change_set_id'' (ml_change_set_id m),
      ensure (ml_input_snapshot m \<noteq> ml_result_snapshot m)
        (ContractError ''mutation_artifact_link.result_snapshot''
          ''must differ from the intent input snapshot'')]"

record task_integration_artifact_reference =
  ar_format_version :: u32
  ar_artifact_digest :: digest
  ar_change_set_id :: string
  ar_base_snapshot :: digest
  ar_result_snapshot :: digest

definition validate_artifact_reference :: "task_integration_artifact_reference \<Rightarrow> contract_result" where
  "validate_artifact_reference a = seq
     [ensure (ar_format_version a \<noteq> 0)
        (ContractError ''task_integration_artifact_reference.format_version''
          ''must be greater than zero''),
      require_nonblank ''task_integration_artifact_reference.change_set_id'' (ar_change_set_id a)]"

end
