(* ===== verification/Evidence.thy ===== *)
theory Evidence
  imports Execution
begin

text \<open>
  The second half of \<open>contracts/execution.rs\<close>: how a command ended, the immutable commitment to
  its complete output, verification receipts and the evidence envelope that authenticates them,
  human acceptance, criterion evidence, and task integration receipts. The two canonical JSON
  encodings the envelope needs are fields of the parameter record \<open>evidence_codec\<close>.
\<close>

section \<open>Command termination\<close>

datatype command_termination =
  Exited i32 | Signaled i32 | TimedOut | Canceled | OutputLimitExceeded

definition exit_status :: "command_termination \<Rightarrow> i32 option" where
  "exit_status t = (case t of Exited code \<Rightarrow> Some code | _ \<Rightarrow> None)"

definition termination_passed :: "command_termination \<Rightarrow> bool" where
  "termination_passed t \<longleftrightarrow> t = Exited 0"

definition validate_termination :: "command_termination \<Rightarrow> contract_result" where
  "validate_termination t =
     (case t of
        Exited code \<Rightarrow>
          ensure (\<not> sint code < 0)
            (ContractError ''command_termination_v1.code'' ''must be nonnegative'')
      | Signaled signal \<Rightarrow>
          ensure (\<not> sint signal \<le> 0)
            (ContractError ''command_termination_v1.signal'' ''must be greater than zero'')
      | _ \<Rightarrow> Inr ())"

section \<open>Command output artifacts\<close>

definition MAX_COMMAND_OUTPUT_ARTIFACT_ID_BYTES :: nat where
  "MAX_COMMAND_OUTPUT_ARTIFACT_ID_BYTES = 256"

definition COMMAND_OUTPUT_ARTIFACT_FORMAT_VERSION :: u32 where
  "COMMAND_OUTPUT_ARTIFACT_FORMAT_VERSION = 1"

definition COMMAND_OUTPUT_ARTIFACT_SET_DIGEST_DOMAIN :: string where
  "COMMAND_OUTPUT_ARTIFACT_SET_DIGEST_DOMAIN = ''grok-build/command-output-artifact-set/v1'' @ [NUL]"

definition COMMAND_STREAM_OUTPUT_DIGEST_DOMAIN :: string where
  "COMMAND_STREAM_OUTPUT_DIGEST_DOMAIN = ''grok-build/command-output/v1''"

datatype command_output_stream = Stdout | Stderr

record artifact_source =
  as_sprint_id :: string
  as_runner_launch_id :: string
  as_runner_session_id :: string
  as_effect_id :: string
  as_request_digest :: digest

definition validate_artifact_source :: "artifact_source \<Rightarrow> contract_result" where
  "validate_artifact_source s = seq
     [require_bounded_nonblank ''command_output_artifact_source_v1.sprint_id''
        (as_sprint_id s) MAX_COMMAND_OUTPUT_ARTIFACT_ID_BYTES,
      require_bounded_nonblank ''command_output_artifact_source_v1.runner_launch_id''
        (as_runner_launch_id s) MAX_COMMAND_OUTPUT_ARTIFACT_ID_BYTES,
      require_bounded_nonblank ''command_output_artifact_source_v1.runner_session_id''
        (as_runner_session_id s) MAX_COMMAND_OUTPUT_ARTIFACT_ID_BYTES,
      require_bounded_nonblank ''command_output_artifact_source_v1.effect_id''
        (as_effect_id s) MAX_COMMAND_OUTPUT_ARTIFACT_ID_BYTES]"

record stream_artifact =
  sa_stream :: command_output_stream
  sa_byte_length :: u64
  sa_content_digest :: digest

definition validate_stream_artifact ::
  "(string \<Rightarrow> string) \<Rightarrow> stream_artifact \<Rightarrow> contract_result" where
  "validate_stream_artifact sha s =
     ensure (\<not> (sa_byte_length s = 0 \<and> sa_content_digest s \<noteq> digest_sha256 sha []))
       (ContractError ''command_output_stream_artifact_v1.content_digest''
         ''a zero-length stream must carry the SHA-256 digest of empty bytes'')"

record artifact_manifest =
  am_format_version :: u32
  am_source :: artifact_source
  am_stdout :: stream_artifact
  am_stderr :: stream_artifact

record artifact_set = artifact_manifest +
  am_manifest_digest :: digest

record evidence_codec =
  cd_manifest :: "artifact_manifest encoder"
  cd_command :: "command_spec encoder"

definition compute_manifest_digest ::
  "(string \<Rightarrow> string) \<Rightarrow> evidence_codec \<Rightarrow> artifact_manifest \<Rightarrow> contract_error + digest" where
  "compute_manifest_digest sha cd m =
     bind_ok (map_err (\<lambda>e. ContractError ''command_output_artifact_set_reference_v1''
         (''cannot encode canonical manifest: '' @ e)) (cd_manifest cd m))
     (\<lambda>canonical.
       if length canonical < 2 ^ 64
       then Inr (digest_sha256 sha (COMMAND_OUTPUT_ARTIFACT_SET_DIGEST_DOMAIN
              @ u64_be_bytes (of_nat (length canonical)) @ canonical))
       else Inl (ContractError ''command_output_artifact_set_reference_v1''
              ''canonical manifest exceeds the supported 64-bit length''))"

definition validate_artifact_set ::
  "(string \<Rightarrow> string) \<Rightarrow> evidence_codec \<Rightarrow> artifact_set \<Rightarrow> contract_result" where
  "validate_artifact_set sha cd a =
     bind_ok (seq
       [ensure (am_format_version a = COMMAND_OUTPUT_ARTIFACT_FORMAT_VERSION)
          (ContractError ''command_output_artifact_set_reference_v1.format_version''
            (''expected version '' @ show_u32 COMMAND_OUTPUT_ARTIFACT_FORMAT_VERSION @
             '', got '' @ show_u32 (am_format_version a))),
        validate_artifact_source (am_source a),
        validate_stream_artifact sha (am_stdout a),
        validate_stream_artifact sha (am_stderr a),
        ensure (sa_stream (am_stdout a) = Stdout)
          (ContractError ''command_output_artifact_set_reference_v1.stdout.stream''
            ''must be stdout''),
        ensure (sa_stream (am_stderr a) = Stderr)
          (ContractError ''command_output_artifact_set_reference_v1.stderr.stream''
            ''must be stderr'')])
     (\<lambda>_. bind_ok (compute_manifest_digest sha cd (artifact_manifest.truncate a))
     (\<lambda>expected.
        ensure (am_manifest_digest a = expected)
          (ContractError ''command_output_artifact_set_reference_v1.manifest_digest''
            ''does not match the canonical artifact-set manifest'')))"

definition artifact_set_try_new ::
  "(string \<Rightarrow> string) \<Rightarrow> evidence_codec \<Rightarrow> artifact_source \<Rightarrow> stream_artifact \<Rightarrow> stream_artifact \<Rightarrow>
   contract_error + artifact_set" where
  "artifact_set_try_new sha cd source out err =
     (let m = \<lparr>am_format_version = COMMAND_OUTPUT_ARTIFACT_FORMAT_VERSION, am_source = source,
                am_stdout = out, am_stderr = err\<rparr> in
      bind_ok (compute_manifest_digest sha cd m) (\<lambda>d.
        let reference = artifact_manifest.extend m \<lparr>am_manifest_digest = d\<rparr>
        in bind_ok (validate_artifact_set sha cd reference) (\<lambda>_. Inr reference)))"

definition output_frame :: "string \<Rightarrow> string" where
  "output_frame bytes = u64_be_bytes (of_nat (length bytes)) @ bytes"

definition stream_frames :: "string \<Rightarrow> stream_artifact \<Rightarrow> string" where
  "stream_frames name s = output_frame name @ output_frame (u64_be_bytes (sa_byte_length s))
     @ output_frame (digest_str (sa_content_digest s))"

definition output_evidence_bytes ::
  "(string \<Rightarrow> string) \<Rightarrow> evidence_codec \<Rightarrow> artifact_set \<Rightarrow> contract_error + string" where
  "output_evidence_bytes sha cd a =
     bind_ok (validate_artifact_set sha cd a) (\<lambda>_.
       Inr (output_frame COMMAND_STREAM_OUTPUT_DIGEST_DOMAIN
            @ stream_frames ''stdout'' (am_stdout a) @ stream_frames ''stderr'' (am_stderr a)))"

section \<open>Verification receipts\<close>

record verification_receipt =
  vr_receipt_id :: string
  vr_sprint_id :: string
  vr_task_id :: "string option"
  vr_snapshot_id :: digest
  vr_command :: command_spec
  vr_policy_hash :: digest
  vr_exit_status :: "i32 option"
  vr_termination :: "command_termination option"
  vr_output_digest :: digest
  vr_duration_ms :: u64
  vr_finished_at_unix_ms :: u64

definition receipt_passed :: "verification_receipt \<Rightarrow> bool" where
  "receipt_passed r \<longleftrightarrow>
     (vr_termination r = None \<or> vr_termination r = Some (Exited 0)) \<and> vr_exit_status r = Some 0"

definition validate_receipt_termination :: "verification_receipt \<Rightarrow> contract_result" where
  "validate_receipt_termination r =
     (case (vr_termination r, vr_exit_status r) of
        (None, Some _) \<Rightarrow> Inr ()
      | (None, None) \<Rightarrow>
          Inl (ContractError ''verification_receipt.termination''
            ''historical receipts require exit_status and current receipts require typed termination'')
      | (Some (Exited code), Some status) \<Rightarrow> seq
          [validate_termination (Exited code),
           ensure (code = status)
             (ContractError ''verification_receipt.exit_status''
               ''must exactly match the typed normal-exit code'')]
      | (Some (Exited code), None) \<Rightarrow>
          Inl (ContractError ''verification_receipt.exit_status''
            ''typed normal exit requires its matching legacy exit status'')
      | (Some t, None) \<Rightarrow> validate_termination t
      | (Some t, Some _) \<Rightarrow> seq
          [validate_termination t,
           Inl (ContractError ''verification_receipt.exit_status''
             ''must be absent for a typed non-exit terminal'')])"

definition validate_verification_receipt :: "verification_receipt \<Rightarrow> contract_result" where
  "validate_verification_receipt r = seq
     [require_nonblank ''verification_receipt.receipt_id'' (vr_receipt_id r),
      require_nonblank ''verification_receipt.sprint_id'' (vr_sprint_id r),
      (case vr_task_id r of
         Some task_id \<Rightarrow> require_nonblank ''verification_receipt.task_id'' task_id
       | None \<Rightarrow> Inr ()),
      validate_command_spec (vr_command r),
      validate_receipt_termination r,
      require_nonzero_timestamp ''verification_receipt.finished_at_unix_ms''
        (vr_finished_at_unix_ms r)]"

definition validate_current_receipt :: "verification_receipt \<Rightarrow> contract_result" where
  "validate_current_receipt r = seq
     [validate_verification_receipt r,
      ensure (vr_termination r \<noteq> None)
        (ContractError ''verification_receipt.termination'' ''is required for current persistence'')]"

definition MAX_VERIFICATION_OUTPUT_EVIDENCE_BYTES :: nat where
  "MAX_VERIFICATION_OUTPUT_EVIDENCE_BYTES = 8 * 1048576"

record verification_effect_evidence =
  ve_contract_version :: u32
  ve_verification :: verification_receipt
  ve_effect_id :: string
  ve_observation_id :: string
  ve_runner_launch_id :: string
  ve_runner_session_id :: string
  ve_output_artifacts :: "artifact_set option"
  ve_output_evidence_bytes :: string

definition validate_output_artifacts ::
  "(string \<Rightarrow> string) \<Rightarrow> evidence_codec \<Rightarrow> verification_effect_evidence \<Rightarrow> artifact_set \<Rightarrow>
   contract_result" where
  "validate_output_artifacts sha cd v a =
     bind_ok (seq
       [validate_artifact_set sha cd a,
        ensure (as_sprint_id (am_source a) = vr_sprint_id (ve_verification v))
          (ContractError ''verification_effect_evidence.output_artifacts.source.sprint_id''
            ''must match the verification sprint''),
        ensure (as_runner_launch_id (am_source a) = ve_runner_launch_id v)
          (ContractError ''verification_effect_evidence.output_artifacts.source.runner_launch_id''
            ''must match the evidence runner launch''),
        ensure (as_runner_session_id (am_source a) = ve_runner_session_id v)
          (ContractError ''verification_effect_evidence.output_artifacts.source.runner_session_id''
            ''must match the evidence runner session''),
        ensure (as_effect_id (am_source a) = ve_effect_id v)
          (ContractError ''verification_effect_evidence.output_artifacts.source.effect_id''
            ''must match the evidence effect'')])
     (\<lambda>_. bind_ok
        (map_err (\<lambda>e. ContractError ''verification_effect_evidence.verification.command''
            (''cannot encode canonical command request: '' @ e))
          (cd_command cd (vr_command (ve_verification v))))
     (\<lambda>canonical_request. bind_ok
        (ensure (as_request_digest (am_source a) = digest_sha256 sha canonical_request)
          (ContractError ''verification_effect_evidence.output_artifacts.source.request_digest''
            ''must match the canonical verification command''))
     (\<lambda>_. bind_ok (output_evidence_bytes sha cd a)
     (\<lambda>bytes.
        ensure (bytes = ve_output_evidence_bytes v)
          (ContractError ''verification_effect_evidence.output_evidence_bytes''
            ''must exactly commit the artifact stdout/stderr lengths and digests'')))))"

definition validate_verification_evidence ::
  "(string \<Rightarrow> string) \<Rightarrow> evidence_codec \<Rightarrow> verification_effect_evidence \<Rightarrow> contract_result" where
  "validate_verification_evidence sha cd v = seq
     [require_version ''verification_effect_evidence.contract_version'' (ve_contract_version v),
      validate_verification_receipt (ve_verification v),
      require_nonblank ''verification_effect_evidence.effect_id'' (ve_effect_id v),
      require_nonblank ''verification_effect_evidence.observation_id'' (ve_observation_id v),
      require_nonblank ''verification_effect_evidence.runner_launch_id'' (ve_runner_launch_id v),
      require_nonblank ''verification_effect_evidence.runner_session_id'' (ve_runner_session_id v),
      ensure (ve_output_evidence_bytes v \<noteq> [])
        (ContractError ''verification_effect_evidence.output_evidence_bytes''
          ''must retain the canonical complete-stream output commitment preimage''),
      ensure (length (ve_output_evidence_bytes v) \<le> MAX_VERIFICATION_OUTPUT_EVIDENCE_BYTES)
        (ContractError ''verification_effect_evidence.output_evidence_bytes''
          (''must not exceed '' @ show_nat MAX_VERIFICATION_OUTPUT_EVIDENCE_BYTES @ '' bytes'')),
      ensure (digest_sha256 sha (ve_output_evidence_bytes v) = vr_output_digest (ve_verification v))
        (ContractError ''verification_effect_evidence.output_evidence_bytes''
          ''digest does not match the canonical complete-stream output commitment''),
      (case ve_output_artifacts v of
         Some artifacts \<Rightarrow> validate_output_artifacts sha cd v artifacts
       | None \<Rightarrow> Inr ())]"

definition validate_current_evidence ::
  "(string \<Rightarrow> string) \<Rightarrow> evidence_codec \<Rightarrow> verification_effect_evidence \<Rightarrow> contract_result" where
  "validate_current_evidence sha cd v = seq
     [validate_verification_evidence sha cd v,
      validate_current_receipt (ve_verification v),
      ensure (ve_output_artifacts v \<noteq> None)
        (ContractError ''verification_effect_evidence.output_artifacts''
          ''is required for current persistence'')]"

end
