(* ===== verification/Receipts.thy ===== *)
theory Receipts
  imports Evidence
begin

text \<open>
  The rest of \<open>contracts/execution.rs\<close>: human acceptance prompts and decisions, typed criterion
  evidence, the legacy acceptance receipts, and task integration receipts.
\<close>

section \<open>Human acceptance\<close>

datatype human_acceptance_backing = OneToOne

record human_acceptance_prompt =
  hp_prompt_id :: string
  hp_ui_session_id :: string
  hp_sprint_id :: string
  hp_criterion_id :: string
  hp_criterion_text_digest :: digest
  hp_snapshot_digest :: digest
  hp_workspace_grant_hash :: digest
  hp_rendered_claim_digest :: digest
  hp_backing :: human_acceptance_backing
  hp_issued_event_sequence :: u64

definition validate_prompt :: "human_acceptance_prompt \<Rightarrow> contract_result" where
  "validate_prompt p = seq
     [require_nonblank ''human_acceptance_prompt.prompt_id'' (hp_prompt_id p),
      require_nonblank ''human_acceptance_prompt.ui_session_id'' (hp_ui_session_id p),
      require_nonblank ''human_acceptance_prompt.sprint_id'' (hp_sprint_id p),
      require_nonblank ''human_acceptance_prompt.criterion_id'' (hp_criterion_id p),
      ensure (hp_issued_event_sequence p \<noteq> 0)
        (ContractError ''human_acceptance_prompt.issued_event_sequence''
          ''must be greater than zero'')]"

datatype human_acceptance_outcome = OutcomeAcceptedByYou | OutcomeRejectedByYou

record human_acceptance_decision =
  hd_decision_id :: string
  hd_prompt_id :: string
  hd_outcome :: human_acceptance_outcome
  hd_consumed_event_sequence :: u64
  hd_decided_at :: u64

definition validate_decision :: "human_acceptance_decision \<Rightarrow> contract_result" where
  "validate_decision d = seq
     [require_nonblank ''human_acceptance_decision.decision_id'' (hd_decision_id d),
      require_nonblank ''human_acceptance_decision.prompt_id'' (hd_prompt_id d),
      ensure (hd_consumed_event_sequence d \<noteq> 0)
        (ContractError ''human_acceptance_decision.consumed_event_sequence''
          ''must be greater than zero''),
      require_nonzero_timestamp ''human_acceptance_decision.decided_at'' (hd_decided_at d)]"

section \<open>Criterion evidence\<close>

text \<open>
  The five fields both variants share keep one selector each, as the accessors \<open>receipt_id()\<close>,
  \<open>sprint_id()\<close>, \<open>criterion_id()\<close>, \<open>snapshot_digest()\<close> and \<open>recorded_at()\<close> do.
\<close>

datatype criterion_evidence =
    Verified (ce_receipt_id: string) (ce_sprint_id: string) (ce_criterion_id: string)
      (ce_snapshot_digest: digest) string (ce_recorded_at: u64)
  | AcceptedByYou (ce_receipt_id: string) (ce_sprint_id: string) (ce_criterion_id: string)
      (ce_snapshot_digest: digest) string string human_acceptance_backing (ce_recorded_at: u64)

definition validate_criterion_evidence :: "criterion_evidence \<Rightarrow> contract_result" where
  "validate_criterion_evidence c = seq
     [require_nonblank ''criterion_evidence_receipt.receipt_id'' (ce_receipt_id c),
      require_nonblank ''criterion_evidence_receipt.sprint_id'' (ce_sprint_id c),
      require_nonblank ''criterion_evidence_receipt.criterion_id'' (ce_criterion_id c),
      (case c of
         Verified _ _ _ _ verification_receipt_id _ \<Rightarrow>
           require_nonblank ''criterion_evidence_receipt.verification_receipt_id''
             verification_receipt_id
       | AcceptedByYou _ _ _ _ human_decision_id prompt_id _ _ \<Rightarrow> seq
           [require_nonblank ''criterion_evidence_receipt.human_decision_id'' human_decision_id,
            require_nonblank ''criterion_evidence_receipt.prompt_id'' prompt_id]),
      require_nonzero_timestamp ''criterion_evidence_receipt.recorded_at'' (ce_recorded_at c)]"

datatype acceptance_evidence = AutomatedEvidence string | HumanJudgmentEvidence string bool

record acceptance_receipt =
  rc_receipt_id :: string
  rc_sprint_id :: string
  rc_criterion_id :: string
  rc_snapshot_id :: digest
  rc_evidence :: acceptance_evidence
  rc_accepted_at_unix_ms :: u64

definition validate_acceptance_receipt :: "acceptance_receipt \<Rightarrow> contract_result" where
  "validate_acceptance_receipt r = seq
     [require_nonblank ''acceptance_receipt.receipt_id'' (rc_receipt_id r),
      require_nonblank ''acceptance_receipt.sprint_id'' (rc_sprint_id r),
      require_nonblank ''acceptance_receipt.criterion_id'' (rc_criterion_id r),
      (case rc_evidence r of
         AutomatedEvidence verification_receipt_id \<Rightarrow>
           require_nonblank ''acceptance_receipt.verification_receipt_id'' verification_receipt_id
       | HumanJudgmentEvidence decision_id accepted \<Rightarrow> seq
           [require_nonblank ''acceptance_receipt.decision_id'' decision_id,
            ensure accepted
              (ContractError ''acceptance_receipt.accepted''
                ''an acceptance receipt must record an accepted decision'')]),
      require_nonzero_timestamp ''acceptance_receipt.accepted_at_unix_ms''
        (rc_accepted_at_unix_ms r)]"

section \<open>Task integration receipts\<close>

record task_integration_receipt =
  ti_contract_version :: u32
  ti_receipt_id :: string
  ti_sprint_id :: string
  ti_task_id :: string
  ti_worker_id :: string
  ti_worker_lease :: "worker_lease option"
  ti_worker_launch_id :: string
  ti_worker_session_id :: string
  ti_worker_policy_hash :: digest
  ti_effect_id :: string
  ti_observation_id :: string
  ti_change_set_id :: string
  ti_input_snapshot :: digest
  ti_result_snapshot :: digest
  ti_task_verification_receipt_ids :: "string list"
  ti_integration_ordinal :: u32
  ti_integrated_at_unix_ms :: u64

definition validate_task_integration_receipt ::
  "(string \<Rightarrow> string) \<Rightarrow> task_integration_receipt \<Rightarrow> contract_result" where
  "validate_task_integration_receipt sha r =
     bind_ok (seq
       [require_contract_envelope ''task_integration_receipt.contract_version''
          (ti_contract_version r) ''task_integration_receipt.receipt_id'' (ti_receipt_id r)
          ''task_integration_receipt.sprint_id'' (ti_sprint_id r),
        require_nonblank ''task_integration_receipt.task_id'' (ti_task_id r),
        require_nonblank ''task_integration_receipt.worker_id'' (ti_worker_id r)])
     (\<lambda>_. bind_ok
        (ok_or (ti_worker_lease r)
          (ContractError ''task_integration_receipt.worker_lease''
            ''v14 receipts require one exact durable worker lease''))
     (\<lambda>lease. seq
       [validate_assignment sha lease (ti_sprint_id r) (ti_task_id r) (ti_worker_id r),
        require_nonblank ''task_integration_receipt.worker_launch_id'' (ti_worker_launch_id r),
        require_nonblank ''task_integration_receipt.worker_session_id'' (ti_worker_session_id r),
        require_nonblank ''task_integration_receipt.effect_id'' (ti_effect_id r),
        require_nonblank ''task_integration_receipt.observation_id'' (ti_observation_id r),
        require_nonblank ''task_integration_receipt.change_set_id'' (ti_change_set_id r),
        require_unique_nonblank ''task_integration_receipt.task_verification_receipt_ids''
          (ti_task_verification_receipt_ids r),
        require_nonzero_timestamp ''task_integration_receipt.integrated_at_unix_ms''
          (ti_integrated_at_unix_ms r),
        ensure (\<not> ti_integrated_at_unix_ms r < wl_acquired_at_unix_ms lease)
          (ContractError ''task_integration_receipt.integrated_at_unix_ms''
            ''must not precede lease acquisition'')]))"

end
