(* ===== verification/Runner.thy ===== *)
theory Runner
  imports Receipts
begin

text \<open>
  Runner launches, sessions and cleanup of \<open>contracts/application.rs\<close>: the durable intent to
  spawn a runner, the registration of the session it initialised, and the proof that no process
  of its accounting domain survived.
\<close>

datatype worker_cleanup_backend =
  MacOsDedicatedIdentity | LinuxCgroupV2 | TrustedApplierDirectChildWait

datatype runner_session_purpose = TaskWorker | FinalVerifier | LiveStateVerifier | Applier

record runner_launch_intent =
  la_contract_version :: u32
  la_launch_id :: string
  la_sprint_id :: string
  la_session_id :: string
  la_purpose :: runner_session_purpose
  la_worker_id :: "string option"
  la_worker_lease :: "worker_lease option"
  la_policy_hash :: digest
  la_runner_binary_digest :: digest
  la_protocol_digest :: digest
  la_private_state_digest :: digest
  la_grant_hash :: digest
  la_policy_version :: u32
  la_created_at_unix_ms :: u64

record runner_session_policy_record =
  rs_contract_version :: u32
  rs_sprint_id :: string
  rs_launch_id :: string
  rs_session_id :: string
  rs_purpose :: runner_session_purpose
  rs_worker_id :: "string option"
  rs_worker_lease :: "worker_lease option"
  rs_policy_hash :: digest
  rs_session_nonce :: digest
  rs_runner_binary_digest :: digest
  rs_protocol_digest :: digest
  rs_private_state_digest :: digest
  rs_grant_hash :: digest
  rs_policy_version :: u32
  rs_registered_at_unix_ms :: u64

definition validate_session_role ::
  "(string \<Rightarrow> string) \<Rightarrow> runner_session_policy_record \<Rightarrow> contract_result" where
  "validate_session_role sha s =
     (case (rs_purpose s, rs_worker_id s, rs_worker_lease s) of
        (TaskWorker, Some worker_id, Some lease) \<Rightarrow> seq
          [validate_worker_lease sha lease,
           ensure (\<not> (wl_sprint_id lease \<noteq> rs_sprint_id s \<or> wl_worker_id lease \<noteq> worker_id))
             (ContractError ''runner_session_policy.worker_lease''
               ''must exactly match the session sprint and worker''),
           ensure (\<not> rs_registered_at_unix_ms s < wl_acquired_at_unix_ms lease)
             (ContractError ''runner_session_policy.registered_at_unix_ms''
               ''must not precede lease acquisition'')]
      | (TaskWorker, _, _) \<Rightarrow>
          Inl (ContractError ''runner_session_policy.worker_lease''
            ''task-worker sessions require one exact worker and lease identity'')
      | (_, None, None) \<Rightarrow> Inr ()
      | (_, _, _) \<Rightarrow>
          Inl (ContractError ''runner_session_policy.worker_lease''
            ''verifier and applier sessions must not claim a worker lease''))"

definition validate_runner_session ::
  "(string \<Rightarrow> string) \<Rightarrow> runner_session_policy_record \<Rightarrow> contract_result" where
  "validate_runner_session sha s = seq
     [require_version ''runner_session_policy.contract_version'' (rs_contract_version s),
      require_nonblank ''runner_session_policy.sprint_id'' (rs_sprint_id s),
      require_nonblank ''runner_session_policy.launch_id'' (rs_launch_id s),
      require_nonblank ''runner_session_policy.session_id'' (rs_session_id s),
      validate_session_role sha s,
      ensure (rs_policy_version s \<noteq> 0)
        (ContractError ''runner_session_policy.policy_version'' ''must be greater than zero''),
      require_nonzero_timestamp ''runner_session_policy.registered_at_unix_ms''
        (rs_registered_at_unix_ms s)]"

definition session_of_launch :: "runner_launch_intent \<Rightarrow> runner_session_policy_record" where
  "session_of_launch l =
     \<lparr>rs_contract_version = la_contract_version l, rs_sprint_id = la_sprint_id l,
      rs_launch_id = la_launch_id l, rs_session_id = la_session_id l,
      rs_purpose = la_purpose l, rs_worker_id = la_worker_id l,
      rs_worker_lease = la_worker_lease l, rs_policy_hash = la_policy_hash l,
      rs_session_nonce = la_policy_hash l,
      rs_runner_binary_digest = la_runner_binary_digest l,
      rs_protocol_digest = la_protocol_digest l,
      rs_private_state_digest = la_private_state_digest l,
      rs_grant_hash = la_grant_hash l, rs_policy_version = la_policy_version l,
      rs_registered_at_unix_ms = la_created_at_unix_ms l\<rparr>"

definition validate_runner_launch ::
  "(string \<Rightarrow> string) \<Rightarrow> runner_launch_intent \<Rightarrow> contract_result" where
  "validate_runner_launch sha l = seq
     [validate_runner_session sha (session_of_launch l),
      require_nonblank ''runner_launch_intent.launch_id'' (la_launch_id l)]"

section \<open>Cleanup\<close>

record worker_cleanup_request =
  cq_contract_version :: u32
  cq_sprint_id :: string
  cq_launch_id :: string
  cq_session_id :: string
  cq_policy_hash :: digest
  cq_grant_hash :: digest
  cq_policy_version :: u32
  cq_platform_backend :: worker_cleanup_backend

definition validate_cleanup_request :: "worker_cleanup_request \<Rightarrow> contract_result" where
  "validate_cleanup_request r = seq
     [require_version ''worker_cleanup_request.contract_version'' (cq_contract_version r),
      require_nonblank ''worker_cleanup_request.sprint_id'' (cq_sprint_id r),
      require_nonblank ''worker_cleanup_request.launch_id'' (cq_launch_id r),
      require_nonblank ''worker_cleanup_request.session_id'' (cq_session_id r),
      ensure (cq_policy_version r \<noteq> 0)
        (ContractError ''worker_cleanup_request.policy_version'' ''must be greater than zero'')]"

record worker_cleanup_receipt =
  cr_contract_version :: u32
  cr_receipt_id :: string
  cr_sprint_id :: string
  cr_launch_id :: string
  cr_effect_id :: string
  cr_observation_id :: string
  cr_session_id :: string
  cr_worker_lease :: "worker_lease option"
  cr_policy_hash :: digest
  cr_grant_hash :: digest
  cr_policy_version :: u32
  cr_platform_backend :: worker_cleanup_backend
  cr_os_evidence_digest :: digest
  cr_surviving_processes :: u64
  cr_cleaned_at_unix_ms :: u64

definition validate_cleanup_receipt ::
  "(string \<Rightarrow> string) \<Rightarrow> worker_cleanup_receipt \<Rightarrow> contract_result" where
  "validate_cleanup_receipt sha r = seq
     [require_contract_envelope ''worker_cleanup_receipt.contract_version''
        (cr_contract_version r) ''worker_cleanup_receipt.receipt_id'' (cr_receipt_id r)
        ''worker_cleanup_receipt.sprint_id'' (cr_sprint_id r),
      require_nonblank ''worker_cleanup_receipt.effect_id'' (cr_effect_id r),
      require_nonblank ''worker_cleanup_receipt.launch_id'' (cr_launch_id r),
      require_nonblank ''worker_cleanup_receipt.observation_id'' (cr_observation_id r),
      require_nonblank ''worker_cleanup_receipt.session_id'' (cr_session_id r),
      (case cr_worker_lease r of
         None \<Rightarrow> Inr ()
       | Some lease \<Rightarrow> seq
           [validate_worker_lease sha lease,
            ensure (wl_sprint_id lease = cr_sprint_id r)
              (ContractError ''worker_cleanup_receipt.worker_lease''
                ''must belong to the cleanup sprint''),
            ensure (\<not> cr_cleaned_at_unix_ms r < wl_acquired_at_unix_ms lease)
              (ContractError ''worker_cleanup_receipt.cleaned_at_unix_ms''
                ''must not precede lease acquisition'')]),
      ensure (cr_policy_version r \<noteq> 0)
        (ContractError ''worker_cleanup_receipt.policy_version'' ''must be greater than zero''),
      ensure (cr_surviving_processes r = 0)
        (ContractError ''worker_cleanup_receipt.surviving_processes'' ''must be zero''),
      require_nonzero_timestamp ''worker_cleanup_receipt.cleaned_at_unix_ms''
        (cr_cleaned_at_unix_ms r)]"

definition MAX_WORKER_CLEANUP_EVIDENCE_BYTES :: nat where
  "MAX_WORKER_CLEANUP_EVIDENCE_BYTES = 1048576"

record worker_cleanup_evidence =
  cv_receipt :: worker_cleanup_receipt
  cv_os_evidence_bytes :: string

definition validate_cleanup_evidence ::
  "(string \<Rightarrow> string) \<Rightarrow> worker_cleanup_evidence \<Rightarrow> contract_result" where
  "validate_cleanup_evidence sha e = seq
     [validate_cleanup_receipt sha (cv_receipt e),
      ensure (cv_os_evidence_bytes e \<noteq> [])
        (ContractError ''worker_cleanup_evidence.os_evidence_bytes''
          ''must retain the authoritative operating-system evidence''),
      ensure (length (cv_os_evidence_bytes e) \<le> MAX_WORKER_CLEANUP_EVIDENCE_BYTES)
        (ContractError ''worker_cleanup_evidence.os_evidence_bytes''
          (''must not exceed '' @ show_nat MAX_WORKER_CLEANUP_EVIDENCE_BYTES @ '' bytes'')),
      ensure (digest_sha256 sha (cv_os_evidence_bytes e) = cr_os_evidence_digest (cv_receipt e))
        (ContractError ''worker_cleanup_evidence.os_evidence_bytes''
          ''digest does not match the retained operating-system evidence'')]"

section \<open>What accepted records say\<close>

text \<open>A session or launch carries a worker and a lease exactly when it is a task worker's.\<close>

definition lease_fits_role ::
  "(string \<Rightarrow> string) \<Rightarrow> runner_session_purpose \<Rightarrow> string \<Rightarrow> string option \<Rightarrow> worker_lease option \<Rightarrow>
   u64 \<Rightarrow> bool" where
  "lease_fits_role sha purpose sprint worker lease at \<longleftrightarrow>
     (if purpose = TaskWorker
      then \<exists>w l. worker = Some w \<and> lease = Some l \<and> validate_worker_lease sha l = Inr () \<and>
             wl_sprint_id l = sprint \<and> wl_worker_id l = w \<and> wl_acquired_at_unix_ms l \<le> at
      else worker = None \<and> lease = None)"

lemma validate_session_role_ok [ok_iff]:
  "validate_session_role sha s = Inr u \<longleftrightarrow>
     lease_fits_role sha (rs_purpose s) (rs_sprint_id s) (rs_worker_id s) (rs_worker_lease s)
       (rs_registered_at_unix_ms s)"
  by (auto simp: validate_session_role_def lease_fits_role_def not_less
      split: runner_session_purpose.splits option.splits)

lemma validate_runner_session_ok [ok_iff]:
  "validate_runner_session sha s = Inr u \<longleftrightarrow>
     rs_contract_version s = CONTRACT_VERSION \<and> \<not> blank (rs_sprint_id s) \<and>
     \<not> blank (rs_launch_id s) \<and> \<not> blank (rs_session_id s) \<and>
     lease_fits_role sha (rs_purpose s) (rs_sprint_id s) (rs_worker_id s) (rs_worker_lease s)
       (rs_registered_at_unix_ms s) \<and> rs_policy_version s \<noteq> 0 \<and> rs_registered_at_unix_ms s \<noteq> 0"
  by (auto simp: validate_runner_session_def validate_session_role_ok)

lemma validate_runner_launch_ok [ok_iff]:
  "validate_runner_launch sha l = Inr u \<longleftrightarrow>
     la_contract_version l = CONTRACT_VERSION \<and> \<not> blank (la_sprint_id l) \<and>
     \<not> blank (la_launch_id l) \<and> \<not> blank (la_session_id l) \<and>
     lease_fits_role sha (la_purpose l) (la_sprint_id l) (la_worker_id l) (la_worker_lease l)
       (la_created_at_unix_ms l) \<and> la_policy_version l \<noteq> 0 \<and> la_created_at_unix_ms l \<noteq> 0"
  by (auto simp: validate_runner_launch_def session_of_launch_def validate_runner_session_ok)

lemma validate_cleanup_receiptD:
  assumes "validate_cleanup_receipt sha r = Inr ()"
  shows "cr_surviving_processes r = 0" "cr_cleaned_at_unix_ms r \<noteq> 0" "\<not> blank (cr_receipt_id r)"
    and "cr_worker_lease r = Some l \<Longrightarrow> validate_worker_lease sha l = Inr () \<and>
      wl_sprint_id l = cr_sprint_id r \<and> wl_acquired_at_unix_ms l \<le> cr_cleaned_at_unix_ms r"
  using assms by (auto simp: validate_cleanup_receipt_def not_less split: option.splits)

lemma validate_cleanup_evidenceD:
  assumes "validate_cleanup_evidence sha e = Inr ()"
  shows "validate_cleanup_receipt sha (cv_receipt e) = Inr ()"
    and "digest_sha256 sha (cv_os_evidence_bytes e) = cr_os_evidence_digest (cv_receipt e)"
    and "cv_os_evidence_bytes e \<noteq> []"
  using assms by (auto simp: validate_cleanup_evidence_def)

end
