(* ===== verification/Application.thy ===== *)
theory Application
  imports Runner
begin

text \<open>
  Application and rollback records of \<open>contracts/application.rs\<close>: the requests committed before
  an artifact may be published or applied, the receipts of a successful application or rollback,
  and the evidence envelopes that say which runner validated them. The JSON encodings of whole
  requests are parameters, as in \<open>Execution\<close>.
\<close>

section \<open>Requests\<close>

definition MAX_TASK_INTEGRATION_REQUEST_BYTES :: nat where
  "MAX_TASK_INTEGRATION_REQUEST_BYTES = 8 * 1048576 - 64 * 1024"

definition MAX_APPLICATION_REQUEST_BYTES :: nat where
  "MAX_APPLICATION_REQUEST_BYTES = 8 * 1048576 - 64 * 1024"

text \<open>\<open>ApplicationRequest\<close> and \<open>TaskIntegrationRequest\<close> have the same three fields.\<close>

record application_request =
  aq_contract_version :: u32
  aq_change_set :: change_set
  aq_artifact :: task_integration_artifact_reference

record task_integration_request =
  tq_contract_version :: u32
  tq_change_set :: change_set
  tq_artifact :: task_integration_artifact_reference

definition artifact_carries :: "change_set \<Rightarrow> task_integration_artifact_reference \<Rightarrow> bool" where
  "artifact_carries c a \<longleftrightarrow>
     \<not> (ch_change_set_id c \<noteq> ar_change_set_id a \<or> ch_base_snapshot c \<noteq> ar_base_snapshot a \<or>
        ch_result_snapshot c \<noteq> ar_result_snapshot a)"

definition validate_application_request ::
  "application_request encoder \<Rightarrow> application_request \<Rightarrow> contract_result" where
  "validate_application_request enc q =
     bind_ok (seq
       [require_version ''application_request.contract_version'' (aq_contract_version q),
        validate_change_set (aq_change_set q),
        ensure (ch_operations (aq_change_set q) \<noteq> [])
          (ContractError ''application_request.change_set''
            ''live application requires a nonempty change set; use VerifiedNoOp completion''),
        validate_artifact_reference (aq_artifact q),
        ensure (artifact_carries (aq_change_set q) (aq_artifact q))
          (ContractError ''application_request.artifact''
            ''must identify the exact requested change set and snapshot transition'')])
     (\<lambda>_. bind_ok (map_err (\<lambda>e. ContractError ''application_request''
            (''cannot encode canonically: '' @ e)) (enc q))
     (\<lambda>canonical.
        ensure (length canonical \<le> MAX_APPLICATION_REQUEST_BYTES)
          (ContractError ''application_request''
            (''canonical request exceeds '' @ show_nat MAX_APPLICATION_REQUEST_BYTES @ '' bytes''))))"

definition validate_task_integration_request ::
  "task_integration_request encoder \<Rightarrow> task_integration_request \<Rightarrow> contract_result" where
  "validate_task_integration_request enc q =
     bind_ok (seq
       [require_version ''task_integration_request.contract_version'' (tq_contract_version q),
        validate_change_set (tq_change_set q),
        validate_artifact_reference (tq_artifact q),
        ensure (artifact_carries (tq_change_set q) (tq_artifact q))
          (ContractError ''task_integration_request.artifact''
            ''must identify the exact requested change set and snapshot transition'')])
     (\<lambda>_. bind_ok (map_err (\<lambda>e. ContractError ''task_integration_request''
            (''cannot encode canonically: '' @ e)) (enc q))
     (\<lambda>canonical.
        ensure (length canonical \<le> MAX_TASK_INTEGRATION_REQUEST_BYTES)
          (ContractError ''task_integration_request''
            (''canonical request exceeds '' @ show_nat MAX_TASK_INTEGRATION_REQUEST_BYTES
             @ '' bytes''))))"

section \<open>Task integration evidence\<close>

datatype task_integration_validation_mode =
  WorkerPublication | IntegrationRecoveryReconciliation

record task_integration_validation =
  tv_mode :: task_integration_validation_mode
  tv_runner_launch_id :: string
  tv_runner_session_id :: string
  tv_policy_hash :: digest
  tv_grant_hash :: digest
  tv_private_state_digest :: digest

definition validate_task_integration_validation ::
  "task_integration_validation \<Rightarrow> contract_result" where
  "validate_task_integration_validation v = seq
     [require_nonblank ''task_integration_validation_evidence.runner_launch_id''
        (tv_runner_launch_id v),
      require_nonblank ''task_integration_validation_evidence.runner_session_id''
        (tv_runner_session_id v)]"

record task_integration_evidence =
  tn_contract_version :: u32
  tn_receipt :: task_integration_receipt
  tn_artifact :: task_integration_artifact_reference
  tn_validation :: task_integration_validation

definition validate_task_integration_evidence ::
  "(string \<Rightarrow> string) \<Rightarrow> task_integration_evidence \<Rightarrow> contract_result" where
  "validate_task_integration_evidence sha e =
     (let r = tn_receipt e; a = tn_artifact e; v = tn_validation e in seq
     [require_version ''task_integration_evidence.contract_version'' (tn_contract_version e),
      validate_task_integration_receipt sha r,
      validate_artifact_reference a,
      validate_task_integration_validation v,
      ensure (\<not> (ti_change_set_id r \<noteq> ar_change_set_id a \<or>
                 ti_input_snapshot r \<noteq> ar_base_snapshot a \<or>
                 ti_result_snapshot r \<noteq> ar_result_snapshot a))
        (ContractError ''task_integration_evidence.artifact''
          ''must carry the receipt's exact change set and snapshot transition''),
      (case tv_mode v of
         WorkerPublication \<Rightarrow>
           ensure (\<not> (tv_runner_launch_id v \<noteq> ti_worker_launch_id r \<or>
                      tv_runner_session_id v \<noteq> ti_worker_session_id r \<or>
                      tv_policy_hash v \<noteq> ti_worker_policy_hash r))
             (ContractError ''task_integration_evidence.validation''
               ''worker publication must name the receipt's exact worker launch, session, and policy'')
       | IntegrationRecoveryReconciliation \<Rightarrow>
           ensure (\<not> (tv_runner_launch_id v = ti_worker_launch_id r \<or>
                      tv_runner_session_id v = ti_worker_session_id r))
             (ContractError ''task_integration_evidence.validation''
               ''recovery reconciliation requires a distinct applier launch and session''))])"

section \<open>Application receipts\<close>

record application_receipt =
  ap_contract_version :: u32
  ap_receipt_id :: string
  ap_sprint_id :: string
  ap_effect_id :: string
  ap_observation_id :: string
  ap_applier_session_id :: string
  ap_transaction_id :: string
  ap_change_set_id :: string
  ap_base_snapshot :: digest
  ap_result_snapshot :: digest
  ap_policy_hash :: digest
  ap_grant_hash :: digest
  ap_policy_version :: u32
  ap_applied_operations_digest :: digest
  ap_touched_path_endpoints_digest :: digest
  ap_live_manifest_digest :: digest
  ap_applied_at_unix_ms :: u64

definition validate_application_receipt :: "application_receipt \<Rightarrow> contract_result" where
  "validate_application_receipt r = seq
     [require_contract_envelope ''application_receipt.contract_version'' (ap_contract_version r)
        ''application_receipt.receipt_id'' (ap_receipt_id r)
        ''application_receipt.sprint_id'' (ap_sprint_id r),
      require_nonblank ''application_receipt.effect_id'' (ap_effect_id r),
      require_nonblank ''application_receipt.observation_id'' (ap_observation_id r),
      require_nonblank ''application_receipt.applier_session_id'' (ap_applier_session_id r),
      require_nonblank ''application_receipt.transaction_id'' (ap_transaction_id r),
      require_nonblank ''application_receipt.change_set_id'' (ap_change_set_id r),
      ensure (ap_base_snapshot r \<noteq> ap_result_snapshot r)
        (ContractError ''application_receipt.result_snapshot'' ''must differ from the base snapshot''),
      ensure (ap_policy_version r \<noteq> 0)
        (ContractError ''application_receipt.policy_version'' ''must be greater than zero''),
      require_nonzero_timestamp ''application_receipt.applied_at_unix_ms''
        (ap_applied_at_unix_ms r)]"

record journal_binding =
  jb_receipt_id :: string
  jb_sprint_id :: string
  jb_applier_session_id :: string
  jb_transaction_id :: string
  jb_change_set_id :: string
  jb_base_snapshot :: digest
  jb_result_snapshot :: digest
  jb_applied_operations_digest :: digest
  jb_touched_path_endpoints_digest :: digest
  jb_grant_hash :: digest
  jb_policy_version :: u32

definition journal_binding_of :: "application_receipt \<Rightarrow> journal_binding" where
  "journal_binding_of r =
     \<lparr>jb_receipt_id = ap_receipt_id r, jb_sprint_id = ap_sprint_id r,
      jb_applier_session_id = ap_applier_session_id r,
      jb_transaction_id = ap_transaction_id r, jb_change_set_id = ap_change_set_id r,
      jb_base_snapshot = ap_base_snapshot r, jb_result_snapshot = ap_result_snapshot r,
      jb_applied_operations_digest = ap_applied_operations_digest r,
      jb_touched_path_endpoints_digest = ap_touched_path_endpoints_digest r,
      jb_grant_hash = ap_grant_hash r, jb_policy_version = ap_policy_version r\<rparr>"

definition journal_binding_digest ::
  "(string \<Rightarrow> string) \<Rightarrow> journal_binding encoder \<Rightarrow> application_receipt \<Rightarrow> contract_error + digest" where
  "journal_binding_digest sha enc r = digest_canonical_contract sha enc
     (''grok-build.application-journal-binding.v1'' @ [NUL]) (journal_binding_of r)
     ''application_receipt''"

datatype application_validation_mode = DirectEffectResponse | RecoveryApplierReconciliation

record application_validation =
  av_mode :: application_validation_mode
  av_runner_launch_id :: string
  av_runner_session_id :: string
  av_policy_hash :: digest
  av_grant_hash :: digest
  av_policy_version :: u32
  av_private_state_digest :: digest

definition validate_application_validation :: "application_validation \<Rightarrow> contract_result" where
  "validate_application_validation v = seq
     [require_nonblank ''application_validation_evidence.runner_launch_id'' (av_runner_launch_id v),
      require_nonblank ''application_validation_evidence.runner_session_id'' (av_runner_session_id v),
      ensure (av_policy_version v \<noteq> 0)
        (ContractError ''application_validation_evidence.policy_version''
          ''must be greater than zero'')]"

record application_evidence =
  ax_contract_version :: u32
  ax_receipt :: application_receipt
  ax_validation :: application_validation

definition validate_application_evidence :: "application_evidence \<Rightarrow> contract_result" where
  "validate_application_evidence e =
     (let r = ax_receipt e; v = ax_validation e in seq
     [require_version ''application_evidence.contract_version'' (ax_contract_version e),
      validate_application_receipt r,
      validate_application_validation v,
      ensure (\<not> (av_policy_hash v \<noteq> ap_policy_hash r \<or> av_grant_hash v \<noteq> ap_grant_hash r \<or>
                 av_policy_version v \<noteq> ap_policy_version r))
        (ContractError ''application_evidence.validation''
          ''must retain the receipt's exact policy and workspace grant authority''),
      (case av_mode v of
         DirectEffectResponse \<Rightarrow>
           ensure (av_runner_session_id v = ap_applier_session_id r)
             (ContractError ''application_evidence.validation''
               ''direct validation must name the receipt's executing applier session'')
       | RecoveryApplierReconciliation \<Rightarrow>
           ensure (av_runner_session_id v \<noteq> ap_applier_session_id r)
             (ContractError ''application_evidence.validation''
               ''recovery validation requires a distinct applier session''))])"

lemma validate_application_evidenceD:
  assumes "validate_application_evidence e = Inr ()"
  shows "validate_application_receipt (ax_receipt e) = Inr ()"
    and "av_policy_hash (ax_validation e) = ap_policy_hash (ax_receipt e)"
    and "av_grant_hash (ax_validation e) = ap_grant_hash (ax_receipt e)"
    and "av_mode (ax_validation e) = DirectEffectResponse \<longleftrightarrow>
      av_runner_session_id (ax_validation e) = ap_applier_session_id (ax_receipt e)"
  using assms
  by (auto simp: validate_application_evidence_def Let_def
      split: application_validation_mode.splits)

end
