(* ===== verification/Rollback.thy ===== *)
theory Rollback
  imports Application
begin

text \<open>
  Rollback references, requests, receipts and evidence, the receipts about a workspace that was
  not changed, live conflicts, and final reports of \<open>contracts/application.rs\<close>.
\<close>

section \<open>Rollback references\<close>

record rollback_reference =
  rf_contract_version :: u32
  rf_reference_id :: string
  rf_sprint_id :: string
  rf_application_receipt_id :: string
  rf_transaction_id :: string
  rf_journal_binding_digest :: digest
  rf_base_snapshot :: digest
  rf_touched_target_set_digest :: digest
  rf_reopened_artifacts_digest :: digest
  rf_validated_at_unix_ms :: u64

definition validate_rollback_reference :: "rollback_reference \<Rightarrow> contract_result" where
  "validate_rollback_reference r = seq
     [require_contract_envelope ''rollback_reference.contract_version'' (rf_contract_version r)
        ''rollback_reference.reference_id'' (rf_reference_id r)
        ''rollback_reference.sprint_id'' (rf_sprint_id r),
      require_nonblank ''rollback_reference.application_receipt_id'' (rf_application_receipt_id r),
      require_nonblank ''rollback_reference.transaction_id'' (rf_transaction_id r),
      require_nonzero_timestamp ''rollback_reference.validated_at_unix_ms''
        (rf_validated_at_unix_ms r)]"

definition MAX_ROLLBACK_REFERENCE_EVIDENCE_BYTES :: nat where
  "MAX_ROLLBACK_REFERENCE_EVIDENCE_BYTES = 8 * 1048576"

record rollback_reference_evidence =
  rv_reference :: rollback_reference
  rv_reopened_artifacts_bytes :: string

definition validate_rollback_reference_evidence ::
  "(string \<Rightarrow> string) \<Rightarrow> rollback_reference_evidence \<Rightarrow> contract_result" where
  "validate_rollback_reference_evidence sha e = seq
     [validate_rollback_reference (rv_reference e),
      ensure (rv_reopened_artifacts_bytes e \<noteq> [])
        (ContractError ''rollback_reference_evidence.reopened_artifacts_bytes''
          ''must retain the reopened rollback artifacts''),
      ensure (length (rv_reopened_artifacts_bytes e) \<le> MAX_ROLLBACK_REFERENCE_EVIDENCE_BYTES)
        (ContractError ''rollback_reference_evidence.reopened_artifacts_bytes''
          (''must not exceed '' @ show_nat MAX_ROLLBACK_REFERENCE_EVIDENCE_BYTES @ '' bytes'')),
      ensure (digest_sha256 sha (rv_reopened_artifacts_bytes e)
              = rf_reopened_artifacts_digest (rv_reference e))
        (ContractError ''rollback_reference_evidence.reopened_artifacts_bytes''
          ''digest does not match the retained reopened artifacts'')]"

record rollback_request =
  rq_contract_version :: u32
  rq_sprint_id :: string
  rq_application_receipt_id :: string
  rq_application_transaction_id :: string
  rq_rollback_reference_id :: string

definition validate_rollback_request :: "rollback_request \<Rightarrow> contract_result" where
  "validate_rollback_request r = seq
     [require_version ''rollback_request.contract_version'' (rq_contract_version r),
      require_nonblank ''rollback_request.sprint_id'' (rq_sprint_id r),
      require_nonblank ''rollback_request.application_receipt_id'' (rq_application_receipt_id r),
      require_nonblank ''rollback_request.application_transaction_id''
        (rq_application_transaction_id r),
      require_nonblank ''rollback_request.rollback_reference_id'' (rq_rollback_reference_id r)]"

section \<open>Unchanged workspaces\<close>

record live_workspace_unchanged_receipt =
  lu_contract_version :: u32
  lu_receipt_id :: string
  lu_sprint_id :: string
  lu_base_snapshot :: digest
  lu_live_manifest_digest :: digest
  lu_grant_hash :: digest
  lu_captured_at_unix_ms :: u64

definition validate_live_workspace_unchanged ::
  "live_workspace_unchanged_receipt \<Rightarrow> contract_result" where
  "validate_live_workspace_unchanged r = seq
     [require_contract_envelope ''live_workspace_unchanged_receipt.contract_version''
        (lu_contract_version r) ''live_workspace_unchanged_receipt.receipt_id'' (lu_receipt_id r)
        ''live_workspace_unchanged_receipt.sprint_id'' (lu_sprint_id r),
      require_nonzero_timestamp ''live_workspace_unchanged_receipt.captured_at_unix_ms''
        (lu_captured_at_unix_ms r)]"

record verified_no_op_receipt =
  vn_contract_version :: u32
  vn_receipt_id :: string
  vn_sprint_id :: string
  vn_final_verification_receipt_id :: string
  vn_base_snapshot :: digest
  vn_live_manifest_digest :: digest
  vn_grant_hash :: digest
  vn_policy_version :: u32
  vn_observed_at_unix_ms :: u64

definition validate_verified_no_op :: "verified_no_op_receipt \<Rightarrow> contract_result" where
  "validate_verified_no_op r = seq
     [require_contract_envelope ''verified_no_op_receipt.contract_version'' (vn_contract_version r)
        ''verified_no_op_receipt.receipt_id'' (vn_receipt_id r)
        ''verified_no_op_receipt.sprint_id'' (vn_sprint_id r),
      require_nonblank ''verified_no_op_receipt.final_verification_receipt_id''
        (vn_final_verification_receipt_id r),
      ensure (vn_live_manifest_digest r = vn_base_snapshot r)
        (ContractError ''verified_no_op_receipt.live_manifest_digest''
          ''must equal the verified sprint base snapshot''),
      ensure (vn_policy_version r \<noteq> 0)
        (ContractError ''verified_no_op_receipt.policy_version'' ''must be greater than zero''),
      require_nonzero_timestamp ''verified_no_op_receipt.observed_at_unix_ms''
        (vn_observed_at_unix_ms r)]"

section \<open>Rollback receipts\<close>

record rollback_receipt =
  rr_contract_version :: u32
  rr_receipt_id :: string
  rr_sprint_id :: string
  rr_effect_id :: string
  rr_observation_id :: string
  rr_application_receipt_id :: string
  rr_application_transaction_id :: string
  rr_restored_base_snapshot :: digest
  rr_restored_endpoints_digest :: digest
  rr_live_manifest_digest :: digest
  rr_unresolved_conflicts :: u64
  rr_completed_at_unix_ms :: u64

definition validate_rollback_receipt :: "rollback_receipt \<Rightarrow> contract_result" where
  "validate_rollback_receipt r = seq
     [require_contract_envelope ''rollback_receipt.contract_version'' (rr_contract_version r)
        ''rollback_receipt.receipt_id'' (rr_receipt_id r)
        ''rollback_receipt.sprint_id'' (rr_sprint_id r),
      require_nonblank ''rollback_receipt.effect_id'' (rr_effect_id r),
      require_nonblank ''rollback_receipt.observation_id'' (rr_observation_id r),
      require_nonblank ''rollback_receipt.application_receipt_id'' (rr_application_receipt_id r),
      require_nonblank ''rollback_receipt.application_transaction_id''
        (rr_application_transaction_id r),
      ensure (rr_unresolved_conflicts r = 0)
        (ContractError ''rollback_receipt.unresolved_conflicts'' ''must be zero''),
      require_nonzero_timestamp ''rollback_receipt.completed_at_unix_ms''
        (rr_completed_at_unix_ms r)]"

datatype rollback_validation_mode = RollbackDirectEffectResponse | RollbackRecoveryReconciliation

record rollback_validation =
  rw_mode :: rollback_validation_mode
  rw_runner_launch_id :: string
  rw_runner_session_id :: string
  rw_policy_hash :: digest
  rw_grant_hash :: digest
  rw_policy_version :: u32
  rw_private_state_digest :: digest

definition validate_rollback_validation :: "rollback_validation \<Rightarrow> contract_result" where
  "validate_rollback_validation v = seq
     [require_nonblank ''rollback_validation_evidence.runner_launch_id'' (rw_runner_launch_id v),
      require_nonblank ''rollback_validation_evidence.runner_session_id'' (rw_runner_session_id v),
      ensure (rw_policy_version v \<noteq> 0)
        (ContractError ''rollback_validation_evidence.policy_version''
          ''must be greater than zero'')]"

record rollback_evidence =
  rx_contract_version :: u32
  rx_receipt :: rollback_receipt
  rx_validation :: rollback_validation

definition validate_rollback_evidence :: "rollback_evidence \<Rightarrow> contract_result" where
  "validate_rollback_evidence e = seq
     [require_version ''rollback_evidence.contract_version'' (rx_contract_version e),
      validate_rollback_receipt (rx_receipt e),
      validate_rollback_validation (rx_validation e)]"

section \<open>Live conflicts\<close>

record live_path_conflict =
  lp_path :: path
  lp_expected_endpoint_digest :: digest
  lp_observed_endpoint_digest :: digest

definition validate_live_path_conflict :: "live_path_conflict \<Rightarrow> contract_result" where
  "validate_live_path_conflict c = seq
     [require_normalized_relative ''live_conflict_receipt.conflicts.path'' (lp_path c),
      ensure (lp_expected_endpoint_digest c \<noteq> lp_observed_endpoint_digest c)
        (ContractError ''live_conflict_receipt.conflicts''
          ''expected and observed endpoints must differ'')]"

datatype live_conflict_user_decision = ChoosePreservedEndpointAndReconcile

record live_conflict_receipt =
  lc_contract_version :: u32
  lc_receipt_id :: string
  lc_sprint_id :: string
  lc_application_receipt_id :: string
  lc_transaction_id :: string
  lc_conflicts :: "live_path_conflict list"
  lc_live_manifest_digest :: digest
  lc_required_user_decision :: live_conflict_user_decision
  lc_observed_at_unix_ms :: u64

definition validate_live_conflict :: "live_conflict_receipt \<Rightarrow> contract_result" where
  "validate_live_conflict r = seq
     [require_contract_envelope ''live_conflict_receipt.contract_version'' (lc_contract_version r)
        ''live_conflict_receipt.receipt_id'' (lc_receipt_id r)
        ''live_conflict_receipt.sprint_id'' (lc_sprint_id r),
      require_nonblank ''live_conflict_receipt.application_receipt_id''
        (lc_application_receipt_id r),
      require_nonblank ''live_conflict_receipt.transaction_id'' (lc_transaction_id r),
      ensure (lc_conflicts r \<noteq> [])
        (ContractError ''live_conflict_receipt.conflicts'' ''must contain at least one conflict''),
      each_unique lp_path validate_live_path_conflict
        (\<lambda>_. ContractError ''live_conflict_receipt.conflicts'' ''must not contain duplicate paths'')
        {} (lc_conflicts r),
      require_nonzero_timestamp ''live_conflict_receipt.observed_at_unix_ms''
        (lc_observed_at_unix_ms r)]"

section \<open>Final reports\<close>

record final_report =
  fr_report_id :: string
  fr_sprint_id :: string
  fr_final_snapshot :: digest
  fr_content_digest :: digest
  fr_body :: string
  fr_created_at_unix_ms :: u64

definition digest_body :: "(string \<Rightarrow> string) \<Rightarrow> string \<Rightarrow> digest" where
  "digest_body sha body = digest_sha256 sha body"

definition validate_final_report :: "(string \<Rightarrow> string) \<Rightarrow> final_report \<Rightarrow> contract_result" where
  "validate_final_report sha r = seq
     [require_nonblank ''final_report.report_id'' (fr_report_id r),
      require_nonblank ''final_report.sprint_id'' (fr_sprint_id r),
      require_nonblank ''final_report.body'' (fr_body r),
      ensure (digest_body sha (fr_body r) = fr_content_digest r)
        (ContractError ''final_report.content_digest''
          ''does not match the exact UTF-8 report body''),
      require_nonzero_timestamp ''final_report.created_at_unix_ms'' (fr_created_at_unix_ms r)]"

lemma validate_rollback_reference_evidenceD:
  assumes "validate_rollback_reference_evidence sha e = Inr ()"
  shows "validate_rollback_reference (rv_reference e) = Inr ()"
    and "digest_sha256 sha (rv_reopened_artifacts_bytes e)
      = rf_reopened_artifacts_digest (rv_reference e)"
    and "rv_reopened_artifacts_bytes e \<noteq> []"
  using assms by (auto simp: validate_rollback_reference_evidence_def)

end
