(* ===== verification/Btree.thy ===== *)
theory Btree
  imports Prelude
begin

text \<open>
  \<open>BTreeMap\<close> as the standard library documents it: the entries in strictly increasing key
  order, \<open>insert\<close> replacing the value of a key that is present, \<open>get\<close>, \<open>len\<close>, collection from
  an iterator (a later entry replaces an earlier one), and equality as equality of the entry
  sequences. Keys compare as the program's keys do (strings byte by byte).
\<close>

type_synonym ('k, 'v) btree = "('k \<times> 'v) list"

fun bt_insert :: "'k::linorder \<Rightarrow> 'v \<Rightarrow> ('k, 'v) btree \<Rightarrow> ('k, 'v) btree" where
  "bt_insert k v [] = [(k, v)]"
| "bt_insert k v ((j, w) # m) =
     (if k < j then (k, v) # (j, w) # m
      else if k = j then (k, v) # m
      else (j, w) # bt_insert k v m)"

definition bt_get :: "('k::linorder, 'v) btree \<Rightarrow> 'k \<Rightarrow> 'v option" where
  "bt_get m k = map_of m k"

fun bt_extend :: "('k::linorder, 'v) btree \<Rightarrow> ('k \<times> 'v) list \<Rightarrow> ('k, 'v) btree" where
  "bt_extend m [] = m"
| "bt_extend m ((k, v) # kvs) = bt_extend (bt_insert k v m) kvs"

definition bt_collect :: "('k::linorder \<times> 'v) list \<Rightarrow> ('k, 'v) btree" where
  "bt_collect kvs = bt_extend [] kvs"

definition wf_btree :: "('k::linorder, 'v) btree \<Rightarrow> bool" where
  "wf_btree m \<longleftrightarrow> sorted_wrt (<) (map fst m)"

lemma keys_bt_insert: "fst ` set (bt_insert k v m) = insert k (fst ` set m)"
proof (induction m)
  case (Cons jw m)
  then show ?case by (cases jw) (simp, blast)
qed simp

lemma wf_bt_insert: "wf_btree m \<Longrightarrow> wf_btree (bt_insert k v m)"
proof (induction m)
  case Nil
  show ?case by (simp add: wf_btree_def)
next
  case (Cons jw m)
  obtain j w where jw: "jw = (j, w)" by force
  from Cons.prems have m: "wf_btree m" and j: "\<forall>x\<in>set (map fst m). j < x"
    by (auto simp: wf_btree_def jw)
  have "\<forall>x\<in>set (map fst (bt_insert k v m)). j < x" if "j < k"
    unfolding set_map keys_bt_insert using j that by auto
  with Cons.IH [OF m] m j show ?case
    unfolding wf_btree_def jw by (auto simp: not_less order_le_less)
qed

lemma map_of_bt_insert: "wf_btree m \<Longrightarrow> map_of (bt_insert k v m) = (map_of m)(k \<mapsto> v)"
proof (induction m)
  case Nil
  show ?case by simp
next
  case (Cons jw m)
  obtain j w where jw: "jw = (j, w)" by force
  from Cons.prems have "wf_btree m" by (simp add: wf_btree_def)
  with Cons.IH show ?case by (auto simp: jw)
qed

lemma wf_btree_Nil [simp]: "wf_btree []"
  by (simp add: wf_btree_def)

lemma wf_btree_distinct: "wf_btree m \<Longrightarrow> distinct (map fst m)"
  unfolding wf_btree_def by (induction m) auto

lemma bt_eq_iff:
  assumes "wf_btree m" "wf_btree n"
  shows "m = n \<longleftrightarrow> map_of m = map_of n"
proof
  assume eq: "map_of m = map_of n"
  note d = wf_btree_distinct [OF assms(1)] wf_btree_distinct [OF assms(2)]
  have "set m = set n"
    using eq map_of_eq_Some_iff [OF d(1)] map_of_eq_Some_iff [OF d(2)] by auto
  moreover have "inj_on fst (set m \<union> set n)"
    using \<open>set m = set n\<close> d by (simp add: distinct_map)
  moreover have "sorted (map fst m)" "sorted (map fst n)"
    using assms unfolding wf_btree_def strict_sorted_iff by auto
  ultimately show "m = n"
    using map_sorted_distinct_set_unique [of fst m n] d by blast
qed simp

text \<open>Collecting entries.\<close>

lemma wf_bt_extend: "wf_btree m \<Longrightarrow> wf_btree (bt_extend m kvs)"
  by (induction m kvs rule: bt_extend.induct) (auto intro: wf_bt_insert)

lemma wf_bt_collect [simp]: "wf_btree (bt_collect kvs)"
  by (simp add: bt_collect_def wf_bt_extend)

lemma map_of_bt_extend: "wf_btree m \<Longrightarrow> map_of (bt_extend m kvs) = map_of m ++ map_of (rev kvs)"
proof (induction m kvs rule: bt_extend.induct)
  case (2 m k v kvs)
  then have "map_of (bt_extend m ((k, v) # kvs)) = (map_of m)(k \<mapsto> v) ++ map_of (rev kvs)"
    by (simp only: bt_extend.simps wf_bt_insert map_of_bt_insert)
  also have "\<dots> = map_of m ++ ([k \<mapsto> v] ++ map_of (rev kvs))"
    by (simp only: map_add_assoc map_add_upd map_add_empty)
  also have "\<dots> = map_of m ++ map_of (rev ((k, v) # kvs))"
    by simp
  finally show ?case .
qed simp

lemma bt_get_collect: "bt_get (bt_collect kvs) k = map_of (rev kvs) k"
  by (simp add: bt_get_def bt_collect_def map_of_bt_extend)

lemma bt_extend_keys: "fst ` set (bt_extend m kvs) = fst ` set m \<union> fst ` set kvs"
  by (induction m kvs rule: bt_extend.induct) (auto simp: keys_bt_insert)

lemma bt_collect_keys: "fst ` set (bt_collect kvs) = fst ` set kvs"
  by (simp add: bt_collect_def bt_extend_keys)

lemma length_bt_collect: "length (bt_collect kvs) = card (fst ` set kvs)"
proof -
  have "length (bt_collect kvs) = card (set (map fst (bt_collect kvs)))"
    by (metis distinct_card length_map wf_btree_distinct wf_bt_collect)
  then show ?thesis by (simp add: bt_collect_keys)
qed

text \<open>Collecting keeps every entry exactly when no key occurs twice.\<close>

lemma length_bt_collect_distinct:
  "length (bt_collect kvs) = length kvs \<longleftrightarrow> distinct (map fst kvs)"
proof -
  have "length (bt_collect kvs) = card (set (map fst kvs))"
    by (simp add: length_bt_collect)
  then show ?thesis
    using card_distinct [of "map fst kvs"] distinct_card [of "map fst kvs"] by auto
qed

lemma bt_get_collect_distinct:
  assumes "distinct (map fst kvs)"
  shows "bt_get (bt_collect kvs) k = map_of kvs k"
proof -
  have "map_of (rev kvs) = map_of kvs"
    using assms by (intro map_of_inject_set [THEN iffD2]) (auto simp: rev_map [symmetric])
  then show ?thesis by (simp add: bt_get_collect)
qed

end
