(* ===== verification/Completion.thy ===== *)
theory Completion
  imports Rollback Lifecycle Btree
begin

text \<open>
  \<open>completion.rs\<close> and \<open>CompletionReceipt\<close> of \<open>contracts/application.rs\<close>: the evidence a
  coordinator reads back from storage, the predicates over it, and \<open>assess_completion\<close>, which
  lists every requirement the evidence does not meet. A \<open>BTreeSet\<close> of strings is a set, a
  \<open>BTreeMap\<close> a \<open>btree\<close>; \<open>usize\<close> counters are natural numbers.
\<close>

section \<open>Completion receipts\<close>

datatype completion_application =
    AppliedCompletion string string
  | VerifiedNoOpCompletion string

definition validate_completion_application :: "completion_application \<Rightarrow> contract_result" where
  "validate_completion_application a =
     (case a of
        AppliedCompletion application_receipt_id rollback_reference_id \<Rightarrow> seq
          [require_nonblank ''completion_receipt.application_receipt_id'' application_receipt_id,
           require_nonblank ''completion_receipt.rollback_reference_id'' rollback_reference_id]
      | VerifiedNoOpCompletion verified_no_op_receipt_id \<Rightarrow>
          require_nonblank ''completion_receipt.verified_no_op_receipt_id''
            verified_no_op_receipt_id)"

record completion_receipt =
  cp_contract_version :: u32
  cp_receipt_id :: string
  cp_sprint_id :: string
  cp_grant_hash :: digest
  cp_policy_version :: u32
  cp_final_snapshot :: digest
  cp_final_verification_receipt_id :: string
  cp_application :: completion_application
  cp_worker_cleanup_receipt_ids :: "string list"
  cp_satisfied_criterion_ids :: "string list"
  cp_criterion_evidence_receipt_ids :: "string list"
  cp_task_integration_receipt_ids :: "string list"
  cp_verification_receipts :: "string list"
  cp_provider_backend :: string
  cp_provider_model :: string
  cp_final_report_id :: string
  cp_completed_at_unix_ms :: u64

definition validate_completion_receipt :: "completion_receipt \<Rightarrow> contract_result" where
  "validate_completion_receipt r = seq
     [require_contract_envelope ''completion_receipt.contract_version'' (cp_contract_version r)
        ''completion_receipt.receipt_id'' (cp_receipt_id r)
        ''completion_receipt.sprint_id'' (cp_sprint_id r),
      require_nonblank ''completion_receipt.final_verification_receipt_id''
        (cp_final_verification_receipt_id r),
      ensure (cp_policy_version r \<noteq> 0)
        (ContractError ''completion_receipt.policy_version'' ''must be greater than zero''),
      validate_completion_application (cp_application r),
      require_unique_nonblank ''completion_receipt.worker_cleanup_receipt_ids''
        (cp_worker_cleanup_receipt_ids r),
      ensure (cp_worker_cleanup_receipt_ids r \<noteq> [])
        (ContractError ''completion_receipt.worker_cleanup_receipt_ids''
          ''must contain every registered worker/final-verifier/applier session receipt''),
      ensure (strictly_increasing (cp_worker_cleanup_receipt_ids r))
        (ContractError ''completion_receipt.worker_cleanup_receipt_ids''
          ''must be in strict canonical lexical order''),
      require_unique_nonblank ''completion_receipt.satisfied_criterion_ids''
        (cp_satisfied_criterion_ids r),
      ensure (cp_satisfied_criterion_ids r \<noteq> [])
        (ContractError ''completion_receipt.satisfied_criterion_ids''
          ''must contain at least one criterion''),
      require_strict_lexical_order ''completion_receipt.satisfied_criterion_ids''
        (cp_satisfied_criterion_ids r),
      require_unique_nonblank ''completion_receipt.criterion_evidence_receipt_ids''
        (cp_criterion_evidence_receipt_ids r),
      ensure (cp_criterion_evidence_receipt_ids r \<noteq> [])
        (ContractError ''completion_receipt.criterion_evidence_receipt_ids''
          ''must contain at least one receipt''),
      require_strict_lexical_order ''completion_receipt.criterion_evidence_receipt_ids''
        (cp_criterion_evidence_receipt_ids r),
      require_unique_nonblank ''completion_receipt.task_integration_receipt_ids''
        (cp_task_integration_receipt_ids r),
      require_unique_nonblank ''completion_receipt.verification_receipts''
        (cp_verification_receipts r),
      ensure (cp_verification_receipts r \<noteq> [])
        (ContractError ''completion_receipt.verification_receipts''
          ''must contain at least one receipt''),
      require_strict_lexical_order ''completion_receipt.verification_receipts''
        (cp_verification_receipts r),
      ensure (cp_final_verification_receipt_id r \<in> set (cp_verification_receipts r))
        (ContractError ''completion_receipt.final_verification_receipt_id''
          ''must also appear in verification_receipts''),
      require_nonblank ''completion_receipt.provider_backend'' (cp_provider_backend r),
      require_nonblank ''completion_receipt.provider_model'' (cp_provider_model r),
      require_nonblank ''completion_receipt.final_report_id'' (cp_final_report_id r),
      require_nonzero_timestamp ''completion_receipt.completed_at_unix_ms''
        (cp_completed_at_unix_ms r)]"

definition receipt_digest ::
  "(string \<Rightarrow> string) \<Rightarrow> completion_receipt encoder \<Rightarrow> completion_receipt \<Rightarrow> contract_error + digest" where
  "receipt_digest sha enc r =
     bind_ok (validate_completion_receipt r) (\<lambda>_.
     bind_ok (map_err (\<lambda>e. ContractError ''completion_receipt''
         (''cannot encode canonical receipt bytes: '' @ e)) (enc r))
       (\<lambda>canonical. Inr (digest_sha256 sha canonical)))"

section \<open>The evidence\<close>

record completion_evidence =
  cx_criterion_evidence_receipts :: "criterion_evidence list"
  cx_human_acceptance_prompts :: "human_acceptance_prompt list"
  cx_human_acceptance_decisions :: "human_acceptance_decision list"
  cx_task_integration_receipts :: "task_integration_receipt list"
  cx_verification_effect_evidence :: "verification_effect_evidence list"
  cx_final_snapshot :: digest
  cx_final_verification :: "verification_receipt option"
  cx_verification_receipt_ids :: "string list"
  cx_final_verification_session_id :: "string option"
  cx_runner_sessions :: "runner_session_policy_record list"
  cx_runner_launches :: "runner_launch_intent list"
  cx_application_evidence :: "application_evidence option"
  cx_verified_no_op_receipt :: "verified_no_op_receipt option"
  cx_worker_cleanup_evidence :: "worker_cleanup_evidence list"
  cx_rollback_reference :: "rollback_reference_evidence option"
  cx_unresolved_conflicts :: nat
  cx_unknown_side_effects :: nat
  cx_active_worker_leases :: nat
  cx_released_worker_leases :: "worker_lease list"
  cx_completion_receipt :: "completion_receipt option"
  cx_completion_receipt_persisted :: bool
  cx_final_report_id :: "string option"

definition is_some_and :: "'a option \<Rightarrow> ('a \<Rightarrow> bool) \<Rightarrow> bool" where
  "is_some_and m p \<longleftrightarrow> (case m of None \<Rightarrow> False | Some x \<Rightarrow> p x)"

lemma is_some_and_iff [simp]: "is_some_and m p \<longleftrightarrow> (\<exists>x. m = Some x \<and> p x)"
  by (simp add: is_some_and_def split: option.splits)

text \<open>
  The loops that index records while refusing invalid ones and repeated keys: every record must
  satisfy \<open>ok\<close>, and neither \<open>key\<close> nor \<open>alt\<close> may repeat. The map is keyed by \<open>key\<close>.
\<close>

fun index_unique ::
  "('a \<Rightarrow> bool) \<Rightarrow> ('a \<Rightarrow> string) \<Rightarrow> ('a \<Rightarrow> string) \<Rightarrow> string set \<Rightarrow> (string, 'a) btree \<Rightarrow> 'a list \<Rightarrow>
   (string, 'a) btree option" where
  "index_unique ok key alt seen m [] = Some m"
| "index_unique ok key alt seen m (x # xs) =
     (if \<not> ok x \<or> alt x \<in> seen \<or> bt_get m (key x) \<noteq> None then None
      else index_unique ok key alt (insert (alt x) seen) (bt_insert (key x) x m) xs)"

end
