(* ===== verification/Assess.thy ===== *)
theory Assess
  imports Completion
begin

text \<open>
  The predicates of \<open>completion.rs\<close>, one definition per function of the file, and
  \<open>assess_completion\<close> itself. \<open>sha\<close> is SHA-256 and \<open>cd\<close> the JSON encodings that verification
  evidence is checked with.
\<close>

section \<open>Task integrations\<close>

definition session_matches :: "completion_evidence \<Rightarrow> task_integration_receipt \<Rightarrow> bool" where
  "session_matches e r \<longleftrightarrow>
     list_ex (\<lambda>s. rs_session_id s = ti_worker_session_id r \<and>
       rs_launch_id s = ti_worker_launch_id r \<and> rs_purpose s = TaskWorker \<and>
       rs_worker_id s = Some (ti_worker_id r) \<and> rs_worker_lease s = ti_worker_lease r \<and>
       rs_policy_hash s = ti_worker_policy_hash r \<and>
       list_ex (\<lambda>l. la_launch_id l = ti_worker_launch_id r \<and>
         la_session_id l = ti_worker_session_id r \<and> la_worker_lease l = ti_worker_lease r)
         (cx_runner_launches e))
       (cx_runner_sessions e)"

definition verifies_task ::
  "(string \<Rightarrow> string) \<Rightarrow> evidence_codec \<Rightarrow> sprint_spec \<Rightarrow> task_integration_receipt \<Rightarrow>
   verification_effect_evidence \<Rightarrow> bool" where
  "verifies_task sha cd sprint r v \<longleftrightarrow>
     (let verification = ve_verification v in
      is_ok (validate_verification_evidence sha cd v) \<and>
      ve_runner_launch_id v = ti_worker_launch_id r \<and>
      ve_runner_session_id v = ti_worker_session_id r \<and>
      receipt_passed verification \<and>
      vr_sprint_id verification = sp_sprint_id sprint \<and>
      vr_task_id verification = Some (ti_task_id r) \<and>
      vr_snapshot_id verification = ti_result_snapshot r \<and>
      vr_policy_hash verification = ti_worker_policy_hash r \<and>
      vr_finished_at_unix_ms verification \<le> ti_integrated_at_unix_ms r)"

definition matching_verifications ::
  "(string \<Rightarrow> string) \<Rightarrow> evidence_codec \<Rightarrow> sprint_spec \<Rightarrow> completion_evidence \<Rightarrow>
   task_integration_receipt \<Rightarrow> string set" where
  "matching_verifications sha cd sprint e r =
     set (filter (\<lambda>i. i \<in> set (ti_task_verification_receipt_ids r))
       (map (\<lambda>v. vr_receipt_id (ve_verification v))
         (filter (verifies_task sha cd sprint r) (cx_verification_effect_evidence e))))"

fun integration_chain ::
  "(string \<Rightarrow> string) \<Rightarrow> evidence_codec \<Rightarrow> sprint_spec \<Rightarrow> string set \<Rightarrow> completion_evidence \<Rightarrow>
   nat \<Rightarrow> digest \<Rightarrow> string set \<Rightarrow> string set \<Rightarrow> task_integration_receipt list \<Rightarrow>
   (digest \<times> string set) option" where
  "integration_chain sha cd sprint graph_tasks e ordinal expected receipt_ids integrated [] =
     Some (expected, integrated)"
| "integration_chain sha cd sprint graph_tasks e ordinal expected receipt_ids integrated (r # rs) =
     (if \<not> ordinal < 2 ^ 32 then None
      else if \<not> is_ok (validate_task_integration_receipt sha r)
        \<or> ti_sprint_id r \<noteq> sp_sprint_id sprint
        \<or> ti_integration_ordinal r \<noteq> of_nat ordinal
        \<or> ti_input_snapshot r \<noteq> expected
        \<or> ti_task_id r \<notin> graph_tasks
        \<or> ti_receipt_id r \<in> receipt_ids
        \<or> ti_task_id r \<in> integrated
        \<or> \<not> session_matches e r
        \<or> matching_verifications sha cd sprint e r \<noteq> set (ti_task_verification_receipt_ids r)
      then None
      else integration_chain sha cd sprint graph_tasks e (Suc ordinal) (ti_result_snapshot r)
        (insert (ti_receipt_id r) receipt_ids) (insert (ti_task_id r) integrated) rs)"

definition task_integrations_are_complete ::
  "(string \<Rightarrow> string) \<Rightarrow> evidence_codec \<Rightarrow> sprint_spec \<Rightarrow> task_graph \<Rightarrow> completion_evidence \<Rightarrow> bool" where
  "task_integrations_are_complete sha cd sprint graph e \<longleftrightarrow>
     (let graph_tasks = set (map ts_task_id (tg_tasks graph));
          required_tasks = set (map ts_task_id (filter ts_required (tg_tasks graph)));
          ordered = sort_key ti_integration_ordinal (cx_task_integration_receipts e)
      in case integration_chain sha cd sprint graph_tasks e 0 (sp_base_snapshot sprint) {} {} ordered of
           None \<Rightarrow> False
         | Some (expected, integrated) \<Rightarrow>
             required_tasks \<subseteq> integrated \<and> expected = cx_final_snapshot e)"

section \<open>Sessions and cleanup\<close>

definition launch_is_valid :: "(string \<Rightarrow> string) \<Rightarrow> sprint_spec \<Rightarrow> runner_launch_intent \<Rightarrow> bool" where
  "launch_is_valid sha sprint l \<longleftrightarrow>
     is_ok (validate_runner_launch sha l) \<and> la_sprint_id l = sp_sprint_id sprint \<and>
     la_grant_hash l = wg_grant_hash (sp_workspace_grant sprint) \<and>
     la_policy_version l = wg_policy_version (sp_workspace_grant sprint)"

definition session_agrees :: "runner_session_policy_record \<Rightarrow> runner_launch_intent \<Rightarrow> bool" where
  "session_agrees s l \<longleftrightarrow>
     \<not> (la_session_id l \<noteq> rs_session_id s \<or> la_purpose l \<noteq> rs_purpose s \<or>
        la_worker_id l \<noteq> rs_worker_id s \<or> la_worker_lease l \<noteq> rs_worker_lease s \<or>
        la_policy_hash l \<noteq> rs_policy_hash s \<or>
        la_runner_binary_digest l \<noteq> rs_runner_binary_digest s \<or>
        la_protocol_digest l \<noteq> rs_protocol_digest s \<or>
        la_private_state_digest l \<noteq> rs_private_state_digest s \<or>
        la_created_at_unix_ms l > rs_registered_at_unix_ms s)"

definition session_is_valid ::
  "(string \<Rightarrow> string) \<Rightarrow> sprint_spec \<Rightarrow> runner_launch_intent list \<Rightarrow> runner_session_policy_record \<Rightarrow>
   bool" where
  "session_is_valid sha sprint launches s \<longleftrightarrow>
     is_ok (validate_runner_session sha s) \<and> rs_sprint_id s = sp_sprint_id sprint \<and>
     rs_grant_hash s = wg_grant_hash (sp_workspace_grant sprint) \<and>
     rs_policy_version s = wg_policy_version (sp_workspace_grant sprint) \<and>
     (case find (\<lambda>l. la_launch_id l = rs_launch_id s) launches of
        None \<Rightarrow> False
      | Some l \<Rightarrow> session_agrees s l)"

definition final_session_is_registered :: "completion_evidence \<Rightarrow> bool" where
  "final_session_is_registered e \<longleftrightarrow>
     is_some_and (cx_final_verification e) (\<lambda>verification.
       is_some_and (cx_final_verification_session_id e) (\<lambda>session_id.
         list_ex (\<lambda>s. rs_session_id s = session_id \<and> rs_purpose s = FinalVerifier \<and>
             rs_policy_hash s = vr_policy_hash verification \<and>
             rs_registered_at_unix_ms s \<le> vr_finished_at_unix_ms verification \<and>
             list_ex (\<lambda>v. ve_verification v = verification \<and>
                 ve_runner_session_id v = rs_session_id s \<and>
                 ve_runner_launch_id v = rs_launch_id s)
               (cx_verification_effect_evidence e))
           (cx_runner_sessions e)))"

definition session_policies_are_valid ::
  "(string \<Rightarrow> string) \<Rightarrow> sprint_spec \<Rightarrow> completion_evidence \<Rightarrow> bool" where
  "session_policies_are_valid sha sprint e \<longleftrightarrow>
     (case index_unique (launch_is_valid sha sprint) la_launch_id la_session_id {} []
             (cx_runner_launches e) of
        None \<Rightarrow> False
      | Some launches \<Rightarrow>
          (case index_unique (session_is_valid sha sprint (cx_runner_launches e))
                  rs_session_id rs_session_id {} [] (cx_runner_sessions e) of
             None \<Rightarrow> False
           | Some sessions \<Rightarrow> launches \<noteq> [] \<and> final_session_is_registered e))"

definition launch_is_cleaned ::
  "completion_evidence \<Rightarrow> (string, worker_cleanup_evidence) btree \<Rightarrow> runner_launch_intent \<Rightarrow> bool" where
  "launch_is_cleaned e cleanup_by_launch l \<longleftrightarrow>
     is_some_and (bt_get cleanup_by_launch (la_launch_id l)) (\<lambda>cleanup.
       let r = cv_receipt cleanup;
           selected_final_session =
             (case cx_final_verification_session_id e of
                None \<Rightarrow> None
              | Some session_id \<Rightarrow>
                  find (\<lambda>s. rs_session_id s = session_id) (cx_runner_sessions e))
       in cr_session_id r = la_session_id l \<and> cr_worker_lease r = la_worker_lease l \<and>
          list_ex (\<lambda>s. rs_launch_id s = la_launch_id l \<and> rs_session_id s = la_session_id l \<and>
              rs_worker_lease s = la_worker_lease l) (cx_runner_sessions e) \<and>
          cr_policy_hash r = la_policy_hash l \<and> cr_grant_hash r = la_grant_hash l \<and>
          cr_policy_version r = la_policy_version l \<and>
          la_created_at_unix_ms l \<le> cr_cleaned_at_unix_ms r \<and>
          (map_option rs_launch_id selected_final_session \<noteq> Some (la_launch_id l) \<or>
           is_some_and (cx_final_verification e)
             (\<lambda>v. vr_finished_at_unix_ms v \<le> cr_cleaned_at_unix_ms r)))"

definition cleanup_set_is_complete ::
  "(string \<Rightarrow> string) \<Rightarrow> sprint_spec \<Rightarrow> completion_evidence \<Rightarrow> bool" where
  "cleanup_set_is_complete sha sprint e \<longleftrightarrow>
     (let key = (\<lambda>c. cr_launch_id (cv_receipt c)) in
      case index_unique (\<lambda>c. is_ok (validate_cleanup_evidence sha c) \<and>
               cr_sprint_id (cv_receipt c) = sp_sprint_id sprint) key key {} []
             (cx_worker_cleanup_evidence e) of
        None \<Rightarrow> False
      | Some cleanup_by_launch \<Rightarrow>
          length cleanup_by_launch = length (cx_runner_launches e) \<and>
          list_all (launch_is_cleaned e cleanup_by_launch) (cx_runner_launches e))"

section \<open>Worker leases\<close>

fun expected_leases ::
  "(string \<Rightarrow> string) \<Rightarrow> (string, worker_lease) btree \<Rightarrow> runner_launch_intent list \<Rightarrow>
   (string, worker_lease) btree option" where
  "expected_leases sha m [] = Some m"
| "expected_leases sha m (l # ls) =
     (case (la_purpose l, la_worker_lease l) of
        (TaskWorker, Some lease) \<Rightarrow>
          (if \<not> is_ok (validate_worker_lease sha lease) \<or> bt_get m (wl_lease_id lease) \<noteq> None
           then None
           else expected_leases sha (bt_insert (wl_lease_id lease) lease m) ls)
      | (FinalVerifier, None) \<Rightarrow> expected_leases sha m ls
      | (Applier, None) \<Rightarrow> expected_leases sha m ls
      | _ \<Rightarrow> None)"

definition lease_is_expected :: "(string, worker_lease) btree \<Rightarrow> worker_lease \<Rightarrow> bool" where
  "lease_is_expected expected lease \<longleftrightarrow> bt_get expected (wl_lease_id lease) = Some lease"

definition worker_lease_evidence_is_complete ::
  "(string \<Rightarrow> string) \<Rightarrow> completion_evidence \<Rightarrow> bool" where
  "worker_lease_evidence_is_complete sha e \<longleftrightarrow>
     (case expected_leases sha [] (cx_runner_launches e) of
        None \<Rightarrow> False
      | Some expected \<Rightarrow>
          (let released = bt_collect (map (\<lambda>l. (wl_lease_id l, l)) (cx_released_worker_leases e)) in
           if length released \<noteq> length (cx_released_worker_leases e) \<or> released \<noteq> expected
           then False
           else list_all (\<lambda>r. is_some_and (ti_worker_lease r) (lease_is_expected expected))
                  (cx_task_integration_receipts e) \<and>
                list_all (\<lambda>c. case cr_worker_lease (cv_receipt c) of
                    None \<Rightarrow> True
                  | Some lease \<Rightarrow> lease_is_expected expected lease)
                  (cx_worker_cleanup_evidence e)))"

section \<open>Live application\<close>

definition session_by_id :: "completion_evidence \<Rightarrow> string \<Rightarrow> runner_session_policy_record option" where
  "session_by_id e i = find (\<lambda>s. rs_session_id s = i) (cx_runner_sessions e)"

definition application_validation_authority_is_valid ::
  "completion_evidence \<Rightarrow> application_evidence \<Rightarrow> bool" where
  "application_validation_authority_is_valid e x \<longleftrightarrow>
     (let application = ax_receipt x; validation = ax_validation x in
      is_some_and (session_by_id e (ap_applier_session_id application)) (\<lambda>executor.
      is_some_and (session_by_id e (av_runner_session_id validation)) (\<lambda>validator.
        rs_purpose executor = Applier \<and>
        rs_policy_hash executor = ap_policy_hash application \<and>
        rs_purpose validator = Applier \<and>
        rs_launch_id validator = av_runner_launch_id validation \<and>
        rs_policy_hash validator = av_policy_hash validation \<and>
        rs_grant_hash validator = av_grant_hash validation \<and>
        rs_policy_version validator = av_policy_version validation \<and>
        rs_private_state_digest validator = av_private_state_digest validation \<and>
        rs_policy_hash validator = rs_policy_hash executor \<and>
        rs_grant_hash validator = rs_grant_hash executor \<and>
        rs_policy_version validator = rs_policy_version executor \<and>
        rs_private_state_digest validator = rs_private_state_digest executor \<and>
        rs_runner_binary_digest validator = rs_runner_binary_digest executor \<and>
        rs_protocol_digest validator = rs_protocol_digest executor \<and>
        (case av_mode validation of
           DirectEffectResponse \<Rightarrow>
             rs_launch_id validator = rs_launch_id executor \<and>
             rs_session_id validator = rs_session_id executor
         | RecoveryApplierReconciliation \<Rightarrow>
             rs_launch_id validator \<noteq> rs_launch_id executor \<and>
             rs_session_id validator \<noteq> rs_session_id executor))))"

definition application_cleanup_time_is_ordered ::
  "completion_evidence \<Rightarrow> application_receipt \<Rightarrow> runner_session_policy_record \<Rightarrow>
   runner_session_policy_record \<Rightarrow> runner_launch_intent \<Rightarrow> u64 \<Rightarrow> bool" where
  "application_cleanup_time_is_ordered e application executor validator launch cleaned_at \<longleftrightarrow>
     (if is_some_and (cx_completion_receipt e) (\<lambda>r. cp_completed_at_unix_ms r < cleaned_at)
      then False
      else (case la_purpose launch of
        Applier \<Rightarrow>
          (if la_launch_id launch = rs_launch_id validator
           then is_some_and (cx_rollback_reference e) (\<lambda>rollback.
                  ap_applied_at_unix_ms application \<le> cleaned_at \<and>
                  rf_validated_at_unix_ms (rv_reference rollback) \<le> cleaned_at)
           else if la_launch_id launch = rs_launch_id executor
           then ap_applied_at_unix_ms application \<le> cleaned_at
           else cleaned_at \<le> ap_applied_at_unix_ms application)
      | _ \<Rightarrow> cleaned_at \<le> ap_applied_at_unix_ms application))"

definition application_cleanup_is_ordered ::
  "completion_evidence \<Rightarrow> application_evidence \<Rightarrow> bool" where
  "application_cleanup_is_ordered e x \<longleftrightarrow>
     (case session_by_id e (ap_applier_session_id (ax_receipt x)) of
        None \<Rightarrow> False
      | Some executor \<Rightarrow>
          (case session_by_id e (av_runner_session_id (ax_validation x)) of
             None \<Rightarrow> False
           | Some validator \<Rightarrow>
               list_all (\<lambda>c.
                   is_some_and (find (\<lambda>l. la_launch_id l = cr_launch_id (cv_receipt c))
                       (cx_runner_launches e)) (\<lambda>launch.
                     application_cleanup_time_is_ordered e (ax_receipt x) executor validator launch
                       (cr_cleaned_at_unix_ms (cv_receipt c))))
                 (cx_worker_cleanup_evidence e)))"

definition applied_application_is_valid ::
  "sprint_spec \<Rightarrow> completion_evidence \<Rightarrow> application_evidence \<Rightarrow> bool" where
  "applied_application_is_valid sprint e x \<longleftrightarrow>
     (let application = ax_receipt x in
      is_ok (validate_application_evidence x) \<and>
      application_validation_authority_is_valid e x \<and>
      ap_sprint_id application = sp_sprint_id sprint \<and>
      ap_base_snapshot application = sp_base_snapshot sprint \<and>
      ap_result_snapshot application = cx_final_snapshot e \<and>
      ap_grant_hash application = wg_grant_hash (sp_workspace_grant sprint) \<and>
      ap_policy_version application = wg_policy_version (sp_workspace_grant sprint) \<and>
      is_some_and (cx_final_verification e)
        (\<lambda>v. vr_finished_at_unix_ms v \<le> ap_applied_at_unix_ms application) \<and>
      application_cleanup_is_ordered e x)"

definition verified_no_op_is_valid ::
  "sprint_spec \<Rightarrow> completion_evidence \<Rightarrow> verified_no_op_receipt \<Rightarrow> bool" where
  "verified_no_op_is_valid sprint e no_op \<longleftrightarrow>
     is_ok (validate_verified_no_op no_op) \<and>
     vn_sprint_id no_op = sp_sprint_id sprint \<and>
     vn_base_snapshot no_op = sp_base_snapshot sprint \<and>
     cx_final_snapshot e = sp_base_snapshot sprint \<and>
     vn_grant_hash no_op = wg_grant_hash (sp_workspace_grant sprint) \<and>
     vn_policy_version no_op = wg_policy_version (sp_workspace_grant sprint) \<and>
     is_some_and (cx_final_verification e) (\<lambda>v.
       vn_final_verification_receipt_id no_op = vr_receipt_id v \<and>
       vr_finished_at_unix_ms v \<le> vn_observed_at_unix_ms no_op) \<and>
     list_all (\<lambda>c. cr_cleaned_at_unix_ms (cv_receipt c) \<le> vn_observed_at_unix_ms no_op)
       (cx_worker_cleanup_evidence e)"

definition live_application_is_valid ::
  "sprint_spec \<Rightarrow> completion_evidence \<Rightarrow> bool \<Rightarrow> bool" where
  "live_application_is_valid sprint e cleanup_ok \<longleftrightarrow>
     (if \<not> cleanup_ok then False
      else case (cx_application_evidence e, cx_verified_no_op_receipt e) of
          (Some x, None) \<Rightarrow> applied_application_is_valid sprint e x
        | (None, Some no_op) \<Rightarrow> verified_no_op_is_valid sprint e no_op
        | _ \<Rightarrow> False)"

definition rollback_is_available ::
  "(string \<Rightarrow> string) \<Rightarrow> sprint_spec \<Rightarrow> completion_evidence \<Rightarrow> bool" where
  "rollback_is_available sha sprint e \<longleftrightarrow>
     (case (cx_application_evidence e, cx_verified_no_op_receipt e, cx_rollback_reference e) of
        (Some x, None, Some rollback) \<Rightarrow>
          (let application = ax_receipt x; reference = rv_reference rollback;
               validator_cleaned_at = map_option (\<lambda>c. cr_cleaned_at_unix_ms (cv_receipt c))
                 (find (\<lambda>c. cr_session_id (cv_receipt c) = av_runner_session_id (ax_validation x))
                   (cx_worker_cleanup_evidence e))
           in is_ok (validate_application_evidence x) \<and>
              is_ok (validate_rollback_reference_evidence sha rollback) \<and>
              rf_sprint_id reference = sp_sprint_id sprint \<and>
              rf_base_snapshot reference = sp_base_snapshot sprint \<and>
              rf_application_receipt_id reference = ap_receipt_id application \<and>
              rf_transaction_id reference = ap_transaction_id application \<and>
              ap_applied_at_unix_ms application \<le> rf_validated_at_unix_ms reference \<and>
              is_some_and validator_cleaned_at (\<lambda>cleaned_at.
                ap_applied_at_unix_ms application \<le> cleaned_at \<and>
                rf_validated_at_unix_ms reference \<le> cleaned_at))
      | (None, Some no_op, None) \<Rightarrow> True
      | _ \<Rightarrow> False)"

end
