(* ===== verification/Finish.thy ===== *)
theory Finish
  imports Assess
begin

text \<open>
  The rest of \<open>completion.rs\<close>: criterion evidence, consistency of the completion receipt, and
  the finish predicate \<open>assess_completion\<close> over all of it.
\<close>

section \<open>Criteria\<close>

definition criterion_record_is_valid :: "sprint_spec \<Rightarrow> completion_evidence \<Rightarrow> criterion_evidence \<Rightarrow> bool" where
  "criterion_record_is_valid sprint e r \<longleftrightarrow>
     is_ok (validate_criterion_evidence r) \<and> ce_sprint_id r = sp_sprint_id sprint \<and>
     ce_snapshot_digest r = cx_final_snapshot e"

definition criterion_is_verified ::
  "(string \<Rightarrow> string) \<Rightarrow> evidence_codec \<Rightarrow> sprint_spec \<Rightarrow> completion_evidence \<Rightarrow> command_spec \<Rightarrow>
   string \<Rightarrow> u64 \<Rightarrow> bool" where
  "criterion_is_verified sha cd sprint e expected_command verification_receipt_id recorded_at \<longleftrightarrow>
     list_ex (\<lambda>v. is_ok (validate_verification_evidence sha cd v) \<and>
         vr_receipt_id (ve_verification v) = verification_receipt_id \<and>
         vr_sprint_id (ve_verification v) = sp_sprint_id sprint \<and>
         vr_snapshot_id (ve_verification v) = cx_final_snapshot e \<and>
         vr_command (ve_verification v) = expected_command \<and>
         receipt_passed (ve_verification v) \<and>
         vr_finished_at_unix_ms (ve_verification v) \<le> recorded_at)
       (cx_verification_effect_evidence e)"

definition criterion_is_accepted ::
  "(string \<Rightarrow> string) \<Rightarrow> sprint_spec \<Rightarrow> completion_evidence \<Rightarrow> acceptance_criterion \<Rightarrow>
   human_acceptance_prompt \<Rightarrow> human_acceptance_decision \<Rightarrow> string \<Rightarrow> human_acceptance_backing \<Rightarrow>
   u64 \<Rightarrow> bool" where
  "criterion_is_accepted sha sprint e criterion prompt decision prompt_id backing recorded_at \<longleftrightarrow>
     backing = OneToOne \<and>
     hp_sprint_id prompt = sp_sprint_id sprint \<and>
     hp_criterion_id prompt = ac_criterion_id criterion \<and>
     hp_criterion_text_digest prompt = digest_sha256 sha (ac_description criterion) \<and>
     hp_snapshot_digest prompt = cx_final_snapshot e \<and>
     hp_workspace_grant_hash prompt = wg_grant_hash (sp_workspace_grant sprint) \<and>
     hp_backing prompt = backing \<and>
     hd_prompt_id decision = prompt_id \<and>
     hd_outcome decision = OutcomeAcceptedByYou \<and>
     hd_consumed_event_sequence decision = hp_issued_event_sequence prompt \<and>
     hd_decided_at decision \<le> recorded_at"

definition criterion_is_satisfied ::
  "(string \<Rightarrow> string) \<Rightarrow> evidence_codec \<Rightarrow> sprint_spec \<Rightarrow> completion_evidence \<Rightarrow>
   (string, criterion_evidence) btree \<Rightarrow> (string, human_acceptance_prompt) btree \<Rightarrow>
   (string, human_acceptance_decision) btree \<Rightarrow> acceptance_criterion \<Rightarrow> bool" where
  "criterion_is_satisfied sha cd sprint e by_criterion prompts decisions criterion \<longleftrightarrow>
     (case bt_get by_criterion (ac_criterion_id criterion) of
        None \<Rightarrow> False
      | Some r \<Rightarrow>
          (case (r, ac_kind criterion) of
             (Verified _ _ _ _ verification_receipt_id recorded_at, Automated expected_command) \<Rightarrow>
               criterion_is_verified sha cd sprint e expected_command verification_receipt_id
                 recorded_at
           | (AcceptedByYou _ _ _ _ human_decision_id prompt_id backing recorded_at, HumanJudgment) \<Rightarrow>
               (case bt_get prompts prompt_id of
                  None \<Rightarrow> False
                | Some prompt \<Rightarrow>
                    (case bt_get decisions human_decision_id of
                       None \<Rightarrow> False
                     | Some decision \<Rightarrow>
                         criterion_is_accepted sha sprint e criterion prompt decision prompt_id
                           backing recorded_at))
           | _ \<Rightarrow> False))"

definition criterion_evidence_is_complete ::
  "(string \<Rightarrow> string) \<Rightarrow> evidence_codec \<Rightarrow> sprint_spec \<Rightarrow> completion_evidence \<Rightarrow> bool" where
  "criterion_evidence_is_complete sha cd sprint e \<longleftrightarrow>
     (case index_unique (criterion_record_is_valid sprint e) ce_criterion_id ce_receipt_id {} []
             (cx_criterion_evidence_receipts e) of
        None \<Rightarrow> False
      | Some by_criterion \<Rightarrow>
          (if length by_criterion \<noteq> length (sp_acceptance_criteria sprint) then False
           else case
             (index_unique (\<lambda>p. is_ok (validate_prompt p)) hp_prompt_id hp_prompt_id {} []
                (cx_human_acceptance_prompts e),
              index_unique (\<lambda>d. is_ok (validate_decision d)) hd_decision_id hd_prompt_id {} []
                (cx_human_acceptance_decisions e)) of
               (Some prompts, Some decisions) \<Rightarrow>
                 list_all (criterion_is_satisfied sha cd sprint e by_criterion prompts decisions)
                   (sp_acceptance_criteria sprint)
             | _ \<Rightarrow> False))"

section \<open>The completion receipt\<close>

definition receipt_application_matches :: "sprint_spec \<Rightarrow> completion_evidence \<Rightarrow> completion_receipt \<Rightarrow> bool" where
  "receipt_application_matches sprint e r \<longleftrightarrow>
     (case (cp_application r, cx_application_evidence e, cx_verified_no_op_receipt e,
            cx_rollback_reference e) of
        (AppliedCompletion application_receipt_id rollback_reference_id, Some x, None, Some rollback) \<Rightarrow>
          application_receipt_id = ap_receipt_id (ax_receipt x) \<and>
          is_ok (validate_application_evidence x) \<and>
          rollback_reference_id = rf_reference_id (rv_reference rollback) \<and>
          rf_application_receipt_id (rv_reference rollback) = ap_receipt_id (ax_receipt x) \<and>
          rf_transaction_id (rv_reference rollback) = ap_transaction_id (ax_receipt x) \<and>
          rf_base_snapshot (rv_reference rollback) = sp_base_snapshot sprint
      | (VerifiedNoOpCompletion verified_no_op_receipt_id, None, Some no_op, None) \<Rightarrow>
          verified_no_op_receipt_id = vn_receipt_id no_op
      | _ \<Rightarrow> False)"

definition receipt_header_matches :: "sprint_spec \<Rightarrow> completion_evidence \<Rightarrow> completion_receipt \<Rightarrow> bool" where
  "receipt_header_matches sprint e r \<longleftrightarrow>
     is_ok (validate_completion_receipt r) \<and>
     cp_sprint_id r = sp_sprint_id sprint \<and>
     cp_final_snapshot r = cx_final_snapshot e \<and>
     cp_grant_hash r = wg_grant_hash (sp_workspace_grant sprint) \<and>
     cp_policy_version r = wg_policy_version (sp_workspace_grant sprint) \<and>
     cp_provider_backend r = pp_backend_id (sp_provider sprint) \<and>
     cp_provider_model r = pp_model_id (sp_provider sprint) \<and>
     cx_final_report_id e = Some (cp_final_report_id r)"

definition completion_receipt_is_consistent ::
  "(string \<Rightarrow> string) \<Rightarrow> evidence_codec \<Rightarrow> sprint_spec \<Rightarrow> task_graph \<Rightarrow> completion_evidence \<Rightarrow> bool" where
  "completion_receipt_is_consistent sha cd sprint graph e \<longleftrightarrow>
     (case cx_completion_receipt e of
        None \<Rightarrow> False
      | Some r \<Rightarrow>
          if \<not> receipt_header_matches sprint e r then False
          else (case cx_final_verification e of
            None \<Rightarrow> False
          | Some final_verification \<Rightarrow>
            let cleanup_ids = sort (map (\<lambda>c. cr_receipt_id (cv_receipt c)) (cx_worker_cleanup_evidence e));
                expected_criterion_evidence = set (map ce_receipt_id (cx_criterion_evidence_receipts e));
                expected_verifications = set (cx_verification_receipt_ids e);
                ordered_integrations =
                  sort_key ti_integration_ordinal (cx_task_integration_receipts e)
            in if cp_final_verification_receipt_id r \<noteq> vr_receipt_id final_verification \<or>
                  vr_receipt_id final_verification \<notin> set (cp_verification_receipts r) then False
               else if \<not> receipt_application_matches sprint e r \<or>
                       cleanup_ids \<noteq> cp_worker_cleanup_receipt_ids r then False
               else if card expected_criterion_evidence \<noteq> length (cx_criterion_evidence_receipts e) \<or>
                       expected_criterion_evidence \<noteq> set (cp_criterion_evidence_receipt_ids r) then False
               else if card expected_verifications \<noteq> length (cx_verification_receipt_ids e) \<or>
                       vr_receipt_id final_verification \<notin> expected_verifications \<or>
                       set (cp_verification_receipts r) \<noteq> expected_verifications then False
               else if set (cp_satisfied_criterion_ids r) \<noteq>
                       set (map ac_criterion_id (sp_acceptance_criteria sprint)) then False
               else cp_task_integration_receipt_ids r = map ti_receipt_id ordered_integrations \<and>
                    task_integrations_are_complete sha cd sprint graph e))"

section \<open>The finish predicate\<close>

definition require ::
  "completion_requirement list \<Rightarrow> bool \<Rightarrow> completion_requirement \<Rightarrow> completion_requirement list" where
  "require unmet condition requirement = (if \<not> condition then unmet @ [requirement] else unmet)"

definition selected_application ::
  "completion_evidence \<Rightarrow> completion_application_assessment option" where
  "selected_application e =
     (case (cx_application_evidence e, cx_verified_no_op_receipt e) of
        (Some _, None) \<Rightarrow> Some Applied
      | (None, Some _) \<Rightarrow> Some VerifiedNoOp
      | _ \<Rightarrow> None)"

definition final_verification_is_valid ::
  "(string \<Rightarrow> string) \<Rightarrow> evidence_codec \<Rightarrow> sprint_spec \<Rightarrow> completion_evidence \<Rightarrow> bool" where
  "final_verification_is_valid sha cd sprint e \<longleftrightarrow>
     is_some_and (cx_final_verification e) (\<lambda>r.
       is_ok (validate_verification_receipt r) \<and> receipt_passed r \<and>
       vr_sprint_id r = sp_sprint_id sprint \<and> vr_task_id r = None \<and>
       vr_snapshot_id r = cx_final_snapshot e \<and>
       list_ex (\<lambda>v. is_ok (validate_verification_evidence sha cd v) \<and>
           ve_verification v = r \<and> vr_receipt_id (ve_verification v) = vr_receipt_id r)
         (cx_verification_effect_evidence e))"

definition assess_completion ::
  "(string \<Rightarrow> string) \<Rightarrow> evidence_codec \<Rightarrow> sprint_spec \<Rightarrow> task_graph \<Rightarrow> completion_evidence \<Rightarrow>
   completion_assessment" where
  "assess_completion sha cd sprint graph e =
     (let application = selected_application e;
          contracts_valid = (is_ok (validate_sprint_spec sprint) \<and>
            is_ok (validate_for_sprint graph sprint));
          unmet = require [] contracts_valid ContractsValid;
          unmet = require unmet (criterion_evidence_is_complete sha cd sprint e)
            AllCriteriaSatisfiedByTypedBacking;
          unmet = require unmet (task_integrations_are_complete sha cd sprint graph e)
            AllRequiredTasksIntegrated;
          final_verification_ok = final_verification_is_valid sha cd sprint e;
          unmet = require unmet final_verification_ok FinalSnapshotVerified;
          session_policy_ok = session_policies_are_valid sha sprint e;
          cleanup_ok = (session_policy_ok \<and> cleanup_set_is_complete sha sprint e);
          no_op_capture_authorized = (application \<noteq> Some VerifiedNoOp);
          unmet = (if application = Some VerifiedNoOp
            then require unmet no_op_capture_authorized VerifiedNoOpLiveManifestCaptureAuthorized
            else unmet);
          application_ok = (live_application_is_valid sprint e cleanup_ok \<and> no_op_capture_authorized);
          unmet = require unmet (application_ok \<and> final_verification_ok) FinalSnapshotApplied;
          unmet = require unmet application_ok LiveHashesMatch;
          unmet = require unmet (cx_unresolved_conflicts e = 0) NoUnresolvedConflicts;
          unmet = require unmet (cx_unknown_side_effects e = 0) NoUnknownSideEffects;
          unmet = require unmet cleanup_ok NoSurvivingProcesses;
          worker_leases_closed = worker_lease_evidence_is_complete sha e;
          unmet = require unmet (cx_active_worker_leases e = 0 \<and> worker_leases_closed)
            NoActiveWorkerLeases;
          unmet = require unmet (rollback_is_available sha sprint e) RollbackAvailable;
          report_ok = is_some_and (cx_final_report_id e) (\<lambda>i. \<not> blank i);
          unmet = require unmet report_ok FinalReportAvailable;
          receipt_consistent = completion_receipt_is_consistent sha cd sprint graph e;
          unmet = require unmet receipt_consistent CompletionReceiptConsistent;
          unmet = require unmet (cx_completion_receipt_persisted e \<and> receipt_consistent)
            CompletionReceiptPersisted
      in \<lparr>ca_application = application, ca_unmet = unmet\<rparr>)"

end
