(* ===== verification/Finish_Facts.thy ===== *)
theory Finish_Facts
  imports Finish
begin

text \<open>
  What the predicates of \<open>completion.rs\<close> establish when they hold: indexes over distinct keys,
  the chain of task integrations, the cleanup of every launch, the worker leases, and
  \<open>unmet_requirements\<close>, which computes the whole list \<open>assess_completion\<close> returns.
\<close>

section \<open>Indexes\<close>

lemma index_unique_iff:
  assumes "wf_btree m"
  shows "index_unique ok key alt seen m xs = Some n \<longleftrightarrow>
     (\<forall>x\<in>set xs. ok x) \<and> distinct (map alt xs) \<and> alt ` set xs \<inter> seen = {} \<and>
     distinct (map key xs) \<and> key ` set xs \<inter> fst ` set m = {} \<and>
     n = bt_extend m (map (\<lambda>x. (key x, x)) xs)"
  using assms
proof (induction xs arbitrary: seen m)
  case (Cons x xs)
  have "bt_get m (key x) = None \<longleftrightarrow> key x \<notin> fst ` set m"
    by (simp add: bt_get_def map_of_eq_None_iff)
  with Cons.IH [OF wf_bt_insert [OF Cons.prems]] show ?case
    by (auto simp: keys_bt_insert)
qed auto

lemma index_unique_Some:
  "index_unique ok key alt {} [] xs = Some n \<longleftrightarrow>
     (\<forall>x\<in>set xs. ok x) \<and> distinct (map alt xs) \<and> distinct (map key xs) \<and>
     n = bt_collect (map (\<lambda>x. (key x, x)) xs)"
  by (simp add: index_unique_iff bt_collect_def)

text \<open>Looking up in an index over distinct keys is looking for the record.\<close>

lemma index_get:
  assumes "distinct (map key xs)"
  shows "bt_get (bt_collect (map (\<lambda>x. (key x, x)) xs)) k = Some x \<longleftrightarrow> x \<in> set xs \<and> key x = k"
proof -
  have d: "distinct (map fst (map (\<lambda>x. (key x, x)) xs))"
    using assms by (simp add: o_def)
  show ?thesis
    unfolding bt_get_collect_distinct [OF d] map_of_eq_Some_iff [OF d] by auto
qed

lemma index_length: "distinct (map key xs) \<Longrightarrow> length (bt_collect (map (\<lambda>x. (key x, x)) xs)) = length xs"
  using length_bt_collect_distinct [of "map (\<lambda>x. (key x, x)) xs"] by (simp add: o_def)

section \<open>Chains of task integrations\<close>

text \<open>Each receipt starts at the snapshot the one before it produced.\<close>

fun linked :: "digest \<Rightarrow> task_integration_receipt list \<Rightarrow> digest \<Rightarrow> bool" where
  "linked d [] d' \<longleftrightarrow> d = d'"
| "linked d (r # rs) d' \<longleftrightarrow> ti_input_snapshot r = d \<and> linked (ti_result_snapshot r) rs d'"

definition integration_is_backed ::
  "(string \<Rightarrow> string) \<Rightarrow> evidence_codec \<Rightarrow> sprint_spec \<Rightarrow> string set \<Rightarrow> completion_evidence \<Rightarrow>
   task_integration_receipt \<Rightarrow> bool" where
  "integration_is_backed sha cd sprint graph_tasks e r \<longleftrightarrow>
     validate_task_integration_receipt sha r = Inr () \<and> ti_sprint_id r = sp_sprint_id sprint \<and>
     ti_task_id r \<in> graph_tasks \<and> session_matches e r \<and>
     matching_verifications sha cd sprint e r = set (ti_task_verification_receipt_ids r)"

lemma integration_chain_Some:
  "integration_chain sha cd sprint g e n d ids done rs = Some (d', tasks) \<longleftrightarrow>
     n + length rs \<le> 2 ^ 32 \<and> linked d rs d' \<and>
     (\<forall>r\<in>set rs. integration_is_backed sha cd sprint g e r) \<and>
     map ti_integration_ordinal rs = map of_nat [n..<n + length rs] \<and>
     distinct (map ti_receipt_id rs) \<and> ti_receipt_id ` set rs \<inter> ids = {} \<and>
     distinct (map ti_task_id rs) \<and> ti_task_id ` set rs \<inter> done = {} \<and>
     tasks = ti_task_id ` set rs \<union> done"
  if "n \<le> 2 ^ 32"
  using that
proof (induction rs arbitrary: n d ids "done")
  case (Cons r rs)
  show ?case
  proof (cases "n < 2 ^ 32")
    case True
    then have "Suc n \<le> 2 ^ 32" by simp
    note IH = Cons.IH [OF this]
    have upt: "[n..<Suc (n + length rs)] = n # [Suc n..<Suc (n + length rs)]"
      by (rule upt_conv_Cons) simp
    show ?thesis
      using True
      by (auto simp: IH upt integration_is_backed_def simp del: upt_Suc upt.simps(2) upt_eq_Cons_conv)
  next
    case False
    then show ?thesis by simp
  qed
qed auto


section \<open>The unmet requirements\<close>

lemma require_Nil [simp]: "require u c r = [] \<longleftrightarrow> u = [] \<and> c"
  by (simp add: require_def)

lemma set_require [simp]: "set (require u c r) = set u \<union> (if c then {} else {r})"
  by (simp add: require_def)

definition cleanup_ok :: "(string \<Rightarrow> string) \<Rightarrow> sprint_spec \<Rightarrow> completion_evidence \<Rightarrow> bool" where
  "cleanup_ok sha sprint e \<longleftrightarrow>
     session_policies_are_valid sha sprint e \<and> cleanup_set_is_complete sha sprint e"

definition application_ok :: "(string \<Rightarrow> string) \<Rightarrow> sprint_spec \<Rightarrow> completion_evidence \<Rightarrow> bool" where
  "application_ok sha sprint e \<longleftrightarrow>
     live_application_is_valid sprint e (cleanup_ok sha sprint e) \<and>
     selected_application e \<noteq> Some VerifiedNoOp"

lemma application_ok_iff:
  "application_ok sha sprint e \<longleftrightarrow> cleanup_ok sha sprint e \<and>
     (\<exists>x. cx_application_evidence e = Some x \<and> cx_verified_no_op_receipt e = None \<and>
          applied_application_is_valid sprint e x)"
  by (auto simp: application_ok_def live_application_is_valid_def selected_application_def
      split: option.splits)

text \<open>The condition behind each requirement, and the order in which they are examined.\<close>

definition requirement_holds ::
  "(string \<Rightarrow> string) \<Rightarrow> evidence_codec \<Rightarrow> sprint_spec \<Rightarrow> task_graph \<Rightarrow> completion_evidence \<Rightarrow>
   completion_requirement \<Rightarrow> bool" where
  "requirement_holds sha cd sprint graph e r \<longleftrightarrow>
     (case r of
        ContractsValid \<Rightarrow> validate_sprint_spec sprint = Inr () \<and> validate_for_sprint graph sprint = Inr ()
      | AllCriteriaSatisfiedByTypedBacking \<Rightarrow> criterion_evidence_is_complete sha cd sprint e
      | AllRequiredTasksIntegrated \<Rightarrow> task_integrations_are_complete sha cd sprint graph e
      | FinalSnapshotVerified \<Rightarrow> final_verification_is_valid sha cd sprint e
      | FinalSnapshotApplied \<Rightarrow> application_ok sha sprint e \<and> final_verification_is_valid sha cd sprint e
      | LiveHashesMatch \<Rightarrow> application_ok sha sprint e
      | VerifiedNoOpLiveManifestCaptureAuthorized \<Rightarrow> selected_application e \<noteq> Some VerifiedNoOp
      | NoUnresolvedConflicts \<Rightarrow> cx_unresolved_conflicts e = 0
      | NoUnknownSideEffects \<Rightarrow> cx_unknown_side_effects e = 0
      | NoSurvivingProcesses \<Rightarrow> cleanup_ok sha sprint e
      | NoActiveWorkerLeases \<Rightarrow>
          cx_active_worker_leases e = 0 \<and> worker_lease_evidence_is_complete sha e
      | CompletionReceiptConsistent \<Rightarrow> completion_receipt_is_consistent sha cd sprint graph e
      | CompletionReceiptPersisted \<Rightarrow>
          cx_completion_receipt_persisted e \<and> completion_receipt_is_consistent sha cd sprint graph e
      | RollbackAvailable \<Rightarrow> rollback_is_available sha sprint e
      | FinalReportAvailable \<Rightarrow> (\<exists>i. cx_final_report_id e = Some i \<and> \<not> blank i))"

definition evaluation_order :: "completion_requirement list" where
  "evaluation_order =
     [ContractsValid, AllCriteriaSatisfiedByTypedBacking, AllRequiredTasksIntegrated,
      FinalSnapshotVerified, VerifiedNoOpLiveManifestCaptureAuthorized, FinalSnapshotApplied,
      LiveHashesMatch, NoUnresolvedConflicts, NoUnknownSideEffects, NoSurvivingProcesses,
      NoActiveWorkerLeases, RollbackAvailable, FinalReportAvailable, CompletionReceiptConsistent,
      CompletionReceiptPersisted]"

lemma unmet_requirements:
  "ca_unmet (assess_completion sha cd sprint graph e) =
     filter (\<lambda>r. \<not> requirement_holds sha cd sprint graph e r) evaluation_order"
proof -
  let ?R = "requirement_holds sha cd sprint graph e"
  have skip: "(if selected_application e = Some VerifiedNoOp then
        require u (selected_application e \<noteq> Some VerifiedNoOp) VerifiedNoOpLiveManifestCaptureAuthorized
      else u) = require u (?R VerifiedNoOpLiveManifestCaptureAuthorized)
        VerifiedNoOpLiveManifestCaptureAuthorized" for u
    by (simp add: requirement_holds_def require_def)
  have "ca_unmet (assess_completion sha cd sprint graph e) =
      fold (\<lambda>r u. require u (?R r) r) evaluation_order []"
    unfolding assess_completion_def Let_def skip
    by (simp add: evaluation_order_def requirement_holds_def application_ok_def cleanup_ok_def)
  also have "fold (\<lambda>r u. require u (?R r) r) rs u = u @ filter (\<lambda>r. \<not> ?R r) rs" for rs u
    by (induction rs arbitrary: u) (auto simp: require_def)
  finally show ?thesis by simp
qed

lemma assessed_application: "ca_application (assess_completion sha cd sprint graph e) = selected_application e"
  by (simp add: assess_completion_def Let_def)

lemma evaluation_order_all: "set evaluation_order = UNIV" "distinct evaluation_order"
proof -
  have "r \<in> set evaluation_order" for r
    by (cases r) (simp_all add: evaluation_order_def)
  then show "set evaluation_order = UNIV" by auto
qed (simp add: evaluation_order_def)

lemma is_complete_iff:
  "is_complete (assess_completion sha cd sprint graph e) \<longleftrightarrow>
     (\<forall>r. requirement_holds sha cd sprint graph e r)"
proof -
  have "selected_application e \<noteq> None"
    if "requirement_holds sha cd sprint graph e LiveHashesMatch"
    using that by (auto simp: requirement_holds_def application_ok_iff selected_application_def)
  then show ?thesis
    by (auto simp: is_complete_def assessed_application unmet_requirements filter_empty_conv
        evaluation_order_all)
qed

lemma completeD:
  assumes "is_complete (assess_completion sha cd sprint graph e)"
  shows "validate_sprint_spec sprint = Inr ()" "validate_for_sprint graph sprint = Inr ()"
    and "criterion_evidence_is_complete sha cd sprint e"
    and "task_integrations_are_complete sha cd sprint graph e"
    and "final_verification_is_valid sha cd sprint e"
    and "session_policies_are_valid sha sprint e" "cleanup_set_is_complete sha sprint e"
    and "\<exists>x. cx_application_evidence e = Some x \<and> cx_verified_no_op_receipt e = None \<and>
          applied_application_is_valid sprint e x"
    and "cx_unresolved_conflicts e = 0" "cx_unknown_side_effects e = 0"
    and "cx_active_worker_leases e = 0" "worker_lease_evidence_is_complete sha e"
    and "rollback_is_available sha sprint e"
    and "completion_receipt_is_consistent sha cd sprint graph e" "cx_completion_receipt_persisted e"
proof -
  from assms have all: "requirement_holds sha cd sprint graph e r" for r
    by (simp add: is_complete_iff)
  note facts = all [of ContractsValid] all [of AllCriteriaSatisfiedByTypedBacking]
    all [of AllRequiredTasksIntegrated] all [of FinalSnapshotVerified] all [of LiveHashesMatch]
    all [of NoUnresolvedConflicts] all [of NoUnknownSideEffects] all [of NoActiveWorkerLeases]
    all [of CompletionReceiptPersisted] all [of RollbackAvailable]
  note facts' = facts [unfolded requirement_holds_def completion_requirement.simps
    application_ok_iff cleanup_ok_def]
  from facts' show "validate_sprint_spec sprint = Inr ()" "validate_for_sprint graph sprint = Inr ()"
    and "criterion_evidence_is_complete sha cd sprint e"
    and "task_integrations_are_complete sha cd sprint graph e"
    and "final_verification_is_valid sha cd sprint e"
    and "session_policies_are_valid sha sprint e" "cleanup_set_is_complete sha sprint e"
    and "\<exists>x. cx_application_evidence e = Some x \<and> cx_verified_no_op_receipt e = None \<and>
          applied_application_is_valid sprint e x"
    and "cx_unresolved_conflicts e = 0" "cx_unknown_side_effects e = 0"
    and "cx_active_worker_leases e = 0" "worker_lease_evidence_is_complete sha e"
    and "rollback_is_available sha sprint e"
    and "completion_receipt_is_consistent sha cd sprint graph e" "cx_completion_receipt_persisted e"
    by blast+
qed

section \<open>What the single predicates establish\<close>

lemma task_integrations_complete_iff:
  "task_integrations_are_complete sha cd sprint graph e \<longleftrightarrow>
     (let rs = sort_key ti_integration_ordinal (cx_task_integration_receipts e) in
      length rs \<le> 2 ^ 32 \<and> linked (sp_base_snapshot sprint) rs (cx_final_snapshot e) \<and>
      (\<forall>r\<in>set rs. integration_is_backed sha cd sprint (set (map ts_task_id (tg_tasks graph))) e r) \<and>
      map ti_integration_ordinal rs = map of_nat [0..<length rs] \<and>
      distinct (map ti_receipt_id rs) \<and> distinct (map ti_task_id rs) \<and>
      set (map ts_task_id (filter ts_required (tg_tasks graph))) \<subseteq> ti_task_id ` set rs)"
proof -
  have split: "(case m of None \<Rightarrow> False | Some (d, t) \<Rightarrow> P d t) \<longleftrightarrow> (\<exists>d t. m = Some (d, t) \<and> P d t)"
    for m :: "(digest \<times> string set) option" and P
    by (auto split: option.splits)
  show ?thesis
    unfolding task_integrations_are_complete_def Let_def split
    by (subst integration_chain_Some) auto
qed

text \<open>Launches, sessions and cleanup.\<close>

lemma session_policiesD:
  assumes "session_policies_are_valid sha sprint e"
  shows "distinct (map la_launch_id (cx_runner_launches e))"
    and "\<forall>l\<in>set (cx_runner_launches e). launch_is_valid sha sprint l"
    and "distinct (map rs_session_id (cx_runner_sessions e))"
    and "\<forall>s\<in>set (cx_runner_sessions e). session_is_valid sha sprint (cx_runner_launches e) s"
    and "cx_runner_launches e \<noteq> []" "final_session_is_registered e"
  using assms
  by (auto simp: session_policies_are_valid_def index_unique_Some bt_collect_def split: option.splits)

lemma cleanup_setD:
  assumes "cleanup_set_is_complete sha sprint e"
  shows "length (cx_worker_cleanup_evidence e) = length (cx_runner_launches e)"
    and "distinct (map (\<lambda>c. cr_launch_id (cv_receipt c)) (cx_worker_cleanup_evidence e))"
    and "\<forall>c\<in>set (cx_worker_cleanup_evidence e). validate_cleanup_evidence sha c = Inr () \<and>
      cr_sprint_id (cv_receipt c) = sp_sprint_id sprint"
    and "\<forall>l\<in>set (cx_runner_launches e). \<exists>c\<in>set (cx_worker_cleanup_evidence e).
      cr_launch_id (cv_receipt c) = la_launch_id l \<and> cr_session_id (cv_receipt c) = la_session_id l \<and>
      cr_worker_lease (cv_receipt c) = la_worker_lease l \<and>
      la_created_at_unix_ms l \<le> cr_cleaned_at_unix_ms (cv_receipt c)"
  using assms
  by (auto simp: cleanup_set_is_complete_def Let_def index_unique_Some index_length index_get
      list_all_iff launch_is_cleaned_def split: option.splits)

lemma expected_leases_Some:
  assumes "wf_btree m"
  shows "expected_leases sha m ls = Some n \<longleftrightarrow>
     (\<forall>l\<in>set ls. case la_purpose l of
        TaskWorker \<Rightarrow> (\<exists>w. la_worker_lease l = Some w \<and> validate_worker_lease sha w = Inr ())
      | LiveStateVerifier \<Rightarrow> False
      | _ \<Rightarrow> la_worker_lease l = None) \<and>
     (let ws = List.map_filter la_worker_lease ls in
      distinct (map wl_lease_id ws) \<and> wl_lease_id ` set ws \<inter> fst ` set m = {} \<and>
      n = bt_extend m (map (\<lambda>w. (wl_lease_id w, w)) ws))"
  using assms
proof (induction ls arbitrary: m)
  case Nil
  then show ?case by (auto simp: map_filter_simps)
next
  case (Cons l ls)
  have get: "bt_get m k = None \<longleftrightarrow> k \<notin> fst ` set m" for k
    by (simp add: bt_get_def map_of_eq_None_iff)
  show ?case
  proof (cases "la_worker_lease l")
    case None
    with Cons show ?thesis
      by (cases "la_purpose l") (auto simp: map_filter_simps)
  next
    case (Some w)
    with Cons.IH [OF wf_bt_insert [OF Cons.prems, of "wl_lease_id w" w]] show ?thesis
      by (cases "la_purpose l") (auto simp: map_filter_simps get keys_bt_insert Let_def)
  qed
qed


text \<open>Two collections over distinct keys are equal exactly when they hold the same records.\<close>

lemma collect_eq_iff:
  assumes "distinct (map key xs)" "distinct (map key ys)"
  shows "bt_collect (map (\<lambda>x. (key x, x)) xs) = bt_collect (map (\<lambda>x. (key x, x)) ys) \<longleftrightarrow>
    set xs = set ys"
proof
  assume eq: "bt_collect (map (\<lambda>x. (key x, x)) xs) = bt_collect (map (\<lambda>x. (key x, x)) ys)"
  have "x \<in> set xs \<longleftrightarrow> x \<in> set ys" for x
    using index_get [OF assms(1), of "key x" x] index_get [OF assms(2), of "key x" x] eq by simp
  then show "set xs = set ys" by auto
next
  assume eq: "set xs = set ys"
  have "bt_get (bt_collect (map (\<lambda>x. (key x, x)) xs)) k =
      bt_get (bt_collect (map (\<lambda>x. (key x, x)) ys)) k" for k
    using index_get [OF assms(1), of k] index_get [OF assms(2), of k] eq
    by (metis not_Some_eq)
  then show "bt_collect (map (\<lambda>x. (key x, x)) xs) = bt_collect (map (\<lambda>x. (key x, x)) ys)"
    by (subst bt_eq_iff) (auto simp: bt_get_def fun_eq_iff)
qed

definition launch_leases :: "completion_evidence \<Rightarrow> worker_lease list" where
  "launch_leases e = List.map_filter la_worker_lease (cx_runner_launches e)"

lemma set_launch_leases:
  "set (launch_leases e) = {w. \<exists>l\<in>set (cx_runner_launches e). la_worker_lease l = Some w}"
  unfolding launch_leases_def List.map_filter_def by force

lemma lease_evidenceD:
  assumes "worker_lease_evidence_is_complete sha e"
  shows "set (cx_released_worker_leases e) = set (launch_leases e)"
    and "distinct (map wl_lease_id (launch_leases e))"
    and "distinct (map wl_lease_id (cx_released_worker_leases e))"
    and "\<forall>l\<in>set (cx_runner_launches e). la_purpose l \<noteq> LiveStateVerifier \<and>
      (la_purpose l = TaskWorker \<longleftrightarrow> la_worker_lease l \<noteq> None)"
    and "\<forall>w\<in>set (launch_leases e). validate_worker_lease sha w = Inr ()"
    and "\<forall>r\<in>set (cx_task_integration_receipts e). \<exists>w\<in>set (launch_leases e). ti_worker_lease r = Some w"
proof -
  let ?coll = "\<lambda>ws. bt_collect (map (\<lambda>w. (wl_lease_id w, w)) ws)"
  from assms obtain expected where ex: "expected_leases sha [] (cx_runner_launches e) = Some expected"
    and len: "length (?coll (cx_released_worker_leases e)) = length (cx_released_worker_leases e)"
    and eq: "?coll (cx_released_worker_leases e) = expected"
    and ti: "\<forall>r\<in>set (cx_task_integration_receipts e).
      \<exists>w. ti_worker_lease r = Some w \<and> lease_is_expected expected w"
    by (auto simp: worker_lease_evidence_is_complete_def Let_def list_all_iff
        split: option.splits if_splits)
  from ex [unfolded expected_leases_Some [OF wf_btree_Nil] Let_def]
  have roles: "\<forall>l\<in>set (cx_runner_launches e). case la_purpose l of
        TaskWorker \<Rightarrow> (\<exists>w. la_worker_lease l = Some w \<and> validate_worker_lease sha w = Inr ())
      | LiveStateVerifier \<Rightarrow> False
      | _ \<Rightarrow> la_worker_lease l = None"
    and d1: "distinct (map wl_lease_id (launch_leases e))"
    and exp: "expected = ?coll (launch_leases e)"
    by (auto simp: launch_leases_def bt_collect_def)
  have d2: "distinct (map wl_lease_id (cx_released_worker_leases e))"
    using len length_bt_collect_distinct [of "map (\<lambda>w. (wl_lease_id w, w)) (cx_released_worker_leases e)"]
    by (simp add: o_def)
  show "distinct (map wl_lease_id (launch_leases e))"
    and "distinct (map wl_lease_id (cx_released_worker_leases e))"
    by (fact d1) (fact d2)
  show "set (cx_released_worker_leases e) = set (launch_leases e)"
    using collect_eq_iff [OF d2 d1] eq exp by simp
  from roles show "\<forall>l\<in>set (cx_runner_launches e). la_purpose l \<noteq> LiveStateVerifier \<and>
      (la_purpose l = TaskWorker \<longleftrightarrow> la_worker_lease l \<noteq> None)"
    by (fastforce split: runner_session_purpose.splits)
  show "\<forall>w\<in>set (launch_leases e). validate_worker_lease sha w = Inr ()"
  proof
    fix w assume "w \<in> set (launch_leases e)"
    then obtain l where l: "l \<in> set (cx_runner_launches e)" "la_worker_lease l = Some w"
      by (auto simp: set_launch_leases)
    with roles have "case la_purpose l of
        TaskWorker \<Rightarrow> (\<exists>w. la_worker_lease l = Some w \<and> validate_worker_lease sha w = Inr ())
      | LiveStateVerifier \<Rightarrow> False
      | _ \<Rightarrow> la_worker_lease l = None" by blast
    with l(2) show "validate_worker_lease sha w = Inr ()"
      by (simp split: runner_session_purpose.splits)
  qed
  show "\<forall>r\<in>set (cx_task_integration_receipts e). \<exists>w\<in>set (launch_leases e). ti_worker_lease r = Some w"
  proof
    fix r assume "r \<in> set (cx_task_integration_receipts e)"
    with ti obtain w where "ti_worker_lease r = Some w" "bt_get expected (wl_lease_id w) = Some w"
      by (auto simp: lease_is_expected_def)
    with index_get [OF d1] exp show "\<exists>w\<in>set (launch_leases e). ti_worker_lease r = Some w" by auto
  qed
qed

text \<open>The live application and its rollback.\<close>

lemma applied_applicationD:
  assumes "applied_application_is_valid sprint e x"
  shows "validate_application_evidence x = Inr ()"
    and "ap_base_snapshot (ax_receipt x) = sp_base_snapshot sprint"
    and "ap_result_snapshot (ax_receipt x) = cx_final_snapshot e"
    and "application_validation_authority_is_valid e x" "application_cleanup_is_ordered e x"
    and "cx_final_verification e = Some v \<Longrightarrow>
      vr_finished_at_unix_ms v \<le> ap_applied_at_unix_ms (ax_receipt x)"
  using assms by (auto simp: applied_application_is_valid_def Let_def)

lemma cleaned_before_completion:
  assumes "application_cleanup_is_ordered e x" "cx_completion_receipt e = Some r"
    and "c \<in> set (cx_worker_cleanup_evidence e)"
  shows "cr_cleaned_at_unix_ms (cv_receipt c) \<le> cp_completed_at_unix_ms r"
  using assms
  by (auto simp: application_cleanup_is_ordered_def application_cleanup_time_is_ordered_def
      list_all_iff not_less split: option.splits if_splits dest!: bspec)

lemma rollback_availableD:
  assumes "rollback_is_available sha sprint e" "cx_application_evidence e = Some x"
    and "cx_verified_no_op_receipt e = None"
  shows "\<exists>b. cx_rollback_reference e = Some b \<and>
    validate_rollback_reference_evidence sha b = Inr () \<and>
    rf_base_snapshot (rv_reference b) = sp_base_snapshot sprint \<and>
    rf_application_receipt_id (rv_reference b) = ap_receipt_id (ax_receipt x) \<and>
    rf_transaction_id (rv_reference b) = ap_transaction_id (ax_receipt x) \<and>
    ap_applied_at_unix_ms (ax_receipt x) \<le> rf_validated_at_unix_ms (rv_reference b) \<and>
    (\<exists>c\<in>set (cx_worker_cleanup_evidence e).
       cr_session_id (cv_receipt c) = av_runner_session_id (ax_validation x) \<and>
       rf_validated_at_unix_ms (rv_reference b) \<le> cr_cleaned_at_unix_ms (cv_receipt c))"
  using assms
  by (auto simp: rollback_is_available_def Let_def split: option.splits dest!: find_SomeD)

lemma receipt_consistentD:
  assumes "completion_receipt_is_consistent sha cd sprint graph e"
  shows "\<exists>r. cx_completion_receipt e = Some r \<and> validate_completion_receipt r = Inr () \<and>
    cp_final_snapshot r = cx_final_snapshot e \<and> cp_sprint_id r = sp_sprint_id sprint \<and>
    receipt_application_matches sprint e r \<and>
    cp_worker_cleanup_receipt_ids r =
      sort (map (\<lambda>c. cr_receipt_id (cv_receipt c)) (cx_worker_cleanup_evidence e)) \<and>
    set (cp_satisfied_criterion_ids r) = set (map ac_criterion_id (sp_acceptance_criteria sprint)) \<and>
    set (cp_verification_receipts r) = set (cx_verification_receipt_ids e) \<and>
    cp_task_integration_receipt_ids r =
      map ti_receipt_id (sort_key ti_integration_ordinal (cx_task_integration_receipts e))"
  using assms
  unfolding completion_receipt_is_consistent_def Let_def
  by (auto simp: receipt_header_matches_def split: option.splits if_splits)

text \<open>
  When a record backs a criterion, stated on the records alone: an automated criterion needs a
  validated run of its command that passed on the final snapshot, a human one a prompt that showed
  its text and the final snapshot, and an accepting decision that consumed this prompt.
\<close>

definition run_backs ::
  "(string \<Rightarrow> string) \<Rightarrow> evidence_codec \<Rightarrow> sprint_spec \<Rightarrow> completion_evidence \<Rightarrow> command_spec \<Rightarrow>
   string \<Rightarrow> u64 \<Rightarrow> bool" where
  "run_backs sha cd sprint e command i at \<longleftrightarrow>
     (\<exists>v\<in>set (cx_verification_effect_evidence e).
        validate_verification_evidence sha cd v = Inr () \<and> vr_receipt_id (ve_verification v) = i \<and>
        vr_sprint_id (ve_verification v) = sp_sprint_id sprint \<and>
        vr_snapshot_id (ve_verification v) = cx_final_snapshot e \<and>
        vr_command (ve_verification v) = command \<and> receipt_passed (ve_verification v) \<and>
        vr_finished_at_unix_ms (ve_verification v) \<le> at)"

definition decision_backs ::
  "(string \<Rightarrow> string) \<Rightarrow> sprint_spec \<Rightarrow> completion_evidence \<Rightarrow> acceptance_criterion \<Rightarrow> string \<Rightarrow>
   string \<Rightarrow> u64 \<Rightarrow> bool" where
  "decision_backs sha sprint e c d p at \<longleftrightarrow>
     (\<exists>prompt\<in>set (cx_human_acceptance_prompts e).
      \<exists>decision\<in>set (cx_human_acceptance_decisions e).
        hp_prompt_id prompt = p \<and> hp_sprint_id prompt = sp_sprint_id sprint \<and>
        hp_criterion_id prompt = ac_criterion_id c \<and>
        hp_criterion_text_digest prompt = digest_sha256 sha (ac_description c) \<and>
        hp_snapshot_digest prompt = cx_final_snapshot e \<and>
        hd_decision_id decision = d \<and> hd_prompt_id decision = p \<and>
        hd_outcome decision = OutcomeAcceptedByYou \<and>
        hd_consumed_event_sequence decision = hp_issued_event_sequence prompt \<and>
        hd_decided_at decision \<le> at)"

definition criterion_backed ::
  "(string \<Rightarrow> string) \<Rightarrow> evidence_codec \<Rightarrow> sprint_spec \<Rightarrow> completion_evidence \<Rightarrow>
   acceptance_criterion \<Rightarrow> criterion_evidence \<Rightarrow> bool" where
  "criterion_backed sha cd sprint e c r \<longleftrightarrow>
     ce_criterion_id r = ac_criterion_id c \<and> ce_sprint_id r = sp_sprint_id sprint \<and>
     ce_snapshot_digest r = cx_final_snapshot e \<and>
     (case (ac_kind c, r) of
        (Automated command, Verified _ _ _ _ i at) \<Rightarrow> run_backs sha cd sprint e command i at
      | (HumanJudgment, AcceptedByYou _ _ _ _ d p _ at) \<Rightarrow> decision_backs sha sprint e c d p at
      | _ \<Rightarrow> False)"

lemma criterion_is_verified_iff:
  "criterion_is_verified sha cd sprint e command i at \<longleftrightarrow> run_backs sha cd sprint e command i at"
  by (auto simp: criterion_is_verified_def run_backs_def list_ex_iff)

lemma accepted_decision_backs:
  assumes "criterion_is_accepted sha sprint e c prompt decision p b at"
    and "prompt \<in> set (cx_human_acceptance_prompts e)" "hp_prompt_id prompt = p"
    and "decision \<in> set (cx_human_acceptance_decisions e)" "hd_decision_id decision = d"
  shows "decision_backs sha sprint e c d p at"
  using assms unfolding criterion_is_accepted_def decision_backs_def by blast

lemma criterion_satisfiedD:
  assumes "criterion_is_satisfied sha cd sprint e
      (bt_collect (map (\<lambda>r. (ce_criterion_id r, r)) rs))
      (bt_collect (map (\<lambda>p. (hp_prompt_id p, p)) (cx_human_acceptance_prompts e)))
      (bt_collect (map (\<lambda>d. (hd_decision_id d, d)) (cx_human_acceptance_decisions e))) c"
    and "distinct (map ce_criterion_id rs)"
    and "distinct (map hp_prompt_id (cx_human_acceptance_prompts e))"
    and "distinct (map hd_decision_id (cx_human_acceptance_decisions e))"
    and "\<forall>r\<in>set rs. criterion_record_is_valid sprint e r"
  shows "\<exists>r\<in>set rs. criterion_backed sha cd sprint e c r"
proof -
  note get = index_get [OF assms(2)] index_get [OF assms(3)] index_get [OF assms(4)]
  from assms(1) obtain r where r: "r \<in> set rs" "ce_criterion_id r = ac_criterion_id c"
    by (auto simp: criterion_is_satisfied_def get split: option.splits)
  with get(1) have "bt_get (bt_collect (map (\<lambda>r. (ce_criterion_id r, r)) rs)) (ac_criterion_id c) = Some r"
    by simp
  with assms(1,5) r have "criterion_backed sha cd sprint e c r"
    unfolding criterion_is_satisfied_def criterion_backed_def
    by (auto simp: get criterion_record_is_valid_def criterion_is_verified_iff
        split: criterion_evidence.splits acceptance_kind.splits option.splits
        intro: accepted_decision_backs)
  with r(1) show ?thesis by blast
qed

lemma criterion_evidenceD:
  assumes "criterion_evidence_is_complete sha cd sprint e"
  shows "\<forall>c\<in>set (sp_acceptance_criteria sprint).
      \<exists>r\<in>set (cx_criterion_evidence_receipts e). criterion_backed sha cd sprint e c r"
    and "distinct (map ce_criterion_id (cx_criterion_evidence_receipts e))"
    and "distinct (map hd_prompt_id (cx_human_acceptance_decisions e))"
    and "length (cx_criterion_evidence_receipts e) = length (sp_acceptance_criteria sprint)"
  using assms criterion_satisfiedD
  by (auto simp: criterion_evidence_is_complete_def index_unique_Some index_length list_all_iff
      split: option.splits if_splits)

end
