(* ===== verification/Completed.thy ===== *)
theory Completed
  imports Finish_Facts
begin

text \<open>
  What a sprint that \<open>assess_completion\<close> calls complete has been through. Each theorem reads one
  group of requirements back into a statement about the evidence.
\<close>

text \<open>
  C24. The completion step accepts an assessed sprint exactly when every requirement holds, and
  then only from \<open>Applying\<close>: the no-op branch always leaves its capture requirement unmet, so
  \<open>FinalVerification\<close> never completes a sprint on assessed evidence.
\<close>

theorem sprint_completes_iff:
  "sprint_complete s (assess_completion sha cd sprint graph e) = Inr u \<longleftrightarrow>
     s = S_Applying \<and> u = S_Completed \<and> (\<forall>r. requirement_holds sha cd sprint graph e r)"
proof -
  have "selected_application e = Some Applied"
    if "\<forall>r. requirement_holds sha cd sprint graph e r"
    using that [rule_format, of LiveHashesMatch]
    by (auto simp: requirement_holds_def application_ok_iff selected_application_def)
  moreover have "requirement_holds sha cd sprint graph e r"
    if "ca_unmet (assess_completion sha cd sprint graph e) = []" for r
    using that by (auto simp: unmet_requirements filter_empty_conv evaluation_order_all)
  moreover have "ca_unmet (assess_completion sha cd sprint graph e) = []"
    if "\<forall>r. requirement_holds sha cd sprint graph e r"
    using that by (auto simp: unmet_requirements filter_empty_conv)
  ultimately show ?thesis
    unfolding sprint_complete_ok assessed_application by auto
qed

text \<open>
  C10. A complete sprint got from its base to its final snapshot through its task integrations:
  taken in ordinal order they form an unbroken chain of snapshots, numbered from zero without a
  gap, at most one per task and one for every required task, each done by a registered session
  under the lease it names, and each verification it lists passed on the snapshot it produced.
\<close>

theorem completed_sprint_snapshot_chain:
  assumes "is_complete (assess_completion sha cd sprint graph e)"
  shows "let rs = sort_key ti_integration_ordinal (cx_task_integration_receipts e) in
    linked (sp_base_snapshot sprint) rs (cx_final_snapshot e) \<and>
    map ti_integration_ordinal rs = map of_nat [0..<length rs] \<and>
    distinct (map ti_task_id rs) \<and>
    (\<forall>t\<in>set (tg_tasks graph). ts_required t \<longrightarrow> ts_task_id t \<in> ti_task_id ` set rs) \<and>
    (\<forall>r\<in>set rs.
       (\<exists>s\<in>set (cx_runner_sessions e). rs_session_id s = ti_worker_session_id r \<and>
          rs_launch_id s = ti_worker_launch_id r \<and> rs_purpose s = TaskWorker \<and>
          rs_worker_id s = Some (ti_worker_id r) \<and> rs_worker_lease s = ti_worker_lease r) \<and>
       (\<forall>i\<in>set (ti_task_verification_receipt_ids r).
          \<exists>v\<in>set (cx_verification_effect_evidence e).
            vr_receipt_id (ve_verification v) = i \<and> receipt_passed (ve_verification v) \<and>
            vr_snapshot_id (ve_verification v) = ti_result_snapshot r \<and>
            vr_task_id (ve_verification v) = Some (ti_task_id r) \<and>
            vr_finished_at_unix_ms (ve_verification v) \<le> ti_integrated_at_unix_ms r))"
proof -
  let ?rs = "sort_key ti_integration_ordinal (cx_task_integration_receipts e)"
  note facts = completeD(4) [OF assms, unfolded task_integrations_complete_iff Let_def]
  have "\<forall>r\<in>set ?rs. session_matches e r \<and>
      matching_verifications sha cd sprint e r = set (ti_task_verification_receipt_ids r)"
    using facts by (auto simp: integration_is_backed_def)
  moreover have "\<exists>s\<in>set (cx_runner_sessions e). rs_session_id s = ti_worker_session_id r \<and>
      rs_launch_id s = ti_worker_launch_id r \<and> rs_purpose s = TaskWorker \<and>
      rs_worker_id s = Some (ti_worker_id r) \<and> rs_worker_lease s = ti_worker_lease r"
    if "session_matches e r" for r
    using that unfolding session_matches_def list_ex_iff by blast
  moreover have "\<exists>v\<in>set (cx_verification_effect_evidence e). vr_receipt_id (ve_verification v) = i \<and>
      verifies_task sha cd sprint r v"
    if "i \<in> matching_verifications sha cd sprint e r" for i r
    using that by (auto simp: matching_verifications_def)
  ultimately show ?thesis
    using facts unfolding Let_def by (fastforce simp: verifies_task_def Let_def)
qed

text \<open>
  C33. A complete sprint left no process behind: launches and cleanup proofs correspond one to
  one, every proof reports zero surviving processes of the launched session, dated between the
  launch and the completion receipt.
\<close>

theorem completed_sprint_left_no_process:
  assumes "is_complete (assess_completion sha cd sprint graph e)"
  shows "length (cx_worker_cleanup_evidence e) = length (cx_runner_launches e) \<and>
    distinct (map la_launch_id (cx_runner_launches e)) \<and>
    distinct (map (\<lambda>c. cr_launch_id (cv_receipt c)) (cx_worker_cleanup_evidence e)) \<and>
    (\<forall>l\<in>set (cx_runner_launches e). \<exists>c\<in>set (cx_worker_cleanup_evidence e).
       cr_launch_id (cv_receipt c) = la_launch_id l \<and>
       cr_session_id (cv_receipt c) = la_session_id l \<and>
       cr_surviving_processes (cv_receipt c) = 0 \<and>
       la_created_at_unix_ms l \<le> cr_cleaned_at_unix_ms (cv_receipt c) \<and>
       (\<exists>r. cx_completion_receipt e = Some r \<and>
          cr_cleaned_at_unix_ms (cv_receipt c) \<le> cp_completed_at_unix_ms r))"
proof -
  note c = completeD [OF assms]
  from c(8) obtain x where "applied_application_is_valid sprint e x" by blast
  note ordered = applied_applicationD(5) [OF this]
  from receipt_consistentD [OF c(14)] obtain r where r: "cx_completion_receipt e = Some r" by blast
  have "cr_surviving_processes (cv_receipt k) = 0 \<and>
      cr_cleaned_at_unix_ms (cv_receipt k) \<le> cp_completed_at_unix_ms r"
    if "k \<in> set (cx_worker_cleanup_evidence e)" for k
    using that cleanup_setD(3) [OF c(7)] cleaned_before_completion [OF ordered r that]
      validate_cleanup_receiptD(1) validate_cleanup_evidenceD(1) by blast
  with r cleanup_setD [OF c(7)] session_policiesD(1) [OF c(6)] show ?thesis by blast
qed

text \<open>
  C32. A complete sprint holds no worker lease: the released leases are exactly those its
  launches were given, each valid and listed once, task workers and only task workers had one,
  every integration was done under one of them, and no launch of a live-state verifier is among
  the evidence.
\<close>

theorem completed_sprint_released_every_lease:
  assumes "is_complete (assess_completion sha cd sprint graph e)"
  shows "cx_active_worker_leases e = 0 \<and>
    set (cx_released_worker_leases e) =
      {w. \<exists>l\<in>set (cx_runner_launches e). la_worker_lease l = Some w} \<and>
    distinct (map wl_lease_id (cx_released_worker_leases e)) \<and>
    (\<forall>w\<in>set (cx_released_worker_leases e). validate_worker_lease sha w = Inr ()) \<and>
    (\<forall>l\<in>set (cx_runner_launches e). la_purpose l \<noteq> LiveStateVerifier \<and>
       (la_purpose l = TaskWorker \<longleftrightarrow> la_worker_lease l \<noteq> None)) \<and>
    (\<forall>r\<in>set (cx_task_integration_receipts e).
       \<exists>w\<in>set (cx_released_worker_leases e). ti_worker_lease r = Some w)"
  using completeD(11,12) [OF assms] lease_evidenceD set_launch_leases by simp

text \<open>
  The finish of a complete sprint is ordered in time: the repository-wide verification that
  passed on the final snapshot ended before that snapshot was applied over the base snapshot,
  the rollback artifacts of this very application were reopened after it, and the completion
  receipt is not dated before any of this.
\<close>

theorem completed_sprint_timeline:
  assumes "is_complete (assess_completion sha cd sprint graph e)"
  shows "\<exists>v x b r. cx_final_verification e = Some v \<and> cx_application_evidence e = Some x \<and>
    cx_rollback_reference e = Some b \<and> cx_completion_receipt e = Some r \<and>
    receipt_passed v \<and> vr_task_id v = None \<and> vr_snapshot_id v = cx_final_snapshot e \<and>
    ap_base_snapshot (ax_receipt x) = sp_base_snapshot sprint \<and>
    ap_result_snapshot (ax_receipt x) = cx_final_snapshot e \<and>
    rf_application_receipt_id (rv_reference b) = ap_receipt_id (ax_receipt x) \<and>
    rf_base_snapshot (rv_reference b) = sp_base_snapshot sprint \<and>
    vr_finished_at_unix_ms v \<le> ap_applied_at_unix_ms (ax_receipt x) \<and>
    ap_applied_at_unix_ms (ax_receipt x) \<le> rf_validated_at_unix_ms (rv_reference b) \<and>
    rf_validated_at_unix_ms (rv_reference b) \<le> cp_completed_at_unix_ms r"
proof -
  note c = completeD [OF assms]
  from c(5) obtain v where v: "cx_final_verification e = Some v" "receipt_passed v"
      "vr_task_id v = None" "vr_snapshot_id v = cx_final_snapshot e"
    by (auto simp: final_verification_is_valid_def)
  from c(8) obtain x where x: "cx_application_evidence e = Some x"
    "cx_verified_no_op_receipt e = None" and valid: "applied_application_is_valid sprint e x" by blast
  from receipt_consistentD [OF c(14)] obtain r where r: "cx_completion_receipt e = Some r" by blast
  from rollback_availableD [OF c(13) x] obtain b k where b: "cx_rollback_reference e = Some b"
      "rf_application_receipt_id (rv_reference b) = ap_receipt_id (ax_receipt x)"
      "rf_base_snapshot (rv_reference b) = sp_base_snapshot sprint"
      "ap_applied_at_unix_ms (ax_receipt x) \<le> rf_validated_at_unix_ms (rv_reference b)"
    and k: "k \<in> set (cx_worker_cleanup_evidence e)"
      "rf_validated_at_unix_ms (rv_reference b) \<le> cr_cleaned_at_unix_ms (cv_receipt k)" by blast
  have "rf_validated_at_unix_ms (rv_reference b) \<le> cp_completed_at_unix_ms r"
    using k(2) cleaned_before_completion [OF applied_applicationD(5) [OF valid] r k(1)]
    by (rule order_trans)
  with v x r b applied_applicationD(2,3,6) [OF valid] show ?thesis by blast
qed

text \<open>
  C11. Every acceptance criterion of a complete sprint is backed by evidence of its own kind on
  the final snapshot: an automated one by a validated, passing run of exactly its command, a
  human one by an accepted decision that consumed a prompt showing exactly its text; no record
  backs two criteria, and no prompt was decided twice.
\<close>

theorem completed_sprint_criteria_backed:
  assumes "is_complete (assess_completion sha cd sprint graph e)"
  shows "(\<forall>c\<in>set (sp_acceptance_criteria sprint).
      \<exists>r\<in>set (cx_criterion_evidence_receipts e). criterion_backed sha cd sprint e c r) \<and>
    ce_criterion_id ` set (cx_criterion_evidence_receipts e) =
      ac_criterion_id ` set (sp_acceptance_criteria sprint) \<and>
    distinct (map ce_criterion_id (cx_criterion_evidence_receipts e)) \<and>
    distinct (map hd_prompt_id (cx_human_acceptance_decisions e))"
proof -
  note c = criterion_evidenceD [OF completeD(3) [OF assms]]
  let ?R = "cx_criterion_evidence_receipts e" and ?C = "sp_acceptance_criteria sprint"
  have sub: "ac_criterion_id ` set ?C \<subseteq> ce_criterion_id ` set ?R"
  proof
    fix i assume "i \<in> ac_criterion_id ` set ?C"
    then obtain r where "r \<in> set ?R" "ce_criterion_id r = i"
      using c(1) unfolding criterion_backed_def by blast
    then show "i \<in> ce_criterion_id ` set ?R" by blast
  qed
  have "card (ac_criterion_id ` set ?C) = length ?C"
    using distinct_card [OF validate_sprint_specD(3) [OF completeD(1) [OF assms]]] by simp
  moreover have "card (ce_criterion_id ` set ?R) = length ?R"
    using distinct_card [OF c(2)] by simp
  ultimately have "ac_criterion_id ` set ?C = ce_criterion_id ` set ?R"
    using card_subset_eq [OF _ sub] c(4) by simp
  with c show ?thesis by blast
qed

end
