(* ===== verification/Evidence_Facts.thy ===== *)
theory Evidence_Facts
  imports Receipts
begin

text \<open>
  What accepted execution contracts guarantee: a policy stays within its grant, the restored
  endpoints of a change set undo it, an artifact set is determined by its parts, a receipt passes
  only by a normal exit, and verification evidence commits to the complete output streams.
\<close>

section \<open>Policies\<close>

text \<open>
  A policy accepted against a grant asks for nothing the grant withholds: same grant and
  root, writes only with write permission and only into a shadow workspace, networking only when
  the grant allows it, and an environment whose names are distinct and unambiguous.
\<close>

theorem policy_stays_within_grant:
  assumes "validate_against p g = Inr ()"
  shows "ep_grant_hash p = wg_grant_hash g \<and> ep_workspace_root p = wg_canonical_root g \<and>
    ep_read_scopes p \<noteq> [] \<and>
    (ep_write_scopes p \<noteq> [] \<longleftrightarrow> ep_mutation_mode p = ShadowWorkspace) \<and>
    (ep_write_scopes p \<noteq> [] \<longrightarrow> wp_write_regular_files (wg_permissions g)) \<and>
    (ep_network p = FullForAction \<longrightarrow> wg_network g = NetworkAllowed) \<and>
    (\<forall>s\<in>set (ep_read_scopes p @ ep_write_scopes p). validate_path_scope s = Inr ()) \<and>
    distinct (map ev_name (ep_environment p)) \<and>
    (\<forall>v\<in>set (ep_environment p). CHR ''='' \<notin> set (ev_name v) \<and>
       NUL \<notin> set (ev_name v @ ev_value v)) \<and>
    rl_wall_time_ms (ep_resource_limits p) \<noteq> 0 \<and> rl_max_memory_bytes (ep_resource_limits p) \<noteq> Some 0"
proof -
  have mode: "validate_mutation_mode p = Inr () \<longleftrightarrow>
      (ep_write_scopes p \<noteq> [] \<longleftrightarrow> ep_mutation_mode p = ShadowWorkspace)"
    by (simp add: validate_mutation_mode_def split: mutation_mode.splits)
  from assms show ?thesis
    unfolding validate_against_def seq_Cons_ok ensure_ok each_unique_ok seq_map_ok mode
      validate_resource_limits_def validate_environment_variable_def
    by auto
qed

section \<open>Change sets and their endpoints\<close>

text \<open>
  The meaning of the two endpoint lists, on an abstract workspace that maps paths to content
  digests: a touched endpoint expects its base and writes its result, a restored endpoint writes
  what a rollback has to put back.
\<close>

type_synonym workspace = "path \<rightharpoonup> digest"

definition bases_match :: "workspace \<Rightarrow> touched_endpoint list \<Rightarrow> bool" where
  "bases_match w es \<longleftrightarrow> (\<forall>x\<in>set es. w (te_path x) = te_base_hash x)"

definition write_touched :: "touched_endpoint list \<Rightarrow> workspace \<Rightarrow> workspace" where
  "write_touched es w = fold (\<lambda>x w. w(te_path x := te_result_hash x)) es w"

definition write_restored :: "restored_endpoint list \<Rightarrow> workspace \<Rightarrow> workspace" where
  "write_restored rs w = fold (\<lambda>x w. w(re_path x := re_restored_hash x)) rs w"

lemma touched_path [simp]: "te_path (touched_endpoint_from op) = fo_path op"
  by (cases op) simp_all

lemma restored_endpoint [simp]: "re_path (restored_endpoint_from op) = fo_path op"
  "re_restored_hash (restored_endpoint_from op) = te_base_hash (touched_endpoint_from op)"
  by (cases op; simp)+

lemma fold_upd_other: "p \<notin> key ` set xs \<Longrightarrow> fold (\<lambda>x w. w(key x := val x)) xs w p = w p"
  by (induction xs arbitrary: w) auto

lemma fold_upd_at:
  "distinct (map key xs) \<Longrightarrow> x \<in> set xs \<Longrightarrow> fold (\<lambda>x w. w(key x := val x)) xs w (key x) = val x"
  by (induction xs arbitrary: w) (auto simp: fold_upd_other image_iff)

text \<open>
  C36. The restored endpoints of an accepted change set undo it: on a workspace that matches
  every base, applying the touched endpoints puts each result in place and changes no other path,
  and writing the restored endpoints afterwards gives back exactly the workspace there was.
\<close>

theorem restored_endpoints_undo_change_set:
  assumes "validate_change_set c = Inr ()"
    and "bases_match w (map touched_endpoint_from (ch_operations c))"
  shows "(\<forall>op\<in>set (ch_operations c).
      write_touched (map touched_endpoint_from (ch_operations c)) w (fo_path op) =
        te_result_hash (touched_endpoint_from op)) \<and>
    (\<forall>p. p \<notin> fo_path ` set (ch_operations c) \<longrightarrow>
      write_touched (map touched_endpoint_from (ch_operations c)) w p = w p) \<and>
    write_restored (map restored_endpoint_from (ch_operations c))
      (write_touched (map touched_endpoint_from (ch_operations c)) w) = w"
proof -
  let ?ops = "ch_operations c"
  have d: "distinct (map fo_path ?ops)"
    using assms(1) by (simp add: validate_change_set_def each_unique_ok)
  have T: "write_touched (map touched_endpoint_from ?ops) w =
      fold (\<lambda>op w. w(fo_path op := te_result_hash (touched_endpoint_from op))) ?ops w"
    by (simp add: write_touched_def fold_map o_def)
  have R: "write_restored (map restored_endpoint_from ?ops) w' =
      fold (\<lambda>op w. w(fo_path op := te_base_hash (touched_endpoint_from op))) ?ops w'" for w'
    by (simp add: write_restored_def fold_map o_def)
  have "write_restored (map restored_endpoint_from ?ops)
      (write_touched (map touched_endpoint_from ?ops) w) p = w p" for p
  proof (cases "p \<in> fo_path ` set ?ops")
    case True
    then obtain op where "op \<in> set ?ops" "p = fo_path op" by blast
    with assms(2) show ?thesis
      unfolding R by (simp add: fold_upd_at [OF d] bases_match_def)
  next
    case False
    then show ?thesis unfolding R T by (simp add: fold_upd_other)
  qed
  then show ?thesis
    unfolding T by (auto simp: fold_upd_at [OF d] fold_upd_other R T)
qed

theorem restored_endpoints_undo_change_set_witness:
  "let a = Digest ''a''; b = Digest ''b''; p = [Normal ''p'']; q = [Normal ''q''];
       ops = [Create p a, Modify q a b];
       w = [q \<mapsto> a] in
   write_restored (map restored_endpoint_from ops) (write_touched (map touched_endpoint_from ops) w) = w"
proof -
  let ?ops = "[Create [Normal ''p''] (Digest ''a''),
    Modify [Normal ''q''] (Digest ''a'') (Digest ''b'')]"
  let ?c = "\<lparr>ch_change_set_id = ''c'', ch_base_snapshot = Digest ''x'',
    ch_result_snapshot = Digest ''y'', ch_operations = ?ops\<rparr>"
  have "validate_change_set ?c = Inr ()" by code_simp
  moreover have "bases_match [[Normal ''q''] \<mapsto> Digest ''a''] (map touched_endpoint_from (ch_operations ?c))"
    by (simp add: bases_match_def)
  ultimately show ?thesis
    using restored_endpoints_undo_change_set [of ?c "[[Normal ''q''] \<mapsto> Digest ''a'']"]
    by (simp only: Let_def change_set.select_convs)
qed

section \<open>Receipts and artifacts\<close>

lemma receipt_termination_ok:
  "validate_receipt_termination r = Inr u \<longleftrightarrow>
     (case vr_termination r of
        None \<Rightarrow> vr_exit_status r \<noteq> None
      | Some t \<Rightarrow> vr_exit_status r = exit_status t \<and> validate_termination t = Inr ())"
  by (auto simp: validate_receipt_termination_def validate_termination_def exit_status_def
      split: option.splits command_termination.splits)

text \<open>
  In an accepted receipt the compatibility exit status says what the typed termination says,
  so a receipt passes exactly when its exit status is zero, and a typed one only by \<open>Exited 0\<close>:
  a signal, a timeout, a cancellation or an output overflow never passes.
\<close>

theorem receipt_passes_only_by_exit_zero:
  assumes "validate_verification_receipt r = Inr ()"
  shows "(receipt_passed r \<longleftrightarrow> vr_exit_status r = Some 0) \<and>
    (\<forall>t. vr_termination r = Some t \<longrightarrow>
       vr_exit_status r = exit_status t \<and> (receipt_passed r \<longleftrightarrow> termination_passed t)) \<and>
    (vr_termination r = None \<longrightarrow> vr_exit_status r \<noteq> None \<and> validate_current_receipt r \<noteq> Inr ())"
proof -
  have "validate_receipt_termination r = Inr ()"
    using assms by (simp add: validate_verification_receipt_def)
  then show ?thesis
    unfolding receipt_termination_ok receipt_passed_def termination_passed_def exit_status_def
      validate_current_receipt_def
    by (auto split: option.splits command_termination.splits)
qed

text \<open>
  An artifact set is valid exactly when constructing it anew from its source and its two
  streams gives it back: nothing in a valid set is beyond what the constructor checks, and the
  constructor accepts the parts of every valid set.
\<close>

theorem artifact_set_valid_iff_constructed:
  "validate_artifact_set sha cd a = Inr () \<longleftrightarrow>
     artifact_set_try_new sha cd (am_source a) (am_stdout a) (am_stderr a) = Inr a"
proof -
  have a: "a = artifact_manifest.extend (artifact_manifest.truncate a)
      \<lparr>am_manifest_digest = am_manifest_digest a\<rparr>"
    by (simp add: artifact_manifest.defs)
  show ?thesis
    unfolding artifact_set_try_new_def Let_def bind_ok_Inr validate_artifact_set_def
    by (subst (2) a) (auto simp: artifact_manifest.defs)
qed

section \<open>The output commitment\<close>

definition stream_commitment :: "artifact_set \<Rightarrow> string" where
  "stream_commitment a = output_frame COMMAND_STREAM_OUTPUT_DIGEST_DOMAIN
     @ stream_frames ''stdout'' (am_stdout a) @ stream_frames ''stderr'' (am_stderr a)"

lemma output_frame_inject:
  assumes "output_frame a @ x = output_frame b @ y" "length a < 2 ^ 64" "length b < 2 ^ 64"
  shows "a = b \<and> x = y"
  using assms framed_inject [of a x b y] by (simp add: output_frame_def)

lemma stream_frames_inject:
  assumes "stream_frames n s @ x = stream_frames n t @ y" "length n < 2 ^ 64"
    and "length (digest_str (sa_content_digest s)) < 2 ^ 64"
    and "length (digest_str (sa_content_digest t)) < 2 ^ 64"
  shows "sa_byte_length s = sa_byte_length t \<and> sa_content_digest s = sa_content_digest t \<and> x = y"
proof -
  note f = output_frame_inject
  from assms(1) have "output_frame n @ output_frame (u64_be_bytes (sa_byte_length s)) @
      output_frame (digest_str (sa_content_digest s)) @ x = output_frame n @
      output_frame (u64_be_bytes (sa_byte_length t)) @ output_frame (digest_str (sa_content_digest t)) @ y"
    by (simp add: stream_frames_def)
  then have "output_frame (u64_be_bytes (sa_byte_length s)) @
      output_frame (digest_str (sa_content_digest s)) @ x =
      output_frame (u64_be_bytes (sa_byte_length t)) @ output_frame (digest_str (sa_content_digest t)) @ y"
    using f [OF _ assms(2) assms(2)] by blast
  from f [OF this] have "sa_byte_length s = sa_byte_length t"
    and "output_frame (digest_str (sa_content_digest s)) @ x =
      output_frame (digest_str (sa_content_digest t)) @ y" by simp_all
  with f [OF this(2) assms(3,4)] show ?thesis by (simp add: digest.expand)
qed

lemma output_evidence_bytes_Inr:
  "output_evidence_bytes sha cd a = Inr b \<longleftrightarrow>
     validate_artifact_set sha cd a = Inr () \<and> b = stream_commitment a"
  by (auto simp: output_evidence_bytes_def stream_commitment_def)

lemma stream_commitment_short:
  assumes "length (stream_commitment a) \<le> MAX_VERIFICATION_OUTPUT_EVIDENCE_BYTES"
  shows "length (digest_str (sa_content_digest (am_stdout a))) < 2 ^ 64"
    and "length (digest_str (sa_content_digest (am_stderr a))) < 2 ^ 64"
  using assms
  by (simp_all add: stream_commitment_def stream_frames_def output_frame_def
      MAX_VERIFICATION_OUTPUT_EVIDENCE_BYTES_def)

lemma stream_commitment_inject:
  assumes "stream_commitment a = stream_commitment b"
    and "length (stream_commitment a) \<le> MAX_VERIFICATION_OUTPUT_EVIDENCE_BYTES"
  shows "sa_byte_length (am_stdout a) = sa_byte_length (am_stdout b) \<and>
    sa_content_digest (am_stdout a) = sa_content_digest (am_stdout b) \<and>
    sa_byte_length (am_stderr a) = sa_byte_length (am_stderr b) \<and>
    sa_content_digest (am_stderr a) = sa_content_digest (am_stderr b)"
proof -
  note short = stream_commitment_short [OF assms(2)]
    stream_commitment_short [of b, OF assms(2) [unfolded assms(1)]]
  from assms(1) have eq: "stream_frames ''stdout'' (am_stdout a) @ stream_frames ''stderr'' (am_stderr a) =
      stream_frames ''stdout'' (am_stdout b) @ stream_frames ''stderr'' (am_stderr b)"
    by (simp add: stream_commitment_def)
  from stream_frames_inject [OF this] short have out: "sa_byte_length (am_stdout a) = sa_byte_length (am_stdout b)"
    "sa_content_digest (am_stdout a) = sa_content_digest (am_stdout b)"
    and err: "stream_frames ''stderr'' (am_stderr a) @ [] = stream_frames ''stderr'' (am_stderr b) @ []"
    by simp_all
  from stream_frames_inject [OF err] short out show ?thesis by simp
qed

lemma evidence_with_artifactsD:
  assumes "validate_verification_evidence sha cd v = Inr ()" "ve_output_artifacts v = Some a"
  shows "ve_output_evidence_bytes v = stream_commitment a"
    and "length (stream_commitment a) \<le> MAX_VERIFICATION_OUTPUT_EVIDENCE_BYTES"
    and "digest_sha256 sha (stream_commitment a) = vr_output_digest (ve_verification v)"
    and "as_effect_id (am_source a) = ve_effect_id v"
    and "as_runner_session_id (am_source a) = ve_runner_session_id v"
  using assms
  by (auto simp: validate_verification_evidence_def validate_output_artifacts_def bind_ok_Inr
      output_evidence_bytes_Inr)

text \<open>Two texts that SHA-256 does not tell apart; and the complete streams a manifest records.\<close>

definition sha_collision :: "(string \<Rightarrow> string) \<Rightarrow> string \<Rightarrow> string \<Rightarrow> bool" where
  "sha_collision sha x y \<longleftrightarrow> x \<noteq> y \<and> digest_sha256 sha x = digest_sha256 sha y"

definition records_streams ::
  "(string \<Rightarrow> string) \<Rightarrow> artifact_set \<Rightarrow> string \<Rightarrow> string \<Rightarrow> bool" where
  "records_streams sha a out err \<longleftrightarrow> sa_content_digest (am_stdout a) = digest_sha256 sha out \<and>
     sa_content_digest (am_stderr a) = digest_sha256 sha err"

text \<open>
  C38. The output digest of a receipt commits to the complete output. When two accepted evidence
  envelopes with artifacts carry the same output digest, then either their two commitments are a
  collision of SHA-256, or standard output and standard error agree in recorded length and content
  digest; and then the complete streams that these digests record are the same bytes, unless the two
  streams themselves are a collision.
\<close>

theorem output_digest_commits_to_streams:
  assumes "validate_verification_evidence sha cd v = Inr ()" "ve_output_artifacts v = Some a"
    and "validate_verification_evidence sha cd w = Inr ()" "ve_output_artifacts w = Some b"
    and "vr_output_digest (ve_verification v) = vr_output_digest (ve_verification w)"
    and "records_streams sha a out err" "records_streams sha b out' err'"
  shows "sha_collision sha (ve_output_evidence_bytes v) (ve_output_evidence_bytes w) \<or>
    sa_byte_length (am_stdout a) = sa_byte_length (am_stdout b) \<and>
    sa_content_digest (am_stdout a) = sa_content_digest (am_stdout b) \<and>
    sa_byte_length (am_stderr a) = sa_byte_length (am_stderr b) \<and>
    sa_content_digest (am_stderr a) = sa_content_digest (am_stderr b) \<and>
    (out = out' \<or> sha_collision sha out out') \<and> (err = err' \<or> sha_collision sha err err')"
proof (cases "ve_output_evidence_bytes v = ve_output_evidence_bytes w")
  case False
  note A = evidence_with_artifactsD [OF assms(1,2)] and B = evidence_with_artifactsD [OF assms(3,4)]
  have "digest_sha256 sha (ve_output_evidence_bytes v) = digest_sha256 sha (ve_output_evidence_bytes w)"
    using A(1,3) B(1,3) assms(5) by simp
  with False show ?thesis by (simp add: sha_collision_def)
next
  case True
  note A = evidence_with_artifactsD [OF assms(1,2)] and B = evidence_with_artifactsD [OF assms(3,4)]
  have "stream_commitment a = stream_commitment b" using True A(1) B(1) by simp
  from stream_commitment_inject [OF this A(2)] assms(6,7) show ?thesis
    by (auto simp: records_streams_def sha_collision_def)
qed

end
