(* ===== verification/Example_Finish.thy ===== *)
theory Example_Finish
  imports Completed Evidence_Facts Example_Sprint
begin

text \<open>
  A sprint carried to its end: one task, an automated and a human criterion, a worker, a final
  verifier and an applier. All the requirements of \<open>assess_completion\<close> hold for its evidence, so
  it is the concrete input of the witnesses of \<open>Completed\<close>.
\<close>

definition fin_base :: digest where "fin_base = ex_digest (CHR ''a'')"
definition fin_final :: digest where "fin_final = ex_digest (CHR ''f'')"
definition fin_grant :: digest where "fin_grant = ex_digest (CHR ''b'')"
definition fin_policy :: digest where "fin_policy = ex_digest (CHR ''c'')"
definition zero_hash :: digest where "zero_hash = Digest (replicate 64 (CHR ''0''))"

definition fin_command :: command_spec where
  "fin_command = \<lparr>cs_program = ''cargo'', cs_arguments = [''test''], cs_working_directory = []\<rparr>"

definition fin_criteria :: "acceptance_criterion list" where
  "fin_criteria =
     [\<lparr>ac_criterion_id = ''criterion-1'', ac_description = ''the suite passes'',
       ac_kind = Automated fin_command\<rparr>,
      \<lparr>ac_criterion_id = ''criterion-2'', ac_description = ''the result reads well'',
       ac_kind = HumanJudgment\<rparr>]"

definition fin_sprint :: sprint_spec where
  "fin_sprint = ex_sprint \<lparr>sp_acceptance_criteria := fin_criteria\<rparr>"

definition fin_graph :: task_graph where
  "fin_graph = \<lparr>tg_graph_id = ''graph-1'', tg_tasks =
     [(ex_task ''ready'' [] ''src/a'') \<lparr>ts_acceptance_checks := [''criterion-1'', ''criterion-2'']\<rparr>]\<rparr>"

definition fin_launch ::
  "string \<Rightarrow> runner_session_purpose \<Rightarrow> string option \<Rightarrow> worker_lease option \<Rightarrow> u64 \<Rightarrow>
   runner_launch_intent" where
  "fin_launch n purpose worker lease at =
     \<lparr>la_contract_version = CONTRACT_VERSION, la_launch_id = ''launch-'' @ n,
      la_sprint_id = ''sprint-1'', la_session_id = ''session-'' @ n, la_purpose = purpose,
      la_worker_id = worker, la_worker_lease = lease, la_policy_hash = fin_policy,
      la_runner_binary_digest = zero_hash, la_protocol_digest = zero_hash,
      la_private_state_digest = zero_hash, la_grant_hash = fin_grant, la_policy_version = 1,
      la_created_at_unix_ms = at\<rparr>"

definition fin_session :: "runner_launch_intent \<Rightarrow> runner_session_policy_record" where
  "fin_session l = (session_of_launch l) \<lparr>rs_session_nonce := zero_hash,
     rs_registered_at_unix_ms := la_created_at_unix_ms l + 1\<rparr>"

definition fin_cleanup :: "string \<Rightarrow> runner_launch_intent \<Rightarrow> u64 \<Rightarrow> worker_cleanup_evidence" where
  "fin_cleanup i l at =
     \<lparr>cv_receipt =
        \<lparr>cr_contract_version = CONTRACT_VERSION, cr_receipt_id = i, cr_sprint_id = ''sprint-1'',
         cr_launch_id = la_launch_id l, cr_effect_id = ''effect-'' @ i,
         cr_observation_id = ''observation-'' @ i, cr_session_id = la_session_id l,
         cr_worker_lease = la_worker_lease l, cr_policy_hash = fin_policy,
         cr_grant_hash = fin_grant, cr_policy_version = 1, cr_platform_backend = LinuxCgroupV2,
         cr_os_evidence_digest = zero_hash, cr_surviving_processes = 0,
         cr_cleaned_at_unix_ms = at\<rparr>,
      cv_os_evidence_bytes = ''empty''\<rparr>"

definition fin_verification ::
  "string \<Rightarrow> string option \<Rightarrow> runner_launch_intent \<Rightarrow> u64 \<Rightarrow> verification_effect_evidence" where
  "fin_verification i task l at =
     \<lparr>ve_contract_version = CONTRACT_VERSION,
      ve_verification =
        \<lparr>vr_receipt_id = i, vr_sprint_id = ''sprint-1'', vr_task_id = task,
         vr_snapshot_id = fin_final, vr_command = fin_command, vr_policy_hash = fin_policy,
         vr_exit_status = Some 0, vr_termination = Some (Exited 0), vr_output_digest = zero_hash,
         vr_duration_ms = 1, vr_finished_at_unix_ms = at\<rparr>,
      ve_effect_id = ''effect-'' @ i, ve_observation_id = ''observation-'' @ i,
      ve_runner_launch_id = la_launch_id l, ve_runner_session_id = la_session_id l,
      ve_output_artifacts = None, ve_output_evidence_bytes = ''ok''\<rparr>"

abbreviation "fin_l1 \<equiv> fin_launch ''1'' TaskWorker (Some ''worker-a'') (Some ex_lease) 1750000000001"
abbreviation "fin_l2 \<equiv> fin_launch ''2'' FinalVerifier None None 1750000000010"
abbreviation "fin_l3 \<equiv> fin_launch ''3'' Applier None None 1750000000020"
abbreviation "fin_v1 \<equiv> fin_verification ''vr-1'' (Some ''ready'') fin_l1 1750000000003"
abbreviation "fin_v2 \<equiv> fin_verification ''vr-2'' None fin_l2 1750000000012"
abbreviation "fin_c1 \<equiv> fin_cleanup ''cl-1'' fin_l1 1750000000005"
abbreviation "fin_c2 \<equiv> fin_cleanup ''cl-2'' fin_l2 1750000000016"
abbreviation "fin_c3 \<equiv> fin_cleanup ''cl-3'' fin_l3 1750000000024"

definition fin_integration :: task_integration_receipt where
  "fin_integration =
     \<lparr>ti_contract_version = CONTRACT_VERSION, ti_receipt_id = ''ti-1'', ti_sprint_id = ''sprint-1'',
      ti_task_id = ''ready'', ti_worker_id = ''worker-a'', ti_worker_lease = Some ex_lease,
      ti_worker_launch_id = ''launch-1'', ti_worker_session_id = ''session-1'',
      ti_worker_policy_hash = fin_policy, ti_effect_id = ''effect-ti'',
      ti_observation_id = ''observation-ti'', ti_change_set_id = ''change-1'',
      ti_input_snapshot = fin_base, ti_result_snapshot = fin_final,
      ti_task_verification_receipt_ids = [''vr-1''], ti_integration_ordinal = 0,
      ti_integrated_at_unix_ms = 1750000000004\<rparr>"

definition fin_application :: application_evidence where
  "fin_application =
     \<lparr>ax_contract_version = CONTRACT_VERSION,
      ax_receipt =
        \<lparr>ap_contract_version = CONTRACT_VERSION, ap_receipt_id = ''ap-1'',
         ap_sprint_id = ''sprint-1'', ap_effect_id = ''effect-ap'',
         ap_observation_id = ''observation-ap'', ap_applier_session_id = ''session-3'',
         ap_transaction_id = ''tx-1'', ap_change_set_id = ''change-all'',
         ap_base_snapshot = fin_base, ap_result_snapshot = fin_final,
         ap_policy_hash = fin_policy, ap_grant_hash = fin_grant, ap_policy_version = 1,
         ap_applied_operations_digest = zero_hash, ap_touched_path_endpoints_digest = zero_hash,
         ap_live_manifest_digest = fin_final, ap_applied_at_unix_ms = 1750000000022\<rparr>,
      ax_validation =
        \<lparr>av_mode = DirectEffectResponse, av_runner_launch_id = ''launch-3'',
         av_runner_session_id = ''session-3'', av_policy_hash = fin_policy,
         av_grant_hash = fin_grant, av_policy_version = 1, av_private_state_digest = zero_hash\<rparr>\<rparr>"

definition fin_rollback :: rollback_reference_evidence where
  "fin_rollback =
     \<lparr>rv_reference =
        \<lparr>rf_contract_version = CONTRACT_VERSION, rf_reference_id = ''rf-1'',
         rf_sprint_id = ''sprint-1'', rf_application_receipt_id = ''ap-1'',
         rf_transaction_id = ''tx-1'', rf_journal_binding_digest = zero_hash,
         rf_base_snapshot = fin_base, rf_touched_target_set_digest = zero_hash,
         rf_reopened_artifacts_digest = zero_hash, rf_validated_at_unix_ms = 1750000000023\<rparr>,
      rv_reopened_artifacts_bytes = ''artifacts''\<rparr>"

definition fin_receipt :: completion_receipt where
  "fin_receipt =
     \<lparr>cp_contract_version = CONTRACT_VERSION, cp_receipt_id = ''cp-1'', cp_sprint_id = ''sprint-1'',
      cp_grant_hash = fin_grant, cp_policy_version = 1, cp_final_snapshot = fin_final,
      cp_final_verification_receipt_id = ''vr-2'',
      cp_application = AppliedCompletion ''ap-1'' ''rf-1'',
      cp_worker_cleanup_receipt_ids = [''cl-1'', ''cl-2'', ''cl-3''],
      cp_satisfied_criterion_ids = [''criterion-1'', ''criterion-2''],
      cp_criterion_evidence_receipt_ids = [''ce-1'', ''ce-2''],
      cp_task_integration_receipt_ids = [''ti-1''],
      cp_verification_receipts = [''vr-1'', ''vr-2''],
      cp_provider_backend = ''fake'', cp_provider_model = ''deterministic'',
      cp_final_report_id = ''report-1'', cp_completed_at_unix_ms = 1750000000025\<rparr>"

definition fin_evidence :: completion_evidence where
  "fin_evidence =
     \<lparr>cx_criterion_evidence_receipts =
        [Verified ''ce-1'' ''sprint-1'' ''criterion-1'' fin_final ''vr-2'' 1750000000013,
         AcceptedByYou ''ce-2'' ''sprint-1'' ''criterion-2'' fin_final ''decision-1'' ''prompt-1''
           OneToOne 1750000000015],
      cx_human_acceptance_prompts =
        [\<lparr>hp_prompt_id = ''prompt-1'', hp_ui_session_id = ''ui-1'', hp_sprint_id = ''sprint-1'',
          hp_criterion_id = ''criterion-2'', hp_criterion_text_digest = zero_hash,
          hp_snapshot_digest = fin_final, hp_workspace_grant_hash = fin_grant,
          hp_rendered_claim_digest = zero_hash, hp_backing = OneToOne,
          hp_issued_event_sequence = 5\<rparr>],
      cx_human_acceptance_decisions =
        [\<lparr>hd_decision_id = ''decision-1'', hd_prompt_id = ''prompt-1'',
          hd_outcome = OutcomeAcceptedByYou, hd_consumed_event_sequence = 5,
          hd_decided_at = 1750000000014\<rparr>],
      cx_task_integration_receipts = [fin_integration],
      cx_verification_effect_evidence = [fin_v1, fin_v2],
      cx_final_snapshot = fin_final,
      cx_final_verification = Some (ve_verification fin_v2),
      cx_verification_receipt_ids = [''vr-2'', ''vr-1''],
      cx_final_verification_session_id = Some ''session-2'',
      cx_runner_sessions = [fin_session fin_l1, fin_session fin_l2, fin_session fin_l3],
      cx_runner_launches = [fin_l1, fin_l2, fin_l3],
      cx_application_evidence = Some fin_application,
      cx_verified_no_op_receipt = None,
      cx_worker_cleanup_evidence = [fin_c2, fin_c1, fin_c3],
      cx_rollback_reference = Some fin_rollback,
      cx_unresolved_conflicts = 0, cx_unknown_side_effects = 0, cx_active_worker_leases = 0,
      cx_released_worker_leases = [ex_lease],
      cx_completion_receipt = Some fin_receipt, cx_completion_receipt_persisted = True,
      cx_final_report_id = Some ''report-1''\<rparr>"

definition fin_codec :: evidence_codec where
  "fin_codec = \<lparr>cd_manifest = (\<lambda>m. Inr ''manifest''), cd_command = (\<lambda>c. Inr ''command'')\<rparr>"

abbreviation "fin_complete \<equiv>
  is_complete (assess_completion zero_sha fin_codec fin_sprint fin_graph fin_evidence)"

section \<open>Evaluation\<close>

lemma ex_lease_valid: "validate_worker_lease zero_sha ex_lease = Inr ()"
  using worker_lease_new_valid [OF ex_lease_new] .

lemma fin_nonblank:
  "list_all (\<lambda>s. \<not> blank s) [''graph-1'', ''sprint-1'', ''launch-1'', ''launch-2'', ''launch-3'',
     ''session-1'', ''session-2'', ''session-3'', ''vr-1'', ''vr-2'', ''ready'', ''ti-1'', ''worker-a'',
     ''effect-ti'', ''observation-ti'', ''change-1'', ''cl-1'', ''cl-2'', ''cl-3'', ''ce-1'', ''ce-2'', ''report-1'',
     ''rf-1'', ''ap-1'', ''tx-1'', ''criterion-1'', ''criterion-2'', ''decision-1'', ''prompt-1'', ''ui-1'',
     ''effect-cl-1'', ''effect-cl-2'', ''effect-cl-3'', ''observation-cl-1'', ''observation-cl-2'',
     ''observation-cl-3'',  ''effect-ap'', ''observation-ap'', ''change-all'', ''cp-1'', ''fake'', ''deterministic'',
     ''effect-vr-1'', ''effect-vr-2'', ''observation-vr-1'', ''observation-vr-2'', ''cargo'']"
  by code_simp

lemmas nonblank = fin_nonblank [simplified]

lemma ex_lease_fields:
  "wl_sprint_id ex_lease = ''sprint-1''" "wl_task_id ex_lease = ''ready''"
  "wl_worker_id ex_lease = ''worker-a''" "wl_acquired_at_unix_ms ex_lease = 1750000000000"
  "wl_lease_id ex_lease = ''lease-'' @ replicate 64 (CHR ''0'')"
  by (simp_all add: ex_lease_def)

lemmas fin_simps = nonblank ex_lease_valid ex_lease_fields zero_digest zero_hash_def

lemma fin_sprint_valid: "validate_sprint_spec fin_sprint = Inr ()"
  by code_simp

lemma fin_graph_valid: "validate_for_sprint fin_graph fin_sprint = Inr ()"
proof -
  have "validate_task_spec (hd (tg_tasks fin_graph)) = Inr ()" by code_simp
  moreover have "criterion_id_set fin_sprint = {''criterion-1'', ''criterion-2''}"
    by (simp add: criterion_id_set_def fin_sprint_def fin_criteria_def)
  ultimately show ?thesis
    unfolding validate_for_sprint_def Let_def fin_sprint_valid
    by (simp add: fin_graph_def nonblank ex_task_def fin_sprint_def ex_sprint_def bind_ok_Inr
        initially_ready_def insert_commute)
qed

lemma fin_launches_valid:
  "list_all (\<lambda>l. validate_runner_launch zero_sha l = Inr () \<and>
     validate_runner_session zero_sha (fin_session l) = Inr ()) [fin_l1, fin_l2, fin_l3]"
  by (simp add: validate_runner_launch_ok validate_runner_session_ok lease_fits_role_def fin_launch_def
     fin_session_def session_of_launch_def fin_simps)

lemma fin_cleanups_valid:
  "list_all (\<lambda>c. validate_cleanup_evidence zero_sha c = Inr ()) [fin_c1, fin_c2, fin_c3]"
  by (simp add: validate_cleanup_evidence_def validate_cleanup_receipt_def fin_cleanup_def fin_launch_def
     fin_simps MAX_WORKER_CLEANUP_EVIDENCE_BYTES_def)

lemma fin_verifications_valid:
  "validate_verification_evidence zero_sha fin_codec fin_v1 = Inr ()"
  "validate_verification_evidence zero_sha fin_codec fin_v2 = Inr ()"
  by (simp_all add: validate_verification_evidence_def validate_verification_receipt_def
      validate_receipt_termination_def validate_termination_def validate_command_spec_def
      fin_verification_def fin_launch_def fin_command_def fin_simps
      MAX_VERIFICATION_OUTPUT_EVIDENCE_BYTES_def)

lemma fin_records_valid:
  "validate_application_evidence fin_application = Inr ()"
  "validate_rollback_reference_evidence zero_sha fin_rollback = Inr ()"
  "validate_completion_receipt fin_receipt = Inr ()"
  subgoal by code_simp
  subgoal by (simp add: validate_rollback_reference_evidence_def validate_rollback_reference_def fin_rollback_def fin_simps MAX_ROLLBACK_REFERENCE_EVIDENCE_BYTES_def)
  subgoal by (simp add: validate_completion_receipt_def validate_completion_application_def fin_receipt_def fin_simps)
  done

lemma fin_integration_valid: "validate_task_integration_receipt zero_sha fin_integration = Inr ()"
  by (simp add: validate_task_integration_receipt_def bind_ok_Inr validate_assignment_def fin_integration_def fin_simps)


lemma fin_launch_fields:
  "la_launch_id (fin_launch n p w l t) = ''launch-'' @ n" "la_session_id (fin_launch n p w l t) = ''session-'' @ n"
  "la_purpose (fin_launch n p w l t) = p" "la_worker_id (fin_launch n p w l t) = w"
  "la_worker_lease (fin_launch n p w l t) = l" "la_created_at_unix_ms (fin_launch n p w l t) = t"
  "la_policy_hash (fin_launch n p w l t) = fin_policy" "la_grant_hash (fin_launch n p w l t) = fin_grant"
  "la_policy_version (fin_launch n p w l t) = 1" "la_sprint_id (fin_launch n p w l t) = ''sprint-1''"
  "la_runner_binary_digest (fin_launch n p w l t) = zero_hash"
  "la_protocol_digest (fin_launch n p w l t) = zero_hash"
  "la_private_state_digest (fin_launch n p w l t) = zero_hash"
  by (simp_all add: fin_launch_def)

lemma fin_sprint_fields:
  "sp_sprint_id fin_sprint = ''sprint-1''" "sp_base_snapshot fin_sprint = fin_base"
  "wg_grant_hash (sp_workspace_grant fin_sprint) = fin_grant"
  "wg_policy_version (sp_workspace_grant fin_sprint) = 1"
  "pp_backend_id (sp_provider fin_sprint) = ''fake''"
  "pp_model_id (sp_provider fin_sprint) = ''deterministic''"
  "sp_acceptance_criteria fin_sprint = fin_criteria"
  by (simp_all add: fin_sprint_def ex_sprint_def fin_base_def fin_grant_def)

lemma fin_sessions_ok: "session_policies_are_valid zero_sha fin_sprint fin_evidence"
  using fin_launches_valid
  by (simp add: session_policies_are_valid_def fin_evidence_def launch_is_valid_def session_is_valid_def
      session_agrees_def final_session_is_registered_def bt_get_def
      fin_launch_fields fin_sprint_fields fin_session_def session_of_launch_def fin_verification_def)

lemma fin_cleanup_ok: "cleanup_set_is_complete zero_sha fin_sprint fin_evidence"
  using fin_cleanups_valid
  by (simp add: cleanup_set_is_complete_def fin_evidence_def launch_is_cleaned_def Let_def bt_get_def
      fin_launch_fields fin_sprint_fields fin_session_def session_of_launch_def fin_verification_def
      fin_cleanup_def)

lemma fin_leases_ok: "worker_lease_evidence_is_complete zero_sha fin_evidence"
  by (simp add: worker_lease_evidence_is_complete_def fin_evidence_def fin_launch_fields bt_get_def
      bt_collect_def lease_is_expected_def fin_cleanup_def fin_integration_def ex_lease_valid)


lemma fin_final_ok: "final_verification_is_valid zero_sha fin_codec fin_sprint fin_evidence"
proof -
  have "validate_verification_receipt (ve_verification fin_v2) = Inr ()"
    using fin_verifications_valid(2) by (simp add: validate_verification_evidence_def)
  then show ?thesis
    using fin_verifications_valid
    by (simp add: final_verification_is_valid_def fin_evidence_def fin_sprint_fields)
      (simp add: fin_verification_def receipt_passed_def)
qed

lemma fin_tasks_ok: "task_integrations_are_complete zero_sha fin_codec fin_sprint fin_graph fin_evidence"
  using fin_verifications_valid fin_integration_valid
  by (simp add: task_integrations_are_complete_def fin_evidence_def fin_sprint_fields fin_graph_def
      ex_task_def session_matches_def matching_verifications_def verifies_task_def Let_def)
    (simp add: fin_integration_def fin_launch_fields fin_session_def session_of_launch_def
      fin_verification_def receipt_passed_def fin_base_def fin_final_def)

lemma fin_session_lookup:
  "session_by_id fin_evidence ''session-3'' = Some (fin_session fin_l3)"
  by (simp add: session_by_id_def fin_evidence_def fin_session_def session_of_launch_def
      fin_launch_fields)

lemma fin_application_fields:
  "ap_applier_session_id (ax_receipt fin_application) = ''session-3''"
  "av_runner_session_id (ax_validation fin_application) = ''session-3''"
  "ap_applied_at_unix_ms (ax_receipt fin_application) = 1750000000022"
  by (simp_all add: fin_application_def)

lemma fin_authority_ok: "application_validation_authority_is_valid fin_evidence fin_application"
  by (simp add: application_validation_authority_is_valid_def fin_session_lookup
      fin_application_fields Let_def)
    (simp add: fin_session_def session_of_launch_def fin_launch_fields fin_application_def)

lemma fin_cleanup_ordered: "application_cleanup_is_ordered fin_evidence fin_application"
proof -
  have fields: "cx_worker_cleanup_evidence fin_evidence = [fin_c2, fin_c1, fin_c3]"
    "cx_runner_launches fin_evidence = [fin_l1, fin_l2, fin_l3]"
    "cx_completion_receipt fin_evidence = Some fin_receipt"
    "cx_rollback_reference fin_evidence = Some fin_rollback"
    by (simp_all add: fin_evidence_def)
  have times: "cp_completed_at_unix_ms fin_receipt = 1750000000025"
    "rf_validated_at_unix_ms (rv_reference fin_rollback) = 1750000000023"
    "cr_launch_id (cv_receipt (fin_cleanup i l t)) = la_launch_id l"
    "cr_cleaned_at_unix_ms (cv_receipt (fin_cleanup i l t)) = t"
    "rs_launch_id (fin_session l) = la_launch_id l" for i l t
    by (simp_all add: fin_receipt_def fin_rollback_def fin_cleanup_def fin_session_def
        session_of_launch_def)
  show ?thesis
    by (simp add: application_cleanup_is_ordered_def application_cleanup_time_is_ordered_def
        fin_application_fields fin_session_lookup fields times fin_launch_fields)
qed

lemma fin_application_ok:
  "applied_application_is_valid fin_sprint fin_evidence fin_application"
  using fin_records_valid(1) fin_authority_ok fin_cleanup_ordered
  by (simp add: applied_application_is_valid_def fin_sprint_fields fin_application_fields Let_def)
    (simp add: fin_evidence_def fin_application_def fin_verification_def)

lemma fin_rollback_ok: "rollback_is_available zero_sha fin_sprint fin_evidence"
  using fin_records_valid
  by (simp add: rollback_is_available_def fin_evidence_def fin_sprint_fields Let_def)
    (simp add: fin_application_def fin_launch_fields fin_cleanup_def fin_rollback_def)

lemma fin_criteria_ok: "criterion_evidence_is_complete zero_sha fin_codec fin_sprint fin_evidence"
  using fin_verifications_valid
  by (simp add: criterion_evidence_is_complete_def fin_evidence_def fin_sprint_fields
      criterion_record_is_valid_def validate_criterion_evidence_def validate_prompt_def
      validate_decision_def nonblank bt_get_def criterion_is_satisfied_def fin_criteria_def
      criterion_is_verified_def criterion_is_accepted_def)
    (simp add: fin_verification_def receipt_passed_def fin_simps)

lemma fin_receipt_ok:
  "completion_receipt_is_consistent zero_sha fin_codec fin_sprint fin_graph fin_evidence"
proof -
  have "receipt_application_matches fin_sprint fin_evidence fin_receipt"
    using fin_records_valid(1)
    by (simp add: receipt_application_matches_def fin_evidence_def fin_sprint_fields)
      (simp add: fin_receipt_def fin_application_def fin_rollback_def fin_sprint_fields)
  moreover have "receipt_header_matches fin_sprint fin_evidence fin_receipt"
    using fin_records_valid(3)
    by (simp add: receipt_header_matches_def fin_evidence_def fin_sprint_fields)
      (simp add: fin_receipt_def)
  moreover have "sort (map (\<lambda>c. cr_receipt_id (cv_receipt c)) [fin_c2, fin_c1, fin_c3]) =
      [''cl-1'', ''cl-2'', ''cl-3'']"
    by (simp add: fin_cleanup_def)
  ultimately show ?thesis
    using fin_tasks_ok
    unfolding completion_receipt_is_consistent_def Let_def
    by (simp add: fin_evidence_def fin_sprint_fields fin_criteria_def)
      (simp add: fin_receipt_def fin_verification_def fin_integration_def insert_commute)
qed

lemma fin_is_complete: "fin_complete"
proof -
  have "requirement_holds zero_sha fin_codec fin_sprint fin_graph fin_evidence r" for r
    using fin_final_ok fin_tasks_ok fin_application_ok fin_rollback_ok fin_criteria_ok fin_receipt_ok
      fin_sessions_ok fin_cleanup_ok fin_leases_ok fin_sprint_valid fin_graph_valid
    by (cases r) (simp_all add: requirement_holds_def application_ok_iff cleanup_ok_def
        selected_application_def fin_evidence_def nonblank)
  then show ?thesis by (simp add: is_complete_iff)
qed

section \<open>Witnesses\<close>

theorem completed_sprint_snapshot_chain_witness:
  "fin_complete \<and> linked fin_base [fin_integration] fin_final \<and>
   (\<exists>v\<in>set (cx_verification_effect_evidence fin_evidence).
      vr_receipt_id (ve_verification v) = ''vr-1'' \<and>
      vr_snapshot_id (ve_verification v) = ti_result_snapshot fin_integration)"
proof -
  have i: "''vr-1'' \<in> set (ti_task_verification_receipt_ids fin_integration)"
    by (simp add: fin_integration_def)
  from completed_sprint_snapshot_chain [OF fin_is_complete, unfolded Let_def] i
  show ?thesis
    using fin_is_complete by (fastforce simp: fin_evidence_def fin_sprint_fields)
qed

theorem completed_sprint_left_no_process_witness:
  "fin_complete \<and> length (cx_worker_cleanup_evidence fin_evidence) = 3 \<and>
   (\<exists>c\<in>set (cx_worker_cleanup_evidence fin_evidence).
      cr_launch_id (cv_receipt c) = ''launch-2'' \<and> cr_surviving_processes (cv_receipt c) = 0)"
proof -
  have l: "fin_l2 \<in> set (cx_runner_launches fin_evidence)"
    and n: "length (cx_runner_launches fin_evidence) = 3"
    by (simp_all add: fin_evidence_def)
  from completed_sprint_left_no_process [OF fin_is_complete] l n fin_is_complete
  show ?thesis by (auto simp: fin_launch_fields dest!: bspec)
qed

theorem completed_sprint_released_every_lease_witness:
  "fin_complete \<and> set (cx_released_worker_leases fin_evidence) = {ex_lease} \<and>
   validate_worker_lease zero_sha ex_lease = Inr ()"
proof -
  have "set (cx_released_worker_leases fin_evidence) = {ex_lease}"
    by (simp add: fin_evidence_def)
  with completed_sprint_released_every_lease [OF fin_is_complete] fin_is_complete
  show ?thesis by simp
qed

theorem completed_sprint_timeline_witness:
  "fin_complete \<and> (\<exists>v x. cx_final_verification fin_evidence = Some v \<and>
     cx_application_evidence fin_evidence = Some x \<and>
     vr_finished_at_unix_ms v \<le> ap_applied_at_unix_ms (ax_receipt x))"
  using completed_sprint_timeline [OF fin_is_complete] fin_is_complete by blast

theorem completed_sprint_criteria_backed_witness:
  "fin_complete \<and> ac_kind (hd fin_criteria) = Automated fin_command \<and>
   (\<exists>r. r \<in> set (cx_criterion_evidence_receipts fin_evidence) \<and>
      criterion_backed zero_sha fin_codec fin_sprint fin_evidence (hd fin_criteria) r) \<and>
   ac_kind (last fin_criteria) = HumanJudgment \<and>
   (\<exists>r. r \<in> set (cx_criterion_evidence_receipts fin_evidence) \<and>
      criterion_backed zero_sha fin_codec fin_sprint fin_evidence (last fin_criteria) r)"
proof -
  have members: "hd fin_criteria \<in> set (sp_acceptance_criteria fin_sprint)"
    "last fin_criteria \<in> set (sp_acceptance_criteria fin_sprint)"
    unfolding fin_sprint_fields by (simp_all add: fin_criteria_def)
  have "ac_kind (hd fin_criteria) = Automated fin_command" "ac_kind (last fin_criteria) = HumanJudgment"
    by (simp_all add: fin_criteria_def)
  with completed_sprint_criteria_backed [OF fin_is_complete] members fin_is_complete
  show ?thesis by blast
qed

section \<open>A policy and an envelope with complete output\<close>

definition fin_execution_policy :: execution_policy where
  "fin_execution_policy =
     \<lparr>ep_policy_id = ''policy-1'', ep_grant_hash = ex_digest (CHR ''b''),
      ep_workspace_root = [RootDir, Normal ''tmp'', Normal ''grok-build-scheduler-tests''],
      ep_read_scopes = [WorkspaceScope], ep_write_scopes = [RelativeScope [Normal ''src'']],
      ep_environment = [\<lparr>ev_name = ''LANG'', ev_value = ''C''\<rparr>], ep_network = NetworkNone,
      ep_mutation_mode = ShadowWorkspace,
      ep_resource_limits = \<lparr>rl_wall_time_ms = 1000, rl_max_output_bytes = 4096,
        rl_max_processes = 8, rl_max_memory_bytes = None\<rparr>,
      ep_approval_id = None, ep_policy_hash = ex_digest (CHR ''c'')\<rparr>"

theorem policy_stays_within_grant_witness:
  "wp_write_regular_files (wg_permissions (sp_workspace_grant ex_sprint)) \<and>
   ep_network fin_execution_policy \<noteq> FullForAction"
proof -
  have valid: "validate_against fin_execution_policy (sp_workspace_grant ex_sprint) = Inr ()"
    by code_simp
  have w: "ep_write_scopes fin_execution_policy \<noteq> []" by (simp add: fin_execution_policy_def)
  have "wg_network (sp_workspace_grant ex_sprint) \<noteq> NetworkAllowed"
    by (simp add: ex_sprint_def)
  with policy_stays_within_grant [OF valid] w show ?thesis by blast
qed

theorem receipt_passes_only_by_exit_zero_witness:
  "receipt_passed (ve_verification fin_v1) \<and> termination_passed (Exited 0)"
proof -
  have valid: "validate_verification_receipt (ve_verification fin_v1) = Inr ()"
    using fin_verifications_valid(1) by (simp add: validate_verification_evidence_def)
  have "vr_termination (ve_verification fin_v1) = Some (Exited 0)"
    "vr_exit_status (ve_verification fin_v1) = Some 0"
    by (simp_all add: fin_verification_def)
  with receipt_passes_only_by_exit_zero [OF valid] show ?thesis by blast
qed

definition fin_artifacts :: "string \<Rightarrow> runner_launch_intent \<Rightarrow> artifact_set" where
  "fin_artifacts i l =
     \<lparr>am_format_version = 1,
      am_source = \<lparr>as_sprint_id = ''sprint-1'', as_runner_launch_id = la_launch_id l,
        as_runner_session_id = la_session_id l, as_effect_id = ''effect-'' @ i,
        as_request_digest = zero_hash\<rparr>,
      am_stdout = \<lparr>sa_stream = Stdout, sa_byte_length = 3, sa_content_digest = zero_hash\<rparr>,
      am_stderr = \<lparr>sa_stream = Stderr, sa_byte_length = 0, sa_content_digest = zero_hash\<rparr>,
      am_manifest_digest = zero_hash\<rparr>"

definition with_artifacts ::
  "string \<Rightarrow> runner_launch_intent \<Rightarrow> verification_effect_evidence \<Rightarrow> verification_effect_evidence" where
  "with_artifacts i l v = v \<lparr>ve_output_artifacts := Some (fin_artifacts i l),
     ve_output_evidence_bytes := stream_commitment (fin_artifacts i l)\<rparr>"

lemma length_stream_commitment:
  "length (stream_commitment (fin_artifacts i l)) = 240"
  by (simp add: stream_commitment_def fin_artifacts_def stream_frames_def output_frame_def
      zero_hash_def COMMAND_STREAM_OUTPUT_DIGEST_DOMAIN_def)

lemma fin_artifacts_valid:
  "validate_artifact_set zero_sha fin_codec (fin_artifacts ''vr-1'' fin_l1) = Inr ()"
  "validate_artifact_set zero_sha fin_codec (fin_artifacts ''vr-2'' fin_l2) = Inr ()"
  by (simp_all add: validate_artifact_set_def validate_artifact_source_def validate_stream_artifact_def
      compute_manifest_digest_def fin_artifacts_def fin_codec_def fin_launch_fields fin_simps
      COMMAND_OUTPUT_ARTIFACT_FORMAT_VERSION_def MAX_COMMAND_OUTPUT_ARTIFACT_ID_BYTES_def)

lemma with_artifacts_valid:
  "validate_verification_evidence zero_sha fin_codec (with_artifacts ''vr-1'' fin_l1 fin_v1) = Inr ()"
  "validate_verification_evidence zero_sha fin_codec (with_artifacts ''vr-2'' fin_l2 fin_v2) = Inr ()"
proof -
  have nonempty: "stream_commitment (fin_artifacts i l) \<noteq> []" for i l
    using length_stream_commitment [of i l] by auto
  note defs = with_artifacts_def validate_verification_evidence_def validate_verification_receipt_def
    validate_receipt_termination_def validate_termination_def validate_command_spec_def
    validate_output_artifacts_def output_evidence_bytes_Inr bind_ok_Inr fin_artifacts_valid
    length_stream_commitment MAX_VERIFICATION_OUTPUT_EVIDENCE_BYTES_def nonempty
  have fields: "as_sprint_id (am_source (fin_artifacts i l)) = ''sprint-1''"
    "as_runner_launch_id (am_source (fin_artifacts i l)) = la_launch_id l"
    "as_runner_session_id (am_source (fin_artifacts i l)) = la_session_id l"
    "as_effect_id (am_source (fin_artifacts i l)) = ''effect-'' @ i"
    "as_request_digest (am_source (fin_artifacts i l)) = zero_hash" for i l
    by (simp_all add: fin_artifacts_def)
  have codec: "cd_command fin_codec c = Inr ''command''" for c
    by (simp add: fin_codec_def)
  show "validate_verification_evidence zero_sha fin_codec (with_artifacts ''vr-1'' fin_l1 fin_v1) = Inr ()"
    "validate_verification_evidence zero_sha fin_codec (with_artifacts ''vr-2'' fin_l2 fin_v2) = Inr ()"
    by (simp_all add: defs fields codec fin_verification_def fin_launch_fields fin_command_def fin_simps)
qed

theorem output_digest_commits_to_streams_witness:
  "ve_effect_id (with_artifacts ''vr-1'' fin_l1 fin_v1) \<noteq> ve_effect_id (with_artifacts ''vr-2'' fin_l2 fin_v2) \<and>
   sa_byte_length (am_stdout (fin_artifacts ''vr-1'' fin_l1)) =
     sa_byte_length (am_stdout (fin_artifacts ''vr-2'' fin_l2)) \<and>
   sha_collision zero_sha ''one'' ''two''"
proof -
  let ?v = "with_artifacts ''vr-1'' fin_l1 fin_v1" and ?w = "with_artifacts ''vr-2'' fin_l2 fin_v2"
  have a: "ve_output_artifacts ?v = Some (fin_artifacts ''vr-1'' fin_l1)"
    "ve_output_artifacts ?w = Some (fin_artifacts ''vr-2'' fin_l2)"
    by (simp_all add: with_artifacts_def)
  have d: "vr_output_digest (ve_verification ?v) = vr_output_digest (ve_verification ?w)"
    by (simp add: with_artifacts_def fin_verification_def)
  have b: "ve_output_evidence_bytes ?v = ve_output_evidence_bytes ?w"
    by (simp add: with_artifacts_def stream_commitment_def fin_artifacts_def)
  have streams: "records_streams zero_sha (fin_artifacts i l) out []" for i l out
    by (simp add: records_streams_def fin_artifacts_def zero_digest zero_hash_def)
  have "ve_effect_id ?v \<noteq> ve_effect_id ?w"
    by (simp add: with_artifacts_def fin_verification_def)
  moreover have "\<not> sha_collision zero_sha (ve_output_evidence_bytes ?v) (ve_output_evidence_bytes ?w)"
    using b by (simp add: sha_collision_def)
  ultimately show ?thesis
    using output_digest_commits_to_streams [OF with_artifacts_valid(1) a(1) with_artifacts_valid(2) a(2)
        d streams [where out = "''one''"] streams [where out = "''two''"]] by auto
qed

end
