(* ===== verification/Effects.thy ===== *)
theory Effects
  imports Rollback
begin

text \<open>
  Effect intents and observations, their reconciliation after a crash, and the append-only agent
  events of \<open>contracts/application.rs\<close>; the terminal evidence of unsuccessful sprints and the
  planning response of \<open>contracts/primitives.rs\<close>.
\<close>

section \<open>Effect kinds and worker leases\<close>

datatype effect_kind =
    ProviderRequest | ReadRelativeFile | CaptureWorkspaceState | SearchLiteral | RunCommand
  | CreateRegularFile | ReplaceRegularFile | DeleteRegularFile | IntegrateChangeSet
  | ApplyChangeSet | CleanupWorkerDomain | RollbackChangeSet

fun tool_name :: "effect_kind \<Rightarrow> string" where
  "tool_name ProviderRequest = ''provider_request''"
| "tool_name ReadRelativeFile = ''read_relative_file''"
| "tool_name CaptureWorkspaceState = ''capture_workspace_state''"
| "tool_name SearchLiteral = ''search_literal''"
| "tool_name RunCommand = ''run_command''"
| "tool_name CreateRegularFile = ''create_regular_file''"
| "tool_name ReplaceRegularFile = ''replace_regular_file''"
| "tool_name DeleteRegularFile = ''delete_regular_file''"
| "tool_name IntegrateChangeSet = ''integrate_change_set''"
| "tool_name ApplyChangeSet = ''apply_change_set''"
| "tool_name CleanupWorkerDomain = ''cleanup_worker_domain''"
| "tool_name RollbackChangeSet = ''rollback_change_set''"

fun effect_storage_name :: "effect_kind \<Rightarrow> string" where
  "effect_storage_name ProviderRequest = ''ProviderRequest''"
| "effect_storage_name ReadRelativeFile = ''ReadRelativeFile''"
| "effect_storage_name CaptureWorkspaceState = ''CaptureWorkspaceState''"
| "effect_storage_name SearchLiteral = ''SearchLiteral''"
| "effect_storage_name RunCommand = ''RunCommand''"
| "effect_storage_name CreateRegularFile = ''CreateRegularFile''"
| "effect_storage_name ReplaceRegularFile = ''ReplaceRegularFile''"
| "effect_storage_name DeleteRegularFile = ''DeleteRegularFile''"
| "effect_storage_name IntegrateChangeSet = ''IntegrateChangeSet''"
| "effect_storage_name ApplyChangeSet = ''ApplyChangeSet''"
| "effect_storage_name CleanupWorkerDomain = ''CleanupWorkerDomain''"
| "effect_storage_name RollbackChangeSet = ''RollbackChangeSet''"

definition is_regular_file_mutation :: "effect_kind \<Rightarrow> bool" where
  "is_regular_file_mutation k \<longleftrightarrow> k \<in> {CreateRegularFile, ReplaceRegularFile, DeleteRegularFile}"

definition requires_typed_finish_receipt :: "effect_kind \<Rightarrow> bool" where
  "requires_typed_finish_receipt k \<longleftrightarrow>
     k \<in> {IntegrateChangeSet, ApplyChangeSet, CleanupWorkerDomain, RollbackChangeSet,
          CaptureWorkspaceState}"

definition validate_effect_worker_lease ::
  "(string \<Rightarrow> string) \<Rightarrow> string \<Rightarrow> effect_kind \<Rightarrow> string \<Rightarrow> string option \<Rightarrow> string option \<Rightarrow>
   worker_lease option \<Rightarrow> u64 \<Rightarrow> contract_result" where
  "validate_effect_worker_lease sha field kind sprint_id task_id worker_id lease occurred_at =
     (case (task_id, worker_id, lease) of
        (Some task, Some worker, Some l) \<Rightarrow> seq
          [validate_assignment sha l sprint_id task worker,
           ensure (\<not> occurred_at < wl_acquired_at_unix_ms l)
             (ContractError field ''must not predate lease acquisition'')]
      | (None, None, Some l) \<Rightarrow>
          (if kind = CleanupWorkerDomain then seq
            [validate_worker_lease sha l,
             ensure (\<not> (wl_sprint_id l \<noteq> sprint_id \<or> occurred_at < wl_acquired_at_unix_ms l))
               (ContractError field
                 ''cleanup lease must match the sprint and precede cleanup admission'')]
           else Inl (ContractError field
             ''task-scoped effects require one exact lease; only cleanup may carry a sprint-scoped lease''))
      | (None, None, None) \<Rightarrow> Inr ()
      | _ \<Rightarrow> Inl (ContractError field
          ''task-scoped effects require one exact lease; only cleanup may carry a sprint-scoped lease''))"

definition require_scoped_task_and_worker ::
  "string \<Rightarrow> string option \<Rightarrow> string option \<Rightarrow> contract_result" where
  "require_scoped_task_and_worker entity task_id worker_id =
     (let prefix = (if entity = ''effect_intent'' then ''effect_intent'' else ''effect_observation'') in
      case (task_id, worker_id) of
        (Some task, Some worker) \<Rightarrow> seq
          [require_nonblank (prefix @ ''.task_id'') task,
           require_nonblank (prefix @ ''.worker_id'') worker]
      | (None, None) \<Rightarrow> Inr ()
      | _ \<Rightarrow> Inl (ContractError (prefix @ ''.scope'')
          ''task_id and worker_id must either both be present or both be absent''))"

section \<open>Intents and observations\<close>

record effect_intent =
  ei_contract_version :: u32
  ei_effect_id :: string
  ei_idempotency_key :: string
  ei_sprint_id :: string
  ei_task_id :: "string option"
  ei_worker_id :: "string option"
  ei_worker_lease :: "worker_lease option"
  ei_causation_event_id :: "string option"
  ei_correlation_id :: string
  ei_kind :: effect_kind
  ei_request_digest :: digest
  ei_policy_hash :: digest
  ei_input_snapshot :: digest
  ei_created_at_unix_ms :: u64

definition validate_effect_intent :: "(string \<Rightarrow> string) \<Rightarrow> effect_intent \<Rightarrow> contract_result" where
  "validate_effect_intent sha i = seq
     [require_version ''effect_intent.contract_version'' (ei_contract_version i),
      require_nonblank ''effect_intent.effect_id'' (ei_effect_id i),
      require_nonblank ''effect_intent.idempotency_key'' (ei_idempotency_key i),
      require_nonblank ''effect_intent.sprint_id'' (ei_sprint_id i),
      require_scoped_task_and_worker ''effect_intent'' (ei_task_id i) (ei_worker_id i),
      validate_effect_worker_lease sha ''effect_intent.worker_lease'' (ei_kind i) (ei_sprint_id i)
        (ei_task_id i) (ei_worker_id i) (ei_worker_lease i) (ei_created_at_unix_ms i),
      (case ei_causation_event_id i of
         Some causation \<Rightarrow> require_nonblank ''effect_intent.causation_event_id'' causation
       | None \<Rightarrow> Inr ()),
      require_nonblank ''effect_intent.correlation_id'' (ei_correlation_id i),
      require_nonzero_timestamp ''effect_intent.created_at_unix_ms'' (ei_created_at_unix_ms i)]"

datatype effect_outcome =
    Succeeded (evidence_digest: digest)
  | FailedBeforeEffect (evidence_digest: digest)
  | FailedAfterKnownEffect (evidence_digest: digest)
  | CancelledBeforeEffect (evidence_digest: digest)
  | UnknownOutcome (evidence_digest: digest)

definition outcome_succeeded :: "effect_outcome \<Rightarrow> bool" where
  "outcome_succeeded outcome \<longleftrightarrow> (case outcome of Succeeded _ \<Rightarrow> True | _ \<Rightarrow> False)"

fun outcome_storage_name :: "effect_outcome \<Rightarrow> string" where
  "outcome_storage_name (Succeeded _) = ''Succeeded''"
| "outcome_storage_name (FailedBeforeEffect _) = ''FailedBeforeEffect''"
| "outcome_storage_name (FailedAfterKnownEffect _) = ''FailedAfterKnownEffect''"
| "outcome_storage_name (CancelledBeforeEffect _) = ''CancelledBeforeEffect''"
| "outcome_storage_name (UnknownOutcome _) = ''Unknown''"

record effect_observation =
  eo_contract_version :: u32
  eo_observation_id :: string
  eo_effect_id :: string
  eo_idempotency_key :: string
  eo_sprint_id :: string
  eo_task_id :: "string option"
  eo_worker_id :: "string option"
  eo_worker_lease :: "worker_lease option"
  eo_correlation_id :: string
  eo_kind :: effect_kind
  eo_request_digest :: digest
  eo_policy_hash :: digest
  eo_input_snapshot :: digest
  eo_outcome :: effect_outcome
  eo_observed_at_unix_ms :: u64

definition validate_effect_observation ::
  "(string \<Rightarrow> string) \<Rightarrow> effect_observation \<Rightarrow> contract_result" where
  "validate_effect_observation sha x = seq
     [require_version ''effect_observation.contract_version'' (eo_contract_version x),
      require_nonblank ''effect_observation.observation_id'' (eo_observation_id x),
      require_nonblank ''effect_observation.effect_id'' (eo_effect_id x),
      require_nonblank ''effect_observation.idempotency_key'' (eo_idempotency_key x),
      require_nonblank ''effect_observation.sprint_id'' (eo_sprint_id x),
      require_scoped_task_and_worker ''effect_observation'' (eo_task_id x) (eo_worker_id x),
      validate_effect_worker_lease sha ''effect_observation.worker_lease'' (eo_kind x)
        (eo_sprint_id x) (eo_task_id x) (eo_worker_id x) (eo_worker_lease x)
        (eo_observed_at_unix_ms x),
      require_nonblank ''effect_observation.correlation_id'' (eo_correlation_id x),
      require_nonzero_timestamp ''effect_observation.observed_at_unix_ms''
        (eo_observed_at_unix_ms x)]"

definition validate_observation_against ::
  "(string \<Rightarrow> string) \<Rightarrow> effect_observation \<Rightarrow> effect_intent \<Rightarrow> contract_result" where
  "validate_observation_against sha x i = seq
     [validate_effect_observation sha x,
      validate_effect_intent sha i,
      ensure (\<not> (eo_effect_id x \<noteq> ei_effect_id i \<or> eo_idempotency_key x \<noteq> ei_idempotency_key i \<or>
                 eo_sprint_id x \<noteq> ei_sprint_id i \<or> eo_task_id x \<noteq> ei_task_id i \<or>
                 eo_worker_id x \<noteq> ei_worker_id i \<or> eo_worker_lease x \<noteq> ei_worker_lease i \<or>
                 eo_correlation_id x \<noteq> ei_correlation_id i \<or> eo_kind x \<noteq> ei_kind i \<or>
                 eo_request_digest x \<noteq> ei_request_digest i \<or> eo_policy_hash x \<noteq> ei_policy_hash i \<or>
                 eo_input_snapshot x \<noteq> ei_input_snapshot i))
        (ContractError ''effect_observation.intent_identity''
          ''must exactly match effect, idempotency, context, request, policy, and input snapshot''),
      ensure (\<not> eo_observed_at_unix_ms x < ei_created_at_unix_ms i)
        (ContractError ''effect_observation.observed_at_unix_ms''
          ''must not precede the durable intent'')]"

section \<open>Sprint terminal evidence, planning responses, snapshots\<close>

datatype non_success_terminal_state = NS_Blocked | NS_Failed | NS_Canceled | NS_Unknown

definition MAX_TERMINAL_REASON_BYTES :: nat where
  "MAX_TERMINAL_REASON_BYTES = 64 * 1024"

record sprint_terminal_evidence =
  se_contract_version :: u32
  se_record_id :: string
  se_sprint_id :: string
  se_state :: non_success_terminal_state
  se_reason :: string
  se_terminal_at_unix_ms :: u64

definition validate_sprint_terminal_evidence :: "sprint_terminal_evidence \<Rightarrow> contract_result" where
  "validate_sprint_terminal_evidence e = seq
     [require_version ''sprint_terminal_evidence.contract_version'' (se_contract_version e),
      require_nonblank ''sprint_terminal_evidence.record_id'' (se_record_id e),
      require_nonblank ''sprint_terminal_evidence.sprint_id'' (se_sprint_id e),
      require_nonblank ''sprint_terminal_evidence.reason'' (se_reason e),
      ensure (length (se_reason e) \<le> MAX_TERMINAL_REASON_BYTES)
        (ContractError ''sprint_terminal_evidence.reason''
          (''must not exceed '' @ show_nat MAX_TERMINAL_REASON_BYTES @ '' UTF-8 bytes'')),
      require_nonzero_timestamp ''sprint_terminal_evidence.terminal_at_unix_ms''
        (se_terminal_at_unix_ms e)]"

datatype provider_response_result = PlanningComplete (planning_complete_graph: task_graph)

record provider_response =
  pr_contract_version :: u32
  pr_sprint_id :: string
  pr_result :: provider_response_result

definition planning_graph :: "provider_response \<Rightarrow> task_graph" where
  "planning_graph r = planning_complete_graph (pr_result r)"

definition validate_provider_response :: "provider_response \<Rightarrow> sprint_spec \<Rightarrow> contract_result" where
  "validate_provider_response r sprint = seq
     [require_version ''provider_response.contract_version'' (pr_contract_version r),
      require_nonblank ''provider_response.sprint_id'' (pr_sprint_id r),
      ensure (pr_sprint_id r = sp_sprint_id sprint)
        (ContractError ''provider_response.sprint_id'' ''must match the planned sprint''),
      validate_for_sprint (planning_graph r) sprint]"

record workspace_snapshot =
  ws_snapshot_id :: digest
  ws_grant_hash :: digest
  ws_created_at_unix_ms :: u64

definition validate_workspace_snapshot :: "workspace_snapshot \<Rightarrow> contract_result" where
  "validate_workspace_snapshot s =
     require_nonzero_timestamp ''workspace_snapshot.created_at_unix_ms'' (ws_created_at_unix_ms s)"

section \<open>Agent events\<close>

datatype agent_event_kind =
    SprintStateChanged string string
  | TaskStateChanged string string
  | WorkerStateChanged string string
  | AssistantDelta string
  | ToolProposed string string
  | ToolFinished string bool
  | ChangeSetStaged string
  | VerificationRecorded string
  | CompletionRecorded string
  | SprintTerminalRecorded string non_success_terminal_state digest
  | Diagnostic string

fun validate_event_kind :: "agent_event_kind \<Rightarrow> contract_result" where
  "validate_event_kind (SprintStateChanged a b) = seq
     [require_nonblank ''agent_event.payload.from'' a, require_nonblank ''agent_event.payload.to'' b]"
| "validate_event_kind (TaskStateChanged a b) = seq
     [require_nonblank ''agent_event.payload.from'' a, require_nonblank ''agent_event.payload.to'' b]"
| "validate_event_kind (WorkerStateChanged a b) = seq
     [require_nonblank ''agent_event.payload.from'' a, require_nonblank ''agent_event.payload.to'' b]"
| "validate_event_kind (AssistantDelta delta) =
     ensure (delta \<noteq> []) (ContractError ''agent_event.payload.assistant_delta'' ''must not be empty'')"
| "validate_event_kind (ToolProposed tool_call_id name) = seq
     [require_nonblank ''agent_event.payload.tool_call_id'' tool_call_id,
      require_nonblank ''agent_event.payload.tool_name'' name]"
| "validate_event_kind (ToolFinished tool_call_id succeeded) =
     require_nonblank ''agent_event.payload.tool_call_id'' tool_call_id"
| "validate_event_kind (ChangeSetStaged i) = require_nonblank ''agent_event.payload.reference_id'' i"
| "validate_event_kind (VerificationRecorded i) =
     require_nonblank ''agent_event.payload.reference_id'' i"
| "validate_event_kind (CompletionRecorded i) =
     require_nonblank ''agent_event.payload.reference_id'' i"
| "validate_event_kind (SprintTerminalRecorded record_id state d) =
     require_nonblank ''agent_event.payload.record_id'' record_id"
| "validate_event_kind (Diagnostic message) =
     require_nonblank ''agent_event.payload.diagnostic'' message"

record agent_event =
  ag_contract_version :: u32
  ag_sequence :: u64
  ag_event_id :: string
  ag_sprint_id :: string
  ag_task_id :: "string option"
  ag_worker_id :: "string option"
  ag_causation_id :: "string option"
  ag_correlation_id :: string
  ag_policy_hash :: "digest option"
  ag_occurred_at_unix_ms :: u64
  ag_payload :: agent_event_kind

definition require_nonblank_if_some :: "string \<Rightarrow> string option \<Rightarrow> contract_result" where
  "require_nonblank_if_some field v = (case v of Some s \<Rightarrow> require_nonblank field s | None \<Rightarrow> Inr ())"

definition validate_agent_event :: "agent_event \<Rightarrow> contract_result" where
  "validate_agent_event e = seq
     [require_version ''agent_event.contract_version'' (ag_contract_version e),
      ensure (ag_sequence e \<noteq> 0)
        (ContractError ''agent_event.sequence'' ''must be greater than zero''),
      require_nonblank ''agent_event.event_id'' (ag_event_id e),
      require_nonblank ''agent_event.sprint_id'' (ag_sprint_id e),
      require_nonblank ''agent_event.correlation_id'' (ag_correlation_id e),
      require_nonblank_if_some ''agent_event.task_id'' (ag_task_id e),
      require_nonblank_if_some ''agent_event.worker_id'' (ag_worker_id e),
      (case ag_causation_id e of
         Some causation_id \<Rightarrow> seq
           [require_nonblank ''agent_event.causation_id'' causation_id,
            ensure (causation_id \<noteq> ag_event_id e)
              (ContractError ''agent_event.causation_id'' ''an event cannot cause itself'')]
       | None \<Rightarrow> Inr ()),
      require_nonzero_timestamp ''agent_event.occurred_at_unix_ms'' (ag_occurred_at_unix_ms e),
      validate_event_kind (ag_payload e)]"

section \<open>Reconciliation after a crash\<close>

text \<open>
  \<open>PersistedEffect::reconciliation\<close> of \<open>ledger/state.rs\<close>, over the four fields of the persisted
  effect that it reads. The evidence of a live-state capture is not looked at: \<open>'l\<close>.
\<close>

datatype effect_reconciliation = TerminalKnown | NewIntentRequired | EvidenceRequired

datatype persisted_mutation_artifact =
  ArtifactNotRequired | Linked mutation_artifact_link workspace_snapshot change_set | LegacyUnlinked

datatype 'l persisted_finish_receipt =
    FinishNotRequired
  | FinishApplication application_receipt
  | FinishTaskIntegration task_integration_receipt
  | FinishWorkerCleanup worker_cleanup_evidence
  | FinishRollback rollback_receipt
  | FinishLiveStateCapture 'l
  | LegacyApplicationUnproven
  | LegacyTaskIntegrationUnproven

record 'l persisted_effect =
  pe_intent :: effect_intent
  pe_observation :: "effect_observation option"
  pe_mutation_artifact :: persisted_mutation_artifact
  pe_finish_receipt :: "'l persisted_finish_receipt"

definition reconciliation :: "'l persisted_effect \<Rightarrow> effect_reconciliation" where
  "reconciliation p =
     (if pe_mutation_artifact p = LegacyUnlinked \<or>
         (case pe_finish_receipt p of
            LegacyApplicationUnproven \<Rightarrow> True | LegacyTaskIntegrationUnproven \<Rightarrow> True | _ \<Rightarrow> False)
      then EvidenceRequired
      else case pe_observation p of
        None \<Rightarrow> EvidenceRequired
      | Some x \<Rightarrow>
          (case eo_outcome x of
             FailedBeforeEffect _ \<Rightarrow> NewIntentRequired
           | CancelledBeforeEffect _ \<Rightarrow> NewIntentRequired
           | FailedAfterKnownEffect _ \<Rightarrow>
               (if is_regular_file_mutation (ei_kind (pe_intent p)) then EvidenceRequired
                else TerminalKnown)
           | Succeeded _ \<Rightarrow> TerminalKnown
           | UnknownOutcome _ \<Rightarrow> EvidenceRequired))"

section \<open>What accepted effects guarantee\<close>

text \<open>
  An accepted observation belongs to its intent: it carries the same effect, context,
  request, policy and input snapshot, is not dated before it, and both hold the same worker lease,
  one that assigns exactly the effect's task and worker, or none; a lease without a task occurs
  only in a cleanup.
\<close>

theorem observation_belongs_to_intent:
  assumes "validate_observation_against sha x i = Inr ()"
  shows "eo_effect_id x = ei_effect_id i \<and> eo_request_digest x = ei_request_digest i \<and>
    eo_policy_hash x = ei_policy_hash i \<and> eo_input_snapshot x = ei_input_snapshot i \<and>
    ei_created_at_unix_ms i \<le> eo_observed_at_unix_ms x \<and>
    eo_worker_lease x = ei_worker_lease i \<and>
    (ei_task_id i = None \<longleftrightarrow> ei_worker_id i = None) \<and>
    (ei_task_id i \<noteq> None \<longrightarrow> ei_worker_lease i \<noteq> None) \<and>
    (\<forall>l. ei_worker_lease i = Some l \<longrightarrow>
       validate_worker_lease sha l = Inr () \<and> wl_sprint_id l = ei_sprint_id i \<and>
       wl_acquired_at_unix_ms l \<le> ei_created_at_unix_ms i \<and>
       (ei_task_id i = Some (wl_task_id l) \<and> ei_worker_id i = Some (wl_worker_id l) \<or>
        ei_task_id i = None \<and> ei_kind i = CleanupWorkerDomain))"
proof -
  from assms have i: "validate_effect_intent sha i = Inr ()"
    by (simp add: validate_observation_against_def)
  then have lease: "validate_effect_worker_lease sha ''effect_intent.worker_lease'' (ei_kind i)
      (ei_sprint_id i) (ei_task_id i) (ei_worker_id i) (ei_worker_lease i) (ei_created_at_unix_ms i)
      = Inr ()"
    by (simp add: validate_effect_intent_def)
  from assms show ?thesis
    using lease
    by (auto simp: validate_observation_against_def validate_effect_worker_lease_def
        validate_assignment_def not_less split: option.splits if_splits)
qed

text \<open>
  Reconciliation never replays: a new intent is offered only when an observation proves that
  the effect did not begin; an effect is closed only on a known outcome; a missing or unknown
  outcome, an unlinked legacy mutation or a mutation that failed after taking effect always needs
  evidence.
\<close>

theorem reconciliation_needs_proof:
  "(reconciliation p = NewIntentRequired \<longrightarrow>
      (\<exists>x d. pe_observation p = Some x \<and>
         (eo_outcome x = FailedBeforeEffect d \<or> eo_outcome x = CancelledBeforeEffect d))) \<and>
   (reconciliation p = TerminalKnown \<longrightarrow>
      (\<exists>x d. pe_observation p = Some x \<and>
         (eo_outcome x = Succeeded d \<or>
          eo_outcome x = FailedAfterKnownEffect d \<and>
          \<not> is_regular_file_mutation (ei_kind (pe_intent p))))) \<and>
   (pe_observation p = None \<or> pe_mutation_artifact p = LegacyUnlinked \<or>
    (\<exists>x d. pe_observation p = Some x \<and> eo_outcome x = UnknownOutcome d) \<longrightarrow>
      reconciliation p = EvidenceRequired)"
  unfolding reconciliation_def
  by (cases "pe_observation p"; cases "pe_finish_receipt p")
    (auto split: effect_outcome.splits if_splits)

end
