(* ===== verification/Example_Effects.thy ===== *)
theory Example_Effects
  imports Effects Example_Finish
begin

text \<open>
  Concrete effects for the witnesses of \<open>Effects\<close>: a command run by the task worker of the
  example sprint, its successful observation, and a replacement that failed after it took effect.
\<close>

definition ex_intent :: "effect_kind \<Rightarrow> effect_intent" where
  "ex_intent kind =
     \<lparr>ei_contract_version = CONTRACT_VERSION, ei_effect_id = ''effect-vr-1'',
      ei_idempotency_key = ''ti-1'', ei_sprint_id = ''sprint-1'', ei_task_id = Some ''ready'',
      ei_worker_id = Some ''worker-a'', ei_worker_lease = Some ex_lease,
      ei_causation_event_id = None, ei_correlation_id = ''tx-1'', ei_kind = kind,
      ei_request_digest = zero_hash, ei_policy_hash = fin_policy, ei_input_snapshot = fin_base,
      ei_created_at_unix_ms = 1750000000002\<rparr>"

definition ex_observation :: "effect_kind \<Rightarrow> effect_outcome \<Rightarrow> effect_observation" where
  "ex_observation kind outcome =
     \<lparr>eo_contract_version = CONTRACT_VERSION, eo_observation_id = ''observation-vr-1'',
      eo_effect_id = ''effect-vr-1'', eo_idempotency_key = ''ti-1'', eo_sprint_id = ''sprint-1'',
      eo_task_id = Some ''ready'', eo_worker_id = Some ''worker-a'',
      eo_worker_lease = Some ex_lease, eo_correlation_id = ''tx-1'', eo_kind = kind,
      eo_request_digest = zero_hash, eo_policy_hash = fin_policy, eo_input_snapshot = fin_base,
      eo_outcome = outcome, eo_observed_at_unix_ms = 1750000000003\<rparr>"

lemma ex_observation_accepted:
  "validate_observation_against zero_sha (ex_observation RunCommand (Succeeded zero_hash))
     (ex_intent RunCommand) = Inr ()"
  by (simp add: validate_observation_against_def validate_effect_observation_def
      validate_effect_intent_def require_scoped_task_and_worker_def validate_effect_worker_lease_def
      validate_assignment_def ex_observation_def ex_intent_def nonblank ex_lease_valid
      ex_lease_fields)

theorem observation_belongs_to_intent_witness:
  "wl_acquired_at_unix_ms ex_lease \<le> ei_created_at_unix_ms (ex_intent RunCommand) \<and>
   ei_task_id (ex_intent RunCommand) = Some (wl_task_id ex_lease)"
proof -
  have "ei_worker_lease (ex_intent RunCommand) = Some ex_lease" "ei_kind (ex_intent RunCommand) = RunCommand"
    by (simp_all add: ex_intent_def)
  with observation_belongs_to_intent [OF ex_observation_accepted] show ?thesis by auto
qed

definition ex_persisted :: "effect_kind \<Rightarrow> effect_outcome \<Rightarrow> unit persisted_effect" where
  "ex_persisted kind outcome =
     \<lparr>pe_intent = ex_intent kind, pe_observation = Some (ex_observation kind outcome),
      pe_mutation_artifact = ArtifactNotRequired, pe_finish_receipt = FinishNotRequired\<rparr>"

theorem reconciliation_needs_proof_witness:
  "reconciliation (ex_persisted RunCommand (FailedBeforeEffect zero_hash)) = NewIntentRequired \<and>
   reconciliation (ex_persisted RunCommand (UnknownOutcome zero_hash)) = EvidenceRequired"
proof -
  have "reconciliation (ex_persisted RunCommand (FailedBeforeEffect zero_hash)) = NewIntentRequired"
    by (simp add: reconciliation_def ex_persisted_def ex_observation_def)
  moreover have "pe_observation (ex_persisted RunCommand (UnknownOutcome zero_hash)) =
      Some (ex_observation RunCommand (UnknownOutcome zero_hash)) \<and>
      eo_outcome (ex_observation RunCommand (UnknownOutcome zero_hash)) = UnknownOutcome zero_hash"
    by (simp add: ex_persisted_def ex_observation_def)
  ultimately show ?thesis
    using reconciliation_needs_proof [of "ex_persisted RunCommand (UnknownOutcome zero_hash)"] by blast
qed

end
