(* ===== verification/Direct_Exec.thy ===== *)
theory Direct_Exec
  imports Contracts
begin

text \<open>
  \<open>validate_current_direct_exec_command_v1\<close> of \<open>contracts/primitives.rs\<close>: which commands may be
  executed without a shell. The code looks at the raw text of the working directory as well as at
  its components, so the text is an argument of its own here; \<open>current_direct_exec\<close> applies the
  check to a command whose working directory was parsed from that text.
\<close>

definition CURRENT_DIRECT_EXEC_MAX_ARGUMENTS :: nat where
  "CURRENT_DIRECT_EXEC_MAX_ARGUMENTS = 256"

definition CURRENT_DIRECT_EXEC_MAX_TEXT_BYTES :: nat where
  "CURRENT_DIRECT_EXEC_MAX_TEXT_BYTES = 4096"

definition CURRENT_DIRECT_EXEC_MAX_PATH_BYTES :: nat where
  "CURRENT_DIRECT_EXEC_MAX_PATH_BYTES = 4096"

definition CURRENT_DIRECT_EXEC_FORBIDDEN_PROGRAMS :: "string list" where
  "CURRENT_DIRECT_EXEC_FORBIDDEN_PROGRAMS =
     [''sh'', ''bash'', ''zsh'', ''dash'', ''ksh'', ''fish'', ''csh'', ''tcsh'', ''nu'', ''xonsh'', ''pwsh'',
      ''powershell'', ''powershell.exe'', ''cmd'', ''cmd.exe'', ''env'']"

text \<open>\<open>Path::file_name\<close>: the last component when it is a normal one.\<close>

definition file_name :: "path \<Rightarrow> string option" where
  "file_name p = (if p = [] then None else case last p of Normal s \<Rightarrow> Some s | _ \<Rightarrow> None)"

definition program_basename :: "string \<Rightarrow> string" where
  "program_basename program =
     to_ascii_lowercase (case file_name (path_of program) of Some s \<Rightarrow> s | None \<Rightarrow> program)"

definition is_bare_name :: "path \<Rightarrow> bool" where
  "is_bare_name p \<longleftrightarrow> (case p of [Normal _] \<Rightarrow> True | _ \<Rightarrow> False)"

fun check_components :: "path \<Rightarrow> contract_result" where
  "check_components [] = Inr ()"
| "check_components (Normal s # cs) =
     (if eq_ignore_ascii_case s ''.git''
      then Inl (ContractError ''current_direct_exec_command_v1.working_directory''
        ''protected .git paths are forbidden case-insensitively'')
      else check_components cs)"
| "check_components (c # cs) =
     Inl (ContractError ''current_direct_exec_command_v1.working_directory''
       ''path contains a non-normal component'')"

definition validate_current_direct_exec_command :: "string \<Rightarrow> command_spec \<Rightarrow> contract_result" where
  "validate_current_direct_exec_command working_directory c = seq
     [ensure (\<not> (cs_program c = [] \<or> length (cs_program c) > CURRENT_DIRECT_EXEC_MAX_TEXT_BYTES \<or>
                 CHR 0x00 \<in> set (cs_program c) \<or>
                 length (cs_arguments c) > CURRENT_DIRECT_EXEC_MAX_ARGUMENTS))
        (ContractError ''current_direct_exec_command_v1.command''
          ''command program or argument count is outside bounds''),
      ensure (is_absolute (path_of (cs_program c)) \<or> is_bare_name (path_of (cs_program c)))
        (ContractError ''current_direct_exec_command_v1.program''
          ''program must be an absolute path or a bare executable name''),
      ensure (program_basename (cs_program c) \<notin> set CURRENT_DIRECT_EXEC_FORBIDDEN_PROGRAMS)
        (ContractError ''current_direct_exec_command_v1.program''
          ''shell and command-wrapper programs are forbidden''),
      ensure (\<not> list_ex (\<lambda>a. length a > CURRENT_DIRECT_EXEC_MAX_TEXT_BYTES \<or> CHR 0x00 \<in> set a)
                (cs_arguments c))
        (ContractError ''current_direct_exec_command_v1.arguments''
          ''command argument is outside the text bound''),
      ensure (utf8_valid working_directory)
        (ContractError ''current_direct_exec_command_v1.working_directory''
          ''working directory is not UTF-8''),
      ensure (\<not> (length working_directory > CURRENT_DIRECT_EXEC_MAX_PATH_BYTES \<or>
                 CHR 0x00 \<in> set working_directory))
        (ContractError ''current_direct_exec_command_v1.working_directory''
          ''working directory is oversized or contains NUL''),
      (if working_directory \<noteq> [] then seq
         [ensure (\<not> is_absolute (path_of working_directory))
            (ContractError ''current_direct_exec_command_v1.working_directory''
              ''path must be normalized and workspace-relative''),
          check_components (path_of working_directory)]
       else Inr ()),
      validate_command_spec c]"

definition current_direct_exec :: "string \<Rightarrow> string list \<Rightarrow> string \<Rightarrow> contract_result" where
  "current_direct_exec program arguments working_directory =
     validate_current_direct_exec_command working_directory
       \<lparr>cs_program = program, cs_arguments = arguments,
        cs_working_directory = path_of working_directory\<rparr>"

lemma check_components_ok [ok_iff]:
  "check_components p = Inr u \<longleftrightarrow>
     (\<forall>c\<in>set p. \<exists>s. c = Normal s \<and> \<not> eq_ignore_ascii_case s ''.git'')"
  by (induction p rule: check_components.induct) auto

lemma path_of_Nil: "path_of [] = []"
  by code_simp

lemma forbidden_lowercase:
  "s \<in> set CURRENT_DIRECT_EXEC_FORBIDDEN_PROGRAMS \<Longrightarrow> to_ascii_lowercase s = s"
proof -
  have "list_all (\<lambda>s. to_ascii_lowercase s = s) CURRENT_DIRECT_EXEC_FORBIDDEN_PROGRAMS"
    by code_simp
  then show "s \<in> set CURRENT_DIRECT_EXEC_FORBIDDEN_PROGRAMS \<Longrightarrow> to_ascii_lowercase s = s"
    by (simp add: list_all_iff)
qed

text \<open>
  C35. An accepted direct-exec command names no shell and starts inside the workspace: its program
  is absolute or has one component, and its last component is no shell or wrapper name in any
  letter case; no text holds a NUL byte or is longer than 4096 bytes; and the working directory
  consists of normal components only, none of which is \<open>.git\<close> in any letter case. Nothing more is
  asked of the arguments and of the directory of an absolute program: they may name any path.
\<close>

theorem direct_exec_runs_no_shell:
  assumes "current_direct_exec program arguments working_directory = Inr ()"
  shows "(is_absolute (path_of program) \<or> (\<exists>s. path_of program = [Normal s])) \<and>
    (\<forall>s forbidden. file_name (path_of program) = Some s \<longrightarrow>
       forbidden \<in> set CURRENT_DIRECT_EXEC_FORBIDDEN_PROGRAMS \<longrightarrow>
       \<not> eq_ignore_ascii_case s forbidden) \<and>
    (\<forall>t\<in>set (program # working_directory # arguments). CHR 0x00 \<notin> set t \<and> length t \<le> 4096) \<and>
    (\<forall>c\<in>set (path_of working_directory). \<exists>s. c = Normal s \<and> \<not> eq_ignore_ascii_case s ''.git'')"
proof -
  note checks = assms [unfolded current_direct_exec_def validate_current_direct_exec_command_def
    seq_Cons_ok ensure_ok command_spec.simps]
  have bare: "is_bare_name p \<Longrightarrow> \<exists>s. p = [Normal s]" for p
    by (auto simp: is_bare_name_def split: list.splits component.splits)
  have "program_basename program \<notin> set CURRENT_DIRECT_EXEC_FORBIDDEN_PROGRAMS"
    using checks by blast
  then have "\<not> eq_ignore_ascii_case s f"
    if "file_name (path_of program) = Some s" "f \<in> set CURRENT_DIRECT_EXEC_FORBIDDEN_PROGRAMS" for s f
    using that forbidden_lowercase [OF that(2)]
    by (auto simp: program_basename_def eq_ignore_ascii_case_def)
  moreover have "\<forall>c\<in>set (path_of working_directory).
      \<exists>s. c = Normal s \<and> \<not> eq_ignore_ascii_case s ''.git''"
    using checks by (cases "working_directory = []") (simp_all add: check_components_ok path_of_Nil)
  ultimately show ?thesis
    using checks bare
    by (auto simp: list_ex_iff not_less CURRENT_DIRECT_EXEC_MAX_TEXT_BYTES_def
        CURRENT_DIRECT_EXEC_MAX_PATH_BYTES_def)
qed

theorem direct_exec_runs_no_shell_witness:
  "current_direct_exec ''/usr/bin/cargo'' [''test''] ''crates/core'' = Inr () \<and>
   \<not> eq_ignore_ascii_case ''cargo'' ''bash''"
proof -
  have ok: "current_direct_exec ''/usr/bin/cargo'' [''test''] ''crates/core'' = Inr ()"
    by code_simp
  have name: "file_name (path_of ''/usr/bin/cargo'') = Some ''cargo''" by code_simp
  have "''bash'' \<in> set CURRENT_DIRECT_EXEC_FORBIDDEN_PROGRAMS"
    by (simp add: CURRENT_DIRECT_EXEC_FORBIDDEN_PROGRAMS_def)
  with direct_exec_runs_no_shell [OF ok] name ok show ?thesis by blast
qed

text \<open>
  The checks compare components, not texts, so two texts that the messages describe as
  refused are accepted: a program \<open>tool/.\<close> counts as a bare name, and an absolute path with an
  inner \<open>.\<close> counts as normalized.
\<close>

theorem component_checks_accept_dot_segments:
  "current_direct_exec ''tool/.'' [] '''' = Inr () \<and>
   require_normalized_absolute field (path_of ''/a/./b'') = Inr () \<and>
   require_normalized_relative field (path_of ''a/./b//c'') = Inr ()"
proof -
  have "current_direct_exec ''tool/.'' [] '''' = Inr ()" by code_simp
  moreover have "path_of ''/a/./b'' = [RootDir, Normal ''a'', Normal ''b'']"
    "path_of ''a/./b//c'' = [Normal ''a'', Normal ''b'', Normal ''c'']"
    "path_utf8 [RootDir, Normal ''a'', Normal ''b'']" "path_utf8 [Normal ''a'', Normal ''b'', Normal ''c'']"
    by code_simp+
  ultimately show ?thesis
    by (simp add: require_normalized_absolute_ok require_normalized_relative_ok is_absolute_def)
qed

end
