(* ===== verification/Attempts.thy ===== *)
theory Attempts
  imports Runner
begin

text \<open>
  The records of \<open>contracts/attempts.rs\<close>: a task attempt opened by one worker lease, the
  boundaries its phases leave behind, its formal checks, the retained evidence, the releases of
  its lease and the closed set of dispositions, each with its validation.
\<close>

definition MAX_TASK_ATTEMPT_EVIDENCE_BYTES :: nat where
  "MAX_TASK_ATTEMPT_EVIDENCE_BYTES = 1048576"

definition MAX_TASK_ATTEMPT_ID_BYTES :: nat where
  "MAX_TASK_ATTEMPT_ID_BYTES = 4096"

definition require_contract_version :: "string \<Rightarrow> u32 \<Rightarrow> contract_result" where
  "require_contract_version field version =
     ensure (version = CONTRACT_VERSION) (ContractError field (version_message version))"

definition require_task_attempt_identity :: "string \<Rightarrow> string \<Rightarrow> contract_result" where
  "require_task_attempt_identity field value = seq
     [require_nonblank field value,
      ensure (length value \<le> MAX_TASK_ATTEMPT_ID_BYTES)
        (ContractError field
          (''must not exceed '' @ show_nat MAX_TASK_ATTEMPT_ID_BYTES @ '' UTF-8 bytes''))]"

definition require_task_attempt_identity_list :: "string \<Rightarrow> string list \<Rightarrow> contract_result" where
  "require_task_attempt_identity_list field values =
     seq (map (require_task_attempt_identity field) values)"

definition attempt_id_ok :: "string \<Rightarrow> bool" where
  "attempt_id_ok v \<longleftrightarrow> \<not> blank v \<and> length v \<le> MAX_TASK_ATTEMPT_ID_BYTES"

lemma require_contract_version_ok [simp, ok_iff]:
  "require_contract_version f v = Inr u \<longleftrightarrow> v = CONTRACT_VERSION"
  by (simp add: require_contract_version_def)

lemma require_task_attempt_identity_ok [simp, ok_iff]:
  "require_task_attempt_identity f v = Inr u \<longleftrightarrow> attempt_id_ok v"
  by (simp add: require_task_attempt_identity_def attempt_id_ok_def)

lemma require_task_attempt_identity_list_ok [simp, ok_iff]:
  "require_task_attempt_identity_list f vs = Inr u \<longleftrightarrow> (\<forall>v\<in>set vs. attempt_id_ok v)"
  by (simp add: require_task_attempt_identity_list_def seq_map_ok)

section \<open>Attempts and phase boundaries\<close>

record task_attempt =
  ta_contract_version :: u32
  ta_attempt_id :: string
  ta_worker_lease :: worker_lease
  ta_attempt_ordinal :: u32
  ta_opening_event_id :: string
  ta_opened_at_unix_ms :: u64

definition validate_task_attempt :: "(string \<Rightarrow> string) \<Rightarrow> task_attempt \<Rightarrow> contract_result" where
  "validate_task_attempt sha a = seq
     [ensure (ta_contract_version a = CONTRACT_VERSION)
        (ContractError ''task_attempt.contract_version''
          (version_message (ta_contract_version a))),
      validate_worker_lease sha (ta_worker_lease a),
      ensure (ta_attempt_id a = wl_lease_id (ta_worker_lease a))
        (ContractError ''task_attempt.attempt_id'' ''must exactly equal worker_lease.lease_id''),
      ensure (ta_attempt_ordinal a \<noteq> 0)
        (ContractError ''task_attempt.attempt_ordinal'' ''must be greater than zero''),
      require_task_attempt_identity ''task_attempt.opening_event_id'' (ta_opening_event_id a),
      require_nonzero_timestamp ''task_attempt.opened_at_unix_ms'' (ta_opened_at_unix_ms a),
      ensure (ta_opened_at_unix_ms a = wl_acquired_at_unix_ms (ta_worker_lease a))
        (ContractError ''task_attempt.opened_at_unix_ms''
          ''must exactly equal worker lease acquisition time'')]"

definition task_attempt_new ::
  "(string \<Rightarrow> string) \<Rightarrow> worker_lease \<Rightarrow> u32 \<Rightarrow> string \<Rightarrow> contract_error + task_attempt" where
  "task_attempt_new sha lease ordinal opening_event_id =
     (let attempt = \<lparr>ta_contract_version = CONTRACT_VERSION, ta_attempt_id = wl_lease_id lease,
            ta_worker_lease = lease, ta_attempt_ordinal = ordinal,
            ta_opening_event_id = opening_event_id,
            ta_opened_at_unix_ms = wl_acquired_at_unix_ms lease\<rparr>
      in bind_ok (validate_task_attempt sha attempt) (\<lambda>_. Inr attempt))"

record terminal_effect =
  tf_effect_id :: string
  tf_observation_id :: string

definition validate_terminal_effect :: "terminal_effect \<Rightarrow> contract_result" where
  "validate_terminal_effect l = seq
     [require_task_attempt_identity ''task_attempt_terminal_effect.effect_id'' (tf_effect_id l),
      require_task_attempt_identity ''task_attempt_terminal_effect.observation_id''
        (tf_observation_id l)]"

record running_boundary =
  rb_contract_version :: u32
  rb_boundary_id :: string
  rb_attempt :: task_attempt
  rb_runner_launch_id :: string
  rb_runner_session_id :: string
  rb_transition_event_id :: string
  rb_started_at_unix_ms :: u64

definition validate_running_boundary ::
  "(string \<Rightarrow> string) \<Rightarrow> running_boundary \<Rightarrow> contract_result" where
  "validate_running_boundary sha b = seq
     [require_contract_version ''task_attempt_running_boundary.contract_version''
        (rb_contract_version b),
      require_task_attempt_identity ''task_attempt_running_boundary.boundary_id''
        (rb_boundary_id b),
      validate_task_attempt sha (rb_attempt b),
      require_task_attempt_identity ''task_attempt_running_boundary.runner_launch_id''
        (rb_runner_launch_id b),
      require_task_attempt_identity ''task_attempt_running_boundary.runner_session_id''
        (rb_runner_session_id b),
      require_task_attempt_identity ''task_attempt_running_boundary.transition_event_id''
        (rb_transition_event_id b),
      require_nonzero_timestamp ''task_attempt_running_boundary.started_at_unix_ms''
        (rb_started_at_unix_ms b),
      ensure (\<not> rb_started_at_unix_ms b < ta_opened_at_unix_ms (rb_attempt b))
        (ContractError ''task_attempt_running_boundary.started_at_unix_ms''
          ''must not precede attempt opening'')]"

record verification_boundary =
  vb_contract_version :: u32
  vb_boundary_id :: string
  vb_attempt :: task_attempt
  vb_runner_launch_id :: string
  vb_runner_session_id :: string
  vb_change_set_id :: string
  vb_sealed_snapshot :: digest
  vb_transition_event_id :: string
  vb_terminal_non_cleanup_effects :: "terminal_effect list"
  vb_sealed_at_unix_ms :: u64

text \<open>The loop over the effect links, with the previous effect id and the observations seen.\<close>

fun effect_link_checks ::
  "string option \<Rightarrow> string set \<Rightarrow> terminal_effect list \<Rightarrow> contract_result" where
  "effect_link_checks previous observations [] = Inr ()"
| "effect_link_checks previous observations (l # ls) = seq
     [validate_terminal_effect l,
      ensure (\<not> (case previous of None \<Rightarrow> False | Some p \<Rightarrow> tf_effect_id l \<le> p))
        (ContractError ''task_attempt_verification_boundary.terminal_non_cleanup_effects''
          ''must be in strict effect-id order with no duplicates''),
      ensure (tf_observation_id l \<notin> observations)
        (ContractError ''task_attempt_verification_boundary.terminal_non_cleanup_effects''
          ''must not reuse an observation identity''),
      effect_link_checks (Some (tf_effect_id l)) (insert (tf_observation_id l) observations) ls]"

definition validate_verification_boundary ::
  "(string \<Rightarrow> string) \<Rightarrow> verification_boundary \<Rightarrow> contract_result" where
  "validate_verification_boundary sha b = seq
     [require_contract_version ''task_attempt_verification_boundary.contract_version''
        (vb_contract_version b),
      require_task_attempt_identity ''task_attempt_verification_boundary.boundary_id''
        (vb_boundary_id b),
      validate_task_attempt sha (vb_attempt b),
      require_task_attempt_identity ''task_attempt_verification_boundary.runner_launch_id''
        (vb_runner_launch_id b),
      require_task_attempt_identity ''task_attempt_verification_boundary.runner_session_id''
        (vb_runner_session_id b),
      require_task_attempt_identity ''task_attempt_verification_boundary.change_set_id''
        (vb_change_set_id b),
      require_task_attempt_identity ''task_attempt_verification_boundary.transition_event_id''
        (vb_transition_event_id b),
      effect_link_checks None {} (vb_terminal_non_cleanup_effects b),
      require_nonzero_timestamp ''task_attempt_verification_boundary.sealed_at_unix_ms''
        (vb_sealed_at_unix_ms b),
      ensure (\<not> vb_sealed_at_unix_ms b < ta_opened_at_unix_ms (vb_attempt b))
        (ContractError ''task_attempt_verification_boundary.sealed_at_unix_ms''
          ''must not precede attempt opening'')]"

record formal_check =
  fc_contract_version :: u32
  fc_formal_check_id :: string
  fc_attempt :: task_attempt
  fc_criterion_ordinal :: u32
  fc_criterion_id :: string
  fc_effect_id :: string
  fc_observation_id :: string
  fc_verification_receipt :: verification_receipt
  fc_runner_session_id :: string
  fc_sealed_snapshot :: digest

definition validate_formal_check :: "(string \<Rightarrow> string) \<Rightarrow> formal_check \<Rightarrow> contract_result" where
  "validate_formal_check sha c =
     (let receipt = fc_verification_receipt c; lease = ta_worker_lease (fc_attempt c) in seq
     [require_contract_version ''task_attempt_formal_check.contract_version''
        (fc_contract_version c),
      require_task_attempt_identity ''task_attempt_formal_check.formal_check_id''
        (fc_formal_check_id c),
      validate_task_attempt sha (fc_attempt c),
      require_task_attempt_identity ''task_attempt_formal_check.criterion_id''
        (fc_criterion_id c),
      require_task_attempt_identity ''task_attempt_formal_check.effect_id'' (fc_effect_id c),
      require_task_attempt_identity ''task_attempt_formal_check.observation_id''
        (fc_observation_id c),
      require_task_attempt_identity ''task_attempt_formal_check.runner_session_id''
        (fc_runner_session_id c),
      validate_verification_receipt receipt,
      ensure (\<not> (vr_sprint_id receipt \<noteq> wl_sprint_id lease \<or>
                 vr_task_id receipt \<noteq> Some (wl_task_id lease)))
        (ContractError ''task_attempt_formal_check.verification_receipt''
          ''must exactly match the attempt sprint and task''),
      ensure (vr_snapshot_id receipt = fc_sealed_snapshot c)
        (ContractError ''task_attempt_formal_check.sealed_snapshot''
          ''must exactly match the verification receipt snapshot''),
      ensure (\<not> vr_finished_at_unix_ms receipt < ta_opened_at_unix_ms (fc_attempt c))
        (ContractError ''task_attempt_formal_check.verification_receipt''
          ''must not predate attempt opening'')])"

record candidate_boundary =
  cb_contract_version :: u32
  cb_boundary_id :: string
  cb_attempt :: task_attempt
  cb_verification_boundary_id :: string
  cb_change_set_id :: string
  cb_sealed_snapshot :: digest
  cb_formal_check_ids :: "string list"
  cb_verification_receipt_ids :: "string list"
  cb_transition_event_id :: string
  cb_admitted_at_unix_ms :: u64

definition validate_candidate_boundary ::
  "(string \<Rightarrow> string) \<Rightarrow> candidate_boundary \<Rightarrow> contract_result" where
  "validate_candidate_boundary sha b = seq
     [require_contract_version ''task_attempt_candidate_boundary.contract_version''
        (cb_contract_version b),
      require_task_attempt_identity ''task_attempt_candidate_boundary.boundary_id''
        (cb_boundary_id b),
      validate_task_attempt sha (cb_attempt b),
      require_task_attempt_identity ''task_attempt_candidate_boundary.verification_boundary_id''
        (cb_verification_boundary_id b),
      require_task_attempt_identity ''task_attempt_candidate_boundary.change_set_id''
        (cb_change_set_id b),
      require_unique_nonblank ''task_attempt_candidate_boundary.formal_check_ids''
        (cb_formal_check_ids b),
      require_task_attempt_identity_list ''task_attempt_candidate_boundary.formal_check_ids''
        (cb_formal_check_ids b),
      require_unique_nonblank ''task_attempt_candidate_boundary.verification_receipt_ids''
        (cb_verification_receipt_ids b),
      require_task_attempt_identity_list
        ''task_attempt_candidate_boundary.verification_receipt_ids''
        (cb_verification_receipt_ids b),
      ensure (length (cb_formal_check_ids b) = length (cb_verification_receipt_ids b))
        (ContractError ''task_attempt_candidate_boundary.verification_receipt_ids''
          ''must contain one exact verification receipt per formal check''),
      require_task_attempt_identity ''task_attempt_candidate_boundary.transition_event_id''
        (cb_transition_event_id b),
      require_nonzero_timestamp ''task_attempt_candidate_boundary.admitted_at_unix_ms''
        (cb_admitted_at_unix_ms b),
      ensure (\<not> cb_admitted_at_unix_ms b < ta_opened_at_unix_ms (cb_attempt b))
        (ContractError ''task_attempt_candidate_boundary.admitted_at_unix_ms''
          ''must not precede attempt opening'')]"

section \<open>Evidence and releases\<close>

datatype attempt_evidence_kind =
    KIntegrated | KNeverLaunched | KLaunchRefusedBeforeNativeEffect | KKnownWorkerExit
  | KFormalVerificationFailed | KCandidateRejectedKnown | KSensitiveOutputRejected
  | KPermanentContractViolation | KCriterionProvenUnsatisfiable | KAuthorityExpansionRequired
  | KVerifiedDependencyUnavailable | KOperatorCanceled | KUnknownTerminalEffect
  | KUncertainAuthority

fun show_evidence_kind :: "attempt_evidence_kind \<Rightarrow> string" where
  "show_evidence_kind KIntegrated = ''Integrated''"
| "show_evidence_kind KNeverLaunched = ''NeverLaunched''"
| "show_evidence_kind KLaunchRefusedBeforeNativeEffect = ''LaunchRefusedBeforeNativeEffect''"
| "show_evidence_kind KKnownWorkerExit = ''KnownWorkerExit''"
| "show_evidence_kind KFormalVerificationFailed = ''FormalVerificationFailed''"
| "show_evidence_kind KCandidateRejectedKnown = ''CandidateRejectedKnown''"
| "show_evidence_kind KSensitiveOutputRejected = ''SensitiveOutputRejected''"
| "show_evidence_kind KPermanentContractViolation = ''PermanentContractViolation''"
| "show_evidence_kind KCriterionProvenUnsatisfiable = ''CriterionProvenUnsatisfiable''"
| "show_evidence_kind KAuthorityExpansionRequired = ''AuthorityExpansionRequired''"
| "show_evidence_kind KVerifiedDependencyUnavailable = ''VerifiedDependencyUnavailable''"
| "show_evidence_kind KOperatorCanceled = ''OperatorCanceled''"
| "show_evidence_kind KUnknownTerminalEffect = ''UnknownTerminalEffect''"
| "show_evidence_kind KUncertainAuthority = ''UncertainAuthority''"

record attempt_evidence =
  ae_evidence_id :: string
  ae_kind :: attempt_evidence_kind
  ae_canonical_bytes :: string
  ae_digest :: digest

definition validate_attempt_evidence ::
  "(string \<Rightarrow> string) \<Rightarrow> attempt_evidence \<Rightarrow> contract_result" where
  "validate_attempt_evidence sha e = seq
     [require_task_attempt_identity ''task_attempt_evidence.evidence_id'' (ae_evidence_id e),
      ensure (\<not> (ae_canonical_bytes e = [] \<or>
                 length (ae_canonical_bytes e) > MAX_TASK_ATTEMPT_EVIDENCE_BYTES))
        (ContractError ''task_attempt_evidence.canonical_bytes''
          (''must contain 1..='' @ show_nat MAX_TASK_ATTEMPT_EVIDENCE_BYTES @
           '' retained bytes'')),
      ensure (digest_sha256 sha (ae_canonical_bytes e) = ae_digest e)
        (ContractError ''task_attempt_evidence.digest''
          ''must equal the SHA-256 of the retained canonical bytes'')]"

definition attempt_evidence_new ::
  "(string \<Rightarrow> string) \<Rightarrow> string \<Rightarrow> attempt_evidence_kind \<Rightarrow> string \<Rightarrow>
   contract_error + attempt_evidence" where
  "attempt_evidence_new sha evidence_id kind canonical_bytes =
     (let evidence = \<lparr>ae_evidence_id = evidence_id, ae_kind = kind,
            ae_canonical_bytes = canonical_bytes,
            ae_digest = digest_sha256 sha canonical_bytes\<rparr>
      in bind_ok (validate_attempt_evidence sha evidence) (\<lambda>_. Inr evidence))"

definition validate_kind ::
  "(string \<Rightarrow> string) \<Rightarrow> attempt_evidence \<Rightarrow> attempt_evidence_kind \<Rightarrow> contract_result" where
  "validate_kind sha e expected = seq
     [validate_attempt_evidence sha e,
      ensure (ae_kind e = expected)
        (ContractError ''task_attempt_evidence.kind''
          (''expected '' @ show_evidence_kind expected @ '', got '' @
           show_evidence_kind (ae_kind e)))]"

record never_launched_release =
  nl_contract_version :: u32
  nl_release_id :: string
  nl_attempt :: task_attempt
  nl_absence_evidence :: attempt_evidence
  nl_released_at_unix_ms :: u64

definition validate_never_launched_release ::
  "(string \<Rightarrow> string) \<Rightarrow> never_launched_release \<Rightarrow> contract_result" where
  "validate_never_launched_release sha r = seq
     [require_contract_version ''worker_lease_never_launched_release.contract_version''
        (nl_contract_version r),
      require_task_attempt_identity ''worker_lease_never_launched_release.release_id''
        (nl_release_id r),
      validate_task_attempt sha (nl_attempt r),
      validate_kind sha (nl_absence_evidence r) KNeverLaunched,
      require_nonzero_timestamp ''worker_lease_never_launched_release.released_at_unix_ms''
        (nl_released_at_unix_ms r),
      ensure (\<not> nl_released_at_unix_ms r < ta_opened_at_unix_ms (nl_attempt r))
        (ContractError ''worker_lease_never_launched_release.released_at_unix_ms''
          ''must not precede attempt opening'')]"

record attempt_cleanup_release =
  cl_contract_version :: u32
  cl_release_id :: string
  cl_attempt :: task_attempt
  cl_cleanup_receipt :: worker_cleanup_receipt
  cl_released_at_unix_ms :: u64

definition validate_attempt_cleanup_release ::
  "(string \<Rightarrow> string) \<Rightarrow> attempt_cleanup_release \<Rightarrow> contract_result" where
  "validate_attempt_cleanup_release sha r = seq
     [require_contract_version ''task_attempt_cleanup_release.contract_version''
        (cl_contract_version r),
      require_task_attempt_identity ''task_attempt_cleanup_release.release_id''
        (cl_release_id r),
      validate_task_attempt sha (cl_attempt r),
      validate_cleanup_receipt sha (cl_cleanup_receipt r),
      ensure (cr_worker_lease (cl_cleanup_receipt r) = Some (ta_worker_lease (cl_attempt r)))
        (ContractError ''task_attempt_cleanup_release.cleanup_receipt''
          ''must carry the exact attempt worker lease''),
      ensure (cl_released_at_unix_ms r = cr_cleaned_at_unix_ms (cl_cleanup_receipt r))
        (ContractError ''task_attempt_cleanup_release.released_at_unix_ms''
          ''must exactly equal cleanup observation time'')]"

datatype release_proof =
    CleanupProof attempt_cleanup_release
  | NeverLaunchedProof never_launched_release

definition validate_release_against ::
  "(string \<Rightarrow> string) \<Rightarrow> release_proof \<Rightarrow> task_attempt \<Rightarrow> contract_result" where
  "validate_release_against sha p attempt =
     (case p of
        CleanupProof release \<Rightarrow> seq
          [validate_attempt_cleanup_release sha release,
           ensure (cl_attempt release = attempt)
             (ContractError ''task_attempt_release_proof.attempt''
               ''cleanup release must carry the exact disposition attempt'')]
      | NeverLaunchedProof release \<Rightarrow> seq
          [validate_never_launched_release sha release,
           ensure (nl_attempt release = attempt)
             (ContractError ''task_attempt_release_proof.attempt''
               ''no-launch release must carry the exact disposition attempt'')])"

fun proof_release_id :: "release_proof \<Rightarrow> string" where
  "proof_release_id (CleanupProof release) = cl_release_id release"
| "proof_release_id (NeverLaunchedProof release) = nl_release_id release"

fun proof_released_at :: "release_proof \<Rightarrow> u64" where
  "proof_released_at (CleanupProof release) = cl_released_at_unix_ms release"
| "proof_released_at (NeverLaunchedProof release) = nl_released_at_unix_ms release"

section \<open>What accepted records say\<close>

lemma validate_task_attempt_ok [ok_iff]:
  "validate_task_attempt sha a = Inr u \<longleftrightarrow>
     ta_contract_version a = CONTRACT_VERSION \<and>
     validate_worker_lease sha (ta_worker_lease a) = Inr () \<and>
     ta_attempt_id a = wl_lease_id (ta_worker_lease a) \<and> ta_attempt_ordinal a \<noteq> 0 \<and>
     attempt_id_ok (ta_opening_event_id a) \<and> ta_opened_at_unix_ms a \<noteq> 0 \<and>
     ta_opened_at_unix_ms a = wl_acquired_at_unix_ms (ta_worker_lease a)"
  by (auto simp: validate_task_attempt_def)

lemma task_attempt_new_ok:
  assumes "task_attempt_new sha lease n event = Inr a"
  shows "validate_task_attempt sha a = Inr ()" "ta_worker_lease a = lease"
    "ta_attempt_ordinal a = n"
  using assms by (auto simp: task_attempt_new_def Let_def)

lemma effect_link_checksD:
  assumes "effect_link_checks previous observations ls = Inr ()"
  shows "sorted_wrt (<) (map tf_effect_id ls)" "distinct (map tf_observation_id ls)"
    "tf_observation_id ` set ls \<inter> observations = {}"
    "previous = Some p \<Longrightarrow> \<forall>l\<in>set ls. p < tf_effect_id l"
proof -
  have "sorted_wrt (<) (map tf_effect_id ls) \<and> distinct (map tf_observation_id ls) \<and>
      tf_observation_id ` set ls \<inter> observations = {} \<and>
      (\<forall>p. previous = Some p \<longrightarrow> (\<forall>l\<in>set ls. p < tf_effect_id l))"
    using assms
  proof (induction ls arbitrary: previous observations)
    case (Cons l ls)
    from Cons.prems have rest: "effect_link_checks (Some (tf_effect_id l))
        (insert (tf_observation_id l) observations) ls = Inr ()"
      and here: "tf_observation_id l \<notin> observations"
        "\<forall>p. previous = Some p \<longrightarrow> p < tf_effect_id l"
      by (auto simp: not_le)
    from Cons.IH [OF rest] here show ?case by (auto intro: less_trans)
  qed simp
  then show "sorted_wrt (<) (map tf_effect_id ls)" "distinct (map tf_observation_id ls)"
    "tf_observation_id ` set ls \<inter> observations = {}"
    "previous = Some p \<Longrightarrow> \<forall>l\<in>set ls. p < tf_effect_id l"
    by auto
qed

lemma validate_kind_ok [ok_iff]:
  "validate_kind sha e k = Inr u \<longleftrightarrow> validate_attempt_evidence sha e = Inr () \<and> ae_kind e = k"
  by (simp add: validate_kind_def)

text \<open>A release proof belongs to its attempt and is dated after the attempt opened.\<close>

lemma validate_release_againstD:
  assumes "validate_release_against sha p a = Inr ()"
  shows "wl_acquired_at_unix_ms (ta_worker_lease a) \<le> proof_released_at p"
    and "validate_task_attempt sha a = Inr ()"
    and "p = CleanupProof r \<Longrightarrow> cl_attempt r = a \<and> cr_surviving_processes (cl_cleanup_receipt r) = 0"
proof -
  have "wl_acquired_at_unix_ms (ta_worker_lease a) \<le> proof_released_at p \<and>
    validate_task_attempt sha a = Inr () \<and>
    (\<forall>r. p = CleanupProof r \<longrightarrow>
       cl_attempt r = a \<and> cr_surviving_processes (cl_cleanup_receipt r) = 0)"
  proof (cases p)
    case (CleanupProof r)
    with assms have r: "validate_cleanup_receipt sha (cl_cleanup_receipt r) = Inr ()"
        "cr_worker_lease (cl_cleanup_receipt r) = Some (ta_worker_lease a)"
        "cl_released_at_unix_ms r = cr_cleaned_at_unix_ms (cl_cleanup_receipt r)"
        "cl_attempt r = a" "validate_task_attempt sha a = Inr ()"
      by (auto simp: validate_release_against_def validate_attempt_cleanup_release_def)
    with CleanupProof validate_cleanup_receiptD(1) [OF r(1)]
      validate_cleanup_receiptD(4) [OF r(1,2)] show ?thesis by auto
  next
    case (NeverLaunchedProof r)
    with assms show ?thesis
      by (auto simp: validate_release_against_def validate_never_launched_release_def
          validate_task_attempt_ok not_less)
  qed
  then show "wl_acquired_at_unix_ms (ta_worker_lease a) \<le> proof_released_at p"
    "validate_task_attempt sha a = Inr ()"
    "p = CleanupProof r \<Longrightarrow> cl_attempt r = a \<and> cr_surviving_processes (cl_cleanup_receipt r) = 0"
    by auto
qed

end
