(* ===== verification/Dispositions.thy ===== *)
theory Dispositions
  imports Attempts Lifecycle
begin

text \<open>
  The closed outcomes of a task attempt in \<open>contracts/attempts.rs\<close>: the causes with the
  evidence each must retain, the eight dispositions, and \<open>validate_for_budget\<close>, which couples
  cause, release and position in the attempt budget.
\<close>

section \<open>Causes\<close>

datatype retryable_cause =
    CauseNeverLaunched attempt_evidence
  | CauseLaunchRefused string attempt_evidence
  | CauseKnownWorkerExit string string attempt_evidence
  | CauseFormalVerificationFailed string attempt_evidence
  | CauseCandidateRejectedKnown string attempt_evidence
  | CauseSensitiveOutputRejected string attempt_evidence

definition validate_retryable_cause ::
  "(string \<Rightarrow> string) \<Rightarrow> retryable_cause \<Rightarrow> contract_result" where
  "validate_retryable_cause sha c =
     (case c of
        CauseNeverLaunched evidence \<Rightarrow> validate_kind sha evidence KNeverLaunched
      | CauseLaunchRefused launch_id evidence \<Rightarrow> seq
          [require_task_attempt_identity ''task_attempt_cause.launch_id'' launch_id,
           validate_kind sha evidence KLaunchRefusedBeforeNativeEffect]
      | CauseKnownWorkerExit launch_id session_id evidence \<Rightarrow> seq
          [require_task_attempt_identity ''task_attempt_cause.launch_id'' launch_id,
           require_task_attempt_identity ''task_attempt_cause.session_id'' session_id,
           validate_kind sha evidence KKnownWorkerExit]
      | CauseFormalVerificationFailed formal_check_id evidence \<Rightarrow> seq
          [require_task_attempt_identity ''task_attempt_cause.formal_check_id'' formal_check_id,
           validate_kind sha evidence KFormalVerificationFailed]
      | CauseCandidateRejectedKnown candidate_boundary_id evidence \<Rightarrow> seq
          [require_task_attempt_identity ''task_attempt_cause.candidate_boundary_id''
             candidate_boundary_id,
           validate_kind sha evidence KCandidateRejectedKnown]
      | CauseSensitiveOutputRejected effect_id evidence \<Rightarrow> seq
          [require_task_attempt_identity ''task_attempt_cause.effect_id'' effect_id,
           validate_kind sha evidence KSensitiveOutputRejected])"

definition validate_release_coupling ::
  "retryable_cause \<Rightarrow> release_proof \<Rightarrow> contract_result" where
  "validate_release_coupling c p =
     (case (c, p) of
        (CauseNeverLaunched evidence, NeverLaunchedProof release) \<Rightarrow>
          ensure (evidence = nl_absence_evidence release)
            (ContractError ''task_attempt_disposition.release_proof''
              ''NeverLaunched cause evidence must exactly equal the no-launch absence evidence'')
      | (CauseNeverLaunched _, CleanupProof _) \<Rightarrow>
          Inl (ContractError ''task_attempt_disposition.release_proof''
            ''NeverLaunched requires a no-launch release; every other retryable cause requires cleanup'')
      | (_, CleanupProof _) \<Rightarrow> Inr ()
      | (_, _) \<Rightarrow>
          Inl (ContractError ''task_attempt_disposition.release_proof''
            ''NeverLaunched requires a no-launch release; every other retryable cause requires cleanup''))"

datatype permanent_failure_cause =
    PermanentContractViolation string attempt_evidence
  | CriterionProvenUnsatisfiable string attempt_evidence

definition validate_permanent_cause ::
  "(string \<Rightarrow> string) \<Rightarrow> permanent_failure_cause \<Rightarrow> contract_result" where
  "validate_permanent_cause sha c =
     (case c of
        PermanentContractViolation violation_id evidence \<Rightarrow> seq
          [require_task_attempt_identity ''task_attempt_cause.violation_id'' violation_id,
           validate_kind sha evidence KPermanentContractViolation]
      | CriterionProvenUnsatisfiable criterion_id evidence \<Rightarrow> seq
          [require_task_attempt_identity ''task_attempt_cause.criterion_id'' criterion_id,
           validate_kind sha evidence KCriterionProvenUnsatisfiable])"

datatype blocked_cause =
    AuthorityExpansionRequired string attempt_evidence
  | VerifiedDependencyUnavailable string attempt_evidence

definition validate_blocked_cause ::
  "(string \<Rightarrow> string) \<Rightarrow> blocked_cause \<Rightarrow> contract_result" where
  "validate_blocked_cause sha c =
     (case c of
        AuthorityExpansionRequired authority_request_id evidence \<Rightarrow> seq
          [require_task_attempt_identity ''task_attempt_cause.authority_request_id''
             authority_request_id,
           validate_kind sha evidence KAuthorityExpansionRequired]
      | VerifiedDependencyUnavailable dependency_task_id evidence \<Rightarrow> seq
          [require_task_attempt_identity ''task_attempt_cause.dependency_task_id''
             dependency_task_id,
           validate_kind sha evidence KVerifiedDependencyUnavailable])"

record canceled_cause =
  cc_cancellation_id :: string
  cc_evidence :: attempt_evidence

definition validate_canceled_cause ::
  "(string \<Rightarrow> string) \<Rightarrow> canceled_cause \<Rightarrow> contract_result" where
  "validate_canceled_cause sha c = seq
     [require_task_attempt_identity ''task_attempt_cause.cancellation_id''
        (cc_cancellation_id c),
      validate_kind sha (cc_evidence c) KOperatorCanceled]"

record unknown_evidence =
  uk_effect_id :: string
  uk_observation_id :: string
  uk_evidence :: attempt_evidence

definition validate_unknown_evidence ::
  "(string \<Rightarrow> string) \<Rightarrow> unknown_evidence \<Rightarrow> contract_result" where
  "validate_unknown_evidence sha u = seq
     [require_task_attempt_identity ''task_attempt_unknown_evidence.effect_id'' (uk_effect_id u),
      require_task_attempt_identity ''task_attempt_unknown_evidence.observation_id''
        (uk_observation_id u),
      validate_kind sha (uk_evidence u) KUnknownTerminalEffect]"

record uncertain_evidence =
  un_uncertainty_id :: string
  un_authority_reference_ids :: "string list"
  un_evidence :: attempt_evidence

definition validate_uncertain_evidence ::
  "(string \<Rightarrow> string) \<Rightarrow> uncertain_evidence \<Rightarrow> contract_result" where
  "validate_uncertain_evidence sha u = seq
     [require_task_attempt_identity ''task_attempt_uncertain_evidence.uncertainty_id''
        (un_uncertainty_id u),
      require_unique_nonblank ''task_attempt_uncertain_evidence.authority_reference_ids''
        (un_authority_reference_ids u),
      require_task_attempt_identity_list
        ''task_attempt_uncertain_evidence.authority_reference_ids''
        (un_authority_reference_ids u),
      ensure (un_authority_reference_ids u \<noteq> [])
        (ContractError ''task_attempt_uncertain_evidence.authority_reference_ids''
          ''must retain at least one uncertain authority identity''),
      require_strict_lexical_order
        ''task_attempt_uncertain_evidence.authority_reference_ids''
        (un_authority_reference_ids u),
      validate_kind sha (un_evidence u) KUncertainAuthority]"

section \<open>Dispositions\<close>

record disposition_metadata =
  dm_contract_version :: u32
  dm_disposition_id :: string
  dm_attempt :: task_attempt
  dm_from_state :: task_state
  dm_state_transition_event_id :: string
  dm_disposed_at_unix_ms :: u64

definition is_attempted_task_phase :: "task_state \<Rightarrow> bool" where
  "is_attempted_task_phase s \<longleftrightarrow> s \<in> {T_Leased, T_Running, T_Verifying, T_Candidate}"

definition validate_disposition_metadata ::
  "(string \<Rightarrow> string) \<Rightarrow> disposition_metadata \<Rightarrow> contract_result" where
  "validate_disposition_metadata sha m = seq
     [require_contract_version ''task_attempt_disposition.contract_version''
        (dm_contract_version m),
      require_task_attempt_identity ''task_attempt_disposition.disposition_id''
        (dm_disposition_id m),
      validate_task_attempt sha (dm_attempt m),
      ensure (is_attempted_task_phase (dm_from_state m))
        (ContractError ''task_attempt_disposition.from_state''
          ''must be Leased, Running, Verifying, or Candidate''),
      require_task_attempt_identity ''task_attempt_disposition.state_transition_event_id''
        (dm_state_transition_event_id m),
      require_nonzero_timestamp ''task_attempt_disposition.disposed_at_unix_ms''
        (dm_disposed_at_unix_ms m),
      ensure (\<not> dm_disposed_at_unix_ms m < ta_opened_at_unix_ms (dm_attempt m))
        (ContractError ''task_attempt_disposition.disposed_at_unix_ms''
          ''must not precede attempt opening'')]"

record integrated_disposition =
  di_metadata :: disposition_metadata
  di_candidate_boundary :: candidate_boundary
  di_integration_receipt :: task_integration_receipt
  di_evidence :: attempt_evidence

record retryable_disposition =
  dr_metadata :: disposition_metadata
  dr_cause :: retryable_cause
  dr_release_proof :: release_proof

record exhausted_disposition =
  dx_metadata :: disposition_metadata
  dx_cause :: retryable_cause
  dx_release_proof :: release_proof

record permanent_disposition =
  dp_metadata :: disposition_metadata
  dp_cause :: permanent_failure_cause
  dp_release_proof :: release_proof

record blocked_disposition =
  db_metadata :: disposition_metadata
  db_cause :: blocked_cause
  db_release_proof :: release_proof

record canceled_disposition =
  dc_metadata :: disposition_metadata
  dc_cause :: canceled_cause
  dc_release_proof :: release_proof

record cleaned_disposition =
  dk_metadata :: disposition_metadata
  dk_unknown_evidence :: unknown_evidence
  dk_cleanup_release :: attempt_cleanup_release

record quarantined_disposition =
  dq_metadata :: disposition_metadata
  dq_uncertain_evidence :: uncertain_evidence

datatype attempt_disposition =
    IntegratedD integrated_disposition
  | RetryableD retryable_disposition
  | AttemptsExhaustedD exhausted_disposition
  | PermanentFailureD permanent_disposition
  | BlockedD blocked_disposition
  | CanceledD canceled_disposition
  | UnknownCleanedD cleaned_disposition
  | UnknownQuarantinedD quarantined_disposition

fun disposition_metadata_of :: "attempt_disposition \<Rightarrow> disposition_metadata" where
  "disposition_metadata_of (IntegratedD v) = di_metadata v"
| "disposition_metadata_of (RetryableD v) = dr_metadata v"
| "disposition_metadata_of (AttemptsExhaustedD v) = dx_metadata v"
| "disposition_metadata_of (PermanentFailureD v) = dp_metadata v"
| "disposition_metadata_of (BlockedD v) = db_metadata v"
| "disposition_metadata_of (CanceledD v) = dc_metadata v"
| "disposition_metadata_of (UnknownCleanedD v) = dk_metadata v"
| "disposition_metadata_of (UnknownQuarantinedD v) = dq_metadata v"

fun resulting_task_state :: "attempt_disposition \<Rightarrow> task_state" where
  "resulting_task_state (IntegratedD _) = T_Integrated"
| "resulting_task_state (RetryableD _) = T_Ready"
| "resulting_task_state (AttemptsExhaustedD _) = T_Failed"
| "resulting_task_state (PermanentFailureD _) = T_Failed"
| "resulting_task_state (BlockedD _) = T_Blocked"
| "resulting_task_state (CanceledD _) = T_Canceled"
| "resulting_task_state (UnknownCleanedD _) = T_Unknown"
| "resulting_task_state (UnknownQuarantinedD _) = T_Unknown"

fun requires_release :: "attempt_disposition \<Rightarrow> bool" where
  "requires_release (IntegratedD _) = False"
| "requires_release (UnknownQuarantinedD _) = False"
| "requires_release _ = True"

fun disposition_release_proof :: "attempt_disposition \<Rightarrow> release_proof option" where
  "disposition_release_proof (RetryableD v) = Some (dr_release_proof v)"
| "disposition_release_proof (AttemptsExhaustedD v) = Some (dx_release_proof v)"
| "disposition_release_proof (PermanentFailureD v) = Some (dp_release_proof v)"
| "disposition_release_proof (BlockedD v) = Some (db_release_proof v)"
| "disposition_release_proof (CanceledD v) = Some (dc_release_proof v)"
| "disposition_release_proof (IntegratedD _) = None"
| "disposition_release_proof (UnknownCleanedD _) = None"
| "disposition_release_proof (UnknownQuarantinedD _) = None"

definition invalid_disposition_transition :: "string \<Rightarrow> string \<Rightarrow> contract_error" where
  "invalid_disposition_transition from to =
     ContractError ''task_attempt_disposition.from_state''
       (to @ '' disposition requires exact '' @ from @ '' source state'')"

definition validate_nested_attempt :: "task_attempt \<Rightarrow> task_attempt \<Rightarrow> contract_result" where
  "validate_nested_attempt expected actual =
     ensure (expected = actual)
       (ContractError ''task_attempt_disposition.attempt''
         ''nested evidence must carry the exact disposition attempt'')"

definition validate_integration_disposition :: "integrated_disposition \<Rightarrow> contract_result" where
  "validate_integration_disposition d =
     (let lease = ta_worker_lease (dm_attempt (di_metadata d));
          boundary = di_candidate_boundary d; receipt = di_integration_receipt d in
      ensure (\<not> (ti_worker_lease receipt \<noteq> Some lease \<or>
                 ti_sprint_id receipt \<noteq> wl_sprint_id lease \<or>
                 ti_task_id receipt \<noteq> wl_task_id lease \<or>
                 ti_worker_id receipt \<noteq> wl_worker_id lease \<or>
                 ti_change_set_id receipt \<noteq> cb_change_set_id boundary \<or>
                 ti_result_snapshot receipt \<noteq> cb_sealed_snapshot boundary \<or>
                 ti_task_verification_receipt_ids receipt \<noteq> cb_verification_receipt_ids boundary))
        (ContractError ''task_attempt_disposition.integration''
          ''candidate and integration evidence must exactly match the disposition attempt''))"

text \<open>The \<open>match self\<close> of \<open>validate_for_budget\<close>; \<open>u32::from(max)\<close> is the value \<open>unat max\<close>.\<close>

definition validate_disposition_body ::
  "(string \<Rightarrow> string) \<Rightarrow> u8 \<Rightarrow> attempt_disposition \<Rightarrow> contract_result" where
  "validate_disposition_body sha max_attempts d =
     (case d of
        IntegratedD v \<Rightarrow> seq
          [ensure (dm_from_state (di_metadata v) = T_Candidate)
             (invalid_disposition_transition ''Candidate'' ''Integrated''),
           validate_candidate_boundary sha (di_candidate_boundary v),
           validate_task_integration_receipt sha (di_integration_receipt v),
           validate_kind sha (di_evidence v) KIntegrated,
           validate_nested_attempt (dm_attempt (di_metadata v))
             (cb_attempt (di_candidate_boundary v)),
           validate_integration_disposition v]
      | RetryableD v \<Rightarrow> seq
          [ensure (\<not> unat (ta_attempt_ordinal (dm_attempt (dr_metadata v))) \<ge> unat max_attempts)
             (ContractError ''task_attempt_disposition''
               ''Retryable is permitted only before the immutable attempt limit''),
           validate_retryable_cause sha (dr_cause v),
           validate_release_against sha (dr_release_proof v) (dm_attempt (dr_metadata v)),
           validate_release_coupling (dr_cause v) (dr_release_proof v)]
      | AttemptsExhaustedD v \<Rightarrow> seq
          [ensure (unat (ta_attempt_ordinal (dm_attempt (dx_metadata v))) = unat max_attempts)
             (ContractError ''task_attempt_disposition''
               ''AttemptsExhausted is required exactly at the immutable attempt limit''),
           validate_retryable_cause sha (dx_cause v),
           validate_release_against sha (dx_release_proof v) (dm_attempt (dx_metadata v)),
           validate_release_coupling (dx_cause v) (dx_release_proof v)]
      | PermanentFailureD v \<Rightarrow> seq
          [validate_permanent_cause sha (dp_cause v),
           validate_release_against sha (dp_release_proof v) (dm_attempt (dp_metadata v))]
      | BlockedD v \<Rightarrow> seq
          [validate_blocked_cause sha (db_cause v),
           validate_release_against sha (db_release_proof v) (dm_attempt (db_metadata v))]
      | CanceledD v \<Rightarrow> seq
          [validate_canceled_cause sha (dc_cause v),
           validate_release_against sha (dc_release_proof v) (dm_attempt (dc_metadata v))]
      | UnknownCleanedD v \<Rightarrow> seq
          [validate_unknown_evidence sha (dk_unknown_evidence v),
           validate_attempt_cleanup_release sha (dk_cleanup_release v),
           validate_nested_attempt (dm_attempt (dk_metadata v))
             (cl_attempt (dk_cleanup_release v))]
      | UnknownQuarantinedD v \<Rightarrow> validate_uncertain_evidence sha (dq_uncertain_evidence v))"

definition latest_evidence_time :: "attempt_disposition \<Rightarrow> u64 option" where
  "latest_evidence_time d =
     (case d of
        IntegratedD v \<Rightarrow> Some (max (cb_admitted_at_unix_ms (di_candidate_boundary v))
          (ti_integrated_at_unix_ms (di_integration_receipt v)))
      | RetryableD v \<Rightarrow> Some (proof_released_at (dr_release_proof v))
      | AttemptsExhaustedD v \<Rightarrow> Some (proof_released_at (dx_release_proof v))
      | PermanentFailureD v \<Rightarrow> Some (proof_released_at (dp_release_proof v))
      | BlockedD v \<Rightarrow> Some (proof_released_at (db_release_proof v))
      | CanceledD v \<Rightarrow> Some (proof_released_at (dc_release_proof v))
      | UnknownCleanedD v \<Rightarrow> Some (cl_released_at_unix_ms (dk_cleanup_release v))
      | UnknownQuarantinedD _ \<Rightarrow> None)"

definition validate_for_budget ::
  "(string \<Rightarrow> string) \<Rightarrow> u8 \<Rightarrow> attempt_disposition \<Rightarrow> contract_result" where
  "validate_for_budget sha max_attempts d =
     (let metadata = disposition_metadata_of d in seq
     [ensure (max_attempts \<noteq> 0)
        (ContractError ''task_attempt_disposition.max_attempts_per_task''
          ''must be greater than zero''),
      validate_disposition_metadata sha metadata,
      ensure (\<not> unat (ta_attempt_ordinal (dm_attempt metadata)) > unat max_attempts)
        (ContractError ''task_attempt_disposition.attempt_ordinal''
          ''must not exceed the immutable task attempt budget''),
      validate_disposition_body sha max_attempts d,
      ensure (\<not> (case latest_evidence_time d of
                   None \<Rightarrow> False | Some t \<Rightarrow> t > dm_disposed_at_unix_ms metadata))
        (ContractError ''task_attempt_disposition.disposed_at_unix_ms''
          ''must not precede candidate, integration, cleanup, or release evidence'')])"

section \<open>What an accepted disposition says\<close>

lemma validate_nested_attempt_ok [simp, ok_iff]:
  "validate_nested_attempt a b = Inr u \<longleftrightarrow> a = b"
  by (simp add: validate_nested_attempt_def)

lemma validate_for_budgetD:
  assumes "validate_for_budget sha mx d = Inr ()"
  shows "mx \<noteq> 0"
    and "unat (ta_attempt_ordinal (dm_attempt (disposition_metadata_of d))) \<le> unat mx"
    and "is_attempted_task_phase (dm_from_state (disposition_metadata_of d))"
    and "validate_task_attempt sha (dm_attempt (disposition_metadata_of d)) = Inr ()"
    and "validate_disposition_body sha mx d = Inr ()"
    and "latest_evidence_time d = Some t \<Longrightarrow>
      t \<le> dm_disposed_at_unix_ms (disposition_metadata_of d)"
    and "ta_opened_at_unix_ms (dm_attempt (disposition_metadata_of d))
      \<le> dm_disposed_at_unix_ms (disposition_metadata_of d)"
  using assms
  by (simp_all add: validate_for_budget_def Let_def validate_disposition_metadata_def
      not_less split: option.splits)

lemma retryable_before_limit:
  assumes "validate_for_budget sha mx (RetryableD v) = Inr ()"
  shows "unat (ta_attempt_ordinal (dm_attempt (dr_metadata v))) < unat mx"
    "validate_release_against sha (dr_release_proof v) (dm_attempt (dr_metadata v)) = Inr ()"
    "validate_release_coupling (dr_cause v) (dr_release_proof v) = Inr ()"
  using validate_for_budgetD(5) [OF assms] by (simp_all add: validate_disposition_body_def)

lemma exhausted_at_limit:
  assumes "validate_for_budget sha mx (AttemptsExhaustedD v) = Inr ()"
  shows "unat (ta_attempt_ordinal (dm_attempt (dx_metadata v))) = unat mx"
  using validate_for_budgetD(5) [OF assms] by (simp add: validate_disposition_body_def)

lemma integrated_links:
  assumes "validate_for_budget sha mx (IntegratedD v) = Inr ()"
  shows "dm_from_state (di_metadata v) = T_Candidate"
    "cb_attempt (di_candidate_boundary v) = dm_attempt (di_metadata v)"
    "validate_task_integration_receipt sha (di_integration_receipt v) = Inr ()"
    "ti_worker_lease (di_integration_receipt v) = Some (ta_worker_lease (dm_attempt (di_metadata v)))"
    "ti_change_set_id (di_integration_receipt v) = cb_change_set_id (di_candidate_boundary v)"
    "ti_result_snapshot (di_integration_receipt v) = cb_sealed_snapshot (di_candidate_boundary v)"
    "ti_task_verification_receipt_ids (di_integration_receipt v)
      = cb_verification_receipt_ids (di_candidate_boundary v)"
  using validate_for_budgetD(5) [OF assms]
  by (simp_all add: validate_disposition_body_def validate_integration_disposition_def Let_def)

end
