(* ===== verification/Attempt_History.thy ===== *)
theory Attempt_History
  imports Dispositions Task_Graph
begin

text \<open>
  Attempt histories of \<open>contracts/attempts.rs\<close>: the ordered attempts of one task with their
  phase evidence, and \<open>validate_for_task\<close> with every validator it calls.
\<close>

section \<open>Records\<close>

datatype legacy_classification =
    LegacyReleased | LegacyOpen | LegacyIntegratedCleanupPending | LegacyIntegratedReleased
  | LegacyReleasedActiveState | LegacyUnknownQuarantine

datatype budget_classification = WithinBudget | OverBudget

datatype attempt_lease_state = LeaseActive | LeaseReleased string u64

fun lease_is_active :: "attempt_lease_state \<Rightarrow> bool" where
  "lease_is_active LeaseActive = True"
| "lease_is_active (LeaseReleased _ _) = False"

definition validate_lease_state :: "attempt_lease_state \<Rightarrow> task_attempt \<Rightarrow> contract_result" where
  "validate_lease_state s attempt =
     (case s of
        LeaseReleased release_id released_at \<Rightarrow> seq
          [require_task_attempt_identity ''task_attempt_lease_state.release_id'' release_id,
           require_nonzero_timestamp ''task_attempt_lease_state.released_at_unix_ms'' released_at,
           ensure (\<not> released_at < ta_opened_at_unix_ms attempt)
             (ContractError ''task_attempt_lease_state.released_at_unix_ms''
               ''must not precede attempt opening'')]
      | LeaseActive \<Rightarrow> Inr ())"

record unknown_pending =
  up_contract_version :: u32
  up_marker_id :: string
  up_sprint_id :: string
  up_first_attempt_id :: string
  up_first_disposition_id :: string
  up_created_at_unix_ms :: u64

definition validate_unknown_pending :: "unknown_pending \<Rightarrow> contract_result" where
  "validate_unknown_pending p = seq
     [require_contract_version ''sprint_unknown_terminalization_pending.contract_version''
        (up_contract_version p),
      require_task_attempt_identity ''sprint_unknown_terminalization_pending.marker_id''
        (up_marker_id p),
      require_task_attempt_identity ''sprint_unknown_terminalization_pending.sprint_id''
        (up_sprint_id p),
      require_task_attempt_identity ''sprint_unknown_terminalization_pending.first_attempt_id''
        (up_first_attempt_id p),
      require_task_attempt_identity
        ''sprint_unknown_terminalization_pending.first_disposition_id''
        (up_first_disposition_id p),
      require_nonzero_timestamp ''sprint_unknown_terminalization_pending.created_at_unix_ms''
        (up_created_at_unix_ms p)]"

record unknown_closure =
  uc_marker_id :: string
  uc_sprint_id :: string
  uc_terminal_evidence_id :: string
  uc_terminal_event_id :: string
  uc_contract_version :: u32
  uc_closed_at_unix_ms :: u64

definition validate_unknown_closure :: "unknown_closure \<Rightarrow> contract_result" where
  "validate_unknown_closure c = seq
     [require_contract_version ''sprint_unknown_terminalization_closure.contract_version''
        (uc_contract_version c),
      require_task_attempt_identity ''sprint_unknown_terminalization_closure.marker_id''
        (uc_marker_id c),
      require_task_attempt_identity ''sprint_unknown_terminalization_closure.sprint_id''
        (uc_sprint_id c),
      require_task_attempt_identity
        ''sprint_unknown_terminalization_closure.terminal_evidence_id''
        (uc_terminal_evidence_id c),
      require_task_attempt_identity ''sprint_unknown_terminalization_closure.terminal_event_id''
        (uc_terminal_event_id c),
      require_nonzero_timestamp ''sprint_unknown_terminalization_closure.closed_at_unix_ms''
        (uc_closed_at_unix_ms c)]"

record history_entry =
  he_attempt :: task_attempt
  he_running_boundary :: "running_boundary option"
  he_verification_boundary :: "verification_boundary option"
  he_formal_checks :: "formal_check list"
  he_candidate_boundary :: "candidate_boundary option"
  he_disposition :: "attempt_disposition option"
  he_legacy_classification :: "legacy_classification option"
  he_lease_state :: attempt_lease_state

record attempt_history =
  th_contract_version :: u32
  th_sprint_id :: string
  th_task_id :: string
  th_task_state :: task_state
  th_sprint_state :: sprint_state
  th_attempts :: "history_entry list"
  th_budget_classification :: budget_classification
  th_unknown_pending :: "unknown_pending option"

section \<open>One entry\<close>

definition validate_history_release ::
  "attempt_lease_state \<Rightarrow> string \<Rightarrow> u64 \<Rightarrow> contract_result" where
  "validate_history_release s expected_release_id expected_released_at =
     ensure (s = LeaseReleased expected_release_id expected_released_at)
       (ContractError ''task_attempt_history.lease_state''
         ''must exactly match the disposition release proof'')"

definition validate_legacy_lease_shape :: "history_entry \<Rightarrow> contract_result" where
  "validate_legacy_lease_shape e =
     (case he_legacy_classification e of
        None \<Rightarrow> Inr ()
      | Some c \<Rightarrow>
          ensure (lease_is_active (he_lease_state e) =
                  (c \<in> {LegacyOpen, LegacyIntegratedCleanupPending, LegacyUnknownQuarantine}))
            (ContractError ''task_attempt_history.legacy_classification''
              ''legacy classification and active-release state disagree''))"

definition validate_disposition_lease_shape :: "history_entry \<Rightarrow> contract_result" where
  "validate_disposition_lease_shape e =
     (case he_disposition e of
        None \<Rightarrow> Inr ()
      | Some (IntegratedD _) \<Rightarrow> Inr ()
      | Some (UnknownQuarantinedD _) \<Rightarrow>
          ensure (lease_is_active (he_lease_state e))
            (ContractError ''task_attempt_history.lease_state''
              ''UnknownQuarantined must retain its active lease'')
      | Some (UnknownCleanedD v) \<Rightarrow>
          validate_history_release (he_lease_state e) (cl_release_id (dk_cleanup_release v))
            (cl_released_at_unix_ms (dk_cleanup_release v))
      | Some d \<Rightarrow>
          bind_ok (ok_or (disposition_release_proof d)
            (ContractError ''task_attempt_history.lease_state''
              ''released disposition lacks its exact release proof''))
          (\<lambda>release. validate_history_release (he_lease_state e) (proof_release_id release)
            (proof_released_at release)))"

definition check_running :: "(string \<Rightarrow> string) \<Rightarrow> history_entry \<Rightarrow> contract_result" where
  "check_running sha e =
     (case he_running_boundary e of
        None \<Rightarrow> Inr ()
      | Some b \<Rightarrow> seq
          [validate_running_boundary sha b,
           validate_nested_attempt (he_attempt e) (rb_attempt b)])"

definition check_verification :: "(string \<Rightarrow> string) \<Rightarrow> history_entry \<Rightarrow> contract_result" where
  "check_verification sha e =
     (case he_verification_boundary e of
        None \<Rightarrow> Inr ()
      | Some b \<Rightarrow> bind_ok (seq
          [validate_verification_boundary sha b,
           validate_nested_attempt (he_attempt e) (vb_attempt b)])
        (\<lambda>_. bind_ok (ok_or (he_running_boundary e)
          (ContractError ''task_attempt_history.verification_boundary''
            ''requires the exact preceding Running boundary''))
        (\<lambda>running. seq
          [ensure (\<not> (vb_runner_launch_id b \<noteq> rb_runner_launch_id running \<or>
                      vb_runner_session_id b \<noteq> rb_runner_session_id running))
             (ContractError ''task_attempt_history.verification_boundary''
               ''must retain the exact Running-boundary launch and session''),
           ensure (\<not> vb_sealed_at_unix_ms b < rb_started_at_unix_ms running)
             (ContractError ''task_attempt_history.verification_boundary''
               ''must not precede the Running boundary'')])))"

definition validate_history_entry ::
  "(string \<Rightarrow> string) \<Rightarrow> u8 \<Rightarrow> history_entry \<Rightarrow> contract_result" where
  "validate_history_entry sha max_attempts e = seq
     [validate_task_attempt sha (he_attempt e),
      validate_lease_state (he_lease_state e) (he_attempt e),
      ensure (\<not> (he_disposition e \<noteq> None \<and> he_legacy_classification e \<noteq> None))
        (ContractError ''task_attempt_history.entry''
          ''current disposition and legacy classification are mutually exclusive''),
      check_running sha e,
      check_verification sha e,
      seq (map (\<lambda>c. seq [validate_formal_check sha c,
        validate_nested_attempt (he_attempt e) (fc_attempt c)]) (he_formal_checks e)),
      (case he_candidate_boundary e of
         None \<Rightarrow> Inr ()
       | Some b \<Rightarrow> seq
           [validate_candidate_boundary sha b,
            validate_nested_attempt (he_attempt e) (cb_attempt b)]),
      (case he_disposition e of
         None \<Rightarrow> Inr ()
       | Some d \<Rightarrow> seq
           [validate_for_budget sha max_attempts d,
            validate_nested_attempt (he_attempt e) (dm_attempt (disposition_metadata_of d))]),
      validate_legacy_lease_shape e,
      validate_disposition_lease_shape e]"

section \<open>Formal checks\<close>

definition automated_command :: "acceptance_criterion \<Rightarrow> command_spec option" where
  "automated_command c = (case ac_kind c of Automated command \<Rightarrow> Some command | HumanJudgment \<Rightarrow> None)"

definition automated_pair :: "acceptance_criterion \<Rightarrow> (string \<times> command_spec) option" where
  "automated_pair c = map_option (Pair (ac_criterion_id c)) (automated_command c)"

text \<open>The order of the sprint's declarations, and the order of the task's references.\<close>

definition canonical_automated :: "sprint_spec \<Rightarrow> task_spec \<Rightarrow> (string \<times> command_spec) list" where
  "canonical_automated sprint task =
     List.map_filter automated_pair
       (filter (\<lambda>c. ac_criterion_id c \<in> set (ts_acceptance_checks task))
         (sp_acceptance_criteria sprint))"

definition legacy_automated :: "sprint_spec \<Rightarrow> task_spec \<Rightarrow> (string \<times> command_spec) list" where
  "legacy_automated sprint task =
     List.map_filter
       (\<lambda>criterion_id. Option.bind
          (find (\<lambda>c. ac_criterion_id c = criterion_id) (sp_acceptance_criteria sprint))
          (\<lambda>c. map_option (Pair criterion_id) (automated_command c)))
       (ts_acceptance_checks task)"

text \<open>\<open>u32::try_from(index).unwrap_or(u32::MAX)\<close>.\<close>

definition u32_saturating :: "nat \<Rightarrow> u32" where
  "u32_saturating n = (if n < 2 ^ 32 then of_nat n else - 1)"

text \<open>\<open>sequence_matches\<close>: \<open>zip\<close> stops at the shorter of the two lists.\<close>

fun sequence_matches_from ::
  "nat \<Rightarrow> verification_boundary \<Rightarrow> formal_check list \<Rightarrow> (string \<times> command_spec) list \<Rightarrow> bool" where
  "sequence_matches_from index b (check # checks) ((criterion_id, command) # rest) \<longleftrightarrow>
     fc_criterion_ordinal check = u32_saturating index \<and>
     fc_criterion_id check = criterion_id \<and>
     vr_command (fc_verification_receipt check) = command \<and>
     fc_sealed_snapshot check = vb_sealed_snapshot b \<and>
     fc_runner_session_id check = vb_runner_session_id b \<and>
     sequence_matches_from (Suc index) b checks rest"
| "sequence_matches_from index b checks rest \<longleftrightarrow> True"

definition sequence_matches ::
  "verification_boundary \<Rightarrow> formal_check list \<Rightarrow> (string \<times> command_spec) list \<Rightarrow> bool" where
  "sequence_matches b checks order = sequence_matches_from 0 b checks order"

text \<open>The loop over completion times; it returns the last one.\<close>

fun finish_times :: "u64 \<Rightarrow> formal_check list \<Rightarrow> contract_error + u64" where
  "finish_times previous [] = Inr previous"
| "finish_times previous (check # checks) =
     bind_ok (ensure
         (\<not> vr_finished_at_unix_ms (fc_verification_receipt check) < previous)
         (ContractError ''task_attempt_history.formal_checks''
           ''serialized formal-check completion times must not move backward''))
       (\<lambda>_. finish_times (vr_finished_at_unix_ms (fc_verification_receipt check)) checks)"

definition candidate_matches ::
  "history_entry \<Rightarrow> verification_boundary \<Rightarrow> nat \<Rightarrow> u64 \<Rightarrow> candidate_boundary \<Rightarrow> bool" where
  "candidate_matches e vb declared previous_finished_at cb \<longleftrightarrow>
     \<not> (length (he_formal_checks e) \<noteq> declared \<or>
        cb_formal_check_ids cb \<noteq> map fc_formal_check_id (he_formal_checks e) \<or>
        cb_verification_receipt_ids cb
          \<noteq> map (\<lambda>c. vr_receipt_id (fc_verification_receipt c)) (he_formal_checks e) \<or>
        cb_verification_boundary_id cb \<noteq> vb_boundary_id vb \<or>
        cb_change_set_id cb \<noteq> vb_change_set_id vb \<or>
        cb_sealed_snapshot cb \<noteq> vb_sealed_snapshot vb \<or>
        cb_admitted_at_unix_ms cb < previous_finished_at)"

definition validate_formal_check_bijection ::
  "history_entry \<Rightarrow> sprint_spec \<Rightarrow> task_spec \<Rightarrow> contract_result" where
  "validate_formal_check_bijection e sprint task =
     (let canonical = canonical_automated sprint task; legacy = legacy_automated sprint task in
      if length (he_formal_checks e) > length canonical
      then Inl (ContractError ''task_attempt_history.formal_checks''
        ''formal-check count exceeds the declared automated criterion set'')
      else case he_verification_boundary e of
        None \<Rightarrow>
          ensure (he_formal_checks e = [] \<and> he_candidate_boundary e = None)
            (ContractError ''task_attempt_history.formal_checks''
              ''formal checks and candidate boundary require a verification boundary'')
      | Some vb \<Rightarrow>
          bind_ok (ensure (\<not> (\<not> sequence_matches vb (he_formal_checks e) canonical \<and>
                              \<not> sequence_matches vb (he_formal_checks e) legacy))
            (ContractError ''task_attempt_history.formal_checks''
              ''must follow one unmixed SprintSpec-canonical or pre-v21 legacy automated-criterion order''))
          (\<lambda>_. bind_ok (finish_times (vb_sealed_at_unix_ms vb) (he_formal_checks e))
          (\<lambda>previous_finished_at.
             case he_candidate_boundary e of
               None \<Rightarrow> Inr ()
             | Some cb \<Rightarrow>
                 ensure (candidate_matches e vb (length canonical) previous_finished_at cb)
                   (ContractError ''task_attempt_history.candidate_boundary''
                     ''must be an exact bijection over the declared automated formal-check set''))))"

section \<open>Phases\<close>

text \<open>
  The boundary shapes the four attempted states allow, checked once for open attempts and once
  for disposed ones. The closing arm of both Rust matches is unreachable.
\<close>

definition some_check_failed :: "history_entry \<Rightarrow> bool" where
  "some_check_failed e \<longleftrightarrow>
     list_ex (\<lambda>c. \<not> receipt_passed (fc_verification_receipt c)) (he_formal_checks e)"

definition invalid_history_state :: "string \<Rightarrow> contract_error" where
  "invalid_history_state message = ContractError ''task_attempt_history.task_state'' message"

definition validate_open_attempt_phase :: "history_entry \<Rightarrow> task_state \<Rightarrow> contract_result" where
  "validate_open_attempt_phase e task_state =
     (case task_state of
        T_Leased \<Rightarrow>
          ensure (\<not> (he_running_boundary e \<noteq> None \<or> he_verification_boundary e \<noteq> None \<or>
                     he_formal_checks e \<noteq> [] \<or> he_candidate_boundary e \<noteq> None))
            (invalid_history_state
              ''Leased attempts cannot carry Running or later phase boundaries'')
      | T_Running \<Rightarrow>
          ensure (\<not> (he_running_boundary e = None \<or> he_verification_boundary e \<noteq> None \<or>
                     he_formal_checks e \<noteq> [] \<or> he_candidate_boundary e \<noteq> None))
            (invalid_history_state
              ''Running requires its exact boundary and no later phase boundaries'')
      | T_Verifying \<Rightarrow>
          ensure (\<not> (he_running_boundary e = None \<or> he_verification_boundary e = None \<or>
                     he_candidate_boundary e \<noteq> None))
            (invalid_history_state
              ''Verifying requires exact Running and verification boundaries and no candidate boundary'')
      | T_Candidate \<Rightarrow> seq
          [ensure (\<not> (he_running_boundary e = None \<or> he_verification_boundary e = None \<or>
                      he_candidate_boundary e = None))
             (invalid_history_state
               ''Candidate requires exact Running, verification, and candidate boundaries''),
           ensure (\<not> some_check_failed e)
             (invalid_history_state
               ''Candidate requires every automated formal check to pass'')]
      | _ \<Rightarrow> Inl (ContractError ''unreachable'' ''caller limits open-attempt states''))"

definition phase_error :: "string \<Rightarrow> contract_error" where
  "phase_error message = ContractError ''task_attempt_history.disposition_phase'' message"

definition validate_disposition_phase :: "history_entry \<Rightarrow> task_state \<Rightarrow> contract_result" where
  "validate_disposition_phase e from_state =
     (case from_state of
        T_Leased \<Rightarrow>
          ensure (\<not> (he_running_boundary e \<noteq> None \<or> he_verification_boundary e \<noteq> None \<or>
                     he_formal_checks e \<noteq> [] \<or> he_candidate_boundary e \<noteq> None))
            (phase_error ''Leased disposition cannot carry Running or later phase boundaries'')
      | T_Running \<Rightarrow>
          ensure (\<not> (he_running_boundary e = None \<or> he_verification_boundary e \<noteq> None \<or>
                     he_formal_checks e \<noteq> [] \<or> he_candidate_boundary e \<noteq> None))
            (phase_error
              ''Running disposition requires its exact boundary and no later phase boundaries'')
      | T_Verifying \<Rightarrow>
          ensure (\<not> (he_running_boundary e = None \<or> he_verification_boundary e = None \<or>
                     he_candidate_boundary e \<noteq> None))
            (phase_error
              ''Verifying disposition requires Running and verification boundaries and no candidate boundary'')
      | T_Candidate \<Rightarrow> seq
          [ensure (\<not> (he_running_boundary e = None \<or> he_verification_boundary e = None \<or>
                      he_candidate_boundary e = None))
             (phase_error
               ''Candidate disposition requires exact Running, verification, and candidate boundaries''),
           ensure (\<not> some_check_failed e)
             (phase_error
               ''Candidate disposition requires every automated formal check to pass'')]
      | _ \<Rightarrow> Inl (ContractError ''unreachable''
               ''disposition metadata validates attempted source phases''))"

definition disposition_retryable_cause :: "attempt_disposition \<Rightarrow> retryable_cause option" where
  "disposition_retryable_cause d =
     (case d of RetryableD v \<Rightarrow> Some (dr_cause v) | AttemptsExhaustedD v \<Rightarrow> Some (dx_cause v)
      | _ \<Rightarrow> None)"

definition failed_check_ids :: "history_entry \<Rightarrow> string list" where
  "failed_check_ids e =
     map fc_formal_check_id
       (filter (\<lambda>c. \<not> receipt_passed (fc_verification_receipt c)) (he_formal_checks e))"

definition names_failed_check :: "retryable_cause option \<Rightarrow> string \<Rightarrow> bool" where
  "names_failed_check cause failed_check_id \<longleftrightarrow>
     (case cause of
        Some (CauseFormalVerificationFailed formal_check_id _) \<Rightarrow> formal_check_id = failed_check_id
      | _ \<Rightarrow> False)"

definition validate_cause_phase :: "history_entry \<Rightarrow> attempt_disposition \<Rightarrow> contract_result" where
  "validate_cause_phase e d =
     (case disposition_retryable_cause d of
        Some (CauseFormalVerificationFailed formal_check_id _) \<Rightarrow>
          ensure (\<not> (dm_from_state (disposition_metadata_of d) \<noteq> T_Verifying \<or>
                     \<not> list_ex (\<lambda>c. fc_formal_check_id c = formal_check_id \<and>
                         \<not> receipt_passed (fc_verification_receipt c)) (he_formal_checks e)))
            (ContractError ''task_attempt_history.disposition_cause''
              ''FormalVerificationFailed must resolve one exact failed Verifying check'')
      | Some (CauseCandidateRejectedKnown candidate_boundary_id _) \<Rightarrow>
          ensure (\<not> (dm_from_state (disposition_metadata_of d) \<noteq> T_Candidate \<or>
                     map_option cb_boundary_id (he_candidate_boundary e)
                       \<noteq> Some candidate_boundary_id))
            (ContractError ''task_attempt_history.disposition_cause''
              ''CandidateRejectedKnown must resolve the exact Candidate boundary'')
      | _ \<Rightarrow> Inr ())"

definition check_integrated_phase :: "history_entry \<Rightarrow> attempt_disposition \<Rightarrow> contract_result" where
  "check_integrated_phase e d =
     (case d of
        IntegratedD v \<Rightarrow>
          (case he_verification_boundary e of
             None \<Rightarrow> Inl (ContractError ''unreachable''
               ''Candidate phase requires verification boundary'')
           | Some verification \<Rightarrow>
               ensure (\<not> (he_candidate_boundary e \<noteq> Some (di_candidate_boundary v) \<or>
                          ti_worker_launch_id (di_integration_receipt v)
                            \<noteq> vb_runner_launch_id verification \<or>
                          ti_worker_session_id (di_integration_receipt v)
                            \<noteq> vb_runner_session_id verification))
                 (ContractError ''task_attempt_history.candidate_boundary''
                   ''Integrated disposition must match the exact history candidate, launch, and session''))
      | _ \<Rightarrow> Inr ())"

definition validate_disposed_attempt_phase :: "history_entry \<Rightarrow> contract_result" where
  "validate_disposed_attempt_phase e =
     (case he_disposition e of
        None \<Rightarrow> Inr ()
      | Some d \<Rightarrow> seq
          [ensure (\<not> (case he_running_boundary e of
                        None \<Rightarrow> False
                      | Some b \<Rightarrow> dm_disposed_at_unix_ms (disposition_metadata_of d)
                          < rb_started_at_unix_ms b))
             (phase_error ''disposition must not precede the Running boundary''),
           validate_disposition_phase e (dm_from_state (disposition_metadata_of d)),
           check_integrated_phase e d,
           ensure (\<not> length (failed_check_ids e) > 1)
             (ContractError ''task_attempt_history.formal_checks''
               ''serialized failed-check fencing permits at most one failed formal check''),
           (case failed_check_ids e of
              [] \<Rightarrow> Inr ()
            | failed_check_id # _ \<Rightarrow>
                ensure (names_failed_check (disposition_retryable_cause d) failed_check_id)
                  (ContractError ''task_attempt_history.disposition_cause''
                    ''a failed formal receipt requires its exact FormalVerificationFailed cause'')),
           validate_cause_phase e d])"

section \<open>The task state against its latest attempt\<close>

definition active_entries :: "attempt_history \<Rightarrow> history_entry list" where
  "active_entries h = filter (\<lambda>e. lease_is_active (he_lease_state e)) (th_attempts h)"

text \<open>\<open>active_attempt()\<close>.\<close>

definition active_attempt :: "attempt_history \<Rightarrow> history_entry option" where
  "active_attempt h = find (\<lambda>e. lease_is_active (he_lease_state e)) (th_attempts h)"

definition latest_attempt :: "attempt_history \<Rightarrow> history_entry option" where
  "latest_attempt h = (if th_attempts h = [] then None else Some (last (th_attempts h)))"

fun is_retryable_d :: "attempt_disposition option \<Rightarrow> bool" where
  "is_retryable_d (Some (RetryableD _)) = True"
| "is_retryable_d _ = False"

fun is_integrated_d :: "attempt_disposition option \<Rightarrow> bool" where
  "is_integrated_d (Some (IntegratedD _)) = True"
| "is_integrated_d _ = False"

fun is_quarantined_d :: "attempt_disposition option \<Rightarrow> bool" where
  "is_quarantined_d (Some (UnknownQuarantinedD _)) = True"
| "is_quarantined_d _ = False"

fun is_unknown_d :: "attempt_disposition option \<Rightarrow> bool" where
  "is_unknown_d (Some (UnknownCleanedD _)) = True"
| "is_unknown_d (Some (UnknownQuarantinedD _)) = True"
| "is_unknown_d _ = False"

definition validate_ready_history :: "attempt_history \<Rightarrow> contract_result" where
  "validate_ready_history h = seq
     [ensure (\<not> list_ex (\<lambda>e. lease_is_active (he_lease_state e)) (th_attempts h))
        (invalid_history_state ''Ready cannot retain an active lease''),
      (case latest_attempt h of
         None \<Rightarrow> Inr ()
       | Some latest \<Rightarrow>
           ensure (is_retryable_d (he_disposition latest))
             (invalid_history_state
               ''Ready after an attempt requires an exact Retryable disposition''))]"

definition validate_integrated_history :: "history_entry option \<Rightarrow> contract_result" where
  "validate_integrated_history latest =
     (case latest of
        None \<Rightarrow> Inl (invalid_history_state ''Integrated requires an exact integrated disposition'')
      | Some e \<Rightarrow>
          ensure (is_integrated_d (he_disposition e) \<or>
                  he_legacy_classification e \<in>
                    {Some LegacyIntegratedCleanupPending, Some LegacyIntegratedReleased})
            (invalid_history_state
              ''Integrated requires current or accepted legacy integration evidence''))"

definition validate_terminal_history ::
  "attempt_history \<Rightarrow> history_entry option \<Rightarrow> contract_result" where
  "validate_terminal_history h latest =
     (case latest of
        None \<Rightarrow> Inr ()
      | Some e \<Rightarrow>
          let disposition_matches =
                (map_option resulting_task_state (he_disposition e) = Some (th_task_state h));
              legacy_unknown = (th_task_state h = T_Unknown \<and>
                he_legacy_classification e = Some LegacyUnknownQuarantine \<and>
                lease_is_active (he_lease_state e)) in seq
          [ensure (\<not> (\<not> disposition_matches \<and> \<not> legacy_unknown))
             (invalid_history_state
               ''terminal task state requires its exact typed disposition''),
           ensure (\<not> (lease_is_active (he_lease_state e) \<and>
                      \<not> is_quarantined_d (he_disposition e) \<and> \<not> legacy_unknown))
             (invalid_history_state
               ''known terminal and UnknownCleaned attempts cannot retain active leases''),
           ensure (\<not> (is_unknown_d (he_disposition e) \<and> th_unknown_pending h = None \<and>
                      th_sprint_state h \<noteq> S_Unknown))
             (invalid_history_state
               ''every unknown disposition requires pending or completed sprint Unknown terminalization'')])"

definition legacy_state_allowed ::
  "attempt_history \<Rightarrow> history_entry \<Rightarrow> legacy_classification \<Rightarrow> bool" where
  "legacy_state_allowed h e classification =
     (let active = lease_is_active (he_lease_state e) in
      case classification of
        LegacyReleased \<Rightarrow>
          th_task_state h \<in> {T_Ready, T_Blocked, T_Failed, T_Canceled, T_Unknown}
      | LegacyOpen \<Rightarrow> is_attempted_task_phase (th_task_state h) \<and> active
      | LegacyIntegratedCleanupPending \<Rightarrow> th_task_state h = T_Integrated \<and> active
      | LegacyIntegratedReleased \<Rightarrow> th_task_state h = T_Integrated \<and> \<not> active
      | LegacyReleasedActiveState \<Rightarrow> is_attempted_task_phase (th_task_state h) \<and> \<not> active
      | LegacyUnknownQuarantine \<Rightarrow> th_task_state h = T_Unknown \<and> active)"

definition validate_legacy_history_state ::
  "attempt_history \<Rightarrow> history_entry \<Rightarrow> legacy_classification \<Rightarrow> contract_result" where
  "validate_legacy_history_state h e classification = seq
     [ensure (legacy_state_allowed h e classification)
        (invalid_history_state
          ''legacy classification does not match its exact diagnostic state/release matrix''),
      ensure (\<not> (classification = LegacyUnknownQuarantine \<and> th_unknown_pending h = None \<and>
                 th_sprint_state h \<noteq> S_Unknown))
        (invalid_history_state
          ''legacy unknown quarantine requires pending or completed sprint Unknown terminalization'')]"

definition earlier_attempt_closed :: "history_entry \<Rightarrow> bool" where
  "earlier_attempt_closed e \<longleftrightarrow>
     (let released = \<not> lease_is_active (he_lease_state e) in
      is_retryable_d (he_disposition e) \<and> released \<or>
      he_legacy_classification e = Some LegacyReleased \<and> released)"

text \<open>The \<open>match history.task_state\<close> of \<open>validate_history_phase_shape\<close>.\<close>

definition validate_state_shape :: "attempt_history \<Rightarrow> contract_result" where
  "validate_state_shape h =
     (let latest = latest_attempt h; state = th_task_state h in
      if state = T_Planned then
        ensure (latest = None) (invalid_history_state ''Planned tasks cannot have attempts'')
      else if state = T_Ready then validate_ready_history h
      else if is_attempted_task_phase state then
        (case latest of
           None \<Rightarrow> Inl (invalid_history_state ''attempted phase requires an attempt'')
         | Some e \<Rightarrow> seq
             [ensure (\<not> (he_disposition e \<noteq> None \<or> he_legacy_classification e \<noteq> None \<or>
                         \<not> lease_is_active (he_lease_state e)))
                (invalid_history_state
                  ''attempted phase requires one active undisposed current attempt''),
              validate_open_attempt_phase e state])
      else if state = T_Integrated then validate_integrated_history latest
      else validate_terminal_history h latest)"

definition validate_history_phase_shape ::
  "attempt_history \<Rightarrow> sprint_spec \<Rightarrow> task_spec \<Rightarrow> contract_result" where
  "validate_history_phase_shape h sprint task = seq
     [ensure (\<not> length (active_entries h) > 1)
        (ContractError ''task_attempt_history.lease_state''
          ''at most one task-local attempt lease may remain active''),
      seq (map (\<lambda>e. ensure (earlier_attempt_closed e)
          (ContractError ''task_attempt_history.attempts''
            ''earlier attempts must be released Retryable or exact LegacyReleased backfills''))
        (take (length (th_attempts h) - 1) (th_attempts h))),
      seq (map (\<lambda>e. seq
          [validate_formal_check_bijection e sprint task,
           validate_disposed_attempt_phase e]) (th_attempts h)),
      (case Option.bind (latest_attempt h)
              (\<lambda>e. map_option (Pair e) (he_legacy_classification e)) of
         Some (e, classification) \<Rightarrow> validate_legacy_history_state h e classification
       | None \<Rightarrow> validate_state_shape h)]"

section \<open>The history of a task\<close>

text \<open>The loop over the attempts, with the position and the previous lease epoch.\<close>

fun attempt_checks ::
  "(string \<Rightarrow> string) \<Rightarrow> attempt_history \<Rightarrow> sprint_spec \<Rightarrow> task_spec \<Rightarrow> nat \<Rightarrow> u64 option \<Rightarrow>
   history_entry list \<Rightarrow> contract_result" where
  "attempt_checks sha h sprint task index previous_epoch [] = Inr ()"
| "attempt_checks sha h sprint task index previous_epoch (e # es) =
     (let lease = ta_worker_lease (he_attempt e) in seq
     [validate_history_entry sha (sb_max_attempts_per_task (sp_budget sprint)) e,
      ensure (index < 2 ^ 32 \<and> Suc index < 2 ^ 32)
        (ContractError ''task_attempt_history.attempts''
          ''attempt count exceeds canonical u32 ordinal range''),
      ensure (ta_attempt_ordinal (he_attempt e) = of_nat (Suc index))
        (ContractError ''task_attempt_history.attempts''
          ''attempt ordinals must be contiguous from one''),
      ensure (\<not> (wl_sprint_id lease \<noteq> th_sprint_id h \<or> wl_task_id lease \<noteq> th_task_id h \<or>
                 wl_path_scopes lease \<noteq> ts_path_scopes task))
        (ContractError ''task_attempt_history.attempts''
          ''every attempt lease must exactly match sprint, task, and graph scopes''),
      ensure (\<not> (case previous_epoch of None \<Rightarrow> False | Some p \<Rightarrow> p \<ge> wl_lease_epoch lease))
        (ContractError ''task_attempt_history.attempts''
          ''lease epochs must increase strictly with task-local ordinals''),
      attempt_checks sha h sprint task (Suc index) (Some (wl_lease_epoch lease)) es])"

definition expected_budget_class :: "attempt_history \<Rightarrow> sprint_spec \<Rightarrow> budget_classification" where
  "expected_budget_class h sprint =
     (if length (th_attempts h) > unat (sb_max_attempts_per_task (sp_budget sprint))
      then OverBudget else WithinBudget)"

definition validate_for_task ::
  "(string \<Rightarrow> string) \<Rightarrow> attempt_history \<Rightarrow> sprint_spec \<Rightarrow> task_spec \<Rightarrow> contract_result" where
  "validate_for_task sha h sprint task = seq
     [require_contract_version ''task_attempt_history.contract_version'' (th_contract_version h),
      ensure (\<not> (th_sprint_id h \<noteq> sp_sprint_id sprint \<or> th_task_id h \<noteq> ts_task_id task))
        (ContractError ''task_attempt_history.identity''
          ''must exactly match the owning sprint and graph task''),
      (case th_unknown_pending h of
         None \<Rightarrow> Inr ()
       | Some marker \<Rightarrow> seq
           [validate_unknown_pending marker,
            ensure (up_sprint_id marker = th_sprint_id h)
              (ContractError ''task_attempt_history.unknown_terminalization_pending''
                ''must belong to the history sprint''),
            ensure (\<not> sprint_is_terminal (th_sprint_state h))
              (ContractError ''task_attempt_history.unknown_terminalization_pending''
                ''pending marker must be closed before sprint terminal state is durable'')]),
      ensure (th_budget_classification h = expected_budget_class h sprint)
        (ContractError ''task_attempt_history.budget_classification''
          ''must exactly reflect immutable acquisition count versus budget''),
      attempt_checks sha h sprint task 0 None (th_attempts h),
      validate_history_phase_shape h sprint task]"

end
