(* ===== verification/Attempt_Facts.thy ===== *)
theory Attempt_Facts
  imports Attempt_History Graph_Check
begin

text \<open>
  What an accepted attempt history says: its entries fit the task and are numbered from one,
  all but the latest are closed retries, the boundaries of an entry determine its phase, and a
  candidate ran every automated criterion of the task. The closing theorem is the reason the
  records exist: an integrated task passed its checks on the snapshot that was integrated.
\<close>

section \<open>Accepted entries and histories\<close>

lemma validate_history_entryD:
  assumes "validate_history_entry sha mx e = Inr ()"
  shows "validate_task_attempt sha (he_attempt e) = Inr ()"
    and "he_disposition e = None \<or> he_legacy_classification e = None"
    and "check_running sha e = Inr ()" "check_verification sha e = Inr ()"
    and "\<forall>c\<in>set (he_formal_checks e). validate_formal_check sha c = Inr ()"
    and "he_disposition e = Some d \<Longrightarrow> validate_for_budget sha mx d = Inr () \<and>
      dm_attempt (disposition_metadata_of d) = he_attempt e"
    and "validate_disposition_lease_shape e = Inr ()" "validate_legacy_lease_shape e = Inr ()"
  using assms by (auto simp: validate_history_entry_def seq_map_ok)

text \<open>Every entry of an accepted history is valid and belongs to the task.\<close>

definition entry_fits ::
  "(string \<Rightarrow> string) \<Rightarrow> attempt_history \<Rightarrow> sprint_spec \<Rightarrow> task_spec \<Rightarrow> history_entry \<Rightarrow> bool" where
  "entry_fits sha h sprint task e \<longleftrightarrow>
     (let lease = ta_worker_lease (he_attempt e) in
      validate_history_entry sha (sb_max_attempts_per_task (sp_budget sprint)) e = Inr () \<and>
      wl_sprint_id lease = th_sprint_id h \<and> wl_task_id lease = th_task_id h \<and>
      wl_path_scopes lease = ts_path_scopes task)"

lemma entry_fitsD:
  assumes "entry_fits sha h sprint task e"
  shows "validate_history_entry sha (sb_max_attempts_per_task (sp_budget sprint)) e = Inr ()"
    and "wl_sprint_id (ta_worker_lease (he_attempt e)) = th_sprint_id h"
    and "wl_task_id (ta_worker_lease (he_attempt e)) = th_task_id h"
    and "wl_path_scopes (ta_worker_lease (he_attempt e)) = ts_path_scopes task"
  using assms by (simp_all add: entry_fits_def Let_def)

lemma attempt_checks_sound:
  assumes "attempt_checks sha h sprint task index p es = Inr ()"
  shows "(\<forall>e\<in>set es. entry_fits sha h sprint task e) \<and>
    map (\<lambda>e. unat (ta_attempt_ordinal (he_attempt e))) es = [Suc index..<Suc (index + length es)] \<and>
    sorted_wrt (<) (map (\<lambda>e. wl_lease_epoch (ta_worker_lease (he_attempt e))) es) \<and>
    (\<forall>q. p = Some q \<longrightarrow> (\<forall>e\<in>set es. q < wl_lease_epoch (ta_worker_lease (he_attempt e))))"
  using assms
proof (induction es arbitrary: index p)
  case (Cons e es)
  let ?l = "ta_worker_lease (he_attempt e)"
  from Cons.prems have rest: "attempt_checks sha h sprint task (Suc index)
      (Some (wl_lease_epoch ?l)) es = Inr ()"
    and small: "Suc index < 2 ^ 32" and n: "ta_attempt_ordinal (he_attempt e) = of_nat (Suc index)"
    and here: "entry_fits sha h sprint task e" "\<forall>q. p = Some q \<longrightarrow> q < wl_lease_epoch ?l"
    by (auto simp: Let_def entry_fits_def not_le split: option.splits
        simp del: of_nat_Suc)
  have "unat (ta_attempt_ordinal (he_attempt e)) = Suc index"
    using n small by (simp add: unat_of_nat del: of_nat_Suc)
  moreover have "[Suc index..<Suc (index + length (e # es))]
      = Suc index # [Suc (Suc index)..<Suc (Suc index + length es)]"
    by (simp add: upt_conv_Cons del: upt_Suc)
  ultimately have "map (\<lambda>e. unat (ta_attempt_ordinal (he_attempt e))) (e # es)
      = [Suc index..<Suc (index + length (e # es))]"
    using Cons.IH [OF rest] by (simp del: upt_Suc)
  moreover have "\<forall>q. p = Some q \<longrightarrow> (\<forall>f\<in>set (e # es).
      q < wl_lease_epoch (ta_worker_lease (he_attempt f)))"
    using Cons.IH [OF rest] here(2) by (auto intro: less_trans)
  ultimately show ?case
    using Cons.IH [OF rest] here by (simp del: upt_Suc)
qed auto

lemma validate_for_taskD:
  assumes "validate_for_task sha h sprint task = Inr ()"
  shows "th_sprint_id h = sp_sprint_id sprint" "th_task_id h = ts_task_id task"
    and "th_budget_classification h = expected_budget_class h sprint"
    and "\<forall>e\<in>set (th_attempts h). entry_fits sha h sprint task e"
    and "map (\<lambda>e. unat (ta_attempt_ordinal (he_attempt e))) (th_attempts h)
      = [1..<Suc (length (th_attempts h))]"
    and "sorted_wrt (<) (map (\<lambda>e. wl_lease_epoch (ta_worker_lease (he_attempt e))) (th_attempts h))"
    and "validate_history_phase_shape h sprint task = Inr ()"
    and "th_unknown_pending h = Some m \<Longrightarrow> \<not> sprint_is_terminal (th_sprint_state h)"
proof -
  have "attempt_checks sha h sprint task 0 None (th_attempts h) = Inr ()"
    using assms by (simp add: validate_for_task_def)
  from attempt_checks_sound [OF this]
  show "\<forall>e\<in>set (th_attempts h). entry_fits sha h sprint task e"
    "map (\<lambda>e. unat (ta_attempt_ordinal (he_attempt e))) (th_attempts h)
      = [1..<Suc (length (th_attempts h))]"
    "sorted_wrt (<) (map (\<lambda>e. wl_lease_epoch (ta_worker_lease (he_attempt e))) (th_attempts h))"
    by (simp_all del: upt_Suc)
qed (use assms in \<open>auto simp: validate_for_task_def split: option.splits\<close>)

lemma phase_shapeD:
  assumes "validate_history_phase_shape h sprint task = Inr ()"
  shows "length (active_entries h) \<le> 1"
    and "\<forall>e\<in>set (butlast (th_attempts h)). earlier_attempt_closed e"
    and "\<forall>e\<in>set (th_attempts h). validate_formal_check_bijection e sprint task = Inr () \<and>
      validate_disposed_attempt_phase e = Inr ()"
    and "latest_attempt h = Some e \<Longrightarrow> he_legacy_classification e = None \<Longrightarrow>
      validate_state_shape h = Inr ()"
    and "latest_attempt h = None \<Longrightarrow> validate_state_shape h = Inr ()"
  using assms
  by (simp_all add: validate_history_phase_shape_def seq_map_ok butlast_conv_take not_less)

section \<open>Phases\<close>

definition entry_phase :: "history_entry \<Rightarrow> task_state" where
  "entry_phase e =
     (if he_candidate_boundary e \<noteq> None then T_Candidate
      else if he_verification_boundary e \<noteq> None then T_Verifying
      else if he_running_boundary e \<noteq> None then T_Running else T_Leased)"

lemma boundaries_nest:
  assumes "entry_fits sha h sprint task e" "validate_formal_check_bijection e sprint task = Inr ()"
  shows "he_verification_boundary e \<noteq> None \<Longrightarrow> he_running_boundary e \<noteq> None"
    and "he_candidate_boundary e \<noteq> None \<Longrightarrow> he_verification_boundary e \<noteq> None"
proof -
  have "check_verification sha e = Inr ()"
    by (rule validate_history_entryD(4) [OF entry_fitsD(1) [OF assms(1)]])
  then show "he_verification_boundary e \<noteq> None \<Longrightarrow> he_running_boundary e \<noteq> None"
    by (auto simp: check_verification_def bind_ok_Inr)
  show "he_candidate_boundary e \<noteq> None \<Longrightarrow> he_verification_boundary e \<noteq> None"
    using assms(2)
    by (auto simp: validate_formal_check_bijection_def Let_def split: if_splits option.splits)
qed

lemma open_phase:
  "validate_open_attempt_phase e s = Inr () \<Longrightarrow> s = entry_phase e"
  by (cases s) (auto simp: validate_open_attempt_phase_def entry_phase_def)

lemma disposition_phase:
  "validate_disposition_phase e s = Inr () \<Longrightarrow> s = entry_phase e"
  by (cases s) (auto simp: validate_disposition_phase_def entry_phase_def)

lemma entry_phase_attempted: "is_attempted_task_phase (entry_phase e)"
  by (simp add: is_attempted_task_phase_def entry_phase_def)

text \<open>Earlier attempts of an accepted history, and its latest attempt.\<close>

lemma earlier_attempts:
  assumes "validate_for_task sha h sprint task = Inr ()" "e \<in> set (butlast (th_attempts h))"
    and "he_legacy_classification e = None"
  shows "is_retryable_d (he_disposition e)" "\<not> lease_is_active (he_lease_state e)"
  using phase_shapeD(2) [OF validate_for_taskD(7) [OF assms(1)]] assms(2,3)
  by (auto simp: earlier_attempt_closed_def Let_def)

lemma active_attempt_iff:
  assumes "validate_for_task sha h sprint task = Inr ()" "th_attempts h \<noteq> []"
  shows "active_attempt h \<noteq> None \<longleftrightarrow> lease_is_active (he_lease_state (last (th_attempts h)))"
proof -
  have "\<not> lease_is_active (he_lease_state e)" if "e \<in> set (butlast (th_attempts h))" for e
    using phase_shapeD(2) [OF validate_for_taskD(7) [OF assms(1)]] that
    by (auto simp: earlier_attempt_closed_def Let_def)
  moreover have "set (th_attempts h) = insert (last (th_attempts h)) (set (butlast (th_attempts h)))"
    using assms(2) by (metis append_butlast_last_id list.simps(15) rotate1.simps(2) set_rotate1)
  ultimately show ?thesis
    using find_Some_iff_ex [of "\<lambda>e. lease_is_active (he_lease_state e)" "th_attempts h"]
    by (auto simp: active_attempt_def)
qed

lemma latest_state:
  assumes "validate_state_shape h = Inr ()" "latest_attempt h = Some e"
    and "he_legacy_classification e = None"
  shows "(case he_disposition e of
      Some d \<Rightarrow> th_task_state h = resulting_task_state d
    | None \<Rightarrow> lease_is_active (he_lease_state e) \<and>
        validate_open_attempt_phase e (th_task_state h) = Inr ())"
  using assms
  by (cases "th_task_state h"; cases "he_disposition e" rule: is_retryable_d.cases)
    (auto simp: validate_state_shape_def Let_def is_attempted_task_phase_def
      validate_ready_history_def validate_integrated_history_def validate_terminal_history_def)

text \<open>
  An attempt without disposition and without legacy classification is the latest one; it is
  active and its boundaries are those of the task state.
\<close>

lemma open_attempt:
  assumes "validate_for_task sha h sprint task = Inr ()" "e \<in> set (th_attempts h)"
    and "he_legacy_classification e = None" "he_disposition e = None"
  shows "th_attempts h \<noteq> []" "e = last (th_attempts h)" "lease_is_active (he_lease_state e)"
    and "th_task_state h = entry_phase e"
    and "unat (ta_attempt_ordinal (he_attempt e)) = length (th_attempts h)"
proof -
  show ne: "th_attempts h \<noteq> []" using assms(2) by auto
  then obtain early l where split: "th_attempts h = early @ [l]"
    by (metis rev_exhaust)
  have "e \<notin> set early"
    using earlier_attempts(1) [OF assms(1) _ assms(3)] assms(4) by (auto simp: split)
  with assms(2) have e: "e = l" by (simp add: split)
  then show "e = last (th_attempts h)" by (simp add: split)
  have latest: "latest_attempt h = Some e" by (simp add: latest_attempt_def split e)
  from latest_state [OF phase_shapeD(4) [OF validate_for_taskD(7) [OF assms(1)] latest assms(3)]
      latest assms(3)] assms(4) open_phase
  show "lease_is_active (he_lease_state e)" "th_task_state h = entry_phase e" by auto
  have "map (\<lambda>e. unat (ta_attempt_ordinal (he_attempt e))) early
      @ [unat (ta_attempt_ordinal (he_attempt e))] = [Suc 0..<Suc (length early)] @ [Suc (length early)]"
    using validate_for_taskD(5) [OF assms(1)] by (simp add: split e)
  then have "unat (ta_attempt_ordinal (he_attempt e)) = Suc (length early)"
    by (simp only: append1_eq_conv)
  then show "unat (ta_attempt_ordinal (he_attempt e)) = length (th_attempts h)" by (simp add: split)
qed

section \<open>Formal checks\<close>

lemma automated_pair_Some:
  "automated_pair c = Some p \<longleftrightarrow> fst p = ac_criterion_id c \<and> ac_kind c = Automated (snd p)"
  by (cases p) (auto simp: automated_pair_def automated_command_def split: acceptance_kind.splits)

text \<open>The automated criteria a task refers to, with their commands.\<close>

definition task_checks :: "sprint_spec \<Rightarrow> task_spec \<Rightarrow> (string \<times> command_spec) set" where
  "task_checks sprint task =
     {(ac_criterion_id c, command) | c command. c \<in> set (sp_acceptance_criteria sprint) \<and>
        ac_criterion_id c \<in> set (ts_acceptance_checks task) \<and> ac_kind c = Automated command}"

lemma set_canonical_automated: "set (canonical_automated sprint task) = task_checks sprint task"
  by (force simp: canonical_automated_def task_checks_def set_map_filter_iff automated_pair_Some)

lemma set_legacy_automated:
  assumes "distinct (map ac_criterion_id (sp_acceptance_criteria sprint))"
  shows "set (legacy_automated sprint task) = task_checks sprint task"
proof -
  have found: "find (\<lambda>c. ac_criterion_id c = i) (sp_acceptance_criteria sprint) = Some c \<longleftrightarrow>
      c \<in> set (sp_acceptance_criteria sprint) \<and> ac_criterion_id c = i" for i c
    using find_unique [OF assms, of c i] find_SomeD [of "\<lambda>c. ac_criterion_id c = i"] by blast
  have command: "automated_command c = Some command \<longleftrightarrow> ac_kind c = Automated command" for c command
    by (auto simp: automated_command_def split: acceptance_kind.splits)
  show ?thesis
    by (auto simp: legacy_automated_def task_checks_def set_map_filter_iff bind_eq_Some_conv found
        command) blast
qed

lemma length_legacy_automated:
  assumes "distinct (map ac_criterion_id (sp_acceptance_criteria sprint))"
    and "distinct (ts_acceptance_checks task)"
  shows "length (legacy_automated sprint task) = length (canonical_automated sprint task)"
proof -
  have "distinct (map fst (canonical_automated sprint task))"
    unfolding canonical_automated_def
    using assms(1) by (intro distinct_map_filter_keys [of ac_criterion_id])
      (auto simp: automated_pair_Some distinct_map inj_on_def)
  moreover have "distinct (map fst (legacy_automated sprint task))"
    unfolding legacy_automated_def
    using assms(2) by (intro distinct_map_filter_keys [of "\<lambda>i. i"])
      (auto simp: bind_eq_Some_conv)
  ultimately show ?thesis
    using set_canonical_automated [of sprint task] set_legacy_automated [OF assms(1), of task]
    by (metis distinct_card distinct_map)
qed

text \<open>A check sequence of full length runs every command of its order.\<close>

definition check_runs ::
  "verification_boundary \<Rightarrow> string \<times> command_spec \<Rightarrow> formal_check \<Rightarrow> bool" where
  "check_runs b p c \<longleftrightarrow>
     fc_criterion_id c = fst p \<and> vr_command (fc_verification_receipt c) = snd p \<and>
     fc_sealed_snapshot c = vb_sealed_snapshot b \<and> fc_runner_session_id c = vb_runner_session_id b"

lemma sequence_matches_runs:
  assumes "sequence_matches_from n b checks order" "length checks = length order" "p \<in> set order"
  shows "\<exists>c\<in>set checks. check_runs b p c"
  using assms
  by (induction n b checks order rule: sequence_matches_from.induct) (auto simp: check_runs_def)

text \<open>What an accepted candidate boundary stands for.\<close>

lemma candidate_ran_every_check:
  assumes "validate_formal_check_bijection e sprint task = Inr ()"
    and "he_verification_boundary e = Some vb" "he_candidate_boundary e = Some cb"
    and "distinct (map ac_criterion_id (sp_acceptance_criteria sprint))"
    and "distinct (ts_acceptance_checks task)"
  shows "\<forall>p\<in>task_checks sprint task. \<exists>c\<in>set (he_formal_checks e). check_runs vb p c"
    and "cb_sealed_snapshot cb = vb_sealed_snapshot vb"
    and "cb_change_set_id cb = vb_change_set_id vb"
    and "cb_verification_receipt_ids cb
      = map (\<lambda>c. vr_receipt_id (fc_verification_receipt c)) (he_formal_checks e)"
proof -
  from assms(1-3) obtain t where order:
      "sequence_matches vb (he_formal_checks e) (canonical_automated sprint task)
        \<or> sequence_matches vb (he_formal_checks e) (legacy_automated sprint task)"
    and m: "candidate_matches e vb (length (canonical_automated sprint task)) t cb"
    by (auto simp: validate_formal_check_bijection_def Let_def bind_ok_Inr split: if_splits)
  from m show "cb_sealed_snapshot cb = vb_sealed_snapshot vb"
    "cb_change_set_id cb = vb_change_set_id vb"
    "cb_verification_receipt_ids cb
      = map (\<lambda>c. vr_receipt_id (fc_verification_receipt c)) (he_formal_checks e)"
    by (simp_all add: candidate_matches_def)
  from m have len: "length (he_formal_checks e) = length (canonical_automated sprint task)"
    by (simp add: candidate_matches_def)
  from order show "\<forall>p\<in>task_checks sprint task. \<exists>c\<in>set (he_formal_checks e). check_runs vb p c"
  proof
    assume "sequence_matches vb (he_formal_checks e) (canonical_automated sprint task)"
    from sequence_matches_runs [OF this [unfolded sequence_matches_def] len]
    show ?thesis by (simp add: set_canonical_automated)
  next
    assume "sequence_matches vb (he_formal_checks e) (legacy_automated sprint task)"
    from sequence_matches_runs [OF this [unfolded sequence_matches_def]]
    show ?thesis
      using len length_legacy_automated [OF assms(4,5)] set_legacy_automated [OF assms(4)] by simp
  qed
qed

lemma validated_task_ids:
  assumes "validate_for_sprint graph sprint = Inr ()" "task \<in> set (tg_tasks graph)"
  shows "distinct (map ac_criterion_id (sp_acceptance_criteria sprint))"
    "distinct (ts_acceptance_checks task)"
  using assms validate_sprint_specD(3) [of sprint]
  by (auto simp: validate_for_sprint_accepts graph_spec_def validate_task_spec_def)

section \<open>Integrated tasks\<close>

text \<open>A task that is Integrated owes it to its latest attempt.\<close>

lemma integrated_history_latest:
  assumes "validate_for_task sha h sprint task = Inr ()" "th_task_state h = T_Integrated"
    and "he_legacy_classification (last (th_attempts h)) = None"
  obtains v where "latest_attempt h = Some (last (th_attempts h))"
    "last (th_attempts h) \<in> set (th_attempts h)"
    "he_disposition (last (th_attempts h)) = Some (IntegratedD v)"
proof -
  note P = phase_shapeD [OF validate_for_taskD(7) [OF assms(1)]]
  have ne: "th_attempts h \<noteq> []"
  proof
    assume "th_attempts h = []"
    then have "latest_attempt h = None" by (simp add: latest_attempt_def)
    with P(5) assms(2) show False
      by (simp add: validate_state_shape_def Let_def is_attempted_task_phase_def
          validate_integrated_history_def)
  qed
  let ?e = "last (th_attempts h)"
  have latest: "latest_attempt h = Some ?e" and mem: "?e \<in> set (th_attempts h)"
    using ne by (simp_all add: latest_attempt_def)
  from latest_state [OF P(4) [OF latest assms(3)] latest assms(3)] assms(2)
  have "\<exists>d. he_disposition ?e = Some d \<and> resulting_task_state d = T_Integrated"
    using entry_phase_attempted [of ?e] open_phase [of ?e T_Integrated]
    by (auto simp: is_attempted_task_phase_def split: option.splits)
  then obtain v where "he_disposition ?e = Some (IntegratedD v)"
    by (metis resulting_task_state.simps attempt_disposition.exhaust task_state.distinct)
  with latest mem that show thesis by blast
qed

text \<open>
  C2. A task integrated under current authority passed its checks: in an accepted history of a task
  of a validated graph whose state is \<open>Integrated\<close> and whose latest attempt carries no legacy
  classification, the latest attempt ends in an integration under its own lease and runner session, and for every automated
  criterion the task refers to, the attempt holds a formal check of exactly that command which
  passed on the integrated snapshot and whose receipt the integration names. A history backfilled
  from an older release may end in \<open>LegacyIntegratedReleased\<close> without any check.
\<close>

theorem integrated_task_passed_every_check:
  assumes "validate_for_sprint graph sprint = Inr ()" "task \<in> set (tg_tasks graph)"
    and "validate_for_task sha h sprint task = Inr ()" "th_task_state h = T_Integrated"
    and "he_legacy_classification (last (th_attempts h)) = None"
  shows "\<exists>e v. latest_attempt h = Some e \<and> he_disposition e = Some (IntegratedD v) \<and>
    ti_worker_lease (di_integration_receipt v) = Some (ta_worker_lease (he_attempt e)) \<and>
    map_option rb_runner_session_id (he_running_boundary e)
      = Some (ti_worker_session_id (di_integration_receipt v)) \<and>
    (\<forall>c\<in>set (sp_acceptance_criteria sprint). \<forall>command.
       ac_criterion_id c \<in> set (ts_acceptance_checks task) \<and> ac_kind c = Automated command \<longrightarrow>
       (\<exists>check\<in>set (he_formal_checks e).
          fc_criterion_id check = ac_criterion_id c \<and>
          vr_command (fc_verification_receipt check) = command \<and>
          receipt_passed (fc_verification_receipt check) \<and>
          vr_snapshot_id (fc_verification_receipt check)
            = ti_result_snapshot (di_integration_receipt v) \<and>
          vr_receipt_id (fc_verification_receipt check)
            \<in> set (ti_task_verification_receipt_ids (di_integration_receipt v))))"
proof -
  note D = validate_for_taskD [OF assms(3)]
  note P = phase_shapeD [OF D(7)]
  let ?e = "last (th_attempts h)"
  obtain v where latest: "latest_attempt h = Some ?e" and mem: "?e \<in> set (th_attempts h)"
    and d: "he_disposition ?e = Some (IntegratedD v)"
    using integrated_history_latest [OF assms(3-5)] by blast
  have fits: "entry_fits sha h sprint task ?e"
    and bij: "validate_formal_check_bijection ?e sprint task = Inr ()"
    and phase: "validate_disposed_attempt_phase ?e = Inr ()"
    using D(4) P(3) mem by auto
  have b: "validate_for_budget sha (sb_max_attempts_per_task (sp_budget sprint)) (IntegratedD v) = Inr ()"
    and own: "dm_attempt (di_metadata v) = he_attempt ?e"
    using validate_history_entryD(6) [OF entry_fitsD(1) [OF fits] d] by simp_all
  note I = integrated_links [OF b]
  from phase d have "validate_disposition_phase ?e T_Candidate = Inr ()"
    and link: "check_integrated_phase ?e (IntegratedD v) = Inr ()"
    using I(1) by (simp_all add: validate_disposed_attempt_phase_def)
  then have passed: "\<forall>c\<in>set (he_formal_checks ?e). receipt_passed (fc_verification_receipt c)"
    by (simp add: validate_disposition_phase_def some_check_failed_def list_ex_iff)
  from link obtain vb where vb: "he_verification_boundary ?e = Some vb"
    and cb: "he_candidate_boundary ?e = Some (di_candidate_boundary v)"
    and session: "ti_worker_session_id (di_integration_receipt v) = vb_runner_session_id vb"
    by (auto simp: check_integrated_phase_def split: option.splits)
  have "check_verification sha ?e = Inr ()"
    by (rule validate_history_entryD(4) [OF entry_fitsD(1) [OF fits]])
  then have running: "map_option rb_runner_session_id (he_running_boundary ?e)
      = Some (vb_runner_session_id vb)"
    using vb by (auto simp: check_verification_def bind_ok_Inr)
  have ids: "distinct (map ac_criterion_id (sp_acceptance_criteria sprint))"
    "distinct (ts_acceptance_checks task)"
    using validated_task_ids [OF assms(1,2)] by simp_all
  note R = candidate_ran_every_check [OF bij vb cb ids]
  have snap: "vr_snapshot_id (fc_verification_receipt c) = fc_sealed_snapshot c"
    if "c \<in> set (he_formal_checks ?e)" for c
    using validate_history_entryD(5) [OF entry_fitsD(1) [OF fits]] that
    by (auto simp: validate_formal_check_def Let_def)
  have "\<exists>check\<in>set (he_formal_checks ?e). check_runs vb (ac_criterion_id c, command) check"
    if "c \<in> set (sp_acceptance_criteria sprint)" "ac_criterion_id c \<in> set (ts_acceptance_checks task)"
      "ac_kind c = Automated command" for c command
    using R(1) that by (auto simp: task_checks_def)
  then show ?thesis
    using latest d I own session running passed snap R(2,4)
    by (intro exI [of _ ?e] exI [of _ v]) (fastforce simp: check_runs_def)
qed

end
