(* ===== verification/Attempt_Scheduler.thy ===== *)
theory Attempt_Scheduler
  imports Scheduler Attempt_Facts
begin

text \<open>
  \<open>plan_task_attempts\<close> of \<open>scheduler.rs\<close>: the planner that derives every active lease from one
  typed attempt history per task, instead of taking states and leases from the caller.
\<close>

record attempt_scheduler_input =
  tk_sprint :: sprint_spec
  tk_graph :: task_graph
  tk_task_histories :: "attempt_history list"
  tk_workspace_blocking_leases :: "worker_lease list"
  tk_available_worker_ids :: "string list"
  tk_next_lease_epoch :: u64
  tk_acquired_at_unix_ms :: u64

definition validate_attempt_scalars :: "attempt_scheduler_input \<Rightarrow> scheduler_result" where
  "validate_attempt_scalars i = seq
     [ensure (tk_next_lease_epoch i \<noteq> 0)
        (SchedulerError ''attempt_scheduler.next_lease_epoch'' ''must be greater than zero''),
      ensure (tk_acquired_at_unix_ms i \<noteq> 0)
        (SchedulerError ''attempt_scheduler.acquired_at_unix_ms'' ''must be greater than zero'')]"

fun formal_order_from :: "nat \<Rightarrow> formal_check list \<Rightarrow> (string \<times> command_spec) list \<Rightarrow> bool" where
  "formal_order_from ordinal (check # checks) ((criterion_id, command) # rest) \<longleftrightarrow>
     fc_criterion_ordinal check = u32_saturating ordinal \<and>
     fc_criterion_id check = criterion_id \<and>
     vr_command (fc_verification_receipt check) = command \<and>
     formal_order_from (Suc ordinal) checks rest"
| "formal_order_from ordinal checks rest \<longleftrightarrow> True"

definition validate_scheduler_formal_order ::
  "sprint_spec \<Rightarrow> task_spec \<Rightarrow> attempt_history \<Rightarrow> scheduler_result" where
  "validate_scheduler_formal_order sprint task h =
     ensure (list_all (\<lambda>e. formal_order_from 0 (he_formal_checks e) (canonical_automated sprint task))
         (th_attempts h))
       (SchedulerError ''attempt_scheduler.task_histories''
         (''task '' @ quoted (ts_task_id task) @
          '' formal checks must follow SprintSpec-declared criterion order; migrated legacy order requires immutable ledger exemption authority''))"

text \<open>The loop over tasks and histories, with the sprint state and the marker seen so far.\<close>

fun typed_history_checks ::
  "(string \<Rightarrow> string) \<Rightarrow> sprint_spec \<Rightarrow> sprint_state option \<Rightarrow> unknown_pending option option \<Rightarrow>
   (task_spec \<times> attempt_history) list \<Rightarrow>
   scheduler_error + sprint_state option \<times> unknown_pending option option" where
  "typed_history_checks sha sprint common_state common_pending [] =
     Inr (common_state, common_pending)"
| "typed_history_checks sha sprint common_state common_pending ((task, h) # rest) =
     bind_ok (seq
       [validate_scheduler_formal_order sprint task h,
        map_err from_contract (validate_for_task sha h sprint task),
        ensure (th_budget_classification h \<noteq> OverBudget)
          (SchedulerError ''attempt_scheduler.task_histories''
            (''task '' @ quoted (ts_task_id task) @ '' has immutable over-budget history'')),
        ensure (\<not> list_ex (\<lambda>e. he_legacy_classification e \<noteq> None) (th_attempts h))
          (SchedulerError ''attempt_scheduler.task_histories''
            (''legacy-classified task '' @ quoted (ts_task_id task) @
             '' requires recovery and cannot enter ordinary scheduling'')),
        ensure (common_state = None \<or> common_state = Some (th_sprint_state h))
          (SchedulerError ''attempt_scheduler.task_histories''
            ''all task histories must carry one exact sprint state''),
        ensure (common_pending = None \<or> common_pending = Some (th_unknown_pending h))
          (SchedulerError ''attempt_scheduler.task_histories''
            ''all task histories must carry one exact pending marker'')])
     (\<lambda>_. typed_history_checks sha sprint (Some (th_sprint_state h))
        (Some (th_unknown_pending h)) rest)"

definition resolves_marker :: "unknown_pending \<Rightarrow> attempt_disposition \<Rightarrow> bool" where
  "resolves_marker marker d \<longleftrightarrow>
     is_unknown_d (Some d) \<and>
     ta_attempt_id (dm_attempt (disposition_metadata_of d)) = up_first_attempt_id marker \<and>
     dm_disposition_id (disposition_metadata_of d) = up_first_disposition_id marker"

definition validate_pending_marker_resolution ::
  "unknown_pending \<Rightarrow> attempt_history list \<Rightarrow> scheduler_result" where
  "validate_pending_marker_resolution marker histories =
     ensure (list_ex (resolves_marker marker)
         (List.map_filter he_disposition (concat (map th_attempts histories))))
       (SchedulerError ''attempt_scheduler.unknown_terminalization_pending''
         ''marker must resolve to its exact first unknown attempt and disposition'')"

definition validate_typed_histories ::
  "(string \<Rightarrow> string) \<Rightarrow> attempt_scheduler_input \<Rightarrow> scheduler_error + attempt_history list" where
  "validate_typed_histories sha i =
     bind_ok (ensure (length (tk_task_histories i) = length (tg_tasks (tk_graph i)))
       (SchedulerError ''attempt_scheduler.task_histories''
         ''must contain exactly one history per graph task''))
     (\<lambda>_. bind_ok (typed_history_checks sha (tk_sprint i) None None
         (zip (tg_tasks (tk_graph i)) (tk_task_histories i)))
     (\<lambda>(common_state, common_pending). bind_ok (ok_or common_state
       (SchedulerError ''attempt_scheduler.task_histories''
         ''task graph must contain at least one typed history''))
     (\<lambda>sprint_state. bind_ok (ensure (\<not> sprint_is_terminal sprint_state)
       (SchedulerError ''attempt_scheduler.sprint_state''
         ''terminal sprints cannot produce scheduler proposals''))
     (\<lambda>_. bind_ok (ok_or common_pending
       (SchedulerError ''attempt_scheduler.task_histories''
         ''task graph must contain at least one pending-marker projection''))
     (\<lambda>pending. case pending of
        Some marker \<Rightarrow>
          bind_ok (validate_pending_marker_resolution marker (tk_task_histories i))
          (\<lambda>_. Inl (SchedulerError ''attempt_scheduler.unknown_terminalization_pending''
            ''pending unknown terminalization freezes every scheduler proposal''))
      | None \<Rightarrow> Inr (tk_task_histories i))))))"

text \<open>\<open>collect::<BTreeMap<_, _>>()\<close> keeps the last entry of a key.\<close>

definition typed_states :: "attempt_history list \<Rightarrow> (string \<times> task_state) list" where
  "typed_states histories = rev (map (\<lambda>h. (th_task_id h, th_task_state h)) histories)"

definition validate_typed_dependencies ::
  "attempt_scheduler_input \<Rightarrow> attempt_history list \<Rightarrow> scheduler_result" where
  "validate_typed_dependencies i histories = seq
     (map (\<lambda>t. dependency_state_check ''attempt_scheduler.task_histories''
         (typed_states histories) (ts_task_id t) (ts_dependencies t)) (tg_tasks (tk_graph i)))"

definition typed_active_leases :: "attempt_scheduler_input \<Rightarrow> worker_lease list" where
  "typed_active_leases i =
     List.map_filter (\<lambda>h. map_option (\<lambda>e. ta_worker_lease (he_attempt e)) (active_attempt h))
       (tk_task_histories i)"

fun typed_active_checks :: "worker_lease list \<Rightarrow> worker_lease list \<Rightarrow> scheduler_result" where
  "typed_active_checks earlier [] = Inr ()"
| "typed_active_checks earlier (l # ls) = seq
     [ensure (wl_worker_id l \<notin> set (map wl_worker_id earlier))
        (SchedulerError ''attempt_scheduler.task_histories''
          (''worker '' @ quoted (wl_worker_id l) @ '' has more than one active attempt'')),
      ensure (wl_lease_epoch l \<notin> set (map wl_lease_epoch earlier))
        (SchedulerError ''attempt_scheduler.task_histories''
          (''active lease epoch '' @ show_u64 (wl_lease_epoch l) @ '' is reused'')),
      seq (map (\<lambda>p. ensure (\<not> scope_sets_conflict (wl_path_scopes l) (wl_path_scopes p))
        (SchedulerError ''attempt_scheduler.task_histories''
          (''active attempts '' @ quoted (wl_lease_id p) @ '' and '' @ quoted (wl_lease_id l) @
           '' have conflicting scopes''))) earlier),
      typed_active_checks (earlier @ [l]) ls]"

definition attempt_epochs :: "attempt_scheduler_input \<Rightarrow> u64 list" where
  "attempt_epochs i =
     map (\<lambda>e. wl_lease_epoch (ta_worker_lease (he_attempt e)))
       (concat (map th_attempts (tk_task_histories i)))"

fun epoch_checks :: "u64 \<Rightarrow> u64 set \<Rightarrow> u64 list \<Rightarrow> scheduler_result" where
  "epoch_checks next_epoch all_epochs [] = Inr ()"
| "epoch_checks next_epoch all_epochs (epoch # epochs) = seq
     [ensure (epoch \<notin> all_epochs)
        (SchedulerError ''attempt_scheduler.task_histories''
          (''lease epoch '' @ show_u64 epoch @ '' is reused across attempt histories'')),
      ensure (\<not> epoch \<ge> next_epoch)
        (SchedulerError ''attempt_scheduler.next_lease_epoch''
          (''first unused epoch '' @ show_u64 next_epoch @
           '' must exceed historical lease epoch '' @ show_u64 epoch)),
      epoch_checks next_epoch (insert epoch all_epochs) epochs]"

text \<open>\<open>u64::try_from(index)\<close> followed by \<open>checked_add(1)\<close>.\<close>

definition index_epoch :: "nat \<Rightarrow> u64 option" where
  "index_epoch index = (if Suc index < 2 ^ 64 then Some (of_nat (Suc index)) else None)"

fun contiguous_checks :: "nat \<Rightarrow> u64 list \<Rightarrow> scheduler_result" where
  "contiguous_checks index [] = Inr ()"
| "contiguous_checks index (epoch # epochs) =
     bind_ok (ok_or (index_epoch index)
       (SchedulerError ''attempt_scheduler.task_histories''
         ''attempt count exceeds canonical u64 epoch range''))
     (\<lambda>expected. seq
       [ensure (epoch = expected)
          (SchedulerError ''attempt_scheduler.task_histories''
            (''lease epochs must be globally contiguous; expected '' @ show_u64 expected @
             '', got '' @ show_u64 epoch)),
        contiguous_checks (Suc index) epochs])"

definition validate_typed_active_set ::
  "attempt_scheduler_input \<Rightarrow> worker_lease list \<Rightarrow> scheduler_result" where
  "validate_typed_active_set i active_leases =
     (let all_epochs = set (attempt_epochs i) in
      bind_ok (seq
        [ensure (length active_leases \<le> unat (sp_max_workers (tk_sprint i)))
           (SchedulerError ''attempt_scheduler.task_histories''
             ''active attempt count exceeds the sprint worker ceiling''),
         typed_active_checks [] active_leases,
         epoch_checks (tk_next_lease_epoch i) {} (attempt_epochs i),
         contiguous_checks 0 (sorted_list_of_set all_epochs)])
      (\<lambda>_. bind_ok (ok_or (index_epoch (card all_epochs))
        (SchedulerError ''attempt_scheduler.next_lease_epoch''
          ''attempt count exceeds canonical u64 epoch range''))
      (\<lambda>expected_next. ensure (tk_next_lease_epoch i = expected_next)
        (SchedulerError ''attempt_scheduler.next_lease_epoch''
          (''must be the exact first-unused global epoch '' @ show_u64 expected_next @ '', got '' @
           show_u64 (tk_next_lease_epoch i))))))"

definition validate_external_blockers ::
  "(string \<Rightarrow> string) \<Rightarrow> attempt_scheduler_input \<Rightarrow> scheduler_result" where
  "validate_external_blockers sha i =
     check_external_blockers sha (sp_sprint_id (tk_sprint i))
       ''attempt_scheduler.workspace_blocking_leases''
       ''same-sprint authority must come from typed task histories''
       (tk_workspace_blocking_leases i)"

definition validate_typed_available_workers ::
  "attempt_scheduler_input \<Rightarrow> worker_lease list \<Rightarrow> scheduler_error + string list" where
  "validate_typed_available_workers i active_leases =
     check_available_workers ''attempt_scheduler.available_worker_ids'' active_leases
       (tk_available_worker_ids i)"

definition attempt_eligible ::
  "attempt_scheduler_input \<Rightarrow> task_spec \<times> attempt_history \<Rightarrow> scheduler_error + bool" where
  "attempt_eligible i = (\<lambda>(task, h).
     if th_task_state h \<noteq> T_Ready then Inr False
     else bind_ok (ensure (\<not> length (th_attempts h)
         \<ge> unat (sb_max_attempts_per_task (sp_budget (tk_sprint i))))
       (SchedulerError ''attempt_scheduler.task_histories''
         (''Ready task '' @ quoted (ts_task_id task) @
          '' is already at the immutable attempt limit'')))
     (\<lambda>_. Inr True))"

definition attempt_blocked ::
  "attempt_scheduler_input \<Rightarrow> task_spec \<times> attempt_history \<Rightarrow> worker_lease list \<Rightarrow> bool" where
  "attempt_blocked i = (\<lambda>(task, h) leases.
     conflicts_with_existing (ts_path_scopes task) (typed_active_leases i) leases \<or>
     conflicts_with_existing (ts_path_scopes task) (tk_workspace_blocking_leases i) [])"

definition attempt_lease ::
  "(string \<Rightarrow> string) \<Rightarrow> attempt_scheduler_input \<Rightarrow> task_spec \<times> attempt_history \<Rightarrow> string \<Rightarrow> u64 \<Rightarrow>
   scheduler_error + worker_lease" where
  "attempt_lease sha i = (\<lambda>(task, h).
     propose_lease sha (sp_sprint_id (tk_sprint i)) (tk_acquired_at_unix_ms i)
       (ts_task_id task) (ts_path_scopes task))"

definition plan_task_attempts ::
  "(string \<Rightarrow> string) \<Rightarrow> attempt_scheduler_input \<Rightarrow> scheduler_error + schedule_plan" where
  "plan_task_attempts sha i =
     bind_ok (seq
       [map_err from_contract (validate_for_sprint (tk_graph i) (tk_sprint i)),
        validate_attempt_scalars i])
     (\<lambda>_. bind_ok (validate_typed_histories sha i)
     (\<lambda>histories. bind_ok (validate_typed_dependencies i histories)
     (\<lambda>_. let active_leases = typed_active_leases i in
      bind_ok (seq
        [validate_typed_active_set i active_leases,
         validate_external_blockers sha i])
     (\<lambda>_. bind_ok (validate_typed_available_workers i active_leases)
     (\<lambda>available_workers. bind_ok (ok_or
         (remaining_capacity (sp_max_workers (tk_sprint i)) active_leases)
         (SchedulerError ''attempt_scheduler.task_histories''
           ''active attempt count exceeds the sprint worker ceiling''))
     (\<lambda>remaining. propose (attempt_eligible i) (attempt_blocked i) (attempt_lease sha i)
         (SchedulerError ''attempt_scheduler.next_lease_epoch''
           ''assigning an attempt would overflow the durable lease epoch'')
         available_workers (min remaining (length available_workers)) []
         (tk_next_lease_epoch i) (zip (tg_tasks (tk_graph i)) histories)))))))"

end
