(* ===== verification/Attempt_Plan.thy ===== *)
theory Attempt_Plan
  imports Attempt_Scheduler
begin

text \<open>
  What \<open>plan_task_attempts\<close> guarantees: it interprets the shared planning loop with its own
  eligibility test, so exclusion and fresh epochs come from the locale; the budget and the
  exactness of the typed states come from the histories.
\<close>

section \<open>Acceptance of the checks\<close>

interpretation v15: lease_planner "attempt_eligible i" "attempt_blocked i" "attempt_lease sha i"
  "\<lambda>p. ts_task_id (fst p)" "\<lambda>p. ts_path_scopes (fst p)"
  "typed_active_leases i @ tk_workspace_blocking_leases i" for sha i
  by unfold_locales
    (auto simp: attempt_lease_def attempt_blocked_def conflicts_with_existing_iff
      dest: propose_lease_fields)

definition history_admitted ::
  "(string \<Rightarrow> string) \<Rightarrow> sprint_spec \<Rightarrow> task_spec \<times> attempt_history \<Rightarrow> bool" where
  "history_admitted sha sprint = (\<lambda>(task, h).
     validate_for_task sha h sprint task = Inr () \<and> th_budget_classification h = WithinBudget \<and>
     (\<forall>e\<in>set (th_attempts h). he_legacy_classification e = None))"

lemma not_OverBudget: "c \<noteq> OverBudget \<longleftrightarrow> c = WithinBudget"
  by (cases c) auto

lemma typed_history_checks_ok:
  assumes "typed_history_checks sha sprint cs cp ps = Inr (cs', cp')"
  shows "(\<forall>p\<in>set ps. history_admitted sha sprint p \<and> cs' = Some (th_sprint_state (snd p)) \<and>
      cp' = Some (th_unknown_pending (snd p))) \<and>
    (cs \<noteq> None \<longrightarrow> cs' = cs) \<and> (cp \<noteq> None \<longrightarrow> cp' = cp)"
  using assms
proof (induction ps arbitrary: cs cp)
  case (Cons p ps)
  obtain task h where p: "p = (task, h)" by (cases p)
  from Cons.prems have here: "history_admitted sha sprint p"
    "cs = None \<or> cs = Some (th_sprint_state h)" "cp = None \<or> cp = Some (th_unknown_pending h)"
    and rest: "typed_history_checks sha sprint (Some (th_sprint_state h))
      (Some (th_unknown_pending h)) ps = Inr (cs', cp')"
    by (auto simp: p history_admitted_def not_OverBudget list_ex_iff)
  with Cons.IH [OF rest] show ?case by (auto simp: p)
qed simp

lemma typed_active_checks_ok:
  assumes "typed_active_checks earlier ls = Inr ()"
  shows "pairwise_disjoint ls \<and> distinct (map wl_worker_id ls) \<and>
    wl_worker_id ` set ls \<inter> wl_worker_id ` set earlier = {} \<and>
    (\<forall>l\<in>set ls. \<forall>p\<in>set earlier. \<not> scope_sets_conflict (wl_path_scopes p) (wl_path_scopes l))"
  using assms
proof (induction ls arbitrary: earlier)
  case (Cons l ls)
  from Cons.prems have rest: "typed_active_checks (earlier @ [l]) ls = Inr ()"
    and "wl_worker_id l \<notin> wl_worker_id ` set earlier"
    and "\<forall>p\<in>set earlier. \<not> scope_sets_conflict (wl_path_scopes p) (wl_path_scopes l)"
    by (auto simp: seq_map_ok scope_sets_conflict_sym)
  with Cons.IH [OF rest] show ?case by (auto simp: pairwise_disjoint_def)
qed simp

lemma epoch_checks_ok:
  "epoch_checks next_epoch seen es = Inr u \<longleftrightarrow>
     distinct es \<and> set es \<inter> seen = {} \<and> (\<forall>e\<in>set es. e < next_epoch)"
  by (induction es arbitrary: seen) (auto simp: not_le)

lemma index_epoch_Some: "index_epoch k = Some e \<Longrightarrow> unat e = Suc k"
  by (auto simp: index_epoch_def unat_of_nat simp del: of_nat_Suc split: if_splits)

lemma contiguous_checks_ok:
  "contiguous_checks k es = Inr () \<Longrightarrow> map unat es = [Suc k..<Suc (k + length es)]"
proof (induction es arbitrary: k)
  case (Cons e es)
  from Cons.prems have "index_epoch k = Some e" and rest: "contiguous_checks (Suc k) es = Inr ()"
    by (auto simp: bind_ok_Inr)
  then have "unat e = Suc k" using index_epoch_Some by blast
  with Cons.IH [OF rest] show ?case by (simp add: upt_conv_Cons del: upt_Suc)
qed simp

text \<open>The epochs of all attempts are exactly the numbers below the next epoch.\<close>

lemma active_set_epochs:
  assumes "validate_typed_active_set i active = Inr ()"
  shows "distinct (attempt_epochs i)"
    and "unat ` set (attempt_epochs i) = {1..length (attempt_epochs i)}"
    and "unat (tk_next_lease_epoch i) = Suc (length (attempt_epochs i))"
proof -
  from assms have d: "distinct (attempt_epochs i)"
    and c: "contiguous_checks 0 (sorted_list_of_set (set (attempt_epochs i))) = Inr ()"
    and n: "index_epoch (card (set (attempt_epochs i))) = Some (tk_next_lease_epoch i)"
    by (auto simp: validate_typed_active_set_def Let_def bind_ok_Inr epoch_checks_ok)
  show "distinct (attempt_epochs i)" by (rule d)
  show "unat (tk_next_lease_epoch i) = Suc (length (attempt_epochs i))"
    using index_epoch_Some [OF n] d by (simp add: distinct_card)
  have "map unat (sorted_list_of_set (set (attempt_epochs i))) = [1..<Suc (length (attempt_epochs i))]"
    using contiguous_checks_ok [OF c] d by (simp add: distinct_card)
  from arg_cong [OF this, of set]
  show "unat ` set (attempt_epochs i) = {1..length (attempt_epochs i)}"
    by (simp add: atLeastLessThanSuc_atLeastAtMost del: upt_Suc)
qed

section \<open>What an accepted plan guarantees\<close>

definition attempt_capacity :: "attempt_scheduler_input \<Rightarrow> nat" where
  "attempt_capacity i =
     min (unat (sp_max_workers (tk_sprint i)) - length (typed_active_leases i))
       (length (tk_available_worker_ids i))"

definition task_pairs :: "attempt_scheduler_input \<Rightarrow> (task_spec \<times> attempt_history) list" where
  "task_pairs i = zip (tg_tasks (tk_graph i)) (tk_task_histories i)"

lemma validate_typed_historiesD:
  assumes "validate_typed_histories sha i = Inr hs"
  shows "hs = tk_task_histories i" "length (tk_task_histories i) = length (tg_tasks (tk_graph i))"
    and "\<forall>p\<in>set (task_pairs i). history_admitted sha (tk_sprint i) p \<and>
      \<not> sprint_is_terminal (th_sprint_state (snd p)) \<and> th_unknown_pending (snd p) = None"
proof -
  from assms obtain state pending where
      ok: "typed_history_checks sha (tk_sprint i) None None (task_pairs i) = Inr (Some state, Some pending)"
    and "\<not> sprint_is_terminal state" "pending = None" "hs = tk_task_histories i"
      "length (tk_task_histories i) = length (tg_tasks (tk_graph i))"
    unfolding validate_typed_histories_def task_pairs_def
    by (auto simp: bind_ok_Inr simp del: bind_ok_unit_Inr split: option.splits)
  with typed_history_checks_ok [OF ok]
  show "hs = tk_task_histories i" "length (tk_task_histories i) = length (tg_tasks (tk_graph i))"
    "\<forall>p\<in>set (task_pairs i). history_admitted sha (tk_sprint i) p \<and>
      \<not> sprint_is_terminal (th_sprint_state (snd p)) \<and> th_unknown_pending (snd p) = None"
    by auto
qed

lemma plan_task_attemptsD:
  assumes "plan_task_attempts sha i = Inr plan"
  shows "graph_spec (tk_graph i) (tk_sprint i)"
    and "validate_typed_histories sha i = Inr (tk_task_histories i)"
    and "validate_typed_dependencies i (tk_task_histories i) = Inr ()"
    and "validate_typed_active_set i (typed_active_leases i) = Inr ()"
    and "validate_external_blockers sha i = Inr ()"
    and "check_available_workers ''attempt_scheduler.available_worker_ids'' (typed_active_leases i)
      (tk_available_worker_ids i) = Inr (sort (tk_available_worker_ids i))"
    and "length (typed_active_leases i) \<le> unat (sp_max_workers (tk_sprint i))"
    and "propose (attempt_eligible i) (attempt_blocked i) (attempt_lease sha i)
      (SchedulerError ''attempt_scheduler.next_lease_epoch''
         ''assigning an attempt would overflow the durable lease epoch'')
      (sort (tk_available_worker_ids i)) (attempt_capacity i) [] (tk_next_lease_epoch i)
      (task_pairs i) = Inr plan"
    and "tk_acquired_at_unix_ms i \<noteq> 0"
proof -
  from assms obtain hs where hs: "validate_typed_histories sha i = Inr hs"
    by (auto simp: plan_task_attempts_def bind_ok_Inr)
  with validate_typed_historiesD(1) [OF hs] have hs: "validate_typed_histories sha i = Inr (tk_task_histories i)"
    by simp
  then show "validate_typed_histories sha i = Inr (tk_task_histories i)" .
  from assms show "graph_spec (tk_graph i) (tk_sprint i)"
    "validate_typed_dependencies i (tk_task_histories i) = Inr ()"
    "validate_typed_active_set i (typed_active_leases i) = Inr ()"
    "validate_external_blockers sha i = Inr ()"
    "check_available_workers ''attempt_scheduler.available_worker_ids'' (typed_active_leases i)
      (tk_available_worker_ids i) = Inr (sort (tk_available_worker_ids i))"
    "length (typed_active_leases i) \<le> unat (sp_max_workers (tk_sprint i))"
    "propose (attempt_eligible i) (attempt_blocked i) (attempt_lease sha i)
      (SchedulerError ''attempt_scheduler.next_lease_epoch''
         ''assigning an attempt would overflow the durable lease epoch'')
      (sort (tk_available_worker_ids i)) (attempt_capacity i) [] (tk_next_lease_epoch i)
      (task_pairs i) = Inr plan"
    "tk_acquired_at_unix_ms i \<noteq> 0"
    by (auto simp: plan_task_attempts_def validated_graph_iff hs Let_def
        validate_typed_available_workers_def check_available_workers_ok bind_ok_Inr
        remaining_capacity_Some attempt_capacity_def task_pairs_def validate_attempt_scalars_def)
qed

lemma attempt_plan_is_sound:
  assumes "plan_task_attempts sha i = Inr plan"
  shows "plan_sound (typed_active_leases i @ tk_workspace_blocking_leases i)
    (sort (tk_available_worker_ids i)) (attempt_capacity i) (tk_next_lease_epoch i)
    (pl_leases plan) (pl_next_lease_epoch plan)"
  by (rule v15.propose_sound [OF plan_task_attemptsD(8) [OF assms] v15.sound_Nil])
    (simp add: attempt_capacity_def)

text \<open>
  The leases of an accepted attempt plan and the active attempts of the histories exclude each
  other: no two have conflicting scopes, none conflicts with a lease of another sprint, no worker
  holds two, and there are at most \<open>max_workers\<close> of them. The active leases are read off the typed
  histories, not given by the caller.
\<close>

theorem attempt_plan_excludes:
  assumes "plan_task_attempts sha i = Inr plan"
  shows "pairwise_disjoint (typed_active_leases i @ pl_leases plan) \<and>
    (\<forall>l\<in>set (pl_leases plan). \<forall>b\<in>set (tk_workspace_blocking_leases i).
      \<not> scope_sets_conflict (wl_path_scopes l) (wl_path_scopes b)) \<and>
    distinct (map wl_worker_id (typed_active_leases i @ pl_leases plan)) \<and>
    length (typed_active_leases i @ pl_leases plan) \<le> unat (sp_max_workers (tk_sprint i))"
proof -
  note D = plan_task_attemptsD [OF assms]
  have "typed_active_checks [] (typed_active_leases i) = Inr ()"
    using D(4) by (simp add: validate_typed_active_set_def Let_def)
  note A = typed_active_checks_ok [OF this]
  have "length (typed_active_leases i) + attempt_capacity i \<le> unat (sp_max_workers (tk_sprint i))"
    using D(7) by (simp add: attempt_capacity_def)
  from plan_sound_exclusive [OF attempt_plan_is_sound [OF assms] _ _ _ _ this] A D(6)
  show ?thesis by (simp add: check_available_workers_ok)
qed

text \<open>
  C27. Lease epochs number the attempts of a sprint: across all histories and the proposals of an
  accepted plan no epoch occurs twice, the epochs are exactly one to the number of attempts, and
  the plan's next epoch is the number after them.
\<close>

theorem attempt_epochs_are_counted:
  assumes "plan_task_attempts sha i = Inr plan"
  shows "distinct (attempt_epochs i @ map wl_lease_epoch (pl_leases plan)) \<and>
    unat ` set (attempt_epochs i @ map wl_lease_epoch (pl_leases plan))
      = {1..length (attempt_epochs i) + length (pl_leases plan)} \<and>
    unat (pl_next_lease_epoch plan) = Suc (length (attempt_epochs i) + length (pl_leases plan))"
proof -
  note E = active_set_epochs [OF plan_task_attemptsD(4) [OF assms]]
  note S = attempt_plan_is_sound [OF assms]
  let ?n = "length (attempt_epochs i)" and ?k = "length (pl_leases plan)"
  define new where "new = map wl_lease_epoch (pl_leases plan)"
  have upt: "map unat new = [Suc ?n..<Suc (?n + ?k)]"
    and next_epoch: "unat (pl_next_lease_epoch plan) = Suc (?n + ?k)"
    using S E(3) by (auto simp: plan_sound_def comp_def new_def)
  have "set (map unat new) = {Suc ?n..?n + ?k}"
    unfolding upt by (simp add: atLeastLessThanSuc_atLeastAtMost del: upt_Suc)
  then have set_new: "unat ` set new = {Suc ?n..?n + ?k}"
    by (simp only: set_map)
  have "distinct (map unat new)"
    unfolding upt by (rule distinct_upt)
  then have "distinct new" by (simp add: distinct_map)
  moreover have "unat ` (set (attempt_epochs i) \<inter> set new) \<subseteq> {}"
    using image_Int_subset [of unat "set (attempt_epochs i)" "set new"] E(2) set_new by force
  ultimately have "distinct (attempt_epochs i @ new)"
    using E(1) by auto
  moreover have "unat ` set (attempt_epochs i @ new) = {1..?n + ?k}"
    using E(2) set_new by (auto simp: image_Un)
  ultimately show ?thesis
    using next_epoch by (simp only: new_def simp_thms)
qed

lemma typed_state_of:
  assumes "map_of (typed_states hs) d = Some s"
  shows "\<exists>h\<in>set hs. th_task_id h = d \<and> th_task_state h = s"
proof -
  have "(d, s) \<in> set (typed_states hs)" using assms by (rule map_of_SomeD)
  then show ?thesis by (auto simp: typed_states_def)
qed

text \<open>The histories are keyed by the distinct task ids of the graph, so lookups are exact.\<close>

lemma typed_state_exact:
  assumes "plan_task_attempts sha i = Inr plan" "(task, h) \<in> set (task_pairs i)"
  shows "map_of (typed_states (tk_task_histories i)) (ts_task_id task) = Some (th_task_state h)"
proof -
  note D = plan_task_attemptsD [OF assms(1)]
  note V = validate_typed_historiesD [OF D(2)]
  have ids: "map th_task_id (tk_task_histories i) = map ts_task_id (tg_tasks (tk_graph i))"
  proof (rule nth_equalityI)
    show "map th_task_id (tk_task_histories i) ! k = map ts_task_id (tg_tasks (tk_graph i)) ! k"
      if k: "k < length (map th_task_id (tk_task_histories i))" for k
    proof -
      have "(tg_tasks (tk_graph i) ! k, tk_task_histories i ! k) \<in> set (task_pairs i)"
        using k V(2) by (auto simp: task_pairs_def in_set_zip)
      then have "history_admitted sha (tk_sprint i) (tg_tasks (tk_graph i) ! k, tk_task_histories i ! k)"
        using V(3) by blast
      then show ?thesis using k V(2) validate_for_taskD(2) by (auto simp: history_admitted_def)
    qed
  qed (simp add: V(2))
  have "distinct (map ts_task_id (tg_tasks (tk_graph i)))"
    using D(1) by (simp add: graph_spec_def task_ids_def)
  then have "distinct (map fst (typed_states (tk_task_histories i)))"
    by (simp add: typed_states_def comp_def rev_map [symmetric] ids)
  moreover have "h \<in> set (tk_task_histories i)" "th_task_id h = ts_task_id task"
    using assms(2) V(3) validate_for_taskD(2)
    by (force simp: task_pairs_def history_admitted_def dest: set_zip_rightD)+
  then have "(ts_task_id task, th_task_state h) \<in> set (typed_states (tk_task_histories i))"
    by (force simp: typed_states_def)
  ultimately show ?thesis by (rule map_of_is_SomeI)
qed

lemma ready_history:
  assumes "validate_for_task sha h sprint task = Inr ()" "th_task_state h = T_Ready"
    and "\<forall>e\<in>set (th_attempts h). he_legacy_classification e = None"
  shows "\<forall>e\<in>set (th_attempts h). is_retryable_d (he_disposition e) \<and> \<not> lease_is_active (he_lease_state e)"
    and "active_attempt h = None"
proof -
  note P = phase_shapeD [OF validate_for_taskD(7) [OF assms(1)]]
  show all: "\<forall>e\<in>set (th_attempts h). is_retryable_d (he_disposition e) \<and> \<not> lease_is_active (he_lease_state e)"
  proof (cases "th_attempts h" rule: rev_cases)
    case (snoc es l)
    then have latest: "latest_attempt h = Some l" by (simp add: latest_attempt_def)
    have "validate_ready_history h = Inr ()"
      using P(4) [OF latest] assms(2,3) by (simp add: snoc validate_state_shape_def Let_def)
    then have "is_retryable_d (he_disposition l)" "\<forall>e\<in>set (th_attempts h). \<not> lease_is_active (he_lease_state e)"
      by (auto simp: validate_ready_history_def latest list_ex_iff)
    then show ?thesis
      using earlier_attempts(1) [OF assms(1)] assms(3) by (auto simp: snoc)
  qed simp
  then show "active_attempt h = None"
    by (auto simp: active_attempt_def find_None_iff)
qed

lemma planned_pair:
  assumes "plan_task_attempts sha i = Inr plan" "l \<in> set (pl_leases plan)"
  shows "\<exists>task h. (task, h) \<in> set (task_pairs i) \<and>
    ts_task_id task = wl_task_id l \<and> ts_path_scopes task = wl_path_scopes l \<and>
    validate_worker_lease sha l = Inr () \<and> wl_sprint_id l = sp_sprint_id (tk_sprint i) \<and>
    wl_acquired_at_unix_ms l = tk_acquired_at_unix_ms i \<and> th_task_state h = T_Ready \<and>
    length (th_attempts h) < unat (sb_max_attempts_per_task (sp_budget (tk_sprint i)))"
proof -
  note D = plan_task_attemptsD [OF assms(1)]
  from v15.propose_subseq [OF D(8)] obtain picked where
    p: "subseq picked (task_pairs i)"
    and e: "\<forall>t\<in>set picked. attempt_eligible i t = Inr True"
    and m: "\<forall>l\<in>set (pl_leases plan). \<exists>t\<in>set picked.
      attempt_lease sha i t (wl_worker_id l) (wl_lease_epoch l) = Inr l"
    by auto
  from m assms(2) obtain task h where t: "(task, h) \<in> set picked"
    and l: "propose_lease sha (sp_sprint_id (tk_sprint i)) (tk_acquired_at_unix_ms i)
      (ts_task_id task) (ts_path_scopes task) (wl_worker_id l) (wl_lease_epoch l) = Inr l"
    by (force simp: attempt_lease_def)
  from p t have "(task, h) \<in> set (task_pairs i)"
    using subseq_set_subset by blast
  moreover from e t have "th_task_state h = T_Ready"
    "length (th_attempts h) < unat (sb_max_attempts_per_task (sp_budget (tk_sprint i)))"
    by (auto simp: attempt_eligible_def bind_ok_Inr not_le split: if_splits dest!: bspec)
  ultimately show ?thesis
    using propose_lease_fields [OF l] by (intro exI [of _ task] exI [of _ h]) simp
qed

text \<open>
  C30. Every lease of an accepted attempt plan goes to a \<open>Ready\<close> task with an attempt left: its
  history has no active lease and fewer attempts than the budget, all its dependencies are
  \<open>Integrated\<close>, the sprint is neither terminal nor frozen by a pending marker, and the lease is a
  valid assignment of exactly the task's scopes.
\<close>

theorem attempt_plan_respects_budget:
  assumes "plan_task_attempts sha i = Inr plan" "l \<in> set (pl_leases plan)"
  shows "\<exists>(task, h)\<in>set (task_pairs i).
    ts_task_id task = wl_task_id l \<and> ts_path_scopes task = wl_path_scopes l \<and>
    validate_assignment sha l (sp_sprint_id (tk_sprint i)) (ts_task_id task) (wl_worker_id l) = Inr () \<and>
    th_task_state h = T_Ready \<and> active_attempt h = None \<and>
    length (th_attempts h) < unat (sb_max_attempts_per_task (sp_budget (tk_sprint i))) \<and>
    th_unknown_pending h = None \<and> \<not> sprint_is_terminal (th_sprint_state h) \<and>
    (\<forall>d\<in>set (ts_dependencies task). \<exists>g\<in>set (tk_task_histories i).
       th_task_id g = d \<and> th_task_state g = T_Integrated)"
proof -
  note D = plan_task_attemptsD [OF assms(1)]
  note V = validate_typed_historiesD [OF D(2)]
  from planned_pair [OF assms] obtain task h where mem: "(task, h) \<in> set (task_pairs i)"
    and F: "ts_task_id task = wl_task_id l" "ts_path_scopes task = wl_path_scopes l"
      "validate_worker_lease sha l = Inr ()" "wl_sprint_id l = sp_sprint_id (tk_sprint i)"
    and ready: "th_task_state h = T_Ready"
    and room: "length (th_attempts h) < unat (sb_max_attempts_per_task (sp_budget (tk_sprint i)))"
    by blast
  have ok: "history_admitted sha (tk_sprint i) (task, h)" "\<not> sprint_is_terminal (th_sprint_state h)"
    "th_unknown_pending h = None"
    using V(3) mem by auto
  then have idle: "active_attempt h = None"
    using ready_history(2) ready by (auto simp: history_admitted_def)
  have "task \<in> set (tg_tasks (tk_graph i))"
    using mem by (auto simp: task_pairs_def dest: set_zip_leftD)
  then have "dependency_state_check ''attempt_scheduler.task_histories''
      (typed_states (tk_task_histories i)) (ts_task_id task) (ts_dependencies task) = Inr ()"
    using D(3) by (simp add: validate_typed_dependencies_def seq_map_ok)
  then have "\<forall>d\<in>set (ts_dependencies task).
      map_of (typed_states (tk_task_histories i)) d = Some T_Integrated"
    using typed_state_exact [OF assms(1) mem] ready
    by (simp add: dependency_state_check_ok state_of_def execution_bearing_def)
  then have "\<forall>d\<in>set (ts_dependencies task). \<exists>g\<in>set (tk_task_histories i).
       th_task_id g = d \<and> th_task_state g = T_Integrated"
    using typed_state_of by blast
  moreover from F have "validate_assignment sha l (sp_sprint_id (tk_sprint i)) (ts_task_id task)
      (wl_worker_id l) = Inr ()"
    by (simp add: validate_assignment_def)
  ultimately show ?thesis
    using mem F ready room ok idle by (intro bexI [of _ "(task, h)"]) auto
qed

end
