(* ===== verification/Attempt_Opening.thy ===== *)
theory Attempt_Opening
  imports Attempt_Plan
begin

text \<open>
  The step after planning: the history of a task with the proposed attempt opened in it is again
  an accepted history.
\<close>

section \<open>Opening a proposed attempt\<close>

definition opened_entry :: "task_attempt \<Rightarrow> history_entry" where
  "opened_entry a =
     \<lparr>he_attempt = a, he_running_boundary = None, he_verification_boundary = None,
      he_formal_checks = [], he_candidate_boundary = None, he_disposition = None,
      he_legacy_classification = None, he_lease_state = LeaseActive\<rparr>"

definition opened_history :: "attempt_history \<Rightarrow> task_attempt \<Rightarrow> attempt_history" where
  "opened_history h a =
     h\<lparr>th_task_state := T_Leased, th_attempts := th_attempts h @ [opened_entry a]\<rparr>"

lemma opened_entry_valid:
  assumes "validate_task_attempt sha a = Inr ()"
  shows "validate_history_entry sha mx (opened_entry a) = Inr ()"
    and "validate_formal_check_bijection (opened_entry a) sprint task = Inr ()"
    and "validate_disposed_attempt_phase (opened_entry a) = Inr ()"
    and "validate_open_attempt_phase (opened_entry a) T_Leased = Inr ()"
  using assms
  by (simp_all add: validate_history_entry_def opened_entry_def validate_lease_state_def
      check_running_def check_verification_def validate_legacy_lease_shape_def
      validate_disposition_lease_shape_def validate_formal_check_bijection_def Let_def
      validate_disposed_attempt_phase_def validate_open_attempt_phase_def)

lemma attempt_checks_cong:
  assumes "th_sprint_id h' = th_sprint_id h" "th_task_id h' = th_task_id h"
  shows "attempt_checks sha h' sprint task n p es = attempt_checks sha h sprint task n p es"
  using assms
  by (induction es arbitrary: n p) (simp_all cong del: ensure_cong)

lemma attempt_checks_snoc:
  assumes "attempt_checks sha h sprint task n p es = Inr ()"
    and "entry_fits sha h sprint task e" "Suc (n + length es) < 2 ^ 32"
    and "ta_attempt_ordinal (he_attempt e) = of_nat (Suc (n + length es))"
    and "\<forall>q. p = Some q \<longrightarrow> q < wl_lease_epoch (ta_worker_lease (he_attempt e))"
    and "\<forall>f\<in>set es. wl_lease_epoch (ta_worker_lease (he_attempt f))
      < wl_lease_epoch (ta_worker_lease (he_attempt e))"
  shows "attempt_checks sha h sprint task n p (es @ [e]) = Inr ()"
  using assms
proof (induction es arbitrary: n p)
  case Nil
  then show ?case
    by (simp add: Let_def entry_fitsD not_le split: option.split del: of_nat_Suc)
next
  case (Cons f es)
  let ?l = "ta_worker_lease (he_attempt f)"
  from Cons.prems(1) have rest: "attempt_checks sha h sprint task (Suc n)
      (Some (wl_lease_epoch ?l)) es = Inr ()"
    by (simp add: Let_def)
  have "attempt_checks sha h sprint task (Suc n) (Some (wl_lease_epoch ?l)) (es @ [e]) = Inr ()"
    by (rule Cons.IH [OF rest Cons.prems(2)]) (use Cons.prems(3-6) in simp_all)
  with Cons.prems(1) show ?case by (simp add: Let_def)
qed

lemma opened_history_phases:
  assumes "validate_for_task sha h sprint task = Inr ()" "th_task_state h = T_Ready"
    and "\<forall>e\<in>set (th_attempts h). he_legacy_classification e = None"
    and "validate_task_attempt sha a = Inr ()"
  shows "validate_history_phase_shape (opened_history h a) sprint task = Inr ()"
proof -
  note R = ready_history [OF assms(1-3)]
  note P = phase_shapeD [OF validate_for_taskD(7) [OF assms(1)]]
  have idle: "filter (\<lambda>e. lease_is_active (he_lease_state e)) (th_attempts h) = []"
    using R(1) by (simp add: filter_empty_conv)
  have latest: "latest_attempt (opened_history h a) = Some (opened_entry a)"
    by (simp add: latest_attempt_def opened_history_def)
  have "validate_state_shape (opened_history h a) = Inr ()"
    using latest opened_entry_valid(4) [OF assms(4)]
    by (simp add: validate_state_shape_def Let_def is_attempted_task_phase_def)
      (simp add: opened_history_def opened_entry_def)
  moreover have "he_legacy_classification (opened_entry a) = None"
    by (simp add: opened_entry_def)
  ultimately show ?thesis
    using idle R(1) P(3) opened_entry_valid(2,3) [OF assms(4)] latest
    by (simp add: validate_history_phase_shape_def seq_map_ok seq_append_ok active_entries_def
        opened_history_def earlier_attempt_closed_def Let_def)
qed

text \<open>An attempt opened on a lease with a fresh epoch extends an accepted history.\<close>

lemma opened_history_accepted:
  assumes h: "validate_for_task sha h sprint task = Inr ()" "th_task_state h = T_Ready"
    "\<forall>e\<in>set (th_attempts h). he_legacy_classification e = None"
    and room: "length (th_attempts h) < unat (sb_max_attempts_per_task (sp_budget sprint))"
    and a: "validate_task_attempt sha a = Inr ()"
    "ta_attempt_ordinal a = of_nat (Suc (length (th_attempts h)))"
    and lease: "wl_sprint_id (ta_worker_lease a) = sp_sprint_id sprint"
    "wl_task_id (ta_worker_lease a) = ts_task_id task"
    "wl_path_scopes (ta_worker_lease a) = ts_path_scopes task"
    and fresh: "\<forall>e\<in>set (th_attempts h).
      wl_lease_epoch (ta_worker_lease (he_attempt e)) < wl_lease_epoch (ta_worker_lease a)"
  shows "validate_for_task sha (opened_history h a) sprint task = Inr ()"
proof -
  let ?h = "opened_history h a"
  have same: "th_sprint_id ?h = th_sprint_id h" "th_task_id ?h = th_task_id h"
    "th_contract_version ?h = th_contract_version h" "th_unknown_pending ?h = th_unknown_pending h"
    "th_sprint_state ?h = th_sprint_state h"
    "th_budget_classification ?h = th_budget_classification h"
    "th_attempts ?h = th_attempts h @ [opened_entry a]"
    by (simp_all add: opened_history_def)
  have attempt: "he_attempt (opened_entry a) = a"
    by (simp add: opened_entry_def)
  have "unat (sb_max_attempts_per_task (sp_budget sprint)) < 256"
    using unsigned_less [of "sb_max_attempts_per_task (sp_budget sprint)", where 'a = nat] by simp
  with room have small: "Suc (0 + length (th_attempts h)) < 2 ^ 32" by simp
  have fits: "entry_fits sha h sprint task (opened_entry a)"
    using opened_entry_valid(1) [OF a(1)] lease validate_for_taskD(1,2) [OF h(1)]
    by (simp add: entry_fits_def attempt)
  have "attempt_checks sha h sprint task 0 None (th_attempts h @ [opened_entry a]) = Inr ()"
    by (rule attempt_checks_snoc [OF _ fits small])
      (use h(1) a(2) fresh in \<open>simp_all add: validate_for_task_def attempt\<close>)
  then have "attempt_checks sha ?h sprint task 0 None (th_attempts ?h) = Inr ()"
    using attempt_checks_cong [OF same(1,2)] by (simp add: same(7))
  moreover have "expected_budget_class ?h sprint = expected_budget_class h sprint"
    using room by (simp add: expected_budget_class_def same(7))
  ultimately show ?thesis
    using h(1) opened_history_phases [OF h a(1)]
    by (cases "th_unknown_pending h")
      (simp_all add: validate_for_task_def same(1-6) cong del: ensure_cong)
qed

lemma task_pairs_unique:
  assumes "plan_task_attempts sha i = Inr plan"
    and "(t1, h1) \<in> set (task_pairs i)" "(t2, h2) \<in> set (task_pairs i)"
    and "ts_task_id t1 = ts_task_id t2"
  shows "t1 = t2 \<and> h1 = h2"
proof -
  have "map (\<lambda>p. ts_task_id (fst p)) (task_pairs i) = map ts_task_id (tg_tasks (tk_graph i))"
    using validate_typed_historiesD(2) [OF plan_task_attemptsD(2) [OF assms(1)]]
    by (simp add: task_pairs_def map_fst_zip flip: map_map [of ts_task_id fst, unfolded comp_def])
  then have "inj_on (\<lambda>p. ts_task_id (fst p)) (set (task_pairs i))"
    using plan_task_attemptsD(1) [OF assms(1)]
    by (metis distinct_map graph_spec_def task_ids_def)
  from inj_onD [OF this _ assms(2,3)] assms(4) show ?thesis by simp
qed

lemma proposed_epoch_is_fresh:
  assumes "plan_task_attempts sha i = Inr plan" "l \<in> set (pl_leases plan)"
    and "(task, h) \<in> set (task_pairs i)" "e \<in> set (th_attempts h)"
  shows "wl_lease_epoch (ta_worker_lease (he_attempt e)) < wl_lease_epoch l"
proof -
  have "wl_lease_epoch (ta_worker_lease (he_attempt e)) \<in> set (attempt_epochs i)"
    using assms(3,4) by (force simp: attempt_epochs_def task_pairs_def dest: set_zip_rightD)
  then have "unat (wl_lease_epoch (ta_worker_lease (he_attempt e))) \<in> unat ` set (attempt_epochs i)"
    by (rule imageI)
  then have "unat (wl_lease_epoch (ta_worker_lease (he_attempt e))) < unat (tk_next_lease_epoch i)"
    unfolding active_set_epochs(2,3) [OF plan_task_attemptsD(4) [OF assms(1)]] by simp
  moreover have "unat (wl_lease_epoch l) \<in> set (map (unat \<circ> wl_lease_epoch) (pl_leases plan))"
    using assms(2) by auto
  then have "unat (tk_next_lease_epoch i) \<le> unat (wl_lease_epoch l)"
    using attempt_plan_is_sound [OF assms(1)] unfolding plan_sound_def
    by (metis atLeastLessThan_iff set_upt)
  ultimately show ?thesis by (simp add: word_less_nat_alt)
qed

text \<open>
  C26. Planner and attempt contract fit together: an attempt opened on a proposed lease, with the
  next ordinal, is a valid attempt, and the history that records it in state \<open>Leased\<close> is accepted
  again.
\<close>

theorem proposed_attempt_opens:
  assumes "plan_task_attempts sha i = Inr plan" "l \<in> set (pl_leases plan)"
    and "(task, h) \<in> set (task_pairs i)" "ts_task_id task = wl_task_id l"
    and "attempt_id_ok event"
  shows "\<exists>a. task_attempt_new sha l (of_nat (Suc (length (th_attempts h)))) event = Inr a \<and>
    validate_for_task sha (opened_history h a) (tk_sprint i) task = Inr ()"
proof -
  from planned_pair [OF assms(1,2)] obtain task' h' where
    p: "(task', h') \<in> set (task_pairs i)" "ts_task_id task' = wl_task_id l"
    "ts_path_scopes task' = wl_path_scopes l" "validate_worker_lease sha l = Inr ()"
    "wl_sprint_id l = sp_sprint_id (tk_sprint i)" "wl_acquired_at_unix_ms l = tk_acquired_at_unix_ms i"
    "th_task_state h' = T_Ready"
    "length (th_attempts h') < unat (sb_max_attempts_per_task (sp_budget (tk_sprint i)))"
    by blast
  have same: "task' = task" "h' = h"
    using task_pairs_unique [OF assms(1) p(1) assms(3)] p(2) assms(4) by auto
  have h: "validate_for_task sha h (tk_sprint i) task = Inr ()"
    "\<forall>e\<in>set (th_attempts h). he_legacy_classification e = None"
    using validate_typed_historiesD(3) [OF plan_task_attemptsD(2) [OF assms(1)]] assms(3)
    by (auto simp: history_admitted_def)
  let ?n = "of_nat (Suc (length (th_attempts h))) :: u32"
  have "unat (sb_max_attempts_per_task (sp_budget (tk_sprint i))) < 256"
    using unsigned_less [of "sb_max_attempts_per_task (sp_budget (tk_sprint i))", where 'a = nat]
    by simp
  with p(8) have "unat ?n = Suc (length (th_attempts h))"
    by (simp add: same unat_of_nat del: of_nat_Suc)
  then have "?n \<noteq> 0" by (metis nat.distinct(1) unat_0)
  then obtain a where a: "task_attempt_new sha l ?n event = Inr a"
    using p(4,6) plan_task_attemptsD(9) [OF assms(1)] assms(5)
    by (simp add: task_attempt_new_def Let_def validate_task_attempt_ok del: of_nat_Suc)
  note A = task_attempt_new_ok [OF a]
  have "validate_for_task sha (opened_history h a) (tk_sprint i) task = Inr ()"
    by (rule opened_history_accepted [OF h(1) _ h(2) _ A(1) A(3)])
      (use p same A(2) proposed_epoch_is_fresh [OF assms(1-3)] in auto)
  with a show ?thesis by blast
qed

end
