(* ===== verification/Example_Attempts.thy ===== *)
theory Example_Attempts
  imports Example_Finish Attempt_Opening
begin

text \<open>
  Attempt histories for the task of the completed sprint: a first attempt that is running, one
  that never launched and was closed for a retry, a second running attempt after it, and the
  planner's proposal for the retried task.
\<close>

section \<open>Attempts\<close>

definition at_lease :: "u64 \<Rightarrow> worker_lease" where
  "at_lease n = ex_lease\<lparr>wl_lease_epoch := n\<rparr>"

definition at_attempt :: "worker_lease \<Rightarrow> u32 \<Rightarrow> task_attempt" where
  "at_attempt lease n =
     \<lparr>ta_contract_version = CONTRACT_VERSION, ta_attempt_id = wl_lease_id lease,
      ta_worker_lease = lease, ta_attempt_ordinal = n, ta_opening_event_id = ''event-open'',
      ta_opened_at_unix_ms = wl_acquired_at_unix_ms lease\<rparr>"

definition at_running :: "task_attempt \<Rightarrow> running_boundary" where
  "at_running a =
     \<lparr>rb_contract_version = CONTRACT_VERSION, rb_boundary_id = ''boundary-run'', rb_attempt = a,
      rb_runner_launch_id = ''launch-1'', rb_runner_session_id = ''session-1'',
      rb_transition_event_id = ''event-run'', rb_started_at_unix_ms = 1750000000001\<rparr>"

definition at_evidence :: "attempt_evidence_kind \<Rightarrow> attempt_evidence" where
  "at_evidence k = \<lparr>ae_evidence_id = ''evidence-1'', ae_kind = k, ae_canonical_bytes = ''proof'',
     ae_digest = zero_hash\<rparr>"

definition at_metadata :: "task_attempt \<Rightarrow> task_state \<Rightarrow> disposition_metadata" where
  "at_metadata a s =
     \<lparr>dm_contract_version = CONTRACT_VERSION, dm_disposition_id = ''disposition-1'', dm_attempt = a,
      dm_from_state = s, dm_state_transition_event_id = ''event-dispose'',
      dm_disposed_at_unix_ms = 1750000000006\<rparr>"

definition at_release :: "task_attempt \<Rightarrow> never_launched_release" where
  "at_release a =
     \<lparr>nl_contract_version = CONTRACT_VERSION, nl_release_id = ''release-1'', nl_attempt = a,
      nl_absence_evidence = at_evidence KNeverLaunched, nl_released_at_unix_ms = 1750000000005\<rparr>"

text \<open>An attempt that never launched and was closed for a retry, and one that is running.\<close>

definition at_closed_entry :: history_entry where
  "at_closed_entry = (opened_entry (at_attempt (at_lease 1) 1))
     \<lparr>he_disposition := Some (RetryableD
        \<lparr>dr_metadata = at_metadata (at_attempt (at_lease 1) 1) T_Leased,
         dr_cause = CauseNeverLaunched (at_evidence KNeverLaunched),
         dr_release_proof = NeverLaunchedProof (at_release (at_attempt (at_lease 1) 1))\<rparr>),
      he_lease_state := LeaseReleased ''release-1'' 1750000000005\<rparr>"

definition at_running_entry :: "u64 \<Rightarrow> u32 \<Rightarrow> history_entry" where
  "at_running_entry epoch n = (opened_entry (at_attempt (at_lease epoch) n))
     \<lparr>he_running_boundary := Some (at_running (at_attempt (at_lease epoch) n))\<rparr>"

definition at_history :: "task_state \<Rightarrow> history_entry list \<Rightarrow> attempt_history" where
  "at_history s es =
     \<lparr>th_contract_version = CONTRACT_VERSION, th_sprint_id = ''sprint-1'', th_task_id = ''ready'',
      th_task_state = s, th_sprint_state = S_Running, th_attempts = es,
      th_budget_classification = WithinBudget, th_unknown_pending = None\<rparr>"

definition at_task :: task_spec where
  "at_task = (ex_task ''ready'' [] ''src/a'')
     \<lparr>ts_acceptance_checks := [''criterion-1'', ''criterion-2'']\<rparr>"

lemma at_ids [simp]:
  "attempt_id_ok ''event-open''" "attempt_id_ok ''boundary-run''" "attempt_id_ok ''launch-1''"
  "attempt_id_ok ''session-1''" "attempt_id_ok ''event-run''" "attempt_id_ok ''evidence-1''"
  "attempt_id_ok ''disposition-1''" "attempt_id_ok ''event-dispose''" "attempt_id_ok ''release-1''"
  "attempt_id_ok (wl_lease_id ex_lease)"
  by code_simp+

lemma at_lease_fields [simp]:
  "wl_lease_epoch (at_lease n) = n" "wl_lease_id (at_lease n) = wl_lease_id ex_lease"
  "wl_sprint_id (at_lease n) = ''sprint-1''" "wl_task_id (at_lease n) = ''ready''"
  "wl_worker_id (at_lease n) = ''worker-a''" "wl_acquired_at_unix_ms (at_lease n) = 1750000000000"
  "wl_path_scopes (at_lease n) = [RelativeScope [Normal ''src'', Normal ''a'']]"
  by (simp_all add: at_lease_def ex_lease_def)

lemma at_lease_new:
  assumes "n \<noteq> 0"
  shows "worker_lease_new zero_sha ''sprint-1'' n ''ready'' ''worker-a''
     [RelativeScope [Normal ''src'', Normal ''a'']] 1750000000000 = Inr (at_lease n)"
proof -
  have "\<not> blank ''sprint-1''" "\<not> blank ''ready''" "validate_worker_id ''worker-a'' = Inr ()"
    "validate_path_scope (RelativeScope [Normal ''src'', Normal ''a'']) = Inr ()"
    by code_simp+
  with assms show ?thesis
    by (simp add: worker_lease_new_iff derive_lease_id_iff zero_digest valid_scopes_def
        at_lease_def ex_lease_def WORKER_LEASE_ID_PREFIX_def)
qed

lemma at_attempt_valid [simp]:
  "validate_task_attempt zero_sha (at_attempt (at_lease 1) 1) = Inr ()"
  "validate_task_attempt zero_sha (at_attempt (at_lease 2) 2) = Inr ()"
  using worker_lease_new_valid [OF at_lease_new] by (simp_all add: at_attempt_def validate_task_attempt_ok)

lemma at_task_fields [simp]:
  "ts_path_scopes at_task = [RelativeScope [Normal ''src'', Normal ''a'']]"
  "ts_task_id at_task = ''ready''" "ts_acceptance_checks at_task = [''criterion-1'', ''criterion-2'']"
  "sb_max_attempts_per_task (sp_budget fin_sprint) = 2"
  by code_simp+

lemma at_evidence_valid [simp]: "validate_attempt_evidence zero_sha (at_evidence k) = Inr ()"
  by (simp add: validate_attempt_evidence_def at_evidence_def zero_digest zero_hash_def
      MAX_TASK_ATTEMPT_EVIDENCE_BYTES_def)

lemmas at_defs = at_closed_entry_def at_running_entry_def opened_entry_def at_running_def
  at_metadata_def at_release_def at_history_def

lemmas at_checks = validate_history_entry_def validate_lease_state_def check_running_def
  check_verification_def validate_legacy_lease_shape_def validate_disposition_lease_shape_def
  validate_history_release_def validate_running_boundary_def validate_formal_check_bijection_def
  validate_disposed_attempt_phase_def validate_disposition_phase_def validate_open_attempt_phase_def
  validate_for_budget_def validate_disposition_metadata_def validate_disposition_body_def
  latest_evidence_time_def validate_retryable_cause_def validate_release_against_def
  validate_release_coupling_def validate_never_launched_release_def
  check_integrated_phase_def failed_check_ids_def validate_cause_phase_def
  disposition_retryable_cause_def is_attempted_task_phase_def

lemma at_attempt_fields [simp]:
  "ta_opened_at_unix_ms (at_attempt (at_lease n) k) = 1750000000000"
  "ta_attempt_ordinal (at_attempt l k) = k" "ta_worker_lease (at_attempt l k) = l"
  "ta_attempt_id (at_attempt (at_lease n) k) = wl_lease_id ex_lease"
  by (simp_all add: at_attempt_def)

lemma at_evidence_kind [simp]: "ae_kind (at_evidence k) = k"
  by (simp add: at_evidence_def)

lemma at_closed_valid:
  "validate_history_entry zero_sha 2 at_closed_entry = Inr ()"
  "validate_formal_check_bijection at_closed_entry fin_sprint at_task = Inr ()"
  "validate_disposed_attempt_phase at_closed_entry = Inr ()"
  by (simp_all add: at_checks at_defs Let_def validate_kind_ok)

lemma at_running_valid:
  "validate_history_entry zero_sha 2 (at_running_entry 1 1) = Inr ()"
  "validate_history_entry zero_sha 2 (at_running_entry 2 2) = Inr ()"
  "validate_formal_check_bijection (at_running_entry n k) fin_sprint at_task = Inr ()"
  "validate_disposed_attempt_phase (at_running_entry n k) = Inr ()"
  "validate_open_attempt_phase (at_running_entry n k) T_Running = Inr ()"
  by (simp_all add: at_checks at_defs Let_def)

abbreviation "at_first \<equiv> at_history T_Running [at_running_entry 1 1]"
abbreviation "at_retried \<equiv> at_history T_Ready [at_closed_entry]"
abbreviation "at_second \<equiv> at_history T_Running [at_closed_entry, at_running_entry 2 2]"

lemmas at_shapes = validate_for_task_def validate_history_phase_shape_def active_entries_def
  latest_attempt_def validate_state_shape_def earlier_attempt_closed_def expected_budget_class_def

lemma at_entry_fields [simp]:
  "he_attempt at_closed_entry = at_attempt (at_lease 1) 1"
  "he_legacy_classification at_closed_entry = None"
  "is_retryable_d (he_disposition at_closed_entry)"
  "he_lease_state at_closed_entry = LeaseReleased ''release-1'' 1750000000005"
  "he_attempt (at_running_entry n k) = at_attempt (at_lease n) k"
  "he_legacy_classification (at_running_entry n k) = None"
  "he_disposition (at_running_entry n k) = None"
  "he_lease_state (at_running_entry n k) = LeaseActive"
  "he_running_boundary (at_running_entry n k) = Some (at_running (at_attempt (at_lease n) k))"
  by (simp_all add: at_closed_entry_def at_running_entry_def opened_entry_def)

lemma two_not_le_one [simp]: "\<not> (2 :: u64) \<le> 1"
  by (simp add: word_le_nat_alt)

lemma at_histories_valid:
  "validate_for_task zero_sha at_first fin_sprint at_task = Inr ()"
  "validate_for_task zero_sha at_retried fin_sprint at_task = Inr ()"
  "validate_for_task zero_sha at_second fin_sprint at_task = Inr ()"
  using at_closed_valid at_running_valid
  by (simp_all add: at_shapes at_history_def fin_sprint_fields Let_def is_attempted_task_phase_def
      validate_ready_history_def)


section \<open>The planner\<close>

definition at_input :: attempt_scheduler_input where
  "at_input = \<lparr>tk_sprint = fin_sprint, tk_graph = fin_graph, tk_task_histories = [at_retried],
     tk_workspace_blocking_leases = [], tk_available_worker_ids = [''worker-a''],
     tk_next_lease_epoch = 2, tk_acquired_at_unix_ms = 1750000000000\<rparr>"

abbreviation "at_plan \<equiv> \<lparr>pl_leases = [at_lease 2], pl_next_lease_epoch = 3\<rparr>"

lemma at_input_fields [simp]:
  "tk_sprint at_input = fin_sprint" "tk_graph at_input = fin_graph"
  "tk_task_histories at_input = [at_retried]" "tk_workspace_blocking_leases at_input = []"
  "tk_available_worker_ids at_input = [''worker-a'']" "tk_next_lease_epoch at_input = 2"
  "tk_acquired_at_unix_ms at_input = 1750000000000"
  by (simp_all add: at_input_def)

lemma at_graph_tasks: "tg_tasks fin_graph = [at_task]"
  by (simp add: fin_graph_def at_task_def)

lemma at_history_fields [simp]:
  "th_attempts (at_history s es) = es" "th_task_state (at_history s es) = s"
  "th_task_id (at_history s es) = ''ready''" "th_sprint_state (at_history s es) = S_Running"
  "th_unknown_pending (at_history s es) = None"
  "th_budget_classification (at_history s es) = WithinBudget"
  by (simp_all add: at_history_def)

lemma at_active [simp]:
  "typed_active_leases at_input = []" "attempt_epochs at_input = [1]"
  by (simp_all add: typed_active_leases_def active_attempt_def attempt_epochs_def map_filter_simps)

lemma at_checks_pass:
  "validate_typed_histories zero_sha at_input = Inr [at_retried]"
  "validate_typed_dependencies at_input [at_retried] = Inr ()"
  "validate_typed_active_set at_input [] = Inr ()"
  "validate_external_blockers zero_sha at_input = Inr ()"
  "validate_typed_available_workers at_input [] = Inr [''worker-a'']"
  "validate_attempt_scalars at_input = Inr ()"
  "remaining_capacity (sp_max_workers fin_sprint) [] = Some 2"
proof -
  have w: "validate_worker_id ''worker-a'' = Inr ()" by code_simp
  have f: "he_formal_checks at_closed_entry = []"
    by (simp add: at_closed_entry_def opened_entry_def)
  show "validate_typed_histories zero_sha at_input = Inr [at_retried]"
    using at_histories_valid(2)
    by (simp add: validate_typed_histories_def at_graph_tasks validate_scheduler_formal_order_def f
        sprint_is_terminal_def)
  show "validate_typed_dependencies at_input [at_retried] = Inr ()"
    by (simp add: validate_typed_dependencies_def at_graph_tasks dependency_state_check_ok)
      (simp add: at_task_def ex_task_def)
  show "validate_typed_active_set at_input [] = Inr ()"
    by (simp add: validate_typed_active_set_def Let_def index_epoch_def)
  show "validate_external_blockers zero_sha at_input = Inr ()"
    by (simp add: validate_external_blockers_def check_external_blockers_def)
  show "validate_typed_available_workers at_input [] = Inr [''worker-a'']"
    using w by (simp add: validate_typed_available_workers_def check_available_workers_ok
        MAX_WORKER_POOL_SIZE_def)
  show "validate_attempt_scalars at_input = Inr ()"
    by (simp add: validate_attempt_scalars_def)
  show "remaining_capacity (sp_max_workers fin_sprint) [] = Some 2" by code_simp
qed

lemma at_planned: "plan_task_attempts zero_sha at_input = Inr at_plan"
proof -
  have "attempt_lease zero_sha at_input (at_task, at_retried) ''worker-a'' 2 = Inr (at_lease 2)"
    using at_lease_new [of 2] by (simp add: attempt_lease_def propose_lease_def fin_sprint_fields)
  moreover have "attempt_eligible at_input (at_task, at_retried) = Inr True"
    by (simp add: attempt_eligible_def)
  moreover have "\<not> attempt_blocked at_input (at_task, at_retried) []"
    by (simp add: attempt_blocked_def conflicts_with_existing_def)
  moreover note at_checks_pass
  ultimately show ?thesis
    by (simp add: plan_task_attempts_def fin_graph_valid at_graph_tasks Let_def
        checked_add_u64_def cong del: bind_ok_cong)
qed

end
