(* ===== verification/Attempt_Runs.thy ===== *)
theory Attempt_Runs
  imports Attempt_Facts
begin

text \<open>
  An abstract specification of how one task uses its attempts, as an automaton over the events
  that a durable history records, and the refinement: every accepted history replays through it.
\<close>

section \<open>The retry automaton\<close>

datatype attempt_event = Opened nat | Started | Sealed | Admitted | Disposed attempt_disposition | Released

record task_view =
  lv_state :: task_state
  lv_used :: nat
  lv_active :: bool

definition fresh_view :: task_view where
  "fresh_view = \<lparr>lv_state = T_Ready, lv_used = 0, lv_active = False\<rparr>"

fun advance :: "task_view \<Rightarrow> task_state \<Rightarrow> task_view option" where
  "advance v t =
     (case task_transition (lv_state v) t of
        Inr s \<Rightarrow> if lv_active v then Some (v\<lparr>lv_state := s\<rparr>) else None
      | Inl _ \<Rightarrow> None)"

definition outcome_fits :: "nat \<Rightarrow> nat \<Rightarrow> attempt_disposition \<Rightarrow> bool" where
  "outcome_fits limit used d \<longleftrightarrow>
     (case d of
        RetryableD _ \<Rightarrow> used < limit
      | AttemptsExhaustedD _ \<Rightarrow> used = limit
      | IntegratedD v \<Rightarrow> dm_from_state (di_metadata v) = T_Candidate
      | _ \<Rightarrow> True)"

fun attempt_step :: "nat \<Rightarrow> task_view \<Rightarrow> attempt_event \<Rightarrow> task_view option" where
  "attempt_step limit v (Opened n) =
     (if lv_state v = T_Ready \<and> \<not> lv_active v \<and> n = Suc (lv_used v) \<and> lv_used v < limit
      then Some \<lparr>lv_state = T_Leased, lv_used = n, lv_active = True\<rparr> else None)"
| "attempt_step limit v Started = advance v T_Running"
| "attempt_step limit v Sealed = advance v T_Verifying"
| "attempt_step limit v Admitted = advance v T_Candidate"
| "attempt_step limit v (Disposed d) =
     (if lv_active v \<and> is_attempted_task_phase (lv_state v) \<and>
         dm_from_state (disposition_metadata_of d) = lv_state v \<and>
         outcome_fits limit (lv_used v) d
      then Some (v\<lparr>lv_state := resulting_task_state d, lv_active := \<not> requires_release d\<rparr>)
      else None)"
| "attempt_step limit v Released =
     (if lv_state v = T_Integrated \<and> lv_active v then Some (v\<lparr>lv_active := False\<rparr>) else None)"

fun attempt_run :: "nat \<Rightarrow> task_view \<Rightarrow> attempt_event list \<Rightarrow> task_view option" where
  "attempt_run limit v [] = Some v"
| "attempt_run limit v (ev # evs) =
     (case attempt_step limit v ev of None \<Rightarrow> None | Some w \<Rightarrow> attempt_run limit w evs)"

lemma attempt_run_append:
  "attempt_run limit v (xs @ ys) =
     (case attempt_run limit v xs of None \<Rightarrow> None | Some w \<Rightarrow> attempt_run limit w ys)"
  by (induction xs arbitrary: v) (auto split: option.splits)

text \<open>What every run keeps true.\<close>

definition view_ok :: "nat \<Rightarrow> task_view \<Rightarrow> bool" where
  "view_ok limit v \<longleftrightarrow>
     lv_used v \<le> limit \<and>
     (lv_state v = T_Ready \<longrightarrow> \<not> lv_active v \<and> (lv_used v = 0 \<or> lv_used v < limit)) \<and>
     (is_attempted_task_phase (lv_state v) \<longrightarrow> lv_active v)"

lemma attempt_step_ok:
  assumes "view_ok limit v" "attempt_step limit v ev = Some w"
  shows "view_ok limit w"
proof (cases ev)
  case (Disposed d)
  with assms show ?thesis
    by (cases d) (auto simp: view_ok_def outcome_fits_def is_attempted_task_phase_def split: if_splits)
qed (use assms in \<open>auto simp: view_ok_def is_attempted_task_phase_def task_transition_def Let_def
    split: if_splits sum.splits\<close>)

lemma attempt_run_ok:
  "attempt_run limit v evs = Some w \<Longrightarrow> view_ok limit v \<Longrightarrow> view_ok limit w"
  by (induction evs arbitrary: v) (auto split: option.splits intro: attempt_step_ok)

section \<open>The events of an entry\<close>

definition phase_events :: "history_entry \<Rightarrow> attempt_event list" where
  "phase_events e =
     (if he_running_boundary e = None then [] else [Started]) @
     (if he_verification_boundary e = None then [] else [Sealed]) @
     (if he_candidate_boundary e = None then [] else [Admitted])"

definition outcome_events :: "history_entry \<Rightarrow> attempt_event list" where
  "outcome_events e =
     (case he_disposition e of
        None \<Rightarrow> []
      | Some d \<Rightarrow> Disposed d #
          (if is_integrated_d (Some d) \<and> \<not> lease_is_active (he_lease_state e)
           then [Released] else []))"

definition entry_events :: "history_entry \<Rightarrow> attempt_event list" where
  "entry_events e =
     Opened (unat (ta_attempt_ordinal (he_attempt e))) # phase_events e @ outcome_events e"

definition history_events :: "attempt_history \<Rightarrow> attempt_event list" where
  "history_events h = concat (map entry_events (th_attempts h))"

definition history_view :: "attempt_history \<Rightarrow> task_view" where
  "history_view h =
     \<lparr>lv_state = th_task_state h, lv_used = length (th_attempts h),
      lv_active = (active_attempt h \<noteq> None)\<rparr>"

lemma run_phases:
  assumes "he_verification_boundary e \<noteq> None \<Longrightarrow> he_running_boundary e \<noteq> None"
    and "he_candidate_boundary e \<noteq> None \<Longrightarrow> he_verification_boundary e \<noteq> None"
    and "n < limit" "unat (ta_attempt_ordinal (he_attempt e)) = Suc n"
  shows "attempt_run limit \<lparr>lv_state = T_Ready, lv_used = n, lv_active = False\<rparr>
      (Opened (unat (ta_attempt_ordinal (he_attempt e))) # phase_events e)
    = Some \<lparr>lv_state = entry_phase e, lv_used = Suc n, lv_active = True\<rparr>"
  using assms
  by (cases "he_running_boundary e = None"; cases "he_verification_boundary e = None";
      cases "he_candidate_boundary e = None")
    (simp_all add: phase_events_def entry_phase_def task_transition_def Let_def)

lemma run_entry:
  assumes "entry_fits sha h sprint task e" "validate_formal_check_bijection e sprint task = Inr ()"
    and "n < unat (sb_max_attempts_per_task (sp_budget sprint))"
    and "unat (ta_attempt_ordinal (he_attempt e)) = Suc n"
  shows "attempt_run (unat (sb_max_attempts_per_task (sp_budget sprint)))
      \<lparr>lv_state = T_Ready, lv_used = n, lv_active = False\<rparr> (entry_events e)
    = attempt_run (unat (sb_max_attempts_per_task (sp_budget sprint)))
      \<lparr>lv_state = entry_phase e, lv_used = Suc n, lv_active = True\<rparr> (outcome_events e)"
proof -
  have "entry_events e = (Opened (unat (ta_attempt_ordinal (he_attempt e))) # phase_events e)
      @ outcome_events e"
    by (simp add: entry_events_def)
  moreover have "attempt_run (unat (sb_max_attempts_per_task (sp_budget sprint)))
      \<lparr>lv_state = T_Ready, lv_used = n, lv_active = False\<rparr>
      (Opened (unat (ta_attempt_ordinal (he_attempt e))) # phase_events e)
    = Some \<lparr>lv_state = entry_phase e, lv_used = Suc n, lv_active = True\<rparr>"
    using boundaries_nest [OF assms(1,2)] assms(3,4) by (intro run_phases)
  ultimately show ?thesis
    by (simp only: attempt_run_append option.simps)
qed

lemma run_disposed:
  assumes "entry_fits sha h sprint task e" "validate_disposed_attempt_phase e = Inr ()"
    and "he_disposition e = Some d" "unat (ta_attempt_ordinal (he_attempt e)) = Suc n"
  shows "attempt_run (unat (sb_max_attempts_per_task (sp_budget sprint)))
      \<lparr>lv_state = entry_phase e, lv_used = Suc n, lv_active = True\<rparr> (outcome_events e)
    = Some \<lparr>lv_state = resulting_task_state d, lv_used = Suc n,
        lv_active = lease_is_active (he_lease_state e)\<rparr>"
proof -
  let ?max = "sb_max_attempts_per_task (sp_budget sprint)"
  have b: "validate_for_budget sha ?max d = Inr ()"
    "dm_attempt (disposition_metadata_of d) = he_attempt e"
    using validate_history_entryD(6) [OF entry_fitsD(1) [OF assms(1)] assms(3)] by simp_all
  have phase: "dm_from_state (disposition_metadata_of d) = entry_phase e"
    using assms(2,3) disposition_phase by (auto simp: validate_disposed_attempt_phase_def)
  have lease: "validate_disposition_lease_shape e = Inr ()"
    by (rule validate_history_entryD(7) [OF entry_fitsD(1) [OF assms(1)]])
  have fits: "outcome_fits (unat ?max) (Suc n) d"
    using b assms(4) retryable_before_limit(1) exhausted_at_limit integrated_links(1)
    by (cases d) (force simp: outcome_fits_def)+
  show ?thesis
    using lease phase fits entry_phase_attempted [of e] assms(3)
    by (cases d) (auto simp: outcome_events_def validate_disposition_lease_shape_def
        validate_history_release_def)
qed

lemma replay_closed:
  assumes "\<forall>e\<in>set es. entry_fits sha h sprint task e \<and>
      validate_formal_check_bijection e sprint task = Inr () \<and>
      validate_disposed_attempt_phase e = Inr () \<and>
      is_retryable_d (he_disposition e) \<and> \<not> lease_is_active (he_lease_state e)"
    and "map (\<lambda>e. unat (ta_attempt_ordinal (he_attempt e))) es = [Suc n..<Suc (n + length es)]"
    and "n < unat (sb_max_attempts_per_task (sp_budget sprint))"
  shows "n + length es < unat (sb_max_attempts_per_task (sp_budget sprint)) \<and>
    attempt_run (unat (sb_max_attempts_per_task (sp_budget sprint)))
      \<lparr>lv_state = T_Ready, lv_used = n, lv_active = False\<rparr> (concat (map entry_events es))
    = Some \<lparr>lv_state = T_Ready, lv_used = n + length es, lv_active = False\<rparr>"
  using assms
proof (induction es arbitrary: n)
  case (Cons e es)
  let ?max = "sb_max_attempts_per_task (sp_budget sprint)"
  have ordinals: "[Suc n..<Suc (n + length (e # es))]
      = Suc n # [Suc (Suc n)..<Suc (Suc n + length es)]"
    by (simp add: upt_conv_Cons del: upt_Suc)
  from Cons.prems(2) have n: "unat (ta_attempt_ordinal (he_attempt e)) = Suc n"
    and rest: "map (\<lambda>e. unat (ta_attempt_ordinal (he_attempt e))) es
      = [Suc (Suc n)..<Suc (Suc n + length es)]"
    unfolding ordinals by simp_all
  from Cons.prems(1) have e: "entry_fits sha h sprint task e"
      "validate_formal_check_bijection e sprint task = Inr ()"
      "validate_disposed_attempt_phase e = Inr ()"
      "is_retryable_d (he_disposition e)" "\<not> lease_is_active (he_lease_state e)" by simp_all
  then obtain v where d: "he_disposition e = Some (RetryableD v)"
    by (cases "he_disposition e" rule: is_retryable_d.cases) auto
  have b: "validate_for_budget sha ?max (RetryableD v) = Inr ()"
    "dm_attempt (dr_metadata v) = he_attempt e"
    using validate_history_entryD(6) [OF entry_fitsD(1) [OF e(1)] d] by simp_all
  have "Suc n < unat ?max"
    using retryable_before_limit(1) [OF b(1)] b(2) n by simp
  with Cons.IH [OF _ rest] Cons.prems(1)
  have IH: "Suc n + length es < unat ?max \<and> attempt_run (unat ?max)
      \<lparr>lv_state = T_Ready, lv_used = Suc n, lv_active = False\<rparr> (concat (map entry_events es))
    = Some \<lparr>lv_state = T_Ready, lv_used = Suc n + length es, lv_active = False\<rparr>" by simp
  have "attempt_run (unat ?max) \<lparr>lv_state = T_Ready, lv_used = n, lv_active = False\<rparr> (entry_events e)
    = Some \<lparr>lv_state = T_Ready, lv_used = Suc n, lv_active = False\<rparr>"
    using run_entry [OF e(1,2) Cons.prems(3) n] run_disposed [OF e(1,3) d n] e(5) by simp
  with IH show ?case by (simp add: attempt_run_append)
qed simp

section \<open>Refinement\<close>

lemma accepted_history_runs:
  assumes "validate_sprint_spec sprint = Inr ()"
    and "validate_for_task sha h sprint task = Inr ()"
    and "th_attempts h \<noteq> []"
    and "\<forall>e\<in>set (th_attempts h). he_legacy_classification e = None"
  shows "attempt_run (unat (sb_max_attempts_per_task (sp_budget sprint))) fresh_view (history_events h)
    = Some (history_view h)"
proof -
  let ?max = "sb_max_attempts_per_task (sp_budget sprint)"
  obtain early e where split: "th_attempts h = early @ [e]"
    using assms(3) by (metis rev_exhaust)
  note D = validate_for_taskD [OF assms(2)] and P = phase_shapeD [OF validate_for_taskD(7) [OF assms(2)]]
  have "map (\<lambda>e. unat (ta_attempt_ordinal (he_attempt e))) early
      @ [unat (ta_attempt_ordinal (he_attempt e))] = [Suc 0..<Suc (length early)] @ [Suc (length early)]"
    using D(5) by (simp add: split)
  then have ords: "map (\<lambda>e. unat (ta_attempt_ordinal (he_attempt e))) early
      = [Suc 0..<Suc (length early)]"
    and n: "unat (ta_attempt_ordinal (he_attempt e)) = Suc (length early)"
    by (simp_all only: append1_eq_conv)
  have "0 < unat ?max"
    using validate_sprint_specD(4) [OF assms(1)] by (simp add: unat_gt_0)
  moreover have "\<forall>e\<in>set early. is_retryable_d (he_disposition e) \<and> \<not> lease_is_active (he_lease_state e)"
    using earlier_attempts [OF assms(2)] assms(4) by (simp add: split)
  ultimately have early: "length early < unat ?max" "attempt_run (unat ?max) fresh_view
      (concat (map entry_events early))
    = Some \<lparr>lv_state = T_Ready, lv_used = length early, lv_active = False\<rparr>"
    using replay_closed [of early sha h sprint task 0] ords D(4) P(3)
    by (simp_all add: fresh_view_def split)
  have fits: "entry_fits sha h sprint task e"
    "validate_formal_check_bijection e sprint task = Inr ()"
    "validate_disposed_attempt_phase e = Inr ()"
    using D(4) P(3) by (simp_all add: split)
  have latest: "latest_attempt h = Some e" "he_legacy_classification e = None"
    using assms(4) by (simp_all add: latest_attempt_def split)
  note L = latest_state [OF P(4) [OF latest] latest]
  have active: "active_attempt h \<noteq> None \<longleftrightarrow> lease_is_active (he_lease_state e)"
    using active_attempt_iff [OF assms(2,3)] by (simp add: split)
  have "attempt_run (unat ?max) \<lparr>lv_state = T_Ready, lv_used = length early, lv_active = False\<rparr>
      (entry_events e) = Some (history_view h)"
  proof (cases "he_disposition e")
    case None
    with L open_phase have "th_task_state h = entry_phase e" by simp
    with None L run_entry [OF fits(1,2) early(1) n] active
    show ?thesis by (simp add: outcome_events_def history_view_def split)
  next
    case (Some d)
    with L run_entry [OF fits(1,2) early(1) n] run_disposed [OF fits(1,3) Some n] active
    show ?thesis by (simp add: history_view_def split)
  qed
  with early(2) show ?thesis
    by (simp add: history_events_def split attempt_run_append)
qed


text \<open>
  C31. Attempts made under current authority stay within the budget: an accepted history in which no
  attempt carries a legacy classification has at most the permitted number of attempts and is
  classified so, a task that went back to \<open>Ready\<close> has an attempt left and no active lease, and an
  attempted state has its lease active. Histories with backfilled attempts may be \<open>OverBudget\<close>.
\<close>

theorem attempts_stay_in_budget:
  assumes "validate_sprint_spec sprint = Inr ()"
    and "validate_for_task sha h sprint task = Inr ()"
    and "th_attempts h \<noteq> []"
    and "\<forall>e\<in>set (th_attempts h). he_legacy_classification e = None"
  shows "length (th_attempts h) \<le> unat (sb_max_attempts_per_task (sp_budget sprint)) \<and>
    th_budget_classification h = WithinBudget \<and>
    (th_task_state h = T_Ready \<longrightarrow>
       length (th_attempts h) < unat (sb_max_attempts_per_task (sp_budget sprint)) \<and>
       active_attempt h = None) \<and>
    (is_attempted_task_phase (th_task_state h) \<longrightarrow> active_attempt h \<noteq> None)"
proof -
  have "view_ok (unat (sb_max_attempts_per_task (sp_budget sprint))) (history_view h)"
    by (rule attempt_run_ok [OF accepted_history_runs [OF assms]])
      (simp add: view_ok_def fresh_view_def is_attempted_task_phase_def)
  then show ?thesis
    using validate_for_taskD(3) [OF assms(2)] assms(3)
    by (auto simp: view_ok_def history_view_def expected_budget_class_def)
qed

end
