(* ===== verification/Recovery.thy ===== *)
theory Recovery
  imports Attempt_History
begin

text \<open>
  \<open>project_recovery_decision\<close> of \<open>contracts/attempts.rs\<close>: the one recovery action for an attempt,
  computed from its durable history and from the authority facts the ledger observed.
\<close>

datatype recovery_decision =
    ContinueActive | IntegratedCleanupPending | CloseNeverLaunchedThenRetry
  | CloseNeverLaunchedThenFail | CleanupThenRetry | CleanupThenFail | RecoverPreV15Open
  | TerminalizeSprintUnknown | TerminalizeUnknown | AlreadyDisposed

datatype known_cleanup_outcome =
    OutcomeRetryable retryable_cause
  | OutcomePermanentFailure permanent_failure_cause
  | OutcomeBlocked blocked_cause
  | OutcomeCanceled canceled_cause

datatype recovery_facts =
    DurableHistoryOnly
  | CurrentAuthority string "string option"
  | NeverLaunched
  | KnownCleanupRequired string "string option" known_cleanup_outcome
  | UncertainAuthority string
  | AllDomainsUnknownTerminalReady string string

definition validate_cleanup_outcome ::
  "(string \<Rightarrow> string) \<Rightarrow> known_cleanup_outcome \<Rightarrow> contract_result" where
  "validate_cleanup_outcome sha o' =
     (case o' of
        OutcomeRetryable cause \<Rightarrow> seq
          [validate_retryable_cause sha cause,
           ensure (\<not> (case cause of CauseNeverLaunched _ \<Rightarrow> True | _ \<Rightarrow> False))
             (ContractError ''task_attempt_recovery_facts.outcome''
               ''NeverLaunched must use the separate no-launch recovery path'')]
      | OutcomePermanentFailure cause \<Rightarrow> validate_permanent_cause sha cause
      | OutcomeBlocked cause \<Rightarrow> validate_blocked_cause sha cause
      | OutcomeCanceled cause \<Rightarrow> validate_canceled_cause sha cause)"

fun outcome_is_retryable :: "known_cleanup_outcome \<Rightarrow> bool" where
  "outcome_is_retryable (OutcomeRetryable _) = True"
| "outcome_is_retryable _ = False"

definition validate_outcome_context ::
  "known_cleanup_outcome \<Rightarrow> string \<Rightarrow> string option \<Rightarrow> contract_result" where
  "validate_outcome_context o' launch_id session_id =
     (case o' of
        OutcomeRetryable (CauseLaunchRefused cause_launch_id _) \<Rightarrow>
          ensure (\<not> cause_launch_id \<noteq> launch_id)
            (ContractError ''task_attempt_recovery_facts.outcome''
              ''launch-refusal cause must match the exact cleanup launch'')
      | OutcomeRetryable (CauseKnownWorkerExit cause_launch_id cause_session_id _) \<Rightarrow>
          ensure (\<not> (cause_launch_id \<noteq> launch_id \<or> session_id \<noteq> Some cause_session_id))
            (ContractError ''task_attempt_recovery_facts.outcome''
              ''worker-exit cause must match the exact cleanup launch and session'')
      | _ \<Rightarrow> Inr ())"

definition check_session_id :: "string option \<Rightarrow> contract_result" where
  "check_session_id session_id =
     (case session_id of
        None \<Rightarrow> Inr ()
      | Some s \<Rightarrow> require_task_attempt_identity ''task_attempt_recovery_facts.session_id'' s)"

definition validate_recovery_facts :: "(string \<Rightarrow> string) \<Rightarrow> recovery_facts \<Rightarrow> contract_result" where
  "validate_recovery_facts sha f =
     (case f of
        CurrentAuthority launch_id session_id \<Rightarrow> seq
          [require_task_attempt_identity ''task_attempt_recovery_facts.launch_id'' launch_id,
           check_session_id session_id]
      | KnownCleanupRequired launch_id session_id outcome \<Rightarrow> seq
          [require_task_attempt_identity ''task_attempt_recovery_facts.launch_id'' launch_id,
           check_session_id session_id,
           validate_cleanup_outcome sha outcome,
           validate_outcome_context outcome launch_id session_id]
      | UncertainAuthority evidence_id \<Rightarrow>
          require_task_attempt_identity ''task_attempt_recovery_facts.evidence_id'' evidence_id
      | AllDomainsUnknownTerminalReady marker_id evidence_id \<Rightarrow> seq
          [require_task_attempt_identity ''task_attempt_recovery_facts.marker_id'' marker_id,
           require_task_attempt_identity ''task_attempt_recovery_facts.evidence_id'' evidence_id]
      | DurableHistoryOnly \<Rightarrow> Inr ()
      | NeverLaunched \<Rightarrow> Inr ())"

definition facts_error :: "string \<Rightarrow> contract_error" where
  "facts_error message = ContractError ''task_attempt_recovery.facts'' message"

definition contradicts_boundary :: "running_boundary \<Rightarrow> string \<Rightarrow> string option \<Rightarrow> bool" where
  "contradicts_boundary b launch_id session_id \<longleftrightarrow>
     launch_id \<noteq> rb_runner_launch_id b \<or> session_id \<noteq> Some (rb_runner_session_id b)"

definition facts_against_boundary :: "history_entry \<Rightarrow> recovery_facts \<Rightarrow> contract_result" where
  "facts_against_boundary e f =
     (case he_running_boundary e of
        None \<Rightarrow> Inr ()
      | Some b \<Rightarrow>
          let crossed = facts_error
                ''live recovery facts must match the exact Running-boundary launch and session'' in
          (case f of
             CurrentAuthority launch_id session_id \<Rightarrow>
               ensure (\<not> contradicts_boundary b launch_id session_id) crossed
           | KnownCleanupRequired launch_id session_id _ \<Rightarrow>
               ensure (\<not> contradicts_boundary b launch_id session_id) crossed
           | NeverLaunched \<Rightarrow>
               Inl (facts_error ''NeverLaunched contradicts the durable Running boundary'')
           | _ \<Rightarrow> Inr ()))"

definition require_exact_pending_marker :: "attempt_history \<Rightarrow> string \<Rightarrow> contract_result" where
  "require_exact_pending_marker h marker_id =
     ensure (map_option up_marker_id (th_unknown_pending h) = Some marker_id)
       (facts_error ''all-domains-ready fact must name the exact pending marker'')"

definition require_history_only :: "recovery_facts \<Rightarrow> contract_result" where
  "require_history_only f =
     ensure (f = DurableHistoryOnly)
       (facts_error
         ''disposed or legacy attempt recovery is determined only by durable history'')"

fun ready_marker :: "recovery_facts \<Rightarrow> string option" where
  "ready_marker (AllDomainsUnknownTerminalReady marker_id _) = Some marker_id"
| "ready_marker _ = None"

definition legacy_decision :: "legacy_classification \<Rightarrow> recovery_decision" where
  "legacy_decision c =
     (case c of
        LegacyOpen \<Rightarrow> RecoverPreV15Open
      | LegacyIntegratedCleanupPending \<Rightarrow> IntegratedCleanupPending
      | _ \<Rightarrow> AlreadyDisposed)"

definition recover_legacy ::
  "attempt_history \<Rightarrow> legacy_classification \<Rightarrow> recovery_facts \<Rightarrow>
   contract_error + recovery_decision" where
  "recover_legacy h classification f =
     (case ready_marker f of
        Some marker_id \<Rightarrow>
          if classification = LegacyUnknownQuarantine
          then bind_ok (require_exact_pending_marker h marker_id)
            (\<lambda>_. Inr TerminalizeSprintUnknown)
          else bind_ok (require_history_only f) (\<lambda>_. Inr (legacy_decision classification))
      | None \<Rightarrow> bind_ok (require_history_only f) (\<lambda>_. Inr (legacy_decision classification)))"

definition disposed_decision :: "history_entry \<Rightarrow> attempt_disposition \<Rightarrow> recovery_decision" where
  "disposed_decision e d =
     (if is_integrated_d (Some d) \<and> lease_is_active (he_lease_state e)
      then IntegratedCleanupPending else AlreadyDisposed)"

definition recover_disposed ::
  "attempt_history \<Rightarrow> history_entry \<Rightarrow> attempt_disposition \<Rightarrow> recovery_facts \<Rightarrow>
   contract_error + recovery_decision" where
  "recover_disposed h e d f =
     (case ready_marker f of
        Some marker_id \<Rightarrow>
          if is_unknown_d (Some d)
          then bind_ok (require_exact_pending_marker h marker_id)
            (\<lambda>_. Inr TerminalizeSprintUnknown)
          else bind_ok (require_history_only f) (\<lambda>_. Inr (disposed_decision e d))
      | None \<Rightarrow> bind_ok (require_history_only f) (\<lambda>_. Inr (disposed_decision e d)))"

definition recover_open ::
  "attempt_history \<Rightarrow> bool \<Rightarrow> recovery_facts \<Rightarrow> contract_error + recovery_decision" where
  "recover_open h another_attempt_remains f =
     (case f of
        CurrentAuthority _ _ \<Rightarrow>
          if th_unknown_pending h = None then Inr ContinueActive
          else Inl (facts_error
            ''pending unknown terminalization requires known cleanup or actual uncertainty'')
      | NeverLaunched \<Rightarrow>
          Inr (if another_attempt_remains then CloseNeverLaunchedThenRetry
               else CloseNeverLaunchedThenFail)
      | KnownCleanupRequired _ _ outcome \<Rightarrow>
          Inr (if outcome_is_retryable outcome \<and> another_attempt_remains then CleanupThenRetry
               else CleanupThenFail)
      | UncertainAuthority _ \<Rightarrow> Inr TerminalizeUnknown
      | AllDomainsUnknownTerminalReady _ _ \<Rightarrow>
          Inl (facts_error
            ''ledger-wide terminal readiness requires an exact unknown disposition'')
      | DurableHistoryOnly \<Rightarrow>
          Inl (facts_error ''open current attempt requires exact live recovery facts''))"

definition project_recovery_decision ::
  "(string \<Rightarrow> string) \<Rightarrow> attempt_history \<Rightarrow> sprint_spec \<Rightarrow> task_spec \<Rightarrow> string \<Rightarrow> recovery_facts \<Rightarrow>
   contract_error + recovery_decision" where
  "project_recovery_decision sha h sprint task attempt_id f =
     bind_ok (seq
       [validate_for_task sha h sprint task,
        require_task_attempt_identity ''task_attempt_recovery.attempt_id'' attempt_id,
        validate_recovery_facts sha f])
     (\<lambda>_. bind_ok (ok_or (find (\<lambda>e. ta_attempt_id (he_attempt e) = attempt_id) (th_attempts h))
        (ContractError ''task_attempt_recovery.attempt_id''
          ''must resolve exactly one attempt in the typed history''))
     (\<lambda>e. case he_legacy_classification e of
         Some classification \<Rightarrow> recover_legacy h classification f
       | None \<Rightarrow>
           (case he_disposition e of
              Some d \<Rightarrow> recover_disposed h e d f
            | None \<Rightarrow> bind_ok (seq
                [ensure (lease_is_active (he_lease_state e))
                   (ContractError ''task_attempt_recovery.lease_state''
                     ''undisposed current attempt must retain exact active authority''),
                 facts_against_boundary e f])
               (\<lambda>_. recover_open h
                  (unat (ta_attempt_ordinal (he_attempt e))
                     < unat (sb_max_attempts_per_task (sp_budget sprint))) f))))"

end
