(* ===== verification/Recovery_Facts.thy ===== *)
theory Recovery_Facts
  imports Recovery Attempt_Facts
begin

text \<open>
  When \<open>project_recovery_decision\<close> decides, and how its decision fits the attempt budget that the
  disposition written afterwards is validated against.
\<close>

text \<open>The entry a recovery is about, and the cases of the projection.\<close>

definition recovered_entry :: "attempt_history \<Rightarrow> string \<Rightarrow> history_entry option" where
  "recovered_entry h attempt_id =
     find (\<lambda>e. ta_attempt_id (he_attempt e) = attempt_id) (th_attempts h)"

definition is_open_entry :: "history_entry \<Rightarrow> bool" where
  "is_open_entry e \<longleftrightarrow> he_legacy_classification e = None \<and> he_disposition e = None"

definition retries_left :: "sprint_spec \<Rightarrow> history_entry \<Rightarrow> bool" where
  "retries_left sprint e \<longleftrightarrow>
     unat (ta_attempt_ordinal (he_attempt e)) < unat (sb_max_attempts_per_task (sp_budget sprint))"

lemma project_cases:
  assumes "validate_for_task sha h sprint task = Inr ()" "attempt_id_ok attempt_id"
    and "validate_recovery_facts sha f = Inr ()" "recovered_entry h attempt_id = Some e"
  shows "project_recovery_decision sha h sprint task attempt_id f =
    (case he_legacy_classification e of
       Some c \<Rightarrow> recover_legacy h c f
     | None \<Rightarrow> (case he_disposition e of
         Some d \<Rightarrow> recover_disposed h e d f
       | None \<Rightarrow> bind_ok (facts_against_boundary e f)
           (\<lambda>_. recover_open h (retries_left sprint e) f)))"
proof -
  have mem: "e \<in> set (th_attempts h)"
    using assms(4) by (auto simp: recovered_entry_def dest: find_SomeD)
  have ok: "require_task_attempt_identity ''task_attempt_recovery.attempt_id'' attempt_id = Inr ()"
    using assms(2) by simp
  have start: "project_recovery_decision sha h sprint task attempt_id f =
    (case he_legacy_classification e of
       Some c \<Rightarrow> recover_legacy h c f
     | None \<Rightarrow> (case he_disposition e of
         Some d \<Rightarrow> recover_disposed h e d f
       | None \<Rightarrow> bind_ok (seq
           [ensure (lease_is_active (he_lease_state e))
              (ContractError ''task_attempt_recovery.lease_state''
                ''undisposed current attempt must retain exact active authority''),
            facts_against_boundary e f])
           (\<lambda>_. recover_open h (retries_left sprint e) f)))"
    using assms(4) unfolding retries_left_def recovered_entry_def
    by (simp add: project_recovery_decision_def assms(1,3) ok)
  show ?thesis
  proof (cases "is_open_entry e")
    case True
    then have "lease_is_active (he_lease_state e)"
      using open_attempt(3) [OF assms(1) mem] by (simp add: is_open_entry_def)
    then show ?thesis
      unfolding start by (cases "facts_against_boundary e f") (simp_all split: option.split)
  next
    case False
    then show ?thesis unfolding start by (auto simp: is_open_entry_def split: option.split)
  qed
qed

text \<open>When a recovery has a decision at all.\<close>

definition contradicts_running :: "history_entry \<Rightarrow> recovery_facts \<Rightarrow> bool" where
  "contradicts_running e f \<longleftrightarrow>
     (\<exists>b. he_running_boundary e = Some b \<and>
        (f = NeverLaunched \<or>
         (\<exists>l s. f = CurrentAuthority l s \<and> contradicts_boundary b l s) \<or>
         (\<exists>l s o'. f = KnownCleanupRequired l s o' \<and> contradicts_boundary b l s)))"

definition recovery_possible :: "attempt_history \<Rightarrow> history_entry \<Rightarrow> recovery_facts \<Rightarrow> bool" where
  "recovery_possible h e f \<longleftrightarrow>
     (case ready_marker f of
        Some m \<Rightarrow>
          (he_legacy_classification e = Some LegacyUnknownQuarantine \<or>
           he_legacy_classification e = None \<and> is_unknown_d (he_disposition e)) \<and>
          map_option up_marker_id (th_unknown_pending h) = Some m
      | None \<Rightarrow>
          if is_open_entry e
          then f \<noteq> DurableHistoryOnly \<and> \<not> contradicts_running e f \<and>
            (th_unknown_pending h \<noteq> None \<longrightarrow> (\<forall>l s. f \<noteq> CurrentAuthority l s))
          else f = DurableHistoryOnly)"

lemma facts_against_boundary_ok:
  "facts_against_boundary e f = Inr u \<longleftrightarrow> \<not> contradicts_running e f"
  by (cases f) (auto simp: facts_against_boundary_def contradicts_running_def Let_def
      split: option.splits)

lemma ready_marker_Some: "ready_marker f = Some m \<Longrightarrow> f \<noteq> DurableHistoryOnly"
  by auto

lemma project_ok:
  assumes "project_recovery_decision sha h sprint task attempt_id f = Inr dec"
  obtains e where "validate_for_task sha h sprint task = Inr ()" "attempt_id_ok attempt_id"
    "validate_recovery_facts sha f = Inr ()" "recovered_entry h attempt_id = Some e"
  using assms unfolding project_recovery_decision_def recovered_entry_def
  by (auto simp: bind_ok_Inr simp del: bind_ok_unit_Inr)

lemma decided_entry_is_open:
  assumes "project_recovery_decision sha h sprint task attempt_id f = Inr dec"
    and "dec \<in> {ContinueActive, CloseNeverLaunchedThenRetry, CloseNeverLaunchedThenFail,
      CleanupThenRetry, CleanupThenFail, TerminalizeUnknown}"
    and "recovered_entry h attempt_id = Some e"
  shows "is_open_entry e" "recover_open h (retries_left sprint e) f = Inr dec"
    "\<not> contradicts_running e f"
proof -
  obtain e' where e': "validate_for_task sha h sprint task = Inr ()" "attempt_id_ok attempt_id"
    "validate_recovery_facts sha f = Inr ()" "recovered_entry h attempt_id = Some e'"
    by (rule project_ok [OF assms(1)])
  with assms(3) have "e' = e" by simp
  note cases = project_cases [OF e', unfolded \<open>e' = e\<close>]
  show "is_open_entry e"
  proof (rule ccontr)
    assume "\<not> is_open_entry e"
    then consider (legacy) c where "recover_legacy h c f = Inr dec"
      | (disposed) d where "recover_disposed h e d f = Inr dec"
      using cases assms(1) by (auto simp: is_open_entry_def split: option.splits)
    then show False
      using assms(2)
      by cases (auto simp: recover_legacy_def recover_disposed_def legacy_decision_def
          disposed_decision_def bind_ok_Inr split: option.splits if_splits legacy_classification.splits)
  qed
  then have "bind_ok (facts_against_boundary e f)
      (\<lambda>_. recover_open h (retries_left sprint e) f) = Inr dec"
    using cases assms(1) by (simp add: is_open_entry_def)
  then show "recover_open h (retries_left sprint e) f = Inr dec" "\<not> contradicts_running e f"
    by (auto simp: facts_against_boundary_ok)
qed

definition rejects_retry :: "(string \<Rightarrow> string) \<Rightarrow> u8 \<Rightarrow> task_attempt \<Rightarrow> bool" where
  "rejects_retry sha limit a \<longleftrightarrow>
     (\<forall>v. dm_attempt (dr_metadata v) = a \<longrightarrow> validate_for_budget sha limit (RetryableD v) \<noteq> Inr ())"

definition rejects_exhaustion :: "(string \<Rightarrow> string) \<Rightarrow> u8 \<Rightarrow> task_attempt \<Rightarrow> bool" where
  "rejects_exhaustion sha limit a \<longleftrightarrow>
     (\<forall>v. dm_attempt (dx_metadata v) = a \<longrightarrow>
        validate_for_budget sha limit (AttemptsExhaustedD v) \<noteq> Inr ())"

lemma rejects_by_ordinal:
  "unat limit \<le> unat (ta_attempt_ordinal a) \<Longrightarrow> rejects_retry sha limit a"
  "unat (ta_attempt_ordinal a) < unat limit \<Longrightarrow> rejects_exhaustion sha limit a"
  unfolding rejects_retry_def rejects_exhaustion_def
  using retryable_before_limit(1) exhausted_at_limit by (metis not_le, metis less_irrefl)

section \<open>Theorems\<close>

text \<open>
  C25. Exactly the facts that recovery refuses: for an attempt of an accepted history, a decision
  exists if and only if the facts fit the durable record. A sprint-wide readiness fact needs an
  unknown outcome and the pending marker by name; a disposed or legacy attempt admits no live
  fact; an open attempt needs a live fact that does not contradict its running boundary, and
  under a pending marker it may not simply continue. The error for an open attempt without an
  active lease never occurs.
\<close>

theorem recovery_decides_iff:
  assumes "validate_for_task sha h sprint task = Inr ()" "attempt_id_ok attempt_id"
    and "validate_recovery_facts sha f = Inr ()" "recovered_entry h attempt_id = Some e"
  shows "is_ok (project_recovery_decision sha h sprint task attempt_id f)
    \<longleftrightarrow> recovery_possible h e f"
proof (cases "is_open_entry e")
  case True
  then have "project_recovery_decision sha h sprint task attempt_id f
    = bind_ok (facts_against_boundary e f) (\<lambda>_. recover_open h (retries_left sprint e) f)"
    using project_cases [OF assms] by (simp add: is_open_entry_def)
  with True show ?thesis
    by (cases f) (auto simp: is_ok_iff bind_ok_Inr facts_against_boundary_ok recover_open_def
        recovery_possible_def is_open_entry_def)
next
  case False
  show ?thesis
  proof (cases "he_legacy_classification e")
    case None
    with False obtain d where "he_disposition e = Some d" by (auto simp: is_open_entry_def)
    with None False project_cases [OF assms] show ?thesis
      by (cases f) (auto simp: is_ok_iff bind_ok_Inr recover_disposed_def require_history_only_def
          require_exact_pending_marker_def recovery_possible_def)
  next
    case (Some c)
    with False project_cases [OF assms] show ?thesis
      by (cases f) (auto simp: is_ok_iff bind_ok_Inr recover_legacy_def require_history_only_def
          require_exact_pending_marker_def recovery_possible_def)
  qed
qed

text \<open>
  C28. Recovery respects the attempt budget. A decision to retry or to fail is only made for the
  latest attempt, whose lease is active. To retry, another attempt must remain, and then no
  exhausted disposition of the attempt is valid. To fail, either the budget is used up, and then no
  retryable disposition of the attempt is valid, or the decision closes a known cleanup whose
  outcome is not retryable: a permanent failure, a block, or a cancellation.
\<close>

theorem recovery_respects_budget:
  assumes "project_recovery_decision sha h sprint task attempt_id f = Inr dec"
    and "limit = sb_max_attempts_per_task (sp_budget sprint)"
    and "dec \<in> {CloseNeverLaunchedThenRetry, CleanupThenRetry, CloseNeverLaunchedThenFail,
      CleanupThenFail}"
  shows "\<exists>e. latest_attempt h = Some e \<and> ta_attempt_id (he_attempt e) = attempt_id \<and>
    lease_is_active (he_lease_state e) \<and> is_attempted_task_phase (th_task_state h) \<and>
    (if dec \<in> {CloseNeverLaunchedThenRetry, CleanupThenRetry}
     then length (th_attempts h) < unat limit \<and> rejects_exhaustion sha limit (he_attempt e)
     else unat limit \<le> length (th_attempts h) \<and> rejects_retry sha limit (he_attempt e) \<or>
       dec = CleanupThenFail \<and>
       (\<exists>l s outcome. f = KnownCleanupRequired l s outcome \<and> \<not> outcome_is_retryable outcome))"
proof -
  obtain e where e: "validate_for_task sha h sprint task = Inr ()"
    "recovered_entry h attempt_id = Some e"
    by (rule project_ok [OF assms(1)])
  have mem: "e \<in> set (th_attempts h)" and ident: "ta_attempt_id (he_attempt e) = attempt_id"
    using e(2) by (auto simp: recovered_entry_def dest: find_SomeD)
  have o: "is_open_entry e" "recover_open h (retries_left sprint e) f = Inr dec"
    using decided_entry_is_open [OF assms(1) _ e(2)] assms(3) by auto
  note a = open_attempt [OF e(1) mem o(1) [unfolded is_open_entry_def, THEN conjunct1]
      o(1) [unfolded is_open_entry_def, THEN conjunct2]]
  have "latest_attempt h = Some e"
    using a(1,2) by (simp add: latest_attempt_def)
  moreover have "if dec \<in> {CloseNeverLaunchedThenRetry, CleanupThenRetry} then retries_left sprint e
      else \<not> retries_left sprint e \<or> dec = CleanupThenFail \<and>
        (\<exists>l s outcome. f = KnownCleanupRequired l s outcome \<and> \<not> outcome_is_retryable outcome)"
    using o(2) assms(3) by (cases f) (auto simp: recover_open_def split: if_splits)
  ultimately show ?thesis
    using ident a(3-5) rejects_by_ordinal [where a = "he_attempt e" and limit = limit]
    by (auto simp: retries_left_def assms(2) entry_phase_attempted split: if_splits)
qed

end
