(* ===== verification/Example_Outcomes.thy ===== *)
theory Example_Outcomes
  imports Example_Attempts Attempt_Runs Recovery_Facts
begin

text \<open>
  An attempt that ended in an integration, a recovery after a worker exit, and the witnesses of the
  theorems on attempts.
\<close>

section \<open>An integrated attempt\<close>

abbreviation "at_own \<equiv> at_attempt ex_lease 1"

definition at_verified :: verification_boundary where
  "at_verified =
     \<lparr>vb_contract_version = CONTRACT_VERSION, vb_boundary_id = ''boundary-run'', vb_attempt = at_own,
      vb_runner_launch_id = ''launch-1'', vb_runner_session_id = ''session-1'',
      vb_change_set_id = ''change-1'', vb_sealed_snapshot = fin_final,
      vb_transition_event_id = ''event-run'', vb_terminal_non_cleanup_effects = [],
      vb_sealed_at_unix_ms = 1750000000002\<rparr>"

definition at_check :: formal_check where
  "at_check =
     \<lparr>fc_contract_version = CONTRACT_VERSION, fc_formal_check_id = ''check-1'', fc_attempt = at_own,
      fc_criterion_ordinal = 0, fc_criterion_id = ''criterion-1'', fc_effect_id = ''effect-vr-1'',
      fc_observation_id = ''observation-vr-1'', fc_verification_receipt = ve_verification fin_v1,
      fc_runner_session_id = ''session-1'', fc_sealed_snapshot = fin_final\<rparr>"

definition at_candidate :: candidate_boundary where
  "at_candidate =
     \<lparr>cb_contract_version = CONTRACT_VERSION, cb_boundary_id = ''boundary-run'', cb_attempt = at_own,
      cb_verification_boundary_id = ''boundary-run'', cb_change_set_id = ''change-1'',
      cb_sealed_snapshot = fin_final, cb_formal_check_ids = [''check-1''],
      cb_verification_receipt_ids = [''vr-1''], cb_transition_event_id = ''event-run'',
      cb_admitted_at_unix_ms = 1750000000004\<rparr>"

definition at_integrated_entry :: history_entry where
  "at_integrated_entry =
     \<lparr>he_attempt = at_own, he_running_boundary = Some (at_running at_own),
      he_verification_boundary = Some at_verified, he_formal_checks = [at_check],
      he_candidate_boundary = Some at_candidate,
      he_disposition = Some (IntegratedD
        \<lparr>di_metadata = at_metadata at_own T_Candidate, di_candidate_boundary = at_candidate,
         di_integration_receipt = fin_integration, di_evidence = at_evidence KIntegrated\<rparr>),
      he_legacy_classification = None, he_lease_state = LeaseReleased ''release-1'' 1750000000006\<rparr>"

abbreviation "at_done \<equiv> at_history T_Integrated [at_integrated_entry]"

lemma more_ids [simp]:
  "attempt_id_ok ''change-1''" "attempt_id_ok ''check-1''" "attempt_id_ok ''criterion-1''"
  "attempt_id_ok ''effect-vr-1''" "attempt_id_ok ''observation-vr-1''" "attempt_id_ok ''vr-1''"
  "\<not> blank ''check-1''"
  by code_simp+

lemma at_own_valid [simp]: "validate_task_attempt zero_sha at_own = Inr ()"
  by (simp add: validate_task_attempt_ok at_attempt_def ex_lease_valid ex_lease_fields(4))

lemma at_own_opened [simp]: "ta_opened_at_unix_ms at_own = 1750000000000"
  by (simp add: at_attempt_def ex_lease_fields(4))

lemma fin_v1_valid [simp]: "validate_verification_receipt (ve_verification fin_v1) = Inr ()"
  using fin_verifications_valid(1) by (simp add: validate_verification_evidence_def)

lemma fin_v1_fields [simp]:
  "vr_receipt_id (ve_verification fin_v1) = ''vr-1''"
  "vr_sprint_id (ve_verification fin_v1) = ''sprint-1''"
  "vr_task_id (ve_verification fin_v1) = Some ''ready''"
  "vr_snapshot_id (ve_verification fin_v1) = fin_final"
  "vr_command (ve_verification fin_v1) = fin_command"
  "vr_finished_at_unix_ms (ve_verification fin_v1) = 1750000000003"
  "receipt_passed (ve_verification fin_v1)"
  by (simp_all add: fin_verification_def receipt_passed_def)

lemma at_boundaries_valid:
  "validate_verification_boundary zero_sha at_verified = Inr ()"
  "validate_formal_check zero_sha at_check = Inr ()"
  "validate_candidate_boundary zero_sha at_candidate = Inr ()"
  by (simp_all add: validate_verification_boundary_def at_verified_def validate_formal_check_def
      at_check_def Let_def validate_candidate_boundary_def at_candidate_def nonblank ex_lease_fields
      del: ex_lease_fields(5))

lemma fin_integration_fields [simp]:
  "ti_integrated_at_unix_ms fin_integration = 1750000000004"
  "ti_worker_lease fin_integration = Some ex_lease" "ti_sprint_id fin_integration = ''sprint-1''"
  "ti_task_id fin_integration = ''ready''" "ti_worker_id fin_integration = ''worker-a''"
  "ti_change_set_id fin_integration = ''change-1''" "ti_result_snapshot fin_integration = fin_final"
  "ti_task_verification_receipt_ids fin_integration = [''vr-1'']"
  "ti_worker_launch_id fin_integration = ''launch-1''"
  "ti_worker_session_id fin_integration = ''session-1''"
  by (simp_all add: fin_integration_def)

lemma at_canonical: "canonical_automated fin_sprint at_task = [(''criterion-1'', fin_command)]"
  by code_simp

lemma at_integrated_valid:
  "validate_history_entry zero_sha 2 at_integrated_entry = Inr ()"
  "validate_formal_check_bijection at_integrated_entry fin_sprint at_task = Inr ()"
  "validate_disposed_attempt_phase at_integrated_entry = Inr ()"
  subgoal
    using at_boundaries_valid fin_integration_valid
    by (simp add: at_checks at_integrated_entry_def at_running_def at_metadata_def Let_def
        validate_kind_ok validate_integration_disposition_def ex_lease_fields(1-4))
      (simp add: at_verified_def at_candidate_def at_check_def)
  subgoal
    by (simp add: validate_formal_check_bijection_def at_integrated_entry_def Let_def at_canonical
        sequence_matches_def candidate_matches_def)
      (simp add: at_verified_def at_candidate_def at_check_def u32_saturating_def
        candidate_matches_def)
  subgoal
    by (simp add: at_checks at_integrated_entry_def at_metadata_def at_running_def
        some_check_failed_def)
      (simp add: at_verified_def at_candidate_def at_check_def)
  done

lemma at_done_valid: "validate_for_task zero_sha at_done fin_sprint at_task = Inr ()"
proof -
  have "he_attempt at_integrated_entry = at_own" "he_legacy_classification at_integrated_entry = None"
    "is_integrated_d (he_disposition at_integrated_entry)"
    "\<not> lease_is_active (he_lease_state at_integrated_entry)"
    by (simp_all add: at_integrated_entry_def)
  moreover have "wl_path_scopes ex_lease = ts_path_scopes at_task"
    by (simp add: ex_lease_def)
  ultimately show ?thesis
    using at_integrated_valid
    by (simp add: at_shapes at_history_def fin_sprint_fields Let_def is_attempted_task_phase_def
        validate_integrated_history_def ex_lease_fields(1,2))
qed

section \<open>Witnesses\<close>

theorem integrated_task_passed_every_check_witness:
  "\<exists>check\<in>{at_check}. vr_command (fc_verification_receipt check) = fin_command \<and>
     receipt_passed (fc_verification_receipt check) \<and>
     vr_snapshot_id (fc_verification_receipt check) = ti_result_snapshot fin_integration"
proof -
  have "at_task \<in> set (tg_tasks fin_graph)" "th_task_state at_done = T_Integrated"
    "he_legacy_classification (last (th_attempts at_done)) = None"
    by (simp_all add: at_graph_tasks at_integrated_entry_def)
  from integrated_task_passed_every_check [OF fin_graph_valid this(1) at_done_valid this(2,3)]
  obtain e v where e: "latest_attempt at_done = Some e" "he_disposition e = Some (IntegratedD v)"
    and all: "\<And>c command. c \<in> set (sp_acceptance_criteria fin_sprint) \<Longrightarrow>
       ac_criterion_id c \<in> set (ts_acceptance_checks at_task) \<and> ac_kind c = Automated command \<Longrightarrow>
       \<exists>check\<in>set (he_formal_checks e).
          vr_command (fc_verification_receipt check) = command \<and>
          receipt_passed (fc_verification_receipt check) \<and>
          vr_snapshot_id (fc_verification_receipt check)
            = ti_result_snapshot (di_integration_receipt v)"
    by blast
  have "e = at_integrated_entry" "di_integration_receipt v = fin_integration"
    using e by (auto simp: latest_attempt_def at_integrated_entry_def)
  then show ?thesis
    using all [of "hd fin_criteria" fin_command]
    by (simp add: fin_sprint_fields fin_criteria_def at_integrated_entry_def)
qed


theorem attempts_stay_in_budget_witness:
  "length (th_attempts at_second) \<le> 2 \<and> active_attempt at_second \<noteq> None"
  using attempts_stay_in_budget [OF fin_sprint_valid at_histories_valid(3)]
  by (simp add: is_attempted_task_phase_def)

abbreviation "at_exit \<equiv> KnownCleanupRequired ''launch-1'' (Some ''session-1'')
  (OutcomeRetryable (CauseKnownWorkerExit ''launch-1'' ''session-1'' (at_evidence KKnownWorkerExit)))"

lemma at_recovered [simp]:
  "recovered_entry at_first (wl_lease_id ex_lease) = Some (at_running_entry 1 1)"
  by (simp add: recovered_entry_def)

lemma at_exit_valid: "validate_recovery_facts zero_sha at_exit = Inr ()"
  by (simp add: validate_recovery_facts_def check_session_id_def validate_cleanup_outcome_def
      validate_retryable_cause_def validate_outcome_context_def validate_kind_ok)

lemma at_decision:
  "project_recovery_decision zero_sha at_first fin_sprint at_task (wl_lease_id ex_lease) at_exit
     = Inr CleanupThenRetry"
  using project_cases [OF at_histories_valid(1) at_ids(10) at_exit_valid at_recovered]
  by (simp add: facts_against_boundary_def contradicts_boundary_def at_running_def recover_open_def
      retries_left_def)

theorem recovery_decides_iff_witness:
  "is_ok (project_recovery_decision zero_sha at_first fin_sprint at_task (wl_lease_id ex_lease) at_exit)
     \<and> recovery_possible at_first (at_running_entry 1 1) at_exit"
  using recovery_decides_iff [OF at_histories_valid(1) at_ids(10) at_exit_valid at_recovered]
  by (simp add: at_decision)

theorem recovery_respects_budget_witness:
  "length (th_attempts at_first) < unat (2 :: u8) \<and>
   rejects_exhaustion zero_sha 2 (at_attempt (at_lease 1) 1)"
  using recovery_respects_budget [OF at_decision refl]
  by (auto simp: latest_attempt_def)

theorem attempt_plan_excludes_witness:
  "pairwise_disjoint [at_lease 2] \<and> length [at_lease 2] \<le> unat (sp_max_workers fin_sprint)"
  using attempt_plan_excludes [OF at_planned] by simp

theorem attempt_epochs_are_counted_witness:
  "distinct [1, wl_lease_epoch (at_lease 2)] \<and> unat (3 :: u64) = Suc (1 + 1)"
  using attempt_epochs_are_counted [OF at_planned] by simp

theorem attempt_plan_respects_budget_witness:
  "\<exists>(task, h)\<in>set (task_pairs at_input). th_task_state h = T_Ready \<and>
     ts_task_id task = wl_task_id (at_lease 2) \<and> length (th_attempts h) < unat (2 :: u8)"
proof -
  have "at_lease 2 \<in> set (pl_leases at_plan)" by simp
  from attempt_plan_respects_budget [OF at_planned this] show ?thesis by auto
qed

theorem proposed_attempt_opens_witness:
  "\<exists>a. task_attempt_new zero_sha (at_lease 2) (of_nat (Suc (length (th_attempts at_retried))))
       ''event-open'' = Inr a \<and>
     validate_for_task zero_sha (opened_history at_retried a) fin_sprint at_task = Inr ()"
proof -
  have "at_lease 2 \<in> set (pl_leases at_plan)"
    "(at_task, at_retried) \<in> set (task_pairs at_input)" "ts_task_id at_task = wl_task_id (at_lease 2)"
    by (simp_all add: task_pairs_def at_graph_tasks)
  from proposed_attempt_opens [OF at_planned this at_ids(1)] show ?thesis by simp
qed

end
