(* ===== verification/Authority_V2.thy ===== *)
theory Authority_V2
  imports Graph_Check Execution
begin

text \<open>
  The first half of \<open>final_verification_contracts.rs\<close>: the frozen V1 sprint and graph records,
  the V2 sprint with its final-verification cap, the V2 task graph with its repair slots, and
  the digests that bind the two to each other. The file has its own copies of the helper
  functions of \<open>contracts/\<close>; copies that are the same code share one definition here.
  Compact JSON (\<open>serde_json::to_vec\<close>, \<open>from_slice\<close>) is a parameter: an encoder, and a decoder
  for the routines that read bytes back.
\<close>

section \<open>Shared helpers\<close>

type_synonym 'a decoder = "string \<Rightarrow> string + 'a"

definition SPRINT_AUTHORITY_CONTRACT_VERSION_V2 :: u32 where
  "SPRINT_AUTHORITY_CONTRACT_VERSION_V2 = 2"

definition MIN_FINAL_VERIFICATION_ATTEMPTS :: u8 where
  "MIN_FINAL_VERIFICATION_ATTEMPTS = 1"

definition MAX_FINAL_VERIFICATION_ATTEMPTS :: u8 where
  "MAX_FINAL_VERIFICATION_ATTEMPTS = 3"

definition PRODUCT_DEFAULT_MAX_FINAL_VERIFICATION_ATTEMPTS_V01 :: u8 where
  "PRODUCT_DEFAULT_MAX_FINAL_VERIFICATION_ATTEMPTS_V01 = 3"

definition require_v2_version :: "string \<Rightarrow> u32 \<Rightarrow> contract_result" where
  "require_v2_version field version =
     ensure (version = SPRINT_AUTHORITY_CONTRACT_VERSION_V2)
       (ContractError field (''expected version '' @ show_u32 SPRINT_AUTHORITY_CONTRACT_VERSION_V2
          @ '', got '' @ show_u32 version))"

definition encode_canonical :: "'a encoder \<Rightarrow> string \<Rightarrow> 'a \<Rightarrow> contract_error + string" where
  "encode_canonical enc field v =
     map_err (\<lambda>e. ContractError field (''cannot encode canonical JSON: '' @ e)) (enc v)"

definition decode_canonical_shape ::
  "'a encoder \<Rightarrow> 'a decoder \<Rightarrow> string \<Rightarrow> string \<Rightarrow> contract_error + 'a" where
  "decode_canonical_shape enc dec field bytes =
     bind_ok (map_err (\<lambda>e. ContractError field (''cannot decode JSON: '' @ e)) (dec bytes))
       (\<lambda>v. bind_ok (encode_canonical enc field v)
       (\<lambda>canonical. bind_ok (ensure (canonical = bytes)
          (ContractError field ''JSON bytes are not the exact canonical encoding''))
       (\<lambda>_. Inr v)))"

definition decode_canonical ::
  "'a encoder \<Rightarrow> 'a decoder \<Rightarrow> string \<Rightarrow> string \<Rightarrow> ('a \<Rightarrow> contract_result) \<Rightarrow> contract_error + 'a" where
  "decode_canonical enc dec field bytes validate =
     bind_ok (decode_canonical_shape enc dec field bytes)
       (\<lambda>v. bind_ok (validate v) (\<lambda>_. Inr v))"

definition domain_digest :: "(string \<Rightarrow> string) \<Rightarrow> string \<Rightarrow> string \<Rightarrow> digest" where
  "domain_digest sha domain canonical =
     digest_sha256 sha (domain @ u64_be_bytes (of_nat (length canonical)) @ canonical)"

definition digest_canonical ::
  "(string \<Rightarrow> string) \<Rightarrow> 'a encoder \<Rightarrow> string \<Rightarrow> string \<Rightarrow> 'a \<Rightarrow> contract_error + digest" where
  "digest_canonical sha enc field domain v =
     bind_ok (encode_canonical enc field v) (\<lambda>bytes. Inr (domain_digest sha domain bytes))"

definition validate_budget_members ::
  "nat \<Rightarrow> u8 \<Rightarrow> u32 \<Rightarrow> u64 \<Rightarrow> contract_result" where
  "validate_budget_members max_tasks max_attempts_per_task max_tool_calls max_duration_ms = seq
     [ensure (max_tasks \<noteq> 0)
        (ContractError ''sprint.budget.max_tasks'' ''must be greater than zero''),
      ensure (max_attempts_per_task \<noteq> 0)
        (ContractError ''sprint.budget.max_attempts_per_task'' ''must be greater than zero''),
      ensure (max_tool_calls \<noteq> 0)
        (ContractError ''sprint.budget.max_tool_calls'' ''must be greater than zero''),
      ensure (max_duration_ms \<noteq> 0)
        (ContractError ''sprint.budget.max_duration_ms'' ''must be greater than zero'')]"

definition validate_sprint_identity_acceptance_provider ::
  "string \<Rightarrow> string \<Rightarrow> acceptance_criterion list \<Rightarrow> provider_profile \<Rightarrow> contract_result" where
  "validate_sprint_identity_acceptance_provider sprint_id objective acceptance_criteria provider = seq
     [require_nonblank ''sprint.sprint_id'' sprint_id,
      require_nonblank ''sprint.objective'' objective,
      ensure (acceptance_criteria \<noteq> [])
        (ContractError ''sprint.acceptance_criteria'' ''must contain at least one criterion''),
      each_unique ac_criterion_id
        (\<lambda>c. seq
          [require_nonblank ''acceptance.criterion_id'' (ac_criterion_id c),
           require_nonblank ''acceptance.description'' (ac_description c),
           (case ac_kind c of
              Automated command \<Rightarrow> validate_command_spec command
            | HumanJudgment \<Rightarrow> Inr ())])
        (\<lambda>c. ContractError ''sprint.acceptance_criteria''
          (''duplicate criterion id '' @ quoted (ac_criterion_id c)))
        {} acceptance_criteria,
      require_nonblank ''provider.backend_id'' (pp_backend_id provider),
      require_nonblank ''provider.model_id'' (pp_model_id provider)]"

definition validate_sprint_workers_and_grant :: "u8 \<Rightarrow> workspace_grant \<Rightarrow> contract_result" where
  "validate_sprint_workers_and_grant max_workers grant = seq
     [ensure (1 \<le> max_workers \<and> max_workers \<le> 3)
        (ContractError ''sprint.max_workers'' ''must be between one and three''),
      validate_workspace_grant grant]"

definition validate_task_members ::
  "string \<Rightarrow> string \<Rightarrow> string list \<Rightarrow> path_scope list \<Rightarrow> string list \<Rightarrow> contract_result" where
  "validate_task_members task_id goal dependencies path_scopes acceptance_checks = seq
     [require_nonblank ''task.task_id'' task_id,
      require_nonblank ''task.goal'' goal,
      ensure (path_scopes \<noteq> [])
        (ContractError ''task.path_scopes'' ''must declare at least one scope''),
      each_unique (\<lambda>s. s)
        (\<lambda>s. case s of
           RelativeScope p \<Rightarrow> require_normalized_relative ''task.path_scope'' p
         | WorkspaceScope \<Rightarrow> Inr ())
        (\<lambda>s. ContractError ''task.path_scopes'' ''must not contain duplicate scopes'')
        {} path_scopes,
      ensure (acceptance_checks \<noteq> [])
        (ContractError ''task.acceptance_checks'' ''must contain at least one criterion id''),
      require_unique_nonblank ''task.dependencies'' dependencies,
      require_unique_nonblank ''task.acceptance_checks'' acceptance_checks]"

section \<open>Relationships of a task list\<close>

record task_relationship_view =
  rv_task_id :: string
  rv_dependencies :: "string list"
  rv_acceptance_checks :: "string list"

fun relationship_indices ::
  "nat \<Rightarrow> task_relationship_view list \<Rightarrow> (string \<rightharpoonup> nat) \<Rightarrow> contract_error + (string \<rightharpoonup> nat)" where
  "relationship_indices index [] indices = Inr indices"
| "relationship_indices index (v # vs) indices =
     bind_ok (ensure (indices (rv_task_id v) = None)
         (ContractError ''task_graph.tasks'' (''duplicate task id '' @ quoted (rv_task_id v))))
       (\<lambda>_. relationship_indices (index + 1) vs (indices(rv_task_id v \<mapsto> index)))"

definition validate_task_references ::
  "(string \<rightharpoonup> nat) \<Rightarrow> string set \<Rightarrow> nat \<Rightarrow> task_relationship_view \<Rightarrow> string set \<Rightarrow>
   nat list \<times> nat list list \<Rightarrow> contract_error + string set \<times> nat list \<times> nat list list" where
  "validate_task_references indices criteria index v covered tables =
     bind_ok (cover_criteria criteria (rv_acceptance_checks v) covered) (\<lambda>covered'.
       bind_ok (link_dependencies indices index (rv_dependencies v) tables) (\<lambda>tables'.
         Inr (covered', tables')))"

fun reference_loop ::
  "(string \<rightharpoonup> nat) \<Rightarrow> string set \<Rightarrow> nat \<Rightarrow> task_relationship_view list \<Rightarrow> string set \<Rightarrow>
   nat list \<times> nat list list \<Rightarrow> contract_error + string set \<times> nat list \<times> nat list list" where
  "reference_loop indices criteria index [] covered tables = Inr (covered, tables)"
| "reference_loop indices criteria index (v # vs) covered tables =
     bind_ok (validate_task_references indices criteria index v covered tables)
       (\<lambda>(covered', tables'). reference_loop indices criteria (index + 1) vs covered' tables')"

definition validate_acyclic_graph :: "nat list \<Rightarrow> nat list list \<Rightarrow> contract_result" where
  "validate_acyclic_graph indegrees dependents =
     ensure (kahn dependents indegrees (initially_ready indegrees) 0 = Some (length indegrees))
       (ContractError ''task_graph.tasks'' ''dependencies must form an acyclic graph'')"

definition validate_graph_relationships ::
  "acceptance_criterion list \<Rightarrow> task_relationship_view list \<Rightarrow> contract_result" where
  "validate_graph_relationships acceptance_criteria tasks =
     (let n = length tasks; criteria = set (map ac_criterion_id acceptance_criteria) in
      bind_ok (relationship_indices 0 tasks Map.empty)
      (\<lambda>indices. bind_ok
        (reference_loop indices criteria 0 tasks {} (replicate n 0, replicate n []))
      (\<lambda>(covered, indegrees, dependents). seq
        [ensure (covered = criteria)
           (ContractError ''task_graph.acceptance_coverage''
             (''criteria not covered by any task: '' @ missing_criteria criteria covered)),
         validate_acyclic_graph indegrees dependents])))"

section \<open>The frozen V1 records\<close>

record legacy_sprint_budget =
  lb_max_tasks :: nat
  lb_max_attempts_per_task :: u8
  lb_max_tool_calls :: u32
  lb_max_duration_ms :: u64

definition validate_legacy_budget :: "legacy_sprint_budget \<Rightarrow> contract_result" where
  "validate_legacy_budget b =
     validate_budget_members (lb_max_tasks b) (lb_max_attempts_per_task b) (lb_max_tool_calls b)
       (lb_max_duration_ms b)"

record legacy_sprint_spec =
  ls_sprint_id :: string
  ls_objective :: string
  ls_acceptance_criteria :: "acceptance_criterion list"
  ls_provider :: provider_profile
  ls_budget :: legacy_sprint_budget
  ls_max_workers :: u8
  ls_workspace_grant :: workspace_grant
  ls_base_snapshot :: digest

definition validate_legacy_sprint :: "legacy_sprint_spec \<Rightarrow> contract_result" where
  "validate_legacy_sprint s = seq
     [validate_sprint_identity_acceptance_provider (ls_sprint_id s) (ls_objective s)
        (ls_acceptance_criteria s) (ls_provider s),
      validate_legacy_budget (ls_budget s),
      validate_sprint_workers_and_grant (ls_max_workers s) (ls_workspace_grant s)]"

definition legacy_sprint_bytes ::
  "legacy_sprint_spec encoder \<Rightarrow> legacy_sprint_spec \<Rightarrow> contract_error + string" where
  "legacy_sprint_bytes enc s = bind_ok (validate_legacy_sprint s)
     (\<lambda>_. encode_canonical enc ''legacy_sprint_spec_v1'' s)"

definition legacy_sprint_from_bytes ::
  "legacy_sprint_spec encoder \<Rightarrow> legacy_sprint_spec decoder \<Rightarrow> string \<Rightarrow>
   contract_error + legacy_sprint_spec" where
  "legacy_sprint_from_bytes enc dec bytes =
     decode_canonical enc dec ''legacy_sprint_spec_v1'' bytes validate_legacy_sprint"

record legacy_task_spec =
  lt_task_id :: string
  lt_goal :: string
  lt_dependencies :: "string list"
  lt_path_scopes :: "path_scope list"
  lt_acceptance_checks :: "string list"
  lt_base_snapshot :: digest
  lt_required :: bool

definition validate_legacy_task :: "legacy_task_spec \<Rightarrow> contract_result" where
  "validate_legacy_task t =
     validate_task_members (lt_task_id t) (lt_goal t) (lt_dependencies t) (lt_path_scopes t)
       (lt_acceptance_checks t)"

record legacy_task_graph =
  lg_graph_id :: string
  lg_tasks :: "legacy_task_spec list"

definition legacy_relationship_view :: "legacy_task_spec \<Rightarrow> task_relationship_view" where
  "legacy_relationship_view t = \<lparr>rv_task_id = lt_task_id t, rv_dependencies = lt_dependencies t,
     rv_acceptance_checks = lt_acceptance_checks t\<rparr>"

definition validate_legacy_graph ::
  "legacy_task_graph \<Rightarrow> legacy_sprint_spec \<Rightarrow> contract_result" where
  "validate_legacy_graph g s = seq
     ([validate_legacy_sprint s,
       require_nonblank ''task_graph.graph_id'' (lg_graph_id g),
       ensure (lg_tasks g \<noteq> [])
         (ContractError ''task_graph.tasks'' ''must contain at least one task''),
       ensure (length (lg_tasks g) \<le> lb_max_tasks (ls_budget s))
         (ContractError ''task_graph.tasks'' ''exceeds the sprint task budget'')]
      @ map (\<lambda>t. seq
          [validate_legacy_task t,
           ensure (lt_base_snapshot t = ls_base_snapshot s)
             (ContractError ''task.base_snapshot''
               (''task '' @ quoted (lt_task_id t) @ '' must use the sprint base snapshot''))])
          (lg_tasks g)
      @ [validate_graph_relationships (ls_acceptance_criteria s)
           (map legacy_relationship_view (lg_tasks g))])"

definition legacy_graph_bytes ::
  "legacy_task_graph encoder \<Rightarrow> legacy_task_graph \<Rightarrow> legacy_sprint_spec \<Rightarrow>
   contract_error + string" where
  "legacy_graph_bytes enc g s = bind_ok (validate_legacy_graph g s)
     (\<lambda>_. encode_canonical enc ''legacy_task_graph_v1'' g)"

definition legacy_graph_from_bytes ::
  "legacy_task_graph encoder \<Rightarrow> legacy_task_graph decoder \<Rightarrow> string \<Rightarrow> legacy_sprint_spec \<Rightarrow>
   contract_error + legacy_task_graph" where
  "legacy_graph_from_bytes enc dec bytes s =
     bind_ok (decode_canonical_shape enc dec ''legacy_task_graph_v1'' bytes)
       (\<lambda>g. bind_ok (validate_legacy_graph g s) (\<lambda>_. Inr g))"

section \<open>The V2 sprint\<close>

record sprint_budget_v2 =
  b2_sprint_authority_version :: u32
  b2_max_tasks :: nat
  b2_max_attempts_per_task :: u8
  b2_max_final_verification_attempts :: u8
  b2_max_tool_calls :: u32
  b2_max_duration_ms :: u64

definition author_v01 :: "nat \<Rightarrow> u8 \<Rightarrow> u32 \<Rightarrow> u64 \<Rightarrow> sprint_budget_v2" where
  "author_v01 max_tasks max_attempts_per_task max_tool_calls max_duration_ms =
     \<lparr>b2_sprint_authority_version = SPRINT_AUTHORITY_CONTRACT_VERSION_V2,
      b2_max_tasks = max_tasks,
      b2_max_attempts_per_task = max_attempts_per_task,
      b2_max_final_verification_attempts = PRODUCT_DEFAULT_MAX_FINAL_VERIFICATION_ATTEMPTS_V01,
      b2_max_tool_calls = max_tool_calls,
      b2_max_duration_ms = max_duration_ms\<rparr>"

definition validate_budget_v2 :: "sprint_budget_v2 \<Rightarrow> contract_result" where
  "validate_budget_v2 b = seq
     [require_v2_version ''sprint_budget_v2.sprint_authority_version''
        (b2_sprint_authority_version b),
      ensure (b2_max_tasks b \<noteq> 0)
        (ContractError ''sprint_v2.budget.max_tasks'' ''must be greater than zero''),
      ensure (b2_max_attempts_per_task b \<noteq> 0)
        (ContractError ''sprint_v2.budget.max_attempts_per_task'' ''must be greater than zero''),
      ensure (MIN_FINAL_VERIFICATION_ATTEMPTS \<le> b2_max_final_verification_attempts b \<and>
              b2_max_final_verification_attempts b \<le> MAX_FINAL_VERIFICATION_ATTEMPTS)
        (ContractError ''sprint_v2.budget.max_final_verification_attempts''
          ''must be between one and three''),
      ensure (b2_max_tool_calls b \<noteq> 0)
        (ContractError ''sprint_v2.budget.max_tool_calls'' ''must be greater than zero''),
      ensure (b2_max_duration_ms b \<noteq> 0)
        (ContractError ''sprint_v2.budget.max_duration_ms'' ''must be greater than zero'')]"

record sprint_spec_v2 =
  s2_sprint_authority_version :: u32
  s2_sprint_id :: string
  s2_objective :: string
  s2_acceptance_criteria :: "acceptance_criterion list"
  s2_provider :: provider_profile
  s2_budget :: sprint_budget_v2
  s2_max_workers :: u8
  s2_workspace_grant :: workspace_grant
  s2_base_snapshot :: digest
  s2_task_graph_id :: string
  s2_task_graph_payload_digest :: digest
  s2_repair_slot_reserve_digest :: digest

definition validate_sprint_v2 :: "sprint_spec_v2 \<Rightarrow> contract_result" where
  "validate_sprint_v2 s = seq
     [require_v2_version ''sprint_spec_v2.sprint_authority_version''
        (s2_sprint_authority_version s),
      validate_sprint_identity_acceptance_provider (s2_sprint_id s) (s2_objective s)
        (s2_acceptance_criteria s) (s2_provider s),
      validate_budget_v2 (s2_budget s),
      validate_sprint_workers_and_grant (s2_max_workers s) (s2_workspace_grant s),
      require_nonblank ''sprint_spec_v2.task_graph_id'' (s2_task_graph_id s)]"

definition sprint_v2_bytes ::
  "sprint_spec_v2 encoder \<Rightarrow> sprint_spec_v2 \<Rightarrow> contract_error + string" where
  "sprint_v2_bytes enc s =
     bind_ok (validate_sprint_v2 s) (\<lambda>_. encode_canonical enc ''sprint_spec_v2'' s)"

definition sprint_v2_from_bytes ::
  "sprint_spec_v2 encoder \<Rightarrow> sprint_spec_v2 decoder \<Rightarrow> string \<Rightarrow> contract_error + sprint_spec_v2" where
  "sprint_v2_from_bytes enc dec bytes =
     decode_canonical enc dec ''sprint_spec_v2'' bytes validate_sprint_v2"

definition SPRINT_SPEC_V2_DIGEST_DOMAIN :: string where
  "SPRINT_SPEC_V2_DIGEST_DOMAIN = ''grok-build/sprint-spec-v2/canonical-json'' @ [NUL]"

definition sprint_v2_digest ::
  "(string \<Rightarrow> string) \<Rightarrow> sprint_spec_v2 encoder \<Rightarrow> sprint_spec_v2 \<Rightarrow> contract_error + digest" where
  "sprint_v2_digest sha enc s = bind_ok (sprint_v2_bytes enc s)
     (\<lambda>bytes. Inr (domain_digest sha SPRINT_SPEC_V2_DIGEST_DOMAIN bytes))"

section \<open>V2 tasks and graphs\<close>

datatype task_purpose_v2 = Ordinary | FinalVerificationRepairSlot u8

record task_spec_v2 =
  t2_sprint_authority_version :: u32
  t2_task_id :: string
  t2_purpose :: task_purpose_v2
  t2_goal :: string
  t2_dependencies :: "string list"
  t2_path_scopes :: "path_scope list"
  t2_acceptance_checks :: "string list"
  t2_base_snapshot :: digest
  t2_required :: bool

definition validate_task_v2 :: "task_spec_v2 \<Rightarrow> contract_result" where
  "validate_task_v2 t = seq
     [require_v2_version ''task_spec_v2.sprint_authority_version'' (t2_sprint_authority_version t),
      validate_task_members (t2_task_id t) (t2_goal t) (t2_dependencies t) (t2_path_scopes t)
        (t2_acceptance_checks t),
      (case t2_purpose t of
         FinalVerificationRepairSlot slot_ordinal \<Rightarrow> seq
           [ensure (slot_ordinal \<noteq> 0)
              (ContractError ''task_spec_v2.purpose.slot_ordinal'' ''must be a one-based ordinal''),
            ensure (\<not> t2_required t)
              (ContractError ''task_spec_v2.required''
                ''a final-verification repair slot must be optional'')]
       | Ordinary \<Rightarrow> Inr ())]"

definition is_repair_slot :: "task_spec_v2 \<Rightarrow> bool" where
  "is_repair_slot t \<longleftrightarrow> (case t2_purpose t of FinalVerificationRepairSlot _ \<Rightarrow> True | Ordinary \<Rightarrow> False)"

record graph_payload_v2 =
  gp_sprint_authority_version :: u32
  gp_graph_id :: string
  gp_sprint_id :: string
  gp_repair_slot_reserve_digest :: digest
  gp_tasks :: "task_spec_v2 list"

record repair_slot_reserve_v2 =
  rr_sprint_authority_version :: u32
  rr_sprint_id :: string
  rr_graph_id :: string
  rr_repair_slots :: "task_spec_v2 list"

record task_graph_v2 =
  g2_sprint_authority_version :: u32
  g2_graph_id :: string
  g2_sprint_id :: string
  g2_sprint_spec_digest :: digest
  g2_repair_slot_reserve_digest :: digest
  g2_tasks :: "task_spec_v2 list"

text \<open>The JSON encoders of the four types that are hashed with a V2 pair.\<close>

record v2_encoders =
  ve_sprint :: "sprint_spec_v2 encoder"
  ve_reserve :: "repair_slot_reserve_v2 encoder"
  ve_payload :: "graph_payload_v2 encoder"
  ve_graph :: "task_graph_v2 encoder"

definition REPAIR_SLOT_RESERVE_V2_DIGEST_DOMAIN :: string where
  "REPAIR_SLOT_RESERVE_V2_DIGEST_DOMAIN =
     ''grok-build/final-verification-repair-slot-reserve-v2/canonical-json'' @ [NUL]"

definition TASK_GRAPH_V2_PAYLOAD_DIGEST_DOMAIN :: string where
  "TASK_GRAPH_V2_PAYLOAD_DIGEST_DOMAIN =
     ''grok-build/task-graph-v2/payload/canonical-json'' @ [NUL]"

definition TASK_GRAPH_V2_DIGEST_DOMAIN :: string where
  "TASK_GRAPH_V2_DIGEST_DOMAIN = ''grok-build/task-graph-v2/canonical-json'' @ [NUL]"

definition repair_slots_of :: "task_graph_v2 \<Rightarrow> task_spec_v2 list" where
  "repair_slots_of g = filter is_repair_slot (g2_tasks g)"

definition computed_repair_slot_reserve_digest ::
  "(string \<Rightarrow> string) \<Rightarrow> v2_encoders \<Rightarrow> task_graph_v2 \<Rightarrow> contract_error + digest" where
  "computed_repair_slot_reserve_digest sha enc g =
     digest_canonical sha (ve_reserve enc) ''task_graph_v2.repair_slot_reserve''
       REPAIR_SLOT_RESERVE_V2_DIGEST_DOMAIN
       \<lparr>rr_sprint_authority_version = g2_sprint_authority_version g,
        rr_sprint_id = g2_sprint_id g, rr_graph_id = g2_graph_id g,
        rr_repair_slots = repair_slots_of g\<rparr>"

definition payload_digest ::
  "(string \<Rightarrow> string) \<Rightarrow> v2_encoders \<Rightarrow> task_graph_v2 \<Rightarrow> contract_error + digest" where
  "payload_digest sha enc g =
     digest_canonical sha (ve_payload enc) ''task_graph_v2.payload''
       TASK_GRAPH_V2_PAYLOAD_DIGEST_DOMAIN
       \<lparr>gp_sprint_authority_version = g2_sprint_authority_version g,
        gp_graph_id = g2_graph_id g, gp_sprint_id = g2_sprint_id g,
        gp_repair_slot_reserve_digest = g2_repair_slot_reserve_digest g,
        gp_tasks = g2_tasks g\<rparr>"

definition relationship_view :: "task_spec_v2 \<Rightarrow> task_relationship_view" where
  "relationship_view t = \<lparr>rv_task_id = t2_task_id t, rv_dependencies = t2_dependencies t,
     rv_acceptance_checks = t2_acceptance_checks t\<rparr>"

definition validate_graph_shape :: "task_graph_v2 \<Rightarrow> sprint_spec_v2 \<Rightarrow> contract_result" where
  "validate_graph_shape g s = seq
     [validate_sprint_v2 s,
      require_v2_version ''task_graph_v2.sprint_authority_version'' (g2_sprint_authority_version g),
      require_nonblank ''task_graph_v2.graph_id'' (g2_graph_id g),
      require_nonblank ''task_graph_v2.sprint_id'' (g2_sprint_id g),
      ensure (g2_sprint_id g = s2_sprint_id s)
        (ContractError ''task_graph_v2.sprint_id'' ''must equal the paired sprint identifier''),
      ensure (g2_graph_id g = s2_task_graph_id s)
        (ContractError ''task_graph_v2.graph_id'' ''must equal the paired sprint graph identifier''),
      ensure (g2_tasks g \<noteq> [])
        (ContractError ''task_graph_v2.tasks'' ''must contain at least one task''),
      ensure (length (g2_tasks g) \<le> b2_max_tasks (s2_budget s))
        (ContractError ''task_graph_v2.tasks''
          ''exceeds the sprint task budget including repair reserve''),
      each_unique t2_task_id
        (\<lambda>t. seq
          [validate_task_v2 t,
           ensure (t2_base_snapshot t = s2_base_snapshot s)
             (ContractError ''task_spec_v2.base_snapshot''
               (''task '' @ quoted (t2_task_id t) @ '' must use the sprint base snapshot''))])
        (\<lambda>t. ContractError ''task_graph_v2.tasks''
          (''duplicate task id '' @ quoted (t2_task_id t)))
        {} (g2_tasks g),
      validate_graph_relationships (s2_acceptance_criteria s)
        (map relationship_view (g2_tasks g))]"

definition validate_ordinary_criterion_coverage ::
  "task_graph_v2 \<Rightarrow> sprint_spec_v2 \<Rightarrow> contract_result" where
  "validate_ordinary_criterion_coverage g s =
     (let ordinary_criterion_coverage =
            set (concat (map t2_acceptance_checks
              (filter (\<lambda>t. t2_purpose t = Ordinary) (g2_tasks g))));
          criterion_ids = set (map ac_criterion_id (s2_acceptance_criteria s)) in
      ensure (ordinary_criterion_coverage = criterion_ids)
        (ContractError ''task_graph_v2.ordinary_acceptance_coverage''
          ''ordinary tasks must cover the complete sprint criterion set''))"

text \<open>
  \<open>u8::try_from(index + 1)\<close>, and the \<open>let else\<close> of the slot loop, whose \<open>else\<close> is
  \<open>unreachable!\<close>: the list holds repair slots only.
\<close>

definition slot_index_ordinal :: "nat \<Rightarrow> u8 option" where
  "slot_index_ordinal index = (if index + 1 < 256 then Some (of_nat (index + 1)) else None)"

fun purpose_slot_ordinal :: "task_purpose_v2 \<Rightarrow> u8 option" where
  "purpose_slot_ordinal Ordinary = None"
| "purpose_slot_ordinal (FinalVerificationRepairSlot k) = Some k"

definition check_repair_slot ::
  "string set \<Rightarrow> task_spec_v2 list \<Rightarrow> nat \<Rightarrow> contract_result" where
  "check_repair_slot required_ordinary_ids repair_slots index =
     (let slot = repair_slots ! index;
          repair_ids = set (map t2_task_id repair_slots);
          dependencies = set (t2_dependencies slot);
          repair_dependencies = dependencies \<inter> repair_ids;
          expected_repair_dependencies =
            (if index = 0 then {} else {t2_task_id (repair_slots ! (index - 1))}) in
      bind_ok (ok_or (slot_index_ordinal index)
          (ContractError ''task_graph_v2.repair_slots''
            ''slot ordinal exceeds the supported range''))
       (\<lambda>expected_ordinal. bind_ok (ok_or (purpose_slot_ordinal (t2_purpose slot))
          (ContractError ''unreachable'' ''filtered repair slots have repair purpose''))
       (\<lambda>slot_ordinal. seq
         [ensure (slot_ordinal = expected_ordinal)
            (ContractError ''task_graph_v2.repair_slots''
              ''slot ordinals must be unique, ordered, and contiguous from one''),
          ensure (required_ordinary_ids \<subseteq> dependencies)
            (ContractError ''task_graph_v2.repair_slots''
              ''every repair slot must depend on every required ordinary task''),
          ensure (repair_dependencies = expected_repair_dependencies)
            (ContractError ''task_graph_v2.repair_slots''
              ''each repair slot may depend on exactly the immediately preceding repair slot'')])))"

definition required_ordinary_ids :: "task_graph_v2 \<Rightarrow> string set" where
  "required_ordinary_ids g =
     set (map t2_task_id (filter (\<lambda>t. t2_required t \<and> t2_purpose t = Ordinary) (g2_tasks g)))"

definition u8_saturating_sub :: "u8 \<Rightarrow> u8 \<Rightarrow> nat" where
  "u8_saturating_sub a b = unat a - unat b"

definition validate_repair_slots :: "task_graph_v2 \<Rightarrow> sprint_spec_v2 \<Rightarrow> contract_result" where
  "validate_repair_slots g s =
     (let repair_slots = repair_slots_of g;
          expected_slot_count =
            u8_saturating_sub (b2_max_final_verification_attempts (s2_budget s)) 1 in
      seq (ensure (length repair_slots = expected_slot_count)
             (ContractError ''task_graph_v2.repair_slots''
               (''must contain exactly '' @ show_nat expected_slot_count @
                '' slots for the final-verification cap''))
           # map (check_repair_slot (required_ordinary_ids g) repair_slots)
               [0..<length repair_slots]))"

definition validate_pair_digests ::
  "(string \<Rightarrow> string) \<Rightarrow> v2_encoders \<Rightarrow> task_graph_v2 \<Rightarrow> sprint_spec_v2 \<Rightarrow> contract_result" where
  "validate_pair_digests sha enc g s =
     bind_ok (computed_repair_slot_reserve_digest sha enc g)
     (\<lambda>reserve_digest. bind_ok (ensure
          (g2_repair_slot_reserve_digest g = reserve_digest \<and>
           s2_repair_slot_reserve_digest s = reserve_digest)
          (ContractError ''task_graph_v2.repair_slot_reserve_digest''
            ''graph and sprint must bind the exact ordered repair-slot reserve''))
     (\<lambda>_. bind_ok (payload_digest sha enc g)
     (\<lambda>payload. bind_ok (ensure (payload = s2_task_graph_payload_digest s)
          (ContractError ''sprint_spec_v2.task_graph_payload_digest''
            ''does not match the paired canonical graph payload''))
     (\<lambda>_. bind_ok (sprint_v2_digest sha (ve_sprint enc) s)
     (\<lambda>spec. ensure (spec = g2_sprint_spec_digest g)
          (ContractError ''task_graph_v2.sprint_spec_digest''
            ''does not match the complete paired canonical sprint spec''))))))"

definition validate_pair ::
  "(string \<Rightarrow> string) \<Rightarrow> v2_encoders \<Rightarrow> task_graph_v2 \<Rightarrow> sprint_spec_v2 \<Rightarrow> contract_result" where
  "validate_pair sha enc g s = seq
     [validate_graph_shape g s,
      validate_ordinary_criterion_coverage g s,
      validate_repair_slots g s,
      validate_pair_digests sha enc g s]"

definition graph_v2_bytes ::
  "(string \<Rightarrow> string) \<Rightarrow> v2_encoders \<Rightarrow> task_graph_v2 \<Rightarrow> sprint_spec_v2 \<Rightarrow>
   contract_error + string" where
  "graph_v2_bytes sha enc g s = bind_ok (validate_pair sha enc g s)
     (\<lambda>_. encode_canonical (ve_graph enc) ''task_graph_v2'' g)"

definition graph_v2_from_bytes ::
  "(string \<Rightarrow> string) \<Rightarrow> v2_encoders \<Rightarrow> task_graph_v2 decoder \<Rightarrow> string \<Rightarrow> sprint_spec_v2 \<Rightarrow>
   contract_error + task_graph_v2" where
  "graph_v2_from_bytes sha enc dec bytes s =
     bind_ok (decode_canonical_shape (ve_graph enc) dec ''task_graph_v2'' bytes)
       (\<lambda>g. bind_ok (validate_pair sha enc g s) (\<lambda>_. Inr g))"

definition graph_v2_digest ::
  "(string \<Rightarrow> string) \<Rightarrow> v2_encoders \<Rightarrow> task_graph_v2 \<Rightarrow> sprint_spec_v2 \<Rightarrow>
   contract_error + digest" where
  "graph_v2_digest sha enc g s = bind_ok (graph_v2_bytes sha enc g s)
     (\<lambda>bytes. Inr (domain_digest sha TASK_GRAPH_V2_DIGEST_DOMAIN bytes))"

end
