(* ===== verification/Pair_Facts.thy ===== *)
theory Pair_Facts
  imports Authority_V2
begin

text \<open>
  What an accepted V2 pair guarantees. The relationship check is the work list of theory Kahn
  over views of the tasks, so its acceptance is \<open>relationship_passes_iff\<close> again; the repair
  slots of an accepted graph form one chain behind every required ordinary task; and the byte
  readers accept exactly what the byte writers produce.
\<close>

lemma require_v2_version_ok [simp, ok_iff]:
  "require_v2_version f v = Inr u \<longleftrightarrow> v = SPRINT_AUTHORITY_CONTRACT_VERSION_V2"
  by (simp add: require_v2_version_def)

lemma encode_canonical_ok [simp, ok_iff]: "encode_canonical enc f v = Inr b \<longleftrightarrow> enc v = Inr b"
  by (simp add: encode_canonical_def)

section \<open>Relationships\<close>

definition as_task :: "task_relationship_view \<Rightarrow> task_spec" where
  "as_task v = \<lparr>ts_task_id = rv_task_id v, ts_goal = [], ts_dependencies = rv_dependencies v,
     ts_path_scopes = [], ts_acceptance_checks = rv_acceptance_checks v,
     ts_base_snapshot = Digest [], ts_required = False\<rparr>"

definition as_graph :: "task_relationship_view list \<Rightarrow> task_graph" where
  "as_graph vs = \<lparr>tg_graph_id = [], tg_tasks = map as_task vs\<rparr>"

lemma as_graph_simps [simp]:
  "task_ids (as_graph vs) = map rv_task_id vs" "tg_tasks (as_graph vs) = map as_task vs"
  by (simp_all add: task_ids_def as_graph_def as_task_def)

lemma as_task_simps [simp]:
  "ts_dependencies (as_task v) = rv_dependencies v" "ts_task_id (as_task v) = rv_task_id v"
  "ts_acceptance_checks (as_task v) = rv_acceptance_checks v"
  by (simp_all add: as_task_def)

lemma relationship_indices_ok:
  "relationship_indices index vs indices = Inr indices' \<longleftrightarrow>
     distinct (map rv_task_id vs) \<and> (\<forall>i\<in>set (map rv_task_id vs). indices i = None) \<and>
     indices' = indices(map rv_task_id vs [\<mapsto>] [index..<index + length vs])"
proof (induction vs arbitrary: index indices)
  case Nil
  then show ?case by auto
next
  case (Cons v vs)
  have "relationship_indices index (v # vs) indices = Inr indices' \<longleftrightarrow>
      indices (rv_task_id v) = None \<and>
      relationship_indices (Suc index) vs (indices(rv_task_id v \<mapsto> index)) = Inr indices'"
    by simp
  then show ?case
    unfolding Cons.IH
    using indices_Cons [of indices "rv_task_id v" "map rv_task_id vs" index indices']
    by (simp del: map_upds_twist fun_upd_apply upt_Suc map_upds_Cons)
qed

lemma reference_loop_eq:
  "reference_loop indices criteria index vs covered tables =
     link_tasks indices criteria index (map as_task vs) covered tables"
proof (induction vs arbitrary: index covered tables)
  case (Cons v vs)
  show ?case
    by (cases "cover_criteria criteria (rv_acceptance_checks v) covered";
        cases "link_dependencies indices index (rv_dependencies v) tables")
      (simp_all add: Cons.IH validate_task_references_def)
qed simp

lemma relationships_iff:
  "validate_graph_relationships acs vs = Inr () \<longleftrightarrow>
     distinct (map rv_task_id vs) \<and>
     (\<Union>v\<in>set vs. set (rv_acceptance_checks v)) = set (map ac_criterion_id acs) \<and>
     (\<forall>v\<in>set vs. set (rv_dependencies v) \<subseteq> set (map rv_task_id vs)) \<and>
     acyclic (depends_on (as_graph vs))"
proof (cases "distinct (map rv_task_id vs)")
  case True
  let ?n = "length vs" and ?crit = "set (map ac_criterion_id acs)" and ?ids = "map rv_task_id vs"
  let ?link = "link_tasks [?ids [\<mapsto>] [0..<?n]] ?crit 0 (map as_task vs) {}
    (replicate ?n 0, replicate ?n [])"
  have indices: "relationship_indices 0 vs Map.empty = Inr [?ids [\<mapsto>] [0..<?n]]"
    using True by (simp add: relationship_indices_ok)
  have len: "length indegrees = ?n" if "?link = Inr (covered, indegrees, D)" for covered indegrees D
    using tables(2) [of "map as_task vs" ?crit covered indegrees D] True that
    by (simp add: comp_def)
  have "validate_graph_relationships acs vs = Inr () \<longleftrightarrow>
      (\<exists>covered indegrees D. ?link = Inr (covered, indegrees, D) \<and> covered = ?crit \<and>
        kahn D indegrees (initially_ready indegrees) 0 = Some (length indegrees))"
    by (simp add: validate_graph_relationships_def Let_def indices reference_loop_eq bind_ok_Inr
        validate_acyclic_graph_def split_paired_Ex)
  also have "\<dots> \<longleftrightarrow> (\<exists>covered indegrees D. ?link = Inr (covered, indegrees, D) \<and>
      covered = ?crit \<and> kahn D indegrees (initially_ready indegrees) 0 = Some ?n)"
    using len by metis
  finally show ?thesis
    using relationship_passes_iff [of "as_graph vs" ?crit] True by simp
next
  case False
  then have "relationship_indices 0 vs Map.empty \<noteq> Inr m" for m
    by (simp add: relationship_indices_ok)
  with False show ?thesis
    by (simp add: validate_graph_relationships_def Let_def bind_ok_Inr)
qed

section \<open>Accepted pairs\<close>

text \<open>\<open>(d, i)\<close>: the task \<open>i\<close> names \<open>d\<close> as a dependency.\<close>

definition task_order :: "task_graph_v2 \<Rightarrow> (string \<times> string) set" where
  "task_order g = {(d, i). \<exists>t\<in>set (g2_tasks g). t2_task_id t = i \<and> d \<in> set (t2_dependencies t)}"

lemma task_order_views: "depends_on (as_graph (map relationship_view (g2_tasks g))) = task_order g"
  by (auto simp: depends_on_def task_order_def relationship_view_def)

lemma validate_pairD:
  assumes "validate_pair sha enc g s = Inr ()"
  shows "validate_sprint_v2 s = Inr ()" "g2_sprint_id g = s2_sprint_id s"
    and "\<forall>t\<in>set (g2_tasks g). validate_task_v2 t = Inr () \<and> t2_base_snapshot t = s2_base_snapshot s"
    and "distinct (map t2_task_id (g2_tasks g))" "acyclic (task_order g)"
    and "\<forall>t\<in>set (g2_tasks g). set (t2_dependencies t) \<subseteq> t2_task_id ` set (g2_tasks g)"
    and "validate_repair_slots g s = Inr ()"
    and "length (g2_tasks g) \<le> b2_max_tasks (s2_budget s)"
proof -
  from assms have shape: "validate_graph_shape g s = Inr ()"
    and "validate_repair_slots g s = Inr ()"
    by (simp_all add: validate_pair_def)
  then show "validate_repair_slots g s = Inr ()" by simp
  from shape show "validate_sprint_v2 s = Inr ()" "g2_sprint_id g = s2_sprint_id s"
    "length (g2_tasks g) \<le> b2_max_tasks (s2_budget s)"
    by (simp_all add: validate_graph_shape_def)
  from shape show
    "\<forall>t\<in>set (g2_tasks g). validate_task_v2 t = Inr () \<and> t2_base_snapshot t = s2_base_snapshot s"
    "distinct (map t2_task_id (g2_tasks g))"
    by (simp_all add: validate_graph_shape_def each_unique_ok)
  from shape have "validate_graph_relationships (s2_acceptance_criteria s)
      (map relationship_view (g2_tasks g)) = Inr ()"
    by (simp add: validate_graph_shape_def)
  then show "acyclic (task_order g)"
    "\<forall>t\<in>set (g2_tasks g). set (t2_dependencies t) \<subseteq> t2_task_id ` set (g2_tasks g)"
    by (simp_all add: relationships_iff task_order_views relationship_view_def image_image)
qed

lemma validate_sprint_v2D:
  assumes "validate_sprint_v2 s = Inr ()"
  shows "1 \<le> unat (b2_max_final_verification_attempts (s2_budget s))"
    and "unat (b2_max_final_verification_attempts (s2_budget s)) \<le> 3"
    and "unat (s2_max_workers s) \<le> 3"
  using assms
  by (auto simp: validate_sprint_v2_def validate_budget_v2_def word_le_nat_alt
      validate_sprint_workers_and_grant_def
      MIN_FINAL_VERIFICATION_ATTEMPTS_def MAX_FINAL_VERIFICATION_ATTEMPTS_def)

section \<open>The chain of repair slots\<close>

lemma slot_index_ordinal_Some: "slot_index_ordinal k = Some w \<longleftrightarrow> k + 1 < 256 \<and> w = of_nat (k + 1)"
  by (auto simp: slot_index_ordinal_def)

lemma purpose_slot_ordinal_Some:
  "purpose_slot_ordinal p = Some k \<longleftrightarrow> p = FinalVerificationRepairSlot k"
  by (cases p) auto

lemma check_repair_slotD:
  assumes "check_repair_slot required slots index = Inr ()"
  shows "t2_purpose (slots ! index) = FinalVerificationRepairSlot (of_nat (index + 1))"
    and "required \<subseteq> set (t2_dependencies (slots ! index))"
    and "set (t2_dependencies (slots ! index)) \<inter> set (map t2_task_id slots) =
      (if index = 0 then {} else {t2_task_id (slots ! (index - 1))})"
  using assms
  by (auto simp: check_repair_slot_def Let_def bind_ok_Inr slot_index_ordinal_Some
      purpose_slot_ordinal_Some simp del: of_nat_Suc)

lemma repair_slots_length:
  assumes "validate_repair_slots g s = Inr ()"
  shows "length (repair_slots_of g) = unat (b2_max_final_verification_attempts (s2_budget s)) - 1"
  using assms by (simp add: validate_repair_slots_def Let_def u8_saturating_sub_def)

lemma repair_slot_checks:
  assumes "validate_repair_slots g s = Inr ()" "k < length (repair_slots_of g)"
  shows "check_repair_slot (required_ordinary_ids g) (repair_slots_of g) k = Inr ()"
  using assms by (auto simp: validate_repair_slots_def Let_def seq_map_ok)

lemma slot_in_graph:
  assumes "k < length (repair_slots_of g)"
  shows "repair_slots_of g ! k \<in> set (g2_tasks g)" "is_repair_slot (repair_slots_of g ! k)"
  using nth_mem [OF assms] by (auto simp: repair_slots_of_def)

lemma slot_after_required:
  assumes "validate_pair sha enc g s = Inr ()" "k < length (repair_slots_of g)"
    and "i \<in> required_ordinary_ids g"
  shows "(i, t2_task_id (repair_slots_of g ! k)) \<in> task_order g"
  using check_repair_slotD(2) [OF repair_slot_checks [OF validate_pairD(7)]] slot_in_graph(1) assms
  unfolding task_order_def by blast

lemma slot_after_previous:
  assumes "validate_pair sha enc g s = Inr ()" "Suc k < length (repair_slots_of g)"
  shows "(t2_task_id (repair_slots_of g ! k), t2_task_id (repair_slots_of g ! Suc k)) \<in> task_order g"
proof -
  have "t2_task_id (repair_slots_of g ! k) \<in> set (t2_dependencies (repair_slots_of g ! Suc k))"
    using check_repair_slotD(3) [OF repair_slot_checks [OF validate_pairD(7) [OF assms(1)] assms(2)]]
    by auto
  with slot_in_graph(1) [OF assms(2)] show ?thesis by (auto simp: task_order_def)
qed

lemma slot_chain:
  assumes pair: "validate_pair sha enc g s = Inr ()"
  shows "j < k \<Longrightarrow> k < length (repair_slots_of g) \<Longrightarrow>
    (t2_task_id (repair_slots_of g ! j), t2_task_id (repair_slots_of g ! k)) \<in> (task_order g)\<^sup>+"
proof (induction k)
  case (Suc k)
  show ?case
  proof (cases "j = k")
    case True
    with slot_after_previous [OF pair Suc.prems(2)] show ?thesis by simp
  next
    case False
    with Suc have "(t2_task_id (repair_slots_of g ! j), t2_task_id (repair_slots_of g ! k))
        \<in> (task_order g)\<^sup>+"
      by simp
    from this slot_after_previous [OF pair Suc.prems(2)] show ?thesis by (rule trancl_into_trancl)
  qed
qed simp

lemma repair_slots_chain:
  assumes "validate_pair sha enc g s = Inr ()"
  shows "map t2_purpose (repair_slots_of g) =
      map (\<lambda>k. FinalVerificationRepairSlot (of_nat k))
        [1..<unat (b2_max_final_verification_attempts (s2_budget s))]"
    and "length (repair_slots_of g) \<le> 2"
    and "sorted_wrt (\<lambda>a b. (t2_task_id a, t2_task_id b) \<in> (task_order g)\<^sup>+) (repair_slots_of g)"
    and "\<And>i t. i \<in> required_ordinary_ids g \<Longrightarrow> t \<in> set (repair_slots_of g) \<Longrightarrow>
      (i, t2_task_id t) \<in> task_order g \<and> (t2_task_id t, i) \<notin> (task_order g)\<^sup>*"
proof -
  note V = validate_pairD [OF assms]
  let ?slots = "repair_slots_of g"
  have len: "length ?slots = unat (b2_max_final_verification_attempts (s2_budget s)) - 1"
    by (rule repair_slots_length [OF V(7)])
  show "length ?slots \<le> 2"
    using len validate_sprint_v2D(2) [OF V(1)] by simp
  show "map t2_purpose ?slots = map (\<lambda>k. FinalVerificationRepairSlot (of_nat k))
      [1..<unat (b2_max_final_verification_attempts (s2_budget s))]"
    using len check_repair_slotD(1) [OF repair_slot_checks [OF V(7)]]
    by (intro nth_equalityI) auto
  show "sorted_wrt (\<lambda>a b. (t2_task_id a, t2_task_id b) \<in> (task_order g)\<^sup>+) ?slots"
    using slot_chain [OF assms] by (simp add: sorted_wrt_iff_nth_less)
  fix i t assume "i \<in> required_ordinary_ids g" "t \<in> set ?slots"
  then have before: "(i, t2_task_id t) \<in> task_order g"
    using slot_after_required [OF assms] by (auto simp: in_set_conv_nth)
  have "(t2_task_id t, i) \<notin> (task_order g)\<^sup>*"
    using before V(5) rtrancl_into_trancl1 [of "t2_task_id t" i "task_order g" "t2_task_id t"]
    unfolding acyclic_def by blast
  with before show "(i, t2_task_id t) \<in> task_order g \<and> (t2_task_id t, i) \<notin> (task_order g)\<^sup>*"
    by blast
qed

text \<open>
  C23. The repair slots of an accepted V2 pair are one for each final-verification attempt after
  the first, at most two, numbered from one in graph order. Each slot comes after all earlier
  slots in the dependency order and directly after every required ordinary task, so no required
  ordinary task ever waits for a repair.
\<close>

theorem repair_slots_form_a_chain:
  assumes "validate_pair sha enc g s = Inr ()"
  shows "map t2_purpose (repair_slots_of g) =
      map (\<lambda>k. FinalVerificationRepairSlot (of_nat k))
        [1..<unat (b2_max_final_verification_attempts (s2_budget s))] \<and>
    length (repair_slots_of g) \<le> 2 \<and>
    sorted_wrt (\<lambda>a b. (t2_task_id a, t2_task_id b) \<in> (task_order g)\<^sup>+) (repair_slots_of g) \<and>
    (\<forall>i\<in>required_ordinary_ids g. \<forall>t\<in>set (repair_slots_of g).
      (i, t2_task_id t) \<in> task_order g \<and> (t2_task_id t, i) \<notin> (task_order g)\<^sup>*)"
  using repair_slots_chain [OF assms] by blast

section \<open>Canonical bytes\<close>

lemma decode_canonical_shape_iff:
  assumes "\<And>b. enc v = Inr b \<Longrightarrow> dec b = Inr v"
  shows "decode_canonical_shape enc dec field bytes = Inr v \<longleftrightarrow> enc v = Inr bytes"
  using assms by (auto simp: decode_canonical_shape_def bind_ok_Inr)

lemma decode_canonical_iff:
  assumes "\<And>b. enc v = Inr b \<Longrightarrow> dec b = Inr v"
  shows "decode_canonical enc dec field bytes validate = Inr v \<longleftrightarrow>
    validate v = Inr () \<and> enc v = Inr bytes"
  using decode_canonical_shape_iff [of enc v dec, OF assms]
  by (auto simp: decode_canonical_def bind_ok_Inr)

text \<open>
  Reading a V2 graph back from bytes succeeds with a graph exactly on the bytes that writing
  that graph gives, against the same sprint: each graph has one accepted encoding. The
  hypothesis is the round trip of \<open>serde_json\<close> on this graph. The same holds for V2 sprints
  and, without digests, for the two frozen V1 records.
\<close>

theorem graph_bytes_round_trip:
  assumes "\<And>b. ve_graph enc g = Inr b \<Longrightarrow> dec b = Inr g"
  shows "graph_v2_from_bytes sha enc dec bytes s = Inr g \<longleftrightarrow> graph_v2_bytes sha enc g s = Inr bytes"
  using decode_canonical_shape_iff [of "ve_graph enc" g dec, OF assms]
  by (auto simp: graph_v2_from_bytes_def graph_v2_bytes_def bind_ok_Inr)

lemma sprint_bytes_round_trip:
  assumes "\<And>b. enc s = Inr b \<Longrightarrow> dec b = Inr s"
  shows "sprint_v2_from_bytes enc dec bytes = Inr s \<longleftrightarrow> sprint_v2_bytes enc s = Inr bytes"
  using decode_canonical_iff [of enc s dec, OF assms]
  by (auto simp: sprint_v2_from_bytes_def sprint_v2_bytes_def)

lemma legacy_sprint_round_trip:
  assumes "\<And>b. enc s = Inr b \<Longrightarrow> dec b = Inr s"
  shows "legacy_sprint_from_bytes enc dec bytes = Inr s \<longleftrightarrow> legacy_sprint_bytes enc s = Inr bytes"
  using decode_canonical_iff [of enc s dec, OF assms]
  by (auto simp: legacy_sprint_from_bytes_def legacy_sprint_bytes_def)

lemma legacy_graph_round_trip:
  assumes "\<And>b. enc g = Inr b \<Longrightarrow> dec b = Inr g"
  shows "legacy_graph_from_bytes enc dec bytes s = Inr g \<longleftrightarrow> legacy_graph_bytes enc g s = Inr bytes"
  using decode_canonical_shape_iff [of enc g dec, OF assms]
  by (auto simp: legacy_graph_from_bytes_def legacy_graph_bytes_def bind_ok_Inr)

end
