(* ===== verification/Repair_Permits.thy ===== *)
theory Repair_Permits
  imports Scheduler Pair_Facts
begin

text \<open>
  Repair authority: the activation record and the sealed permit of
  \<open>ledger/final_verification_authority_v32.rs\<close>, and \<open>transition_current_v2_task\<close> of
  \<open>state.rs\<close>, which lets a repair slot leave \<open>Planned\<close> for work only with such a permit. The
  ledger writes that mint activations are SQL and are not modelled; a permit is any value its
  own validation accepts.
\<close>

definition graph_task_v2 :: "task_graph_v2 \<Rightarrow> string \<Rightarrow> task_spec_v2 option" where
  "graph_task_v2 g task_id = find (\<lambda>t. t2_task_id t = task_id) (g2_tasks g)"

record repair_activation =
  rn_activation_version :: u32
  rn_activation_id :: string
  rn_sprint_id :: string
  rn_failed_attempt_id :: string
  rn_failure_outcome_id :: string
  rn_failed_snapshot :: digest
  rn_slot_ordinal :: u8
  rn_repair_task_id :: string
  rn_activated_at_unix_ms :: u64

definition validate_repair_activation :: "repair_activation \<Rightarrow> contract_result" where
  "validate_repair_activation a = seq
     [require_version ''current_final_verification_repair_activation.activation_version''
        (rn_activation_version a),
      require_nonblank ''current_final_verification_repair_activation.activation_id''
        (rn_activation_id a),
      require_nonblank ''current_final_verification_repair_activation.sprint_id'' (rn_sprint_id a),
      require_nonblank ''current_final_verification_repair_activation.failed_attempt_id''
        (rn_failed_attempt_id a),
      require_nonblank ''current_final_verification_repair_activation.failure_outcome_id''
        (rn_failure_outcome_id a),
      require_nonblank ''current_final_verification_repair_activation.repair_task_id''
        (rn_repair_task_id a),
      ensure (1 \<le> rn_slot_ordinal a \<and> rn_slot_ordinal a \<le> 2)
        (ContractError ''current_final_verification_repair_activation.slot_ordinal''
          ''must be one or two''),
      require_nonzero_timestamp ''current_final_verification_repair_activation.activated_at_unix_ms''
        (rn_activated_at_unix_ms a)]"

record repair_permit =
  pt_activation :: repair_activation
  pt_sprint_spec_digest :: digest
  pt_task_graph_digest :: digest
  pt_repair_slot_reserve_digest :: digest

definition validate_permit ::
  "(string \<Rightarrow> string) \<Rightarrow> v2_encoders \<Rightarrow> repair_permit \<Rightarrow> sprint_spec_v2 \<Rightarrow> task_graph_v2 \<Rightarrow>
   contract_result" where
  "validate_permit sha enc p s g =
     (let crossed = ContractError ''current_repair_activation_permit.authority''
        ''must bind the exact current V2 sprint, graph, and repair reserve'' in
      bind_ok (seq
        [validate_repair_activation (pt_activation p),
         validate_pair sha enc g s,
         ensure (rn_sprint_id (pt_activation p) = s2_sprint_id s) crossed])
      (\<lambda>_. bind_ok (sprint_v2_digest sha (ve_sprint enc) s)
      (\<lambda>spec. bind_ok (ensure (pt_sprint_spec_digest p = spec) crossed)
      (\<lambda>_. bind_ok (graph_v2_digest sha enc g s)
      (\<lambda>graph. bind_ok (seq
        [ensure (pt_task_graph_digest p = graph) crossed,
         ensure (pt_repair_slot_reserve_digest p = g2_repair_slot_reserve_digest g) crossed])
      (\<lambda>_. bind_ok (ok_or (graph_task_v2 g (rn_repair_task_id (pt_activation p)))
        (ContractError ''current_repair_activation_permit.repair_task_id''
          ''does not name a task in the bound graph''))
      (\<lambda>task. ensure
        (t2_purpose task = FinalVerificationRepairSlot (rn_slot_ordinal (pt_activation p)))
        (ContractError ''current_repair_activation_permit.slot_ordinal''
          ''does not match the exact predeclared repair task''))))))))"

definition permit_from_persisted ::
  "(string \<Rightarrow> string) \<Rightarrow> v2_encoders \<Rightarrow> repair_activation \<Rightarrow> sprint_spec_v2 \<Rightarrow> task_graph_v2 \<Rightarrow>
   contract_error + repair_permit" where
  "permit_from_persisted sha enc activation s g =
     bind_ok (validate_pair sha enc g s)
     (\<lambda>_. bind_ok (sprint_v2_digest sha (ve_sprint enc) s)
     (\<lambda>spec. bind_ok (graph_v2_digest sha enc g s)
     (\<lambda>graph. let permit = \<lparr>pt_activation = activation, pt_sprint_spec_digest = spec,
         pt_task_graph_digest = graph,
         pt_repair_slot_reserve_digest = g2_repair_slot_reserve_digest g\<rparr> in
       bind_ok (validate_permit sha enc permit s g) (\<lambda>_. Inr permit))))"

definition transition_current_v2_task ::
  "(string \<Rightarrow> string) \<Rightarrow> v2_encoders \<Rightarrow> sprint_spec_v2 \<Rightarrow> task_graph_v2 \<Rightarrow> string \<Rightarrow>
   task_state \<Rightarrow> task_state \<Rightarrow> repair_permit option \<Rightarrow> contract_error + task_state" where
  "transition_current_v2_task sha enc s g task_id current_state next_state permit =
     bind_ok (validate_pair sha enc g s)
     (\<lambda>_. bind_ok (ok_or (graph_task_v2 g task_id)
        (ContractError ''current_v2_task_transition.task_id''
          ''does not name a task in the exact bound graph''))
     (\<lambda>task. bind_ok (validate_task_v2 task)
     (\<lambda>_. bind_ok (map_err (\<lambda>_. ContractError ''current_v2_task_transition.state''
          (''transition from '' @ show_task_state current_state @ '' to '' @
           show_task_state next_state @ '' is not permitted''))
          (task_transition current_state next_state))
     (\<lambda>transitioned. bind_ok
       (case t2_purpose task of
          Ordinary \<Rightarrow> ensure (permit = None)
            (ContractError ''current_v2_task_transition.repair_activation_permit''
              ''ordinary tasks cannot consume repair-slot authority'')
        | FinalVerificationRepairSlot _ \<Rightarrow>
            if execution_bearing transitioned
            then bind_ok (ok_or permit
                (ContractError ''current_v2_task_transition.repair_activation_permit''
                  ''a repair slot cannot leave dormancy without its exact activation permit''))
              (\<lambda>p. seq
                [validate_permit sha enc p s g,
                 ensure (rn_repair_task_id (pt_activation p) = t2_task_id task)
                   (ContractError ''current_v2_task_transition.repair_activation_permit''
                     ''activation permit names a different repair task'')])
            else Inr ())
     (\<lambda>_. Inr transitioned)))))"

section \<open>Acceptance\<close>

lemma graph_task_v2_Some:
  assumes "validate_pair sha enc g s = Inr ()"
  shows "graph_task_v2 g i = Some t \<longleftrightarrow> t \<in> set (g2_tasks g) \<and> t2_task_id t = i"
  unfolding graph_task_v2_def
  using find_unique [OF validate_pairD(4) [OF assms], of t i] by (auto dest: find_SomeD)

text \<open>A permit held for a task of a pair.\<close>

definition permit_covers ::
  "(string \<Rightarrow> string) \<Rightarrow> v2_encoders \<Rightarrow> sprint_spec_v2 \<Rightarrow> task_graph_v2 \<Rightarrow> string \<Rightarrow>
   repair_permit option \<Rightarrow> bool" where
  "permit_covers sha enc s g task_id permit \<longleftrightarrow>
     (\<exists>p. permit = Some p \<and> validate_permit sha enc p s g = Inr () \<and>
       rn_repair_task_id (pt_activation p) = task_id)"

lemma transition_v2_iff:
  "transition_current_v2_task sha enc s g task_id cur nxt permit = Inr u \<longleftrightarrow>
     validate_pair sha enc g s = Inr () \<and> task_transition cur nxt = Inr u \<and>
     (\<exists>t\<in>set (g2_tasks g). t2_task_id t = task_id \<and>
       (if is_repair_slot t
        then execution_bearing u \<longrightarrow> permit_covers sha enc s g task_id permit
        else permit = None))"
  (is "?step \<longleftrightarrow> ?pair \<and> ?table \<and> (\<exists>t\<in>_. ?at t \<and> ?authority t)")
proof (cases ?pair)
  case pair: True
  note at = graph_task_v2_Some [OF pair, of task_id]
  show ?thesis
  proof (cases "graph_task_v2 g task_id")
    case None
    then show ?thesis using at by (auto simp: transition_current_v2_task_def)
  next
    case (Some t)
    then have t: "t \<in> set (g2_tasks g)" "t2_task_id t = task_id" using at by auto
    then have "validate_task_v2 t = Inr ()" using validate_pairD(3) [OF pair] by blast
    with Some pair t(2) have "?step \<longleftrightarrow> ?table \<and> ?authority t"
      by (cases "t2_purpose t")
        (auto simp: transition_current_v2_task_def bind_ok_Inr is_repair_slot_def permit_covers_def)
    moreover have "(\<exists>t\<in>set (g2_tasks g). ?at t \<and> P t) \<longleftrightarrow> P t" for P
      using at [of t] at Some by (metis option.inject)
    ultimately show ?thesis using pair by (simp only: simp_thms)
  qed
next
  case False
  then show ?thesis by (auto simp: transition_current_v2_task_def bind_ok_Inr)
qed

lemma validate_permitD:
  assumes "validate_permit sha enc p s g = Inr ()"
  shows "validate_repair_activation (pt_activation p) = Inr ()" "validate_pair sha enc g s = Inr ()"
    and "rn_sprint_id (pt_activation p) = s2_sprint_id s"
    and "sprint_v2_digest sha (ve_sprint enc) s = Inr (pt_sprint_spec_digest p)"
    and "graph_v2_digest sha enc g s = Inr (pt_task_graph_digest p)"
    and "\<exists>t\<in>set (g2_tasks g). t2_task_id t = rn_repair_task_id (pt_activation p) \<and>
      t2_purpose t = FinalVerificationRepairSlot (rn_slot_ordinal (pt_activation p))"
proof -
  show "validate_repair_activation (pt_activation p) = Inr ()"
    and pair: "validate_pair sha enc g s = Inr ()"
    and "rn_sprint_id (pt_activation p) = s2_sprint_id s"
    and "sprint_v2_digest sha (ve_sprint enc) s = Inr (pt_sprint_spec_digest p)"
    and "graph_v2_digest sha enc g s = Inr (pt_task_graph_digest p)"
    using assms by (auto simp: validate_permit_def Let_def bind_ok_Inr)
  from assms obtain t where "graph_task_v2 g (rn_repair_task_id (pt_activation p)) = Some t"
    "t2_purpose t = FinalVerificationRepairSlot (rn_slot_ordinal (pt_activation p))"
    by (auto simp: validate_permit_def Let_def bind_ok_Inr)
  then show "\<exists>t\<in>set (g2_tasks g). t2_task_id t = rn_repair_task_id (pt_activation p) \<and>
      t2_purpose t = FinalVerificationRepairSlot (rn_slot_ordinal (pt_activation p))"
    using graph_task_v2_Some [OF pair] by blast
qed

section \<open>Runs of one task\<close>

text \<open>The requested states, each with the permit handed to that step.\<close>

fun v2_run ::
  "(string \<Rightarrow> string) \<Rightarrow> v2_encoders \<Rightarrow> sprint_spec_v2 \<Rightarrow> task_graph_v2 \<Rightarrow> string \<Rightarrow> task_state \<Rightarrow>
   (task_state \<times> repair_permit option) list \<Rightarrow> contract_error + task_state" where
  "v2_run sha enc s g i cur [] = Inr cur"
| "v2_run sha enc s g i cur ((nxt, permit) # ps) =
     bind_ok (transition_current_v2_task sha enc s g i cur nxt permit)
       (\<lambda>u. v2_run sha enc s g i u ps)"

lemma v2_runD:
  assumes "v2_run sha enc s g i cur ps = Inr u"
    and t: "t \<in> set (g2_tasks g)" "t2_task_id t = i" "is_repair_slot t"
  shows "run_steps task_transition cur (map fst ps) = Inr u \<and>
    (\<forall>(nxt, permit)\<in>set ps. execution_bearing nxt \<longrightarrow> permit_covers sha enc s g i permit)"
  using assms(1)
proof (induction ps arbitrary: cur)
  case (Cons p ps)
  obtain nxt permit where p: "p = (nxt, permit)" by (cases p)
  from Cons.prems obtain v where
      step: "transition_current_v2_task sha enc s g i cur nxt permit = Inr v"
    and rest: "v2_run sha enc s g i v ps = Inr u"
    by (auto simp: p bind_ok_Inr)
  from step have pair: "validate_pair sha enc g s = Inr ()" and table: "task_transition cur nxt = Inr v"
    and "\<exists>x\<in>set (g2_tasks g). t2_task_id x = i \<and>
      (if is_repair_slot x then execution_bearing v \<longrightarrow> permit_covers sha enc s g i permit
       else permit = None)"
    unfolding transition_v2_iff by auto
  then have "execution_bearing v \<longrightarrow> permit_covers sha enc s g i permit"
    using graph_task_v2_Some [OF pair, of i] t by (metis option.inject)
  moreover have "v = nxt" using table by (auto simp: task_transition_def Let_def split: if_splits)
  ultimately show ?case using Cons.IH [OF rest] table by (simp add: p)
qed simp

text \<open>
  C22. A repair slot never works without a permit. When a run takes a repair slot from
  \<open>Planned\<close> to \<open>Integrated\<close>, it went through the whole pipeline, and at each of the six steps it
  was handed a permit that is valid for this sprint and graph and names this slot.
\<close>

theorem integrated_repair_was_permitted:
  assumes "v2_run sha enc s g (t2_task_id t) T_Planned ps = Inr T_Integrated"
    and "t \<in> set (g2_tasks g)" "is_repair_slot t"
  shows "T_Planned # map fst ps = task_pipeline \<and>
    (\<forall>(nxt, permit)\<in>set ps. permit_covers sha enc s g (t2_task_id t) permit)"
proof -
  note R = v2_runD [OF assms(1,2) refl assms(3)]
  then obtain pre where "task_pipeline = pre @ T_Planned # map fst ps"
    using run_to_integrated by blast
  then have pipe: "T_Planned # map fst ps = task_pipeline"
    by (auto simp: task_pipeline_def Cons_eq_append_conv)
  then have "map fst ps = [T_Ready, T_Leased, T_Running, T_Verifying, T_Candidate, T_Integrated]"
    by (simp add: task_pipeline_def)
  then have "\<forall>x\<in>set (map fst ps). execution_bearing x" by (simp add: execution_bearing_def)
  with R pipe show ?thesis by fastforce
qed

text \<open>Without a permit a planned repair slot can only be closed.\<close>

lemma dormant_slot_only_closes:
  assumes "transition_current_v2_task sha enc s g (t2_task_id t) T_Planned nxt None = Inr u"
    and "t \<in> set (g2_tasks g)" "is_repair_slot t"
  shows "u \<in> {T_Blocked, T_Failed, T_Canceled, T_Unknown}"
proof -
  have "v2_run sha enc s g (t2_task_id t) T_Planned [(nxt, None)] = Inr u"
    using assms(1) by simp
  from v2_runD [OF this assms(2) refl assms(3)]
  have step: "task_transition T_Planned nxt = Inr u" and "\<not> execution_bearing nxt"
    by (auto simp: permit_covers_def bind_ok_Inr)
  then show ?thesis by (auto simp: task_table_defs execution_bearing_def split: if_splits)
qed

section \<open>What a permit binds\<close>

text \<open>Two given byte strings are a collision of the hash in one domain.\<close>

definition digests_collide :: "(string \<Rightarrow> string) \<Rightarrow> string \<Rightarrow> string \<Rightarrow> string \<Rightarrow> bool" where
  "digests_collide sha d a b \<longleftrightarrow> a \<noteq> b \<and> domain_digest sha d a = domain_digest sha d b"

lemma encoded_inject:
  assumes "enc x = Inr b" "enc y = Inr b" "\<And>z c. enc z = Inr c \<Longrightarrow> dec c = Inr z"
  shows "x = y"
  using assms(3) [OF assms(1)] assms(3) [OF assms(2)] by simp

text \<open>
  C29. A permit is good for one sprint and one graph: when the same permit is accepted for two
  pairs, then the sprints are equal or their canonical encodings, two different byte strings, have
  the same SHA-256 digest, and likewise the graphs. The hypotheses are the round trip of
  \<open>serde_json\<close> on sprints and on graphs.
\<close>

theorem permit_binds_one_pair:
  assumes "validate_permit sha enc p s g = Inr ()" "validate_permit sha enc p s' g' = Inr ()"
    and "\<And>x b. ve_sprint enc x = Inr b \<Longrightarrow> dec_sprint b = Inr x"
    and "\<And>x b. ve_graph enc x = Inr b \<Longrightarrow> dec_graph b = Inr x"
  shows "\<exists>b b' c c'. ve_sprint enc s = Inr b \<and> ve_sprint enc s' = Inr b' \<and>
    ve_graph enc g = Inr c \<and> ve_graph enc g' = Inr c' \<and>
    (s = s' \<or> digests_collide sha SPRINT_SPEC_V2_DIGEST_DOMAIN b b') \<and>
    (g = g' \<or> digests_collide sha TASK_GRAPH_V2_DIGEST_DOMAIN c c')"
proof -
  note P = validate_permitD [OF assms(1)] and Q = validate_permitD [OF assms(2)]
  from P(4) Q(4) obtain b b' where b: "ve_sprint enc s = Inr b" "ve_sprint enc s' = Inr b'"
    "domain_digest sha SPRINT_SPEC_V2_DIGEST_DOMAIN b = domain_digest sha SPRINT_SPEC_V2_DIGEST_DOMAIN b'"
    by (auto simp: sprint_v2_digest_def sprint_v2_bytes_def bind_ok_Inr)
  moreover from P(5) Q(5) obtain c c' where c: "ve_graph enc g = Inr c" "ve_graph enc g' = Inr c'"
    "domain_digest sha TASK_GRAPH_V2_DIGEST_DOMAIN c = domain_digest sha TASK_GRAPH_V2_DIGEST_DOMAIN c'"
    by (auto simp: graph_v2_digest_def graph_v2_bytes_def bind_ok_Inr)
  moreover have "s = s'" if "b = b'"
    using encoded_inject [of "ve_sprint enc" s b s' dec_sprint] b that assms(3) by blast
  moreover have "g = g'" if "c = c'"
    using encoded_inject [of "ve_graph enc" g c g' dec_graph] c that assms(4) by blast
  ultimately show ?thesis unfolding digests_collide_def by blast
qed

end
