(* ===== verification/Scheduler_V2.thy ===== *)
theory Scheduler_V2
  imports Repair_Permits
begin

text \<open>
  \<open>plan_current_v2_worker_leases\<close> of \<open>scheduler.rs\<close>: the planner over V2 pairs, which keeps
  repair slots dormant unless the caller holds a permit for them. It interprets the shared
  planning loop, and its dependency check together with the chain of repair slots lets at most
  one slot work at a time.
\<close>

record v2_scheduler_input =
  vi_sprint :: sprint_spec_v2
  vi_graph :: task_graph_v2
  vi_task_states :: "(string \<times> task_state) list"
  vi_repair_activation_permits :: "repair_permit list"
  vi_active_leases :: "worker_lease list"
  vi_workspace_blocking_leases :: "worker_lease list"
  vi_available_worker_ids :: "string list"
  vi_next_lease_epoch :: u64
  vi_acquired_at_unix_ms :: u64

definition check_v2_inputs :: "v2_scheduler_input \<Rightarrow> scheduler_result" where
  "check_v2_inputs i = seq
     [ensure (vi_next_lease_epoch i \<noteq> 0)
        (SchedulerError ''current_v2_scheduler.next_lease_epoch'' ''must be greater than zero''),
      ensure (vi_acquired_at_unix_ms i \<noteq> 0)
        (SchedulerError ''current_v2_scheduler.acquired_at_unix_ms'' ''must be greater than zero''),
      ensure (\<not> (length (vi_task_states i) \<noteq> length (g2_tasks (vi_graph i)) \<or>
          list_ex (\<lambda>t. map_of (vi_task_states i) (t2_task_id t) = None) (g2_tasks (vi_graph i)) \<or>
          list_ex (\<lambda>task_id. \<not> list_ex (\<lambda>t. t2_task_id t = task_id) (g2_tasks (vi_graph i)))
            (map fst (vi_task_states i))))
        (SchedulerError ''current_v2_scheduler.task_states''
          ''must contain exactly one state for every bound V2 graph task'')]"

text \<open>The permit loop; \<open>earlier\<close> are the permits already entered in the three tables.\<close>

fun permit_checks ::
  "(string \<Rightarrow> string) \<Rightarrow> v2_encoders \<Rightarrow> v2_scheduler_input \<Rightarrow> repair_permit list \<Rightarrow>
   repair_permit list \<Rightarrow> scheduler_result" where
  "permit_checks sha enc i earlier [] = Inr ()"
| "permit_checks sha enc i earlier (p # ps) = seq
     [map_err from_contract (validate_permit sha enc p (vi_sprint i) (vi_graph i)),
      ensure (\<not> vi_acquired_at_unix_ms i < rn_activated_at_unix_ms (pt_activation p))
        (SchedulerError ''current_v2_scheduler.repair_activation_permits''
          ''lease planning time must not precede repair activation''),
      ensure (\<not> (rn_activation_id (pt_activation p)
            \<in> set (map (\<lambda>q. rn_activation_id (pt_activation q)) earlier) \<or>
          rn_slot_ordinal (pt_activation p)
            \<in> set (map (\<lambda>q. rn_slot_ordinal (pt_activation q)) earlier) \<or>
          rn_repair_task_id (pt_activation p)
            \<in> set (map (\<lambda>q. rn_repair_task_id (pt_activation q)) earlier)))
        (SchedulerError ''current_v2_scheduler.repair_activation_permits''
          ''contains duplicate repair activation, task, or slot authority''),
      permit_checks sha enc i (earlier @ [p]) ps]"

definition has_permit :: "v2_scheduler_input \<Rightarrow> string \<Rightarrow> bool" where
  "has_permit i task_id \<longleftrightarrow> list_ex (\<lambda>p. rn_repair_task_id (pt_activation p) = task_id)
     (vi_repair_activation_permits i)"

definition v2_task_checks :: "v2_scheduler_input \<Rightarrow> task_spec_v2 \<Rightarrow> scheduler_result" where
  "v2_task_checks i t =
     (let state = state_of (vi_task_states i) (t2_task_id t) in seq
       [ensure (\<not> (is_repair_slot t \<and> execution_bearing state \<and> \<not> has_permit i (t2_task_id t)))
          (SchedulerError ''current_v2_scheduler.repair_activation_permits''
            (''repair task '' @ quoted (t2_task_id t) @
             '' escaped Planned dormancy without its exact activation permit'')),
        dependency_state_check ''current_v2_scheduler.task_states'' (vi_task_states i)
          (t2_task_id t) (t2_dependencies t)])"

fun v2_active_checks ::
  "(string \<Rightarrow> string) \<Rightarrow> v2_scheduler_input \<Rightarrow> worker_lease list \<Rightarrow> worker_lease list \<Rightarrow>
   scheduler_result" where
  "v2_active_checks sha i earlier [] = Inr ()"
| "v2_active_checks sha i earlier (l # ls) =
     bind_ok (seq
       [map_err from_contract (validate_worker_lease sha l),
        ensure (\<not> (wl_sprint_id l \<noteq> s2_sprint_id (vi_sprint i) \<or>
                   vi_next_lease_epoch i \<le> wl_lease_epoch l))
          (SchedulerError ''current_v2_scheduler.active_leases''
            ''active lease crosses sprint authority or the first-unused epoch'')])
     (\<lambda>_. bind_ok (ok_or (graph_task_v2 (vi_graph i) (wl_task_id l))
        (SchedulerError ''current_v2_scheduler.active_leases''
          ''active lease names a task outside the bound V2 graph''))
     (\<lambda>task. seq
       [ensure (\<not> (wl_path_scopes l \<noteq> t2_path_scopes task \<or>
            state_of (vi_task_states i) (t2_task_id task)
              \<notin> {T_Leased, T_Running, T_Verifying, T_Candidate, T_Integrated} \<or>
            wl_worker_id l \<in> set (map wl_worker_id earlier) \<or>
            wl_task_id l \<in> set (map wl_task_id earlier) \<or>
            wl_lease_epoch l \<in> set (map wl_lease_epoch earlier)))
          (SchedulerError ''current_v2_scheduler.active_leases''
            ''active lease does not exactly match task state, scope, worker, task, or epoch''),
        ensure (\<not> (is_repair_slot task \<and> \<not> has_permit i (t2_task_id task)))
          (SchedulerError ''current_v2_scheduler.repair_activation_permits''
            ''active repair lease lacks its exact activation permit''),
        seq (map (\<lambda>p. ensure (\<not> scope_sets_conflict (wl_path_scopes l) (wl_path_scopes p))
          (SchedulerError ''current_v2_scheduler.active_leases''
            ''active leases contain conflicting path scopes'')) earlier),
        v2_active_checks sha i (earlier @ [l]) ls]))"

definition v2_agreement_checks :: "v2_scheduler_input \<Rightarrow> scheduler_result" where
  "v2_agreement_checks i = seq
     (map (\<lambda>t. ensure
         (lease_agrees (state_of (vi_task_states i) (t2_task_id t))
            (t2_task_id t \<in> set (map wl_task_id (vi_active_leases i))))
         (SchedulerError ''current_v2_scheduler.active_leases''
           (''task '' @ quoted (t2_task_id t) @ '' state and active-lease presence disagree'')))
       (g2_tasks (vi_graph i)))"

definition validate_external_blockers_v2 ::
  "(string \<Rightarrow> string) \<Rightarrow> sprint_spec_v2 \<Rightarrow> worker_lease list \<Rightarrow> scheduler_result" where
  "validate_external_blockers_v2 sha s blockers =
     (let crossed = SchedulerError ''current_v2_scheduler.workspace_blocking_leases''
        ''must contain unique leases from other sprints only'' in
      each_unique wl_lease_id
        (\<lambda>l. seq [map_err from_contract (validate_worker_lease sha l),
           ensure (wl_sprint_id l \<noteq> s2_sprint_id s) crossed])
        (\<lambda>l. crossed) {} blockers)"

fun v2_worker_checks :: "string set \<Rightarrow> string set \<Rightarrow> string list \<Rightarrow> scheduler_result" where
  "v2_worker_checks active available [] = Inr ()"
| "v2_worker_checks active available (w # ws) = seq
     [validate_worker_identifier ''current_v2_scheduler.available_worker_ids'' w,
      ensure (\<not> (w \<in> active \<or> w \<in> available))
        (SchedulerError ''current_v2_scheduler.available_worker_ids''
          ''workers must be unique and disjoint from active leases''),
      v2_worker_checks active (insert w available) ws]"

definition v2_available_workers :: "v2_scheduler_input \<Rightarrow> scheduler_error + string list" where
  "v2_available_workers i =
     bind_ok (seq
       [ensure (\<not> (MAX_WORKER_POOL_SIZE < length (vi_available_worker_ids i) \<or>
            MAX_WORKER_POOL_SIZE
              < length (vi_active_leases i) + length (vi_available_worker_ids i)))
          (SchedulerError ''current_v2_scheduler.available_worker_ids''
            (''worker pool must not exceed '' @ show_nat MAX_WORKER_POOL_SIZE @ '' identities'')),
        v2_worker_checks (set (map wl_worker_id (vi_active_leases i))) {}
          (vi_available_worker_ids i)])
     (\<lambda>_. Inr (sort (vi_available_worker_ids i)))"

definition v2_eligible :: "v2_scheduler_input \<Rightarrow> task_spec_v2 \<Rightarrow> scheduler_error + bool" where
  "v2_eligible i t = Inr (state_of (vi_task_states i) (t2_task_id t) = T_Ready \<and>
     \<not> (is_repair_slot t \<and> \<not> has_permit i (t2_task_id t)))"

definition v2_blocked :: "v2_scheduler_input \<Rightarrow> task_spec_v2 \<Rightarrow> worker_lease list \<Rightarrow> bool" where
  "v2_blocked i t leases \<longleftrightarrow>
     conflicts_with_existing (t2_path_scopes t) (vi_active_leases i) leases \<or>
     conflicts_with_existing (t2_path_scopes t) (vi_workspace_blocking_leases i) []"

definition v2_lease ::
  "(string \<Rightarrow> string) \<Rightarrow> v2_scheduler_input \<Rightarrow> task_spec_v2 \<Rightarrow> string \<Rightarrow> u64 \<Rightarrow>
   scheduler_error + worker_lease" where
  "v2_lease sha i t = propose_lease sha (s2_sprint_id (vi_sprint i)) (vi_acquired_at_unix_ms i)
     (t2_task_id t) (t2_path_scopes t)"

definition plan_current_v2_worker_leases ::
  "(string \<Rightarrow> string) \<Rightarrow> v2_encoders \<Rightarrow> v2_scheduler_input \<Rightarrow> scheduler_error + schedule_plan" where
  "plan_current_v2_worker_leases sha enc i =
     bind_ok (seq
       [map_err from_contract (validate_pair sha enc (vi_graph i) (vi_sprint i)),
        check_v2_inputs i,
        permit_checks sha enc i [] (vi_repair_activation_permits i),
        seq (map (v2_task_checks i) (g2_tasks (vi_graph i))),
        ensure (length (vi_active_leases i) \<le> unat (s2_max_workers (vi_sprint i)))
          (SchedulerError ''current_v2_scheduler.active_leases''
            ''active lease count exceeds the current sprint worker ceiling''),
        v2_active_checks sha i [] (vi_active_leases i),
        v2_agreement_checks i,
        validate_external_blockers_v2 sha (vi_sprint i) (vi_workspace_blocking_leases i)])
     (\<lambda>_. bind_ok (v2_available_workers i)
     (\<lambda>available_workers. bind_ok (ok_or
         (remaining_capacity (s2_max_workers (vi_sprint i)) (vi_active_leases i))
         (SchedulerError ''current_v2_scheduler.active_leases''
           ''active lease count exceeds the worker ceiling''))
     (\<lambda>remaining. propose (v2_eligible i) (v2_blocked i) (v2_lease sha i)
         (SchedulerError ''current_v2_scheduler.next_lease_epoch''
           ''assigning a lease would overflow the durable epoch'')
         available_workers (min remaining (length available_workers)) []
         (vi_next_lease_epoch i) (g2_tasks (vi_graph i)))))"

section \<open>Acceptance of the checks\<close>

interpretation v2: lease_planner "v2_eligible i" "v2_blocked i" "v2_lease sha i"
  t2_task_id t2_path_scopes "vi_active_leases i @ vi_workspace_blocking_leases i" for sha i
  by unfold_locales
    (auto simp: v2_lease_def v2_blocked_def conflicts_with_existing_iff
      dest: propose_lease_fields)

lemma permit_checks_ok:
  "permit_checks sha enc i earlier ps = Inr () \<Longrightarrow>
     \<forall>p\<in>set ps. validate_permit sha enc p (vi_sprint i) (vi_graph i) = Inr ()"
  by (induction ps arbitrary: earlier) auto

lemma v2_active_checks_ok:
  assumes "v2_active_checks sha i earlier ls = Inr ()"
  shows "pairwise_disjoint ls \<and> distinct (map wl_worker_id ls) \<and>
    wl_worker_id ` set ls \<inter> wl_worker_id ` set earlier = {} \<and>
    (\<forall>l\<in>set ls. \<forall>p\<in>set earlier. \<not> scope_sets_conflict (wl_path_scopes p) (wl_path_scopes l))"
  using assms
proof (induction ls arbitrary: earlier)
  case (Cons l ls)
  from Cons.prems have rest: "v2_active_checks sha i (earlier @ [l]) ls = Inr ()"
    and "wl_worker_id l \<notin> wl_worker_id ` set earlier"
    and "\<forall>p\<in>set earlier. \<not> scope_sets_conflict (wl_path_scopes p) (wl_path_scopes l)"
    by (auto simp: seq_map_ok scope_sets_conflict_sym bind_ok_Inr)
  with Cons.IH [OF rest] show ?case by (auto simp: pairwise_disjoint_def)
qed simp

lemma v2_worker_checks_ok:
  "v2_worker_checks active available ws = Inr u \<longleftrightarrow>
     (\<forall>w\<in>set ws. validate_worker_id w = Inr ()) \<and> distinct ws \<and>
     set ws \<inter> available = {} \<and> set ws \<inter> active = {}"
  by (induction ws arbitrary: available) (auto simp: validate_worker_identifier_ok)

lemma has_permitD:
  assumes "has_permit i t"
    and "permit_checks sha enc i [] (vi_repair_activation_permits i) = Inr ()"
  shows "\<exists>p\<in>set (vi_repair_activation_permits i).
    permit_covers sha enc (vi_sprint i) (vi_graph i) t (Some p)"
  using assms permit_checks_ok [OF assms(2)]
  by (auto simp: has_permit_def list_ex_iff permit_covers_def)

definition v2_capacity :: "v2_scheduler_input \<Rightarrow> nat" where
  "v2_capacity i = min (unat (s2_max_workers (vi_sprint i)) - length (vi_active_leases i))
     (length (vi_available_worker_ids i))"

lemma v2_planD:
  assumes "plan_current_v2_worker_leases sha enc i = Inr plan"
  shows "validate_pair sha enc (vi_graph i) (vi_sprint i) = Inr ()"
    and "check_v2_inputs i = Inr ()"
    and "permit_checks sha enc i [] (vi_repair_activation_permits i) = Inr ()"
    and "\<forall>t\<in>set (g2_tasks (vi_graph i)). v2_task_checks i t = Inr ()"
    and "length (vi_active_leases i) \<le> unat (s2_max_workers (vi_sprint i))"
    and "v2_active_checks sha i [] (vi_active_leases i) = Inr ()"
    and "distinct (vi_available_worker_ids i)"
    and "set (vi_available_worker_ids i) \<inter> wl_worker_id ` set (vi_active_leases i) = {}"
    and "propose (v2_eligible i) (v2_blocked i) (v2_lease sha i)
      (SchedulerError ''current_v2_scheduler.next_lease_epoch''
         ''assigning a lease would overflow the durable epoch'')
      (sort (vi_available_worker_ids i)) (v2_capacity i) [] (vi_next_lease_epoch i)
      (g2_tasks (vi_graph i)) = Inr plan"
  using assms
  by (auto simp: plan_current_v2_worker_leases_def seq_map_ok v2_available_workers_def
      v2_worker_checks_ok bind_ok_Inr remaining_capacity_Some v2_capacity_def)

lemma v2_plan_is_sound:
  assumes "plan_current_v2_worker_leases sha enc i = Inr plan"
  shows "plan_sound (vi_active_leases i @ vi_workspace_blocking_leases i)
    (sort (vi_available_worker_ids i)) (v2_capacity i) (vi_next_lease_epoch i)
    (pl_leases plan) (pl_next_lease_epoch plan)"
  by (rule v2.propose_sound [OF v2_planD(9) [OF assms] v2.sound_Nil])
    (simp add: v2_capacity_def)

text \<open>The exclusion guarantee of the other two planners holds here as well.\<close>

lemma v2_plan_excludes:
  assumes "plan_current_v2_worker_leases sha enc i = Inr plan"
  shows "pairwise_disjoint (vi_active_leases i @ pl_leases plan)"
    and "\<forall>l\<in>set (pl_leases plan). \<forall>b\<in>set (vi_workspace_blocking_leases i).
      \<not> scope_sets_conflict (wl_path_scopes l) (wl_path_scopes b)"
    and "distinct (map wl_worker_id (vi_active_leases i @ pl_leases plan))"
    and "length (vi_active_leases i @ pl_leases plan) \<le> unat (s2_max_workers (vi_sprint i))"
proof -
  note D = v2_planD [OF assms]
  have room: "length (vi_active_leases i) + v2_capacity i \<le> unat (s2_max_workers (vi_sprint i))"
    using D(5) by (simp add: v2_capacity_def)
  note E = plan_sound_exclusive [OF v2_plan_is_sound [OF assms] _ _ D(7,8) room]
  show "pairwise_disjoint (vi_active_leases i @ pl_leases plan)"
    "\<forall>l\<in>set (pl_leases plan). \<forall>b\<in>set (vi_workspace_blocking_leases i).
      \<not> scope_sets_conflict (wl_path_scopes l) (wl_path_scopes b)"
    "distinct (map wl_worker_id (vi_active_leases i @ pl_leases plan))"
    "length (vi_active_leases i @ pl_leases plan) \<le> unat (s2_max_workers (vi_sprint i))"
    using E v2_active_checks_ok [OF D(6)] by blast+
qed

section \<open>Repair dormancy\<close>

lemma v2_state_known:
  assumes "check_v2_inputs i = Inr ()" "t \<in> set (g2_tasks (vi_graph i))"
  shows "map_of (vi_task_states i) (t2_task_id t) = Some (state_of (vi_task_states i) (t2_task_id t))"
  using assms by (auto simp: check_v2_inputs_def list_ex_iff state_of_def)

lemma v2_bearing_task:
  assumes "plan_current_v2_worker_leases sha enc i = Inr plan"
    and "t \<in> set (g2_tasks (vi_graph i))"
    and "execution_bearing (state_of (vi_task_states i) (t2_task_id t))"
  shows "\<forall>d\<in>set (t2_dependencies t). map_of (vi_task_states i) d = Some T_Integrated"
    and "is_repair_slot t \<Longrightarrow> \<exists>p\<in>set (vi_repair_activation_permits i).
      permit_covers sha enc (vi_sprint i) (vi_graph i) (t2_task_id t) (Some p)"
proof -
  note D = v2_planD [OF assms(1)]
  have c: "v2_task_checks i t = Inr ()" using D(4) assms(2) by blast
  then show "\<forall>d\<in>set (t2_dependencies t). map_of (vi_task_states i) d = Some T_Integrated"
    using assms(3) by (simp add: v2_task_checks_def Let_def dependency_state_check_ok)
  assume "is_repair_slot t"
  with c assms(3) have "has_permit i (t2_task_id t)" by (simp add: v2_task_checks_def Let_def)
  then show "\<exists>p\<in>set (vi_repair_activation_permits i).
      permit_covers sha enc (vi_sprint i) (vi_graph i) (t2_task_id t) (Some p)"
    using D(3) by (rule has_permitD)
qed

lemma v2_proposed_ready:
  assumes "plan_current_v2_worker_leases sha enc i = Inr plan" "l \<in> set (pl_leases plan)"
  shows "\<exists>t\<in>set (g2_tasks (vi_graph i)). t2_task_id t = wl_task_id l \<and>
    state_of (vi_task_states i) (t2_task_id t) = T_Ready"
proof -
  from v2.propose_subseq [OF v2_planD(9) [OF assms(1)]] obtain picked where
    "subseq picked (g2_tasks (vi_graph i))"
    and "map wl_task_id (pl_leases plan) = map t2_task_id picked"
    and "\<forall>t\<in>set picked. v2_eligible i t = Inr True"
    by auto
  moreover from this(2) assms(2) obtain t where "t \<in> set picked" "t2_task_id t = wl_task_id l"
    by (metis (no_types, lifting) image_eqI image_iff list.set_map)
  ultimately show ?thesis
    using subseq_set_subset by (force simp: v2_eligible_def)
qed

lemma v2_bearing_slot:
  assumes plan: "plan_current_v2_worker_leases sha enc i = Inr plan"
    and slot: "t \<in> set (repair_slots_of (vi_graph i))"
    and "execution_bearing (state_of (vi_task_states i) (t2_task_id t)) \<or>
      t2_task_id t \<in> wl_task_id ` set (pl_leases plan)"
  shows "execution_bearing (state_of (vi_task_states i) (t2_task_id t))"
  using assms(3)
proof
  assume "t2_task_id t \<in> wl_task_id ` set (pl_leases plan)"
  with v2_proposed_ready [OF plan] have "state_of (vi_task_states i) (t2_task_id t) = T_Ready"
    by fastforce
  then show ?thesis by (simp add: execution_bearing_def)
qed

lemma earlier_slots_integrated:
  assumes plan: "plan_current_v2_worker_leases sha enc i = Inr plan"
    and k: "k < length (repair_slots_of (vi_graph i))"
    and b: "execution_bearing (state_of (vi_task_states i) (t2_task_id (repair_slots_of (vi_graph i) ! k)))"
  shows "j < k \<Longrightarrow> map_of (vi_task_states i) (t2_task_id (repair_slots_of (vi_graph i) ! j))
    = Some T_Integrated"
  using k b
proof (induction k)
  case (Suc k)
  let ?slots = "repair_slots_of (vi_graph i)"
  note pair = v2_planD(1) [OF plan]
  have "t2_task_id (?slots ! k) \<in> set (t2_dependencies (?slots ! Suc k))"
    using check_repair_slotD(3) [OF repair_slot_checks [OF validate_pairD(7) [OF pair] Suc.prems(2)]]
    by auto
  then have here: "map_of (vi_task_states i) (t2_task_id (?slots ! k)) = Some T_Integrated"
    using v2_bearing_task(1) [OF plan slot_in_graph(1) [OF Suc.prems(2)] Suc.prems(3)] by blast
  show ?case
  proof (cases "j = k")
    case False
    moreover have "execution_bearing (state_of (vi_task_states i) (t2_task_id (?slots ! k)))"
      using here by (simp add: state_of_def execution_bearing_def)
    ultimately show ?thesis using Suc by simp
  qed (use here in simp)
qed simp

text \<open>
  C9. A plan never wakes a repair slot early. When the V2 planner accepts its input, each repair
  slot that is past \<open>Planned\<close> towards integration, or that gets a lease from the plan, has a permit
  valid for this pair among the given ones; every required ordinary task and every earlier slot is
  already \<open>Integrated\<close>. So at most one slot is at work at a time.
\<close>

theorem repair_slots_stay_dormant:
  assumes "plan_current_v2_worker_leases sha enc i = Inr plan"
    and "k < length (repair_slots_of (vi_graph i))"
    and "slot = repair_slots_of (vi_graph i) ! k"
    and "execution_bearing (state_of (vi_task_states i) (t2_task_id slot)) \<or>
      t2_task_id slot \<in> wl_task_id ` set (pl_leases plan)"
  shows "(\<exists>p\<in>set (vi_repair_activation_permits i).
      permit_covers sha enc (vi_sprint i) (vi_graph i) (t2_task_id slot) (Some p)) \<and>
    (\<forall>d\<in>required_ordinary_ids (vi_graph i). map_of (vi_task_states i) d = Some T_Integrated) \<and>
    (\<forall>j<k. map_of (vi_task_states i) (t2_task_id (repair_slots_of (vi_graph i) ! j))
      = Some T_Integrated)"
proof -
  note pair = v2_planD(1) [OF assms(1)]
  have t: "slot \<in> set (g2_tasks (vi_graph i))" "is_repair_slot slot"
    using slot_in_graph [OF assms(2)] assms(3) by auto
  have b: "execution_bearing (state_of (vi_task_states i) (t2_task_id slot))"
    by (rule v2_bearing_slot [OF assms(1) _ assms(4)]) (use assms(2,3) in simp)
  have "required_ordinary_ids (vi_graph i) \<subseteq> set (t2_dependencies slot)"
    using check_repair_slotD(2) [OF repair_slot_checks [OF validate_pairD(7) [OF pair] assms(2)]]
      assms(3) by simp
  with v2_bearing_task [OF assms(1) t(1) b] t(2) earlier_slots_integrated [OF assms(1,2)] b assms(3)
  show ?thesis by blast
qed

end
