(* ===== verification/Final_Attempts.thy ===== *)
theory Final_Attempts
  imports Pair_Facts
begin

text \<open>
  The second half of \<open>final_verification_contracts.rs\<close>: the authority of one admitted
  final-verification attempt, its check against trusted inputs and against the attempt before
  it. The last section shows that a chain of accepted successors is short and starts at one.
\<close>

definition FINAL_VERIFICATION_ATTEMPT_AUTHORITY_VERSION_V1 :: u32 where
  "FINAL_VERIFICATION_ATTEMPT_AUTHORITY_VERSION_V1 = 1"

record final_attempt_provenance =
  fp_coordinator_instance_id :: string
  fp_admission_event_id :: string
  fp_admission_event_sequence :: u64
  fp_admitted_at_unix_ms :: u64

definition validate_provenance :: "final_attempt_provenance \<Rightarrow> contract_result" where
  "validate_provenance p = seq
     [require_nonblank ''final_verification_attempt_v1.provenance.coordinator_instance_id''
        (fp_coordinator_instance_id p),
      require_nonblank ''final_verification_attempt_v1.provenance.admission_event_id''
        (fp_admission_event_id p),
      require_nonzero_timestamp ''final_verification_attempt_v1.provenance.admission_event_sequence''
        (fp_admission_event_sequence p),
      require_nonzero_timestamp ''final_verification_attempt_v1.provenance.admitted_at_unix_ms''
        (fp_admitted_at_unix_ms p)]"

datatype final_attempt_predecessor =
    Initial
  | SameSnapshotAfterFailedBeforeEffect (pd_prior_attempt_id: string) (pd_closure_id: string)
  | SameSnapshotAfterControlInterruption (pd_prior_attempt_id: string) (pd_control_id: string)
      (pd_closure_id: string)
  | ChangedSnapshotAfterRepair (pd_prior_failure_id: string) (pd_repair_admission_id: string)
      (pd_repair_task_done_proof_id: string) (pd_integration_receipt_id: string)

fun validate_predecessor :: "final_attempt_predecessor \<Rightarrow> contract_result" where
  "validate_predecessor Initial = Inr ()"
| "validate_predecessor (SameSnapshotAfterFailedBeforeEffect prior_attempt_id closure_id) = seq
     [require_nonblank ''final_verification_attempt_v1.predecessor.prior_attempt_id'' prior_attempt_id,
      require_nonblank ''final_verification_attempt_v1.predecessor.closure_id'' closure_id]"
| "validate_predecessor
     (SameSnapshotAfterControlInterruption prior_attempt_id control_id closure_id) = seq
     [require_nonblank ''final_verification_attempt_v1.predecessor.prior_attempt_id'' prior_attempt_id,
      require_nonblank ''final_verification_attempt_v1.predecessor.control_id'' control_id,
      require_nonblank ''final_verification_attempt_v1.predecessor.closure_id'' closure_id]"
| "validate_predecessor (ChangedSnapshotAfterRepair prior_failure_id repair_admission_id
     repair_task_done_proof_id integration_receipt_id) = seq
     [require_nonblank ''final_verification_attempt_v1.predecessor.prior_failure_id'' prior_failure_id,
      require_nonblank ''final_verification_attempt_v1.predecessor.repair_admission_id''
        repair_admission_id,
      require_nonblank ''final_verification_attempt_v1.predecessor.repair_task_done_proof_id''
        repair_task_done_proof_id,
      require_nonblank ''final_verification_attempt_v1.predecessor.integration_receipt_id''
        integration_receipt_id]"

record final_attempt_expected_inputs =
  fe_attempt_id :: string
  fe_attempt_ordinal :: u8
  fe_final_verification_admission_id :: string
  fe_input_snapshot :: digest
  fe_final_verification_check :: command_spec
  fe_execution_policy_digest :: digest
  fe_complete_task_done_set_digest :: digest
  fe_complete_criterion_evidence_set_digest :: digest
  fe_provenance :: final_attempt_provenance
  fe_predecessor :: final_attempt_predecessor

record final_attempt_authority =
  fa_authority_version :: u32
  fa_attempt_id :: string
  fa_sprint_id :: string
  fa_attempt_ordinal :: u8
  fa_max_final_verification_attempts :: u8
  fa_final_verification_admission_id :: string
  fa_input_snapshot :: digest
  fa_complete_task_done_set_digest :: digest
  fa_complete_criterion_evidence_set_digest :: digest
  fa_final_verification_check :: command_spec
  fa_execution_policy_digest :: digest
  fa_provenance :: final_attempt_provenance
  fa_predecessor :: final_attempt_predecessor

definition validate_final_attempt :: "final_attempt_authority \<Rightarrow> contract_result" where
  "validate_final_attempt a = seq
     [ensure (fa_authority_version a = FINAL_VERIFICATION_ATTEMPT_AUTHORITY_VERSION_V1)
        (ContractError ''final_verification_attempt_v1.authority_version''
          (''expected version '' @ show_u32 FINAL_VERIFICATION_ATTEMPT_AUTHORITY_VERSION_V1
           @ '', got '' @ show_u32 (fa_authority_version a))),
      require_nonblank ''final_verification_attempt_v1.attempt_id'' (fa_attempt_id a),
      require_nonblank ''final_verification_attempt_v1.sprint_id'' (fa_sprint_id a),
      require_nonblank ''final_verification_attempt_v1.final_verification_admission_id''
        (fa_final_verification_admission_id a),
      ensure (MIN_FINAL_VERIFICATION_ATTEMPTS \<le> fa_max_final_verification_attempts a \<and>
              fa_max_final_verification_attempts a \<le> MAX_FINAL_VERIFICATION_ATTEMPTS)
        (ContractError ''final_verification_attempt_v1.max_final_verification_attempts''
          ''must be between one and three''),
      ensure (\<not> (fa_attempt_ordinal a = 0 \<or>
                 fa_max_final_verification_attempts a < fa_attempt_ordinal a))
        (ContractError ''final_verification_attempt_v1.attempt_ordinal''
          ''must be one-based and no greater than the immutable cap''),
      validate_command_spec (fa_final_verification_check a),
      validate_provenance (fa_provenance a),
      validate_predecessor (fa_predecessor a),
      (if fa_predecessor a = Initial
       then ensure (fa_attempt_ordinal a = 1)
         (ContractError ''final_verification_attempt_v1.predecessor''
           ''Initial is valid only for ordinal one'')
       else ensure (fa_attempt_ordinal a \<noteq> 1)
         (ContractError ''final_verification_attempt_v1.predecessor''
           ''ordinal one must use Initial''))]"

definition validate_final_attempt_for ::
  "(string \<Rightarrow> string) \<Rightarrow> v2_encoders \<Rightarrow> final_attempt_authority \<Rightarrow> sprint_spec_v2 \<Rightarrow>
   task_graph_v2 \<Rightarrow> final_attempt_expected_inputs \<Rightarrow> contract_result" where
  "validate_final_attempt_for sha enc a s g e = seq
     [validate_final_attempt a,
      validate_pair sha enc g s,
      ensure (fa_sprint_id a = s2_sprint_id s)
        (ContractError ''final_verification_attempt_v1.sprint_id''
          ''must equal the current sprint identity''),
      ensure (fa_max_final_verification_attempts a = b2_max_final_verification_attempts (s2_budget s))
        (ContractError ''final_verification_attempt_v1.max_final_verification_attempts''
          ''must equal the immutable sprint cap''),
      ensure (fa_attempt_id a = fe_attempt_id e)
        (ContractError ''final_verification_attempt_v1.attempt_id''
          ''must equal the fresh core-minted attempt identity''),
      ensure (fa_attempt_ordinal a = fe_attempt_ordinal e)
        (ContractError ''final_verification_attempt_v1.attempt_ordinal''
          ''must equal the next contiguous ledger-derived ordinal''),
      ensure (fa_final_verification_admission_id a = fe_final_verification_admission_id e)
        (ContractError ''final_verification_attempt_v1.final_verification_admission_id''
          ''must equal the fresh core-minted admission identity''),
      ensure (fa_input_snapshot a = fe_input_snapshot e)
        (ContractError ''final_verification_attempt_v1.input_snapshot''
          ''must equal the exact integration snapshot selected for verification''),
      ensure (fa_final_verification_check a = fe_final_verification_check e)
        (ContractError ''final_verification_attempt_v1.final_verification_check''
          ''must equal the exact repository-wide check''),
      ensure (fa_execution_policy_digest a = fe_execution_policy_digest e)
        (ContractError ''final_verification_attempt_v1.execution_policy_digest''
          ''must equal the exact admitted execution policy''),
      ensure (fa_complete_task_done_set_digest a = fe_complete_task_done_set_digest e)
        (ContractError ''final_verification_attempt_v1.complete_task_done_set_digest''
          ''must equal the complete current TaskDone-set digest''),
      ensure (fa_complete_criterion_evidence_set_digest a = fe_complete_criterion_evidence_set_digest e)
        (ContractError ''final_verification_attempt_v1.complete_criterion_evidence_set_digest''
          ''must equal the complete same-snapshot criterion-evidence-set digest''),
      ensure (fa_provenance a = fe_provenance e)
        (ContractError ''final_verification_attempt_v1.provenance''
          ''must equal the exact core admission provenance''),
      ensure (fa_predecessor a = fe_predecessor e)
        (ContractError ''final_verification_attempt_v1.predecessor''
          ''must equal the exact core-derived predecessor authority'')]"

text \<open>\<open>u8::saturating_add(1)\<close>.\<close>

definition u8_saturating_succ :: "u8 \<Rightarrow> u8" where
  "u8_saturating_succ w = (if w = 255 then 255 else w + 1)"

definition validate_same_snapshot ::
  "string \<Rightarrow> final_attempt_authority \<Rightarrow> final_attempt_authority \<Rightarrow> contract_result" where
  "validate_same_snapshot prior_attempt_id a prior =
     ensure (\<not> (prior_attempt_id \<noteq> fa_attempt_id prior \<or>
         fa_input_snapshot a \<noteq> fa_input_snapshot prior \<or>
         fa_complete_task_done_set_digest a \<noteq> fa_complete_task_done_set_digest prior \<or>
         fa_complete_criterion_evidence_set_digest a
           \<noteq> fa_complete_criterion_evidence_set_digest prior))
       (ContractError ''final_verification_attempt_v1.predecessor''
         ''same-snapshot successor must bind the prior attempt and unchanged complete sets'')"

definition validate_successor_of ::
  "final_attempt_authority \<Rightarrow> final_attempt_authority \<Rightarrow> contract_result" where
  "validate_successor_of a prior = seq
     [validate_final_attempt a,
      validate_final_attempt prior,
      ensure (\<not> (fa_sprint_id a \<noteq> fa_sprint_id prior \<or>
          fa_max_final_verification_attempts a \<noteq> fa_max_final_verification_attempts prior \<or>
          fa_final_verification_check a \<noteq> fa_final_verification_check prior \<or>
          fa_execution_policy_digest a \<noteq> fa_execution_policy_digest prior))
        (ContractError ''final_verification_attempt_v1.predecessor''
          ''successor crosses immutable sprint, cap, check, or policy authority''),
      ensure (fa_attempt_ordinal a = u8_saturating_succ (fa_attempt_ordinal prior))
        (ContractError ''final_verification_attempt_v1.attempt_ordinal''
          ''successor ordinal must be exactly prior ordinal plus one''),
      (case fa_predecessor a of
         Initial \<Rightarrow> Inl (ContractError ''final_verification_attempt_v1.predecessor''
           ''a successor cannot use Initial'')
       | SameSnapshotAfterFailedBeforeEffect prior_attempt_id _ \<Rightarrow>
           validate_same_snapshot prior_attempt_id a prior
       | SameSnapshotAfterControlInterruption prior_attempt_id _ _ \<Rightarrow>
           validate_same_snapshot prior_attempt_id a prior
       | ChangedSnapshotAfterRepair _ _ _ _ \<Rightarrow>
           ensure (\<not> (fa_input_snapshot a = fa_input_snapshot prior \<or>
               fa_complete_task_done_set_digest a = fa_complete_task_done_set_digest prior \<or>
               fa_complete_criterion_evidence_set_digest a
                 = fa_complete_criterion_evidence_set_digest prior))
             (ContractError ''final_verification_attempt_v1.predecessor''
               ''repair successor requires changed snapshot and fresh complete evidence sets''))]"

definition final_attempt_bytes ::
  "final_attempt_authority encoder \<Rightarrow> final_attempt_authority \<Rightarrow> contract_error + string" where
  "final_attempt_bytes enc a = bind_ok (validate_final_attempt a)
     (\<lambda>_. encode_canonical enc ''final_verification_attempt_v1'' a)"

definition final_attempt_from_bytes ::
  "final_attempt_authority encoder \<Rightarrow> final_attempt_authority decoder \<Rightarrow> string \<Rightarrow>
   contract_error + final_attempt_authority" where
  "final_attempt_from_bytes enc dec bytes =
     decode_canonical enc dec ''final_verification_attempt_v1'' bytes validate_final_attempt"

definition FINAL_VERIFICATION_ATTEMPT_V1_DIGEST_DOMAIN :: string where
  "FINAL_VERIFICATION_ATTEMPT_V1_DIGEST_DOMAIN =
     ''grok-build/final-verification-attempt-authority-v1/canonical-json'' @ [NUL]"

definition final_attempt_digest ::
  "(string \<Rightarrow> string) \<Rightarrow> final_attempt_authority encoder \<Rightarrow> final_attempt_authority \<Rightarrow>
   contract_error + digest" where
  "final_attempt_digest sha enc a = bind_ok (final_attempt_bytes enc a)
     (\<lambda>bytes. Inr (domain_digest sha FINAL_VERIFICATION_ATTEMPT_V1_DIGEST_DOMAIN bytes))"

lemma final_attempt_round_trip:
  assumes "\<And>b. enc a = Inr b \<Longrightarrow> dec b = Inr a"
  shows "final_attempt_from_bytes enc dec bytes = Inr a \<longleftrightarrow> final_attempt_bytes enc a = Inr bytes"
  using decode_canonical_iff [of enc a dec, OF assms]
  by (auto simp: final_attempt_from_bytes_def final_attempt_bytes_def)

section \<open>Chains of attempts\<close>

text \<open>
  Attempts as the ledger admits them: the first has no predecessor, every later one is an
  accepted successor of the one before.
\<close>

fun attempts_follow :: "final_attempt_authority \<Rightarrow> final_attempt_authority list \<Rightarrow> bool" where
  "attempts_follow prior [] = True"
| "attempts_follow prior (a # as) =
     (validate_successor_of a prior = Inr () \<and> attempts_follow a as)"

fun attempt_chain :: "final_attempt_authority list \<Rightarrow> bool" where
  "attempt_chain [] = True"
| "attempt_chain (a # as) =
     (validate_final_attempt a = Inr () \<and> fa_predecessor a = Initial \<and> attempts_follow a as)"

lemma validate_final_attemptD:
  assumes "validate_final_attempt a = Inr ()"
  shows "1 \<le> unat (fa_attempt_ordinal a)"
    and "unat (fa_attempt_ordinal a) \<le> unat (fa_max_final_verification_attempts a)"
    and "unat (fa_max_final_verification_attempts a) \<le> 3"
    and "fa_predecessor a = Initial \<longleftrightarrow> fa_attempt_ordinal a = 1"
proof -
  from assms have o: "fa_attempt_ordinal a \<noteq> 0"
    "fa_attempt_ordinal a \<le> fa_max_final_verification_attempts a"
    "fa_max_final_verification_attempts a \<le> 3"
    and p: "fa_predecessor a = Initial \<longleftrightarrow> fa_attempt_ordinal a = 1"
    by (simp_all add: validate_final_attempt_def MAX_FINAL_VERIFICATION_ATTEMPTS_def not_less
        split: if_splits)
  show "1 \<le> unat (fa_attempt_ordinal a)"
    using o(1) by (simp add: unat_gt_0 Suc_le_eq)
  show "unat (fa_attempt_ordinal a) \<le> unat (fa_max_final_verification_attempts a)"
    "unat (fa_max_final_verification_attempts a) \<le> 3"
    using o(2,3) by (simp_all add: word_le_nat_alt)
  show "fa_predecessor a = Initial \<longleftrightarrow> fa_attempt_ordinal a = 1" by (rule p)
qed

lemma u8_saturating_succ_unat: "unat w < 255 \<Longrightarrow> unat (u8_saturating_succ w) = Suc (unat w)"
  by (auto simp: u8_saturating_succ_def unat_word_ariths)

text \<open>What a successor keeps, and what it may change.\<close>

definition same_authority :: "final_attempt_authority \<Rightarrow> final_attempt_authority \<Rightarrow> bool" where
  "same_authority a b \<longleftrightarrow> fa_sprint_id a = fa_sprint_id b \<and>
     fa_max_final_verification_attempts a = fa_max_final_verification_attempts b \<and>
     fa_final_verification_check a = fa_final_verification_check b \<and>
     fa_execution_policy_digest a = fa_execution_policy_digest b"

lemma validate_successor_ofD:
  assumes "validate_successor_of a prior = Inr ()"
  shows "validate_final_attempt a = Inr ()" "validate_final_attempt prior = Inr ()"
    and "same_authority a prior"
    and "unat (fa_attempt_ordinal a) = Suc (unat (fa_attempt_ordinal prior))"
    and "fa_input_snapshot a \<noteq> fa_input_snapshot prior \<longleftrightarrow> is_ChangedSnapshotAfterRepair (fa_predecessor a)"
proof -
  show A: "validate_final_attempt a = Inr ()" "validate_final_attempt prior = Inr ()"
    "same_authority a prior"
    using assms by (simp_all add: validate_successor_of_def same_authority_def)
  have "fa_attempt_ordinal a = u8_saturating_succ (fa_attempt_ordinal prior)"
    using assms by (simp add: validate_successor_of_def)
  then show "unat (fa_attempt_ordinal a) = Suc (unat (fa_attempt_ordinal prior))"
    using validate_final_attemptD(2,3) [OF A(2)] by (simp add: u8_saturating_succ_unat)
  show "fa_input_snapshot a \<noteq> fa_input_snapshot prior \<longleftrightarrow>
      is_ChangedSnapshotAfterRepair (fa_predecessor a)"
    using assms
    by (auto simp: validate_successor_of_def validate_same_snapshot_def
        split: final_attempt_predecessor.splits)
qed

lemma same_authority_trans: "same_authority a b \<Longrightarrow> same_authority b c \<Longrightarrow> same_authority a c"
  and same_authority_refl [simp]: "same_authority a a"
  and same_authority_sym: "same_authority a b \<Longrightarrow> same_authority b a"
  by (simp_all add: same_authority_def)

lemma attempts_followD:
  assumes "attempts_follow prior as"
  shows "map (\<lambda>a. unat (fa_attempt_ordinal a)) (prior # as) =
      [unat (fa_attempt_ordinal prior)..<unat (fa_attempt_ordinal prior) + Suc (length as)] \<and>
    (\<forall>a\<in>set as. validate_final_attempt a = Inr () \<and> same_authority a prior) \<and>
    successively (\<lambda>a b. fa_input_snapshot a \<noteq> fa_input_snapshot b \<longleftrightarrow>
      is_ChangedSnapshotAfterRepair (fa_predecessor b)) (prior # as)"
  using assms
proof (induction as arbitrary: prior)
  case (Cons a as)
  then have step: "validate_successor_of a prior = Inr ()" and rest: "attempts_follow a as" by auto
  note S = validate_successor_ofD [OF step] and IH = Cons.IH [OF rest]
  have "\<forall>b\<in>set (a # as). validate_final_attempt b = Inr () \<and> same_authority b prior"
    using IH S(1,3) by (auto intro: same_authority_trans)
  moreover have "map (\<lambda>a. unat (fa_attempt_ordinal a)) (prior # a # as) =
      [unat (fa_attempt_ordinal prior)..<unat (fa_attempt_ordinal prior) + Suc (length (a # as))]"
    using IH S(4) by (simp add: upt_conv_Cons del: upt_Suc)
  moreover have "successively (\<lambda>a b. fa_input_snapshot a \<noteq> fa_input_snapshot b \<longleftrightarrow>
      is_ChangedSnapshotAfterRepair (fa_predecessor b)) (prior # a # as)"
    unfolding successively.simps using IH S(5) by metis
  ultimately show ?case by blast
qed simp

lemma attempt_chain_bounded:
  assumes "attempt_chain as" "a \<in> set as"
  shows "map (\<lambda>a. unat (fa_attempt_ordinal a)) as = [1..<Suc (length as)]"
    and "validate_final_attempt a = Inr ()" "length as \<le> unat (fa_max_final_verification_attempts a)"
    and "\<And>b. b \<in> set as \<Longrightarrow> same_authority a b"
proof -
  from assms obtain b bs where as: "as = b # bs" by (cases as) auto
  with assms have b: "validate_final_attempt b = Inr ()" "fa_predecessor b = Initial"
    and F: "attempts_follow b bs" by auto
  note F = attempts_followD [OF F]
  have "fa_attempt_ordinal b = 1" using validate_final_attemptD(4) [OF b(1)] b(2) by simp
  then show ords: "map (\<lambda>a. unat (fa_attempt_ordinal a)) as = [1..<Suc (length as)]"
    using F by (simp add: as)
  show same: "same_authority a c" if "c \<in> set as" for c
    using F that assms(2) unfolding as by (auto intro: same_authority_trans same_authority_sym)
  show "validate_final_attempt a = Inr ()" using F b(1) assms(2) by (auto simp: as)
  have l: "last as \<in> set as" by (simp add: as)
  then have "validate_final_attempt (last as) = Inr ()" using F b(1) by (auto simp: as)
  moreover have "unat (fa_attempt_ordinal (last as)) = length as"
    using arg_cong [OF ords, of last] last_map [of as "\<lambda>a. unat (fa_attempt_ordinal a)"]
    by (simp add: as del: last.simps list.map)
  ultimately show "length as \<le> unat (fa_max_final_verification_attempts a)"
    using validate_final_attemptD(2) same [OF l] by (metis same_authority_def)
qed

text \<open>
  Final verification is tried at most three times. In a chain of accepted attempts the
  ordinals are one, two, three in order; sprint, cap, check and policy never change; the number
  of attempts stays within the cap of every attempt; and an attempt tests another snapshot than
  the one before it exactly when it follows a repair.
\<close>

theorem final_attempts_are_bounded:
  assumes "attempt_chain as"
  shows "map (\<lambda>a. unat (fa_attempt_ordinal a)) as = [1..<Suc (length as)] \<and> length as \<le> 3 \<and>
    (\<forall>a\<in>set as. length as \<le> unat (fa_max_final_verification_attempts a) \<and>
      (\<forall>b\<in>set as. same_authority a b)) \<and>
    successively (\<lambda>a b. fa_input_snapshot a \<noteq> fa_input_snapshot b \<longleftrightarrow>
      is_ChangedSnapshotAfterRepair (fa_predecessor b)) as"
proof (cases as)
  case (Cons a bs)
  then have a: "a \<in> set as" by simp
  have "length as \<le> 3"
    using attempt_chain_bounded(2,3) [OF assms a] validate_final_attemptD(3) le_trans by blast
  moreover have "successively (\<lambda>a b. fa_input_snapshot a \<noteq> fa_input_snapshot b \<longleftrightarrow>
      is_ChangedSnapshotAfterRepair (fa_predecessor b)) as"
    using attempts_followD [of a bs] assms by (simp add: Cons)
  ultimately show ?thesis
    using attempt_chain_bounded [OF assms] a by blast
qed simp

end
