(* ===== verification/Example_V2.thy ===== *)
theory Example_V2
  imports Example_Sprint Scheduler_V2 Final_Attempts
begin

text \<open>
  A V2 pair with a cap of three attempts: one required ordinary task and the two repair slots
  behind it. In the planner's input the ordinary task is integrated and the first slot has been
  activated. The concrete inputs of the witnesses on V2 authority.
\<close>

definition v2_digest :: digest where
  "v2_digest = Digest (replicate 64 (CHR ''0''))"

definition v2_sprint :: sprint_spec_v2 where
  "v2_sprint = \<lparr>s2_sprint_authority_version = 2, s2_sprint_id = ''sprint-1'',
     s2_objective = ''finish the deterministic graph'',
     s2_acceptance_criteria = sp_acceptance_criteria ex_sprint,
     s2_provider = sp_provider ex_sprint, s2_budget = author_v01 16 2 32 60000,
     s2_max_workers = 2, s2_workspace_grant = sp_workspace_grant ex_sprint,
     s2_base_snapshot = ex_digest (CHR ''a''), s2_task_graph_id = ''graph-1'',
     s2_task_graph_payload_digest = v2_digest, s2_repair_slot_reserve_digest = v2_digest\<rparr>"

definition v2_task :: "string \<Rightarrow> task_purpose_v2 \<Rightarrow> string list \<Rightarrow> bool \<Rightarrow> task_spec_v2" where
  "v2_task task_id purpose dependencies req = \<lparr>t2_sprint_authority_version = 2,
     t2_task_id = task_id, t2_purpose = purpose, t2_goal = ''complete '' @ task_id,
     t2_dependencies = dependencies,
     t2_path_scopes = [RelativeScope [Normal ''src'', Normal ''a'']],
     t2_acceptance_checks = [''criterion-1''], t2_base_snapshot = ex_digest (CHR ''a''),
     t2_required = req\<rparr>"

abbreviation "v2_ready \<equiv> v2_task ''ready'' Ordinary [] True"
abbreviation "v2_repair_1 \<equiv> v2_task ''repair-1'' (FinalVerificationRepairSlot 1) [''ready''] False"
abbreviation "v2_repair_2 \<equiv>
  v2_task ''repair-2'' (FinalVerificationRepairSlot 2) [''ready'', ''repair-1''] False"

definition v2_graph :: task_graph_v2 where
  "v2_graph = \<lparr>g2_sprint_authority_version = 2, g2_graph_id = ''graph-1'',
     g2_sprint_id = ''sprint-1'', g2_sprint_spec_digest = v2_digest,
     g2_repair_slot_reserve_digest = v2_digest, g2_tasks = [v2_ready, v2_repair_1, v2_repair_2]\<rparr>"

definition v2_codec :: v2_encoders where
  "v2_codec = \<lparr>ve_sprint = (\<lambda>s. if s = v2_sprint then Inr ''sprint'' else Inl ''other''),
     ve_reserve = (\<lambda>_. Inr ''reserve''), ve_payload = (\<lambda>_. Inr ''payload''),
     ve_graph = (\<lambda>g. if g = v2_graph then Inr ''graph'' else Inl ''other'')\<rparr>"

lemma v2_domain_digest [simp]: "domain_digest zero_sha d b = v2_digest"
  by (simp add: domain_digest_def zero_digest v2_digest_def)

lemma v2_codec_simps [simp]:
  "ve_sprint v2_codec v2_sprint = Inr ''sprint''" "ve_graph v2_codec v2_graph = Inr ''graph''"
  "ve_reserve v2_codec r = Inr ''reserve''" "ve_payload v2_codec p = Inr ''payload''"
  by (simp_all add: v2_codec_def)

lemma v2_sprint_valid: "validate_sprint_v2 v2_sprint = Inr ()"
  by code_simp

lemma v2_sprint_digest: "sprint_v2_digest zero_sha (ve_sprint v2_codec) v2_sprint = Inr v2_digest"
  by (simp add: sprint_v2_digest_def sprint_v2_bytes_def v2_sprint_valid encode_canonical_def)

lemma v2_shape: "validate_graph_shape v2_graph v2_sprint = Inr ()"
  by code_simp

lemma v2_coverage: "validate_ordinary_criterion_coverage v2_graph v2_sprint = Inr ()"
  by code_simp

lemma v2_slots: "validate_repair_slots v2_graph v2_sprint = Inr ()"
  by code_simp

lemma v2_pair: "validate_pair zero_sha v2_codec v2_graph v2_sprint = Inr ()"
proof -
  have "validate_pair_digests zero_sha v2_codec v2_graph v2_sprint = Inr ()"
    by (simp add: validate_pair_digests_def computed_repair_slot_reserve_digest_def
        payload_digest_def digest_canonical_def encode_canonical_def v2_sprint_digest
        v2_graph_def [THEN arg_cong [of _ _ g2_repair_slot_reserve_digest]]
        v2_graph_def [THEN arg_cong [of _ _ g2_sprint_spec_digest]]
        v2_sprint_def [THEN arg_cong [of _ _ s2_repair_slot_reserve_digest]]
        v2_sprint_def [THEN arg_cong [of _ _ s2_task_graph_payload_digest]])
  with v2_shape v2_coverage v2_slots show ?thesis by (simp add: validate_pair_def)
qed

lemma v2_graph_digest: "graph_v2_digest zero_sha v2_codec v2_graph v2_sprint = Inr v2_digest"
  by (simp add: graph_v2_digest_def graph_v2_bytes_def v2_pair encode_canonical_def)

lemma v2_repair_slots: "repair_slots_of v2_graph = [v2_repair_1, v2_repair_2]"
  by (simp add: repair_slots_of_def v2_graph_def is_repair_slot_def v2_task_def)

lemma v2_required: "required_ordinary_ids v2_graph = {''ready''}"
  by (simp add: required_ordinary_ids_def v2_graph_def v2_task_def)

theorem repair_slots_form_a_chain_witness:
  "(''repair-1'', ''repair-2'') \<in> (task_order v2_graph)\<^sup>+ \<and>
   (''ready'', ''repair-2'') \<in> task_order v2_graph \<and>
   (''repair-2'', ''ready'') \<notin> (task_order v2_graph)\<^sup>*"
proof -
  have "t2_task_id v2_repair_1 = ''repair-1''" "t2_task_id v2_repair_2 = ''repair-2''"
    by (simp_all add: v2_task_def)
  then show ?thesis
    using repair_slots_form_a_chain [OF v2_pair] by (simp add: v2_repair_slots v2_required)
qed

theorem graph_bytes_round_trip_witness:
  "graph_v2_from_bytes zero_sha v2_codec (\<lambda>b. Inr v2_graph) ''graph'' v2_sprint = Inr v2_graph \<and>
   graph_v2_from_bytes zero_sha v2_codec (\<lambda>b. Inr v2_graph) '' graph'' v2_sprint \<noteq> Inr v2_graph"
proof -
  have "graph_v2_bytes zero_sha v2_codec v2_graph v2_sprint = Inr ''graph''"
    by (simp add: graph_v2_bytes_def v2_pair encode_canonical_def)
  then show ?thesis
    using graph_bytes_round_trip [of v2_codec v2_graph "\<lambda>b. Inr v2_graph" zero_sha _ v2_sprint]
    by simp
qed

section \<open>The first slot activated\<close>

definition v2_activation :: repair_activation where
  "v2_activation = \<lparr>rn_activation_version = 1, rn_activation_id = ''activation-1'',
     rn_sprint_id = ''sprint-1'', rn_failed_attempt_id = ''attempt-1'',
     rn_failure_outcome_id = ''outcome-1'', rn_failed_snapshot = ex_digest (CHR ''b''),
     rn_slot_ordinal = 1, rn_repair_task_id = ''repair-1'', rn_activated_at_unix_ms = 1700\<rparr>"

definition v2_permit :: repair_permit where
  "v2_permit = \<lparr>pt_activation = v2_activation, pt_sprint_spec_digest = v2_digest,
     pt_task_graph_digest = v2_digest, pt_repair_slot_reserve_digest = v2_digest\<rparr>"

lemma v2_activation_valid: "validate_repair_activation v2_activation = Inr ()"
  by code_simp

lemma v2_lookup:
  "graph_task_v2 v2_graph ''ready'' = Some v2_ready"
  "graph_task_v2 v2_graph ''repair-1'' = Some v2_repair_1"
  by (simp_all add: graph_task_v2_def v2_graph_def v2_task_def)

lemma v2_permit_valid: "validate_permit zero_sha v2_codec v2_permit v2_sprint v2_graph = Inr ()"
proof -
  have "rn_sprint_id v2_activation = s2_sprint_id v2_sprint"
    "g2_repair_slot_reserve_digest v2_graph = v2_digest"
    "rn_repair_task_id v2_activation = ''repair-1''" "rn_slot_ordinal v2_activation = 1"
    "t2_purpose v2_repair_1 = FinalVerificationRepairSlot 1"
    by (simp_all add: v2_activation_def v2_sprint_def v2_graph_def v2_task_def)
  then show ?thesis
    by (simp add: validate_permit_def v2_permit_def v2_activation_valid v2_pair v2_sprint_digest
        v2_graph_digest v2_lookup Let_def)
qed

lemma v2_permit_issued:
  "permit_from_persisted zero_sha v2_codec v2_activation v2_sprint v2_graph = Inr v2_permit"
proof -
  have "g2_repair_slot_reserve_digest v2_graph = v2_digest" by (simp add: v2_graph_def)
  then show ?thesis
    using v2_permit_valid
    by (simp add: permit_from_persisted_def v2_pair v2_sprint_digest v2_graph_digest v2_permit_def)
qed

lemma v2_permit_covers:
  "permit_covers zero_sha v2_codec v2_sprint v2_graph ''repair-1'' (Some v2_permit)"
  using v2_permit_valid by (simp add: permit_covers_def v2_permit_def v2_activation_def)

lemma v2_repair_step:
  assumes "task_transition cur nxt = Inr u"
  shows "transition_current_v2_task zero_sha v2_codec v2_sprint v2_graph ''repair-1'' cur nxt
    (Some v2_permit) = Inr u"
proof -
  have "v2_repair_1 \<in> set (g2_tasks v2_graph)" "t2_task_id v2_repair_1 = ''repair-1''"
    "is_repair_slot v2_repair_1"
    by (simp_all add: v2_graph_def is_repair_slot_def v2_task_def)
  then show ?thesis
    unfolding transition_v2_iff using v2_pair v2_permit_covers assms by auto
qed

theorem integrated_repair_was_permitted_witness:
  "T_Planned # [T_Ready, T_Leased, T_Running, T_Verifying, T_Candidate, T_Integrated]
     = task_pipeline \<and>
   permit_covers zero_sha v2_codec v2_sprint v2_graph ''repair-1'' (Some v2_permit)"
proof -
  let ?ps = "map (\<lambda>t. (t, Some v2_permit))
    [T_Ready, T_Leased, T_Running, T_Verifying, T_Candidate, T_Integrated]"
  have id: "t2_task_id v2_repair_1 = ''repair-1''" by (simp add: v2_task_def)
  have run: "v2_run zero_sha v2_codec v2_sprint v2_graph (t2_task_id v2_repair_1) T_Planned ?ps
      = Inr T_Integrated"
    unfolding id by (simp add: v2_repair_step task_table_defs)
  have "v2_repair_1 \<in> set (g2_tasks v2_graph)" "is_repair_slot v2_repair_1"
    by (simp_all add: v2_graph_def is_repair_slot_def v2_task_def)
  from integrated_repair_was_permitted [OF run this] show ?thesis by (simp add: id)
qed

theorem permit_binds_one_pair_witness:
  "\<exists>b b' c c'. ve_sprint v2_codec v2_sprint = Inr b \<and> ve_sprint v2_codec v2_sprint = Inr b' \<and>
    ve_graph v2_codec v2_graph = Inr c \<and> ve_graph v2_codec v2_graph = Inr c' \<and>
    (v2_sprint = v2_sprint \<or> digests_collide zero_sha SPRINT_SPEC_V2_DIGEST_DOMAIN b b') \<and>
    (v2_graph = v2_graph \<or> digests_collide zero_sha TASK_GRAPH_V2_DIGEST_DOMAIN c c')"
proof (rule permit_binds_one_pair [OF v2_permit_valid v2_permit_valid])
  show "\<And>x b. ve_sprint v2_codec x = Inr b \<Longrightarrow> (\<lambda>_. Inr v2_sprint) b = Inr x"
    by (auto simp: v2_codec_def split: if_splits)
  show "\<And>x b. ve_graph v2_codec x = Inr b \<Longrightarrow> (\<lambda>_. Inr v2_graph) b = Inr x"
    by (auto simp: v2_codec_def split: if_splits)
qed

section \<open>A plan for the activated slot\<close>

definition v2_input :: v2_scheduler_input where
  "v2_input = \<lparr>vi_sprint = v2_sprint, vi_graph = v2_graph,
     vi_task_states = [(''ready'', T_Integrated), (''repair-1'', T_Ready), (''repair-2'', T_Planned)],
     vi_repair_activation_permits = [v2_permit], vi_active_leases = [],
     vi_workspace_blocking_leases = [], vi_available_worker_ids = [''worker-b'', ''worker-a''],
     vi_next_lease_epoch = 7, vi_acquired_at_unix_ms = 1750000000000\<rparr>"

definition v2_repair_lease :: worker_lease where
  "v2_repair_lease = ex_lease \<lparr>wl_task_id := ''repair-1''\<rparr>"

lemma v2_input_fields [simp]:
  "vi_sprint v2_input = v2_sprint" "vi_graph v2_input = v2_graph"
  "vi_repair_activation_permits v2_input = [v2_permit]" "vi_active_leases v2_input = []"
  "vi_workspace_blocking_leases v2_input = []" "vi_next_lease_epoch v2_input = 7"
  "vi_acquired_at_unix_ms v2_input = 1750000000000"
  "vi_available_worker_ids v2_input = [''worker-b'', ''worker-a'']"
  by (simp_all add: v2_input_def)

lemma v2_input_checks:
  "check_v2_inputs v2_input = Inr ()"
  "seq (map (v2_task_checks v2_input) (g2_tasks v2_graph)) = Inr ()"
  "v2_agreement_checks v2_input = Inr ()"
  "v2_available_workers v2_input = Inr [''worker-a'', ''worker-b'']"
  "remaining_capacity (s2_max_workers v2_sprint) [] = Some 2"
  by code_simp+

lemma v2_permit_checks: "permit_checks zero_sha v2_codec v2_input [] [v2_permit] = Inr ()"
proof -
  have "\<not> 1750000000000 < rn_activated_at_unix_ms (pt_activation v2_permit)"
    by (simp add: v2_permit_def v2_activation_def)
  then show ?thesis by (simp add: v2_permit_valid)
qed

lemma v2_eligible_tasks:
  "v2_eligible v2_input v2_ready = Inr False" "v2_eligible v2_input v2_repair_1 = Inr True"
  "v2_eligible v2_input v2_repair_2 = Inr False" "\<not> v2_blocked v2_input v2_repair_1 []"
  by code_simp+

lemma v2_repair_lease_new: "v2_lease zero_sha v2_input v2_repair_1 ''worker-a'' 7 = Inr v2_repair_lease"
proof -
  have "\<not> blank ''sprint-1''" "\<not> blank ''repair-1''" "validate_worker_id ''worker-a'' = Inr ()"
    "validate_path_scope (RelativeScope [Normal ''src'', Normal ''a'']) = Inr ()"
    by code_simp+
  moreover have "s2_sprint_id v2_sprint = ''sprint-1''" "t2_task_id v2_repair_1 = ''repair-1''"
    "t2_path_scopes v2_repair_1 = [RelativeScope [Normal ''src'', Normal ''a'']]"
    by (simp_all add: v2_sprint_def v2_task_def)
  ultimately show ?thesis
    by (simp add: v2_lease_def propose_lease_def worker_lease_new_iff derive_lease_id_iff
        zero_digest valid_scopes_def v2_repair_lease_def ex_lease_def WORKER_LEASE_ID_PREFIX_def)
qed

abbreviation "v2_result \<equiv> \<lparr>pl_leases = [v2_repair_lease], pl_next_lease_epoch = 8\<rparr>"

lemma v2_propose:
  "propose (v2_eligible v2_input) (v2_blocked v2_input) (v2_lease zero_sha v2_input) e
     [''worker-a'', ''worker-b''] (Suc (Suc 0)) [] 7 (g2_tasks v2_graph) = Inr v2_result"
proof -
  have "g2_tasks v2_graph = [v2_ready, v2_repair_1, v2_repair_2]" by (simp add: v2_graph_def)
  then show ?thesis by (simp add: v2_eligible_tasks v2_repair_lease_new checked_add_u64_def)
qed

lemma v2_plan: "plan_current_v2_worker_leases zero_sha v2_codec v2_input = Inr v2_result"
proof -
  have "validate_external_blockers_v2 zero_sha v2_sprint [] = Inr ()"
    by (simp add: validate_external_blockers_v2_def)
  moreover note v2_input_checks(5)
  ultimately show ?thesis
    using v2_permit_checks
    by (simp add: plan_current_v2_worker_leases_def v2_pair v2_input_checks v2_propose
        del: permit_checks.simps cong del: bind_ok_cong)
qed

lemma v2_only_permit:
  "(\<exists>p\<in>set (vi_repair_activation_permits v2_input). P (Some p)) \<longleftrightarrow> P (Some v2_permit)"
  by simp

theorem repair_slots_stay_dormant_witness:
  "permit_covers zero_sha v2_codec v2_sprint v2_graph ''repair-1'' (Some v2_permit) \<and>
   map_of (vi_task_states v2_input) ''ready'' = Some T_Integrated"
proof -
  have id: "t2_task_id v2_repair_1 = ''repair-1''" by (simp add: v2_task_def)
  have "v2_repair_1 = repair_slots_of (vi_graph v2_input) ! 0"
    "0 < length (repair_slots_of (vi_graph v2_input))"
    by (simp_all add: v2_repair_slots)
  moreover have "execution_bearing (state_of (vi_task_states v2_input) (t2_task_id v2_repair_1)) \<or>
      t2_task_id v2_repair_1 \<in> wl_task_id ` set (pl_leases v2_result)"
    by (simp add: id v2_repair_lease_def)
  ultimately show ?thesis
    using repair_slots_stay_dormant [OF v2_plan] by (metis (no_types) id v2_required v2_only_permit singletonI v2_input_fields(1,2))
qed

section \<open>Two attempts\<close>

definition v2_attempt ::
  "string \<Rightarrow> u8 \<Rightarrow> char \<Rightarrow> final_attempt_predecessor \<Rightarrow> final_attempt_authority" where
  "v2_attempt n ordinal snapshot predecessor = \<lparr>fa_authority_version = 1,
     fa_attempt_id = ''attempt-'' @ n, fa_sprint_id = ''sprint-1'', fa_attempt_ordinal = ordinal,
     fa_max_final_verification_attempts = 3,
     fa_final_verification_admission_id = ''admission-'' @ n,
     fa_input_snapshot = ex_digest snapshot, fa_complete_task_done_set_digest = ex_digest snapshot,
     fa_complete_criterion_evidence_set_digest = ex_digest snapshot,
     fa_final_verification_check = \<lparr>cs_program = ''cargo'', cs_arguments = [''test''],
       cs_working_directory = []\<rparr>,
     fa_execution_policy_digest = v2_digest,
     fa_provenance = \<lparr>fp_coordinator_instance_id = ''coordinator-1'',
       fp_admission_event_id = ''event-'' @ n, fp_admission_event_sequence = ucast ordinal,
       fp_admitted_at_unix_ms = 1700\<rparr>,
     fa_predecessor = predecessor\<rparr>"

definition v2_attempts :: "final_attempt_authority list" where
  "v2_attempts = [v2_attempt ''1'' 1 (CHR ''b'') Initial,
     v2_attempt ''2'' 2 (CHR ''c'')
       (ChangedSnapshotAfterRepair ''outcome-1'' ''activation-1'' ''proof-1'' ''receipt-1'')]"

theorem final_attempts_are_bounded_witness:
  "length v2_attempts \<le> 3 \<and> map (\<lambda>a. unat (fa_attempt_ordinal a)) v2_attempts = [1..<3]"
proof -
  have "attempt_chain v2_attempts" by code_simp
  from final_attempts_are_bounded [OF this] have "length v2_attempts \<le> 3"
    "map (\<lambda>a. unat (fa_attempt_ordinal a)) v2_attempts = [1..<Suc (length v2_attempts)]"
    by blast+
  moreover have "length v2_attempts = 2" by (simp add: v2_attempts_def)
  ultimately show ?thesis by (simp add: numeral_eq_Suc del: upt_Suc)
qed

end
