(* ===== verification/Evidence_Sets.thy ===== *)
theory Evidence_Sets
  imports Repair_Permits Final_Attempts
begin

text \<open>
  The complete sets behind a final-verification attempt, from
  \<open>ledger/final_verification_authority_v32.rs\<close>: the chain of integrated tasks, the evidence for
  every criterion, the admission request that carries both, and the check that an attempt is
  the one its request derives. The attempt and admission identities are digests of the request.
\<close>

definition TASK_DONE_SET_DIGEST_DOMAIN :: string where
  "TASK_DONE_SET_DIGEST_DOMAIN = ''grok-build/current-task-done-set-v1/canonical-json'' @ [NUL]"

definition CRITERION_EVIDENCE_SET_DIGEST_DOMAIN :: string where
  "CRITERION_EVIDENCE_SET_DIGEST_DOMAIN =
     ''grok-build/current-criterion-evidence-set-v1/canonical-json'' @ [NUL]"

definition ADMISSION_REQUEST_DIGEST_DOMAIN :: string where
  "ADMISSION_REQUEST_DIGEST_DOMAIN =
     ''grok-build/current-final-verification-admission-request-v1/canonical-json'' @ [NUL]"

definition ATTEMPT_ID_DOMAIN :: string where
  "ATTEMPT_ID_DOMAIN = ''grok-build/current-final-verification-attempt-v1/id'' @ [NUL]"

definition ADMISSION_ID_DOMAIN :: string where
  "ADMISSION_ID_DOMAIN = ''grok-build/current-final-verification-admission-v1/id'' @ [NUL]"

definition ADMISSION_EVENT_ID_DOMAIN :: string where
  "ADMISSION_EVENT_ID_DOMAIN =
     ''grok-build/current-final-verification-admission-event-v1/id'' @ [NUL]"

text \<open>\<open>u32::try_from(index)\<close>.\<close>

definition u32_index :: "nat \<Rightarrow> u32 option" where
  "u32_index n = (if n < 2 ^ 32 then Some (of_nat n) else None)"

section \<open>Integrated tasks\<close>

datatype integration_evidence_kind = Changed | VerifiedNoOpIntegration (iv_empty_change_set_id: string)

fun validate_for_snapshots :: "integration_evidence_kind \<Rightarrow> digest \<Rightarrow> digest \<Rightarrow> contract_result" where
  "validate_for_snapshots Changed input_snapshot result_snapshot =
     ensure (input_snapshot \<noteq> result_snapshot)
       (ContractError ''current_task_done_member.result_snapshot''
         ''Changed integration evidence requires a distinct result snapshot'')"
| "validate_for_snapshots (VerifiedNoOpIntegration empty_change_set_id) input_snapshot result_snapshot =
     seq
       [require_nonblank ''current_task_done_member.integration_evidence.empty_change_set_id''
          empty_change_set_id,
        ensure (input_snapshot = result_snapshot)
          (ContractError ''current_task_done_member.result_snapshot''
            ''VerifiedNoOp evidence requires an unchanged snapshot'')]"

fun empty_change_set_id :: "integration_evidence_kind \<Rightarrow> string option" where
  "empty_change_set_id Changed = None"
| "empty_change_set_id (VerifiedNoOpIntegration i) = Some i"

record task_done_member =
  dn_source_ordinal :: u32
  dn_task_id :: string
  dn_task_done_proof_id :: string
  dn_integration_receipt_id :: string
  dn_integration_evidence :: integration_evidence_kind
  dn_input_snapshot :: digest
  dn_result_snapshot :: digest

definition validate_done_member :: "task_done_member \<Rightarrow> contract_result" where
  "validate_done_member m = seq
     [require_nonblank ''current_task_done_member.task_id'' (dn_task_id m),
      require_nonblank ''current_task_done_member.task_done_proof_id'' (dn_task_done_proof_id m),
      require_nonblank ''current_task_done_member.integration_receipt_id''
        (dn_integration_receipt_id m),
      validate_for_snapshots (dn_integration_evidence m) (dn_input_snapshot m)
        (dn_result_snapshot m)]"

record task_done_set =
  ds_set_version :: u32
  ds_sprint_id :: string
  ds_snapshot_digest :: digest
  ds_members :: "task_done_member list"
  ds_recorded_at_unix_ms :: u64

text \<open>\<open>collect::<BTreeMap<_, _>>()\<close>: the last task of an id wins.\<close>

definition graph_tasks :: "task_graph_v2 \<Rightarrow> (string \<rightharpoonup> task_spec_v2)" where
  "graph_tasks g = map_of (rev (map (\<lambda>t. (t2_task_id t, t)) (g2_tasks g)))"

text \<open>
  The member loop: the snapshot the next member has to start from, the ordinals of the repair
  slots met so far, and the members already passed, whose identities are in the four sets.
\<close>

fun done_member_checks ::
  "task_graph_v2 \<Rightarrow> nat \<Rightarrow> digest \<Rightarrow> u8 list \<Rightarrow> task_done_member list \<Rightarrow> task_done_member list \<Rightarrow>
   contract_error + digest \<times> u8 list" where
  "done_member_checks g index expected_input repair_ordinals earlier [] =
     Inr (expected_input, repair_ordinals)"
| "done_member_checks g index expected_input repair_ordinals earlier (m # ms) =
     bind_ok (validate_done_member m)
     (\<lambda>_. bind_ok (ok_or (u32_index index)
        (ContractError ''complete_task_done_set.members''
          ''member count exceeds the supported ordinal range''))
     (\<lambda>expected_ordinal. bind_ok (seq
        [ensure (dn_source_ordinal m = expected_ordinal)
           (ContractError ''complete_task_done_set.members''
             ''source ordinals must be contiguous from zero''),
         ensure (dn_input_snapshot m = expected_input)
           (ContractError ''complete_task_done_set.members''
             ''integration snapshots must form one contiguous chain from the sprint base'')])
     (\<lambda>_. bind_ok (ok_or (graph_tasks g (dn_task_id m))
        (ContractError ''complete_task_done_set.members'' (''unknown task '' @ quoted (dn_task_id m))))
     (\<lambda>task. bind_ok
       (case t2_purpose task of
          FinalVerificationRepairSlot slot_ordinal \<Rightarrow>
            bind_ok (ensure (dn_integration_evidence m = Changed)
              (ContractError ''complete_task_done_set.members''
                ''a final-verification repair slot must integrate a changed, nonempty source''))
            (\<lambda>_. Inr (repair_ordinals @ [slot_ordinal]))
        | Ordinary \<Rightarrow> Inr repair_ordinals)
     (\<lambda>repairs. bind_ok (seq
        [ensure (empty_change_set_id (dn_integration_evidence m) = None \<or>
           empty_change_set_id (dn_integration_evidence m)
             \<notin> (\<lambda>e. empty_change_set_id (dn_integration_evidence e)) ` set earlier)
           (ContractError ''complete_task_done_set.members''
             ''explicit empty ChangeSet identities must be unique''),
         ensure (\<not> (dn_task_id m \<in> set (map dn_task_id earlier) \<or>
             dn_task_done_proof_id m \<in> set (map dn_task_done_proof_id earlier) \<or>
             dn_integration_receipt_id m \<in> set (map dn_integration_receipt_id earlier)))
           (ContractError ''complete_task_done_set.members''
             ''task, TaskDone proof, and integration identities must each be unique'')])
     (\<lambda>_. done_member_checks g (index + 1) (dn_result_snapshot m) repairs (earlier @ [m]) ms))))))"

text \<open>\<open>(1..=n).map(u8::try_from).collect::<Result<Vec<_>, _>>()\<close>.\<close>

definition ordinals_to :: "nat \<Rightarrow> u8 list option" where
  "ordinals_to n = (if n < 256 then Some (map of_nat [1..<Suc n]) else None)"

definition validate_done_set ::
  "(string \<Rightarrow> string) \<Rightarrow> v2_encoders \<Rightarrow> task_done_set \<Rightarrow> sprint_spec_v2 \<Rightarrow> task_graph_v2 \<Rightarrow>
   contract_result" where
  "validate_done_set sha enc d s g =
     bind_ok (seq
       [validate_pair sha enc g s,
        require_version ''complete_task_done_set.set_version'' (ds_set_version d),
        require_nonblank ''complete_task_done_set.sprint_id'' (ds_sprint_id d),
        require_nonzero_timestamp ''complete_task_done_set.recorded_at_unix_ms''
          (ds_recorded_at_unix_ms d),
        ensure (ds_sprint_id d = s2_sprint_id s)
          (ContractError ''complete_task_done_set.sprint_id''
            ''must equal the current sprint identity''),
        ensure (ds_members d \<noteq> [])
          (ContractError ''complete_task_done_set.members''
            ''must contain at least one integrated TaskDone source'')])
     (\<lambda>_. bind_ok (done_member_checks g 0 (s2_base_snapshot s) [] [] (ds_members d))
     (\<lambda>(last_result, repair_ordinals). bind_ok (seq
       (ensure (last_result = ds_snapshot_digest d)
          (ContractError ''complete_task_done_set.snapshot_digest''
            ''must equal the last result in the contiguous integration chain'')
        # map (\<lambda>t. ensure (t2_task_id t \<in> set (map dn_task_id (ds_members d)))
            (ContractError ''complete_task_done_set.members''
              (''required ordinary task '' @ quoted (t2_task_id t) @ '' is missing'')))
            (filter (\<lambda>t. t2_required t \<and> t2_purpose t = Ordinary) (g2_tasks g))))
     (\<lambda>_. bind_ok (ok_or (ordinals_to (length repair_ordinals))
        (ContractError ''complete_task_done_set.members''
          ''repair-slot ordinal exceeds the supported range''))
     (\<lambda>expected_repairs. ensure (repair_ordinals = expected_repairs)
        (ContractError ''complete_task_done_set.members''
          ''integrated repair slots must be a contiguous prefix in slot order'')))))"

fun done_ordinal_checks :: "nat \<Rightarrow> task_done_member list \<Rightarrow> contract_result" where
  "done_ordinal_checks index [] = Inr ()"
| "done_ordinal_checks index (m # ms) =
     bind_ok (validate_done_member m)
     (\<lambda>_. bind_ok (ok_or (u32_index index)
        (ContractError ''complete_task_done_set.members'' ''member ordinal exceeds u32''))
     (\<lambda>ordinal. seq
       [ensure (dn_source_ordinal m = ordinal)
          (ContractError ''complete_task_done_set.members''
            ''source ordinals must be contiguous from zero''),
        done_ordinal_checks (index + 1) ms]))"

definition validate_done_set_intrinsic :: "task_done_set \<Rightarrow> contract_result" where
  "validate_done_set_intrinsic d = seq
     [require_version ''complete_task_done_set.set_version'' (ds_set_version d),
      require_nonblank ''complete_task_done_set.sprint_id'' (ds_sprint_id d),
      require_nonzero_timestamp ''complete_task_done_set.recorded_at_unix_ms''
        (ds_recorded_at_unix_ms d),
      ensure (ds_members d \<noteq> [])
        (ContractError ''complete_task_done_set.members'' ''must not be empty''),
      done_ordinal_checks 0 (ds_members d)]"

definition done_set_bytes ::
  "task_done_set encoder \<Rightarrow> task_done_set \<Rightarrow> contract_error + string" where
  "done_set_bytes enc d = bind_ok (validate_done_set_intrinsic d)
     (\<lambda>_. encode_canonical enc ''complete_task_done_set'' d)"

definition done_set_digest ::
  "(string \<Rightarrow> string) \<Rightarrow> task_done_set encoder \<Rightarrow> task_done_set \<Rightarrow> contract_error + digest" where
  "done_set_digest sha enc d = bind_ok (done_set_bytes enc d)
     (\<lambda>bytes. Inr (domain_digest sha TASK_DONE_SET_DIGEST_DOMAIN bytes))"

section \<open>The chain of integrations\<close>

text \<open>A path of snapshots: each step starts where the one before it ended.\<close>

fun snapshot_path :: "digest \<Rightarrow> (digest \<times> digest) list \<Rightarrow> digest \<Rightarrow> bool" where
  "snapshot_path a [] b \<longleftrightarrow> a = b"
| "snapshot_path a ((x, y) # steps) b \<longleftrightarrow> x = a \<and> snapshot_path y steps b"

definition slot_ordinals_of :: "task_graph_v2 \<Rightarrow> string list \<Rightarrow> u8 list" where
  "slot_ordinals_of g ids = List.map_filter
     (\<lambda>i. case graph_tasks g i of None \<Rightarrow> None | Some t \<Rightarrow> purpose_slot_ordinal (t2_purpose t)) ids"

lemma slot_ordinals_of_simps [simp]:
  "slot_ordinals_of g [] = []"
  "slot_ordinals_of g (i # ids) =
     (case graph_tasks g i of
        None \<Rightarrow> slot_ordinals_of g ids
      | Some t \<Rightarrow> (case purpose_slot_ordinal (t2_purpose t) of
          None \<Rightarrow> slot_ordinals_of g ids | Some k \<Rightarrow> k # slot_ordinals_of g ids))"
  by (simp_all add: slot_ordinals_of_def map_filter_simps split: option.split)

lemma done_member_checksD:
  assumes "done_member_checks g index a rs earlier ms = Inr (b, rs')"
  shows "snapshot_path a (map (\<lambda>m. (dn_input_snapshot m, dn_result_snapshot m)) ms) b"
    and "rs' = rs @ slot_ordinals_of g (map dn_task_id ms)"
    and "distinct (map dn_task_id ms) \<and> dn_task_id ` set ms \<inter> dn_task_id ` set earlier = {}"
    and "\<forall>m\<in>set ms. \<exists>t. graph_tasks g (dn_task_id m) = Some t \<and>
      (t2_purpose t \<noteq> Ordinary \<longrightarrow> dn_input_snapshot m \<noteq> dn_result_snapshot m)"
proof -
  have "snapshot_path a (map (\<lambda>m. (dn_input_snapshot m, dn_result_snapshot m)) ms) b \<and>
    rs' = rs @ slot_ordinals_of g (map dn_task_id ms) \<and>
    distinct (map dn_task_id ms) \<and> dn_task_id ` set ms \<inter> dn_task_id ` set earlier = {} \<and>
    (\<forall>m\<in>set ms. \<exists>t. graph_tasks g (dn_task_id m) = Some t \<and>
      (t2_purpose t \<noteq> Ordinary \<longrightarrow> dn_input_snapshot m \<noteq> dn_result_snapshot m))"
    using assms
  proof (induction ms arbitrary: index a rs earlier)
    case (Cons m ms)
    from Cons.prems obtain t where t: "graph_tasks g (dn_task_id m) = Some t"
      by (auto simp: bind_ok_Inr)
    define repairs where "repairs = rs @ slot_ordinals_of g [dn_task_id m]"
    have v: "validate_done_member m = Inr ()" and a: "dn_input_snapshot m = a"
      and fresh: "dn_task_id m \<notin> dn_task_id ` set earlier"
      and changed: "t2_purpose t \<noteq> Ordinary \<longrightarrow> dn_integration_evidence m = Changed"
      and rest: "done_member_checks g (index + 1) (dn_result_snapshot m) repairs (earlier @ [m]) ms
        = Inr (b, rs')"
      using Cons.prems t by (cases "t2_purpose t"; auto simp: bind_ok_Inr repairs_def)+
    have "t2_purpose t \<noteq> Ordinary \<longrightarrow> dn_input_snapshot m \<noteq> dn_result_snapshot m"
      using changed v by (auto simp: validate_done_member_def)
    moreover have "rs' = rs @ slot_ordinals_of g (map dn_task_id (m # ms))"
      using Cons.IH [OF rest] t by (cases "t2_purpose t") (auto simp: repairs_def)
    ultimately show ?case using Cons.IH [OF rest] t a fresh by auto
  qed simp
  then show "snapshot_path a (map (\<lambda>m. (dn_input_snapshot m, dn_result_snapshot m)) ms) b"
    "rs' = rs @ slot_ordinals_of g (map dn_task_id ms)"
    "distinct (map dn_task_id ms) \<and> dn_task_id ` set ms \<inter> dn_task_id ` set earlier = {}"
    "\<forall>m\<in>set ms. \<exists>t. graph_tasks g (dn_task_id m) = Some t \<and>
      (t2_purpose t \<noteq> Ordinary \<longrightarrow> dn_input_snapshot m \<noteq> dn_result_snapshot m)"
    by blast+
qed

lemma graph_tasks_Some:
  assumes "validate_pair sha enc g s = Inr ()"
  shows "graph_tasks g i = Some t \<longleftrightarrow> t \<in> set (g2_tasks g) \<and> t2_task_id t = i"
proof -
  have "distinct (map fst (rev (map (\<lambda>t. (t2_task_id t, t)) (g2_tasks g))))"
    using validate_pairD(4) [OF assms] by (simp add: rev_map [symmetric] comp_def)
  then show ?thesis
    unfolding graph_tasks_def using map_of_eq_Some_iff by fastforce
qed

text \<open>A slot is found by its ordinal.\<close>

lemma slot_by_ordinal:
  assumes pair: "validate_pair sha enc g s = Inr ()"
    and t: "t \<in> set (g2_tasks g)" "t2_purpose t = FinalVerificationRepairSlot (of_nat k)"
    and k: "1 \<le> k" "k < 256"
  shows "k \<le> length (repair_slots_of g) \<and> t = repair_slots_of g ! (k - 1)"
proof -
  let ?slots = "repair_slots_of g"
  have "t \<in> set ?slots" using t by (simp add: repair_slots_of_def is_repair_slot_def)
  then obtain j where j: "j < length ?slots" "?slots ! j = t" by (auto simp: in_set_conv_nth)
  then have "t2_purpose t = FinalVerificationRepairSlot (of_nat (j + 1))"
    using check_repair_slotD(1) [OF repair_slot_checks [OF validate_pairD(7) [OF pair]]] by blast
  with t(2) have "unat (of_nat k :: u8) = unat (of_nat (j + 1) :: u8)" by simp
  moreover have "j + 1 < 256"
    using j(1) repair_slots_chain(2) [OF pair] by simp
  ultimately have "k = j + 1"
    using k(2) by (simp add: unat_of_nat take_bit_nat_eq_self del: of_nat_add of_nat_Suc)
  with j show ?thesis by simp
qed

abbreviation "slot_ids g \<equiv> map t2_task_id (repair_slots_of g)"

lemma slot_id_iff:
  assumes "validate_pair sha enc g s = Inr ()" "graph_tasks g i = Some t"
  shows "i \<in> set (slot_ids g) \<longleftrightarrow> is_repair_slot t"
  using assms(2) unfolding graph_tasks_Some [OF assms(1)]
  using validate_pairD(4) [OF assms(1)]
  by (auto simp: repair_slots_of_def distinct_map inj_on_eq_iff)

lemma slots_in_order:
  assumes pair: "validate_pair sha enc g s = Inr ()"
    and "slot_ordinals_of g ids = map of_nat ks" "\<forall>k\<in>set ks. 1 \<le> k \<and> k < 256"
    and "\<forall>i\<in>set ids. graph_tasks g i \<noteq> None"
  shows "filter (\<lambda>i. i \<in> set (slot_ids g)) ids = map (\<lambda>k. slot_ids g ! (k - 1)) ks \<and>
    (\<forall>k\<in>set ks. k \<le> length (repair_slots_of g))"
  using assms(2-)
proof (induction ids arbitrary: ks)
  case (Cons i ids)
  then obtain t where t: "graph_tasks g i = Some t" by auto
  note slot = slot_id_iff [OF pair t]
  show ?case
  proof (cases "t2_purpose t")
    case Ordinary
    then have "\<not> is_repair_slot t" by (simp add: is_repair_slot_def)
    with Cons Ordinary t slot show ?thesis by simp
  next
    case (FinalVerificationRepairSlot w)
    then have is_slot: "is_repair_slot t" by (simp add: is_repair_slot_def)
    from Cons.prems(1) t FinalVerificationRepairSlot obtain k ks' where ks: "ks = k # ks'"
      and k: "w = of_nat k" and rest: "slot_ordinals_of g ids = map of_nat ks'"
      by auto
    have IH: "filter (\<lambda>i. i \<in> set (slot_ids g)) ids = map (\<lambda>k. slot_ids g ! (k - 1)) ks' \<and>
        (\<forall>k\<in>set ks'. k \<le> length (repair_slots_of g))"
      using Cons.IH [OF rest] Cons.prems(2,3) by (simp add: ks)
    have at: "t \<in> set (g2_tasks g)" "t2_task_id t = i"
      using t by (auto simp: graph_tasks_Some [OF pair])
    from slot_by_ordinal [OF pair this(1)] FinalVerificationRepairSlot k Cons.prems(2)
    have j: "k \<le> length (repair_slots_of g)" "t = repair_slots_of g ! (k - 1)" "1 \<le> k"
      by (auto simp: ks)
    then have "slot_ids g ! (k - 1) = i" using at(2) by (metis Suc_le_eq Suc_pred' nth_map One_nat_def)
    then show ?thesis
      using IH is_slot slot j(1) by (simp add: ks)
  qed
qed simp

lemma validate_done_setD:
  assumes "validate_done_set sha enc d s g = Inr ()"
  shows "validate_pair sha enc g s = Inr ()" "ds_sprint_id d = s2_sprint_id s"
    and "\<exists>rs. done_member_checks g 0 (s2_base_snapshot s) [] [] (ds_members d)
        = Inr (ds_snapshot_digest d, rs) \<and> ordinals_to (length rs) = Some rs"
    and "required_ordinary_ids g \<subseteq> set (map dn_task_id (ds_members d))"
  using assms
  by (auto simp: validate_done_set_def bind_ok_Inr seq_map_ok required_ordinary_ids_def)

text \<open>
  C17. An accepted task-done set is a full integration history: its snapshots form one path from
  the sprint's base to the set's snapshot; no task occurs twice; every required ordinary task of
  the graph is there and nothing outside the graph; the repair slots in it are, in this order, the
  first slots of the graph; and each of them changed the snapshot.
\<close>

theorem done_set_is_a_history:
  assumes "validate_done_set sha enc d s g = Inr ()"
  shows "snapshot_path (s2_base_snapshot s)
      (map (\<lambda>m. (dn_input_snapshot m, dn_result_snapshot m)) (ds_members d)) (ds_snapshot_digest d) \<and>
    distinct (map dn_task_id (ds_members d)) \<and>
    required_ordinary_ids g \<subseteq> set (map dn_task_id (ds_members d)) \<and>
    set (map dn_task_id (ds_members d)) \<subseteq> t2_task_id ` set (g2_tasks g) \<and>
    (\<exists>n. filter (\<lambda>i. i \<in> set (slot_ids g)) (map dn_task_id (ds_members d)) = take n (slot_ids g)) \<and>
    (\<forall>m\<in>set (ds_members d). dn_task_id m \<in> set (slot_ids g) \<longrightarrow>
      dn_input_snapshot m \<noteq> dn_result_snapshot m)"
proof -
  note D = validate_done_setD [OF assms]
  obtain rs where loop: "done_member_checks g 0 (s2_base_snapshot s) [] [] (ds_members d)
      = Inr (ds_snapshot_digest d, rs)" and "ordinals_to (length rs) = Some rs"
    using D(3) by blast
  then have rs: "rs = map of_nat [1..<Suc (length rs)]" "length rs < 256"
    by (auto simp: ordinals_to_def split: if_splits)
  note L = done_member_checksD [OF loop]
  let ?ids = "map dn_task_id (ds_members d)"
  have known: "\<forall>i\<in>set ?ids. graph_tasks g i \<noteq> None" using L(4) by auto
  have "slot_ordinals_of g ?ids = map of_nat [1..<Suc (length rs)]" using L(2) rs(1) by simp
  from slots_in_order [OF D(1) this _ known] rs(2)
  have F: "filter (\<lambda>i. i \<in> set (slot_ids g)) ?ids = map (\<lambda>k. slot_ids g ! (k - 1)) [1..<Suc (length rs)]"
    and n: "length rs \<le> length (repair_slots_of g)"
    by (auto simp del: upt_Suc)
  have "map (\<lambda>k. slot_ids g ! (k - 1)) [1..<Suc (length rs)] = take (length rs) (slot_ids g)"
    using n by (intro nth_equalityI) (auto simp del: upt_Suc)
  with F have slots: "\<exists>n. filter (\<lambda>i. i \<in> set (slot_ids g)) ?ids = take n (slot_ids g)" by metis
  have graph: "set ?ids \<subseteq> t2_task_id ` set (g2_tasks g)"
  proof
    fix i assume "i \<in> set ?ids"
    then obtain m where "m \<in> set (ds_members d)" "i = dn_task_id m" by auto
    with L(4) obtain t where "graph_tasks g i = Some t" by blast
    then show "i \<in> t2_task_id ` set (g2_tasks g)"
      unfolding graph_tasks_Some [OF D(1)] by blast
  qed
  have "dn_input_snapshot m \<noteq> dn_result_snapshot m"
    if mem: "m \<in> set (ds_members d)" and slot: "dn_task_id m \<in> set (slot_ids g)" for m
  proof -
    from L(4) mem obtain t where t: "graph_tasks g (dn_task_id m) = Some t"
      "t2_purpose t \<noteq> Ordinary \<longrightarrow> dn_input_snapshot m \<noteq> dn_result_snapshot m"
      by blast
    have "is_repair_slot t" by (rule slot_id_iff [OF D(1) t(1), THEN iffD1, OF slot])
    then have "t2_purpose t \<noteq> Ordinary" by (auto simp: is_repair_slot_def)
    with t(2) show ?thesis by (rule mp)
  qed
  moreover have "distinct ?ids" using L(3) by simp
  ultimately show ?thesis
    using L(1) D(4) slots graph by (intro conjI ballI impI)
qed

end
