(* ===== verification/Verifier_Contracts.thy ===== *)
theory Verifier_Contracts
  imports Evidence_Sets
begin

text \<open>
  The records of the verifier ledger in \<open>ledger/final_verification_authority_v32.rs\<close>: the
  complete criterion evidence, the admission request and the check that an attempt is the one
  its request derives, control records, the capture that closes an attempt, its typed outcome,
  and the request and record of a completed repair.
\<close>

section \<open>Criterion evidence\<close>

datatype evidence_kind = Verified | AcceptedByYou

record criterion_evidence_member =
  cm_criterion_ordinal :: u32
  cm_criterion_id :: string
  cm_evidence_receipt_id :: string
  cm_evidence_kind :: evidence_kind
  cm_snapshot_digest :: digest

record criterion_evidence_set =
  cv_set_version :: u32
  cv_sprint_id :: string
  cv_snapshot_digest :: digest
  cv_members :: "criterion_evidence_member list"
  cv_recorded_at_unix_ms :: u64

text \<open>The loop of the intrinsic check; the two sets hold the identities of the members passed.\<close>

fun evidence_member_checks ::
  "digest \<Rightarrow> nat \<Rightarrow> criterion_evidence_member list \<Rightarrow> criterion_evidence_member list \<Rightarrow>
   contract_result" where
  "evidence_member_checks snapshot index earlier [] = Inr ()"
| "evidence_member_checks snapshot index earlier (m # ms) =
     bind_ok (seq
       [require_nonblank ''complete_criterion_evidence_set.member.criterion_id'' (cm_criterion_id m),
        require_nonblank ''complete_criterion_evidence_set.member.evidence_receipt_id''
          (cm_evidence_receipt_id m)])
     (\<lambda>_. bind_ok (ok_or (u32_index index)
        (ContractError ''complete_criterion_evidence_set.members''
          ''criterion ordinal exceeds u32''))
     (\<lambda>ordinal. seq
       [ensure (\<not> (cm_criterion_ordinal m \<noteq> ordinal \<or> cm_snapshot_digest m \<noteq> snapshot \<or>
            cm_criterion_id m \<in> set (map cm_criterion_id earlier) \<or>
            cm_evidence_receipt_id m \<in> set (map cm_evidence_receipt_id earlier)))
          (ContractError ''complete_criterion_evidence_set.members''
            ''members must be contiguous, same-snapshot, and identity-unique''),
        evidence_member_checks snapshot (index + 1) (earlier @ [m]) ms]))"

definition validate_evidence_set_intrinsic :: "criterion_evidence_set \<Rightarrow> contract_result" where
  "validate_evidence_set_intrinsic e = seq
     [require_version ''complete_criterion_evidence_set.set_version'' (cv_set_version e),
      require_nonblank ''complete_criterion_evidence_set.sprint_id'' (cv_sprint_id e),
      require_nonzero_timestamp ''complete_criterion_evidence_set.recorded_at_unix_ms''
        (cv_recorded_at_unix_ms e),
      ensure (cv_members e \<noteq> [])
        (ContractError ''complete_criterion_evidence_set.members'' ''must not be empty''),
      evidence_member_checks (cv_snapshot_digest e) 0 [] (cv_members e)]"

definition expected_evidence_kind :: "acceptance_kind \<Rightarrow> evidence_kind" where
  "expected_evidence_kind k = (case k of Automated _ \<Rightarrow> Verified | HumanJudgment \<Rightarrow> AcceptedByYou)"

fun evidence_criterion_checks ::
  "digest \<Rightarrow> nat \<Rightarrow> (criterion_evidence_member \<times> acceptance_criterion) list \<Rightarrow> contract_result" where
  "evidence_criterion_checks snapshot index [] = Inr ()"
| "evidence_criterion_checks snapshot index ((m, c) # pairs) =
     bind_ok (ok_or (u32_index index)
        (ContractError ''complete_criterion_evidence_set.members''
          ''criterion ordinal exceeds u32''))
     (\<lambda>ordinal. seq
       [ensure (\<not> (cm_criterion_ordinal m \<noteq> ordinal \<or> cm_criterion_id m \<noteq> ac_criterion_id c \<or>
            cm_snapshot_digest m \<noteq> snapshot))
          (ContractError ''complete_criterion_evidence_set.members''
            ''criterion order, identity, or snapshot differs from the current sprint''),
        ensure (cm_evidence_kind m = expected_evidence_kind (ac_kind c))
          (ContractError ''complete_criterion_evidence_set.members''
            ''machine Verified and human AcceptedByYou evidence are not substitutable''),
        evidence_criterion_checks snapshot (index + 1) pairs])"

definition validate_evidence_set :: "criterion_evidence_set \<Rightarrow> sprint_spec_v2 \<Rightarrow> contract_result" where
  "validate_evidence_set e s = seq
     [validate_sprint_v2 s,
      validate_evidence_set_intrinsic e,
      ensure (cv_sprint_id e = s2_sprint_id s)
        (ContractError ''complete_criterion_evidence_set.sprint_id''
          ''must equal the current sprint identity''),
      ensure (length (cv_members e) = length (s2_acceptance_criteria s))
        (ContractError ''complete_criterion_evidence_set.members''
          ''must contain exactly one member for every sprint criterion''),
      evidence_criterion_checks (cv_snapshot_digest e) 0
        (zip (cv_members e) (s2_acceptance_criteria s))]"

definition evidence_set_bytes ::
  "criterion_evidence_set encoder \<Rightarrow> criterion_evidence_set \<Rightarrow> contract_error + string" where
  "evidence_set_bytes enc e = bind_ok (validate_evidence_set_intrinsic e)
     (\<lambda>_. encode_canonical enc ''complete_criterion_evidence_set'' e)"

definition evidence_set_digest ::
  "(string \<Rightarrow> string) \<Rightarrow> criterion_evidence_set encoder \<Rightarrow> criterion_evidence_set \<Rightarrow>
   contract_error + digest" where
  "evidence_set_digest sha enc e = bind_ok (evidence_set_bytes enc e)
     (\<lambda>bytes. Inr (domain_digest sha CRITERION_EVIDENCE_SET_DIGEST_DOMAIN bytes))"

section \<open>Admission requests\<close>

record admission_request =
  rq_request_id :: string
  rq_sprint_id :: string
  rq_task_done_set :: task_done_set
  rq_criterion_evidence_set :: criterion_evidence_set
  rq_final_verification_check :: command_spec
  rq_execution_policy_digest :: digest
  rq_coordinator_instance_id :: string
  rq_admitted_at_unix_ms :: u64

definition validate_request_intrinsic :: "admission_request \<Rightarrow> contract_result" where
  "validate_request_intrinsic r = seq
     [require_nonblank ''current_final_verification_request.request_id'' (rq_request_id r),
      require_nonblank ''current_final_verification_request.sprint_id'' (rq_sprint_id r),
      require_nonblank ''current_final_verification_request.coordinator_instance_id''
        (rq_coordinator_instance_id r),
      require_nonzero_timestamp ''current_final_verification_request.admitted_at_unix_ms''
        (rq_admitted_at_unix_ms r),
      validate_done_set_intrinsic (rq_task_done_set r),
      validate_evidence_set_intrinsic (rq_criterion_evidence_set r),
      ensure (\<not> (ds_sprint_id (rq_task_done_set r) \<noteq> rq_sprint_id r \<or>
          cv_sprint_id (rq_criterion_evidence_set r) \<noteq> rq_sprint_id r))
        (ContractError ''current_final_verification_request.sprint_id''
          ''request and complete sets must share one sprint identity''),
      ensure (ds_snapshot_digest (rq_task_done_set r)
          = cv_snapshot_digest (rq_criterion_evidence_set r))
        (ContractError ''current_final_verification_request.criterion_evidence_set''
          ''TaskDone and criterion evidence must bind the same snapshot''),
      ensure (\<not> (ds_recorded_at_unix_ms (rq_task_done_set r) > rq_admitted_at_unix_ms r \<or>
          cv_recorded_at_unix_ms (rq_criterion_evidence_set r) > rq_admitted_at_unix_ms r))
        (ContractError ''current_final_verification_request.admitted_at_unix_ms''
          ''admission cannot predate either complete evidence set''),
      validate_command_spec (rq_final_verification_check r)]"

definition validate_request ::
  "(string \<Rightarrow> string) \<Rightarrow> v2_encoders \<Rightarrow> admission_request \<Rightarrow> sprint_spec_v2 \<Rightarrow> task_graph_v2 \<Rightarrow>
   contract_result" where
  "validate_request sha enc r s g = seq
     [validate_request_intrinsic r,
      ensure (rq_sprint_id r = s2_sprint_id s)
        (ContractError ''current_final_verification_request.sprint_id''
          ''must equal the current sprint identity''),
      validate_done_set sha enc (rq_task_done_set r) s g,
      validate_evidence_set (rq_criterion_evidence_set r) s]"

definition request_bytes ::
  "admission_request encoder \<Rightarrow> admission_request \<Rightarrow> contract_error + string" where
  "request_bytes enc r = bind_ok (validate_request_intrinsic r)
     (\<lambda>_. encode_canonical enc ''current_final_verification_request'' r)"

definition request_digest ::
  "(string \<Rightarrow> string) \<Rightarrow> admission_request encoder \<Rightarrow> admission_request \<Rightarrow> contract_error + digest" where
  "request_digest sha enc r = bind_ok (request_bytes enc r)
     (\<lambda>bytes. Inr (domain_digest sha ADMISSION_REQUEST_DIGEST_DOMAIN bytes))"

text \<open>\<open>mint_identity\<close>: the text of a domain digest serves as an identity.\<close>

definition mint_identity :: "(string \<Rightarrow> string) \<Rightarrow> string \<Rightarrow> string \<Rightarrow> string" where
  "mint_identity sha domain seed = digest_str (domain_digest sha domain seed)"

definition validate_attempt_request_binding ::
  "(string \<Rightarrow> string) \<Rightarrow> admission_request encoder \<Rightarrow> task_done_set encoder \<Rightarrow>
   criterion_evidence_set encoder \<Rightarrow> admission_request \<Rightarrow> final_attempt_authority \<Rightarrow>
   contract_result" where
  "validate_attempt_request_binding sha enc_request enc_done enc_evidence r a =
     bind_ok (validate_request_intrinsic r)
     (\<lambda>_. bind_ok (request_digest sha enc_request r)
     (\<lambda>digest. bind_ok (done_set_digest sha enc_done (rq_task_done_set r))
     (\<lambda>task_set_digest. bind_ok (evidence_set_digest sha enc_evidence (rq_criterion_evidence_set r))
     (\<lambda>criterion_set_digest. ensure (\<not>
        (fa_attempt_id a \<noteq> mint_identity sha ATTEMPT_ID_DOMAIN (digest_str digest) \<or>
         fa_sprint_id a \<noteq> rq_sprint_id r \<or>
         fa_final_verification_admission_id a
           \<noteq> mint_identity sha ADMISSION_ID_DOMAIN (digest_str digest) \<or>
         fa_input_snapshot a \<noteq> ds_snapshot_digest (rq_task_done_set r) \<or>
         fa_complete_task_done_set_digest a \<noteq> task_set_digest \<or>
         fa_complete_criterion_evidence_set_digest a \<noteq> criterion_set_digest \<or>
         fa_final_verification_check a \<noteq> rq_final_verification_check r \<or>
         fa_execution_policy_digest a \<noteq> rq_execution_policy_digest r \<or>
         fp_coordinator_instance_id (fa_provenance a) \<noteq> rq_coordinator_instance_id r \<or>
         fp_admission_event_id (fa_provenance a)
           \<noteq> mint_identity sha ADMISSION_EVENT_ID_DOMAIN (digest_str digest) \<or>
         fp_admission_event_sequence (fa_provenance a) \<noteq> ucast (fa_attempt_ordinal a) \<or>
         fp_admitted_at_unix_ms (fa_provenance a) \<noteq> rq_admitted_at_unix_ms r))
       (ContractError ''current_final_verification_request''
         ''canonical request bytes do not derive the exact attempt authority'')))))"

section \<open>Control, capture and outcome\<close>

datatype control_kind = Pause | SteeringInterruption | Cancel

record control =
  cl_control_version :: u32
  cl_control_id :: string
  cl_sprint_id :: string
  cl_attempt_id :: string
  cl_control_kind :: control_kind
  cl_before_effect :: bool
  cl_issued_at_unix_ms :: u64

definition validate_control :: "control \<Rightarrow> contract_result" where
  "validate_control c = seq
     [require_version ''current_final_verification_control.control_version'' (cl_control_version c),
      require_nonblank ''current_final_verification_control.control_id'' (cl_control_id c),
      require_nonblank ''current_final_verification_control.sprint_id'' (cl_sprint_id c),
      require_nonblank ''current_final_verification_control.attempt_id'' (cl_attempt_id c),
      require_nonzero_timestamp ''current_final_verification_control.issued_at_unix_ms''
        (cl_issued_at_unix_ms c)]"

datatype verifier_termination =
    Exited i32
  | Signaled i32
  | TimedOut
  | OutputLimitExceeded
  | FailedBeforeEffect
  | InterruptedBeforeEffect string
  | InterruptedAfterEffect string
  | Canceled string
  | Unknown digest

fun termination_control_id :: "verifier_termination \<Rightarrow> string option" where
  "termination_control_id (InterruptedBeforeEffect control_id) = Some control_id"
| "termination_control_id (InterruptedAfterEffect control_id) = Some control_id"
| "termination_control_id (Canceled control_id) = Some control_id"
| "termination_control_id _ = None"

fun validate_verifier_termination :: "verifier_termination \<Rightarrow> contract_result" where
  "validate_verifier_termination (Signaled signal) =
     ensure (\<not> sint signal \<le> 0)
       (ContractError ''current_final_verification_capture.termination.signal'' ''must be positive'')"
| "validate_verifier_termination (InterruptedBeforeEffect control_id) =
     require_nonblank ''current_final_verification_capture.termination.control_id'' control_id"
| "validate_verifier_termination (InterruptedAfterEffect control_id) =
     require_nonblank ''current_final_verification_capture.termination.control_id'' control_id"
| "validate_verifier_termination (Canceled control_id) =
     require_nonblank ''current_final_verification_capture.termination.control_id'' control_id"
| "validate_verifier_termination _ = Inr ()"

datatype output_custody =
    PublishedClean string
  | AbandonedSensitive string
  | ClosedBeforeCapture string
  | Unknown digest

fun custody_receipt_id :: "output_custody \<Rightarrow> string option" where
  "custody_receipt_id (PublishedClean i) = Some i"
| "custody_receipt_id (AbandonedSensitive i) = Some i"
| "custody_receipt_id (ClosedBeforeCapture i) = Some i"
| "custody_receipt_id (output_custody.Unknown _) = None"

definition validate_custody :: "output_custody \<Rightarrow> contract_result" where
  "validate_custody c = (case custody_receipt_id c of
     Some identity \<Rightarrow>
       require_nonblank ''current_final_verification_capture.custody.receipt_id'' identity
   | None \<Rightarrow> Inr ())"

record capture_closure =
  cc_closure_version :: u32
  cc_closure_id :: string
  cc_sprint_id :: string
  cc_attempt_id :: string
  cc_termination :: verifier_termination
  cc_output_custody :: output_custody
  cc_runner_cleanup_proof_id :: "string option"
  cc_command_domain_cleanup_proof_id :: "string option"
  cc_terminal_at_unix_ms :: u64

definition validate_capture :: "capture_closure \<Rightarrow> contract_result" where
  "validate_capture c = seq
     ([require_version ''current_final_verification_capture.closure_version'' (cc_closure_version c),
       require_nonblank ''current_final_verification_capture.closure_id'' (cc_closure_id c),
       require_nonblank ''current_final_verification_capture.sprint_id'' (cc_sprint_id c),
       require_nonblank ''current_final_verification_capture.attempt_id'' (cc_attempt_id c),
       require_nonzero_timestamp ''current_final_verification_capture.terminal_at_unix_ms''
         (cc_terminal_at_unix_ms c),
       validate_verifier_termination (cc_termination c),
       validate_custody (cc_output_custody c)]
      @ map (require_nonblank ''current_final_verification_capture.cleanup_proof_id'')
          (List.map_filter id [cc_runner_cleanup_proof_id c, cc_command_domain_cleanup_proof_id c]))"

datatype outcome_kind =
    Verified
  | NonzeroExit i32
  | Signaled i32
  | TimedOut
  | OutputLimitExceeded
  | SensitiveOutputRejected
  | FailedBeforeEffect
  | ControlInterruptedBeforeEffect string
  | Canceled string
  | Unknown

fun validate_outcome_kind :: "outcome_kind \<Rightarrow> contract_result" where
  "validate_outcome_kind (NonzeroExit code) =
     ensure (\<not> sint code \<le> 0)
       (ContractError ''current_final_verification_outcome.code''
         ''NonzeroExit requires a positive code'')"
| "validate_outcome_kind (outcome_kind.Signaled signal) =
     ensure (\<not> sint signal \<le> 0)
       (ContractError ''current_final_verification_outcome.signal''
         ''Signaled requires a positive signal'')"
| "validate_outcome_kind (ControlInterruptedBeforeEffect control_id) =
     require_nonblank ''current_final_verification_outcome.control_id'' control_id"
| "validate_outcome_kind (outcome_kind.Canceled control_id) =
     require_nonblank ''current_final_verification_outcome.control_id'' control_id"
| "validate_outcome_kind _ = Inr ()"

definition is_known_after_effect_failure :: "outcome_kind \<Rightarrow> bool" where
  "is_known_after_effect_failure k = (case k of
     NonzeroExit _ \<Rightarrow> True
   | outcome_kind.Signaled _ \<Rightarrow> True
   | outcome_kind.TimedOut \<Rightarrow> True
   | outcome_kind.OutputLimitExceeded \<Rightarrow> True
   | SensitiveOutputRejected \<Rightarrow> True
   | _ \<Rightarrow> False)"

record outcome =
  oc_outcome_version :: u32
  oc_outcome_id :: string
  oc_sprint_id :: string
  oc_attempt_id :: string
  oc_closure_id :: string
  oc_outcome :: outcome_kind
  oc_terminal_at_unix_ms :: u64

definition validate_outcome :: "outcome \<Rightarrow> contract_result" where
  "validate_outcome c = seq
     [require_version ''current_final_verification_outcome.outcome_version'' (oc_outcome_version c),
      require_nonblank ''current_final_verification_outcome.outcome_id'' (oc_outcome_id c),
      require_nonblank ''current_final_verification_outcome.sprint_id'' (oc_sprint_id c),
      require_nonblank ''current_final_verification_outcome.attempt_id'' (oc_attempt_id c),
      require_nonblank ''current_final_verification_outcome.closure_id'' (oc_closure_id c),
      require_nonzero_timestamp ''current_final_verification_outcome.terminal_at_unix_ms''
        (oc_terminal_at_unix_ms c),
      validate_outcome_kind (oc_outcome c)]"

text \<open>
  \<open>classify_current_capture\<close>, with the read of the control table as the argument \<open>control_of\<close>.
\<close>

definition matching_control :: "(string \<Rightarrow> control option) \<Rightarrow> capture_closure \<Rightarrow> control option" where
  "matching_control control_of c =
     (case Option.bind (termination_control_id (cc_termination c)) control_of of
        None \<Rightarrow> None
      | Some r \<Rightarrow>
          if cl_sprint_id r = cc_sprint_id c \<and> cl_attempt_id r = cc_attempt_id c \<and>
             cl_issued_at_unix_ms r \<le> cc_terminal_at_unix_ms c
          then Some r else None)"

fun interruption_backed :: "string \<Rightarrow> control option \<Rightarrow> bool" where
  "interruption_backed control_id None = False"
| "interruption_backed control_id (Some r) = (cl_control_id r = control_id \<and> cl_before_effect r \<and>
     (cl_control_kind r = Pause \<or> cl_control_kind r = SteeringInterruption))"

fun cancel_backed :: "string \<Rightarrow> output_custody \<Rightarrow> control option \<Rightarrow> bool" where
  "cancel_backed control_id custody None = False"
| "cancel_backed control_id custody (Some r) = (cl_control_id r = control_id \<and>
     cl_control_kind r = Cancel \<and>
     (case custody of
        ClosedBeforeCapture _ \<Rightarrow> cl_before_effect r
      | PublishedClean _ \<Rightarrow> \<not> cl_before_effect r
      | AbandonedSensitive _ \<Rightarrow> \<not> cl_before_effect r
      | output_custody.Unknown _ \<Rightarrow> False))"

definition cleanup_complete :: "capture_closure \<Rightarrow> bool" where
  "cleanup_complete c \<longleftrightarrow>
     cc_runner_cleanup_proof_id c \<noteq> None \<and> cc_command_domain_cleanup_proof_id c \<noteq> None"

definition classify_by_custody :: "verifier_termination \<Rightarrow> output_custody \<Rightarrow> outcome_kind" where
  "classify_by_custody t custody = (case custody of
     ClosedBeforeCapture _ \<Rightarrow>
       (if t = verifier_termination.FailedBeforeEffect then outcome_kind.FailedBeforeEffect
        else outcome_kind.Unknown)
   | AbandonedSensitive _ \<Rightarrow> SensitiveOutputRejected
   | PublishedClean _ \<Rightarrow>
       (case t of
          verifier_termination.Exited code \<Rightarrow>
            if code = 0 then outcome_kind.Verified
            else if sint code > 0 then NonzeroExit code else outcome_kind.Unknown
        | verifier_termination.Signaled signal \<Rightarrow>
            if sint signal > 0 then outcome_kind.Signaled signal else outcome_kind.Unknown
        | verifier_termination.TimedOut \<Rightarrow> outcome_kind.TimedOut
        | verifier_termination.OutputLimitExceeded \<Rightarrow> outcome_kind.OutputLimitExceeded
        | _ \<Rightarrow> outcome_kind.Unknown)
   | output_custody.Unknown _ \<Rightarrow> outcome_kind.Unknown)"

definition classify_current_capture ::
  "(string \<Rightarrow> control option) \<Rightarrow> capture_closure \<Rightarrow> outcome_kind" where
  "classify_current_capture control_of c =
     (if \<not> cleanup_complete c \<or>
         (case cc_termination c of verifier_termination.Unknown _ \<Rightarrow> True
            | InterruptedAfterEffect _ \<Rightarrow> True | _ \<Rightarrow> False) \<or>
         (case cc_output_custody c of output_custody.Unknown _ \<Rightarrow> True | _ \<Rightarrow> False)
      then outcome_kind.Unknown
      else let control = matching_control control_of c in
        (case (cc_termination c, cc_output_custody c) of
           (InterruptedBeforeEffect control_id, ClosedBeforeCapture _) \<Rightarrow>
             if interruption_backed control_id control
             then ControlInterruptedBeforeEffect control_id
             else classify_by_custody (cc_termination c) (cc_output_custody c)
         | (verifier_termination.Canceled control_id, custody) \<Rightarrow>
             if cancel_backed control_id custody control
             then outcome_kind.Canceled control_id
             else classify_by_custody (cc_termination c) (cc_output_custody c)
         | _ \<Rightarrow> classify_by_custody (cc_termination c) (cc_output_custody c)))"

section \<open>Completed repairs\<close>

record repair_completion_request =
  rk_request_id :: string
  rk_activation_id :: string
  rk_repair_task_done_proof_id :: string
  rk_integration_receipt_id :: string
  rk_input_snapshot :: digest
  rk_result_snapshot :: digest
  rk_change_set_id :: string
  rk_operation_count :: u32
  rk_task_done_set :: task_done_set
  rk_criterion_evidence_set :: criterion_evidence_set
  rk_completed_at_unix_ms :: u64

definition validate_completion_request :: "repair_completion_request \<Rightarrow> contract_result" where
  "validate_completion_request r = seq
     [require_nonblank ''repair_completion_request.request_id'' (rk_request_id r),
      require_nonblank ''repair_completion_request.activation_id'' (rk_activation_id r),
      require_nonblank ''repair_completion_request.repair_task_done_proof_id''
        (rk_repair_task_done_proof_id r),
      require_nonblank ''repair_completion_request.integration_receipt_id''
        (rk_integration_receipt_id r),
      require_nonblank ''repair_completion_request.change_set_id'' (rk_change_set_id r),
      require_nonzero_timestamp ''repair_completion_request.completed_at_unix_ms''
        (rk_completed_at_unix_ms r),
      ensure (\<not> (rk_operation_count r = 0 \<or> rk_input_snapshot r = rk_result_snapshot r))
        (ContractError ''repair_completion_request.result_snapshot''
          ''repair must be nonempty, non-net-zero, and change the failed snapshot'')]"

definition REPAIR_COMPLETION_REQUEST_DIGEST_DOMAIN :: string where
  "REPAIR_COMPLETION_REQUEST_DIGEST_DOMAIN =
     ''grok-build/current-final-verification-repair-completion-request-v1/canonical-json'' @ [NUL]"

definition completion_request_digest ::
  "(string \<Rightarrow> string) \<Rightarrow> repair_completion_request encoder \<Rightarrow> repair_completion_request \<Rightarrow>
   contract_error + digest" where
  "completion_request_digest sha enc r = bind_ok (validate_completion_request r)
     (\<lambda>_. bind_ok (encode_canonical enc ''repair_completion_request'' r)
     (\<lambda>bytes. Inr (domain_digest sha REPAIR_COMPLETION_REQUEST_DIGEST_DOMAIN bytes)))"

record repair_completion =
  rp_completion_version :: u32
  rp_completion_id :: string
  rp_sprint_id :: string
  rp_activation_id :: string
  rp_failed_attempt_id :: string
  rp_repair_task_id :: string
  rp_repair_task_done_proof_id :: string
  rp_integration_receipt_id :: string
  rp_input_snapshot :: digest
  rp_result_snapshot :: digest
  rp_change_set_id :: string
  rp_operation_count :: u32
  rp_complete_task_done_set_digest :: digest
  rp_complete_criterion_evidence_set_digest :: digest
  rp_completed_at_unix_ms :: u64

definition validate_completion :: "repair_completion \<Rightarrow> contract_result" where
  "validate_completion c = seq
     [require_version ''current_final_verification_repair_completion.completion_version''
        (rp_completion_version c),
      require_nonblank ''repair_completion.completion_id'' (rp_completion_id c),
      require_nonblank ''repair_completion.sprint_id'' (rp_sprint_id c),
      require_nonblank ''repair_completion.activation_id'' (rp_activation_id c),
      require_nonblank ''repair_completion.failed_attempt_id'' (rp_failed_attempt_id c),
      require_nonblank ''repair_completion.repair_task_id'' (rp_repair_task_id c),
      require_nonblank ''repair_completion.repair_task_done_proof_id''
        (rp_repair_task_done_proof_id c),
      require_nonblank ''repair_completion.integration_receipt_id'' (rp_integration_receipt_id c),
      require_nonblank ''repair_completion.change_set_id'' (rp_change_set_id c),
      require_nonzero_timestamp ''repair_completion.completed_at_unix_ms''
        (rp_completed_at_unix_ms c),
      ensure (\<not> (rp_operation_count c = 0 \<or> rp_input_snapshot c = rp_result_snapshot c))
        (ContractError ''repair_completion.result_snapshot''
          ''repair must be nonempty and change the failed snapshot'')]"

section \<open>Unsuccessful ends of a sprint\<close>

datatype terminal_reason =
  FinalVerificationAttemptsExhausted | ExplicitCancel | AmbiguousFinalVerification

record terminal_outcome =
  to_sprint_id :: string
  to_terminal_state :: string
  to_source_attempt_id :: string
  to_source_outcome_id :: string
  to_terminal_reason :: terminal_reason
  to_terminal_at_unix_ms :: u64

text \<open>The decision of \<open>maybe_insert_current_terminal\<close>.\<close>

definition terminal_of :: "final_attempt_authority \<Rightarrow> outcome_kind \<Rightarrow> (string \<times> terminal_reason) option" where
  "terminal_of a k = (case k of
     outcome_kind.Canceled _ \<Rightarrow> Some (''Canceled'', ExplicitCancel)
   | outcome_kind.Unknown \<Rightarrow> Some (''Unknown'', AmbiguousFinalVerification)
   | outcome_kind.Verified \<Rightarrow> None
   | _ \<Rightarrow> if fa_attempt_ordinal a = fa_max_final_verification_attempts a
       then Some (''Failed'', FinalVerificationAttemptsExhausted) else None)"

end
