(* ===== verification/Outcome_Guard.thy ===== *)
theory Outcome_Guard
  imports Verifier_Contracts
begin

text \<open>
  The trigger \<open>current_final_verification_outcomes_v32_validate\<close> of
  \<open>ledger/final_verification_authority_v32.sql\<close>, which SQLite runs before it stores an outcome,
  against \<open>classify_current_capture\<close>, which derives the outcome. The columns of the capture row
  are written from the capture, so the model reads them from it.
\<close>

text \<open>A row of the control table by its primary key.\<close>

definition find_control :: "control list \<Rightarrow> string \<Rightarrow> control option" where
  "find_control rows control_id = find (\<lambda>r. cl_control_id r = control_id) rows"

lemma find_control_id: "find_control rows i = Some r \<Longrightarrow> cl_control_id r = i"
  by (auto simp: find_control_def dest: find_SomeD)

text \<open>\<open>EXISTS (SELECT 1 FROM controls ... )\<close> with the conditions common to all branches.\<close>

definition control_exists :: "control list \<Rightarrow> capture_closure \<Rightarrow> (control \<Rightarrow> bool) \<Rightarrow> bool" where
  "control_exists rows c P \<longleftrightarrow> list_ex (\<lambda>r.
     Some (cl_control_id r) = termination_control_id (cc_termination c) \<and>
     cl_sprint_id r = cc_sprint_id c \<and> cl_attempt_id r = cc_attempt_id c \<and>
     cl_issued_at_unix_ms r \<le> cc_terminal_at_unix_ms c \<and> P r) rows"

definition interruption_row :: "control \<Rightarrow> bool" where
  "interruption_row r \<longleftrightarrow> cl_before_effect r \<and>
     (cl_control_kind r = Pause \<or> cl_control_kind r = SteeringInterruption)"

definition cancel_row :: "output_custody \<Rightarrow> control \<Rightarrow> bool" where
  "cancel_row custody r \<longleftrightarrow> cl_control_kind r = Cancel \<and>
     ((cl_before_effect r \<and> (case custody of ClosedBeforeCapture _ \<Rightarrow> True | _ \<Rightarrow> False)) \<or>
      (\<not> cl_before_effect r \<and>
        (case custody of PublishedClean _ \<Rightarrow> True | AbandonedSensitive _ \<Rightarrow> True | _ \<Rightarrow> False)))"

text \<open>The three \<open>IS NOT NULL\<close> conditions that every branch repeats.\<close>

definition proofs_present :: "capture_closure \<Rightarrow> bool" where
  "proofs_present c \<longleftrightarrow> custody_receipt_id (cc_output_custody c) \<noteq> None \<and>
     cc_runner_cleanup_proof_id c \<noteq> None \<and> cc_command_domain_cleanup_proof_id c \<noteq> None"

abbreviation published :: "output_custody \<Rightarrow> bool" where
  "published x \<equiv> (case x of PublishedClean _ \<Rightarrow> True | _ \<Rightarrow> False)"

abbreviation abandoned :: "output_custody \<Rightarrow> bool" where
  "abandoned x \<equiv> (case x of AbandonedSensitive _ \<Rightarrow> True | _ \<Rightarrow> False)"

abbreviation closed_before :: "output_custody \<Rightarrow> bool" where
  "closed_before x \<equiv> (case x of ClosedBeforeCapture _ \<Rightarrow> True | _ \<Rightarrow> False)"

text \<open>\<open>termination_kind NOT IN ('Unknown', 'InterruptedAfterEffect', 'Canceled')\<close>.\<close>

definition sensitive_termination :: "verifier_termination \<Rightarrow> bool" where
  "sensitive_termination t = (case t of verifier_termination.Unknown _ \<Rightarrow> False
     | InterruptedAfterEffect _ \<Rightarrow> False | verifier_termination.Canceled _ \<Rightarrow> False | _ \<Rightarrow> True)"

text \<open>The \<open>CASE\<close> that keeps an outcome with a better name from being stored as \<open>Unknown\<close>.\<close>

definition nameable :: "control list \<Rightarrow> capture_closure \<Rightarrow> bool" where
  "nameable rows c \<longleftrightarrow> proofs_present c \<and>
     (case cc_termination c of
        verifier_termination.Exited code \<Rightarrow> sint code \<ge> 0 \<and> published (cc_output_custody c)
      | verifier_termination.Signaled signal \<Rightarrow> sint signal > 0 \<and> published (cc_output_custody c)
      | verifier_termination.TimedOut \<Rightarrow> published (cc_output_custody c)
      | verifier_termination.OutputLimitExceeded \<Rightarrow> published (cc_output_custody c)
      | verifier_termination.FailedBeforeEffect \<Rightarrow> closed_before (cc_output_custody c)
      | InterruptedBeforeEffect _ \<Rightarrow>
          closed_before (cc_output_custody c) \<and> control_exists rows c interruption_row
      | verifier_termination.Canceled _ \<Rightarrow>
          control_exists rows c (cancel_row (cc_output_custody c))
      | _ \<Rightarrow> False) \<or>
   proofs_present c \<and> sensitive_termination (cc_termination c) \<and> abandoned (cc_output_custody c)"

text \<open>The disjunction over the outcome kinds.\<close>

definition trigger_accepts :: "control list \<Rightarrow> capture_closure \<Rightarrow> outcome_kind \<Rightarrow> bool" where
  "trigger_accepts rows c k = (case k of
     outcome_kind.Verified \<Rightarrow>
       cc_termination c = verifier_termination.Exited 0 \<and> published (cc_output_custody c) \<and>
       proofs_present c
   | NonzeroExit code \<Rightarrow>
       sint code > 0 \<and> cc_termination c = verifier_termination.Exited code \<and>
       published (cc_output_custody c) \<and> proofs_present c
   | outcome_kind.Signaled signal \<Rightarrow>
       sint signal > 0 \<and> cc_termination c = verifier_termination.Signaled signal \<and>
       published (cc_output_custody c) \<and> proofs_present c
   | outcome_kind.TimedOut \<Rightarrow>
       cc_termination c = verifier_termination.TimedOut \<and> published (cc_output_custody c) \<and>
       proofs_present c
   | outcome_kind.OutputLimitExceeded \<Rightarrow>
       cc_termination c = verifier_termination.OutputLimitExceeded \<and>
       published (cc_output_custody c) \<and> proofs_present c
   | SensitiveOutputRejected \<Rightarrow>
       abandoned (cc_output_custody c) \<and> sensitive_termination (cc_termination c) \<and>
       proofs_present c
   | outcome_kind.FailedBeforeEffect \<Rightarrow>
       cc_termination c = verifier_termination.FailedBeforeEffect \<and>
       closed_before (cc_output_custody c) \<and> proofs_present c
   | ControlInterruptedBeforeEffect _ \<Rightarrow>
       (case cc_termination c of InterruptedBeforeEffect _ \<Rightarrow> True | _ \<Rightarrow> False) \<and>
       closed_before (cc_output_custody c) \<and> proofs_present c \<and>
       control_exists rows c interruption_row
   | outcome_kind.Canceled _ \<Rightarrow>
       (case cc_termination c of verifier_termination.Canceled _ \<Rightarrow> True | _ \<Rightarrow> False) \<and>
       (closed_before (cc_output_custody c) \<or> published (cc_output_custody c) \<or>
         abandoned (cc_output_custody c)) \<and>
       proofs_present c \<and> control_exists rows c (cancel_row (cc_output_custody c))
   | outcome_kind.Unknown \<Rightarrow> \<not> nameable rows c)"

section \<open>Classification and trigger\<close>

text \<open>With at most one row for a key, the row found is the row that exists.\<close>

lemma control_exists_iff:
  assumes "distinct (map cl_control_id rows)"
  shows "control_exists rows c P \<longleftrightarrow> (case matching_control (find_control rows) c of
     None \<Rightarrow> False | Some r \<Rightarrow> P r)"
proof (cases "termination_control_id (cc_termination c)")
  case None
  then show ?thesis by (simp add: control_exists_def matching_control_def list_ex_iff)
next
  case (Some i)
  have one: "find_control rows i = Some r \<longleftrightarrow> r \<in> set rows \<and> cl_control_id r = i" for r
    unfolding find_control_def using find_unique [OF assms, of r i] by (auto dest: find_SomeD)
  show ?thesis
  proof (cases "find_control rows i")
    case None
    then have "\<forall>r\<in>set rows. cl_control_id r \<noteq> i" using one by (metis option.distinct(1))
    then show ?thesis using Some None
      by (auto simp: control_exists_def matching_control_def list_ex_iff)
  next
    case (Some r)
    then have "\<forall>q\<in>set rows. cl_control_id q = i \<longleftrightarrow> q = r" "r \<in> set rows"
      using one by (metis option.inject)+
    then show ?thesis
      using \<open>termination_control_id (cc_termination c) = Some i\<close> Some
      by (auto simp: control_exists_def matching_control_def list_ex_iff)
  qed
qed

lemma matching_control_id:
  assumes "matching_control (find_control rows) c = Some r"
  shows "termination_control_id (cc_termination c) = Some (cl_control_id r)"
  using assms
  by (auto simp: matching_control_def bind_eq_Some_conv dest: find_control_id
      split: option.splits if_splits)

lemma backed_interruption:
  assumes "distinct (map cl_control_id rows)" "cc_termination c = InterruptedBeforeEffect i"
  shows "interruption_backed i (matching_control (find_control rows) c) \<longleftrightarrow>
    control_exists rows c interruption_row"
  unfolding control_exists_iff [OF assms(1)]
  using matching_control_id [of rows c] assms(2)
  by (auto simp: interruption_row_def split: option.splits)

lemma backed_cancel:
  assumes "distinct (map cl_control_id rows)" "cc_termination c = verifier_termination.Canceled i"
  shows "cancel_backed i (cc_output_custody c) (matching_control (find_control rows) c) \<longleftrightarrow>
    control_exists rows c (cancel_row (cc_output_custody c))"
  unfolding control_exists_iff [OF assms(1)]
  using matching_control_id [of rows c] assms(2)
  by (auto simp: cancel_row_def split: option.splits output_custody.splits)

text \<open>
  A claimed cancellation that no cancel record backs, with private output already removed and
  cleanup proven: the one capture whose classification the trigger refuses.
\<close>

definition unbacked_sensitive_cancel :: "control list \<Rightarrow> capture_closure \<Rightarrow> bool" where
  "unbacked_sensitive_cancel rows c \<longleftrightarrow> cleanup_complete c \<and> abandoned (cc_output_custody c) \<and>
     (case cc_termination c of
        verifier_termination.Canceled i \<Rightarrow>
          \<not> cancel_backed i (cc_output_custody c) (matching_control (find_control rows) c)
      | _ \<Rightarrow> False)"

lemma proofs_present_iff:
  "proofs_present c \<longleftrightarrow> cleanup_complete c \<and>
    (case cc_output_custody c of output_custody.Unknown _ \<Rightarrow> False | _ \<Rightarrow> True)"
  by (auto simp: proofs_present_def cleanup_complete_def split: output_custody.splits)

lemma control_exists_needs_id:
  "termination_control_id (cc_termination c) = None \<Longrightarrow> \<not> control_exists rows c P"
  by (auto simp: control_exists_def list_ex_iff)

lemma cancel_row_unknown [simp]: "\<not> cancel_row (output_custody.Unknown d) r"
  by (simp add: cancel_row_def)

lemma no_control_exists [simp]: "\<not> control_exists rows c (\<lambda>r. False)"
  by (simp add: control_exists_def list_ex_iff)


end
