(* ===== verification/Task_Done_Source.thy ===== *)
theory Task_Done_Source
  imports Evidence_Sets
begin

text \<open>
  The source receipt behind one member of a task-done set, from
  \<open>ledger/current_task_done_source_v32.rs\<close>: one integrated attempt, every other attempt closed,
  every assigned check passed on the result, no lease and no dispatch authority left. Its
  identity is a digest of all its other fields.
\<close>

definition PROOF_ID_DOMAIN :: string where
  "PROOF_ID_DOMAIN = ''grok-build/current-task-done-source-v1/proof-id'' @ [NUL]"

definition SOURCE_DIGEST_DOMAIN :: string where
  "SOURCE_DIGEST_DOMAIN = ''grok-build/current-task-done-source-v1/canonical-json'' @ [NUL]"

definition MAX_ASSIGNED_AUTOMATED_CHECKS :: nat where
  "MAX_ASSIGNED_AUTOMATED_CHECKS = 256"

definition MAX_ATTEMPT_CLOSURES :: nat where
  "MAX_ATTEMPT_CLOSURES = 64"

text \<open>The file's own \<open>require_nonblank\<close>, with a limit on the length.\<close>

definition require_source_text :: "string \<Rightarrow> string \<Rightarrow> contract_result" where
  "require_source_text field value =
     ensure (\<not> (blank value \<or> length value > 4096))
       (ContractError field ''must contain 1..=4096 UTF-8 bytes'')"

lemma require_source_text_ok [simp, ok_iff]:
  "require_source_text field value = Inr u \<longleftrightarrow> \<not> blank value \<and> length value \<le> 4096"
  by (auto simp: require_source_text_def)

text \<open>The file's own \<open>domain_digest\<close>, without a length frame.\<close>

definition unframed_digest :: "(string \<Rightarrow> string) \<Rightarrow> string \<Rightarrow> string \<Rightarrow> digest" where
  "unframed_digest sha domain bytes = digest_sha256 sha (domain @ bytes)"

datatype integration_source =
    Changed (is_integration_receipt_id: string) string u32
  | VerifiedNoOp (is_integration_receipt_id: string) string

fun is_empty_change_set_id :: "integration_source \<Rightarrow> string option" where
  "is_empty_change_set_id (integration_source.Changed _ _ _) = None"
| "is_empty_change_set_id (VerifiedNoOp _ i) = Some i"

fun validate_integration_source ::
  "integration_source \<Rightarrow> digest \<Rightarrow> digest \<Rightarrow> contract_result" where
  "validate_integration_source (integration_source.Changed receipt change_set operations) inp res = seq
     [require_source_text ''integration.integration_receipt_id'' receipt,
      require_source_text ''integration.change_set_id'' change_set,
      ensure (\<not> (operations = 0 \<or> inp = res))
        (ContractError ''integration.change_set_id''
          ''changed integration requires positive operations and distinct snapshots'')]"
| "validate_integration_source (VerifiedNoOp receipt empty_change_set) inp res = seq
     [require_source_text ''integration.integration_receipt_id'' receipt,
      require_source_text ''integration.empty_change_set_id'' empty_change_set,
      ensure (inp = res)
        (ContractError ''integration.empty_change_set_id''
          ''verified no-op integration requires identical snapshots'')]"

record done_check =
  dk_criterion_id :: string
  dk_verification_receipt_id :: string
  dk_snapshot_digest :: digest

datatype done_disposition =
  Integrated | Retryable | AttemptsExhausted | PermanentFailure | Blocked | Canceled

record attempt_closure =
  ax_attempt_id :: string
  ax_attempt_ordinal :: u32
  ax_lease_id :: string
  ax_lease_epoch :: u64
  ax_disposition_id :: string
  ax_disposition :: done_disposition
  ax_terminal_effect_closure_set_id :: string
  ax_output_capture_closure_set_id :: string
  ax_runner_cleanup_closure_set_id :: string
  ax_command_domain_cleanup_closure_set_id :: string
  ax_lease_release_id :: string

text \<open>
  The body is the struct \<open>Identity\<close> that the identity is derived from; the receipt adds the
  identity.
\<close>

record done_source_body =
  sr_source_version :: u32
  sr_sprint_id :: string
  sr_task_id :: string
  sr_durable_integrated_state_event_id :: string
  sr_winning_attempt_id :: string
  sr_winning_attempt_ordinal :: u32
  sr_winning_lease_id :: string
  sr_winning_lease_epoch :: u64
  sr_integration :: integration_source
  sr_input_snapshot :: digest
  sr_result_snapshot :: digest
  sr_assigned_automated_checks :: "done_check list"
  sr_attempt_closures :: "attempt_closure list"
  sr_zero_active_leases_proof_id :: string
  sr_active_lease_count :: u32
  sr_zero_replay_dispatch_authority_proof_id :: string
  sr_replay_dispatch_authority_count :: u32
  sr_derived_at_unix_ms :: u64

record done_source = done_source_body +
  sr_task_done_proof_id :: string

definition expected_proof_id ::
  "(string \<Rightarrow> string) \<Rightarrow> done_source_body encoder \<Rightarrow> done_source \<Rightarrow> contract_error + string" where
  "expected_proof_id sha enc s =
     bind_ok (map_err (ContractError ''task_done_proof_id'') (enc (done_source_body.truncate s)))
     (\<lambda>bytes. Inr (''current-task-done:''
        @ digest_str (unframed_digest sha PROOF_ID_DOMAIN bytes)))"

definition assigned_check_ok :: "digest \<Rightarrow> done_check list \<Rightarrow> done_check \<Rightarrow> contract_result" where
  "assigned_check_ok res earlier k = seq
     [require_source_text ''assigned_check.criterion_id'' (dk_criterion_id k),
      require_source_text ''assigned_check.verification_receipt_id'' (dk_verification_receipt_id k),
      ensure (\<not> (dk_snapshot_digest k \<noteq> res \<or>
          dk_criterion_id k \<in> set (map dk_criterion_id earlier) \<or>
          dk_verification_receipt_id k \<in> set (map dk_verification_receipt_id earlier)))
        (ContractError ''assigned_automated_checks''
          ''checks must be same-snapshot and identity-unique'')]"

fun assigned_checks :: "digest \<Rightarrow> done_check list \<Rightarrow> done_check list \<Rightarrow> contract_result" where
  "assigned_checks res earlier [] = Inr ()"
| "assigned_checks res earlier (k # ks) =
     seq [assigned_check_ok res earlier k, assigned_checks res (earlier @ [k]) ks]"

abbreviation show_bool :: "bool \<Rightarrow> string" where
  "show_bool b \<equiv> (if b then ''true'' else ''false'')"

definition closure_mismatch :: "u32 \<Rightarrow> attempt_closure \<Rightarrow> bool \<Rightarrow> bool \<Rightarrow> bool \<Rightarrow> bool \<Rightarrow> contract_error" where
  "closure_mismatch expected x attempt_unique lease_unique disposition_unique release_unique =
     ContractError ''attempt_closures''
       (''attempts, leases, dispositions, and releases must be contiguous and identity-unique (expected ordinal ''
        @ show_u32 expected @ '', observed '' @ show_u32 (ax_attempt_ordinal x)
        @ '', lease epoch '' @ show_u64 (ax_lease_epoch x)
        @ '', attempt unique '' @ show_bool attempt_unique
        @ '', lease unique '' @ show_bool lease_unique
        @ '', disposition unique '' @ show_bool disposition_unique
        @ '', release unique '' @ show_bool release_unique @ '')'')"

definition closure_texts :: "attempt_closure \<Rightarrow> contract_result" where
  "closure_texts x = seq
     [require_source_text ''attempt_id'' (ax_attempt_id x),
      require_source_text ''lease_id'' (ax_lease_id x),
      require_source_text ''disposition_id'' (ax_disposition_id x),
      require_source_text ''terminal_effect_closure_set_id'' (ax_terminal_effect_closure_set_id x),
      require_source_text ''output_capture_closure_set_id'' (ax_output_capture_closure_set_id x),
      require_source_text ''runner_cleanup_closure_set_id'' (ax_runner_cleanup_closure_set_id x),
      require_source_text ''command_domain_cleanup_closure_set_id''
        (ax_command_domain_cleanup_closure_set_id x),
      require_source_text ''lease_release_id'' (ax_lease_release_id x)]"

text \<open>The loop over the attempts; the result is \<open>winner_count\<close>.\<close>

fun closure_checks ::
  "done_source \<Rightarrow> nat \<Rightarrow> attempt_closure list \<Rightarrow> attempt_closure list \<Rightarrow> contract_error + nat" where
  "closure_checks s index earlier [] = Inr 0"
| "closure_checks s index earlier (x # xs) =
     bind_ok (closure_texts x)
     (\<lambda>_. bind_ok (ok_or (u32_index (index + 1))
        (ContractError ''attempt_closures'' ''ordinal overflow''))
     (\<lambda>expected_ordinal.
        let attempt_unique = ax_attempt_id x \<notin> set (map ax_attempt_id earlier);
            lease_unique = (ax_lease_id x, ax_lease_epoch x)
              \<notin> set (map (\<lambda>e. (ax_lease_id e, ax_lease_epoch e)) earlier);
            disposition_unique = ax_disposition_id x \<notin> set (map ax_disposition_id earlier);
            release_unique = ax_lease_release_id x \<notin> set (map ax_lease_release_id earlier);
            integrated = (ax_disposition x = done_disposition.Integrated) in
        bind_ok (seq
          [ensure (\<not> (ax_attempt_ordinal x \<noteq> expected_ordinal \<or> ax_lease_epoch x = 0 \<or>
               \<not> attempt_unique \<or> \<not> lease_unique \<or> \<not> disposition_unique \<or> \<not> release_unique))
             (closure_mismatch expected_ordinal x attempt_unique lease_unique disposition_unique
               release_unique),
           ensure (integrated \<longrightarrow> \<not> (ax_attempt_id x \<noteq> sr_winning_attempt_id s \<or>
               ax_attempt_ordinal x \<noteq> sr_winning_attempt_ordinal s \<or>
               ax_lease_id x \<noteq> sr_winning_lease_id s \<or>
               ax_lease_epoch x \<noteq> sr_winning_lease_epoch s))
             (ContractError ''winning_attempt''
               ''integrated closure must equal the exact winning attempt and lease'')])
        (\<lambda>_. bind_ok (closure_checks s (index + 1) (earlier @ [x]) xs)
        (\<lambda>winners. Inr (if integrated then winners + 1 else winners)))))"

definition validate_done_source ::
  "(string \<Rightarrow> string) \<Rightarrow> done_source_body encoder \<Rightarrow> done_source \<Rightarrow> contract_result" where
  "validate_done_source sha enc s =
     bind_ok (seq
       [ensure (sr_source_version s = 1) (ContractError ''source_version'' ''must equal one''),
        require_source_text ''task_done_proof_id'' (sr_task_done_proof_id s),
        require_source_text ''sprint_id'' (sr_sprint_id s),
        require_source_text ''task_id'' (sr_task_id s),
        require_source_text ''durable_integrated_state_event_id''
          (sr_durable_integrated_state_event_id s),
        require_source_text ''winning_attempt_id'' (sr_winning_attempt_id s),
        require_source_text ''winning_lease_id'' (sr_winning_lease_id s),
        require_source_text ''zero_active_leases_proof_id'' (sr_zero_active_leases_proof_id s),
        require_source_text ''zero_replay_dispatch_authority_proof_id''
          (sr_zero_replay_dispatch_authority_proof_id s),
        ensure (\<not> (sr_winning_attempt_ordinal s = 0 \<or> sr_winning_lease_epoch s = 0 \<or>
            sr_derived_at_unix_ms s = 0))
          (ContractError ''winning_attempt''
            ''attempt ordinal, lease epoch, and derivation time must be positive''),
        ensure (\<not> (sr_active_lease_count s \<noteq> 0 \<or> sr_replay_dispatch_authority_count s \<noteq> 0))
          (ContractError ''zero_authority''
            ''TaskDone requires zero active leases and zero replay/dispatch authority''),
        validate_integration_source (sr_integration s) (sr_input_snapshot s) (sr_result_snapshot s),
        ensure (\<not> length (sr_assigned_automated_checks s) > MAX_ASSIGNED_AUTOMATED_CHECKS)
          (ContractError ''assigned_automated_checks''
            ''assigned automated check count exceeds the closed bound''),
        assigned_checks (sr_result_snapshot s) [] (sr_assigned_automated_checks s),
        ensure (\<not> (sr_attempt_closures s = [] \<or> length (sr_attempt_closures s) > MAX_ATTEMPT_CLOSURES))
          (ContractError ''attempt_closures'' ''attempt closure count must be within 1..=64'')])
     (\<lambda>_. bind_ok (closure_checks s 0 [] (sr_attempt_closures s))
     (\<lambda>winner_count. bind_ok (ensure (winner_count = 1)
        (ContractError ''attempt_closures'' ''exactly one attempt closure must be Integrated''))
     (\<lambda>_. bind_ok (expected_proof_id sha enc s)
     (\<lambda>expected. ensure (sr_task_done_proof_id s = expected)
        (ContractError ''task_done_proof_id''
          ''must be derived from the complete exact source body'')))))"

definition done_source_bytes ::
  "(string \<Rightarrow> string) \<Rightarrow> done_source_body encoder \<Rightarrow> done_source encoder \<Rightarrow> done_source \<Rightarrow>
   contract_error + string" where
  "done_source_bytes sha enc_body enc s = bind_ok (validate_done_source sha enc_body s)
     (\<lambda>_. map_err (\<lambda>e. ContractError ''source_json'' (''cannot encode: '' @ e)) (enc s))"

definition done_source_digest ::
  "(string \<Rightarrow> string) \<Rightarrow> done_source_body encoder \<Rightarrow> done_source encoder \<Rightarrow> done_source \<Rightarrow>
   contract_error + digest" where
  "done_source_digest sha enc_body enc s = bind_ok (done_source_bytes sha enc_body enc s)
     (\<lambda>bytes. Inr (unframed_digest sha SOURCE_DIGEST_DOMAIN bytes))"

text \<open>The automated criteria among the acceptance checks of a task, in the task's order.\<close>

definition assigned_criteria :: "sprint_spec_v2 \<Rightarrow> task_spec_v2 \<Rightarrow> string list" where
  "assigned_criteria s t = filter
     (\<lambda>i. list_ex (\<lambda>c. ac_criterion_id c = i \<and>
        (case ac_kind c of Automated _ \<Rightarrow> True | HumanJudgment \<Rightarrow> False)) (s2_acceptance_criteria s))
     (t2_acceptance_checks t)"

definition validate_source_for_task ::
  "(string \<Rightarrow> string) \<Rightarrow> done_source_body encoder \<Rightarrow> done_source \<Rightarrow> sprint_spec_v2 \<Rightarrow>
   task_spec_v2 \<Rightarrow> contract_result" where
  "validate_source_for_task sha enc r s t = seq
     [validate_done_source sha enc r,
      ensure (\<not> (sr_sprint_id r \<noteq> s2_sprint_id s \<or> sr_task_id r \<noteq> t2_task_id t))
        (ContractError ''source_task'' ''source must name the exact current sprint and task''),
      ensure (map dk_criterion_id (sr_assigned_automated_checks r) = assigned_criteria s t)
        (ContractError ''assigned_automated_checks''
          ''must equal every assigned automated criterion in task declaration order'')]"

section \<open>What a source proves\<close>

lemma assigned_checksD:
  assumes "assigned_checks res earlier ks = Inr ()"
  shows "(\<forall>k\<in>set ks. dk_snapshot_digest k = res) \<and> distinct (map dk_criterion_id ks) \<and>
    distinct (map dk_verification_receipt_id ks) \<and>
    dk_criterion_id ` set ks \<inter> dk_criterion_id ` set earlier = {} \<and>
    dk_verification_receipt_id ` set ks \<inter> dk_verification_receipt_id ` set earlier = {}"
  using assms by (induction ks arbitrary: earlier) (fastforce simp: assigned_check_ok_def)+

lemma closure_checksD:
  assumes "closure_checks s index earlier xs = Inr n"
  shows "n = length (filter (\<lambda>x. ax_disposition x = done_disposition.Integrated) xs)"
    and "\<forall>i<length xs. unat (ax_attempt_ordinal (xs ! i)) = index + i + 1"
    and "\<forall>x\<in>set xs. ax_disposition x = done_disposition.Integrated \<longrightarrow>
      ax_attempt_id x = sr_winning_attempt_id s \<and> ax_lease_id x = sr_winning_lease_id s \<and>
      ax_attempt_ordinal x = sr_winning_attempt_ordinal s \<and>
      ax_lease_epoch x = sr_winning_lease_epoch s"
    and "distinct (map ax_attempt_id xs) \<and> distinct (map ax_lease_release_id xs) \<and>
      ax_attempt_id ` set xs \<inter> ax_attempt_id ` set earlier = {} \<and>
      ax_lease_release_id ` set xs \<inter> ax_lease_release_id ` set earlier = {}"
proof -
  have "n = length (filter (\<lambda>x. ax_disposition x = done_disposition.Integrated) xs) \<and>
    (\<forall>i<length xs. unat (ax_attempt_ordinal (xs ! i)) = index + i + 1) \<and>
    (\<forall>x\<in>set xs. ax_disposition x = done_disposition.Integrated \<longrightarrow>
      ax_attempt_id x = sr_winning_attempt_id s \<and> ax_lease_id x = sr_winning_lease_id s \<and>
      ax_attempt_ordinal x = sr_winning_attempt_ordinal s \<and>
      ax_lease_epoch x = sr_winning_lease_epoch s) \<and>
    distinct (map ax_attempt_id xs) \<and> distinct (map ax_lease_release_id xs) \<and>
      ax_attempt_id ` set xs \<inter> ax_attempt_id ` set earlier = {} \<and>
      ax_lease_release_id ` set xs \<inter> ax_lease_release_id ` set earlier = {}"
    using assms
  proof (induction xs arbitrary: index earlier n)
    case (Cons x xs)
    then obtain w where w: "u32_index (index + 1) = Some w"
      by (auto simp: bind_ok_Inr)
    with Cons.prems obtain m where m: "closure_checks s (index + 1) (earlier @ [x]) xs = Inr m"
      and x: "ax_attempt_ordinal x = w" "ax_attempt_id x \<notin> ax_attempt_id ` set earlier"
        "ax_lease_release_id x \<notin> ax_lease_release_id ` set earlier"
        "ax_disposition x = done_disposition.Integrated \<longrightarrow>
          ax_attempt_id x = sr_winning_attempt_id s \<and> ax_lease_id x = sr_winning_lease_id s \<and>
          ax_attempt_ordinal x = sr_winning_attempt_ordinal s \<and>
          ax_lease_epoch x = sr_winning_lease_epoch s"
      and n: "n = (if ax_disposition x = done_disposition.Integrated then m + 1 else m)"
      by (auto simp: bind_ok_Inr Let_def)
    have "unat w = index + 1"
      using w by (auto simp: u32_index_def unat_of_nat take_bit_nat_eq_self
          simp del: of_nat_Suc of_nat_add split: if_splits)
    then have "\<forall>i<length (x # xs). unat (ax_attempt_ordinal ((x # xs) ! i)) = index + i + 1"
      using Cons.IH [OF m] x(1) by (auto simp: nth_Cons split: nat.split)
    with Cons.IH [OF m] x n show ?case by auto
  qed simp
  then show "n = length (filter (\<lambda>x. ax_disposition x = done_disposition.Integrated) xs)"
    "\<forall>i<length xs. unat (ax_attempt_ordinal (xs ! i)) = index + i + 1"
    "\<forall>x\<in>set xs. ax_disposition x = done_disposition.Integrated \<longrightarrow>
      ax_attempt_id x = sr_winning_attempt_id s \<and> ax_lease_id x = sr_winning_lease_id s \<and>
      ax_attempt_ordinal x = sr_winning_attempt_ordinal s \<and>
      ax_lease_epoch x = sr_winning_lease_epoch s"
    "distinct (map ax_attempt_id xs) \<and> distinct (map ax_lease_release_id xs) \<and>
      ax_attempt_id ` set xs \<inter> ax_attempt_id ` set earlier = {} \<and>
      ax_lease_release_id ` set xs \<inter> ax_lease_release_id ` set earlier = {}"
    by blast+
qed

text \<open>
  C18. A source accepted for a task proves it done once: exactly one of its attempts is integrated,
  and it is the winning attempt with the winning lease; the attempts are numbered from one without
  a gap, each with an identity and a lease release of its own; every automated criterion assigned
  to the task was checked, in the task's order, on the result snapshot; and no lease and no
  dispatch authority is left.
\<close>

theorem done_source_has_one_winner:
  assumes "validate_source_for_task sha enc r s t = Inr ()"
  shows "(\<exists>x. filter (\<lambda>x. ax_disposition x = done_disposition.Integrated) (sr_attempt_closures r) = [x] \<and>
      ax_attempt_id x = sr_winning_attempt_id r \<and> ax_lease_id x = sr_winning_lease_id r \<and>
      ax_lease_epoch x = sr_winning_lease_epoch r) \<and>
    map (\<lambda>x. unat (ax_attempt_ordinal x)) (sr_attempt_closures r)
      = [1..<Suc (length (sr_attempt_closures r))] \<and>
    distinct (map ax_attempt_id (sr_attempt_closures r)) \<and>
    distinct (map ax_lease_release_id (sr_attempt_closures r)) \<and>
    map dk_criterion_id (sr_assigned_automated_checks r) = assigned_criteria s t \<and>
    (\<forall>k\<in>set (sr_assigned_automated_checks r). dk_snapshot_digest k = sr_result_snapshot r) \<and>
    sr_active_lease_count r = 0 \<and> sr_replay_dispatch_authority_count r = 0"
proof -
  let ?xs = "sr_attempt_closures r"
  let ?winners = "filter (\<lambda>x. ax_disposition x = done_disposition.Integrated) ?xs"
  from assms have v: "validate_done_source sha enc r = Inr ()"
    and criteria: "map dk_criterion_id (sr_assigned_automated_checks r) = assigned_criteria s t"
    by (auto simp: validate_source_for_task_def)
  from v have loop: "closure_checks r 0 [] ?xs = Inr 1"
    and checks: "assigned_checks (sr_result_snapshot r) [] (sr_assigned_automated_checks r) = Inr ()"
    and zero: "sr_active_lease_count r = 0" "sr_replay_dispatch_authority_count r = 0"
    by (auto simp: validate_done_source_def bind_ok_Inr)
  note L = closure_checksD [OF loop]
  from L(1) obtain x where x: "?winners = [x]" by (metis One_nat_def length_0_conv length_Suc_conv)
  then have "x \<in> set ?winners" by simp
  then have "x \<in> set ?xs" "ax_disposition x = done_disposition.Integrated" by auto
  moreover have "map (\<lambda>x. unat (ax_attempt_ordinal x)) ?xs = [1..<Suc (length ?xs)]"
    by (rule nth_equalityI) (use L(2) in \<open>auto simp del: upt_Suc\<close>)
  ultimately show ?thesis
    using x L(3,4) assigned_checksD [OF checks] criteria zero by auto
qed

end
