(* ===== verification/Verifier_Ledger.thy ===== *)
theory Verifier_Ledger
  imports Effects Outcome_Guard Task_Done_Source Repair_Permits
begin

text \<open>
  The verifier ledger as a state machine: the tables of schema v32 that
  \<open>ledger/final_verification_authority_v32.rs\<close> reads and writes are a record, each transaction is
  a function from the tables to an error or a result with the new tables, and SQLite's rollback is
  the error result, which has no tables. A row holds the value that its columns and its JSON are
  written from, so a read is a lookup; the comparisons of columns with JSON that the loaders make
  hold of such rows and are left out, as is the repeated derivation of stored rows on reading.
  The \<open>PRIMARY KEY\<close> and \<open>UNIQUE\<close> columns that hold identities are checked on insertion, and so
  is the outcome trigger; the other triggers repeat checks that the Rust code makes first.
\<close>

section \<open>Errors and tables\<close>

text \<open>
  \<open>LedgerError\<close> with all its variants; errors of the file system, of SQLite and of serde are their
  texts.
\<close>

datatype ledger_error =
    InvalidDatabasePath path string
  | Io string
  | Sql string
  | Contract contract_error
  | Json string string
  | WalUnavailable string
  | ReadOnly
  | UnsupportedSchemaVersion "64 word"
  | UnsafeV14TaskAttemptMigration string string u64
  | UnsupportedContractVersion string "64 word"
  | InvalidTimestamp string
  | IntegerOutOfRange string
  | SprintAlreadyExists string
  | SprintNotFound string
  | SprintGraphNotAttached string
  | PlanningProvenanceRequired string
  | LegacyGraphUnproven string
  | LegacyWorkerLeaseUnproven string
  | MutationArtifactRequired string
  | FinishReceiptRequired string effect_kind
  | LegacyMutationArtifactUnlinked string string
  | LegacyFinishReceiptUnproven string string string
  | MutationArtifactUnresolved string string
  | ArtifactNotFound string string
  | ArtifactAlreadyExists string string
  | ReferenceMismatch string string
  | SprintAlreadyTerminal string
  | EventAlreadyExists string
  | SequenceMismatch string u64 u64
  | CausationNotFound string
  | CrossSprintCausation string
  | EffectPayloadSize string string nat nat
  | EffectDigestMismatch string string digest digest
  | TerminalEvidenceSize string nat nat
  | LegacyEffectPayloadMissing string string
  | IntegrityCheckFailed string
  | Corrupt string string
  | PostCommitStateUncertain string string string

abbreviation contract :: "contract_error + 'a \<Rightarrow> ledger_error + 'a" where
  "contract \<equiv> map_err Contract"

definition encode_ledger :: "'a encoder \<Rightarrow> string \<Rightarrow> 'a \<Rightarrow> ledger_error + string" where
  "encode_ledger enc entity v = map_err (Json entity) (enc v)"

text \<open>\<open>i64::try_from\<close> of an unsigned number of 64 bits.\<close>

definition sqlite_integer :: "string \<Rightarrow> u64 \<Rightarrow> ledger_error + unit" where
  "sqlite_integer field v = ensure (unat v < 2 ^ 63) (IntegerOutOfRange field)"

record control_identity =
  ki_sprint_id :: string
  ki_attempt_id :: string
  ki_control_kind :: control_kind
  ki_before_effect :: bool
  ki_issued_at_unix_ms :: u64

record repair_activation_identity =
  ai_sprint_id :: string
  ai_failed_attempt_id :: string
  ai_failure_outcome_id :: string
  ai_failed_snapshot :: digest
  ai_slot_ordinal :: u8
  ai_repair_task_id :: string
  ai_activated_at_unix_ms :: u64

record repair_completion_identity =
  ci_request_digest :: digest
  ci_sprint_id :: string
  ci_failed_attempt_id :: string

text \<open>The hash function and one JSON encoder for each type that is written or hashed.\<close>

record ledger_codec =
  lx_sha :: "string \<Rightarrow> string"
  lx_v2 :: v2_encoders
  lx_task :: "task_spec_v2 encoder"
  lx_source_body :: "done_source_body encoder"
  lx_done_set :: "task_done_set encoder"
  lx_evidence_set :: "criterion_evidence_set encoder"
  lx_request :: "admission_request encoder"
  lx_attempt :: "final_attempt_authority encoder"
  lx_control_identity :: "control_identity encoder"
  lx_control :: "control encoder"
  lx_capture :: "capture_closure encoder"
  lx_outcome :: "outcome encoder"
  lx_activation_identity :: "repair_activation_identity encoder"
  lx_activation :: "repair_activation encoder"
  lx_completion_request :: "repair_completion_request encoder"
  lx_completion_identity :: "repair_completion_identity encoder"
  lx_completion :: "repair_completion encoder"

record sprint_row =
  sw_spec :: sprint_spec_v2
  sw_graph :: task_graph_v2
  sw_created_at_unix_ms :: u64

text \<open>A criterion receipt, as far as the evidence sets read it.\<close>

record receipt_row =
  rr_receipt_id :: string
  rr_sprint_id :: string
  rr_criterion_id :: string
  rr_snapshot_digest :: digest
  rr_evidence_kind :: evidence_kind
  rr_recorded_at :: u64

record attempt_row =
  ar_request :: admission_request
  ar_request_digest :: digest
  ar_request_bytes :: string
  ar_authority :: final_attempt_authority

record completion_row =
  cr_request_id :: string
  cr_request_digest :: digest
  cr_completion :: repair_completion

record verifier_ledger =
  vl_read_only :: bool
  vl_legacy_sprints :: "string list"
  vl_sprints :: "sprint_row list"
  vl_done_sources :: "done_source list"
  vl_receipts :: "receipt_row list"
  vl_done_sets :: "(digest \<times> task_done_set) list"
  vl_evidence_sets :: "(digest \<times> criterion_evidence_set) list"
  vl_attempts :: "attempt_row list"
  vl_controls :: "control list"
  vl_captures :: "capture_closure list"
  vl_outcomes :: "outcome list"
  vl_terminals :: "terminal_outcome list"
  vl_activations :: "repair_activation list"
  vl_completions :: "completion_row list"

text \<open>A transaction gives an error, or a result and the tables after it.\<close>

type_synonym 'a transaction = "ledger_error + 'a \<times> verifier_ledger"

text \<open>Insertion into a table: the keys of the new row must not occur in it.\<close>

definition unique_keys :: "string \<Rightarrow> ('r \<Rightarrow> string list) \<Rightarrow> 'r \<Rightarrow> 'r list \<Rightarrow> ledger_error + unit" where
  "unique_keys table keys row rows =
     ensure (list_all (\<lambda>q. list_all (\<lambda>(k, l). k \<noteq> l) (zip (keys q) (keys row))) rows)
       (Sql (''UNIQUE constraint failed: '' @ table))"

section \<open>Reads\<close>

definition require_writable :: "verifier_ledger \<Rightarrow> ledger_error + unit" where
  "require_writable L = ensure (\<not> vl_read_only L) ReadOnly"

definition sprint_of :: "verifier_ledger \<Rightarrow> string \<Rightarrow> sprint_row option" where
  "sprint_of L i = find (\<lambda>w. s2_sprint_id (sw_spec w) = i) (vl_sprints L)"

definition load_current_sprint_authority ::
  "verifier_ledger \<Rightarrow> string \<Rightarrow> ledger_error + sprint_row" where
  "load_current_sprint_authority L i =
     ok_or (sprint_of L i) (ArtifactNotFound ''current sprint authority v32'' i)"

definition ensure_no_current_terminal :: "verifier_ledger \<Rightarrow> string \<Rightarrow> ledger_error + unit" where
  "ensure_no_current_terminal L i =
     ensure (\<not> list_ex (\<lambda>t. to_sprint_id t = i) (vl_terminals L)) (SprintAlreadyTerminal i)"

definition outcome_of :: "verifier_ledger \<Rightarrow> string \<Rightarrow> outcome option" where
  "outcome_of L attempt_id = find (\<lambda>c. oc_attempt_id c = attempt_id) (vl_outcomes L)"

definition capture_of :: "verifier_ledger \<Rightarrow> string \<Rightarrow> capture_closure option" where
  "capture_of L attempt_id = find (\<lambda>c. cc_attempt_id c = attempt_id) (vl_captures L)"

record persisted_attempt =
  pa_request_id :: string
  pa_authority :: final_attempt_authority
  pa_outcome :: "outcome option"

definition persisted :: "verifier_ledger \<Rightarrow> attempt_row \<Rightarrow> persisted_attempt" where
  "persisted L w = \<lparr>pa_request_id = rq_request_id (ar_request w), pa_authority = ar_authority w,
     pa_outcome = outcome_of L (fa_attempt_id (ar_authority w))\<rparr>"

definition load_current_attempt :: "verifier_ledger \<Rightarrow> string \<Rightarrow> ledger_error + persisted_attempt" where
  "load_current_attempt L i =
     bind_ok (ok_or (find (\<lambda>w. fa_attempt_id (ar_authority w) = i) (vl_attempts L))
       (ArtifactNotFound ''current final-verification attempt v32'' i))
     (\<lambda>w. Inr (persisted L w))"

text \<open>\<open>WHERE sprint_id = ?1 ORDER BY attempt_ordinal DESC LIMIT 1\<close>.\<close>

definition attempts_of :: "verifier_ledger \<Rightarrow> string \<Rightarrow> final_attempt_authority list" where
  "attempts_of L i = filter (\<lambda>a. fa_sprint_id a = i) (map ar_authority (vl_attempts L))"

definition load_latest_current_attempt :: "verifier_ledger \<Rightarrow> string \<Rightarrow> persisted_attempt option" where
  "load_latest_current_attempt L i =
     (let rows = filter (\<lambda>w. fa_sprint_id (ar_authority w) = i) (vl_attempts L) in
      map_option (persisted L)
        (find (\<lambda>w. list_all (\<lambda>q. fa_attempt_ordinal (ar_authority q) \<le> fa_attempt_ordinal (ar_authority w))
          rows) rows))"

definition repair_completion_for_failed_attempt ::
  "verifier_ledger \<Rightarrow> string \<Rightarrow> repair_completion option" where
  "repair_completion_for_failed_attempt L i =
     find (\<lambda>c. rp_failed_attempt_id c = i) (map cr_completion (vl_completions L))"

definition load_repair_activation :: "verifier_ledger \<Rightarrow> string \<Rightarrow> ledger_error + repair_activation" where
  "load_repair_activation L i =
     ok_or (find (\<lambda>a. rn_activation_id a = i) (vl_activations L))
       (ArtifactNotFound ''current repair activation v32'' i)"

section \<open>Complete sets\<close>

definition load_done_source ::
  "ledger_codec \<Rightarrow> verifier_ledger \<Rightarrow> string \<Rightarrow> ledger_error + done_source" where
  "load_done_source x L i =
     bind_ok (ok_or (find (\<lambda>r. sr_task_done_proof_id r = i) (vl_done_sources L))
       (ArtifactNotFound ''current TaskDone source v32'' i))
     (\<lambda>r. bind_ok (contract (validate_done_source (lx_sha x) (lx_source_body x) r))
     (\<lambda>_. bind_ok (ok_or (Option.bind (sprint_of L (sr_sprint_id r))
          (\<lambda>w. map_option (Pair (sw_spec w)) (graph_task_v2 (sw_graph w) (sr_task_id r))))
        (ReferenceMismatch ''current TaskDone source v32''
          ''source task is absent from its exact current sprint''))
     (\<lambda>(spec, task). bind_ok
        (contract (validate_source_for_task (lx_sha x) (lx_source_body x) r spec task))
     (\<lambda>_. Inr r))))"

definition same_integration :: "integration_source \<Rightarrow> task_done_member \<Rightarrow> bool" where
  "same_integration k m \<longleftrightarrow> is_integration_receipt_id k = dn_integration_receipt_id m \<and>
     (case k of integration_source.Changed _ _ _ \<Rightarrow> dn_integration_evidence m = Evidence_Sets.Changed
      | VerifiedNoOp _ _ \<Rightarrow> dn_integration_evidence m \<noteq> Evidence_Sets.Changed) \<and>
     is_empty_change_set_id k = empty_change_set_id (dn_integration_evidence m)"

definition source_backs_member :: "task_done_set \<Rightarrow> task_done_member \<Rightarrow> done_source \<Rightarrow> bool" where
  "source_backs_member d m r \<longleftrightarrow> sr_sprint_id r = ds_sprint_id d \<and> sr_task_id r = dn_task_id m \<and>
     same_integration (sr_integration r) m \<and> sr_input_snapshot r = dn_input_snapshot m \<and>
     sr_result_snapshot r = dn_result_snapshot m \<and>
     sr_derived_at_unix_ms r \<le> ds_recorded_at_unix_ms d"

definition load_task_done_set_optional ::
  "ledger_codec \<Rightarrow> verifier_ledger \<Rightarrow> digest \<Rightarrow> ledger_error + task_done_set option" where
  "load_task_done_set_optional x L k = (case map_of (vl_done_sets L) k of
     None \<Rightarrow> Inr None
   | Some d \<Rightarrow> bind_ok (seq (map
       (\<lambda>m. bind_ok (load_done_source x L (dn_task_done_proof_id m))
          (\<lambda>r. ensure (source_backs_member d m r)
            (Corrupt ''complete TaskDone set v32''
              ''member projection differs from canonical set bytes''))) (ds_members d)))
       (\<lambda>_. Inr (Some d)))"

definition persist_task_done_set ::
  "ledger_codec \<Rightarrow> verifier_ledger \<Rightarrow> sprint_spec_v2 \<Rightarrow> task_graph_v2 \<Rightarrow> task_done_set \<Rightarrow>
   digest transaction" where
  "persist_task_done_set x L s g d =
     bind_ok (contract (validate_done_set (lx_sha x) (lx_v2 x) d s g))
     (\<lambda>_. bind_ok (contract (done_set_digest (lx_sha x) (lx_done_set x) d))
     (\<lambda>k. bind_ok (load_task_done_set_optional x L k)
     (\<lambda>existing. case existing of
        Some e \<Rightarrow> bind_ok (ensure (e = d)
            (ReferenceMismatch ''complete TaskDone set v32''
              ''set digest already names different canonical bytes''))
          (\<lambda>_. Inr (k, L))
      | None \<Rightarrow> bind_ok (seq
          [ensure (length (ds_members d) < 2 ^ 63)
             (IntegerOutOfRange ''TaskDone set member count''),
           sqlite_integer ''TaskDone set recorded_at'' (ds_recorded_at_unix_ms d)])
        (\<lambda>_. let L' = L\<lparr>vl_done_sets := vl_done_sets L @ [(k, d)]\<rparr> in
          bind_ok (load_task_done_set_optional x L' k)
          (\<lambda>readback. bind_ok (ensure (readback = Some d)
             (Corrupt ''complete TaskDone set v32''
               ''transactional readback differs from canonical set''))
          (\<lambda>_. Inr (k, L')))))))"

definition receipt_backs_member ::
  "criterion_evidence_set \<Rightarrow> criterion_evidence_member \<Rightarrow> receipt_row \<Rightarrow> bool" where
  "receipt_backs_member e m r \<longleftrightarrow> rr_sprint_id r = cv_sprint_id e \<and>
     rr_criterion_id r = cm_criterion_id m \<and> rr_snapshot_digest r = cm_snapshot_digest m \<and>
     rr_recorded_at r \<le> cv_recorded_at_unix_ms e \<and> rr_evidence_kind r = cm_evidence_kind m"

definition load_criterion_evidence_set_optional ::
  "verifier_ledger \<Rightarrow> digest \<Rightarrow> ledger_error + criterion_evidence_set option" where
  "load_criterion_evidence_set_optional L k = (case map_of (vl_evidence_sets L) k of
     None \<Rightarrow> Inr None
   | Some e \<Rightarrow> bind_ok (seq (map
       (\<lambda>m. bind_ok (ok_or (find (\<lambda>r. rr_receipt_id r = cm_evidence_receipt_id m) (vl_receipts L))
            (ArtifactNotFound ''current criterion evidence receipt'' (cm_evidence_receipt_id m)))
          (\<lambda>r. ensure (receipt_backs_member e m r)
            (Corrupt ''complete criterion-evidence set v32''
              ''member projection differs from canonical set bytes''))) (cv_members e)))
       (\<lambda>_. Inr (Some e)))"

definition persist_criterion_evidence_set ::
  "ledger_codec \<Rightarrow> verifier_ledger \<Rightarrow> sprint_spec_v2 \<Rightarrow> criterion_evidence_set \<Rightarrow>
   digest transaction" where
  "persist_criterion_evidence_set x L s e =
     bind_ok (contract (validate_evidence_set e s))
     (\<lambda>_. bind_ok (contract (evidence_set_digest (lx_sha x) (lx_evidence_set x) e))
     (\<lambda>k. bind_ok (load_criterion_evidence_set_optional L k)
     (\<lambda>existing. case existing of
        Some f \<Rightarrow> bind_ok (ensure (f = e)
            (ReferenceMismatch ''complete criterion-evidence set v32''
              ''set digest already names different canonical bytes''))
          (\<lambda>_. Inr (k, L))
      | None \<Rightarrow> bind_ok (seq
          [ensure (length (cv_members e) < 2 ^ 63)
             (IntegerOutOfRange ''criterion-evidence set member count''),
           sqlite_integer ''criterion-evidence set recorded_at'' (cv_recorded_at_unix_ms e)])
        (\<lambda>_. let L' = L\<lparr>vl_evidence_sets := vl_evidence_sets L @ [(k, e)]\<rparr> in
          bind_ok (load_criterion_evidence_set_optional L' k)
          (\<lambda>readback. bind_ok (ensure (readback = Some e)
             (Corrupt ''complete criterion-evidence set v32''
               ''transactional readback differs from canonical set''))
          (\<lambda>_. Inr (k, L')))))))"

section \<open>Creating a sprint\<close>

text \<open>
  The transaction also writes a row for each criterion, which belongs to
  \<open>current_criterion_evidence_v32.rs\<close> and is not read by the transactions here.
\<close>

definition create_current_sprint_authority ::
  "ledger_codec \<Rightarrow> sprint_spec_v2 \<Rightarrow> task_graph_v2 \<Rightarrow> u64 \<Rightarrow> verifier_ledger \<Rightarrow>
   sprint_row transaction" where
  "create_current_sprint_authority x s g created_at L =
     bind_ok (seq
       [require_writable L,
        contract (validate_pair (lx_sha x) (lx_v2 x) g s),
        ensure (created_at \<noteq> 0) (InvalidTimestamp ''created_at_unix_ms'')])
     (\<lambda>_. bind_ok (contract (sprint_v2_digest (lx_sha x) (ve_sprint (lx_v2 x)) s))
     (\<lambda>_. bind_ok (contract (graph_v2_digest (lx_sha x) (lx_v2 x) g s))
     (\<lambda>_. let row = \<lparr>sw_spec = s, sw_graph = g, sw_created_at_unix_ms = created_at\<rparr> in
       (case sprint_of L (s2_sprint_id s) of
          Some existing \<Rightarrow> bind_ok (ensure (existing = row)
              (ReferenceMismatch ''current sprint authority v32''
                ''an existing sprint identity has different immutable bytes''))
            (\<lambda>_. Inr (existing, L))
        | None \<Rightarrow> bind_ok (seq
            [ensure (s2_sprint_id s \<notin> set (vl_legacy_sprints L))
               (SprintAlreadyExists (s2_sprint_id s)),
             sqlite_integer ''created_at_unix_ms'' created_at,
             unique_keys ''current_sprint_authorities_v32''
               (\<lambda>w. [s2_task_graph_id (sw_spec w)]) row (vl_sprints L),
             seq (map (\<lambda>t. bind_ok (encode_ledger (lx_task x) ''current task v32'' t) (\<lambda>_. Inr ()))
               (g2_tasks g))])
          (\<lambda>_. Inr (row, L\<lparr>vl_sprints := vl_sprints L @ [row]\<rparr>))))))"

end
