(* ===== verification/Verifier_Steps.thy ===== *)
theory Verifier_Steps
  imports Verifier_Ledger
begin

text \<open>
  The transactions of the verifier ledger: admitting an attempt, recording a control, closing an
  attempt with its capture, activating a repair slot, completing the repair, and reading a repair
  permit. The last section is the step relation over all of them.
\<close>

definition CONTROL_ID_DOMAIN :: string where
  "CONTROL_ID_DOMAIN = ''grok-build/current-final-verification-control-v1/id'' @ [NUL]"

definition OUTCOME_ID_DOMAIN :: string where
  "OUTCOME_ID_DOMAIN = ''grok-build/current-final-verification-outcome-v1/id'' @ [NUL]"

definition REPAIR_ACTIVATION_ID_DOMAIN :: string where
  "REPAIR_ACTIVATION_ID_DOMAIN =
     ''grok-build/current-final-verification-repair-activation-v1/id'' @ [NUL]"

definition REPAIR_COMPLETION_ID_DOMAIN :: string where
  "REPAIR_COMPLETION_ID_DOMAIN =
     ''grok-build/current-final-verification-repair-completion-v1/id'' @ [NUL]"

section \<open>Admission\<close>

abbreviation predecessor_mismatch :: "string \<Rightarrow> ledger_error" where
  "predecessor_mismatch \<equiv> ReferenceMismatch ''current final-verification predecessor''"

definition require_same_snapshot_sets ::
  "ledger_codec \<Rightarrow> persisted_attempt \<Rightarrow> task_done_set \<Rightarrow> criterion_evidence_set \<Rightarrow>
   ledger_error + unit" where
  "require_same_snapshot_sets x prior d e =
     (let differs = predecessor_mismatch
        ''same-snapshot continuation must preserve both complete evidence sets exactly'';
        a = pa_authority prior in
      bind_ok (ensure (\<not> (fa_input_snapshot a \<noteq> ds_snapshot_digest d \<or>
          fa_input_snapshot a \<noteq> cv_snapshot_digest e)) differs)
      (\<lambda>_. bind_ok (contract (done_set_digest (lx_sha x) (lx_done_set x) d))
      (\<lambda>task_digest. bind_ok (ensure (fa_complete_task_done_set_digest a = task_digest) differs)
      (\<lambda>_. bind_ok (contract (evidence_set_digest (lx_sha x) (lx_evidence_set x) e))
      (\<lambda>criterion_digest.
        ensure (fa_complete_criterion_evidence_set_digest a = criterion_digest) differs)))))"

definition consumes_repair_slot :: "task_graph_v2 \<Rightarrow> task_done_set \<Rightarrow> bool" where
  "consumes_repair_slot g d \<longleftrightarrow> list_ex (\<lambda>m. case graph_tasks g (dn_task_id m) of
     None \<Rightarrow> False | Some t \<Rightarrow> is_repair_slot t) (ds_members d)"

definition derive_attempt_predecessor ::
  "ledger_codec \<Rightarrow> verifier_ledger \<Rightarrow> persisted_attempt option \<Rightarrow> task_done_set \<Rightarrow>
   criterion_evidence_set \<Rightarrow> task_graph_v2 \<Rightarrow> u64 \<Rightarrow> ledger_error + final_attempt_predecessor" where
  "derive_attempt_predecessor x L prior d e g admitted_at = (case prior of
     None \<Rightarrow> bind_ok (ensure (\<not> consumes_repair_slot g d) (predecessor_mismatch
         ''the initial attempt cannot consume a dormant final-verification repair slot''))
       (\<lambda>_. Inr Initial)
   | Some p \<Rightarrow> bind_ok (ok_or (pa_outcome p) (predecessor_mismatch
         ''the immediately prior attempt has no exact typed terminal outcome''))
       (\<lambda>c. case oc_outcome c of
          outcome_kind.FailedBeforeEffect \<Rightarrow> bind_ok (require_same_snapshot_sets x p d e)
            (\<lambda>_. Inr (SameSnapshotAfterFailedBeforeEffect (fa_attempt_id (pa_authority p))
              (oc_closure_id c)))
        | ControlInterruptedBeforeEffect control_id \<Rightarrow>
            bind_ok (require_same_snapshot_sets x p d e)
            (\<lambda>_. Inr (SameSnapshotAfterControlInterruption (fa_attempt_id (pa_authority p))
              control_id (oc_closure_id c)))
        | _ \<Rightarrow> if is_known_after_effect_failure (oc_outcome c)
            then bind_ok (ok_or (repair_completion_for_failed_attempt L
                (fa_attempt_id (pa_authority p))) (predecessor_mismatch
                ''known after-effect failure has no completed activated repair slot''))
              (\<lambda>m. bind_ok (contract (done_set_digest (lx_sha x) (lx_done_set x) d))
              (\<lambda>task_digest.
                bind_ok (contract (evidence_set_digest (lx_sha x) (lx_evidence_set x) e))
              (\<lambda>criterion_digest. bind_ok (ensure (\<not>
                   (rp_result_snapshot m \<noteq> ds_snapshot_digest d \<or>
                    rp_result_snapshot m \<noteq> cv_snapshot_digest e \<or>
                    rp_complete_task_done_set_digest m \<noteq> task_digest \<or>
                    rp_complete_criterion_evidence_set_digest m \<noteq> criterion_digest \<or>
                    rp_completed_at_unix_ms m > admitted_at))
                 (predecessor_mismatch
                   ''follow-up sets differ from the exact changed-snapshot repair completion''))
              (\<lambda>_. Inr (ChangedSnapshotAfterRepair (oc_outcome_id c) (rp_activation_id m)
                (rp_repair_task_done_proof_id m) (rp_integration_receipt_id m))))))
            else Inl (predecessor_mismatch
              ''prior outcome grants no retry or repair continuation authority'')))"

definition attempt_keys :: "attempt_row \<Rightarrow> string list" where
  "attempt_keys w = (let a = ar_authority w in
     [fa_attempt_id a, rq_request_id (ar_request w), fa_final_verification_admission_id a])"

definition insert_attempt :: "attempt_row \<Rightarrow> verifier_ledger \<Rightarrow> ledger_error + verifier_ledger" where
  "insert_attempt w L = bind_ok (seq
     [sqlite_integer ''final verification admitted_at'' (rq_admitted_at_unix_ms (ar_request w)),
      unique_keys ''current_final_verification_attempts_v32'' attempt_keys w (vl_attempts L),
      ensure (\<not> list_ex (\<lambda>q. fa_sprint_id (ar_authority q) = fa_sprint_id (ar_authority w) \<and>
          fa_attempt_ordinal (ar_authority q) = fa_attempt_ordinal (ar_authority w)) (vl_attempts L))
        (Sql ''UNIQUE constraint failed: current_final_verification_attempts_v32'')])
     (\<lambda>_. Inr (L\<lparr>vl_attempts := vl_attempts L @ [w]\<rparr>))"

definition derived_attempt ::
  "ledger_codec \<Rightarrow> admission_request \<Rightarrow> digest \<Rightarrow> sprint_spec_v2 \<Rightarrow> u8 \<Rightarrow> digest \<Rightarrow> digest \<Rightarrow>
   final_attempt_predecessor \<Rightarrow> final_attempt_authority" where
  "derived_attempt x r rd s ordinal task_set_digest criterion_set_digest predecessor =
     \<lparr>fa_authority_version = FINAL_VERIFICATION_ATTEMPT_AUTHORITY_VERSION_V1,
      fa_attempt_id = mint_identity (lx_sha x) ATTEMPT_ID_DOMAIN (digest_str rd),
      fa_sprint_id = rq_sprint_id r,
      fa_attempt_ordinal = ordinal,
      fa_max_final_verification_attempts = b2_max_final_verification_attempts (s2_budget s),
      fa_final_verification_admission_id =
        mint_identity (lx_sha x) ADMISSION_ID_DOMAIN (digest_str rd),
      fa_input_snapshot = ds_snapshot_digest (rq_task_done_set r),
      fa_complete_task_done_set_digest = task_set_digest,
      fa_complete_criterion_evidence_set_digest = criterion_set_digest,
      fa_final_verification_check = rq_final_verification_check r,
      fa_execution_policy_digest = rq_execution_policy_digest r,
      fa_provenance = \<lparr>fp_coordinator_instance_id = rq_coordinator_instance_id r,
        fp_admission_event_id =
          mint_identity (lx_sha x) ADMISSION_EVENT_ID_DOMAIN (digest_str rd),
        fp_admission_event_sequence = ucast ordinal,
        fp_admitted_at_unix_ms = rq_admitted_at_unix_ms r\<rparr>,
      fa_predecessor = predecessor\<rparr>"

text \<open>The trusted inputs of the check are the values the authority was built from.\<close>

definition expected_inputs :: "final_attempt_authority \<Rightarrow> final_attempt_expected_inputs" where
  "expected_inputs a =
     \<lparr>fe_attempt_id = fa_attempt_id a, fe_attempt_ordinal = fa_attempt_ordinal a,
      fe_final_verification_admission_id = fa_final_verification_admission_id a,
      fe_input_snapshot = fa_input_snapshot a,
      fe_final_verification_check = fa_final_verification_check a,
      fe_execution_policy_digest = fa_execution_policy_digest a,
      fe_complete_task_done_set_digest = fa_complete_task_done_set_digest a,
      fe_complete_criterion_evidence_set_digest = fa_complete_criterion_evidence_set_digest a,
      fe_provenance = fa_provenance a, fe_predecessor = fa_predecessor a\<rparr>"

definition admit_fresh ::
  "ledger_codec \<Rightarrow> admission_request \<Rightarrow> string \<Rightarrow> digest \<Rightarrow> sprint_row \<Rightarrow> verifier_ledger \<Rightarrow>
   persisted_attempt transaction" where
  "admit_fresh x r bytes rd w L =
     bind_ok (ensure_no_current_terminal L (rq_sprint_id r))
     (\<lambda>_. bind_ok (persist_task_done_set x L (sw_spec w) (sw_graph w) (rq_task_done_set r))
     (\<lambda>(task_set_digest, L1).
        bind_ok (persist_criterion_evidence_set x L1 (sw_spec w) (rq_criterion_evidence_set r))
     (\<lambda>(criterion_set_digest, L2).
        let prior = load_latest_current_attempt L2 (rq_sprint_id r);
            ordinal = (case prior of None \<Rightarrow> 1
              | Some p \<Rightarrow> u8_saturating_succ (fa_attempt_ordinal (pa_authority p))) in
        bind_ok (ensure (\<not> ordinal > b2_max_final_verification_attempts (s2_budget (sw_spec w)))
          (ReferenceMismatch ''current final-verification attempt''
            ''the immutable sprint final-verification attempt cap is exhausted''))
        (\<lambda>_. bind_ok (derive_attempt_predecessor x L2 prior (rq_task_done_set r)
             (rq_criterion_evidence_set r) (sw_graph w) (rq_admitted_at_unix_ms r))
        (\<lambda>predecessor.
           let a = derived_attempt x r rd (sw_spec w) ordinal task_set_digest
             criterion_set_digest predecessor in
           bind_ok (contract (validate_final_attempt_for (lx_sha x) (lx_v2 x) a (sw_spec w)
             (sw_graph w) (expected_inputs a)))
           (\<lambda>_. bind_ok (case prior of None \<Rightarrow> Inr ()
              | Some p \<Rightarrow> contract (validate_successor_of a (pa_authority p)))
           (\<lambda>_. bind_ok (contract (final_attempt_digest (lx_sha x) (lx_attempt x) a))
           (\<lambda>_. let row = \<lparr>ar_request = r, ar_request_digest = rd, ar_request_bytes = bytes,
                ar_authority = a\<rparr> in
              bind_ok (insert_attempt row L2) (\<lambda>L3. Inr (persisted L3 row, L3))))))))))"

definition admit_in_transaction ::
  "ledger_codec \<Rightarrow> admission_request \<Rightarrow> string \<Rightarrow> digest \<Rightarrow> verifier_ledger \<Rightarrow>
   persisted_attempt transaction" where
  "admit_in_transaction x r bytes rd L =
     bind_ok (load_current_sprint_authority L (rq_sprint_id r))
     (\<lambda>w. bind_ok (contract (validate_request (lx_sha x) (lx_v2 x) r (sw_spec w) (sw_graph w)))
     (\<lambda>_. case find (\<lambda>q. rq_request_id (ar_request q) = rq_request_id r) (vl_attempts L) of
        Some q \<Rightarrow> bind_ok (ensure (\<not> (ar_request_digest q \<noteq> rd \<or> ar_request_bytes q \<noteq> bytes))
            (ReferenceMismatch ''current final-verification admission request''
              ''idempotency identity was replayed with different canonical bytes''))
          (\<lambda>_. Inr (persisted L q, L))
      | None \<Rightarrow> admit_fresh x r bytes rd w L))"

definition admit_current_final_verification_attempt ::
  "ledger_codec \<Rightarrow> admission_request \<Rightarrow> verifier_ledger \<Rightarrow> persisted_attempt transaction" where
  "admit_current_final_verification_attempt x r L =
     bind_ok (require_writable L)
     (\<lambda>_. bind_ok (load_current_sprint_authority L (rq_sprint_id r))
     (\<lambda>w. bind_ok (contract (validate_request (lx_sha x) (lx_v2 x) r (sw_spec w) (sw_graph w)))
     (\<lambda>_. bind_ok (contract (request_bytes (lx_request x) r))
     (\<lambda>bytes. admit_in_transaction x r bytes
        (domain_digest (lx_sha x) ADMISSION_REQUEST_DIGEST_DOMAIN bytes) L))))"

section \<open>Control\<close>

definition record_current_final_verification_control ::
  "ledger_codec \<Rightarrow> string \<Rightarrow> control_kind \<Rightarrow> bool \<Rightarrow> u64 \<Rightarrow> verifier_ledger \<Rightarrow>
   control transaction" where
  "record_current_final_verification_control x attempt_id kind before_effect issued_at L =
     bind_ok (seq
       [require_writable L,
        ensure (issued_at \<noteq> 0) (InvalidTimestamp ''control issued_at_unix_ms'')])
     (\<lambda>_. bind_ok (load_current_attempt L attempt_id)
     (\<lambda>p. let a = pa_authority p in bind_ok (seq
       [ensure_no_current_terminal L (fa_sprint_id a),
        ensure (pa_outcome p = None)
          (ReferenceMismatch ''current final-verification control''
            ''a terminal attempt cannot receive new control authority''),
        ensure (\<not> issued_at < fp_admitted_at_unix_ms (fa_provenance a))
          (ReferenceMismatch ''current final-verification control''
            ''control cannot predate attempt admission'')])
     (\<lambda>_. bind_ok (encode_ledger (lx_control_identity x)
          ''current final-verification control identity''
          \<lparr>ki_sprint_id = fa_sprint_id a, ki_attempt_id = attempt_id, ki_control_kind = kind,
           ki_before_effect = before_effect, ki_issued_at_unix_ms = issued_at\<rparr>)
     (\<lambda>identity.
       let c = \<lparr>cl_control_version = 1,
         cl_control_id = mint_identity (lx_sha x) CONTROL_ID_DOMAIN identity,
         cl_sprint_id = fa_sprint_id a, cl_attempt_id = attempt_id, cl_control_kind = kind,
         cl_before_effect = before_effect, cl_issued_at_unix_ms = issued_at\<rparr> in
       bind_ok (contract (validate_control c))
       (\<lambda>_. case find_control (vl_controls L) (cl_control_id c) of
          Some existing \<Rightarrow> bind_ok (ensure (existing = c)
              (ReferenceMismatch ''current final-verification control''
                ''deterministic control identity names different canonical bytes''))
            (\<lambda>_. Inr (existing, L))
        | None \<Rightarrow> bind_ok (sqlite_integer ''control issued_at'' issued_at)
            (\<lambda>_. bind_ok (encode_ledger (lx_control x) ''current final-verification control'' c)
            (\<lambda>_. Inr (c, L\<lparr>vl_controls := vl_controls L @ [c]\<rparr>))))))))"

section \<open>Closing an attempt\<close>

definition insert_current_capture ::
  "ledger_codec \<Rightarrow> capture_closure \<Rightarrow> verifier_ledger \<Rightarrow> ledger_error + verifier_ledger" where
  "insert_current_capture x c L =
     bind_ok (sqlite_integer ''capture terminal_at'' (cc_terminal_at_unix_ms c))
     (\<lambda>_. bind_ok (encode_ledger (lx_capture x) ''current final-verification capture'' c)
     (\<lambda>_. bind_ok (unique_keys ''current_final_verification_capture_closures_v32''
        (\<lambda>c. [cc_closure_id c, cc_attempt_id c]) c (vl_captures L))
     (\<lambda>_. Inr (L\<lparr>vl_captures := vl_captures L @ [c]\<rparr>))))"

definition insert_outcome ::
  "ledger_codec \<Rightarrow> capture_closure \<Rightarrow> outcome \<Rightarrow> verifier_ledger \<Rightarrow> ledger_error + verifier_ledger" where
  "insert_outcome x c o' L =
     bind_ok (sqlite_integer ''outcome terminal_at'' (oc_terminal_at_unix_ms o'))
     (\<lambda>_. bind_ok (encode_ledger (lx_outcome x) ''current final-verification outcome'' o')
     (\<lambda>_. bind_ok (seq
        [ensure (trigger_accepts (vl_controls L) c (oc_outcome o'))
           (Sql ''typed final-verification outcome does not match exact capture, custody, control, and cleanup evidence''),
         unique_keys ''current_final_verification_outcomes_v32''
           (\<lambda>o'. [oc_outcome_id o', oc_attempt_id o', oc_closure_id o']) o' (vl_outcomes L)])
     (\<lambda>_. Inr (L\<lparr>vl_outcomes := vl_outcomes L @ [o']\<rparr>))))"

definition maybe_insert_current_terminal ::
  "final_attempt_authority \<Rightarrow> outcome \<Rightarrow> verifier_ledger \<Rightarrow> ledger_error + verifier_ledger" where
  "maybe_insert_current_terminal a o' L = (case terminal_of a (oc_outcome o') of
     None \<Rightarrow> Inr L
   | Some (state, reason) \<Rightarrow>
       let t = \<lparr>to_sprint_id = fa_sprint_id a, to_terminal_state = state,
         to_source_attempt_id = fa_attempt_id a, to_source_outcome_id = oc_outcome_id o',
         to_terminal_reason = reason, to_terminal_at_unix_ms = oc_terminal_at_unix_ms o'\<rparr> in
       bind_ok (seq
         [sqlite_integer ''current terminal_at'' (oc_terminal_at_unix_ms o'),
          unique_keys ''current_sprint_terminal_outcomes_v32''
            (\<lambda>t. [to_sprint_id t, to_source_attempt_id t, to_source_outcome_id t]) t
            (vl_terminals L)])
       (\<lambda>_. Inr (L\<lparr>vl_terminals := vl_terminals L @ [t]\<rparr>)))"

definition derived_outcome ::
  "ledger_codec \<Rightarrow> capture_closure \<Rightarrow> outcome_kind \<Rightarrow> string \<Rightarrow> outcome" where
  "derived_outcome x c k bytes =
     \<lparr>oc_outcome_version = 1, oc_outcome_id = mint_identity (lx_sha x) OUTCOME_ID_DOMAIN bytes,
      oc_sprint_id = cc_sprint_id c, oc_attempt_id = cc_attempt_id c,
      oc_closure_id = cc_closure_id c, oc_outcome = k,
      oc_terminal_at_unix_ms = cc_terminal_at_unix_ms c\<rparr>"

definition close_current_final_verification_attempt ::
  "ledger_codec \<Rightarrow> capture_closure \<Rightarrow> verifier_ledger \<Rightarrow> outcome transaction" where
  "close_current_final_verification_attempt x c L =
     bind_ok (seq [require_writable L, contract (validate_capture c)])
     (\<lambda>_. bind_ok (load_current_attempt L (cc_attempt_id c))
     (\<lambda>p. let a = pa_authority p in
       bind_ok (ensure (\<not> (fa_sprint_id a \<noteq> cc_sprint_id c \<or>
           cc_terminal_at_unix_ms c < fp_admitted_at_unix_ms (fa_provenance a)))
         (ReferenceMismatch ''current final-verification capture''
           ''capture crosses sprint, attempt, or admission time''))
       (\<lambda>_. case pa_outcome p of
          Some existing \<Rightarrow>
            bind_ok (ok_or (capture_of L (cc_attempt_id c))
              (ArtifactNotFound ''current final-verification capture'' (cc_attempt_id c)))
            (\<lambda>stored. bind_ok (ensure (stored = c)
               (ReferenceMismatch ''current final-verification capture''
                 ''terminal attempt was replayed with different capture bytes''))
            (\<lambda>_. Inr (existing, L)))
        | None \<Rightarrow>
            bind_ok (ensure_no_current_terminal L (cc_sprint_id c))
            (\<lambda>_. bind_ok (insert_current_capture x c L)
            (\<lambda>L1. bind_ok (encode_ledger (lx_capture x) ''current final-verification capture'' c)
            (\<lambda>bytes.
              let o' = derived_outcome x c
                (classify_current_capture (find_control (vl_controls L1)) c) bytes in
              bind_ok (contract (validate_outcome o'))
              (\<lambda>_. bind_ok (insert_outcome x c o' L1)
              (\<lambda>L2. bind_ok (maybe_insert_current_terminal a o' L2)
              (\<lambda>L3. Inr (o', L3))))))))))"

section \<open>Repairs\<close>

abbreviation activation_mismatch :: "string \<Rightarrow> ledger_error" where
  "activation_mismatch \<equiv> ReferenceMismatch ''current repair activation v32''"

definition insert_activation ::
  "ledger_codec \<Rightarrow> repair_activation \<Rightarrow> verifier_ledger \<Rightarrow> ledger_error + verifier_ledger" where
  "insert_activation x a L =
     bind_ok (sqlite_integer ''repair activated_at'' (rn_activated_at_unix_ms a))
     (\<lambda>_. bind_ok (encode_ledger (lx_activation x) ''current repair activation'' a)
     (\<lambda>_. bind_ok (seq
        [unique_keys ''current_final_verification_repair_activations_v32''
           (\<lambda>a. [rn_activation_id a, rn_failed_attempt_id a, rn_failure_outcome_id a]) a
           (vl_activations L),
         ensure (\<not> list_ex (\<lambda>b. rn_sprint_id b = rn_sprint_id a \<and>
             (rn_slot_ordinal b = rn_slot_ordinal a \<or> rn_repair_task_id b = rn_repair_task_id a))
             (vl_activations L))
           (Sql ''UNIQUE constraint failed: current_final_verification_repair_activations_v32'')])
     (\<lambda>_. Inr (L\<lparr>vl_activations := vl_activations L @ [a]\<rparr>))))"

text \<open>The guards after the idempotent replay; the result is the failed attempt and its slot.\<close>

definition repairable ::
  "verifier_ledger \<Rightarrow> string \<Rightarrow> u64 \<Rightarrow> ledger_error + final_attempt_authority \<times> task_spec_v2" where
  "repairable L failure_outcome_id activated_at =
     bind_ok (ok_or (find (\<lambda>c. oc_outcome_id c = failure_outcome_id) (vl_outcomes L))
       (ArtifactNotFound ''current final-verification failure outcome'' failure_outcome_id))
     (\<lambda>indexed. bind_ok (load_current_attempt L (oc_attempt_id indexed))
     (\<lambda>p. let a = pa_authority p in
       bind_ok (ensure_no_current_terminal L (fa_sprint_id a))
     (\<lambda>_. bind_ok (ok_or (pa_outcome p) (Corrupt ''current repair activation v32''
          ''indexed failure attempt lacks a typed outcome''))
     (\<lambda>c. bind_ok (ensure (\<not> (oc_outcome_id c \<noteq> failure_outcome_id \<or>
          \<not> is_known_after_effect_failure (oc_outcome c) \<or>
          fa_attempt_ordinal a \<ge> fa_max_final_verification_attempts a \<or>
          activated_at < oc_terminal_at_unix_ms c))
        (activation_mismatch
          ''outcome is not a latest repairable known failure with remaining attempt budget''))
     (\<lambda>_. bind_ok (ok_or (load_latest_current_attempt L (fa_sprint_id a))
        (Corrupt ''current repair activation v32'' ''latest attempt missing''))
     (\<lambda>latest. bind_ok (ensure (fa_attempt_id (pa_authority latest) = fa_attempt_id a)
        (activation_mismatch ''only the latest admitted attempt may activate a repair slot''))
     (\<lambda>_. bind_ok (load_current_sprint_authority L (fa_sprint_id a))
     (\<lambda>w. bind_ok (ok_or (find (\<lambda>t. t2_purpose t
            = FinalVerificationRepairSlot (fa_attempt_ordinal a)) (g2_tasks (sw_graph w)))
        (Corrupt ''current repair activation v32''
          ''validated graph lacks the exact next predeclared repair slot''))
     (\<lambda>task. Inr (a, task))))))))))"

definition activate_current_final_verification_repair ::
  "ledger_codec \<Rightarrow> string \<Rightarrow> u64 \<Rightarrow> verifier_ledger \<Rightarrow> repair_activation transaction" where
  "activate_current_final_verification_repair x failure_outcome_id activated_at L =
     bind_ok (seq
       [require_writable L,
        ensure (activated_at \<noteq> 0) (InvalidTimestamp ''repair activated_at_unix_ms'')])
     (\<lambda>_. case find (\<lambda>a. rn_failure_outcome_id a = failure_outcome_id) (vl_activations L) of
        Some existing \<Rightarrow> bind_ok (ensure (rn_activated_at_unix_ms existing = activated_at)
            (activation_mismatch ''failure was replayed with a different activation timestamp''))
          (\<lambda>_. Inr (existing, L))
      | None \<Rightarrow> bind_ok (repairable L failure_outcome_id activated_at)
          (\<lambda>(failed, task). bind_ok (encode_ledger (lx_activation_identity x)
               ''current repair activation identity''
               \<lparr>ai_sprint_id = fa_sprint_id failed, ai_failed_attempt_id = fa_attempt_id failed,
                ai_failure_outcome_id = failure_outcome_id,
                ai_failed_snapshot = fa_input_snapshot failed,
                ai_slot_ordinal = fa_attempt_ordinal failed,
                ai_repair_task_id = t2_task_id task, ai_activated_at_unix_ms = activated_at\<rparr>)
          (\<lambda>identity. let a = \<lparr>rn_activation_version = 1,
               rn_activation_id = mint_identity (lx_sha x) REPAIR_ACTIVATION_ID_DOMAIN identity,
               rn_sprint_id = fa_sprint_id failed, rn_failed_attempt_id = fa_attempt_id failed,
               rn_failure_outcome_id = failure_outcome_id,
               rn_failed_snapshot = fa_input_snapshot failed,
               rn_slot_ordinal = fa_attempt_ordinal failed,
               rn_repair_task_id = t2_task_id task, rn_activated_at_unix_ms = activated_at\<rparr> in
             bind_ok (contract (validate_repair_activation a))
             (\<lambda>_. bind_ok (insert_activation x a L) (\<lambda>L'. Inr (a, L'))))))"

definition require_exact_repair_task_done_extension ::
  "task_done_set \<Rightarrow> task_done_set \<Rightarrow> repair_activation \<Rightarrow> string \<Rightarrow> string \<Rightarrow>
   ledger_error + unit" where
  "require_exact_repair_task_done_extension failed repaired a proof_id receipt_id =
     (let entity = ''current repair TaskDone set v32''; n = length (ds_members failed) in
      if ds_members repaired = []
      then Inl (ReferenceMismatch entity ''repaired TaskDone set is empty'')
      else let m = last (ds_members repaired) in
        bind_ok (ok_or (u32_index n) (IntegerOutOfRange ''repair TaskDone source ordinal''))
        (\<lambda>expected_ordinal. ensure (\<not>
           (length (ds_members repaired) \<noteq> n + 1 \<or>
            take n (ds_members repaired) \<noteq> ds_members failed \<or>
            dn_source_ordinal m \<noteq> expected_ordinal \<or> dn_task_id m \<noteq> rn_repair_task_id a \<or>
            dn_task_done_proof_id m \<noteq> proof_id \<or> dn_integration_receipt_id m \<noteq> receipt_id \<or>
            dn_integration_evidence m \<noteq> Evidence_Sets.Changed \<or>
            dn_input_snapshot m \<noteq> ds_snapshot_digest failed \<or>
            dn_result_snapshot m \<noteq> ds_snapshot_digest repaired))
          (ReferenceMismatch entity
            ''repair must preserve the exact prior integration chain and append only the activated fresh TaskDone source'')))"

definition stale_member ::
  "digest \<Rightarrow> criterion_evidence_member \<times> criterion_evidence_member \<Rightarrow> bool" where
  "stale_member snapshot = (\<lambda>(old, new). cm_criterion_id old \<noteq> cm_criterion_id new \<or>
     cm_criterion_ordinal old \<noteq> cm_criterion_ordinal new \<or>
     cm_evidence_kind old \<noteq> cm_evidence_kind new \<or>
     cm_evidence_receipt_id old = cm_evidence_receipt_id new \<or> cm_snapshot_digest new \<noteq> snapshot)"

definition require_all_criterion_evidence_fresh ::
  "criterion_evidence_set \<Rightarrow> criterion_evidence_set \<Rightarrow> ledger_error + unit" where
  "require_all_criterion_evidence_fresh stale fresh = seq
     [ensure (\<not> (cv_sprint_id stale \<noteq> cv_sprint_id fresh \<or>
          cv_snapshot_digest stale = cv_snapshot_digest fresh \<or>
          length (cv_members stale) \<noteq> length (cv_members fresh)))
        (ReferenceMismatch ''current repair criterion evidence v32''
          ''repair evidence must cover the same criteria on a distinct snapshot''),
      ensure (\<not> list_ex (stale_member (cv_snapshot_digest fresh))
          (zip (cv_members stale) (cv_members fresh)))
        (ReferenceMismatch ''current repair criterion evidence v32''
          ''every machine or human criterion requires one fresh same-snapshot receipt'')]"

definition completion_crosses_activation ::
  "repair_completion_request \<Rightarrow> repair_activation \<Rightarrow> bool" where
  "completion_crosses_activation r a \<longleftrightarrow>
     rk_completed_at_unix_ms r < rn_activated_at_unix_ms a \<or>
     ds_recorded_at_unix_ms (rk_task_done_set r) > rk_completed_at_unix_ms r \<or>
     cv_recorded_at_unix_ms (rk_criterion_evidence_set r) > rk_completed_at_unix_ms r \<or>
     rk_input_snapshot r \<noteq> rn_failed_snapshot a \<or>
     rk_result_snapshot r = rn_failed_snapshot a \<or>
     ds_sprint_id (rk_task_done_set r) \<noteq> rn_sprint_id a \<or>
     cv_sprint_id (rk_criterion_evidence_set r) \<noteq> rn_sprint_id a \<or>
     ds_snapshot_digest (rk_task_done_set r) \<noteq> rk_result_snapshot r \<or>
     cv_snapshot_digest (rk_criterion_evidence_set r) \<noteq> rk_result_snapshot r"

definition completion_keys :: "completion_row \<Rightarrow> string list" where
  "completion_keys w = (let c = cr_completion w in
     [rp_completion_id c, cr_request_id w, rp_activation_id c, rp_failed_attempt_id c,
      rp_repair_task_done_proof_id c, rp_integration_receipt_id c, rp_change_set_id c])"

definition insert_completion ::
  "ledger_codec \<Rightarrow> completion_row \<Rightarrow> verifier_ledger \<Rightarrow> ledger_error + verifier_ledger" where
  "insert_completion x w L =
     bind_ok (sqlite_integer ''repair completed_at'' (rp_completed_at_unix_ms (cr_completion w)))
     (\<lambda>_. bind_ok (encode_ledger (lx_completion x) ''current repair completion'' (cr_completion w))
     (\<lambda>_. bind_ok (unique_keys ''current_final_verification_repair_completions_v32''
        completion_keys w (vl_completions L))
     (\<lambda>_. Inr (L\<lparr>vl_completions := vl_completions L @ [w]\<rparr>))))"

abbreviation completion_mismatch :: "string \<Rightarrow> ledger_error" where
  "completion_mismatch \<equiv> ReferenceMismatch ''current repair completion v32''"

text \<open>The two sets of a repair against the sets of the failed attempt; the result is their
  digests.\<close>

definition repaired_sets ::
  "ledger_codec \<Rightarrow> repair_completion_request \<Rightarrow> repair_activation \<Rightarrow> verifier_ledger \<Rightarrow>
   (digest \<times> digest) transaction" where
  "repaired_sets x r a L =
     bind_ok (load_current_sprint_authority L (rn_sprint_id a))
     (\<lambda>w. bind_ok (seq
       [contract (validate_done_set (lx_sha x) (lx_v2 x) (rk_task_done_set r) (sw_spec w) (sw_graph w)),
        contract (validate_evidence_set (rk_criterion_evidence_set r) (sw_spec w))])
     (\<lambda>_. bind_ok (load_current_attempt L (rn_failed_attempt_id a))
     (\<lambda>p. let failed = pa_authority p in
       bind_ok (load_task_done_set_optional x L (fa_complete_task_done_set_digest failed))
     (\<lambda>failed_set. bind_ok (ok_or failed_set
        (Corrupt ''current repair completion v32'' ''failed TaskDone set missing''))
     (\<lambda>failed_task_set. bind_ok (require_exact_repair_task_done_extension failed_task_set
        (rk_task_done_set r) a (rk_repair_task_done_proof_id r) (rk_integration_receipt_id r))
     (\<lambda>_. bind_ok (load_criterion_evidence_set_optional L
        (fa_complete_criterion_evidence_set_digest failed))
     (\<lambda>stale. bind_ok (ok_or stale
        (Corrupt ''current repair completion v32'' ''failed evidence set missing''))
     (\<lambda>stale_set. bind_ok (require_all_criterion_evidence_fresh stale_set
        (rk_criterion_evidence_set r))
     (\<lambda>_. bind_ok (persist_task_done_set x L (sw_spec w) (sw_graph w) (rk_task_done_set r))
     (\<lambda>(task_set_digest, L1).
        bind_ok (persist_criterion_evidence_set x L1 (sw_spec w) (rk_criterion_evidence_set r))
     (\<lambda>(criterion_set_digest, L2). bind_ok (ensure (\<not>
          (task_set_digest = fa_complete_task_done_set_digest failed \<or>
           criterion_set_digest = fa_complete_criterion_evidence_set_digest failed))
        (completion_mismatch
          ''changed-snapshot repair requires fresh complete TaskDone and criterion sets''))
     (\<lambda>_. Inr ((task_set_digest, criterion_set_digest), L2)))))))))))))"

definition complete_current_final_verification_repair ::
  "ledger_codec \<Rightarrow> repair_completion_request \<Rightarrow> verifier_ledger \<Rightarrow> repair_completion transaction" where
  "complete_current_final_verification_repair x r L =
     bind_ok (seq [require_writable L, contract (validate_completion_request r)])
     (\<lambda>_. bind_ok (contract (completion_request_digest (lx_sha x) (lx_completion_request x) r))
     (\<lambda>rd. case find (\<lambda>w. cr_request_id w = rk_request_id r) (vl_completions L) of
        Some w \<Rightarrow> bind_ok (ensure (cr_request_digest w = rd)
            (ReferenceMismatch ''current repair completion request v32''
              ''idempotency identity was replayed with different canonical bytes''))
          (\<lambda>_. Inr (cr_completion w, L))
      | None \<Rightarrow> bind_ok (load_repair_activation L (rk_activation_id r))
          (\<lambda>a. bind_ok (ensure_no_current_terminal L (rn_sprint_id a))
          (\<lambda>_. bind_ok (ensure (\<not> completion_crosses_activation r a) (completion_mismatch
             ''repair crosses activation time, sprint, failed snapshot, or changed result snapshot''))
          (\<lambda>_. bind_ok (repaired_sets x r a L)
          (\<lambda>((task_set_digest, criterion_set_digest), L2).
             bind_ok (encode_ledger (lx_completion_identity x)
               ''current repair completion identity''
               \<lparr>ci_request_digest = rd, ci_sprint_id = rn_sprint_id a,
                ci_failed_attempt_id = rn_failed_attempt_id a\<rparr>)
          (\<lambda>identity. let c = \<lparr>rp_completion_version = 1,
               rp_completion_id = mint_identity (lx_sha x) REPAIR_COMPLETION_ID_DOMAIN identity,
               rp_sprint_id = rn_sprint_id a, rp_activation_id = rn_activation_id a,
               rp_failed_attempt_id = rn_failed_attempt_id a,
               rp_repair_task_id = rn_repair_task_id a,
               rp_repair_task_done_proof_id = rk_repair_task_done_proof_id r,
               rp_integration_receipt_id = rk_integration_receipt_id r,
               rp_input_snapshot = rk_input_snapshot r, rp_result_snapshot = rk_result_snapshot r,
               rp_change_set_id = rk_change_set_id r, rp_operation_count = rk_operation_count r,
               rp_complete_task_done_set_digest = task_set_digest,
               rp_complete_criterion_evidence_set_digest = criterion_set_digest,
               rp_completed_at_unix_ms = rk_completed_at_unix_ms r\<rparr> in
             bind_ok (contract (validate_completion c))
             (\<lambda>_. bind_ok (insert_completion x \<lparr>cr_request_id = rk_request_id r,
                  cr_request_digest = rd, cr_completion = c\<rparr> L2)
             (\<lambda>L'. Inr (c, L'))))))))))"

text \<open>The permit of an activation that is still live.\<close>

definition activation_is_live :: "verifier_ledger \<Rightarrow> repair_activation \<Rightarrow> bool" where
  "activation_is_live L a \<longleftrightarrow>
     \<not> list_ex (\<lambda>w. rp_activation_id (cr_completion w) = rn_activation_id a) (vl_completions L) \<and>
     \<not> list_ex (\<lambda>t. to_sprint_id t = rn_sprint_id a) (vl_terminals L) \<and>
     \<not> list_ex (\<lambda>failed. fa_attempt_id (ar_authority failed) = rn_failed_attempt_id a \<and>
         list_ex (\<lambda>later. fa_sprint_id (ar_authority later) = rn_sprint_id a \<and>
           fa_attempt_ordinal (ar_authority later) > fa_attempt_ordinal (ar_authority failed))
           (vl_attempts L)) (vl_attempts L)"

definition load_current_repair_activation_permit ::
  "ledger_codec \<Rightarrow> string \<Rightarrow> verifier_ledger \<Rightarrow> ledger_error + repair_permit" where
  "load_current_repair_activation_permit x activation_id L =
     bind_ok (load_repair_activation L activation_id)
     (\<lambda>a. bind_ok (ensure (activation_is_live L a)
        (ReferenceMismatch ''current repair activation permit v32''
          ''activation is completed, terminalized, or superseded''))
     (\<lambda>_. bind_ok (load_current_sprint_authority L (rn_sprint_id a))
     (\<lambda>w. contract (permit_from_persisted (lx_sha x) (lx_v2 x) a (sw_spec w) (sw_graph w)))))"

section \<open>Reachable ledgers\<close>

text \<open>
  The ledger starts empty. Besides its own transactions, other components record task-done
  sources and criterion receipts, and legacy sprints; these tables only grow. A transaction that
  fails leaves the tables as they are.
\<close>

definition empty_ledger :: verifier_ledger where
  "empty_ledger = \<lparr>vl_read_only = False, vl_legacy_sprints = [], vl_sprints = [],
     vl_done_sources = [], vl_receipts = [], vl_done_sets = [], vl_evidence_sets = [],
     vl_attempts = [], vl_controls = [], vl_captures = [], vl_outcomes = [], vl_terminals = [],
     vl_activations = [], vl_completions = []\<rparr>"

inductive ledger_step :: "ledger_codec \<Rightarrow> verifier_ledger \<Rightarrow> verifier_ledger \<Rightarrow> bool"
  for x :: ledger_codec where
  create: "create_current_sprint_authority x s g at L = Inr (v, L') \<Longrightarrow> ledger_step x L L'"
| admit: "admit_current_final_verification_attempt x r L = Inr (p, L') \<Longrightarrow> ledger_step x L L'"
| control: "record_current_final_verification_control x i k b at L = Inr (c, L') \<Longrightarrow>
    ledger_step x L L'"
| close: "close_current_final_verification_attempt x c L = Inr (o', L') \<Longrightarrow> ledger_step x L L'"
| activate: "activate_current_final_verification_repair x i at L = Inr (a, L') \<Longrightarrow>
    ledger_step x L L'"
| complete: "complete_current_final_verification_repair x r L = Inr (c, L') \<Longrightarrow>
    ledger_step x L L'"
| sources: "ledger_step x L (L\<lparr>vl_done_sources := vl_done_sources L @ sources,
    vl_receipts := vl_receipts L @ receipts,
    vl_legacy_sprints := vl_legacy_sprints L @ legacy\<rparr>)"

inductive ledger_reachable :: "ledger_codec \<Rightarrow> verifier_ledger \<Rightarrow> bool" for x :: ledger_codec where
  empty: "ledger_reachable x empty_ledger"
| step: "ledger_reachable x L \<Longrightarrow> ledger_step x L L' \<Longrightarrow> ledger_reachable x L'"

end
