(* ===== verification/Ledger_Facts.thy ===== *)
theory Ledger_Facts
  imports Verifier_Steps
begin

text \<open>
  What each transaction of the verifier ledger adds to the tables, one lemma per transaction, and
  how lookups behave when tables grow at their end.
\<close>

section \<open>Lookups in growing tables\<close>

named_theorems lookup_append

lemma find_append: "find P (xs @ ys) = (case find P xs of None \<Rightarrow> find P ys | Some v \<Rightarrow> Some v)"
  by (induction xs) auto

lemma find_append_Some [lookup_append]: "find P xs = Some v \<Longrightarrow> find P (xs @ ys) = Some v"
  by (simp add: find_append)

lemma find_append_other [lookup_append]: "\<not> P y \<Longrightarrow> find P (xs @ [y]) = find P xs"
  by (simp add: find_append split: option.split)

lemma map_of_append_Some [lookup_append]: "map_of xs k = Some v \<Longrightarrow> map_of (xs @ ys) k = Some v"
  by (simp add: map_add_def)

lemma find_map_ex: "x \<in> set xs \<Longrightarrow> P x \<Longrightarrow> \<exists>y. find P xs = Some y"
  by (auto simp: find_Some_iff_ex)

lemma unique_keys_ok:
  "unique_keys table keys row rows = Inr u \<longleftrightarrow>
    (\<forall>q\<in>set rows. \<forall>(k, l)\<in>set (zip (keys q) (keys row)). k \<noteq> l)"
  by (simp add: unique_keys_def list_all_iff)

lemma encode_ledger_ok [simp]: "encode_ledger enc entity v = Inr b \<longleftrightarrow> enc v = Inr b"
  by (simp add: encode_ledger_def)

lemma sqlite_integer_ok [simp]: "sqlite_integer field v = Inr u \<longleftrightarrow> unat v < 2 ^ 63"
  by (simp add: sqlite_integer_def)

lemma require_writable_ok [simp]: "require_writable L = Inr u \<longleftrightarrow> \<not> vl_read_only L"
  by (simp add: require_writable_def)

lemma sprint_of_id: "sprint_of L i = Some w \<Longrightarrow> s2_sprint_id (sw_spec w) = i"
  by (auto simp: sprint_of_def dest: find_SomeD)

definition sprint_ended :: "verifier_ledger \<Rightarrow> string \<Rightarrow> bool" where
  "sprint_ended L i \<longleftrightarrow> (\<exists>t\<in>set (vl_terminals L). to_sprint_id t = i)"

lemma no_terminal_ok [simp]: "ensure_no_current_terminal L i = Inr u \<longleftrightarrow> \<not> sprint_ended L i"
  by (auto simp: ensure_no_current_terminal_def sprint_ended_def list_ex_iff)

text \<open>An attempt of the ledger by its identity.\<close>

definition attempt_with :: "verifier_ledger \<Rightarrow> string \<Rightarrow> attempt_row option" where
  "attempt_with L i = find (\<lambda>w. fa_attempt_id (ar_authority w) = i) (vl_attempts L)"

lemma attempt_with_id:
  "attempt_with L i = Some w \<Longrightarrow> w \<in> set (vl_attempts L) \<and> fa_attempt_id (ar_authority w) = i"
  unfolding attempt_with_def by (auto dest: find_SomeD)

lemma load_current_attempt_ok:
  "load_current_attempt L i = Inr p \<longleftrightarrow> (\<exists>w. attempt_with L i = Some w \<and>
    p = \<lparr>pa_request_id = rq_request_id (ar_request w), pa_authority = ar_authority w,
      pa_outcome = outcome_of L i\<rparr>)"
  by (auto simp: load_current_attempt_def attempt_with_def persisted_def bind_ok_Inr
      dest: find_SomeD)

section \<open>Sets\<close>

lemma load_task_done_set_ok:
  "load_task_done_set_optional x L k = Inr v \<Longrightarrow> v = map_of (vl_done_sets L) k"
  by (auto simp: load_task_done_set_optional_def split: option.splits)

lemma load_criterion_evidence_set_ok:
  "load_criterion_evidence_set_optional L k = Inr v \<Longrightarrow> v = map_of (vl_evidence_sets L) k"
  by (auto simp: load_criterion_evidence_set_optional_def split: option.splits)

lemma persist_task_done_setD:
  assumes "persist_task_done_set x L s g d = Inr (k, L')"
  shows "\<exists>more. L' = L\<lparr>vl_done_sets := vl_done_sets L @ more\<rparr>"
    and "map_of (vl_done_sets L') k = Some d"
    and "validate_done_set (lx_sha x) (lx_v2 x) d s g = Inr ()"
    and "done_set_digest (lx_sha x) (lx_done_set x) d = Inr k"
proof -
  from assms obtain existing where e: "load_task_done_set_optional x L k = Inr existing"
    and v: "validate_done_set (lx_sha x) (lx_v2 x) d s g = Inr ()"
      "done_set_digest (lx_sha x) (lx_done_set x) d = Inr k"
    by (auto simp: persist_task_done_set_def bind_ok_Inr Let_def split: option.splits)
  show "validate_done_set (lx_sha x) (lx_v2 x) d s g = Inr ()"
    "done_set_digest (lx_sha x) (lx_done_set x) d = Inr k" by fact+
  have "(\<exists>more. L' = L\<lparr>vl_done_sets := vl_done_sets L @ more\<rparr>) \<and> map_of (vl_done_sets L') k = Some d"
  proof (cases existing)
    case None
    then have L': "L' = L\<lparr>vl_done_sets := vl_done_sets L @ [(k, d)]\<rparr>"
      and "load_task_done_set_optional x L' k = Inr (Some d)"
      using assms e v by (auto simp: persist_task_done_set_def bind_ok_Inr Let_def)
    from load_task_done_set_ok [OF this(2)] L' show ?thesis by auto
  next
    case (Some f)
    then have "L' = L" "f = d"
      using assms e v by (auto simp: persist_task_done_set_def bind_ok_Inr)
    with load_task_done_set_ok [OF e] Some show ?thesis
      by (auto intro: exI [of _ "[]"])
  qed
  then show "\<exists>more. L' = L\<lparr>vl_done_sets := vl_done_sets L @ more\<rparr>"
    "map_of (vl_done_sets L') k = Some d" by auto
qed

lemma persist_criterion_evidence_setD:
  assumes "persist_criterion_evidence_set x L s e = Inr (k, L')"
  shows "\<exists>more. L' = L\<lparr>vl_evidence_sets := vl_evidence_sets L @ more\<rparr>"
    and "validate_evidence_set e s = Inr ()"
    and "evidence_set_digest (lx_sha x) (lx_evidence_set x) e = Inr k"
    and "map_of (vl_evidence_sets L') k = Some e"
proof -
  from assms obtain existing where r: "load_criterion_evidence_set_optional L k = Inr existing"
    and v: "validate_evidence_set e s = Inr ()"
      "evidence_set_digest (lx_sha x) (lx_evidence_set x) e = Inr k"
    by (auto simp: persist_criterion_evidence_set_def bind_ok_Inr Let_def split: option.splits)
  show "validate_evidence_set e s = Inr ()"
    "evidence_set_digest (lx_sha x) (lx_evidence_set x) e = Inr k" by fact+
  have "(\<exists>more. L' = L\<lparr>vl_evidence_sets := vl_evidence_sets L @ more\<rparr>) \<and>
    map_of (vl_evidence_sets L') k = Some e"
  proof (cases existing)
    case None
    then have L': "L' = L\<lparr>vl_evidence_sets := vl_evidence_sets L @ [(k, e)]\<rparr>"
      and "load_criterion_evidence_set_optional L' k = Inr (Some e)"
      using assms r v by (auto simp: persist_criterion_evidence_set_def bind_ok_Inr Let_def)
    from load_criterion_evidence_set_ok [OF this(2)] L' show ?thesis by auto
  next
    case (Some f)
    then have "L' = L" "f = e"
      using assms r v by (auto simp: persist_criterion_evidence_set_def bind_ok_Inr)
    with load_criterion_evidence_set_ok [OF r] Some show ?thesis
      by (auto intro: exI [of _ "[]"])
  qed
  then show "\<exists>more. L' = L\<lparr>vl_evidence_sets := vl_evidence_sets L @ more\<rparr>"
    "map_of (vl_evidence_sets L') k = Some e" by auto
qed

section \<open>Transactions\<close>

text \<open>The tables an operation may extend by stored sets alone.\<close>

definition with_sets ::
  "verifier_ledger \<Rightarrow> (digest \<times> task_done_set) list \<Rightarrow> (digest \<times> criterion_evidence_set) list \<Rightarrow>
   verifier_ledger" where
  "with_sets L ds es = L\<lparr>vl_done_sets := vl_done_sets L @ ds,
     vl_evidence_sets := vl_evidence_sets L @ es\<rparr>"

lemma with_sets_simps [simp]:
  "vl_read_only (with_sets L ds es) = vl_read_only L"
  "vl_legacy_sprints (with_sets L ds es) = vl_legacy_sprints L"
  "vl_sprints (with_sets L ds es) = vl_sprints L"
  "vl_done_sources (with_sets L ds es) = vl_done_sources L"
  "vl_receipts (with_sets L ds es) = vl_receipts L"
  "vl_done_sets (with_sets L ds es) = vl_done_sets L @ ds"
  "vl_evidence_sets (with_sets L ds es) = vl_evidence_sets L @ es"
  "vl_attempts (with_sets L ds es) = vl_attempts L"
  "vl_controls (with_sets L ds es) = vl_controls L"
  "vl_captures (with_sets L ds es) = vl_captures L"
  "vl_outcomes (with_sets L ds es) = vl_outcomes L"
  "vl_terminals (with_sets L ds es) = vl_terminals L"
  "vl_activations (with_sets L ds es) = vl_activations L"
  "vl_completions (with_sets L ds es) = vl_completions L"
  by (simp_all add: with_sets_def)

lemma reads_with_sets [simp]:
  "sprint_of (with_sets L ds es) i = sprint_of L i"
  "outcome_of (with_sets L ds es) i = outcome_of L i"
  "capture_of (with_sets L ds es) i = capture_of L i"
  "attempt_with (with_sets L ds es) i = attempt_with L i"
  "attempts_of (with_sets L ds es) i = attempts_of L i"
  "persisted (with_sets L ds es) w = persisted L w"
  "load_latest_current_attempt (with_sets L ds es) i = load_latest_current_attempt L i"
  "repair_completion_for_failed_attempt (with_sets L ds es) i
    = repair_completion_for_failed_attempt L i"
  "sprint_ended (with_sets L ds es) i = sprint_ended L i"
proof -
  have p: "persisted (with_sets L ds es) = persisted L"
    by (rule ext) (simp add: persisted_def outcome_of_def)
  show "persisted (with_sets L ds es) w = persisted L w" by (simp add: p)
  show "load_latest_current_attempt (with_sets L ds es) i = load_latest_current_attempt L i"
    by (simp add: load_latest_current_attempt_def p)
qed (simp_all add: sprint_of_def outcome_of_def capture_of_def attempt_with_def attempts_of_def
    repair_completion_for_failed_attempt_def sprint_ended_def)

lemma derive_with_sets [simp]:
  "derive_attempt_predecessor x (with_sets L ds es) = derive_attempt_predecessor x L"
proof -
  have "repair_completion_for_failed_attempt (with_sets L ds es)
      = repair_completion_for_failed_attempt L"
    by (rule ext) simp
  then show ?thesis by (intro ext) (simp only: derive_attempt_predecessor_def)
qed

lemma persist_both:
  assumes "persist_task_done_set x L s g d = Inr (k, L1)"
    and "persist_criterion_evidence_set x L1 s e = Inr (l, L2)"
  obtains ds es where "L2 = with_sets L ds es" "map_of (vl_done_sets L @ ds) k = Some d"
    "map_of (vl_evidence_sets L @ es) l = Some e"
proof -
  note D = persist_task_done_setD [OF assms(1)] and E = persist_criterion_evidence_setD [OF assms(2)]
  from D(1) obtain ds where ds: "L1 = L\<lparr>vl_done_sets := vl_done_sets L @ ds\<rparr>" by blast
  from E(1) obtain es where es: "L2 = L1\<lparr>vl_evidence_sets := vl_evidence_sets L1 @ es\<rparr>" by blast
  show ?thesis
  proof (rule that)
    show "L2 = with_sets L ds es" by (simp add: ds es with_sets_def)
    show "map_of (vl_done_sets L @ ds) k = Some d" using D(2) by (simp add: ds)
    show "map_of (vl_evidence_sets L @ es) l = Some e" using E(4) by (simp add: ds es)
  qed
qed

text \<open>What an admitted attempt satisfies in the ledger it is added to.\<close>

definition admissible ::
  "ledger_codec \<Rightarrow> verifier_ledger \<Rightarrow> (digest \<times> task_done_set) list \<Rightarrow> attempt_row \<Rightarrow> bool" where
  "admissible x L sets w \<longleftrightarrow>
     (let a = ar_authority w; r = ar_request w; prior = load_latest_current_attempt L (fa_sprint_id a) in
      \<not> sprint_ended L (fa_sprint_id a) \<and> fa_sprint_id a = rq_sprint_id r \<and>
      validate_final_attempt a = Inr () \<and>
      (\<exists>row. sprint_of L (fa_sprint_id a) = Some row \<and>
         fa_max_final_verification_attempts a = b2_max_final_verification_attempts (s2_budget (sw_spec row)) \<and>
         validate_done_set (lx_sha x) (lx_v2 x) (rq_task_done_set r) (sw_spec row) (sw_graph row) = Inr () \<and>
         derive_attempt_predecessor x L prior (rq_task_done_set r) (rq_criterion_evidence_set r)
           (sw_graph row) (rq_admitted_at_unix_ms r) = Inr (fa_predecessor a)) \<and>
      fa_input_snapshot a = ds_snapshot_digest (rq_task_done_set r) \<and>
      done_set_digest (lx_sha x) (lx_done_set x) (rq_task_done_set r)
        = Inr (fa_complete_task_done_set_digest a) \<and>
      map_of sets (fa_complete_task_done_set_digest a) = Some (rq_task_done_set r) \<and>
      (case prior of None \<Rightarrow> fa_attempt_ordinal a = 1
       | Some p \<Rightarrow> validate_successor_of a (pa_authority p) = Inr ()) \<and>
      (\<forall>q\<in>set (vl_attempts L). fa_attempt_id (ar_authority q) \<noteq> fa_attempt_id a))"

lemma insert_attemptD:
  assumes "insert_attempt w L = Inr L'"
  shows "L' = L\<lparr>vl_attempts := vl_attempts L @ [w]\<rparr>"
    and "\<forall>q\<in>set (vl_attempts L). fa_attempt_id (ar_authority q) \<noteq> fa_attempt_id (ar_authority w)"
  using assms
  by (auto simp: insert_attempt_def unique_keys_ok attempt_keys_def Let_def)

lemma admit_freshD:
  assumes "admit_fresh x r bytes rd w L = Inr (p, L')"
    and "sprint_of L (rq_sprint_id r) = Some w"
  shows "\<exists>ds es row. L' = (with_sets L ds es)\<lparr>vl_attempts := vl_attempts L @ [row]\<rparr> \<and>
    admissible x L (vl_done_sets L @ ds) row \<and> ar_request row = r"
proof -
  from assms(1) obtain k L1 l L2 where
    live: "\<not> sprint_ended L (rq_sprint_id r)"
    and P: "persist_task_done_set x L (sw_spec w) (sw_graph w) (rq_task_done_set r) = Inr (k, L1)"
      "persist_criterion_evidence_set x L1 (sw_spec w) (rq_criterion_evidence_set r) = Inr (l, L2)"
    by (auto simp: admit_fresh_def bind_ok_Inr split: prod.splits)
  from persist_both [OF P] obtain ds es where L2: "L2 = with_sets L ds es"
    and sets: "map_of (vl_done_sets L @ ds) k = Some (rq_task_done_set r)" by blast
  define prior where "prior = load_latest_current_attempt L (rq_sprint_id r)"
  define ordinal where "ordinal = (case prior of None \<Rightarrow> 1
     | Some p \<Rightarrow> u8_saturating_succ (fa_attempt_ordinal (pa_authority p)))"
  from assms(1) live P obtain pred L3 where
    pred: "derive_attempt_predecessor x L prior (rq_task_done_set r) (rq_criterion_evidence_set r)
      (sw_graph w) (rq_admitted_at_unix_ms r) = Inr pred"
    and valid: "validate_final_attempt_for (lx_sha x) (lx_v2 x)
      (derived_attempt x r rd (sw_spec w) ordinal k l pred) (sw_spec w) (sw_graph w)
      (expected_inputs (derived_attempt x r rd (sw_spec w) ordinal k l pred)) = Inr ()"
    and succ: "(case prior of None \<Rightarrow> Inr () | Some p \<Rightarrow> contract
      (validate_successor_of (derived_attempt x r rd (sw_spec w) ordinal k l pred) (pa_authority p)))
      = Inr ()"
    and ins: "insert_attempt \<lparr>ar_request = r, ar_request_digest = rd, ar_request_bytes = bytes,
      ar_authority = derived_attempt x r rd (sw_spec w) ordinal k l pred\<rparr> (with_sets L ds es)
      = Inr L3" and L3: "L' = L3"
    by (auto simp: admit_fresh_def bind_ok_Inr L2 Let_def simp flip: prior_def ordinal_def)
  define a where "a = derived_attempt x r rd (sw_spec w) ordinal k l pred"
  define row where "row = \<lparr>ar_request = r, ar_request_digest = rd, ar_request_bytes = bytes,
    ar_authority = a\<rparr>"
  note I = insert_attemptD [OF ins [folded a_def row_def]]
  have fields: "fa_sprint_id a = rq_sprint_id r" "fa_attempt_ordinal a = ordinal"
    "fa_predecessor a = pred" "fa_input_snapshot a = ds_snapshot_digest (rq_task_done_set r)"
    "fa_complete_task_done_set_digest a = k"
    "fa_max_final_verification_attempts a = b2_max_final_verification_attempts (s2_budget (sw_spec w))"
    by (simp_all add: a_def derived_attempt_def)
  have "validate_final_attempt a = Inr ()"
    using valid by (simp add: a_def validate_final_attempt_for_def)
  moreover have "case prior of None \<Rightarrow> fa_attempt_ordinal a = 1
      | Some p \<Rightarrow> validate_successor_of a (pa_authority p) = Inr ()"
    using succ fields(2) by (cases prior) (simp_all add: a_def ordinal_def)
  ultimately have "admissible x L (vl_done_sets L @ ds) row"
    using live sets pred I(2) fields assms(2) persist_task_done_setD(3,4) [OF P(1)]
    by (simp add: admissible_def Let_def row_def prior_def)
  moreover have "L' = (with_sets L ds es)\<lparr>vl_attempts := vl_attempts L @ [row]\<rparr>"
    using I(1) L3 by simp
  moreover have "ar_request row = r" by (simp add: row_def)
  ultimately show ?thesis by blast
qed

lemma admitD:
  assumes "admit_current_final_verification_attempt x r L = Inr (p, L')"
  shows "L' = L \<or> (\<exists>ds es row. L' = (with_sets L ds es)\<lparr>vl_attempts := vl_attempts L @ [row]\<rparr> \<and>
    admissible x L (vl_done_sets L @ ds) row \<and> ar_request row = r)"
proof -
  from assms obtain bytes rd where A: "admit_in_transaction x r bytes rd L = Inr (p, L')"
    by (auto simp: admit_current_final_verification_attempt_def bind_ok_Inr)
  then obtain w where w: "sprint_of L (rq_sprint_id r) = Some w"
    by (auto simp: admit_in_transaction_def load_current_sprint_authority_def bind_ok_Inr)
  show ?thesis
  proof (cases "find (\<lambda>q. rq_request_id (ar_request q) = rq_request_id r) (vl_attempts L)")
    case None
    then have "admit_fresh x r bytes rd w L = Inr (p, L')"
      using A w by (simp add: admit_in_transaction_def load_current_sprint_authority_def)
    from admit_freshD [OF this w] show ?thesis by blast
  next
    case (Some q)
    then show ?thesis
      using A w by (simp add: admit_in_transaction_def load_current_sprint_authority_def)
  qed
qed

lemma createD:
  assumes "create_current_sprint_authority x s g at L = Inr (v, L')"
  shows "L' = L \<or> (\<exists>row. L' = L\<lparr>vl_sprints := vl_sprints L @ [row]\<rparr> \<and>
    sprint_of L (s2_sprint_id (sw_spec row)) = None \<and>
    validate_pair (lx_sha x) (lx_v2 x) (sw_graph row) (sw_spec row) = Inr ())"
proof (cases "sprint_of L (s2_sprint_id s)")
  case None
  with assms show ?thesis
    by (intro disjI2)
      (auto simp: create_current_sprint_authority_def bind_ok_Inr Let_def)
next
  case (Some row)
  with assms show ?thesis
    by (auto simp: create_current_sprint_authority_def bind_ok_Inr Let_def)
qed

text \<open>A new control names an open attempt of a sprint that has not ended.\<close>

lemma controlD:
  assumes "record_current_final_verification_control x i k b at L = Inr (c, L')"
  shows "L' = L \<or> (L' = L\<lparr>vl_controls := vl_controls L @ [c]\<rparr> \<and> cl_attempt_id c = i \<and>
    find_control (vl_controls L) (cl_control_id c) = None \<and> outcome_of L i = None \<and>
    \<not> sprint_ended L (cl_sprint_id c))"
proof -
  from assms obtain w identity where w: "attempt_with L i = Some w" "outcome_of L i = None"
    "\<not> sprint_ended L (fa_sprint_id (ar_authority w))"
    and identity: "lx_control_identity x \<lparr>ki_sprint_id = fa_sprint_id (ar_authority w),
      ki_attempt_id = i, ki_control_kind = k, ki_before_effect = b, ki_issued_at_unix_ms = at\<rparr>
      = Inr identity"
    by (auto simp: record_current_final_verification_control_def bind_ok_Inr
        load_current_attempt_ok Let_def)
  let ?id = "mint_identity (lx_sha x) CONTROL_ID_DOMAIN identity"
  show ?thesis
  proof (cases "find_control (vl_controls L) ?id")
    case None
    then show ?thesis
      using assms w identity
      by (auto simp: record_current_final_verification_control_def bind_ok_Inr
          load_current_attempt_ok Let_def)
  next
    case (Some r)
    then show ?thesis
      using assms w identity
      by (auto simp: record_current_final_verification_control_def bind_ok_Inr
          load_current_attempt_ok Let_def)
  qed
qed

text \<open>What closing adds.\<close>

definition closes ::
  "ledger_codec \<Rightarrow> verifier_ledger \<Rightarrow> capture_closure \<Rightarrow> outcome \<Rightarrow> attempt_row \<Rightarrow> bool" where
  "closes x L c o' w \<longleftrightarrow>
     attempt_with L (cc_attempt_id c) = Some w \<and> outcome_of L (cc_attempt_id c) = None \<and>
     fa_sprint_id (ar_authority w) = cc_sprint_id c \<and> \<not> sprint_ended L (cc_sprint_id c) \<and>
     oc_attempt_id o' = cc_attempt_id c \<and> oc_sprint_id o' = cc_sprint_id c \<and>
     oc_closure_id o' = cc_closure_id c \<and>
     oc_outcome o' = classify_current_capture (find_control (vl_controls L)) c \<and>
     trigger_accepts (vl_controls L) c (oc_outcome o') \<and>
     (\<forall>q\<in>set (vl_captures L). cc_attempt_id q \<noteq> cc_attempt_id c)"

definition new_terminals :: "final_attempt_authority \<Rightarrow> outcome \<Rightarrow> terminal_outcome list" where
  "new_terminals a o' = (case terminal_of a (oc_outcome o') of
     None \<Rightarrow> []
   | Some (state, reason) \<Rightarrow> [\<lparr>to_sprint_id = fa_sprint_id a, to_terminal_state = state,
       to_source_attempt_id = fa_attempt_id a, to_source_outcome_id = oc_outcome_id o',
       to_terminal_reason = reason, to_terminal_at_unix_ms = oc_terminal_at_unix_ms o'\<rparr>])"

lemma maybe_insert_terminal_ok:
  "maybe_insert_current_terminal a o' L = Inr L' \<Longrightarrow>
    L' = L\<lparr>vl_terminals := vl_terminals L @ new_terminals a o'\<rparr>"
  by (auto simp: maybe_insert_current_terminal_def new_terminals_def Let_def
      split: option.splits prod.splits)

lemma insert_outcome_ok:
  "insert_outcome x c o' L = Inr L' \<Longrightarrow> L' = L\<lparr>vl_outcomes := vl_outcomes L @ [o']\<rparr> \<and>
    trigger_accepts (vl_controls L) c (oc_outcome o')"
  by (auto simp: insert_outcome_def bind_ok_Inr)

lemma insert_capture_ok:
  "insert_current_capture x c L = Inr L' \<Longrightarrow> L' = L\<lparr>vl_captures := vl_captures L @ [c]\<rparr> \<and>
    (\<forall>q\<in>set (vl_captures L). cc_attempt_id q \<noteq> cc_attempt_id c)"
  by (auto simp: insert_current_capture_def bind_ok_Inr unique_keys_ok)

lemma closeD:
  assumes "close_current_final_verification_attempt x c L = Inr (o', L')"
  shows "L' = L \<or> (\<exists>w. closes x L c o' w \<and>
    L' = L\<lparr>vl_captures := vl_captures L @ [c], vl_outcomes := vl_outcomes L @ [o'],
      vl_terminals := vl_terminals L @ new_terminals (ar_authority w) o'\<rparr>)"
proof -
  from assms obtain w where w: "attempt_with L (cc_attempt_id c) = Some w"
    "fa_sprint_id (ar_authority w) = cc_sprint_id c"
    by (auto simp: close_current_final_verification_attempt_def bind_ok_Inr Let_def
        load_current_attempt_ok)
  note id = attempt_with_id [OF w(1)]
  show ?thesis
  proof (cases "outcome_of L (cc_attempt_id c)")
    case None
    with assms w id obtain L1 bytes L2 where live: "\<not> sprint_ended L (cc_sprint_id c)"
      and L1: "insert_current_capture x c L = Inr L1"
      and o': "o' = derived_outcome x c
        (classify_current_capture (find_control (vl_controls L1)) c) bytes"
      and L2: "insert_outcome x c o' L1 = Inr L2"
      and L': "maybe_insert_current_terminal (ar_authority w) o' L2 = Inr L'"
      by (auto simp: close_current_final_verification_attempt_def bind_ok_Inr Let_def
          load_current_attempt_ok)
    note I = insert_capture_ok [OF L1] insert_outcome_ok [OF L2] maybe_insert_terminal_ok [OF L']
    have "closes x L c o' w"
      using w None live I(1,2) by (simp add: closes_def o' derived_outcome_def)
    with I show ?thesis by auto
  next
    case (Some e)
    then show ?thesis
      using assms w id
      by (auto simp: close_current_final_verification_attempt_def bind_ok_Inr Let_def
          load_current_attempt_ok)
  qed
qed

text \<open>A new activation repairs the latest attempt, which failed in a known way.\<close>

definition activates :: "verifier_ledger \<Rightarrow> repair_activation \<Rightarrow> bool" where
  "activates L a \<longleftrightarrow> \<not> sprint_ended L (rn_sprint_id a) \<and>
     (\<exists>w c row t. attempt_with L (rn_failed_attempt_id a) = Some w \<and>
       fa_sprint_id (ar_authority w) = rn_sprint_id a \<and>
       fa_input_snapshot (ar_authority w) = rn_failed_snapshot a \<and>
       rn_slot_ordinal a = fa_attempt_ordinal (ar_authority w) \<and>
       fa_attempt_ordinal (ar_authority w) < fa_max_final_verification_attempts (ar_authority w) \<and>
       outcome_of L (rn_failed_attempt_id a) = Some c \<and> oc_outcome_id c = rn_failure_outcome_id a \<and>
       is_known_after_effect_failure (oc_outcome c) \<and>
       sprint_of L (rn_sprint_id a) = Some row \<and> t \<in> set (g2_tasks (sw_graph row)) \<and>
       t2_task_id t = rn_repair_task_id a \<and>
       t2_purpose t = FinalVerificationRepairSlot (rn_slot_ordinal a) \<and>
       (\<exists>p. load_latest_current_attempt L (rn_sprint_id a) = Some p \<and>
         fa_attempt_id (pa_authority p) = rn_failed_attempt_id a))"

lemma repairableD:
  assumes "repairable L i at = Inr (failed, task)"
  shows "\<exists>w c row. attempt_with L (fa_attempt_id failed) = Some w \<and> failed = ar_authority w \<and>
    \<not> sprint_ended L (fa_sprint_id failed) \<and>
    outcome_of L (fa_attempt_id failed) = Some c \<and> oc_outcome_id c = i \<and>
    is_known_after_effect_failure (oc_outcome c) \<and>
    fa_attempt_ordinal failed < fa_max_final_verification_attempts failed \<and>
    sprint_of L (fa_sprint_id failed) = Some row \<and> task \<in> set (g2_tasks (sw_graph row)) \<and>
    t2_purpose task = FinalVerificationRepairSlot (fa_attempt_ordinal failed) \<and>
    (\<exists>p. load_latest_current_attempt L (fa_sprint_id failed) = Some p \<and>
      fa_attempt_id (pa_authority p) = fa_attempt_id failed)"
proof -
  from assms obtain indexed :: outcome and w where
    f: "find (\<lambda>c. oc_outcome_id c = i) (vl_outcomes L) = Some indexed"
    and w: "attempt_with L (oc_attempt_id indexed) = Some w" "failed = ar_authority w"
    by (auto simp: repairable_def bind_ok_Inr Let_def load_current_attempt_ok)
  with f attempt_with_id [OF w(1)] assms show ?thesis
    by (auto simp: repairable_def bind_ok_Inr Let_def load_current_attempt_ok
        load_current_sprint_authority_def not_le dest!: find_SomeD)
qed

lemma insert_activationD:
  assumes "insert_activation x a L = Inr L'"
  shows "L' = L\<lparr>vl_activations := vl_activations L @ [a]\<rparr>"
    and "\<forall>b\<in>set (vl_activations L). rn_activation_id b \<noteq> rn_activation_id a \<and>
      rn_failed_attempt_id b \<noteq> rn_failed_attempt_id a"
  using assms by (auto simp: insert_activation_def bind_ok_Inr unique_keys_ok)

lemma activateD:
  assumes "activate_current_final_verification_repair x i at L = Inr (a, L')"
  shows "L' = L \<or> (L' = L\<lparr>vl_activations := vl_activations L @ [a]\<rparr> \<and> activates L a \<and>
    validate_repair_activation a = Inr () \<and>
    (\<forall>b\<in>set (vl_activations L). rn_activation_id b \<noteq> rn_activation_id a \<and>
      rn_failed_attempt_id b \<noteq> rn_failed_attempt_id a))"
proof (cases "find (\<lambda>a. rn_failure_outcome_id a = i) (vl_activations L)")
  case None
  with assms obtain failed task identity where R: "repairable L i at = Inr (failed, task)"
    and a: "a = \<lparr>rn_activation_version = 1,
      rn_activation_id = mint_identity (lx_sha x) REPAIR_ACTIVATION_ID_DOMAIN identity,
      rn_sprint_id = fa_sprint_id failed, rn_failed_attempt_id = fa_attempt_id failed,
      rn_failure_outcome_id = i, rn_failed_snapshot = fa_input_snapshot failed,
      rn_slot_ordinal = fa_attempt_ordinal failed,
      rn_repair_task_id = t2_task_id task, rn_activated_at_unix_ms = at\<rparr>"
    and v: "validate_repair_activation a = Inr ()" and ins: "insert_activation x a L = Inr L'"
    by (auto simp: activate_current_final_verification_repair_def bind_ok_Inr Let_def)
  from repairableD [OF R] have "activates L a" unfolding activates_def by (auto simp: a)
  with insert_activationD [OF ins] v show ?thesis by blast
next
  case (Some b)
  with assms show ?thesis
    by (auto simp: activate_current_final_verification_repair_def bind_ok_Inr)
qed

text \<open>A new completion extends the history of the failed attempt by the activated slot.\<close>

definition completes ::
  "verifier_ledger \<Rightarrow> (digest \<times> task_done_set) list \<Rightarrow> repair_completion \<Rightarrow> bool" where
  "completes L sets c \<longleftrightarrow> \<not> sprint_ended L (rp_sprint_id c) \<and>
     (\<exists>a w old new m. a \<in> set (vl_activations L) \<and> rn_activation_id a = rp_activation_id c \<and>
       rn_sprint_id a = rp_sprint_id c \<and> rn_failed_attempt_id a = rp_failed_attempt_id c \<and>
       rn_failed_snapshot a \<noteq> rp_result_snapshot c \<and>
       attempt_with L (rp_failed_attempt_id c) = Some w \<and>
       map_of (vl_done_sets L) (fa_complete_task_done_set_digest (ar_authority w)) = Some old \<and>
       map_of sets (rp_complete_task_done_set_digest c) = Some new \<and>
       ds_members new = ds_members old @ [m] \<and> dn_task_id m = rn_repair_task_id a \<and>
       dn_input_snapshot m = ds_snapshot_digest old \<and>
       ds_snapshot_digest new = rp_result_snapshot c \<and>
       rp_complete_task_done_set_digest c \<noteq> fa_complete_task_done_set_digest (ar_authority w))"

lemma extensionD:
  assumes "require_exact_repair_task_done_extension old new a proof receipt = Inr ()"
  shows "\<exists>m. ds_members new = ds_members old @ [m] \<and> dn_task_id m = rn_repair_task_id a \<and>
    dn_input_snapshot m = ds_snapshot_digest old"
proof -
  from assms have n: "length (ds_members new) = length (ds_members old) + 1"
    and t: "take (length (ds_members old)) (ds_members new) = ds_members old"
    and l: "dn_task_id (last (ds_members new)) = rn_repair_task_id a"
      "dn_input_snapshot (last (ds_members new)) = ds_snapshot_digest old"
    by (auto simp: require_exact_repair_task_done_extension_def Let_def bind_ok_Inr
        split: if_splits)
  from n obtain ms m where new: "ds_members new = ms @ [m]"
    by (cases "ds_members new" rule: rev_cases) auto
  with n t have "ms = ds_members old" by simp
  with new l show ?thesis by simp
qed

lemma repaired_setsD:
  assumes "repaired_sets x r a L = Inr ((k, l), L2)"
  shows "\<exists>ds es w old m. L2 = with_sets L ds es \<and>
    attempt_with L (rn_failed_attempt_id a) = Some w \<and>
    map_of (vl_done_sets L) (fa_complete_task_done_set_digest (ar_authority w)) = Some old \<and>
    map_of (vl_done_sets L @ ds) k = Some (rk_task_done_set r) \<and>
    ds_members (rk_task_done_set r) = ds_members old @ [m] \<and> dn_task_id m = rn_repair_task_id a \<and>
    dn_input_snapshot m = ds_snapshot_digest old \<and>
    k \<noteq> fa_complete_task_done_set_digest (ar_authority w)"
proof -
  from assms obtain row :: sprint_row and w old L1 where
    w: "attempt_with L (rn_failed_attempt_id a) = Some w"
    and old: "load_task_done_set_optional x L
      (fa_complete_task_done_set_digest (ar_authority w)) = Inr (Some old)"
    and ext: "require_exact_repair_task_done_extension old (rk_task_done_set r) a
      (rk_repair_task_done_proof_id r) (rk_integration_receipt_id r) = Inr ()"
    and P: "persist_task_done_set x L (sw_spec row) (sw_graph row) (rk_task_done_set r) = Inr (k, L1)"
      "persist_criterion_evidence_set x L1 (sw_spec row) (rk_criterion_evidence_set r) = Inr (l, L2)"
    and new: "k \<noteq> fa_complete_task_done_set_digest (ar_authority w)"
    by (auto simp: repaired_sets_def bind_ok_Inr Let_def load_current_attempt_ok)
  from extensionD [OF ext] obtain m where "ds_members (rk_task_done_set r) = ds_members old @ [m]"
    "dn_task_id m = rn_repair_task_id a" "dn_input_snapshot m = ds_snapshot_digest old" by blast
  with persist_both [OF P] w load_task_done_set_ok [OF old] new show ?thesis by metis
qed

lemma complete_repairD:
  assumes "complete_current_final_verification_repair x r L = Inr (c, L')"
  shows "L' = L \<or> (\<exists>ds es row. L' = (with_sets L ds es)\<lparr>vl_completions := vl_completions L @ [row]\<rparr> \<and>
    cr_completion row = c \<and> completes L (vl_done_sets L @ ds) c \<and>
    (\<forall>q\<in>set (vl_completions L). rp_failed_attempt_id (cr_completion q) \<noteq> rp_failed_attempt_id c))"
proof (cases "find (\<lambda>w. cr_request_id w = rk_request_id r) (vl_completions L)")
  case None
  with assms obtain a k l L2 rd where a: "load_repair_activation L (rk_activation_id r) = Inr a"
    and live: "\<not> sprint_ended L (rn_sprint_id a)"
    and cross: "\<not> completion_crosses_activation r a"
    and R: "repaired_sets x r a L = Inr ((k, l), L2)"
    and c: "rp_sprint_id c = rn_sprint_id a" "rp_activation_id c = rn_activation_id a"
      "rp_failed_attempt_id c = rn_failed_attempt_id a" "rp_result_snapshot c = rk_result_snapshot r"
      "rp_complete_task_done_set_digest c = k"
    and ins: "insert_completion x \<lparr>cr_request_id = rk_request_id r, cr_request_digest = rd,
      cr_completion = c\<rparr> L2 = Inr L'"
    by (auto simp: complete_current_final_verification_repair_def bind_ok_Inr Let_def)
  from repaired_setsD [OF R] obtain ds es w old m where L2: "L2 = with_sets L ds es"
    and sets: "attempt_with L (rn_failed_attempt_id a) = Some w"
      "map_of (vl_done_sets L) (fa_complete_task_done_set_digest (ar_authority w)) = Some old"
      "map_of (vl_done_sets L @ ds) k = Some (rk_task_done_set r)"
      "ds_members (rk_task_done_set r) = ds_members old @ [m]" "dn_task_id m = rn_repair_task_id a"
      "dn_input_snapshot m = ds_snapshot_digest old"
      "k \<noteq> fa_complete_task_done_set_digest (ar_authority w)" by blast
  have act: "a \<in> set (vl_activations L)"
    using a by (auto simp: load_repair_activation_def dest: find_SomeD)
  have snap: "rn_failed_snapshot a \<noteq> rk_result_snapshot r"
    "ds_snapshot_digest (rk_task_done_set r) = rk_result_snapshot r"
    using cross by (auto simp: completion_crosses_activation_def)
  have "completes L (vl_done_sets L @ ds) c"
    unfolding completes_def c using live act snap sets by blast
  moreover define row where
    "row = \<lparr>cr_request_id = rk_request_id r, cr_request_digest = rd, cr_completion = c\<rparr>"
  moreover have "L' = (with_sets L ds es)\<lparr>vl_completions := vl_completions L @ [row]\<rparr>"
    "\<forall>q\<in>set (vl_completions L). rp_failed_attempt_id (cr_completion q) \<noteq> rp_failed_attempt_id c"
    using ins by (auto simp: insert_completion_def bind_ok_Inr L2 unique_keys_ok
        completion_keys_def Let_def row_def)
  moreover have "cr_completion row = c" by (simp add: row_def)
  ultimately show ?thesis by blast
next
  case (Some w)
  with assms show ?thesis
    by (auto simp: complete_current_final_verification_repair_def bind_ok_Inr)
qed

end
