(* ===== verification/Ledger_Invariants.thy ===== *)
theory Ledger_Invariants
  imports Ledger_Facts
begin

text \<open>
  Invariants of the reachable verifier ledgers: the attempts of a sprint are a chain of accepted
  successors, every successor was earned by the outcome before it, stored outcomes are what their
  captures classify as, an ended sprint is frozen, and a repair extends the integration history
  of the attempt it repairs.
\<close>

section \<open>Steps\<close>

lemma ledger_step_forms [consumes 1, case_names same sprint attempt control close activation
    completion sources]:
  assumes "ledger_step x L L'"
  obtains "L' = L"
  | row where "L' = L\<lparr>vl_sprints := vl_sprints L @ [row]\<rparr>"
      "sprint_of L (s2_sprint_id (sw_spec row)) = None"
      "validate_pair (lx_sha x) (lx_v2 x) (sw_graph row) (sw_spec row) = Inr ()"
  | ds es row where "L' = (with_sets L ds es)\<lparr>vl_attempts := vl_attempts L @ [row]\<rparr>"
      "admissible x L (vl_done_sets L @ ds) row"
  | c where "L' = L\<lparr>vl_controls := vl_controls L @ [c]\<rparr>"
      "find_control (vl_controls L) (cl_control_id c) = None"
      "outcome_of L (cl_attempt_id c) = None" "\<not> sprint_ended L (cl_sprint_id c)"
  | c o' w where "closes x L c o' w"
      "L' = L\<lparr>vl_captures := vl_captures L @ [c], vl_outcomes := vl_outcomes L @ [o'],
        vl_terminals := vl_terminals L @ new_terminals (ar_authority w) o'\<rparr>"
  | a where "L' = L\<lparr>vl_activations := vl_activations L @ [a]\<rparr>" "activates L a"
      "validate_repair_activation a = Inr ()"
      "\<forall>b\<in>set (vl_activations L). rn_activation_id b \<noteq> rn_activation_id a \<and>
        rn_failed_attempt_id b \<noteq> rn_failed_attempt_id a"
  | ds es row where "L' = (with_sets L ds es)\<lparr>vl_completions := vl_completions L @ [row]\<rparr>"
      "completes L (vl_done_sets L @ ds) (cr_completion row)"
      "\<forall>q\<in>set (vl_completions L).
        rp_failed_attempt_id (cr_completion q) \<noteq> rp_failed_attempt_id (cr_completion row)"
  | more receipts legacy where "L' = L\<lparr>vl_done_sources := vl_done_sources L @ more,
      vl_receipts := vl_receipts L @ receipts,
      vl_legacy_sprints := vl_legacy_sprints L @ legacy\<rparr>"
  using assms
proof cases
  case create
  from createD [OF this] that(1,2) show thesis by blast
next
  case admit
  from admitD [OF this] that(1,3) show thesis by blast
next
  case control
  from controlD [OF this] that(1,4) show thesis by blast
next
  case close
  from closeD [OF this] that(1,5) show thesis by blast
next
  case activate
  from activateD [OF this] that(1,6) show thesis by blast
next
  case complete
  from complete_repairD [OF this] that(1,7) show thesis by blast
next
  case sources
  with that(8) show thesis by blast
qed

lemmas reads = sprint_of_def outcome_of_def capture_of_def attempt_with_def attempts_of_def
  repair_completion_for_failed_attempt_def sprint_ended_def

text \<open>Lookups that found something find the same in a later ledger.\<close>

definition grows :: "verifier_ledger \<Rightarrow> verifier_ledger \<Rightarrow> bool" where
  "grows L L' \<longleftrightarrow>
     (\<forall>i v. sprint_of L i = Some v \<longrightarrow> sprint_of L' i = Some v) \<and>
     (\<forall>i v. outcome_of L i = Some v \<longrightarrow> outcome_of L' i = Some v) \<and>
     (\<forall>i v. capture_of L i = Some v \<longrightarrow> capture_of L' i = Some v) \<and>
     (\<forall>i v. attempt_with L i = Some v \<longrightarrow> attempt_with L' i = Some v) \<and>
     (\<forall>i v. repair_completion_for_failed_attempt L i = Some v \<longrightarrow>
       repair_completion_for_failed_attempt L' i = Some v) \<and>
     (\<forall>k v. map_of (vl_done_sets L) k = Some v \<longrightarrow> map_of (vl_done_sets L') k = Some v) \<and>
     set (vl_activations L) \<subseteq> set (vl_activations L')"

lemma step_grows: "ledger_step x L L' \<Longrightarrow> grows L L'"
proof (induction rule: ledger_step_forms)
  case (completion ds es row)
  then show ?case by (auto simp: grows_def reads find_append map_add_def split: option.split)
qed (auto simp: grows_def reads find_append map_add_def split: option.split)

lemma growsD:
  assumes "grows L L'"
  shows "sprint_of L i = Some v \<Longrightarrow> sprint_of L' i = Some v"
    and "outcome_of L i = Some o' \<Longrightarrow> outcome_of L' i = Some o'"
    and "capture_of L i = Some c \<Longrightarrow> capture_of L' i = Some c"
    and "attempt_with L i = Some w \<Longrightarrow> attempt_with L' i = Some w"
    and "repair_completion_for_failed_attempt L i = Some m \<Longrightarrow>
      repair_completion_for_failed_attempt L' i = Some m"
    and "map_of (vl_done_sets L) k = Some d \<Longrightarrow> map_of (vl_done_sets L') k = Some d"
    and "a \<in> set (vl_activations L) \<Longrightarrow> a \<in> set (vl_activations L')"
  using assms by (auto simp: grows_def)

text \<open>The attempts of a sprint change by an admission for it only.\<close>

lemma attempts_of_step:
  assumes "ledger_step x L L'"
  shows "attempts_of L' i = attempts_of L i \<or> (\<exists>ds row. attempts_of L' i = attempts_of L i @ [ar_authority row] \<and>
    fa_sprint_id (ar_authority row) = i \<and> admissible x L (vl_done_sets L @ ds) row)"
  using assms
proof (cases rule: ledger_step_forms)
  case (attempt ds es row)
  then show ?thesis
    by (cases "fa_sprint_id (ar_authority row) = i") (auto simp: attempts_of_def)
qed (auto simp: attempts_of_def)

section \<open>Chains\<close>

lemma attempts_follow_snoc:
  "attempts_follow a (as @ [b]) \<longleftrightarrow> attempts_follow a as \<and> validate_successor_of b (last (a # as)) = Inr ()"
  by (induction as arbitrary: a) auto

lemma attempt_chain_snoc:
  "attempt_chain (as @ [b]) \<longleftrightarrow> attempt_chain as \<and>
    (if as = [] then validate_final_attempt b = Inr () \<and> fa_predecessor b = Initial
     else validate_successor_of b (last as) = Inr ())"
  by (cases as) (auto simp: attempts_follow_snoc)

lemma chain_ordinal_inject:
  assumes "attempt_chain as" "a \<in> set as" "b \<in> set as" "fa_attempt_ordinal a = fa_attempt_ordinal b"
  shows "a = b"
proof -
  have "distinct (map (\<lambda>a. unat (fa_attempt_ordinal a)) as)"
    by (simp add: attempt_chain_bounded(1) [OF assms(1,2)] del: upt_Suc)
  then show ?thesis using assms(2-) by (auto simp: distinct_map inj_on_def)
qed

lemma chain_last_ordinal:
  assumes "attempt_chain as" "as \<noteq> []"
  shows "unat (fa_attempt_ordinal (last as)) = length as"
proof -
  let ?n = "\<lambda>a. unat (fa_attempt_ordinal a)"
  have "map ?n as = [1..<Suc (length as)]"
    using attempt_chain_bounded(1) [OF assms(1)] last_in_set [OF assms(2)] by blast
  then have "last (map ?n as) = length as" using assms(2) by (cases as) auto
  then show ?thesis using assms(2) by (simp add: last_map)
qed

lemma chain_last_max:
  assumes "attempt_chain as" "a \<in> set as"
  shows "fa_attempt_ordinal a \<le> fa_attempt_ordinal (last as)"
proof -
  have "unat (fa_attempt_ordinal a) \<in> set (map (\<lambda>a. unat (fa_attempt_ordinal a)) as)"
    using assms(2) by simp
  then have "unat (fa_attempt_ordinal a) \<le> length as"
    unfolding attempt_chain_bounded(1) [OF assms] by auto
  with chain_last_ordinal [OF assms(1)] assms(2) show ?thesis
    by (fastforce simp: word_le_nat_alt)
qed

text \<open>The row with the largest ordinal is the last one.\<close>

lemma latest_attempt:
  assumes "attempt_chain (attempts_of L i)"
  shows "load_latest_current_attempt L i = None \<longleftrightarrow> attempts_of L i = []"
    and "load_latest_current_attempt L i = Some p \<Longrightarrow> attempts_of L i \<noteq> [] \<and>
      pa_authority p = last (attempts_of L i) \<and>
      pa_outcome p = outcome_of L (fa_attempt_id (last (attempts_of L i)))"
proof -
  let ?rows = "filter (\<lambda>w. fa_sprint_id (ar_authority w) = i) (vl_attempts L)"
  let ?max = "\<lambda>w. list_all (\<lambda>q. fa_attempt_ordinal (ar_authority q) \<le> fa_attempt_ordinal (ar_authority w)) ?rows"
  have as: "attempts_of L i = map ar_authority ?rows"
    by (simp add: attempts_of_def filter_map comp_def)
  have exists: "find ?max ?rows \<noteq> None" if "?rows \<noteq> []"
  proof -
    have "?max (last ?rows)"
      using chain_last_max [OF assms] that by (auto simp: as last_map list_all_iff)
    moreover have "last ?rows \<in> set ?rows" using that by (rule last_in_set)
    ultimately show ?thesis by (metis find_None_iff)
  qed
  have iff: "find ?max ?rows = None \<longleftrightarrow> attempts_of L i = []"
  proof
    assume "find ?max ?rows = None"
    then have "?rows = []" using exists by blast
    then show "attempts_of L i = []" by (simp add: as)
  next
    assume "attempts_of L i = []"
    then have "?rows = []" by (simp add: as)
    then show "find ?max ?rows = None" by simp
  qed
  then show "load_latest_current_attempt L i = None \<longleftrightarrow> attempts_of L i = []"
    by (simp add: load_latest_current_attempt_def Let_def)
  assume "load_latest_current_attempt L i = Some p"
  then obtain w where w: "find ?max ?rows = Some w" and p: "p = persisted L w"
    by (auto simp: load_latest_current_attempt_def Let_def)
  have ne: "attempts_of L i \<noteq> []" using w iff by auto
  from find_SomeD [OF w] have mem: "ar_authority w \<in> set (attempts_of L i)"
    and max: "\<forall>a\<in>set (attempts_of L i). fa_attempt_ordinal a \<le> fa_attempt_ordinal (ar_authority w)"
    by (auto simp: as list_all_iff)
  have "last (attempts_of L i) \<in> set (attempts_of L i)" using ne by simp
  with max chain_last_max [OF assms mem]
  have "fa_attempt_ordinal (ar_authority w) = fa_attempt_ordinal (last (attempts_of L i))"
    by (simp add: antisym)
  then have "ar_authority w = last (attempts_of L i)"
    using chain_ordinal_inject [OF assms mem] ne by simp
  with ne p show "attempts_of L i \<noteq> [] \<and> pa_authority p = last (attempts_of L i) \<and>
      pa_outcome p = outcome_of L (fa_attempt_id (last (attempts_of L i)))"
    by (simp add: persisted_def)
qed

lemma admissible_extends_chain:
  assumes "attempt_chain (attempts_of L (fa_sprint_id (ar_authority row)))"
    and adm: "admissible x L sets row"
  shows "attempt_chain (attempts_of L (fa_sprint_id (ar_authority row)) @ [ar_authority row])"
proof -
  let ?a = "ar_authority row"
  let ?prior = "load_latest_current_attempt L (fa_sprint_id ?a)"
  note latest = latest_attempt [OF assms(1)]
  from adm have v: "validate_final_attempt ?a = Inr ()"
    and step: "case ?prior of None \<Rightarrow> fa_attempt_ordinal ?a = 1
      | Some p \<Rightarrow> validate_successor_of ?a (pa_authority p) = Inr ()"
    by (auto simp: admissible_def Let_def)
  show ?thesis
  proof (cases ?prior)
    case None
    then show ?thesis
      using latest(1) step v validate_final_attemptD(4) [OF v] by (simp add: attempt_chain_snoc)
  next
    case (Some p)
    then show ?thesis using latest(2) [OF Some] step assms(1) by (simp add: attempt_chain_snoc)
  qed
qed

lemma chain_invariant:
  assumes "ledger_reachable x L"
  shows "attempt_chain (attempts_of L i)"
  using assms
proof (induction arbitrary: i)
  case empty
  then show ?case by (simp add: empty_ledger_def attempts_of_def)
next
  case (step L L')
  from attempts_of_step [OF step.hyps(2), of i] show ?case
    using step.IH admissible_extends_chain by metis
qed

lemma attempt_of_chain:
  assumes "attempt_with L i = Some w"
  shows "ar_authority w \<in> set (attempts_of L (fa_sprint_id (ar_authority w)))"
  using attempt_with_id [OF assms] by (auto simp: attempts_of_def)

text \<open>The attempts have identities of their own.\<close>

definition attempt_ids :: "verifier_ledger \<Rightarrow> string list" where
  "attempt_ids L = map (\<lambda>w. fa_attempt_id (ar_authority w)) (vl_attempts L)"

lemma ids_invariant:
  assumes "ledger_reachable x L"
  shows "distinct (attempt_ids L)" and "distinct (map cl_control_id (vl_controls L))"
proof -
  have "distinct (attempt_ids L) \<and> distinct (map cl_control_id (vl_controls L))"
    using assms
  proof (induction)
    case empty
    then show ?case by (simp add: empty_ledger_def attempt_ids_def)
  next
    case (step L L')
    from step.hyps(2) show ?case
    proof (cases rule: ledger_step_forms)
      case (attempt ds es row)
      then show ?thesis
        using step.IH by (auto simp: attempt_ids_def admissible_def Let_def)
    next
      case (control c)
      then have "\<forall>r\<in>set (vl_controls L). cl_control_id r \<noteq> cl_control_id c"
        by (auto simp: find_control_def find_None_iff)
      with control step.IH show ?thesis by (auto simp: attempt_ids_def)
    qed (use step.IH in \<open>simp_all add: attempt_ids_def\<close>)
  qed
  then show "distinct (attempt_ids L)" "distinct (map cl_control_id (vl_controls L))" by blast+
qed

lemma attempt_with_iff:
  assumes "distinct (attempt_ids L)"
  shows "attempt_with L i = Some w \<longleftrightarrow> w \<in> set (vl_attempts L) \<and> fa_attempt_id (ar_authority w) = i"
proof
  assume "w \<in> set (vl_attempts L) \<and> fa_attempt_id (ar_authority w) = i"
  then show "attempt_with L i = Some w"
    unfolding attempt_with_def using find_unique [OF assms [unfolded attempt_ids_def], of w i] by simp
qed (rule attempt_with_id)

section \<open>Captures and outcomes\<close>

text \<open>
  A control recorded later does not change how a stored capture is classified: it names another
  attempt.
\<close>

lemma later_control_irrelevant:
  assumes "cl_attempt_id r \<noteq> cc_attempt_id c" "find_control rows (cl_control_id r) = None"
  shows "classify_current_capture (find_control (rows @ [r])) c
    = classify_current_capture (find_control rows) c"
proof -
  have "matching_control (find_control (rows @ [r])) c = matching_control (find_control rows) c"
    using assms
    by (auto simp: matching_control_def find_control_def find_append bind_eq_Some_conv
        split: option.splits bind_splits)
  then show ?thesis by (simp only: classify_current_capture_def)
qed

text \<open>Each outcome classifies the stored capture of an attempt of its sprint.\<close>

definition outcome_derived :: "verifier_ledger \<Rightarrow> outcome \<Rightarrow> bool" where
  "outcome_derived L o' \<longleftrightarrow>
     (\<exists>c w. capture_of L (oc_attempt_id o') = Some c \<and> cc_attempt_id c = oc_attempt_id o' \<and>
       attempt_with L (oc_attempt_id o') = Some w \<and> fa_sprint_id (ar_authority w) = oc_sprint_id o' \<and>
       cc_sprint_id c = oc_sprint_id o' \<and> oc_closure_id o' = cc_closure_id c \<and>
       oc_outcome o' = classify_current_capture (find_control (vl_controls L)) c)"

lemma outcome_invariant:
  assumes "ledger_reachable x L"
  shows "\<forall>o'\<in>set (vl_outcomes L). outcome_derived L o' \<and> outcome_of L (oc_attempt_id o') = Some o'"
  using assms
proof (induction)
  case empty
  then show ?case by (simp add: empty_ledger_def)
next
  case (step L L')
  note G = step_grows [OF step.hyps(2)]
  have old: "outcome_derived L' o' \<and> outcome_of L' (oc_attempt_id o') = Some o'"
    if mem: "o' \<in> set (vl_outcomes L)" and same: "vl_controls L' = vl_controls L \<or>
      (\<exists>r. vl_controls L' = vl_controls L @ [r] \<and> cl_attempt_id r \<noteq> oc_attempt_id o' \<and>
        find_control (vl_controls L) (cl_control_id r) = None)" for o'
  proof -
    from step.IH mem have d: "outcome_derived L o'" and f: "outcome_of L (oc_attempt_id o') = Some o'"
      by auto
    from d obtain c w where c: "capture_of L (oc_attempt_id o') = Some c"
      "cc_attempt_id c = oc_attempt_id o'" "attempt_with L (oc_attempt_id o') = Some w"
      "fa_sprint_id (ar_authority w) = oc_sprint_id o'" "cc_sprint_id c = oc_sprint_id o'"
      "oc_closure_id o' = cc_closure_id c"
      "oc_outcome o' = classify_current_capture (find_control (vl_controls L)) c"
      by (auto simp: outcome_derived_def)
    have "classify_current_capture (find_control (vl_controls L')) c
        = classify_current_capture (find_control (vl_controls L)) c"
      using same later_control_irrelevant c(2) by metis
    with c growsD(3,4) [OF G] have "outcome_derived L' o'"
      unfolding outcome_derived_def by metis
    with growsD(2) [OF G f] show ?thesis by blast
  qed
  from step.hyps(2) show ?case
  proof (cases rule: ledger_step_forms)
    case (control r)
    have "cl_attempt_id r \<noteq> oc_attempt_id o'" if "o' \<in> set (vl_outcomes L)" for o'
      using step.IH that control(3) by auto
    then show ?thesis using old control by auto
  next
    case (close c o' w)
    have "outcome_of L' (oc_attempt_id o') = Some o'"
      using close by (simp add: closes_def outcome_of_def find_append)
    moreover have "outcome_derived L' o'"
    proof -
      have "find (\<lambda>q. cc_attempt_id q = cc_attempt_id c) (vl_captures L) = None"
        using close(1) by (simp add: closes_def find_None_iff)
      then have "capture_of L' (oc_attempt_id o') = Some c"
        using close by (simp add: closes_def capture_of_def find_append)
      moreover have "attempt_with L' (oc_attempt_id o') = Some w"
        using close growsD(4) [OF G] by (simp add: closes_def)
      ultimately show ?thesis
        using close by (auto simp: closes_def outcome_derived_def)
    qed
    ultimately show ?thesis using old close(2) by auto
  qed (use old in auto)
qed

section \<open>Earned successors\<close>

text \<open>
  How attempt \<open>b\<close> may follow attempt \<open>a\<close>: nothing had happened and the same sets are tested
  again, or the failure was repaired and the sets are those of the completed repair.
\<close>

definition earned :: "verifier_ledger \<Rightarrow> final_attempt_authority \<Rightarrow> final_attempt_authority \<Rightarrow> bool" where
  "earned L a b \<longleftrightarrow> (\<exists>o'. outcome_of L (fa_attempt_id a) = Some o' \<and>
     (oc_outcome o' = outcome_kind.FailedBeforeEffect \<and>
        fa_predecessor b = SameSnapshotAfterFailedBeforeEffect (fa_attempt_id a) (oc_closure_id o') \<or>
      (\<exists>i. oc_outcome o' = ControlInterruptedBeforeEffect i \<and>
        fa_predecessor b =
          SameSnapshotAfterControlInterruption (fa_attempt_id a) i (oc_closure_id o')) \<or>
      is_known_after_effect_failure (oc_outcome o') \<and>
      (\<exists>m. repair_completion_for_failed_attempt L (fa_attempt_id a) = Some m \<and>
        fa_predecessor b = ChangedSnapshotAfterRepair (oc_outcome_id o') (rp_activation_id m)
          (rp_repair_task_done_proof_id m) (rp_integration_receipt_id m) \<and>
        rp_result_snapshot m = fa_input_snapshot b \<and>
        rp_complete_task_done_set_digest m = fa_complete_task_done_set_digest b)))"

lemma earned_grows: "grows L L' \<Longrightarrow> earned L a b \<Longrightarrow> earned L' a b"
  unfolding earned_def by (metis growsD(2,5))

lemma admissible_is_earned:
  assumes "attempt_chain (attempts_of L (fa_sprint_id (ar_authority row)))"
    and adm: "admissible x L sets row" and ne: "attempts_of L (fa_sprint_id (ar_authority row)) \<noteq> []"
  shows "earned L (last (attempts_of L (fa_sprint_id (ar_authority row)))) (ar_authority row)"
proof -
  let ?b = "ar_authority row" and ?d = "rq_task_done_set (ar_request row)"
  let ?a = "last (attempts_of L (fa_sprint_id ?b))"
  note latest = latest_attempt [OF assms(1)]
  obtain p where p: "load_latest_current_attempt L (fa_sprint_id ?b) = Some p"
    using latest(1) ne by (cases "load_latest_current_attempt L (fa_sprint_id ?b)") auto
  note pa = latest(2) [OF p]
  from adm p obtain g at where
    derived: "derive_attempt_predecessor x L (Some p) ?d
      (rq_criterion_evidence_set (ar_request row)) g at = Inr (fa_predecessor ?b)"
    and sets: "fa_input_snapshot ?b = ds_snapshot_digest ?d"
      "done_set_digest (lx_sha x) (lx_done_set x) ?d = Inr (fa_complete_task_done_set_digest ?b)"
    by (auto simp: admissible_def Let_def)
  from derived obtain o' where o': "outcome_of L (fa_attempt_id ?a) = Some o'"
    using pa by (auto simp: derive_attempt_predecessor_def bind_ok_Inr)
  show ?thesis
    using derived pa o' sets
    by (cases "oc_outcome o'")
      (auto simp: derive_attempt_predecessor_def bind_ok_Inr earned_def
        is_known_after_effect_failure_def)
qed

lemma earned_invariant:
  assumes "ledger_reachable x L"
  shows "successively (earned L) (attempts_of L i)"
  using assms
proof (induction arbitrary: i)
  case empty
  then show ?case by (simp add: empty_ledger_def attempts_of_def)
next
  case (step L L')
  have old: "successively (earned L') (attempts_of L i)"
    using step.IH earned_grows [OF step_grows [OF step.hyps(2)]] by (rule successively_mono)
  from attempts_of_step [OF step.hyps(2), of i] show ?case
  proof (elim disjE exE conjE)
    assume "attempts_of L' i = attempts_of L i"
    with old show ?thesis by simp
  next
    fix ds row
    assume new: "attempts_of L' i = attempts_of L i @ [ar_authority row]"
      and row: "fa_sprint_id (ar_authority row) = i" "admissible x L (vl_done_sets L @ ds) row"
    have "earned L' (last (attempts_of L i)) (ar_authority row)" if "attempts_of L i \<noteq> []"
      using admissible_is_earned [OF chain_invariant [OF step.hyps(1)] row(2)] row(1) that
        earned_grows [OF step_grows [OF step.hyps(2)]] by simp
    with old new show ?thesis by (auto simp: successively_append_iff)
  qed
qed

lemma successively_not_last:
  "successively P xs \<Longrightarrow> v \<in> set xs \<Longrightarrow> v = last xs \<or> (\<exists>y\<in>set xs. P v y)"
  by (induction P xs rule: successively.induct) auto

text \<open>An open attempt is the last one of its sprint.\<close>

lemma open_attempt_last:
  assumes "ledger_reachable x L" "a \<in> set (attempts_of L i)" "outcome_of L (fa_attempt_id a) = None"
  shows "a = last (attempts_of L i)"
  using successively_not_last [OF earned_invariant [OF assms(1)] assms(2)] assms(3)
  by (auto simp: earned_def)

section \<open>Ended sprints\<close>

definition end_explained :: "verifier_ledger \<Rightarrow> terminal_outcome \<Rightarrow> bool" where
  "end_explained L t \<longleftrightarrow> attempts_of L (to_sprint_id t) \<noteq> [] \<and>
     (\<exists>o'. outcome_of L (fa_attempt_id (last (attempts_of L (to_sprint_id t)))) = Some o' \<and>
       to_source_attempt_id t = fa_attempt_id (last (attempts_of L (to_sprint_id t))) \<and>
       to_source_outcome_id t = oc_outcome_id o' \<and>
       terminal_of (last (attempts_of L (to_sprint_id t))) (oc_outcome o')
         = Some (to_terminal_state t, to_terminal_reason t))"

lemma new_terminals_explained:
  "t \<in> set (new_terminals a o') \<Longrightarrow> to_sprint_id t = fa_sprint_id a \<and>
    to_source_attempt_id t = fa_attempt_id a \<and> to_source_outcome_id t = oc_outcome_id o' \<and>
    terminal_of a (oc_outcome o') = Some (to_terminal_state t, to_terminal_reason t)"
  by (auto simp: new_terminals_def split: option.splits)

lemma ended_keeps_attempts:
  assumes "ledger_step x L L'" "sprint_ended L i"
  shows "attempts_of L' i = attempts_of L i"
  using attempts_of_step [OF assms(1), of i] assms(2) by (auto simp: admissible_def Let_def)

lemma end_invariant:
  assumes "ledger_reachable x L"
  shows "\<forall>t\<in>set (vl_terminals L). end_explained L t"
  using assms
proof (induction)
  case empty
  then show ?case by (simp add: empty_ledger_def)
next
  case (step L L')
  note G = step_grows [OF step.hyps(2)]
  have old: "end_explained L' t" if "t \<in> set (vl_terminals L)" for t
  proof -
    have "sprint_ended L (to_sprint_id t)" using that by (auto simp: sprint_ended_def)
    note keep = ended_keeps_attempts [OF step.hyps(2) this]
    from step.IH that have "end_explained L t" by blast
    then show ?thesis
      unfolding end_explained_def keep using growsD(2) [OF G] by blast
  qed
  from step.hyps(2) show ?case
  proof (cases rule: ledger_step_forms)
    case (close c o' w)
    let ?a = "ar_authority w"
    have w: "attempt_with L (cc_attempt_id c) = Some w" "outcome_of L (cc_attempt_id c) = None"
      and o': "oc_attempt_id o' = cc_attempt_id c"
      using close(1) by (auto simp: closes_def)
    have id: "fa_attempt_id ?a = cc_attempt_id c" using attempt_with_id [OF w(1)] by simp
    note mem = attempt_of_chain [OF w(1)]
    have last: "?a = last (attempts_of L (fa_sprint_id ?a))"
      using open_attempt_last [OF step.hyps(1) mem] id w(2) by simp
    have same: "attempts_of L' j = attempts_of L j" for j
      using close(2) by (simp add: attempts_of_def)
    have "outcome_of L' (fa_attempt_id ?a) = Some o'"
      using close(2) w(2) o' id by (simp add: outcome_of_def find_append)
    then have "end_explained L' t" if "t \<in> set (new_terminals ?a o')" for t
      using new_terminals_explained [OF that] mem last same
      by (auto simp: end_explained_def)
    with old close(2) show ?thesis by auto
  qed (use old in auto)
qed

end
