(* ===== verification/Ledger_Repairs.thy ===== *)
theory Ledger_Repairs
  imports Ledger_Invariants
begin

text \<open>
  The rows behind repairs in reachable ledgers, and the properties of the verifier ledger as a
  whole.
\<close>

section \<open>Rows behind attempts, activations and completions\<close>

definition attempt_grounded :: "ledger_codec \<Rightarrow> verifier_ledger \<Rightarrow> attempt_row \<Rightarrow> bool" where
  "attempt_grounded x L w \<longleftrightarrow>
     (let a = ar_authority w; d = rq_task_done_set (ar_request w) in
      map_of (vl_done_sets L) (fa_complete_task_done_set_digest a) = Some d \<and>
      ds_snapshot_digest d = fa_input_snapshot a \<and>
      (\<exists>row. sprint_of L (fa_sprint_id a) = Some row \<and>
        fa_max_final_verification_attempts a
          = b2_max_final_verification_attempts (s2_budget (sw_spec row)) \<and>
        validate_done_set (lx_sha x) (lx_v2 x) d (sw_spec row) (sw_graph row) = Inr ()))"

definition activation_grounded :: "verifier_ledger \<Rightarrow> repair_activation \<Rightarrow> bool" where
  "activation_grounded L a \<longleftrightarrow>
     (\<exists>w c row t. attempt_with L (rn_failed_attempt_id a) = Some w \<and>
       fa_sprint_id (ar_authority w) = rn_sprint_id a \<and>
       rn_slot_ordinal a = fa_attempt_ordinal (ar_authority w) \<and>
       fa_attempt_ordinal (ar_authority w) < fa_max_final_verification_attempts (ar_authority w) \<and>
       outcome_of L (rn_failed_attempt_id a) = Some c \<and>
       is_known_after_effect_failure (oc_outcome c) \<and>
       sprint_of L (rn_sprint_id a) = Some row \<and> t \<in> set (g2_tasks (sw_graph row)) \<and>
       t2_task_id t = rn_repair_task_id a \<and>
       t2_purpose t = FinalVerificationRepairSlot (rn_slot_ordinal a))"

definition completion_grounded :: "verifier_ledger \<Rightarrow> repair_completion \<Rightarrow> bool" where
  "completion_grounded L c \<longleftrightarrow>
     (\<exists>a w old new m. a \<in> set (vl_activations L) \<and> rn_sprint_id a = rp_sprint_id c \<and>
       rn_failed_attempt_id a = rp_failed_attempt_id c \<and>
       attempt_with L (rp_failed_attempt_id c) = Some w \<and>
       map_of (vl_done_sets L) (fa_complete_task_done_set_digest (ar_authority w)) = Some old \<and>
       map_of (vl_done_sets L) (rp_complete_task_done_set_digest c) = Some new \<and>
       ds_members new = ds_members old @ [m] \<and> dn_task_id m = rn_repair_task_id a \<and>
       dn_input_snapshot m = ds_snapshot_digest old \<and>
       ds_snapshot_digest new = rp_result_snapshot c)"

definition ledger_grounded :: "ledger_codec \<Rightarrow> verifier_ledger \<Rightarrow> bool" where
  "ledger_grounded x L \<longleftrightarrow> (\<forall>w\<in>set (vl_attempts L). attempt_grounded x L w) \<and>
     (\<forall>a\<in>set (vl_activations L). activation_grounded L a) \<and>
     (\<forall>r\<in>set (vl_completions L). completion_grounded L (cr_completion r)) \<and>
     (\<forall>w\<in>set (vl_sprints L). validate_pair (lx_sha x) (lx_v2 x) (sw_graph w) (sw_spec w) = Inr ())"

lemma attempt_grounded_grows:
  assumes G: "grows L L'" and "attempt_grounded x L w"
  shows "attempt_grounded x L' w"
  using assms(2) growsD(1) [OF G] growsD(6) [OF G] unfolding attempt_grounded_def Let_def by blast

lemma activation_grounded_grows:
  assumes G: "grows L L'" and "activation_grounded L a"
  shows "activation_grounded L' a"
proof -
  from assms(2) obtain w c row t where a: "attempt_with L (rn_failed_attempt_id a) = Some w"
    "outcome_of L (rn_failed_attempt_id a) = Some c" "sprint_of L (rn_sprint_id a) = Some row"
    and "fa_sprint_id (ar_authority w) = rn_sprint_id a"
    "rn_slot_ordinal a = fa_attempt_ordinal (ar_authority w)"
    "fa_attempt_ordinal (ar_authority w) < fa_max_final_verification_attempts (ar_authority w)"
    "is_known_after_effect_failure (oc_outcome c)" "t \<in> set (g2_tasks (sw_graph row))"
    "t2_task_id t = rn_repair_task_id a"
    "t2_purpose t = FinalVerificationRepairSlot (rn_slot_ordinal a)"
    unfolding activation_grounded_def by blast
  with growsD(4) [OF G a(1)] growsD(2) [OF G a(2)] growsD(1) [OF G a(3)] show ?thesis
    unfolding activation_grounded_def by blast
qed

lemma completion_grounded_grows:
  assumes G: "grows L L'" and "completion_grounded L c"
  shows "completion_grounded L' c"
proof -
  from assms(2) obtain a w old new m where c: "a \<in> set (vl_activations L)"
    "attempt_with L (rp_failed_attempt_id c) = Some w"
    "map_of (vl_done_sets L) (fa_complete_task_done_set_digest (ar_authority w)) = Some old"
    "map_of (vl_done_sets L) (rp_complete_task_done_set_digest c) = Some new"
    and "rn_sprint_id a = rp_sprint_id c" "rn_failed_attempt_id a = rp_failed_attempt_id c"
    "ds_members new = ds_members old @ [m]" "dn_task_id m = rn_repair_task_id a"
    "dn_input_snapshot m = ds_snapshot_digest old" "ds_snapshot_digest new = rp_result_snapshot c"
    unfolding completion_grounded_def by blast
  with growsD(7) [OF G c(1)] growsD(4) [OF G c(2)] growsD(6) [OF G c(3)] growsD(6) [OF G c(4)]
  show ?thesis unfolding completion_grounded_def by blast
qed

lemma admissible_grounded:
  assumes "admissible x L (vl_done_sets L') row" "sprint_of L' = sprint_of L"
  shows "attempt_grounded x L' row"
  using assms by (auto simp: admissible_def attempt_grounded_def Let_def)

lemma completes_grounded:
  assumes "completes L (vl_done_sets L') c" and G: "grows L L'"
  shows "completion_grounded L' c"
proof -
  from assms(1) obtain a w old new m where c: "a \<in> set (vl_activations L)" "rn_sprint_id a = rp_sprint_id c"
    "rn_failed_attempt_id a = rp_failed_attempt_id c"
    "attempt_with L (rp_failed_attempt_id c) = Some w"
    "map_of (vl_done_sets L) (fa_complete_task_done_set_digest (ar_authority w)) = Some old"
    "map_of (vl_done_sets L') (rp_complete_task_done_set_digest c) = Some new"
    "ds_members new = ds_members old @ [m]" "dn_task_id m = rn_repair_task_id a"
    "dn_input_snapshot m = ds_snapshot_digest old" "ds_snapshot_digest new = rp_result_snapshot c"
    unfolding completes_def by blast
  show ?thesis
    unfolding completion_grounded_def
    using c growsD(7) [OF G c(1)] growsD(4) [OF G c(4)] growsD(6) [OF G c(5)] by blast
qed

lemma grounded_invariant:
  assumes "ledger_reachable x L"
  shows "ledger_grounded x L"
  using assms
proof (induction)
  case empty
  then show ?case by (simp add: empty_ledger_def ledger_grounded_def)
next
  case (step L L')
  note G = step_grows [OF step.hyps(2)]
  have old: "w \<in> set (vl_attempts L) \<Longrightarrow> attempt_grounded x L' w"
    "a \<in> set (vl_activations L) \<Longrightarrow> activation_grounded L' a"
    "r \<in> set (vl_completions L) \<Longrightarrow> completion_grounded L' (cr_completion r)"
    "v \<in> set (vl_sprints L) \<Longrightarrow> validate_pair (lx_sha x) (lx_v2 x) (sw_graph v) (sw_spec v) = Inr ()"
    for w a r v
    using step.IH attempt_grounded_grows [OF G] activation_grounded_grows [OF G]
      completion_grounded_grows [OF G]
    unfolding ledger_grounded_def by blast+
  from step.hyps(2) show ?case
  proof (cases rule: ledger_step_forms)
    case (attempt ds es row)
    have "sprint_of L' = sprint_of L" by (rule ext) (simp add: attempt(1) sprint_of_def)
    moreover have "vl_done_sets L' = vl_done_sets L @ ds" by (simp add: attempt(1))
    ultimately have "attempt_grounded x L' row" using admissible_grounded attempt(2) by metis
    with old show ?thesis unfolding ledger_grounded_def by (auto simp: attempt(1))
  next
    case (activation a)
    then have "activation_grounded L a" by (auto simp: activates_def activation_grounded_def)
    with old show ?thesis
      using activation_grounded_grows [OF G] unfolding ledger_grounded_def by (auto simp: activation(1))
  next
    case (completion ds es row)
    have "vl_done_sets L' = vl_done_sets L @ ds" by (simp add: completion(1))
    with completes_grounded [OF _ G] completion(2) have "completion_grounded L' (cr_completion row)"
      by metis
    with old show ?thesis unfolding ledger_grounded_def by (auto simp: completion(1))
  qed (use old in \<open>auto simp: ledger_grounded_def\<close>)
qed

lemma attempt_row_of:
  assumes "ledger_reachable x L" "a \<in> set (attempts_of L i)"
  obtains w where "attempt_with L (fa_attempt_id a) = Some w" "ar_authority w = a"
    "attempt_grounded x L w" "fa_sprint_id a = i"
proof -
  from assms(2) obtain w where w: "w \<in> set (vl_attempts L)" "ar_authority w = a" "fa_sprint_id a = i"
    by (auto simp: attempts_of_def)
  moreover have "attempt_grounded x L w"
    using grounded_invariant [OF assms(1)] w(1) by (simp add: ledger_grounded_def)
  moreover have "attempt_with L (fa_attempt_id a) = Some w"
    using attempt_with_iff [OF ids_invariant(1) [OF assms(1)]] w by blast
  ultimately show thesis using that by blast
qed

section \<open>Chains of attempts\<close>

text \<open>
  C7. The ledger implements chains of attempts. Whatever transactions run, the attempts stored for
  a sprint are a chain of accepted successors from an initial one, there are at most as many as
  the sprint's cap, which is at most three, and no two attempts share an identity.
\<close>

theorem ledger_attempts_form_chains:
  assumes "ledger_reachable x L"
  shows "attempt_chain (attempts_of L i) \<and> distinct (attempt_ids L) \<and> length (attempts_of L i) \<le> 3 \<and>
    (\<forall>a\<in>set (attempts_of L i). \<exists>row. sprint_of L i = Some row \<and>
      fa_max_final_verification_attempts a = b2_max_final_verification_attempts (s2_budget (sw_spec row)) \<and>
      length (attempts_of L i) \<le> unat (b2_max_final_verification_attempts (s2_budget (sw_spec row))))"
proof -
  note chain = chain_invariant [OF assms, of i]
  have row: "\<exists>row. sprint_of L i = Some row \<and>
      fa_max_final_verification_attempts a = b2_max_final_verification_attempts (s2_budget (sw_spec row)) \<and>
      length (attempts_of L i) \<le> unat (b2_max_final_verification_attempts (s2_budget (sw_spec row)))"
    if a: "a \<in> set (attempts_of L i)" for a
  proof -
    from attempt_row_of [OF assms a] obtain w where "ar_authority w = a" "attempt_grounded x L w"
      "fa_sprint_id a = i" by blast
    then show ?thesis
      using attempt_chain_bounded(3) [OF chain a] by (auto simp: attempt_grounded_def Let_def)
  qed
  have "length (attempts_of L i) \<le> 3"
  proof (cases "attempts_of L i")
    case (Cons a as)
    then have "a \<in> set (attempts_of L i)" by simp
    from attempt_chain_bounded(2,3) [OF chain this] validate_final_attemptD(3)
    show ?thesis using le_trans by blast
  qed simp
  with chain ids_invariant(1) [OF assms] row show ?thesis by blast
qed

text \<open>
  C1. No attempt is repeated without a reason. Every stored attempt after the first follows a
  closed attempt: either nothing had run before a failure or an authenticated interruption, or a
  known failure was repaired and the new attempt tests the repaired snapshot with the sets of that
  repair. An open attempt is therefore the last one.
\<close>

theorem successors_are_earned:
  assumes "ledger_reachable x L"
  shows "successively (earned L) (attempts_of L i) \<and>
    (\<forall>a\<in>set (attempts_of L i). outcome_of L (fa_attempt_id a) = None \<longrightarrow> a = last (attempts_of L i))"
  using earned_invariant [OF assms] open_attempt_last [OF assms] by blast

section \<open>Outcomes\<close>

lemma classify_verified_iff:
  "classify_current_capture control_of c = outcome_kind.Verified \<longleftrightarrow>
    cc_termination c = verifier_termination.Exited 0 \<and> published (cc_output_custody c) \<and>
    cleanup_complete c"
  by (cases "cc_termination c"; cases "cc_output_custody c")
    (simp_all add: classify_current_capture_def classify_by_custody_def Let_def)

text \<open>
  C12. Verified means verified. Every outcome in a reachable ledger is the only one of its attempt
  and is what the stored capture of that attempt classifies as, under all controls recorded since;
  it is \<open>Verified\<close> exactly when the process exited with zero, its clean output was published and
  both cleanups were proven.
\<close>

theorem stored_outcomes_are_derived:
  assumes "ledger_reachable x L"
  shows "\<forall>o'\<in>set (vl_outcomes L). outcome_of L (oc_attempt_id o') = Some o' \<and>
    (\<exists>c. capture_of L (oc_attempt_id o') = Some c \<and> oc_closure_id o' = cc_closure_id c \<and>
      oc_outcome o' = classify_current_capture (find_control (vl_controls L)) c \<and>
      (oc_outcome o' = outcome_kind.Verified \<longleftrightarrow>
        cc_termination c = verifier_termination.Exited 0 \<and> published (cc_output_custody c) \<and>
        cleanup_complete c))"
proof
  fix o' assume "o' \<in> set (vl_outcomes L)"
  with outcome_invariant [OF assms] have "outcome_derived L o'" "outcome_of L (oc_attempt_id o') = Some o'"
    by blast+
  then show "outcome_of L (oc_attempt_id o') = Some o' \<and>
    (\<exists>c. capture_of L (oc_attempt_id o') = Some c \<and> oc_closure_id o' = cc_closure_id c \<and>
      oc_outcome o' = classify_current_capture (find_control (vl_controls L)) c \<and>
      (oc_outcome o' = outcome_kind.Verified \<longleftrightarrow>
        cc_termination c = verifier_termination.Exited 0 \<and> published (cc_output_custody c) \<and>
        cleanup_complete c))"
    using classify_verified_iff unfolding outcome_derived_def by metis
qed

section \<open>Ended sprints\<close>

text \<open>The rows of one sprint in the tables of the verifier.\<close>

definition sprint_view ::
  "verifier_ledger \<Rightarrow> string \<Rightarrow> final_attempt_authority list \<times> control list \<times> capture_closure list \<times>
   outcome list \<times> repair_activation list \<times> repair_completion list" where
  "sprint_view L i = (attempts_of L i, filter (\<lambda>c. cl_sprint_id c = i) (vl_controls L),
     filter (\<lambda>c. cc_sprint_id c = i) (vl_captures L),
     filter (\<lambda>c. oc_sprint_id c = i) (vl_outcomes L),
     filter (\<lambda>a. rn_sprint_id a = i) (vl_activations L),
     filter (\<lambda>c. rp_sprint_id c = i) (map cr_completion (vl_completions L)))"

lemma ended_step:
  assumes "ledger_step x L L'" "sprint_ended L i"
  shows "sprint_view L' i = sprint_view L i \<and> sprint_ended L' i"
proof -
  note keep = ended_keeps_attempts [OF assms]
  from assms(1) show ?thesis
  proof (cases rule: ledger_step_forms)
    case (close c o' w)
    then show ?thesis using assms(2) keep by (auto simp: sprint_view_def sprint_ended_def closes_def)
  next
    case (completion ds es row)
    then show ?thesis
      using assms(2) keep by (auto simp: sprint_view_def sprint_ended_def completes_def)
  qed (use assms(2) keep in \<open>auto simp: sprint_view_def sprint_ended_def activates_def\<close>)
qed

lemma no_permit_after_end:
  assumes "load_current_repair_activation_permit x i L = Inr p"
  shows "\<not> sprint_ended L (rn_sprint_id (pt_activation p)) \<and> activation_is_live L (pt_activation p) \<and>
    pt_activation p \<in> set (vl_activations L)"
proof -
  from assms obtain a s g where a: "load_repair_activation L i = Inr a" "activation_is_live L a"
    "permit_from_persisted (lx_sha x) (lx_v2 x) a s g = Inr p"
    by (auto simp: load_current_repair_activation_permit_def bind_ok_Inr)
  then have "pt_activation p = a" by (auto simp: permit_from_persisted_def bind_ok_Inr Let_def)
  with a show ?thesis
    by (auto simp: activation_is_live_def sprint_ended_def list_ex_iff load_repair_activation_def
        dest: find_SomeD)
qed

text \<open>
  C13. The end of a sprint is final. After a terminal marker no transaction adds an attempt, a
  control, a capture, an outcome, an activation or a completion to that sprint, the marker stays,
  and no repair permit for it is ever issued again.
\<close>

theorem ended_sprint_is_frozen:
  assumes "rtranclp (ledger_step x) L L'" and "sprint_ended L i"
  shows "sprint_view L' i = sprint_view L i \<and> sprint_ended L' i \<and>
    (\<forall>k p. load_current_repair_activation_permit x k L' = Inr p \<longrightarrow>
      rn_sprint_id (pt_activation p) \<noteq> i)"
proof -
  from assms have "sprint_view L' i = sprint_view L i \<and> sprint_ended L' i"
    by (induction rule: rtranclp_induct) (use ended_step in auto)
  then show ?thesis using no_permit_after_end by blast
qed

text \<open>
  C15. Every end has its cause in the last attempt of the sprint: an authenticated cancellation, an
  ambiguous outcome, or an unsuccessful outcome of the attempt that used up the cap. A verified
  attempt never ends a sprint as failed.
\<close>

theorem ends_have_causes:
  assumes "ledger_reachable x L"
  shows "\<forall>t\<in>set (vl_terminals L). \<exists>a o'. a \<in> set (attempts_of L (to_sprint_id t)) \<and>
    a = last (attempts_of L (to_sprint_id t)) \<and> fa_attempt_id a = to_source_attempt_id t \<and>
    outcome_of L (fa_attempt_id a) = Some o' \<and> oc_outcome o' \<noteq> outcome_kind.Verified \<and>
    (to_terminal_reason t = ExplicitCancel \<longleftrightarrow> (\<exists>i. oc_outcome o' = outcome_kind.Canceled i)) \<and>
    (to_terminal_reason t = AmbiguousFinalVerification \<longleftrightarrow> oc_outcome o' = outcome_kind.Unknown) \<and>
    (to_terminal_reason t = FinalVerificationAttemptsExhausted \<longrightarrow>
      length (attempts_of L (to_sprint_id t)) = unat (fa_max_final_verification_attempts a))"
proof
  fix t assume "t \<in> set (vl_terminals L)"
  let ?as = "attempts_of L (to_sprint_id t)"
  from end_invariant [OF assms] \<open>t \<in> set (vl_terminals L)\<close> obtain o' where ne: "?as \<noteq> []"
    and o': "outcome_of L (fa_attempt_id (last ?as)) = Some o'"
      "to_source_attempt_id t = fa_attempt_id (last ?as)"
      "terminal_of (last ?as) (oc_outcome o') = Some (to_terminal_state t, to_terminal_reason t)"
    by (auto simp: end_explained_def)
  have mem: "last ?as \<in> set ?as" using ne by simp
  note len = chain_last_ordinal [OF chain_invariant [OF assms] ne]
  have cause: "oc_outcome o' \<noteq> outcome_kind.Verified"
    "to_terminal_reason t = ExplicitCancel \<longleftrightarrow> (\<exists>i. oc_outcome o' = outcome_kind.Canceled i)"
    "to_terminal_reason t = AmbiguousFinalVerification \<longleftrightarrow> oc_outcome o' = outcome_kind.Unknown"
    "to_terminal_reason t = FinalVerificationAttemptsExhausted \<longrightarrow>
      fa_attempt_ordinal (last ?as) = fa_max_final_verification_attempts (last ?as)"
    using o'(3) by (auto simp: terminal_of_def split: outcome_kind.splits if_splits)
  show "\<exists>a o'. a \<in> set ?as \<and> a = last ?as \<and> fa_attempt_id a = to_source_attempt_id t \<and>
    outcome_of L (fa_attempt_id a) = Some o' \<and> oc_outcome o' \<noteq> outcome_kind.Verified \<and>
    (to_terminal_reason t = ExplicitCancel \<longleftrightarrow> (\<exists>i. oc_outcome o' = outcome_kind.Canceled i)) \<and>
    (to_terminal_reason t = AmbiguousFinalVerification \<longleftrightarrow> oc_outcome o' = outcome_kind.Unknown) \<and>
    (to_terminal_reason t = FinalVerificationAttemptsExhausted \<longrightarrow>
      length ?as = unat (fa_max_final_verification_attempts a))"
    using mem o' cause len by (intro exI [of _ "last ?as"] exI [of _ o'] conjI) auto
qed

section \<open>Repairs\<close>

definition done_set_of :: "verifier_ledger \<Rightarrow> final_attempt_authority \<Rightarrow> task_done_set option" where
  "done_set_of L a = map_of (vl_done_sets L) (fa_complete_task_done_set_digest a)"

text \<open>Attempt \<open>b\<close> tests what attempt \<open>a\<close> tested, plus the one repair that \<open>a\<close> made necessary.\<close>

definition history_extends ::
  "verifier_ledger \<Rightarrow> task_graph_v2 \<Rightarrow> final_attempt_authority \<Rightarrow> final_attempt_authority \<Rightarrow> bool" where
  "history_extends L g a b \<longleftrightarrow> (\<exists>da db. done_set_of L a = Some da \<and> done_set_of L b = Some db \<and>
     (if is_ChangedSnapshotAfterRepair (fa_predecessor b)
      then \<exists>m t. ds_members db = ds_members da @ [m] \<and> dn_input_snapshot m = fa_input_snapshot a \<and>
        ds_snapshot_digest db = fa_input_snapshot b \<and> t \<in> set (g2_tasks g) \<and>
        t2_task_id t = dn_task_id m \<and> t2_purpose t = FinalVerificationRepairSlot (fa_attempt_ordinal a)
      else db = da))"

lemma attempts_follow_succ: "attempts_follow a as \<Longrightarrow> successively (\<lambda>a b. validate_successor_of b a = Inr ()) (a # as)"
  by (induction as arbitrary: a) auto

lemma chain_succ: "attempt_chain as \<Longrightarrow> successively (\<lambda>a b. validate_successor_of b a = Inr ()) as"
  by (cases as) (auto dest: attempts_follow_succ)

lemma same_snapshot_same_set:
  assumes "validate_successor_of b a = Inr ()" "\<not> is_ChangedSnapshotAfterRepair (fa_predecessor b)"
  shows "fa_complete_task_done_set_digest b = fa_complete_task_done_set_digest a"
  using assms by (cases "fa_predecessor b") (auto simp: validate_successor_of_def validate_same_snapshot_def)

lemma earned_repair:
  assumes R: "ledger_reachable x L" and a: "a \<in> set (attempts_of L i)" and b: "b \<in> set (attempts_of L i)"
    and e: "earned L a b" and changed: "is_ChangedSnapshotAfterRepair (fa_predecessor b)"
    and row: "sprint_of L i = Some row"
  shows "history_extends L (sw_graph row) a b"
proof -
  from attempt_row_of [OF R a] obtain w where w: "attempt_with L (fa_attempt_id a) = Some w"
    "ar_authority w = a" "attempt_grounded x L w" "fa_sprint_id a = i" by blast
  from attempt_row_of [OF R b] obtain v where v: "ar_authority v = b" "attempt_grounded x L v" by blast
  from e changed obtain k where k: "repair_completion_for_failed_attempt L (fa_attempt_id a) = Some k"
    "rp_complete_task_done_set_digest k = fa_complete_task_done_set_digest b"
    by (auto simp: earned_def)
  then have failed: "rp_failed_attempt_id k = fa_attempt_id a" and "k \<in> set (map cr_completion (vl_completions L))"
    by (auto simp: repair_completion_for_failed_attempt_def dest!: find_SomeD)
  then have "completion_grounded L k"
    using grounded_invariant [OF R] by (auto simp: ledger_grounded_def)
  then obtain act w' old new m where act: "act \<in> set (vl_activations L)"
      "rn_failed_attempt_id act = fa_attempt_id a"
    and w': "attempt_with L (fa_attempt_id a) = Some w'"
    and sets: "map_of (vl_done_sets L) (fa_complete_task_done_set_digest (ar_authority w')) = Some old"
      "map_of (vl_done_sets L) (fa_complete_task_done_set_digest b) = Some new"
    and m: "ds_members new = ds_members old @ [m]" "dn_task_id m = rn_repair_task_id act"
      "dn_input_snapshot m = ds_snapshot_digest old"
    unfolding completion_grounded_def k(2) failed by auto
  have "activation_grounded L act" using grounded_invariant [OF R] act(1) by (simp add: ledger_grounded_def)
  then obtain t where t: "t \<in> set (g2_tasks (sw_graph row))" "t2_task_id t = rn_repair_task_id act"
    "t2_purpose t = FinalVerificationRepairSlot (fa_attempt_ordinal a)"
    using act(2) w(1,2,4) row by (auto simp: activation_grounded_def)
  have "done_set_of L a = Some old" "done_set_of L b = Some new"
    using sets w' w(1,2) by (simp_all add: done_set_of_def)
  moreover have "ds_snapshot_digest old = fa_input_snapshot a" "ds_snapshot_digest new = fa_input_snapshot b"
    using w(2,3) v sets w' w(1) by (auto simp: attempt_grounded_def Let_def)
  ultimately show ?thesis
    unfolding history_extends_def using changed m t by auto
qed

text \<open>
  C3. A repair adds one task and nothing else. Between two consecutive attempts of a sprint the
  task-done set either stays the same, or it grows by exactly one member at its end: the repair
  slot whose ordinal is the ordinal of the failed attempt, integrated on the snapshot that failed,
  with the snapshot tested next as its result.
\<close>

theorem repairs_extend_history:
  assumes "ledger_reachable x L" and "sprint_of L i = Some row"
  shows "successively (history_extends L (sw_graph row)) (attempts_of L i)"
proof -
  let ?both = "\<lambda>a b. earned L a b \<and> validate_successor_of b a = Inr ()"
  have both: "successively ?both (attempts_of L i)"
    using earned_invariant [OF assms(1), of i] chain_succ [OF chain_invariant [OF assms(1), of i]]
    by (induction "attempts_of L i" rule: induct_list012) (auto simp: successively_conv_nth)
  have "history_extends L (sw_graph row) a b"
    if ab: "?both a b" and mem: "a \<in> set (attempts_of L i)" "b \<in> set (attempts_of L i)" for a b
  proof (cases "is_ChangedSnapshotAfterRepair (fa_predecessor b)")
    case True
    then show ?thesis using earned_repair [OF assms(1) mem _ True assms(2)] ab by blast
  next
    case False
    from attempt_row_of [OF assms(1) mem(1)] obtain w where "ar_authority w = a" "attempt_grounded x L w"
      by blast
    then have "\<exists>d. done_set_of L a = Some d"
      by (auto simp: attempt_grounded_def Let_def done_set_of_def)
    then show ?thesis
      using same_snapshot_same_set [of b a] ab False by (auto simp: history_extends_def done_set_of_def)
  qed
  then show ?thesis using successively_mono [OF both] by blast
qed

text \<open>
  C14. A repair permit in a reachable ledger is for work that is due now: its activation names the
  last attempt of a sprint that has not ended, that attempt failed in a known way with another
  attempt left, and the slot has the number of attempts made so far.
\<close>

theorem permits_repair_the_latest_failure:
  assumes "ledger_reachable x L" and "load_current_repair_activation_permit x k L = Inr p"
  shows "\<exists>a o'. attempts_of L (rn_sprint_id (pt_activation p)) \<noteq> [] \<and>
    a = last (attempts_of L (rn_sprint_id (pt_activation p))) \<and>
    fa_attempt_id a = rn_failed_attempt_id (pt_activation p) \<and>
    outcome_of L (fa_attempt_id a) = Some o' \<and> is_known_after_effect_failure (oc_outcome o') \<and>
    unat (rn_slot_ordinal (pt_activation p)) = length (attempts_of L (rn_sprint_id (pt_activation p))) \<and>
    length (attempts_of L (rn_sprint_id (pt_activation p))) < unat (fa_max_final_verification_attempts a) \<and>
    \<not> sprint_ended L (rn_sprint_id (pt_activation p))"
proof -
  let ?act = "pt_activation p"
  let ?as = "attempts_of L (rn_sprint_id ?act)"
  note live = no_permit_after_end [OF assms(2)]
  have "activation_grounded L ?act"
    using grounded_invariant [OF assms(1)] live by (simp add: ledger_grounded_def)
  then obtain w o' where w: "attempt_with L (rn_failed_attempt_id ?act) = Some w"
    "fa_sprint_id (ar_authority w) = rn_sprint_id ?act"
    "rn_slot_ordinal ?act = fa_attempt_ordinal (ar_authority w)"
    "fa_attempt_ordinal (ar_authority w) < fa_max_final_verification_attempts (ar_authority w)"
    and o': "outcome_of L (rn_failed_attempt_id ?act) = Some o'"
      "is_known_after_effect_failure (oc_outcome o')"
    unfolding activation_grounded_def by blast
  let ?a = "ar_authority w"
  note row = attempt_with_id [OF w(1)] and chain = chain_invariant [OF assms(1)]
  have mem: "?a \<in> set ?as" using attempt_of_chain [OF w(1)] w(2) by simp
  then have ne: "?as \<noteq> []" by auto
  have "fa_attempt_ordinal b \<le> fa_attempt_ordinal ?a" if "b \<in> set ?as" for b
  proof -
    from that obtain v where "v \<in> set (vl_attempts L)" "ar_authority v = b"
      "fa_sprint_id b = rn_sprint_id ?act" by (auto simp: attempts_of_def)
    with live row show ?thesis by (auto simp: activation_is_live_def list_ex_iff not_less)
  qed
  then have "fa_attempt_ordinal (last ?as) = fa_attempt_ordinal ?a"
    using chain_last_max [OF chain mem] ne by (simp add: antisym)
  then have last: "?a = last ?as" using chain_ordinal_inject [OF chain mem] ne by simp
  have "unat (fa_attempt_ordinal ?a) = length ?as" using chain_last_ordinal [OF chain ne] last by simp
  moreover have "unat (fa_attempt_ordinal ?a) < unat (fa_max_final_verification_attempts ?a)"
    using w(4) by (simp add: word_less_nat_alt)
  ultimately show ?thesis
    using ne last row w(3) o' live by (intro exI [of _ ?a] exI [of _ o'] conjI) auto
qed

end
