(* ===== verification/Example_Ledger.thy ===== *)
theory Example_Ledger
  imports Example_V2 Ledger_Repairs
begin

text \<open>
  One run of the verifier ledger on the V2 pair of the example before: the sprint is created, its
  required task is done, the first attempt exits with status one, the first repair slot is
  activated and completed, the second attempt tests the repaired snapshot and ends ambiguously.
  The ledgers of this run are the concrete inputs of the witnesses on the ledger. Two attempts
  need two digests, so the hash function of this run looks at the last byte of its input.
\<close>

definition mark_sha :: "string \<Rightarrow> string" where
  "mark_sha m = replicate 32 (if m \<noteq> [] \<and> last m = CHR ''2'' then CHR 0x22 else CHR 0x00)"

definition zeros :: string where
  "zeros = replicate 64 (CHR ''0'')"

definition twos :: string where
  "twos = replicate 64 (CHR ''2'')"

lemma zeros_twos [simp]:
  "zeros \<noteq> twos" "twos \<noteq> zeros" "zeros \<noteq> []" "twos \<noteq> []" "\<not> blank zeros" "\<not> blank twos"
  "last zeros = CHR ''0''" "last twos = CHR ''2''" "length zeros = 64" "length twos = 64"
proof -
  show "\<not> blank zeros" "\<not> blank twos" by code_simp+
qed (simp_all add: zeros_def twos_def)

lemma ex_digest_eq [simp]:
  "ex_digest c = ex_digest d \<longleftrightarrow> c = d" "ex_digest c = v2_digest \<longleftrightarrow> c = CHR ''0''"
  "v2_digest = ex_digest c \<longleftrightarrow> c = CHR ''0''"
  "digest_str v2_digest = zeros" "digest_str (ex_digest (CHR ''2'')) = twos"
  unfolding ex_digest_def v2_digest_def zeros_def twos_def digest.inject digest.sel
    replicate_eq_replicate by auto

lemma mark_digest: "digest_sha256 mark_sha m =
    (if m \<noteq> [] \<and> last m = CHR ''2'' then ex_digest (CHR ''2'') else v2_digest)"
proof -
  have "concat (map hex_byte (replicate 32 (CHR 0x00))) = replicate 64 (CHR ''0'')"
    "concat (map hex_byte (replicate 32 (CHR 0x22))) = replicate 64 (CHR ''2'')"
    by code_simp+
  then show ?thesis by (simp add: digest_sha256_def mark_sha_def ex_digest_def v2_digest_def)
qed

lemma mark_domain [simp]: "b \<noteq> [] \<Longrightarrow> domain_digest mark_sha d b =
    (if last b = CHR ''2'' then ex_digest (CHR ''2'') else v2_digest)"
  by (simp add: domain_digest_def mark_digest)

lemma mark_mint [simp]: "b \<noteq> [] \<Longrightarrow>
    mint_identity mark_sha d b = (if last b = CHR ''2'' then twos else zeros)"
  by (simp add: mint_identity_def)

lemma mark_pair: "validate_pair mark_sha v2_codec v2_graph v2_sprint = Inr ()"
proof -
  have "sprint_v2_digest mark_sha (ve_sprint v2_codec) v2_sprint = Inr v2_digest"
    by (simp add: sprint_v2_digest_def sprint_v2_bytes_def v2_sprint_valid encode_canonical_def)
  then have "validate_pair_digests mark_sha v2_codec v2_graph v2_sprint = Inr ()"
    by (simp add: validate_pair_digests_def computed_repair_slot_reserve_digest_def
        payload_digest_def digest_canonical_def encode_canonical_def
        v2_graph_def [THEN arg_cong [of _ _ g2_repair_slot_reserve_digest]]
        v2_graph_def [THEN arg_cong [of _ _ g2_sprint_spec_digest]]
        v2_sprint_def [THEN arg_cong [of _ _ s2_repair_slot_reserve_digest]]
        v2_sprint_def [THEN arg_cong [of _ _ s2_task_graph_payload_digest]])
  with v2_shape v2_coverage v2_slots show ?thesis by (simp add: validate_pair_def)
qed

definition lg_codec :: ledger_codec where
  "lg_codec = \<lparr>lx_sha = mark_sha, lx_v2 = v2_codec, lx_task = (\<lambda>_. Inr ''task''),
     lx_source_body = (\<lambda>b. Inr (if sr_task_id b = ''ready'' then ''source-1'' else ''source-2'')),
     lx_done_set = (\<lambda>d. Inr (if length (ds_members d) = 1 then ''done-1'' else ''done-2'')),
     lx_evidence_set = (\<lambda>e. Inr (if cv_snapshot_digest e = ex_digest (CHR ''b'')
       then ''evidence-1'' else ''evidence-2'')),
     lx_request = (\<lambda>r. Inr (rq_request_id r)), lx_attempt = (\<lambda>_. Inr ''attempt''),
     lx_control_identity = (\<lambda>_. Inr ''control''), lx_control = (\<lambda>_. Inr ''control''),
     lx_capture = (\<lambda>c. Inr (cc_closure_id c)), lx_outcome = (\<lambda>_. Inr ''outcome''),
     lx_activation_identity = (\<lambda>_. Inr ''activation''), lx_activation = (\<lambda>_. Inr ''activation''),
     lx_completion_request = (\<lambda>_. Inr ''request''), lx_completion_identity = (\<lambda>_. Inr ''identity''),
     lx_completion = (\<lambda>_. Inr ''completion'')\<rparr>"

lemma lg_codec_simps [simp]:
  "lx_sha lg_codec = mark_sha" "lx_v2 lg_codec = v2_codec" "lx_task lg_codec t = Inr ''task''"
  "lx_source_body lg_codec b
     = Inr (if sr_task_id b = ''ready'' then ''source-1'' else ''source-2'')"
  "lx_done_set lg_codec d = Inr (if length (ds_members d) = 1 then ''done-1'' else ''done-2'')"
  "lx_evidence_set lg_codec e = Inr (if cv_snapshot_digest e = ex_digest (CHR ''b'')
     then ''evidence-1'' else ''evidence-2'')"
  "lx_request lg_codec r = Inr (rq_request_id r)" "lx_attempt lg_codec a = Inr ''attempt''"
  "lx_capture lg_codec c = Inr (cc_closure_id c)" "lx_outcome lg_codec o' = Inr ''outcome''"
  "lx_activation_identity lg_codec ai = Inr ''activation''"
  "lx_activation lg_codec act = Inr ''activation''"
  "lx_completion_request lg_codec k = Inr ''request''"
  "lx_completion_identity lg_codec ci = Inr ''identity''"
  "lx_completion lg_codec m = Inr ''completion''"
  by (simp_all add: lg_codec_def)

lemma run_checks [simp]:
  "\<not> blank v \<Longrightarrow> require_nonblank f v = Inr ()" "require_version f 1 = Inr ()"
  "at \<noteq> 0 \<Longrightarrow> require_nonzero_timestamp f at = Inr ()"
  by (simp_all add: CONTRACT_VERSION_def)

section \<open>Task-done sources and complete sets\<close>

definition lg_source :: "string \<Rightarrow> char \<Rightarrow> char \<Rightarrow> string \<Rightarrow> u64 \<Rightarrow> done_source" where
  "lg_source task inp res proof at = \<lparr>sr_source_version = 1, sr_sprint_id = ''sprint-1'',
     sr_task_id = task, sr_durable_integrated_state_event_id = ''integrated-'' @ task,
     sr_winning_attempt_id = ''attempt-'' @ task, sr_winning_attempt_ordinal = 1,
     sr_winning_lease_id = ''lease-'' @ task, sr_winning_lease_epoch = 7,
     sr_integration = integration_source.Changed (''receipt-'' @ task) (''change-'' @ task) 1,
     sr_input_snapshot = ex_digest inp, sr_result_snapshot = ex_digest res,
     sr_assigned_automated_checks = [],
     sr_attempt_closures = [\<lparr>ax_attempt_id = ''attempt-'' @ task, ax_attempt_ordinal = 1,
       ax_lease_id = ''lease-'' @ task, ax_lease_epoch = 7,
       ax_disposition_id = ''disposition-'' @ task, ax_disposition = done_disposition.Integrated,
       ax_terminal_effect_closure_set_id = ''effects-'' @ task,
       ax_output_capture_closure_set_id = ''outputs-'' @ task,
       ax_runner_cleanup_closure_set_id = ''runners-'' @ task,
       ax_command_domain_cleanup_closure_set_id = ''domains-'' @ task,
       ax_lease_release_id = ''release-'' @ task\<rparr>],
     sr_zero_active_leases_proof_id = ''leases-'' @ task, sr_active_lease_count = 0,
     sr_zero_replay_dispatch_authority_proof_id = ''dispatch-'' @ task,
     sr_replay_dispatch_authority_count = 0, sr_derived_at_unix_ms = at,
     sr_task_done_proof_id = ''current-task-done:'' @ proof\<rparr>"

abbreviation "source_1 \<equiv> lg_source ''ready'' (CHR ''a'') (CHR ''b'') zeros 1000"
abbreviation "source_2 \<equiv> lg_source ''repair-1'' (CHR ''b'') (CHR ''c'') twos 2300"

lemmas printable_text [simp] = graphic_not_blank [unfolded byte_def]

lemma source_closure:
  assumes "length task < 4000"
  shows "closure_checks (lg_source task inp res proof at) 0 []
    (sr_attempt_closures (lg_source task inp res proof at)) = Inr 1"
  using assms by (simp add: lg_source_def closure_texts_def u32_index_def)

lemma source_valid:
  assumes "length task < 4000" "\<not> blank task" "inp \<noteq> res" "at \<noteq> 0"
    "length proof = 64" "proof = (if task = ''ready'' then zeros else twos)"
  shows "validate_done_source mark_sha (lx_source_body lg_codec)
    (lg_source task inp res proof at) = Inr ()"
proof -
  let ?r = "lg_source task inp res proof at"
  have "expected_proof_id mark_sha (lx_source_body lg_codec) ?r = Inr (sr_task_done_proof_id ?r)"
    using assms(6) by (simp add: expected_proof_id_def unframed_digest_def mark_digest lg_source_def
        done_source_body.truncate_def)
  with assms source_closure [OF assms(1), of inp res "proof" at] show ?thesis
    by (simp add: validate_done_source_def) (simp add: lg_source_def MAX_ATTEMPT_CLOSURES_def)
qed

definition lg_member :: "u32 \<Rightarrow> string \<Rightarrow> char \<Rightarrow> char \<Rightarrow> string \<Rightarrow> task_done_member" where
  "lg_member ordinal task inp res proof = \<lparr>dn_source_ordinal = ordinal, dn_task_id = task,
     dn_task_done_proof_id = ''current-task-done:'' @ proof,
     dn_integration_receipt_id = ''receipt-'' @ task,
     dn_integration_evidence = Evidence_Sets.Changed,
     dn_input_snapshot = ex_digest inp, dn_result_snapshot = ex_digest res\<rparr>"

abbreviation "member_1 \<equiv> lg_member 0 ''ready'' (CHR ''a'') (CHR ''b'') zeros"
abbreviation "member_2 \<equiv> lg_member 1 ''repair-1'' (CHR ''b'') (CHR ''c'') twos"

definition lg_done :: "char \<Rightarrow> task_done_member list \<Rightarrow> u64 \<Rightarrow> task_done_set" where
  "lg_done snapshot members at = \<lparr>ds_set_version = 1, ds_sprint_id = ''sprint-1'',
     ds_snapshot_digest = ex_digest snapshot, ds_members = members,
     ds_recorded_at_unix_ms = at\<rparr>"

abbreviation "done_1 \<equiv> lg_done (CHR ''b'') [member_1] 1100"
abbreviation "done_2 \<equiv> lg_done (CHR ''c'') [member_1, member_2] 2400"

definition lg_evidence :: "string \<Rightarrow> char \<Rightarrow> u64 \<Rightarrow> criterion_evidence_set" where
  "lg_evidence receipt snapshot at = \<lparr>cv_set_version = 1, cv_sprint_id = ''sprint-1'',
     cv_snapshot_digest = ex_digest snapshot,
     cv_members = [\<lparr>cm_criterion_ordinal = 0, cm_criterion_id = ''criterion-1'',
       cm_evidence_receipt_id = receipt, cm_evidence_kind = AcceptedByYou,
       cm_snapshot_digest = ex_digest snapshot\<rparr>],
     cv_recorded_at_unix_ms = at\<rparr>"

abbreviation "evidence_1 \<equiv> lg_evidence ''accepted-1'' (CHR ''b'') 1200"
abbreviation "evidence_2 \<equiv> lg_evidence ''accepted-2'' (CHR ''c'') 2500"

definition lg_receipt :: "string \<Rightarrow> char \<Rightarrow> u64 \<Rightarrow> receipt_row" where
  "lg_receipt receipt snapshot at = \<lparr>rr_receipt_id = receipt, rr_sprint_id = ''sprint-1'',
     rr_criterion_id = ''criterion-1'', rr_snapshot_digest = ex_digest snapshot,
     rr_evidence_kind = AcceptedByYou, rr_recorded_at = at\<rparr>"

lemma v2_fields [simp]:
  "s2_sprint_id v2_sprint = ''sprint-1''" "s2_base_snapshot v2_sprint = ex_digest (CHR ''a'')"
  "s2_task_graph_id v2_sprint = ''graph-1''"
  "g2_tasks v2_graph = [v2_ready, v2_repair_1, v2_repair_2]"
  "t2_task_id (v2_task i p ds q) = i" "t2_purpose (v2_task i p ds q) = p"
  "t2_required (v2_task i p ds q) = q" "t2_acceptance_checks (v2_task i p ds q) = [''criterion-1'']"
  "b2_max_final_verification_attempts (s2_budget v2_sprint) = 3"
  "map ac_criterion_id (s2_acceptance_criteria v2_sprint) = [''criterion-1'']"
  by (simp_all add: v2_sprint_def v2_graph_def v2_task_def ex_sprint_def author_v01_def
      PRODUCT_DEFAULT_MAX_FINAL_VERIFICATION_ATTEMPTS_V01_def)

lemma v2_graph_tasks [simp]:
  "graph_tasks v2_graph ''ready'' = Some v2_ready"
  "graph_tasks v2_graph ''repair-1'' = Some v2_repair_1"
  by (simp_all add: graph_tasks_def)

lemma lg_done_valid:
  "validate_done_set mark_sha v2_codec done_1 v2_sprint v2_graph = Inr ()"
  "validate_done_set mark_sha v2_codec done_2 v2_sprint v2_graph = Inr ()"
  by (simp_all add: validate_done_set_def mark_pair lg_done_def lg_member_def CONTRACT_VERSION_def
      validate_done_member_def u32_index_def ordinals_to_def cong del: bind_ok_cong)

lemma lg_done_digest:
  "done_set_digest mark_sha (lx_done_set lg_codec) done_1 = Inr v2_digest"
  "done_set_digest mark_sha (lx_done_set lg_codec) done_2 = Inr (ex_digest (CHR ''2''))"
  by (simp_all add: done_set_digest_def done_set_bytes_def validate_done_set_intrinsic_def
      encode_canonical_def lg_done_def lg_member_def validate_done_member_def u32_index_def
      CONTRACT_VERSION_def cong del: bind_ok_cong)

lemma lg_evidence_valid:
  "validate_evidence_set evidence_1 v2_sprint = Inr ()"
  "validate_evidence_set evidence_2 v2_sprint = Inr ()"
  unfolding validate_evidence_set_def
  by (simp_all add: v2_sprint_valid validate_evidence_set_intrinsic_def lg_evidence_def
      u32_index_def CONTRACT_VERSION_def cong del: bind_ok_cong)
    (simp_all add: v2_sprint_def ex_sprint_def u32_index_def expected_evidence_kind_def
      cong del: bind_ok_cong)

lemma lg_evidence_digest:
  "evidence_set_digest mark_sha (lx_evidence_set lg_codec) evidence_1 = Inr v2_digest"
  "evidence_set_digest mark_sha (lx_evidence_set lg_codec) evidence_2 = Inr (ex_digest (CHR ''2''))"
  by (simp_all add: evidence_set_digest_def evidence_set_bytes_def validate_evidence_set_intrinsic_def
      encode_canonical_def lg_evidence_def u32_index_def CONTRACT_VERSION_def
      cong del: bind_ok_cong)

section \<open>The first attempt\<close>

definition lg_row :: sprint_row where
  "lg_row = \<lparr>sw_spec = v2_sprint, sw_graph = v2_graph, sw_created_at_unix_ms = 900\<rparr>"

definition ledger_1 :: verifier_ledger where
  "ledger_1 = empty_ledger\<lparr>vl_sprints := [lg_row]\<rparr>"

definition ledger_2 :: verifier_ledger where
  "ledger_2 = ledger_1\<lparr>vl_done_sources := [source_1, source_2],
     vl_receipts := [lg_receipt ''accepted-1'' (CHR ''b'') 1150,
       lg_receipt ''accepted-2'' (CHR ''c'') 2450]\<rparr>"

definition lg_request :: "string \<Rightarrow> task_done_set \<Rightarrow> criterion_evidence_set \<Rightarrow> u64 \<Rightarrow> admission_request" where
  "lg_request i d e at = \<lparr>rq_request_id = i, rq_sprint_id = ''sprint-1'',
     rq_task_done_set = d, rq_criterion_evidence_set = e,
     rq_final_verification_check = \<lparr>cs_program = ''cargo'', cs_arguments = [''test''],
       cs_working_directory = []\<rparr>,
     rq_execution_policy_digest = v2_digest, rq_coordinator_instance_id = ''coordinator-1'',
     rq_admitted_at_unix_ms = at\<rparr>"

abbreviation "request_1 \<equiv> lg_request ''request-1'' done_1 evidence_1 1300"
abbreviation "request_2 \<equiv> lg_request ''request-2'' done_2 evidence_2 3000"

abbreviation "authority_1 \<equiv>
  derived_attempt lg_codec request_1 v2_digest v2_sprint 1 v2_digest v2_digest Initial"

definition attempt_1 :: attempt_row where
  "attempt_1 = \<lparr>ar_request = request_1, ar_request_digest = v2_digest,
     ar_request_bytes = ''request-1'', ar_authority = authority_1\<rparr>"

definition ledger_3 :: verifier_ledger where
  "ledger_3 = ledger_2\<lparr>vl_done_sets := [(v2_digest, done_1)],
     vl_evidence_sets := [(v2_digest, evidence_1)], vl_attempts := [attempt_1]\<rparr>"

lemmas ledger_defs = empty_ledger_def ledger_1_def ledger_2_def ledger_3_def

lemma lg_row_fields [simp]:
  "sw_spec lg_row = v2_sprint" "sw_graph lg_row = v2_graph" "sw_created_at_unix_ms lg_row = 900"
  by (simp_all add: lg_row_def)

lemma step_1: "ledger_step lg_codec empty_ledger ledger_1"
proof (rule create)
  have "sprint_v2_digest mark_sha (ve_sprint v2_codec) v2_sprint = Inr v2_digest"
    by (simp add: sprint_v2_digest_def sprint_v2_bytes_def v2_sprint_valid encode_canonical_def)
  moreover have "graph_v2_digest mark_sha v2_codec v2_graph v2_sprint = Inr v2_digest"
    by (simp add: graph_v2_digest_def graph_v2_bytes_def mark_pair encode_canonical_def)
  ultimately show "create_current_sprint_authority lg_codec v2_sprint v2_graph 900 empty_ledger
      = Inr (lg_row, ledger_1)"
    by (simp add: create_current_sprint_authority_def mark_pair require_writable_def sqlite_integer_def
        unique_keys_def sprint_of_def ledger_defs lg_row_def encode_ledger_def Let_def cong del: bind_ok_cong)
qed

lemma step_2: "ledger_step lg_codec ledger_1 ledger_2"
proof -
  have "ledger_2 = ledger_1\<lparr>vl_done_sources := vl_done_sources ledger_1 @ [source_1, source_2],
     vl_receipts := vl_receipts ledger_1 @ [lg_receipt ''accepted-1'' (CHR ''b'') 1150,
       lg_receipt ''accepted-2'' (CHR ''c'') 2450],
     vl_legacy_sprints := vl_legacy_sprints ledger_1 @ []\<rparr>"
    by (simp add: ledger_defs)
  then show ?thesis using ledger_step.sources by metis
qed

lemma lg_sprint [simp]:
  "sprint_of (L\<lparr>vl_done_sets := ds\<rparr>) i = sprint_of L i"
  "sprint_of ledger_2 ''sprint-1'' = Some lg_row"
  by (simp_all add: sprint_of_def ledger_defs)

lemma lg_load_source:
  assumes "vl_done_sources L = [source_1, source_2]" "vl_sprints L = [lg_row]"
  shows "load_done_source lg_codec L (''current-task-done:'' @ zeros) = Inr source_1"
    "load_done_source lg_codec L (''current-task-done:'' @ twos) = Inr source_2"
proof -
  have v: "validate_done_source mark_sha (lx_source_body lg_codec) source_1 = Inr ()"
    "validate_done_source mark_sha (lx_source_body lg_codec) source_2 = Inr ()"
    by (rule source_valid; simp)+
  have a: "assigned_criteria v2_sprint v2_ready = []" "assigned_criteria v2_sprint v2_repair_1 = []"
    by (simp_all add: assigned_criteria_def v2_sprint_def ex_sprint_def)
  have "sr_task_done_proof_id source_1 = ''current-task-done:'' @ zeros"
    "sr_task_done_proof_id source_2 = ''current-task-done:'' @ twos"
    "sr_sprint_id source_1 = ''sprint-1''" "sr_sprint_id source_2 = ''sprint-1''"
    "sr_task_id source_1 = ''ready''" "sr_task_id source_2 = ''repair-1''"
    "sr_assigned_automated_checks source_1 = []" "sr_assigned_automated_checks source_2 = []"
    by (simp_all add: lg_source_def)
  with v a assms show "load_done_source lg_codec L (''current-task-done:'' @ zeros) = Inr source_1"
    "load_done_source lg_codec L (''current-task-done:'' @ twos) = Inr source_2"
    by (simp_all add: load_done_source_def sprint_of_def graph_task_v2_def
        validate_source_for_task_def cong del: bind_ok_cong)
qed

lemma lg_backs:
  "source_backs_member done_1 member_1 source_1" "source_backs_member done_2 member_1 source_1"
  "source_backs_member done_2 member_2 source_2"
  by (simp_all add: source_backs_member_def same_integration_def lg_done_def lg_member_def lg_source_def)

lemma lg_members:
  "ds_members (lg_done c ms at) = ms" "ds_recorded_at_unix_ms (lg_done c ms at) = at"
  "ds_snapshot_digest (lg_done c ms at) = ex_digest c" "ds_sprint_id (lg_done c ms at) = ''sprint-1''"
  "dn_task_done_proof_id (lg_member n t i r p) = ''current-task-done:'' @ p"
  "dn_task_id (lg_member n t i r p) = t" "dn_input_snapshot (lg_member n t i r p) = ex_digest i"
  "dn_result_snapshot (lg_member n t i r p) = ex_digest r"
  "dn_source_ordinal (lg_member n t i r p) = n"
  "dn_integration_receipt_id (lg_member n t i r p) = ''receipt-'' @ t"
  "dn_integration_evidence (lg_member n t i r p) = Evidence_Sets.Changed"
  by (simp_all add: lg_done_def lg_member_def)

lemma lg_load_done:
  assumes "vl_done_sources L = [source_1, source_2]" "vl_sprints L = [lg_row]"
  shows "map_of (vl_done_sets L) k = None \<Longrightarrow> load_task_done_set_optional lg_codec L k = Inr None"
    "map_of (vl_done_sets L) k = Some done_1 \<Longrightarrow>
      load_task_done_set_optional lg_codec L k = Inr (Some done_1)"
    "map_of (vl_done_sets L) k = Some done_2 \<Longrightarrow>
      load_task_done_set_optional lg_codec L k = Inr (Some done_2)"
  using lg_load_source [OF assms] lg_backs
  by (simp_all add: load_task_done_set_optional_def lg_members del: append.simps cong del: bind_ok_cong)

lemma lg_persist_done:
  assumes "vl_done_sources L = [source_1, source_2]" "vl_sprints L = [lg_row]"
  shows "vl_done_sets L = [] \<Longrightarrow> persist_task_done_set lg_codec L v2_sprint v2_graph done_1
      = Inr (v2_digest, L\<lparr>vl_done_sets := [(v2_digest, done_1)]\<rparr>)"
    "vl_done_sets L = [(v2_digest, done_1)] \<Longrightarrow>
      persist_task_done_set lg_codec L v2_sprint v2_graph done_2
      = Inr (ex_digest (CHR ''2''), L\<lparr>vl_done_sets :=
          [(v2_digest, done_1), (ex_digest (CHR ''2''), done_2)]\<rparr>)"
    "vl_done_sets L = [(v2_digest, done_1), (ex_digest (CHR ''2''), done_2)] \<Longrightarrow>
      persist_task_done_set lg_codec L v2_sprint v2_graph done_2 = Inr (ex_digest (CHR ''2''), L)"
  using assms
  by (simp_all add: persist_task_done_set_def lg_done_valid lg_done_digest lg_load_done lg_members
      sqlite_integer_def Let_def cong del: bind_ok_cong)

lemma lg_load_evidence:
  assumes "vl_receipts L = [lg_receipt ''accepted-1'' (CHR ''b'') 1150,
     lg_receipt ''accepted-2'' (CHR ''c'') 2450]"
  shows "map_of (vl_evidence_sets L) k = None \<Longrightarrow>
      load_criterion_evidence_set_optional L k = Inr None"
    "map_of (vl_evidence_sets L) k = Some evidence_1 \<Longrightarrow>
      load_criterion_evidence_set_optional L k = Inr (Some evidence_1)"
    "map_of (vl_evidence_sets L) k = Some evidence_2 \<Longrightarrow>
      load_criterion_evidence_set_optional L k = Inr (Some evidence_2)"
  using assms
  by (simp_all add: load_criterion_evidence_set_optional_def lg_evidence_def lg_receipt_def
      receipt_backs_member_def cong del: bind_ok_cong)

lemma lg_persist_evidence:
  assumes "vl_receipts L = [lg_receipt ''accepted-1'' (CHR ''b'') 1150,
     lg_receipt ''accepted-2'' (CHR ''c'') 2450]"
  shows "vl_evidence_sets L = [] \<Longrightarrow> persist_criterion_evidence_set lg_codec L v2_sprint evidence_1
      = Inr (v2_digest, L\<lparr>vl_evidence_sets := [(v2_digest, evidence_1)]\<rparr>)"
    "vl_evidence_sets L = [(v2_digest, evidence_1)] \<Longrightarrow>
      persist_criterion_evidence_set lg_codec L v2_sprint evidence_2
      = Inr (ex_digest (CHR ''2''), L\<lparr>vl_evidence_sets :=
          [(v2_digest, evidence_1), (ex_digest (CHR ''2''), evidence_2)]\<rparr>)"
    "vl_evidence_sets L = [(v2_digest, evidence_1), (ex_digest (CHR ''2''), evidence_2)] \<Longrightarrow>
      persist_criterion_evidence_set lg_codec L v2_sprint evidence_2
      = Inr (ex_digest (CHR ''2''), L)"
proof -
  have "length (cv_members evidence_1) = 1" "length (cv_members evidence_2) = 1"
    "cv_recorded_at_unix_ms evidence_1 = 1200" "cv_recorded_at_unix_ms evidence_2 = 2500"
    by (simp_all add: lg_evidence_def)
  with assms show "vl_evidence_sets L = [] \<Longrightarrow>
      persist_criterion_evidence_set lg_codec L v2_sprint evidence_1
      = Inr (v2_digest, L\<lparr>vl_evidence_sets := [(v2_digest, evidence_1)]\<rparr>)"
    "vl_evidence_sets L = [(v2_digest, evidence_1)] \<Longrightarrow>
      persist_criterion_evidence_set lg_codec L v2_sprint evidence_2
      = Inr (ex_digest (CHR ''2''), L\<lparr>vl_evidence_sets :=
          [(v2_digest, evidence_1), (ex_digest (CHR ''2''), evidence_2)]\<rparr>)"
    "vl_evidence_sets L = [(v2_digest, evidence_1), (ex_digest (CHR ''2''), evidence_2)] \<Longrightarrow>
      persist_criterion_evidence_set lg_codec L v2_sprint evidence_2
      = Inr (ex_digest (CHR ''2''), L)"
    by (simp_all add: persist_criterion_evidence_set_def lg_evidence_valid lg_evidence_digest
        lg_load_evidence sqlite_integer_def Let_def cong del: bind_ok_cong)
qed

lemma lg_request_fields [simp]:
  "rq_request_id (lg_request i d e at) = i" "rq_sprint_id (lg_request i d e at) = ''sprint-1''"
  "rq_task_done_set (lg_request i d e at) = d" "rq_criterion_evidence_set (lg_request i d e at) = e"
  "rq_admitted_at_unix_ms (lg_request i d e at) = at"
  by (simp_all add: lg_request_def)

lemma lg_request_intrinsic:
  "validate_request_intrinsic request_1 = Inr ()" "validate_request_intrinsic request_2 = Inr ()"
proof -
  have "validate_done_set_intrinsic done_1 = Inr ()" "validate_done_set_intrinsic done_2 = Inr ()"
    "validate_evidence_set_intrinsic evidence_1 = Inr ()"
    "validate_evidence_set_intrinsic evidence_2 = Inr ()"
    using lg_done_digest lg_evidence_digest
    by (simp_all add: done_set_digest_def done_set_bytes_def evidence_set_digest_def
        evidence_set_bytes_def bind_ok_Inr)
  then show "validate_request_intrinsic request_1 = Inr ()"
    "validate_request_intrinsic request_2 = Inr ()"
    by (simp_all add: validate_request_intrinsic_def)
      (simp_all add: lg_request_def lg_done_def lg_evidence_def validate_command_spec_def)
qed

lemma lg_request_checks:
  "validate_request mark_sha v2_codec request_1 v2_sprint v2_graph = Inr ()"
  "validate_request mark_sha v2_codec request_2 v2_sprint v2_graph = Inr ()"
  "request_bytes (lx_request lg_codec) request_1 = Inr ''request-1''"
  "request_bytes (lx_request lg_codec) request_2 = Inr ''request-2''"
  by (simp_all add: validate_request_def request_bytes_def encode_canonical_def
      lg_request_intrinsic lg_done_valid lg_evidence_valid)

lemma derived_fields [simp]:
  "fa_sprint_id (derived_attempt x r rd s n td cd p) = rq_sprint_id r"
  "fa_attempt_id (derived_attempt x r rd s n td cd p)
     = mint_identity (lx_sha x) ATTEMPT_ID_DOMAIN (digest_str rd)"
  "fa_attempt_ordinal (derived_attempt x r rd s n td cd p) = n"
  "fa_predecessor (derived_attempt x r rd s n td cd p) = p"
  "fa_complete_task_done_set_digest (derived_attempt x r rd s n td cd p) = td"
  "fa_complete_criterion_evidence_set_digest (derived_attempt x r rd s n td cd p) = cd"
  "fa_input_snapshot (derived_attempt x r rd s n td cd p) = ds_snapshot_digest (rq_task_done_set r)"
  "fa_max_final_verification_attempts (derived_attempt x r rd s n td cd p)
     = b2_max_final_verification_attempts (s2_budget s)"
  "fp_admitted_at_unix_ms (fa_provenance (derived_attempt x r rd s n td cd p))
     = rq_admitted_at_unix_ms r"
  "fa_final_verification_admission_id (derived_attempt x r rd s n td cd p)
     = mint_identity (lx_sha x) ADMISSION_ID_DOMAIN (digest_str rd)"
  by (simp_all add: derived_attempt_def)

abbreviation "authority_2 \<equiv> derived_attempt lg_codec request_2 (ex_digest (CHR ''2'')) v2_sprint 2
  (ex_digest (CHR ''2'')) (ex_digest (CHR ''2''))
  (ChangedSnapshotAfterRepair zeros zeros (''current-task-done:'' @ twos) ''receipt-repair-1'')"

lemma lg_authority_valid:
  "validate_final_attempt authority_1 = Inr ()" "validate_final_attempt authority_2 = Inr ()"
  by (simp_all add: validate_final_attempt_def derived_attempt_def lg_request_def
      validate_command_spec_def validate_provenance_def MIN_FINAL_VERIFICATION_ATTEMPTS_def
      MAX_FINAL_VERIFICATION_ATTEMPTS_def)

lemma lg_authority_checks:
  assumes "validate_final_attempt a = Inr ()" "fa_sprint_id a = ''sprint-1''"
    "fa_max_final_verification_attempts a = 3"
  shows "validate_final_attempt_for mark_sha v2_codec a v2_sprint v2_graph (expected_inputs a) = Inr ()"
    "final_attempt_digest mark_sha (lx_attempt lg_codec) a = Inr v2_digest"
  using assms
  by (simp_all add: validate_final_attempt_for_def mark_pair expected_inputs_def final_attempt_digest_def
      final_attempt_bytes_def encode_canonical_def)

lemma step_3: "ledger_step lg_codec ledger_2 ledger_3"
proof (rule admit)
  have "load_latest_current_attempt L ''sprint-1'' = None" if "vl_attempts L = []" for L
    using that by (simp add: load_latest_current_attempt_def)
  moreover have "sprint_of ledger_2 ''sprint-1'' = Some lg_row" by simp
  moreover have "consumes_repair_slot v2_graph done_1 = False"
    by (simp add: consumes_repair_slot_def lg_members is_repair_slot_def)
  ultimately show "admit_current_final_verification_attempt lg_codec request_1 ledger_2
      = Inr (persisted ledger_3 attempt_1, ledger_3)"
    using lg_authority_checks [OF lg_authority_valid(1)]
    by (simp add: admit_current_final_verification_attempt_def require_writable_def
        load_current_sprint_authority_def lg_request_checks admit_in_transaction_def admit_fresh_def
        ensure_no_current_terminal_def lg_persist_done lg_persist_evidence ledger_defs attempt_1_def insert_attempt_def
        derive_attempt_predecessor_def unique_keys_def sqlite_integer_def Let_def
        cong del: bind_ok_cong)
qed

section \<open>A failure and its repair\<close>

definition lg_capture :: "string \<Rightarrow> string \<Rightarrow> verifier_termination \<Rightarrow> u64 \<Rightarrow> capture_closure" where
  "lg_capture i attempt t at = \<lparr>cc_closure_version = 1, cc_closure_id = i,
     cc_sprint_id = ''sprint-1'', cc_attempt_id = attempt, cc_termination = t,
     cc_output_custody = PublishedClean ''output'', cc_runner_cleanup_proof_id = Some ''runner'',
     cc_command_domain_cleanup_proof_id = Some ''domain'', cc_terminal_at_unix_ms = at\<rparr>"

abbreviation "capture_1 \<equiv> lg_capture ''closure-1'' zeros (verifier_termination.Exited 1) 1500"
abbreviation "capture_2 \<equiv> lg_capture ''closure-2'' twos (verifier_termination.Unknown v2_digest) 3200"

definition lg_outcome :: "string \<Rightarrow> string \<Rightarrow> string \<Rightarrow> outcome_kind \<Rightarrow> u64 \<Rightarrow> outcome" where
  "lg_outcome i attempt closure k at = \<lparr>oc_outcome_version = 1, oc_outcome_id = i,
     oc_sprint_id = ''sprint-1'', oc_attempt_id = attempt, oc_closure_id = closure,
     oc_outcome = k, oc_terminal_at_unix_ms = at\<rparr>"

abbreviation "outcome_1 \<equiv> lg_outcome zeros zeros ''closure-1'' (NonzeroExit 1) 1500"
abbreviation "outcome_2 \<equiv> lg_outcome twos twos ''closure-2'' outcome_kind.Unknown 3200"

definition ledger_4 :: verifier_ledger where
  "ledger_4 = ledger_3\<lparr>vl_captures := [capture_1], vl_outcomes := [outcome_1]\<rparr>"

definition lg_activation :: repair_activation where
  "lg_activation = \<lparr>rn_activation_version = 1, rn_activation_id = zeros,
     rn_sprint_id = ''sprint-1'', rn_failed_attempt_id = zeros, rn_failure_outcome_id = zeros,
     rn_failed_snapshot = ex_digest (CHR ''b''), rn_slot_ordinal = 1,
     rn_repair_task_id = ''repair-1'', rn_activated_at_unix_ms = 1700\<rparr>"

definition ledger_5 :: verifier_ledger where
  "ledger_5 = ledger_4\<lparr>vl_activations := [lg_activation]\<rparr>"

lemma attempt_1_fields [simp]:
  "ar_authority attempt_1 = authority_1" "ar_request attempt_1 = request_1"
  by (simp_all add: attempt_1_def)

lemmas run_defs = ledger_defs require_writable_def ensure_no_current_terminal_def load_current_attempt_def
  persisted_def outcome_of_def sqlite_integer_def unique_keys_def encode_ledger_def Let_def

lemma lg_close:
  "classify_current_capture (find_control []) capture_1 = NonzeroExit 1"
  "classify_current_capture (find_control []) capture_2 = outcome_kind.Unknown"
  "trigger_accepts [] capture_1 (NonzeroExit 1)" "trigger_accepts [] capture_2 outcome_kind.Unknown"
  by (simp_all add: classify_current_capture_def classify_by_custody_def cleanup_complete_def
      trigger_accepts_def proofs_present_def nameable_def sensitive_termination_def lg_capture_def Let_def)

lemma lg_capture_fields [simp]:
  "cc_attempt_id (lg_capture i n t at) = n" "cc_closure_id (lg_capture i n t at) = i"
  "cc_sprint_id (lg_capture i n t at) = ''sprint-1''"
  "cc_terminal_at_unix_ms (lg_capture i n t at) = at"
  by (simp_all add: lg_capture_def)

lemma lg_outcome_fields [simp]:
  "oc_attempt_id (lg_outcome i n c k at) = n" "oc_outcome_id (lg_outcome i n c k at) = i"
  "oc_outcome (lg_outcome i n c k at) = k" "oc_closure_id (lg_outcome i n c k at) = c"
  "oc_terminal_at_unix_ms (lg_outcome i n c k at) = at"
  by (simp_all add: lg_outcome_def)

lemma lg_derived_outcome:
  "derived_outcome lg_codec capture_1 k ''closure-1'' = lg_outcome zeros zeros ''closure-1'' k 1500"
  "derived_outcome lg_codec capture_2 k ''closure-2'' = lg_outcome twos twos ''closure-2'' k 3200"
  by (simp_all add: derived_outcome_def lg_outcome_def)

lemma lg_outcome_valid:
  "validate_outcome outcome_1 = Inr ()" "validate_outcome outcome_2 = Inr ()"
  "validate_capture capture_1 = Inr ()" "validate_capture capture_2 = Inr ()"
  by (simp_all add: validate_outcome_def lg_outcome_def validate_capture_def lg_capture_def
      validate_custody_def List.map_filter_def)

lemma step_4: "ledger_step lg_codec ledger_3 ledger_4"
proof (rule close)
  show "close_current_final_verification_attempt lg_codec capture_1 ledger_3 = Inr (outcome_1, ledger_4)"
    by (simp add: close_current_final_verification_attempt_def run_defs ledger_4_def lg_outcome_valid
        insert_current_capture_def insert_outcome_def lg_close lg_derived_outcome
        maybe_insert_current_terminal_def terminal_of_def cong del: bind_ok_cong)
qed

lemma step_5: "ledger_step lg_codec ledger_4 ledger_5"
proof (rule activate)
  have "load_latest_current_attempt ledger_4 ''sprint-1'' = Some (persisted ledger_4 attempt_1)"
    by (simp add: load_latest_current_attempt_def ledger_4_def ledger_defs)
  moreover have "\<not> (3::u8) \<le> 1" by code_simp
  ultimately have "repairable ledger_4 zeros 1700 = Inr (authority_1, v2_repair_1)"
    by (simp add: repairable_def ledger_4_def run_defs load_current_sprint_authority_def sprint_of_def
        is_known_after_effect_failure_def cong del: bind_ok_cong)
  moreover have "validate_repair_activation lg_activation = Inr ()"
    by (simp add: validate_repair_activation_def lg_activation_def)
  ultimately show "activate_current_final_verification_repair lg_codec zeros 1700 ledger_4
      = Inr (lg_activation, ledger_5)"
    by (simp add: activate_current_final_verification_repair_def ledger_5_def insert_activation_def
        ledger_4_def run_defs lg_activation_def lg_members cong del: bind_ok_cong)
qed

section \<open>The repair and the second attempt\<close>

definition lg_completion_request :: repair_completion_request where
  "lg_completion_request = \<lparr>rk_request_id = ''completion-1'', rk_activation_id = zeros,
     rk_repair_task_done_proof_id = ''current-task-done:'' @ twos,
     rk_integration_receipt_id = ''receipt-repair-1'', rk_input_snapshot = ex_digest (CHR ''b''),
     rk_result_snapshot = ex_digest (CHR ''c''), rk_change_set_id = ''change-repair-1'',
     rk_operation_count = 1, rk_task_done_set = done_2, rk_criterion_evidence_set = evidence_2,
     rk_completed_at_unix_ms = 2600\<rparr>"

definition lg_completion :: repair_completion where
  "lg_completion = \<lparr>rp_completion_version = 1, rp_completion_id = zeros,
     rp_sprint_id = ''sprint-1'', rp_activation_id = zeros, rp_failed_attempt_id = zeros,
     rp_repair_task_id = ''repair-1'', rp_repair_task_done_proof_id = ''current-task-done:'' @ twos,
     rp_integration_receipt_id = ''receipt-repair-1'', rp_input_snapshot = ex_digest (CHR ''b''),
     rp_result_snapshot = ex_digest (CHR ''c''), rp_change_set_id = ''change-repair-1'',
     rp_operation_count = 1, rp_complete_task_done_set_digest = ex_digest (CHR ''2''),
     rp_complete_criterion_evidence_set_digest = ex_digest (CHR ''2''),
     rp_completed_at_unix_ms = 2600\<rparr>"

definition ledger_6 :: verifier_ledger where
  "ledger_6 = ledger_5\<lparr>vl_done_sets := [(v2_digest, done_1), (ex_digest (CHR ''2''), done_2)],
     vl_evidence_sets := [(v2_digest, evidence_1), (ex_digest (CHR ''2''), evidence_2)],
     vl_completions := [\<lparr>cr_request_id = ''completion-1'', cr_request_digest = v2_digest,
       cr_completion = lg_completion\<rparr>]\<rparr>"

definition attempt_2 :: attempt_row where
  "attempt_2 = \<lparr>ar_request = request_2, ar_request_digest = ex_digest (CHR ''2''),
     ar_request_bytes = ''request-2'', ar_authority = authority_2\<rparr>"

definition ledger_7 :: verifier_ledger where
  "ledger_7 = ledger_6\<lparr>vl_attempts := [attempt_1, attempt_2]\<rparr>"

definition lg_terminal :: terminal_outcome where
  "lg_terminal = \<lparr>to_sprint_id = ''sprint-1'', to_terminal_state = ''Unknown'',
     to_source_attempt_id = twos, to_source_outcome_id = twos,
     to_terminal_reason = AmbiguousFinalVerification, to_terminal_at_unix_ms = 3200\<rparr>"

definition ledger_8 :: verifier_ledger where
  "ledger_8 = ledger_7\<lparr>vl_captures := [capture_1, capture_2],
     vl_outcomes := [outcome_1, outcome_2], vl_terminals := [lg_terminal]\<rparr>"

lemma attempt_2_fields [simp]:
  "ar_authority attempt_2 = authority_2" "ar_request attempt_2 = request_2"
  by (simp_all add: attempt_2_def)

lemma lg_activation_fields [simp]:
  "rn_activation_id lg_activation = zeros" "rn_sprint_id lg_activation = ''sprint-1''"
  "rn_failed_attempt_id lg_activation = zeros" "rn_repair_task_id lg_activation = ''repair-1''"
  "rn_failed_snapshot lg_activation = ex_digest (CHR ''b'')"
  "rn_activated_at_unix_ms lg_activation = 1700"
  by (simp_all add: lg_activation_def)

lemma lg_request_2_fields [simp]:
  "rk_request_id lg_completion_request = ''completion-1''"
  "rk_activation_id lg_completion_request = zeros"
  "rk_repair_task_done_proof_id lg_completion_request = ''current-task-done:'' @ twos"
  "rk_integration_receipt_id lg_completion_request = ''receipt-repair-1''"
  "rk_input_snapshot lg_completion_request = ex_digest (CHR ''b'')"
  "rk_result_snapshot lg_completion_request = ex_digest (CHR ''c'')"
  "rk_change_set_id lg_completion_request = ''change-repair-1''"
  "rk_operation_count lg_completion_request = 1" "rk_task_done_set lg_completion_request = done_2"
  "rk_criterion_evidence_set lg_completion_request = evidence_2"
  "rk_completed_at_unix_ms lg_completion_request = 2600"
  by (simp_all add: lg_completion_request_def)

lemma lg_extension:
  "require_exact_repair_task_done_extension done_1 done_2 lg_activation
     (''current-task-done:'' @ twos) ''receipt-repair-1'' = Inr ()"
  "require_all_criterion_evidence_fresh evidence_1 evidence_2 = Inr ()"
  "\<not> completion_crosses_activation lg_completion_request lg_activation"
proof -
  show "require_exact_repair_task_done_extension done_1 done_2 lg_activation
      (''current-task-done:'' @ twos) ''receipt-repair-1'' = Inr ()"
    by (simp add: require_exact_repair_task_done_extension_def lg_members u32_index_def Let_def
        cong del: bind_ok_cong)
  show "require_all_criterion_evidence_fresh evidence_1 evidence_2 = Inr ()"
    by (simp add: require_all_criterion_evidence_fresh_def lg_evidence_def stale_member_def)
  show "\<not> completion_crosses_activation lg_completion_request lg_activation"
    by (simp add: completion_crosses_activation_def lg_members lg_evidence_def)
qed

lemma lg_repaired:
  "repaired_sets lg_codec lg_completion_request lg_activation ledger_5
     = Inr ((ex_digest (CHR ''2''), ex_digest (CHR ''2'')),
         ledger_5\<lparr>vl_done_sets := [(v2_digest, done_1), (ex_digest (CHR ''2''), done_2)],
           vl_evidence_sets := [(v2_digest, evidence_1), (ex_digest (CHR ''2''), evidence_2)]\<rparr>)"
  by (simp add: repaired_sets_def ledger_5_def ledger_4_def run_defs load_current_sprint_authority_def
      sprint_of_def lg_done_valid lg_evidence_valid lg_load_done lg_load_evidence lg_extension [simplified]
      lg_persist_done lg_persist_evidence cong del: bind_ok_cong)

lemma step_6: "ledger_step lg_codec ledger_5 ledger_6"
proof (rule complete)
  have v: "validate_completion_request lg_completion_request = Inr ()" "validate_completion lg_completion = Inr ()"
    by (simp_all add: validate_completion_request_def validate_completion_def lg_completion_def)
  then have "completion_request_digest mark_sha (lx_completion_request lg_codec) lg_completion_request
      = Inr v2_digest"
    by (simp add: completion_request_digest_def encode_canonical_def)
  moreover have "load_repair_activation ledger_5 zeros = Inr lg_activation"
    "vl_completions ledger_5 = []" "vl_read_only ledger_5 = False" "vl_terminals ledger_5 = []"
    by (simp_all add: load_repair_activation_def ledger_5_def ledger_4_def ledger_defs)
  ultimately show "complete_current_final_verification_repair lg_codec lg_completion_request ledger_5
      = Inr (lg_completion, ledger_6)"
    using v lg_repaired lg_extension(3)
    by (simp add: complete_current_final_verification_repair_def require_writable_def
        ensure_no_current_terminal_def insert_completion_def sqlite_integer_def encode_ledger_def
        unique_keys_def ledger_6_def lg_completion_def Let_def cong del: bind_ok_cong)
qed

lemma lg_latest:
  assumes "vl_attempts L = [attempt_1]"
  shows "load_latest_current_attempt L ''sprint-1'' = Some (persisted L attempt_1)"
  using assms by (simp add: load_latest_current_attempt_def)

lemma lg_successor: "validate_successor_of authority_2 authority_1 = Inr ()"
  using lg_authority_valid
  by (simp add: validate_successor_of_def u8_saturating_succ_def lg_members)
    (simp add: derived_attempt_def lg_request_def)

lemma step_7: "ledger_step lg_codec ledger_6 ledger_7"
proof (rule admit)
  have pre: "derive_attempt_predecessor lg_codec ledger_6 (Some (persisted ledger_6 attempt_1)) done_2
      evidence_2 v2_graph 3000
    = Inr (ChangedSnapshotAfterRepair zeros zeros (''current-task-done:'' @ twos) ''receipt-repair-1'')"
    using lg_done_digest(2) lg_evidence_digest(2)
    by (simp add: derive_attempt_predecessor_def ledger_6_def ledger_5_def ledger_4_def run_defs
        is_known_after_effect_failure_def repair_completion_for_failed_attempt_def lg_completion_def
        lg_members lg_evidence_def [THEN arg_cong [of _ _ cv_snapshot_digest]] cong del: bind_ok_cong)
  have ids: "vl_done_sources ledger_6 = [source_1, source_2]" "vl_sprints ledger_6 = [lg_row]"
    "vl_receipts ledger_6 = [lg_receipt ''accepted-1'' (CHR ''b'') 1150,
       lg_receipt ''accepted-2'' (CHR ''c'') 2450]"
    "vl_done_sets ledger_6 = [(v2_digest, done_1), (ex_digest (CHR ''2''), done_2)]"
    "vl_evidence_sets ledger_6 = [(v2_digest, evidence_1), (ex_digest (CHR ''2''), evidence_2)]"
    "vl_attempts ledger_6 = [attempt_1]" "vl_terminals ledger_6 = []" "vl_read_only ledger_6 = False"
    by (simp_all add: ledger_6_def ledger_5_def ledger_4_def ledger_defs)
  then have "sprint_of ledger_6 ''sprint-1'' = Some lg_row" by (simp add: sprint_of_def)
  moreover have "pa_authority (persisted ledger_6 attempt_1) = authority_1" by (simp add: persisted_def)
  moreover have "\<not> (3::u8) < 2" by code_simp
  ultimately show "admit_current_final_verification_attempt lg_codec request_2 ledger_6
      = Inr (persisted ledger_7 attempt_2, ledger_7)"
    using lg_authority_checks [OF lg_authority_valid(2)] lg_successor pre
    by (simp add: admit_current_final_verification_attempt_def require_writable_def ids lg_latest
        load_current_sprint_authority_def lg_request_checks admit_in_transaction_def admit_fresh_def
        ensure_no_current_terminal_def lg_persist_done lg_persist_evidence ledger_7_def
        attempt_2_def insert_attempt_def u8_saturating_succ_def attempt_keys_def
        unique_keys_def sqlite_integer_def Let_def cong del: bind_ok_cong)
qed

lemmas later_defs = ledger_7_def ledger_6_def ledger_5_def ledger_4_def

lemma step_8: "ledger_step lg_codec ledger_7 ledger_8"
proof (rule close)
  show "close_current_final_verification_attempt lg_codec capture_2 ledger_7 = Inr (outcome_2, ledger_8)"
    by (simp add: close_current_final_verification_attempt_def run_defs ledger_8_def later_defs
        lg_outcome_valid insert_current_capture_def insert_outcome_def lg_close lg_derived_outcome
        maybe_insert_current_terminal_def terminal_of_def lg_terminal_def cong del: bind_ok_cong)
qed

lemma reach_5: "ledger_reachable lg_codec ledger_5"
  by (rule ledger_reachable.step [OF _ step_5] ledger_reachable.step [OF _ step_4]
      ledger_reachable.step [OF _ step_3] ledger_reachable.step [OF _ step_2]
      ledger_reachable.step [OF _ step_1] ledger_reachable.empty)+

lemma reach_8: "ledger_reachable lg_codec ledger_8"
  by (rule ledger_reachable.step [OF _ step_8] ledger_reachable.step [OF _ step_7]
      ledger_reachable.step [OF _ step_6] reach_5)+

section \<open>Witnesses\<close>

lemma lg_reads:
  "attempts_of ledger_8 ''sprint-1'' = [authority_1, authority_2]"
  "attempts_of ledger_5 ''sprint-1'' = [authority_1]"
  "sprint_of ledger_8 ''sprint-1'' = Some lg_row" "vl_outcomes ledger_8 = [outcome_1, outcome_2]"
  "outcome_of ledger_8 zeros = Some outcome_1" "outcome_of ledger_8 twos = Some outcome_2"
  "capture_of ledger_8 zeros = Some capture_1" "capture_of ledger_8 twos = Some capture_2"
  "outcome_of ledger_5 zeros = Some outcome_1" "vl_terminals ledger_8 = [lg_terminal]"
  by (simp_all add: attempts_of_def sprint_of_def outcome_of_def capture_of_def ledger_8_def
      later_defs ledger_defs)

theorem ledger_attempts_form_chains_witness:
  "attempt_chain [authority_1, authority_2] \<and> distinct (attempt_ids ledger_8) \<and>
   length [authority_1, authority_2] \<le> unat (b2_max_final_verification_attempts (s2_budget v2_sprint))"
  using ledger_attempts_form_chains [OF reach_8, of "''sprint-1''"] by (simp add: lg_reads)

theorem successors_are_earned_witness:
  "earned ledger_8 authority_1 authority_2 \<and> outcome_of ledger_8 twos = Some outcome_2"
  using successors_are_earned [OF reach_8, of "''sprint-1''"] by (simp add: lg_reads)

theorem stored_outcomes_are_derived_witness:
  "NonzeroExit 1 = classify_current_capture (find_control (vl_controls ledger_8)) capture_1 \<and>
   outcome_kind.Unknown = classify_current_capture (find_control (vl_controls ledger_8)) capture_2"
  using stored_outcomes_are_derived [OF reach_8] by (simp add: lg_reads)

theorem ends_have_causes_witness:
  "to_terminal_reason lg_terminal = AmbiguousFinalVerification \<and>
   oc_outcome outcome_2 = outcome_kind.Unknown"
proof -
  from ends_have_causes [OF reach_8] obtain a o' where "a = authority_2"
    "outcome_of ledger_8 (fa_attempt_id a) = Some o'"
    "to_terminal_reason lg_terminal = AmbiguousFinalVerification \<longleftrightarrow>
      oc_outcome o' = outcome_kind.Unknown"
    by (auto simp: lg_reads lg_terminal_def)
  then show ?thesis by (simp add: lg_reads lg_terminal_def)
qed

theorem repairs_extend_history_witness: "history_extends ledger_8 v2_graph authority_1 authority_2"
  using repairs_extend_history [OF reach_8 lg_reads(3)] by (simp add: lg_reads)

text \<open>A later legacy sprint does not move the ended one.\<close>

definition ledger_9 :: verifier_ledger where
  "ledger_9 = ledger_8\<lparr>vl_legacy_sprints := [''sprint-0'']\<rparr>"

theorem ended_sprint_is_frozen_witness:
  "sprint_view ledger_9 ''sprint-1'' = sprint_view ledger_8 ''sprint-1'' \<and>
   sprint_ended ledger_9 ''sprint-1''"
proof -
  have "ledger_9 = ledger_8\<lparr>vl_done_sources := vl_done_sources ledger_8 @ [],
      vl_receipts := vl_receipts ledger_8 @ [],
      vl_legacy_sprints := vl_legacy_sprints ledger_8 @ [''sprint-0'']\<rparr>"
    by (simp add: ledger_9_def ledger_8_def later_defs ledger_defs)
  then have "rtranclp (ledger_step lg_codec) ledger_8 ledger_9"
    using ledger_step.sources by (metis r_into_rtranclp)
  moreover have "sprint_ended ledger_8 ''sprint-1''"
    by (simp add: sprint_ended_def lg_reads lg_terminal_def)
  ultimately show ?thesis using ended_sprint_is_frozen by blast
qed

theorem permits_repair_the_latest_failure_witness:
  "fa_attempt_id authority_1 = rn_failed_attempt_id lg_activation \<and>
   unat (rn_slot_ordinal lg_activation) = 1 \<and> is_known_after_effect_failure (NonzeroExit 1)"
proof -
  define p where "p = \<lparr>pt_activation = lg_activation, pt_sprint_spec_digest = v2_digest,
     pt_task_graph_digest = v2_digest, pt_repair_slot_reserve_digest = v2_digest\<rparr>"
  have d: "sprint_v2_digest mark_sha (ve_sprint v2_codec) v2_sprint = Inr v2_digest"
    "graph_v2_digest mark_sha v2_codec v2_graph v2_sprint = Inr v2_digest"
    by (simp_all add: sprint_v2_digest_def sprint_v2_bytes_def v2_sprint_valid encode_canonical_def
        graph_v2_digest_def graph_v2_bytes_def mark_pair)
  have "validate_repair_activation lg_activation = Inr ()" "rn_slot_ordinal lg_activation = 1"
    "g2_repair_slot_reserve_digest v2_graph = v2_digest"
    by (simp_all add: validate_repair_activation_def lg_activation_def v2_graph_def)
  then have "permit_from_persisted mark_sha v2_codec lg_activation v2_sprint v2_graph = Inr p"
    by (simp add: permit_from_persisted_def validate_permit_def mark_pair d v2_lookup p_def Let_def
        cong del: bind_ok_cong)
  then have "load_current_repair_activation_permit lg_codec zeros ledger_5 = Inr p"
    by (simp add: load_current_repair_activation_permit_def load_repair_activation_def
        activation_is_live_def load_current_sprint_authority_def sprint_of_def ledger_5_def ledger_4_def
        ledger_defs cong del: bind_ok_cong)
  from permits_repair_the_latest_failure [OF reach_5 this] show ?thesis
    by (simp add: p_def lg_reads)
qed

theorem done_set_is_a_history_witness:
  "snapshot_path (ex_digest (CHR ''a'')) [(ex_digest (CHR ''a''), ex_digest (CHR ''b'')),
     (ex_digest (CHR ''b''), ex_digest (CHR ''c''))] (ex_digest (CHR ''c'')) \<and>
   required_ordinary_ids v2_graph \<subseteq> {''ready'', ''repair-1''}"
  using done_set_is_a_history [OF lg_done_valid(2)] by (simp add: lg_members)

theorem done_source_has_one_winner_witness:
  "(\<exists>x. filter (\<lambda>x. ax_disposition x = done_disposition.Integrated) (sr_attempt_closures source_1) = [x]) \<and>
   sr_active_lease_count source_1 = 0"
proof -
  have "validate_done_source mark_sha (lx_source_body lg_codec) source_1 = Inr ()"
    by (rule source_valid) simp_all
  moreover have "assigned_criteria v2_sprint v2_ready = []"
    by (simp add: assigned_criteria_def v2_sprint_def ex_sprint_def)
  ultimately have "validate_source_for_task mark_sha (lx_source_body lg_codec) source_1 v2_sprint v2_ready
      = Inr ()"
    by (simp add: validate_source_for_task_def) (simp add: lg_source_def)
  from done_source_has_one_winner [OF this] show ?thesis by blast
qed

text \<open>A cancellation that nobody recorded, after its output had been removed.\<close>

definition lg_unbacked :: capture_closure where
  "lg_unbacked = (lg_capture ''closure-3'' zeros (verifier_termination.Canceled ''control-1'') 1500)
     \<lparr>cc_output_custody := AbandonedSensitive ''removed''\<rparr>"


end
