(* ===== verification/Digest_Order.thy ===== *)
theory Digest_Order
  imports Contracts Btree
begin

text \<open>
  The order of digests and of text-keyed sets: \<open>Digest\<close> derives \<open>Ord\<close> from its one field, so
  digests compare as their hexadecimal text does; and \<open>BTreeSet\<close> is \<open>BTreeMap\<close> to the unit type,
  with the operations on maps and sets that the composition of change sets uses.
\<close>

instantiation digest :: linorder
begin

definition less_eq_digest: "d \<le> e \<longleftrightarrow> digest_str d \<le> digest_str e"

definition less_digest: "d < e \<longleftrightarrow> digest_str d < digest_str e"

instance
  by standard (auto simp: less_eq_digest less_digest digest.expand)

end

section \<open>Maps\<close>

text \<open>\<open>BTreeMap::remove\<close> and \<open>range(k..).next()\<close>.\<close>

definition bt_remove :: "'k::linorder \<Rightarrow> ('k, 'v) btree \<Rightarrow> ('k, 'v) btree" where
  "bt_remove k m = filter (\<lambda>e. fst e \<noteq> k) m"

definition bt_first_from :: "('k::linorder, 'v) btree \<Rightarrow> 'k \<Rightarrow> ('k \<times> 'v) option" where
  "bt_first_from m k = find (\<lambda>e. k \<le> fst e) m"

lemma sorted_wrt_filter_map: "sorted_wrt P (map f m) \<Longrightarrow> sorted_wrt P (map f (filter Q m))"
  by (induction m) auto

lemma wf_bt_remove [intro]: "wf_btree m \<Longrightarrow> wf_btree (bt_remove k m)"
  by (simp add: bt_remove_def wf_btree_def sorted_wrt_filter_map)

lemma bt_get_insert: "wf_btree m \<Longrightarrow> bt_get (bt_insert k v m) j = (if j = k then Some v else bt_get m j)"
  by (simp add: bt_get_def map_of_bt_insert)

lemma bt_get_remove: "bt_get (bt_remove k m) j = (if j = k then None else bt_get m j)"
  unfolding bt_get_def bt_remove_def by (induction m) auto

lemma bt_get_None_iff: "bt_get m k = None \<longleftrightarrow> k \<notin> fst ` set m"
  by (simp add: bt_get_def map_of_eq_None_iff)

lemma bt_get_Some_iff: "wf_btree m \<Longrightarrow> bt_get m k = Some v \<longleftrightarrow> (k, v) \<in> set m"
  by (simp add: bt_get_def map_of_eq_Some_iff wf_btree_distinct)

lemma bt_get_ext:
  assumes "wf_btree m" "wf_btree n" "\<And>k. bt_get m k = bt_get n k"
  shows "m = n"
  using assms by (simp add: bt_eq_iff bt_get_def ext)

text \<open>The first entry at or above \<open>k\<close> is the least such key.\<close>

lemma bt_first_from_None: "bt_first_from m k = None \<longleftrightarrow> (\<forall>e\<in>set m. fst e < k)"
  by (auto simp: bt_first_from_def find_None_iff not_le)

lemma bt_first_from_Some:
  assumes "wf_btree m" "bt_first_from m k = Some e"
  shows "e \<in> set m \<and> k \<le> fst e \<and> (\<forall>e'\<in>set m. k \<le> fst e' \<longrightarrow> fst e \<le> fst e')"
  using assms unfolding bt_first_from_def wf_btree_def
  by (induction m) (auto split: if_splits)

section \<open>Sets\<close>

type_synonym 'k bset = "('k, unit) btree"

definition bs_insert :: "'k::linorder \<Rightarrow> 'k bset \<Rightarrow> 'k bset" where
  "bs_insert k s = bt_insert k () s"

definition bs_mem :: "'k::linorder \<Rightarrow> 'k bset \<Rightarrow> bool" where
  "bs_mem k s \<longleftrightarrow> bt_get s k \<noteq> None"

definition bs_elems :: "'k bset \<Rightarrow> 'k list" where
  "bs_elems s = map fst s"

definition bs_collect :: "'k::linorder list \<Rightarrow> 'k bset" where
  "bs_collect ks = bt_collect (map (\<lambda>k. (k, ())) ks)"

definition bs_set :: "'k bset \<Rightarrow> 'k set" where
  "bs_set s = fst ` set s"

lemma bs_mem_iff [simp]: "bs_mem k s \<longleftrightarrow> k \<in> bs_set s"
  by (simp add: bs_mem_def bs_set_def bt_get_None_iff)

lemma bs_set_insert [simp]: "bs_set (bs_insert k s) = insert k (bs_set s)"
  by (simp add: bs_set_def bs_insert_def keys_bt_insert)

lemma bs_set_collect [simp]: "bs_set (bs_collect ks) = set ks"
  by (simp add: bs_set_def bs_collect_def bt_collect_keys image_image)

lemma bs_set_elems [simp]: "set (bs_elems s) = bs_set s"
  by (simp add: bs_elems_def bs_set_def)

lemma wf_bs_insert [intro]: "wf_btree s \<Longrightarrow> wf_btree (bs_insert k s)"
  by (simp add: bs_insert_def wf_bt_insert)

lemma wf_bs_collect [simp]: "wf_btree (bs_collect ks)"
  by (simp add: bs_collect_def)

lemma bs_elems_sorted: "wf_btree s \<Longrightarrow> sorted_wrt (<) (bs_elems s)"
  by (simp add: wf_btree_def bs_elems_def)

lemma length_bs: "wf_btree s \<Longrightarrow> length s = card (bs_set s)"
  using distinct_card [of "map fst s"] by (simp add: bs_set_def wf_btree_distinct)

end
