(* ===== verification/Optimal_Finish.thy ===== *)
theory Optimal_Finish
  imports Digest_Order "HOL-Library.Multiset" "HOL-Library.Product_Lexorder"
begin

text \<open>
  \<open>optimal_finish.rs\<close>: the selection of one finish among candidates. A candidate is admitted only
  by the hard gates; admitted candidates are compared by a vector of six costs, field by field, and
  by their digest when the costs are equal. The cost vector is an instance of \<open>linorder\<close>, as the
  source derives \<open>Ord\<close> for it. The facts shown are that a selection succeeds exactly when the
  candidates have identities of their own and share one cohort and one measurement policy, that it
  returns the one candidate below all others, and that the order of the input does not matter.
\<close>

section \<open>Gates and costs\<close>

datatype finish_candidate_gate_status = Gate_Passed | Gate_Failed

definition gate_passed :: "finish_candidate_gate_status \<Rightarrow> bool" where
  "gate_passed s \<longleftrightarrow> s = Gate_Passed"

record finish_candidate_admissibility =
  ga_acceptance_and_security :: finish_candidate_gate_status
  ga_outside_behavior :: finish_candidate_gate_status
  ga_unresolved_risk_count :: u64
  ga_clarity :: finish_candidate_gate_status
  ga_immediate_rollback :: finish_candidate_gate_status
  ga_evidence_digest :: digest

record finish_candidate_cost =
  new_public_interface_items :: u64
  new_direct_dependencies :: u64
  production_paths_changed :: u64
  production_lines_changed :: u64
  runtime_cost_units :: u64
  maintenance_cost_units :: u64

record optimal_finish_candidate =
  oc_candidate_digest :: digest
  oc_cohort_digest :: digest
  oc_measurement_policy_digest :: digest
  oc_evaluated_snapshot :: digest
  oc_admissibility_evidence_digest :: digest
  oc_cost :: finish_candidate_cost

datatype finish_candidate_hard_gate =
  Acceptance_And_Security_Gate | Outside_Behavior_Preserved | Clarity_Preserved | Immediate_Rollback

datatype optimal_finish_error =
    Inadmissible finish_candidate_hard_gate
  | Unresolved_Risk u64
  | Cohort_Mismatch
  | Measurement_Policy_Mismatch
  | Candidate_Identity_Collision
  | Empty_Candidate_Set
  | Duplicate_Candidate

text \<open>\<open>OptimalFinishCandidate::admit\<close>, the only constructor of a candidate.\<close>

definition admit_candidate ::
  "digest \<Rightarrow> digest \<Rightarrow> digest \<Rightarrow> digest \<Rightarrow> finish_candidate_admissibility \<Rightarrow> finish_candidate_cost \<Rightarrow>
     optimal_finish_error + optimal_finish_candidate" where
  "admit_candidate candidate cohort measurement_policy snapshot a cost =
     (if \<not> gate_passed (ga_acceptance_and_security a)
      then Inl (Inadmissible Acceptance_And_Security_Gate)
      else if \<not> gate_passed (ga_outside_behavior a)
      then Inl (Inadmissible Outside_Behavior_Preserved)
      else if ga_unresolved_risk_count a \<noteq> 0
      then Inl (Unresolved_Risk (ga_unresolved_risk_count a))
      else if \<not> gate_passed (ga_clarity a) then Inl (Inadmissible Clarity_Preserved)
      else if \<not> gate_passed (ga_immediate_rollback a) then Inl (Inadmissible Immediate_Rollback)
      else Inr \<lparr>oc_candidate_digest = candidate, oc_cohort_digest = cohort,
                oc_measurement_policy_digest = measurement_policy,
                oc_evaluated_snapshot = snapshot,
                oc_admissibility_evidence_digest = ga_evidence_digest a, oc_cost = cost\<rparr>)"

section \<open>The order of costs\<close>

text \<open>
  The derived \<open>Ord\<close>: fields compare in the order of their declaration. The instance is stated for
  the extensible record, whose last component is \<open>()\<close> for the struct itself.
\<close>

definition cost_fields :: "'a finish_candidate_cost_scheme \<Rightarrow> u64 \<times> u64 \<times> u64 \<times> u64 \<times> u64 \<times> u64 \<times> 'a" where
  "cost_fields c = (new_public_interface_items c, new_direct_dependencies c,
     production_paths_changed c, production_lines_changed c, runtime_cost_units c,
     maintenance_cost_units c, finish_candidate_cost.more c)"

lemma cost_fields_inject [simp]: "cost_fields c = cost_fields d \<longleftrightarrow> c = d"
  by (cases c; cases d) (simp add: cost_fields_def)

instantiation finish_candidate_cost_ext :: (linorder) linorder
begin

definition less_eq_cost: "c \<le> d \<longleftrightarrow> cost_fields c \<le> cost_fields d"

definition less_cost: "c < d \<longleftrightarrow> cost_fields c < cost_fields d"

instance
proof
  fix a b c :: "'a finish_candidate_cost_scheme"
  show "a < b \<longleftrightarrow> a \<le> b \<and> \<not> b \<le> a" by (simp add: less_eq_cost less_cost less_le_not_le)
  show "a \<le> b \<or> b \<le> a" by (simp add: less_eq_cost linear)
  show "a \<le> b \<Longrightarrow> b \<le> a \<Longrightarrow> a = b" by (simp add: less_eq_cost)
  show "a \<le> b \<Longrightarrow> b \<le> c \<Longrightarrow> a \<le> c" by (auto simp: less_eq_cost)
qed (simp add: less_eq_cost)

end

datatype ordering = Ord_Less | Ord_Equal | Ord_Greater

definition cmp :: "'a::linorder \<Rightarrow> 'a \<Rightarrow> ordering" where
  "cmp x y = (if x < y then Ord_Less else if x = y then Ord_Equal else Ord_Greater)"

fun then_with :: "ordering \<Rightarrow> ordering \<Rightarrow> ordering" where
  "then_with Ord_Equal o' = o'"
| "then_with Ord_Less o' = Ord_Less"
| "then_with Ord_Greater o' = Ord_Greater"

lemma cmp_then_cmp: "then_with (cmp a b) (cmp x y) = cmp (a, x) (b, y)"
  by (auto simp: cmp_def less_prod_def)

section \<open>Comparison and selection\<close>

definition compare_optimal_finish_candidates ::
  "optimal_finish_candidate \<Rightarrow> optimal_finish_candidate \<Rightarrow> optimal_finish_error + ordering" where
  "compare_optimal_finish_candidates left right =
     (if oc_cohort_digest left \<noteq> oc_cohort_digest right then Inl Cohort_Mismatch
      else if oc_measurement_policy_digest left \<noteq> oc_measurement_policy_digest right
      then Inl Measurement_Policy_Mismatch
      else if oc_candidate_digest left = oc_candidate_digest right
      then (if left = right then Inr Ord_Equal else Inl Candidate_Identity_Collision)
      else Inr (then_with (cmp (oc_cost left) (oc_cost right))
                          (cmp (oc_candidate_digest left) (oc_candidate_digest right))))"

fun select_from ::
  "optimal_finish_candidate \<Rightarrow> (digest, optimal_finish_candidate) btree \<Rightarrow>
     optimal_finish_candidate list \<Rightarrow> optimal_finish_error + optimal_finish_candidate" where
  "select_from selected identities [] = Inr selected"
| "select_from selected identities (c # cs) =
     (case bt_get identities (oc_candidate_digest c) of
        Some existing \<Rightarrow>
          if existing \<noteq> c then Inl Candidate_Identity_Collision else Inl Duplicate_Candidate
      | None \<Rightarrow>
          bind_ok (compare_optimal_finish_candidates c selected)
            (\<lambda>o'. select_from (if o' = Ord_Less then c else selected)
                    (bt_insert (oc_candidate_digest c) c identities) cs))"

fun select_optimal_finish_candidate ::
  "optimal_finish_candidate list \<Rightarrow> optimal_finish_error + optimal_finish_candidate" where
  "select_optimal_finish_candidate [] = Inl Empty_Candidate_Set"
| "select_optimal_finish_candidate (c # cs) =
     select_from c (bt_insert (oc_candidate_digest c) c []) cs"

section \<open>What is selected\<close>

text \<open>
  The reference: the candidates are one cohort, and the rank of a candidate is its cost with the
  digest as the last resort.
\<close>

definition same_measure :: "optimal_finish_candidate \<Rightarrow> optimal_finish_candidate \<Rightarrow> bool" where
  "same_measure c d \<longleftrightarrow> oc_cohort_digest c = oc_cohort_digest d \<and>
     oc_measurement_policy_digest c = oc_measurement_policy_digest d"

definition one_cohort :: "optimal_finish_candidate list \<Rightarrow> bool" where
  "one_cohort cs \<longleftrightarrow> distinct (map oc_candidate_digest cs) \<and>
     (\<forall>c\<in>set cs. \<forall>d\<in>set cs. same_measure c d)"

definition rank :: "optimal_finish_candidate \<Rightarrow> finish_candidate_cost \<times> digest" where
  "rank c = (oc_cost c, oc_candidate_digest c)"

definition optimum :: "optimal_finish_candidate list \<Rightarrow> optimal_finish_candidate \<Rightarrow> bool" where
  "optimum cs c \<longleftrightarrow> c \<in> set cs \<and> (\<forall>d\<in>set cs. rank c \<le> rank d)"

lemma compare_ok [ok_iff]:
  assumes "oc_candidate_digest c \<noteq> oc_candidate_digest d"
  shows "compare_optimal_finish_candidates c d = Inr o' \<longleftrightarrow>
           same_measure c d \<and> o' = cmp (rank c) (rank d)"
  using assms
  by (auto simp: compare_optimal_finish_candidates_def same_measure_def rank_def cmp_then_cmp)

lemma cmp_Less [simp]: "cmp x y = Ord_Less \<longleftrightarrow> x < y"
  by (simp add: cmp_def)

text \<open>
  The loop: \<open>identities\<close> holds exactly the candidates seen so far, and \<open>selected\<close> is the least of
  them.
\<close>

lemma select_from_ok:
  assumes "wf_btree identities" "oc_candidate_digest s \<in> fst ` set identities"
  shows "select_from s identities cs = Inr c \<longleftrightarrow>
           distinct (map oc_candidate_digest cs) \<and>
           oc_candidate_digest ` set cs \<inter> fst ` set identities = {} \<and>
           (\<forall>d\<in>set cs. same_measure d s) \<and> optimum (s # cs) c"
  using assms
proof (induction cs arbitrary: s identities)
  case Nil
  then show ?case by (auto simp: optimum_def)
next
  case (Cons d cs)
  let ?s = "if rank d < rank s then d else s"
  let ?ids = "bt_insert (oc_candidate_digest d) d identities"
  have seen: "bt_get identities k = None \<longleftrightarrow> k \<notin> fst ` set identities" for k
    by (simp add: bt_get_def map_of_eq_None_iff)
  have least: "optimum (?s # cs) c \<longleftrightarrow> optimum (s # d # cs) c"
    if "oc_candidate_digest d \<noteq> oc_candidate_digest s"
    using that by (auto simp: optimum_def dest: order.strict_trans1 order.strict_trans2)
       (auto simp: rank_def not_less intro: order.trans less_imp_le)
  have same: "same_measure x ?s \<longleftrightarrow> same_measure x s" if "same_measure d s" for x
    using that by (auto simp: same_measure_def)
  show ?case
  proof (cases "oc_candidate_digest d \<in> fst ` set identities")
    case True
    then obtain e where "bt_get identities (oc_candidate_digest d) = Some e" using seen by auto
    with True show ?thesis by auto
  next
    case False
    then have fresh: "bt_get identities (oc_candidate_digest d) = None" using seen by simp
    have "oc_candidate_digest d \<noteq> oc_candidate_digest s" using False Cons.prems(2) by metis
    note step = compare_ok [OF this] least [OF this]
    have "select_from ?s ?ids cs = Inr c \<longleftrightarrow>
        distinct (map oc_candidate_digest cs) \<and>
        oc_candidate_digest ` set cs \<inter> fst ` set ?ids = {} \<and>
        (\<forall>x\<in>set cs. same_measure x ?s) \<and> optimum (?s # cs) c"
      using Cons.prems by (intro Cons.IH) (auto simp: wf_bt_insert keys_bt_insert)
    then show ?thesis
      using False
      by (auto simp: fresh bind_ok_Inr step keys_bt_insert)
         (auto simp: same_measure_def)
  qed
qed

lemma rank_inject: "one_cohort cs \<Longrightarrow> c \<in> set cs \<Longrightarrow> d \<in> set cs \<Longrightarrow> rank c = rank d \<Longrightarrow> c = d"
  by (auto simp: one_cohort_def rank_def distinct_map dest: inj_onD)

lemma select_ok [ok_iff]:
  "select_optimal_finish_candidate cs = Inr c \<longleftrightarrow> one_cohort cs \<and> optimum cs c"
proof (cases cs)
  case Nil
  then show ?thesis by (simp add: optimum_def)
next
  case (Cons s ds)
  let ?ids = "bt_insert (oc_candidate_digest s) s []"
  have "select_from s ?ids ds = Inr c \<longleftrightarrow>
      distinct (map oc_candidate_digest ds) \<and>
      oc_candidate_digest ` set ds \<inter> fst ` set ?ids = {} \<and>
      (\<forall>d\<in>set ds. same_measure d s) \<and> optimum (s # ds) c"
    by (rule select_from_ok) (auto simp: wf_btree_def)
  then show ?thesis
    unfolding Cons by (auto simp: one_cohort_def same_measure_def)
qed

lemma optimum_exists: "one_cohort cs \<Longrightarrow> cs \<noteq> [] \<Longrightarrow> \<exists>!c. optimum cs c"
proof (rule ex_ex1I)
  assume "cs \<noteq> []"
  then have "Min (rank ` set cs) \<in> rank ` set cs" by simp
  then obtain c where "c \<in> set cs" "rank c = Min (rank ` set cs)" by force
  then show "\<exists>c. optimum cs c" by (auto simp: optimum_def)
next
  fix c d assume "one_cohort cs" "optimum cs c" "optimum cs d"
  then show "c = d" by (auto simp: optimum_def intro: rank_inject order.antisym)
qed

lemma select_succeeds:
  "(\<exists>c. select_optimal_finish_candidate cs = Inr c) \<longleftrightarrow> cs \<noteq> [] \<and> one_cohort cs"
proof -
  have "cs \<noteq> []" if "optimum cs c" for c using that by (auto simp: optimum_def)
  then show ?thesis unfolding select_ok using optimum_exists [of cs] by blast
qed

lemma one_cohort_mset: "mset cs = mset ds \<Longrightarrow> one_cohort cs = one_cohort ds"
  unfolding one_cohort_def
  by (metis mset_eq_imp_distinct_iff mset_eq_setD mset_map)

text \<open>
  Three candidates of one cohort. The cheapest adds no interface and no dependency; its two rivals
  save elsewhere, one of them by a new dependency.
\<close>

definition sample_candidate :: "char \<Rightarrow> u64 \<Rightarrow> u64 \<Rightarrow> optimal_finish_candidate" where
  "sample_candidate t dependencies lines =
     \<lparr>oc_candidate_digest = Digest (replicate 64 t), oc_cohort_digest = Digest (replicate 64 CHR ''a''),
      oc_measurement_policy_digest = Digest (replicate 64 CHR ''b''),
      oc_evaluated_snapshot = Digest (replicate 64 t),
      oc_admissibility_evidence_digest = Digest (replicate 64 t),
      oc_cost = \<lparr>new_public_interface_items = 0, new_direct_dependencies = dependencies,
        production_paths_changed = 1, production_lines_changed = lines,
        runtime_cost_units = 5, maintenance_cost_units = 5\<rparr>\<rparr>"

lemma sample_candidate_fields [simp]:
  "oc_candidate_digest (sample_candidate t d l) = Digest (replicate 64 t)"
  "same_measure (sample_candidate t d l) (sample_candidate t' d' l')"
  "rank (sample_candidate t d l) \<le> rank (sample_candidate t' d' l') \<longleftrightarrow>
     (d, l, replicate 64 t) \<le> (d', l', replicate 64 t')"
  by (auto simp: sample_candidate_def same_measure_def rank_def less_eq_cost less_cost cost_fields_def
      less_eq_digest)

definition samples :: "optimal_finish_candidate list" where
  "samples = [sample_candidate CHR ''1'' 0 40, sample_candidate CHR ''2'' 0 30,
     sample_candidate CHR ''3'' 1 2]"

lemma samples_selected:
  "one_cohort samples" "optimum samples (sample_candidate CHR ''2'' 0 30)"
  by (simp_all add: samples_def one_cohort_def optimum_def)

text \<open>
  C20. The selection of a finish is the optimum of a well-formed cohort and nothing else: it succeeds
  exactly when there is a candidate, the candidates have identities of their own, and all share one
  cohort and one measurement policy; then it returns the one candidate whose cost vector, field by
  field and with the digest as the last resort, is below that of every other. Candidates cannot be
  made by other means than admission, and admission reads nothing of the cost: whatever cost is
  claimed, a candidate is admitted exactly when its four gates passed and no risk is unresolved.
\<close>

theorem selection_is_the_unique_optimum:
  assumes "select_optimal_finish_candidate cs = Inr c"
  shows "one_cohort cs \<and> c \<in> set cs \<and>
    (\<forall>d\<in>set cs. d = c \<or> rank c < rank d) \<and>
    (\<forall>ds. (\<exists>d. select_optimal_finish_candidate ds = Inr d) \<longleftrightarrow> ds \<noteq> [] \<and> one_cohort ds) \<and>
    (\<forall>digest cohort policy snapshot a cost.
       is_ok (admit_candidate digest cohort policy snapshot a cost) \<longleftrightarrow>
         ga_acceptance_and_security a = Gate_Passed \<and> ga_outside_behavior a = Gate_Passed \<and>
         ga_unresolved_risk_count a = 0 \<and> ga_clarity a = Gate_Passed \<and>
         ga_immediate_rollback a = Gate_Passed)"
proof (intro conjI)
  from assms have cohort: "one_cohort cs" and best: "optimum cs c" by (simp_all add: select_ok)
  show "one_cohort cs" "c \<in> set cs" using cohort best by (simp_all add: optimum_def)
  show "\<forall>d\<in>set cs. d = c \<or> rank c < rank d"
    using best rank_inject [OF cohort] by (force simp: optimum_def order.order_iff_strict)
  show "\<forall>ds. (\<exists>d. select_optimal_finish_candidate ds = Inr d) \<longleftrightarrow> ds \<noteq> [] \<and> one_cohort ds"
    by (simp add: select_succeeds)
qed (simp add: admit_candidate_def gate_passed_def is_ok_iff)

theorem selection_is_the_unique_optimum_witness:
  "rank (sample_candidate CHR ''2'' 0 30) < rank (sample_candidate CHR ''3'' 1 2)"
  using selection_is_the_unique_optimum [of samples "sample_candidate CHR ''2'' 0 30"]
  by (auto simp: select_ok samples_selected) (auto simp: samples_def sample_candidate_def)

text \<open>
  The order in which candidates are supplied never affects the selection: of two arrangements of
  the same candidates either both are refused, or both select the same candidate.
\<close>

theorem selection_ignores_input_order:
  assumes "mset cs = mset ds"
  shows "is_ok (select_optimal_finish_candidate cs) = is_ok (select_optimal_finish_candidate ds) \<and>
    (select_optimal_finish_candidate cs = Inr c \<longleftrightarrow> select_optimal_finish_candidate ds = Inr c)"
  using one_cohort_mset [OF assms] mset_eq_setD [OF assms]
  by (simp add: is_ok_iff select_ok optimum_def)

theorem selection_ignores_input_order_witness:
  "select_optimal_finish_candidate (rev samples) = Inr (sample_candidate CHR ''2'' 0 30)"
  using selection_ignores_input_order [of "rev samples" samples]
  by (simp add: select_ok samples_selected)

end
