(* ===== verification/Workspace_Manifest.thy ===== *)
theory Workspace_Manifest
  imports Execution Digest_Order
begin

text \<open>
  The workspace manifest of \<open>live_state.rs\<close>: entries of regular files in strict byte order of their
  paths, none of them an ancestor of another, and the digest of their framed encoding, which is what
  a snapshot is. The facts are what a valid list of entries looks like and that the encoding is
  injective: two valid manifests with the same snapshot are equal or collide in SHA-256.
\<close>

unbundle bit_operations_syntax

definition MAX_MANIFEST_PATH_BYTES :: nat where
  "MAX_MANIFEST_PATH_BYTES = 4 * 1024"

definition MAX_MANIFEST_ENTRIES :: nat where
  "MAX_MANIFEST_ENTRIES = 65536"

definition WORKSPACE_MANIFEST_DOMAIN :: string where
  "WORKSPACE_MANIFEST_DOMAIN = ''grok-build.workspace-manifest.sha256.v1'' @ [NUL]"

record manifest_entry =
  me_path :: string
  me_content_digest :: digest
  me_byte_length :: u64
  me_unix_mode :: u32

section \<open>Paths as text\<close>

text \<open>\<open>path.split('/')\<close>, and the prefixes of a path that end before a separator.\<close>

definition segments :: "string \<Rightarrow> string list" where
  "segments p = (case split_slash p of (s, ss) \<Rightarrow> s # ss)"

fun path_ancestors :: "string \<Rightarrow> string list" where
  "path_ancestors [] = []"
| "path_ancestors (c # p) =
     (if c = CHR ''/'' then [[]] else []) @ map (Cons c) (path_ancestors p)"

definition BACKSLASH :: char where
  "BACKSLASH = CHR 0x5C"

definition forbidden_segment :: "string \<Rightarrow> bool" where
  "forbidden_segment s \<longleftrightarrow> s = [] \<or> s = ''.'' \<or> s = ''..'' \<or> eq_ignore_ascii_case s ''.git''"

definition validate_manifest_path :: "string \<Rightarrow> contract_result" where
  "validate_manifest_path p = seq
     [ensure (p \<noteq> [])
        (ContractError ''descriptor_relative_manifest_entry.path'' ''must be nonempty''),
      ensure (length p \<le> MAX_MANIFEST_PATH_BYTES)
        (ContractError ''descriptor_relative_manifest_entry.path''
          (''must not exceed '' @ show_nat MAX_MANIFEST_PATH_BYTES @ '' UTF-8 bytes'')),
      ensure (\<not> (take 1 p = ''/'' \<or> BACKSLASH \<in> set p \<or> NUL \<in> set p))
        (ContractError ''descriptor_relative_manifest_entry.path''
          ''must use normalized relative UTF-8 slash form without backslash or NUL''),
      ensure (\<not> list_ex forbidden_segment (segments p))
        (ContractError ''descriptor_relative_manifest_entry.path''
          ''must not contain empty, dot, parent, or protected .git components'')]"

definition validate_manifest_entry :: "manifest_entry \<Rightarrow> contract_result" where
  "validate_manifest_entry e = seq
     [validate_manifest_path (me_path e),
      ensure (unat (me_byte_length e) < 2 ^ 63)
        (ContractError ''descriptor_relative_manifest_entry.byte_length''
          ''must fit exactly in a signed 64-bit durable integer''),
      ensure (me_unix_mode e AND NOT 511 = 0)
        (ContractError ''descriptor_relative_manifest_entry.unix_mode''
          ''must contain only normalized Unix permission bits 0o000..=0o777'')]"

fun manifest_loop :: "string set \<Rightarrow> string option \<Rightarrow> manifest_entry list \<Rightarrow> contract_result" where
  "manifest_loop prior previous [] = Inr ()"
| "manifest_loop prior previous (e # es) = seq
     [validate_manifest_entry e,
      ensure (case previous of None \<Rightarrow> True | Some p \<Rightarrow> p < me_path e)
        (ContractError ''descriptor_relative_workspace_manifest.entries''
          ''paths must be unique and in strict portable UTF-8 byte order''),
      (case find (\<lambda>a. a \<in> prior) (path_ancestors (me_path e)) of
         None \<Rightarrow> Inr ()
       | Some a \<Rightarrow> Inl (ContractError ''descriptor_relative_workspace_manifest.entries''
           (''regular-file path `'' @ a @ ''` is a prefix of `'' @ me_path e @ ''`''))),
      manifest_loop (insert (me_path e) prior) (Some (me_path e)) es]"

definition validate_manifest_entries :: "manifest_entry list \<Rightarrow> contract_result" where
  "validate_manifest_entries es = seq
     [ensure (length es \<le> MAX_MANIFEST_ENTRIES)
        (ContractError ''descriptor_relative_workspace_manifest.entries''
          (''must not exceed '' @ show_nat MAX_MANIFEST_ENTRIES @ '' entries'')),
      manifest_loop {} None es]"

section \<open>The digest\<close>

definition entry_bytes :: "manifest_entry \<Rightarrow> string" where
  "entry_bytes e = be_bytes 8 (length (me_path e)) @ me_path e @ u64_be_bytes (me_byte_length e) @
     digest_str (me_content_digest e) @ be_bytes 4 (unat (me_unix_mode e))"

definition manifest_bytes :: "manifest_entry list \<Rightarrow> string" where
  "manifest_bytes es =
     WORKSPACE_MANIFEST_DOMAIN @ be_bytes 8 (length es) @ concat (map entry_bytes es)"

text \<open>
  \<open>u64::try_from\<close> of a length: the checks fail only for lengths that the validator has excluded,
  and are kept.
\<close>

definition digest_from_sha256_output :: "string \<Rightarrow> string \<Rightarrow> contract_error + digest" where
  "digest_from_sha256_output out field =
     map_err (\<lambda>e. ContractError field
         (''cannot encode SHA-256 output: '' @ ce_field e @ '': '' @ ce_message e))
       (digest_parse (concat (map hex_byte out)))"

definition compute_workspace_manifest_digest ::
  "(string \<Rightarrow> string) \<Rightarrow> manifest_entry list \<Rightarrow> contract_error + digest" where
  "compute_workspace_manifest_digest sha es =
     bind_ok (seq
         [validate_manifest_entries es,
          ensure (length es < 2 ^ 64)
            (ContractError ''descriptor_relative_workspace_manifest.entries''
              ''entry count does not fit in the manifest V1 u64 field''),
          ensure (list_all (\<lambda>e. length (me_path e) < 2 ^ 64) es)
            (ContractError ''descriptor_relative_manifest_entry.path''
              ''path length does not fit in the manifest V1 u64 field'')])
       (\<lambda>_. digest_from_sha256_output (sha (manifest_bytes es))
              ''descriptor_relative_workspace_manifest.manifest_digest'')"

section \<open>What validation accepts\<close>

definition portable :: "string \<Rightarrow> bool" where
  "portable p \<longleftrightarrow> p \<noteq> [] \<and> length p \<le> MAX_MANIFEST_PATH_BYTES \<and> hd p \<noteq> CHR ''/'' \<and>
     BACKSLASH \<notin> set p \<and> NUL \<notin> set p \<and> (\<forall>s\<in>set (segments p). \<not> forbidden_segment s)"

lemma take1_slash: "p \<noteq> [] \<Longrightarrow> take (Suc 0) p = ''/'' \<longleftrightarrow> hd p = CHR ''/''"
  by (cases p) auto

lemma validate_manifest_path_ok [ok_iff]: "validate_manifest_path p = Inr u \<longleftrightarrow> portable p"
  by (auto simp: validate_manifest_path_def portable_def list_ex_iff take1_slash)

lemma ancestor_iff: "a \<in> set (path_ancestors p) \<longleftrightarrow> (\<exists>q. p = a @ CHR ''/'' # q)"
proof (induction p arbitrary: a)
  case (Cons c p)
  show ?case
  proof (cases a)
    case (Cons d b)
    have "a \<in> set (path_ancestors (c # p)) \<longleftrightarrow> c = d \<and> b \<in> set (path_ancestors p)"
      by (auto simp: Cons)
    with Cons.IH [of b] Cons show ?thesis by simp
  qed auto
qed simp

lemma ancestor_less: "a \<in> set (path_ancestors p) \<Longrightarrow> a < p"
proof (induction p arbitrary: a)
  case (Cons c p)
  then show ?case by (auto split: if_splits)
qed simp

lemma ancestor_trans:
  assumes "a \<in> set (path_ancestors b)" "b \<in> set (path_ancestors p)"
  shows "a \<in> set (path_ancestors p)"
proof -
  from assms obtain q r where "b = a @ CHR ''/'' # q" "p = b @ CHR ''/'' # r"
    by (auto simp: ancestor_iff)
  then show ?thesis by (auto simp: ancestor_iff)
qed

lemma validate_manifest_entry_ok [ok_iff]:
  "validate_manifest_entry e = Inr u \<longleftrightarrow>
     portable (me_path e) \<and> unat (me_byte_length e) < 2 ^ 63 \<and> me_unix_mode e AND NOT 511 = 0"
  by (simp add: validate_manifest_entry_def ok_iff)

text \<open>
  A set of paths is a \<^emph>\<open>forest\<close> of leaves when no path is an ancestor of another.
\<close>

definition leaves :: "string set \<Rightarrow> bool" where
  "leaves ps \<longleftrightarrow> (\<forall>p\<in>ps. \<forall>a\<in>set (path_ancestors p). a \<notin> ps)"

lemma manifest_loop_ok:
  "manifest_loop prior previous es = Inr u \<longleftrightarrow>
     (\<forall>e\<in>set es. validate_manifest_entry e = Inr ()) \<and>
     sorted_wrt (<) ((case previous of None \<Rightarrow> [] | Some p \<Rightarrow> [p]) @ map me_path es) \<and>
     (\<forall>e\<in>set es. \<forall>a\<in>set (path_ancestors (me_path e)). a \<notin> prior \<and> a \<notin> me_path ` set es)"
proof (induction es arbitrary: prior previous u)
  case Nil
  then show ?case by (simp split: option.split)
next
  case (Cons e es)
  have clash: "(case find (\<lambda>a. a \<in> prior) (path_ancestors (me_path e)) of None \<Rightarrow> Inr ()
       | Some a \<Rightarrow> Inl (k a)) = Inr () \<longleftrightarrow> (\<forall>a\<in>set (path_ancestors (me_path e)). a \<notin> prior)" for k
    by (auto split: option.splits simp: find_None_iff dest: find_SomeD)
  have below: "a \<notin> me_path ` insert e (set es)"
    if "\<forall>x\<in>set es. me_path e < me_path x" "a \<in> set (path_ancestors (me_path e))" for a
    using ancestor_less [OF that(2)] that(1) by (auto dest: less_trans)
  show ?case
    unfolding manifest_loop.simps seq_Cons_ok clash Cons.IH
    using below by (auto split: option.splits dest: less_trans) (blast dest: imageI)+
qed

lemma validate_manifest_entries_ok [ok_iff]:
  "validate_manifest_entries es = Inr u \<longleftrightarrow>
     length es \<le> MAX_MANIFEST_ENTRIES \<and> (\<forall>e\<in>set es. validate_manifest_entry e = Inr ()) \<and>
     sorted_wrt (<) (map me_path es) \<and> leaves (me_path ` set es)"
  by (auto simp: validate_manifest_entries_def manifest_loop_ok leaves_def)

section \<open>The encoding is injective\<close>

lemma be_bytes_append:
  assumes "be_bytes k v @ a = be_bytes k w @ b" "v < 256 ^ k" "w < 256 ^ k"
  shows "v = w \<and> a = b"
  using assms be_bytes_inject [of k v w] by simp

lemma unat_u32_bytes: "unat (w :: u32) < 256 ^ 4"
  using unsigned_less [of w, where 'a = nat] by simp

lemma entry_bytes_append:
  assumes "entry_bytes e @ a = entry_bytes f @ b"
    and "length (me_path e) < 2 ^ 64" "length (me_path f) < 2 ^ 64"
    and "length (digest_str (me_content_digest e)) = 64"
    and "length (digest_str (me_content_digest f)) = 64"
  shows "e = f \<and> a = b"
proof -
  have len: "length (me_path e) = length (me_path f)"
    using be_bytes_append [of 8 "length (me_path e)" _ "length (me_path f)"] assms(1-3)
    unfolding entry_bytes_def append_assoc by auto
  with assms have rest: "me_path e = me_path f" "me_byte_length e = me_byte_length f"
    "digest_str (me_content_digest e) = digest_str (me_content_digest f)"
    "be_bytes 4 (unat (me_unix_mode e)) @ a = be_bytes 4 (unat (me_unix_mode f)) @ b"
    by (auto simp: entry_bytes_def)
  with be_bytes_append [OF rest(4) unat_u32_bytes unat_u32_bytes] show ?thesis
    by (cases e; cases f) (simp add: digest.expand word_unat_eq_iff)
qed

lemma entries_bytes_inject:
  assumes "concat (map entry_bytes es) = concat (map entry_bytes fs)" "length es = length fs"
    and "\<forall>e\<in>set es \<union> set fs. length (me_path e) < 2 ^ 64 \<and>
      length (digest_str (me_content_digest e)) = 64"
  shows "es = fs"
  using assms(2,1,3)
proof (induction es fs rule: list_induct2)
  case (Cons e es f fs)
  with entry_bytes_append [of e "concat (map entry_bytes es)" f "concat (map entry_bytes fs)"]
  show ?case by simp
qed simp

lemma manifest_bytes_inject:
  assumes "manifest_bytes es = manifest_bytes fs" "length es < 2 ^ 64" "length fs < 2 ^ 64"
    and "\<forall>e\<in>set es \<union> set fs. length (me_path e) < 2 ^ 64 \<and>
      length (digest_str (me_content_digest e)) = 64"
  shows "es = fs"
proof -
  have "length es = length fs \<and> concat (map entry_bytes es) = concat (map entry_bytes fs)"
    using be_bytes_append [of 8 "length es" _ "length fs"] assms(1-3)
    by (auto simp: manifest_bytes_def)
  then show ?thesis using entries_bytes_inject assms(4) by blast
qed

lemma hex_byte_inject: "hex_byte a = hex_byte b \<longleftrightarrow> a = b"
proof
  assume eq: "hex_byte a = hex_byte b"
  have inj: "x = y" if "HEX ! x = HEX ! y" "x < 16" "y < 16" for x y
  proof -
    have "distinct HEX" by (simp add: HEX_def)
    then show ?thesis using that by (simp add: nth_eq_iff_index_eq HEX_def)
  qed
  have div: "byte c div 16 < 16" for c
    by (rule less_mult_imp_div_less) (use byte_less [of c] in simp)
  from eq have "byte a div 16 = byte b div 16" "byte a mod 16 = byte b mod 16"
    unfolding hex_byte_def using inj div by auto
  then have "byte a = byte b" by (metis div_mult_mod_eq)
  then show "a = b" by simp
qed simp

lemma hex_bytes_inject: "concat (map hex_byte s) = concat (map hex_byte t) \<Longrightarrow> s = t"
proof (induction s arbitrary: t)
  case Nil
  then show ?case by (cases t) (auto simp: hex_byte_def)
next
  case (Cons a s)
  then obtain b t' where t: "t = b # t'" by (cases t) (auto simp: hex_byte_def)
  have "length (hex_byte a) = length (hex_byte b)" by (simp add: hex_byte_def)
  with Cons t show ?case by (simp add: hex_byte_inject)
qed

text \<open>
  C40. A snapshot commits to a workspace. Two lists of entries that have the same manifest digest are
  the same list, entry by entry with path, content digest, length, and mode, or their encodings are
  two different texts with one SHA-256; and a list that has a digest names its files in strict byte
  order, by portable paths, none of them an ancestor of another.
\<close>

theorem snapshot_commits_to_workspace:
  assumes "compute_workspace_manifest_digest sha es = Inr d"
    and "compute_workspace_manifest_digest sha fs = Inr d"
    and "list_all (\<lambda>e. canonical_digest (me_content_digest e)) (es @ fs)"
  shows "(es = fs \<or>
      sha (manifest_bytes es) = sha (manifest_bytes fs) \<and> manifest_bytes es \<noteq> manifest_bytes fs) \<and>
    sorted_wrt (<) (map me_path es) \<and> leaves (me_path ` set es) \<and>
    (\<forall>e\<in>set es. portable (me_path e))"
proof -
  have D: "validate_manifest_entries xs = Inr ()" "length xs < 2 ^ 64"
    "\<forall>e\<in>set xs. length (me_path e) < 2 ^ 64"
    "digest_str d = concat (map hex_byte (sha (manifest_bytes xs)))"
    if "compute_workspace_manifest_digest sha xs = Inr d" for xs
    using that by (auto simp: compute_workspace_manifest_digest_def bind_ok_Inr list_all_iff
        digest_from_sha256_output_def digest_parse_iff)
  note E = D [OF assms(1)] and F = D [OF assms(2)]
  have same: "sha (manifest_bytes es) = sha (manifest_bytes fs)"
    by (rule hex_bytes_inject [OF trans [OF E(4) [symmetric] F(4)]])
  have canonical: "\<forall>e\<in>set es \<union> set fs. length (me_path e) < 2 ^ 64 \<and>
      length (digest_str (me_content_digest e)) = 64"
    using E(3) F(3) assms(3) by (auto simp: list_all_iff canonical_digest_def)
  have "es = fs" if "manifest_bytes es = manifest_bytes fs"
    by (rule manifest_bytes_inject [OF that E(2) F(2) canonical])
  with same show ?thesis using E(1) by (auto simp: ok_iff)
qed

text \<open>Under a hash that never tells texts apart, the theorem finds the collision.\<close>

definition lone_entry :: manifest_entry where
  "lone_entry = \<lparr>me_path = ''a'', me_content_digest = Digest (replicate 64 CHR ''0''),
     me_byte_length = 7, me_unix_mode = 420\<rparr>"

definition flat_sha :: "string \<Rightarrow> string" where
  "flat_sha m = replicate 32 NUL"

theorem snapshot_commits_to_workspace_witness:
  "(\<exists>d. compute_workspace_manifest_digest flat_sha [lone_entry] = Inr d \<and>
      compute_workspace_manifest_digest flat_sha [] = Inr d) \<and>
   manifest_bytes [lone_entry] \<noteq> manifest_bytes []"
proof -
  have "length (flat_sha m) = 32" for m by (simp add: flat_sha_def)
  then have parse: "digest_parse (concat (map hex_byte (flat_sha m))) = Inr (digest_sha256 flat_sha m)" for m
    using digest_sha256_canonical [of flat_sha m] by (simp add: digest_parse_iff digest_sha256_def)
  have flat: "digest_sha256 flat_sha m = digest_sha256 flat_sha []" for m
    by (simp only: digest_sha256_def flat_sha_def)
  have "portable ''a''"
    by (simp add: portable_def segments_def forbidden_segment_def MAX_MANIFEST_PATH_BYTES_def
        BACKSLASH_def NUL_def eq_ignore_ascii_case_def to_ascii_lowercase_def byte_def)
  then have valid: "validate_manifest_entries [lone_entry] = Inr ()" "validate_manifest_entries [] = Inr ()"
    by (simp_all add: validate_manifest_entries_ok validate_manifest_entry_ok lone_entry_def leaves_def
        MAX_MANIFEST_ENTRIES_def)
  have "length (me_path lone_entry) < 2 ^ 64" by (simp add: lone_entry_def)
  then have digests: "compute_workspace_manifest_digest flat_sha [lone_entry] = Inr (digest_sha256 flat_sha [])"
    "compute_workspace_manifest_digest flat_sha [] = Inr (digest_sha256 flat_sha [])"
    using flat [of "manifest_bytes [lone_entry]"] flat [of "manifest_bytes []"]
    by (simp_all add: compute_workspace_manifest_digest_def digest_from_sha256_output_def valid parse)
  have "list_all (\<lambda>e. canonical_digest (me_content_digest e)) ([lone_entry] @ [])"
    by (simp add: lone_entry_def canonical_digest_def list_all_iff is_lower_hex_def ascii_class_defs
        byte_def)
  from snapshot_commits_to_workspace [OF digests this] digests show ?thesis by blast
qed

end
