(* ===== verification/Composition.thy ===== *)
theory Composition
  imports Workspace_Manifest
begin

text \<open>
  \<open>application_composition.rs\<close>, the records and their validators: the base projection of a
  workspace, the sources that integrated tasks contributed (a change set and the material of its
  results), the inputs that name the complete set of sources, and the plan that composes them. The
  replay that derives a plan is in Composition_Replay.

  A path is its text here, as the code reads it (\<open>path.to_str()\<close>), and not a list of components:
  the checks reject texts such as \<open>a//b\<close> that denote a normalized path. Arms that the code reaches
  only by a panic (\<open>expect\<close>, \<open>unreachable!\<close>, an index out of range) are \<open>Composition_Panic\<close>.
\<close>

section \<open>Errors\<close>

datatype portable_path_conflict_kind =
  Non_Utf8 | Empty_Or_Absolute | Non_Portable_Separator_Or_Nul | Invalid_Component | Too_Long

datatype source_digest_kind = Ordered_Operations_Digest | Touched_Endpoints_Digest | Source_Identity

datatype source_shape_conflict =
  Blank_Change_Set_Id | Snapshot_Operation_Disagreement | No_Op_Modify | Invalid_Artifact_Version

datatype endpoint_kind = Regular_File | Directory

datatype composition_conflict =
    Invalid_Identifier string
  | Unsupported_Composer_Version string u32
  | Limit_Exceeded string nat nat
  | Byte_Limit_Exceeded string u64 u64
  | Accounting_Overflow string
  | Invalid_Portable_Path "u32 option" string portable_path_conflict_kind
  | Non_Canonical_Path_Order string string string
  | Duplicate_Source_Member string string
  | Incomplete_Directory_Projection string string
  | Base_Topology_Conflict string string
  | Base_Snapshot_Digest_Mismatch digest digest
  | Base_Projection_Digest_Mismatch digest digest
  | Base_Projection_Snapshot_Mismatch digest digest
  | Source_Set_Digest_Mismatch digest digest
  | Source_Coverage_Count_Mismatch nat nat
  | Source_Coverage_Identity_Mismatch u32 digest digest
  | Source_Ordinal_Mismatch u32 u32
  | Snapshot_Chain_Mismatch "u32 option" digest digest
  | Source_Result_Snapshot_Digest_Mismatch u32 digest digest
  | Final_Snapshot_Digest_Mismatch digest digest
  | Source_Binding_Mismatch u32 string
  | Invalid_Source_Shape u32 source_shape_conflict
  | Source_Digest_Mismatch u32 source_digest_kind digest digest
  | Duplicate_Operation u32 string
  | Result_Material_Mismatch "u32 option" "u32 option" string
  | Result_Blob_Length_Conflict digest u64 u64
  | Create_Over_Present "u32 option" string endpoint_kind
  | Modify_Over_Invalid_Endpoint "u32 option" string "endpoint_kind option"
  | Delete_Over_Invalid_Endpoint "u32 option" string "endpoint_kind option"
  | Base_Hash_Mismatch "u32 option" string digest digest
  | File_Ancestor_Collision "u32 option" string string
  | Unrepresentable_Mode_Transition string u32 u32
  | Unrepresentable_Length_Transition string digest u64 u64
  | Unrepresentable_Aggregate_Topology "string option" string
  | Aggregate_Snapshot_Mismatch digest digest bool
  | Derivation_Record_Mismatch string
  | Canonical_Encoding string string
  | Workspace_Manifest_Conflict string string
  | Composition_Panic string

type_synonym composition_result = "composition_conflict + unit"

section \<open>Limits and shared checks\<close>

definition COMPOSER_VERSION :: u32 where
  "COMPOSER_VERSION = 2"

definition SOURCE_BUNDLE_FORMAT_VERSION :: u32 where
  "SOURCE_BUNDLE_FORMAT_VERSION = 1"

definition MAX_COMPOSITION_SOURCES :: nat where
  "MAX_COMPOSITION_SOURCES = 4096"

definition MAX_COMPOSITION_OPERATIONS :: nat where
  "MAX_COMPOSITION_OPERATIONS = 4096"

definition MAX_COMPOSITION_FILE_BYTES :: u64 where
  "MAX_COMPOSITION_FILE_BYTES = 16 * 1048576"

definition MAX_COMPOSITION_TOTAL_BYTES :: u64 where
  "MAX_COMPOSITION_TOTAL_BYTES = 64 * 1048576"

definition MAX_COMPOSITION_CANONICAL_INPUT_BYTES :: nat where
  "MAX_COMPOSITION_CANONICAL_INPUT_BYTES = 16 * 1048576"

definition MAX_COMPOSITION_IDENTIFIER_BYTES :: nat where
  "MAX_COMPOSITION_IDENTIFIER_BYTES = 256"

text \<open>\<open>u32::try_from\<close> of a \<open>usize\<close>.\<close>

definition u32_try_from :: "nat \<Rightarrow> u32 option" where
  "u32_try_from n = (if n < 2 ^ 32 then Some (of_nat n) else None)"

definition require_identifier :: "string \<Rightarrow> string \<Rightarrow> composition_result" where
  "require_identifier field value = seq
     [ensure (\<not> blank value) (Invalid_Identifier field),
      ensure (length value \<le> MAX_COMPOSITION_IDENTIFIER_BYTES)
        (Limit_Exceeded field MAX_COMPOSITION_IDENTIFIER_BYTES (length value))]"

definition require_composer_version :: "string \<Rightarrow> u32 \<Rightarrow> composition_result" where
  "require_composer_version field version =
     ensure (version = COMPOSER_VERSION) (Unsupported_Composer_Version field version)"

definition checked_add_usize :: "string \<Rightarrow> nat \<Rightarrow> nat \<Rightarrow> composition_conflict + nat" where
  "checked_add_usize field left right =
     (if left + right < 2 ^ 64 then Inr (left + right) else Inl (Accounting_Overflow field))"

definition validate_portable_path :: "u32 option \<Rightarrow> string \<Rightarrow> composition_result" where
  "validate_portable_path source_ordinal p = seq
     [ensure (\<not> (p = [] \<or> take 1 p = ''/''))
        (Invalid_Portable_Path source_ordinal p Empty_Or_Absolute),
      ensure (length p \<le> MAX_MANIFEST_PATH_BYTES) (Invalid_Portable_Path source_ordinal p Too_Long),
      ensure (\<not> (BACKSLASH \<in> set p \<or> NUL \<in> set p))
        (Invalid_Portable_Path source_ordinal p Non_Portable_Separator_Or_Nul),
      ensure (\<not> list_ex forbidden_segment (segments p))
        (Invalid_Portable_Path source_ordinal p Invalid_Component)]"

text \<open>
  \<open>portable_operation_path\<close> (an ordinal) and \<open>portable_operation_path_for_aggregate\<close> (none): the
  bytes of the path must be UTF-8.
\<close>

definition portable_operation_path :: "u32 option \<Rightarrow> string \<Rightarrow> composition_conflict + string" where
  "portable_operation_path source_ordinal p =
     (if \<not> utf8_valid p then Inl (Invalid_Portable_Path source_ordinal ''<non-utf8>'' Non_Utf8)
      else bind_ok (validate_portable_path source_ordinal p) (\<lambda>_. Inr p))"

definition insert_blob_length ::
  "(digest, u64) btree \<Rightarrow> digest \<Rightarrow> u64 \<Rightarrow> composition_conflict + (digest, u64) btree" where
  "insert_blob_length blobs d len =
     (if len > MAX_COMPOSITION_FILE_BYTES
      then Inl (Byte_Limit_Exceeded ''composition.result_blob.byte_length''
             MAX_COMPOSITION_FILE_BYTES len)
      else case bt_get blobs d of
        Some existing \<Rightarrow>
          if existing \<noteq> len then Inl (Result_Blob_Length_Conflict d existing len)
          else Inr (bt_insert d len blobs)
      | None \<Rightarrow> Inr (bt_insert d len blobs))"

fun sum_lengths :: "string \<Rightarrow> u64 \<Rightarrow> (digest, u64) btree \<Rightarrow> composition_conflict + u64" where
  "sum_lengths field acc [] = Inr acc"
| "sum_lengths field acc ((d, len) # blobs) =
     bind_ok (ok_or (checked_add_u64 acc len) (Accounting_Overflow field))
       (\<lambda>acc'. sum_lengths field acc' blobs)"

definition checked_blob_total :: "string \<Rightarrow> (digest, u64) btree \<Rightarrow> composition_conflict + u64" where
  "checked_blob_total field blobs = sum_lengths field 0 blobs"

text \<open>
  \<open>canonical_digest\<close>: the domain, the length of the JSON, and the JSON; \<open>canonical_len\<close> and
  \<open>require_canonical_size\<close>.
\<close>

definition canonical_len :: "'a encoder \<Rightarrow> string \<Rightarrow> 'a \<Rightarrow> composition_conflict + nat" where
  "canonical_len enc field value =
     bind_ok (map_err (Canonical_Encoding field) (enc value)) (\<lambda>bytes. Inr (length bytes))"

definition require_canonical_len :: "'a encoder \<Rightarrow> string \<Rightarrow> 'a \<Rightarrow> nat \<Rightarrow> composition_result" where
  "require_canonical_len enc field value maximum =
     bind_ok (canonical_len enc field value) (\<lambda>observed.
       ensure (observed \<le> maximum) (Limit_Exceeded field maximum observed))"

definition composition_digest ::
  "(string \<Rightarrow> string) \<Rightarrow> 'a encoder \<Rightarrow> string \<Rightarrow> string \<Rightarrow> 'a \<Rightarrow> composition_conflict + digest" where
  "composition_digest sha enc field domain value =
     bind_ok (map_err (Canonical_Encoding field) (enc value)) (\<lambda>canonical.
       Inr (digest_sha256 sha (domain @ be_bytes 8 (length canonical) @ canonical)))"

definition canonical_contract_error :: "string \<Rightarrow> contract_error \<Rightarrow> composition_conflict" where
  "canonical_contract_error field e = Canonical_Encoding field (ce_field e @ '': '' @ ce_message e)"

definition domain_label :: "string \<Rightarrow> string" where
  "domain_label name = ''grok-build/'' @ name @ ''/v2'' @ [NUL]"

section \<open>Operations on text paths\<close>

datatype text_operation =
    Create_At (at_path: string) (at_result: digest)
  | Modify_At (at_path: string) (at_base: digest) (at_result: digest)
  | Delete_At (at_path: string) (at_base: digest)

fun file_operation_of :: "text_operation \<Rightarrow> file_operation" where
  "file_operation_of (Create_At p r) = Create (path_of p) r"
| "file_operation_of (Modify_At p b r) = Modify (path_of p) b r"
| "file_operation_of (Delete_At p b) = Delete (path_of p) b"

fun is_delete :: "text_operation \<Rightarrow> bool" where
  "is_delete (Delete_At p b) = True"
| "is_delete _ = False"

record text_change_set =
  cx_change_set_id :: string
  cx_base_snapshot :: digest
  cx_result_snapshot :: digest
  cx_operations :: "text_operation list"

definition change_set_of :: "text_change_set \<Rightarrow> change_set" where
  "change_set_of c = \<lparr>ch_change_set_id = cx_change_set_id c, ch_base_snapshot = cx_base_snapshot c,
     ch_result_snapshot = cx_result_snapshot c,
     ch_operations = map file_operation_of (cx_operations c)\<rparr>"

record text_endpoint =
  xe_path :: string
  xe_base_hash :: "digest option"
  xe_result_hash :: "digest option"

fun text_endpoint_from :: "text_operation \<Rightarrow> text_endpoint" where
  "text_endpoint_from (Create_At p r) =
     \<lparr>xe_path = p, xe_base_hash = None, xe_result_hash = Some r\<rparr>"
| "text_endpoint_from (Modify_At p b r) =
     \<lparr>xe_path = p, xe_base_hash = Some b, xe_result_hash = Some r\<rparr>"
| "text_endpoint_from (Delete_At p b) =
     \<lparr>xe_path = p, xe_base_hash = Some b, xe_result_hash = None\<rparr>"

section \<open>The records\<close>

record base_file =
  bf_path :: string
  bf_content_digest :: digest
  bf_byte_length :: u64
  bf_unix_mode :: u32

text \<open>
  A record that carries the digest of its other fields extends the record of those fields, which is
  the preimage the code hashes.
\<close>

record base_projection_fields =
  bp_composer_version :: u32
  bp_snapshot :: digest
  bp_files :: "base_file list"
  bp_directories :: "string list"

record base_projection = base_projection_fields +
  bp_projection_digest :: digest

record final_verification_binding =
  fb_attempt_id :: string
  fb_attempt_authority_digest :: digest
  fb_snapshot :: digest
  fb_complete_criterion_evidence_set_digest :: digest

record composition_inputs =
  ci_composer_version :: u32
  ci_sprint_id :: string
  ci_base_snapshot :: digest
  ci_result_snapshot :: digest
  ci_complete_task_done_set_digest :: digest
  ci_final_verification :: final_verification_binding
  ci_expected_source_identities :: "digest list"
  ci_source_set_digest :: digest

record source_set_preimage =
  sq_composer_version :: u32
  sq_sprint_id :: string
  sq_complete_task_done_set_digest :: digest
  sq_ordered_source_identities :: "digest list"

datatype result_material_kind = Create_Material u32 | Modify_Material

record result_material =
  rm_operation_index :: u32
  rm_path :: string
  rm_result_digest :: digest
  rm_byte_length :: u64
  rm_operation_kind :: result_material_kind
  rm_source_artifact_digest :: digest

record composition_source_fields =
  cs_composer_version :: u32
  cs_ordinal :: u32
  cs_task_id :: string
  cs_attempt_id :: string
  cs_task_done_proof_id :: string
  cs_task_done_proof_digest :: digest
  cs_integration_receipt_id :: string
  cs_integration_receipt_digest :: digest
  cs_input_snapshot :: digest
  cs_result_snapshot :: digest
  cs_change_set :: text_change_set
  cs_artifact :: task_integration_artifact_reference
  cs_result_material :: "result_material list"
  cs_ordered_operations_digest :: digest
  cs_touched_endpoints_digest :: digest

record composition_source = composition_source_fields +
  cs_source_identity :: digest

record aggregate_material =
  gm_operation_index :: u32
  gm_path :: string
  gm_result_digest :: digest
  gm_byte_length :: u64
  gm_create_mode :: "u32 option"
  gm_source_ordinal :: u32
  gm_source_artifact_digest :: digest

record change_set_id_preimage =
  cq_composer_version :: u32
  cq_sprint_id :: string
  cq_base_snapshot :: digest
  cq_result_snapshot :: digest
  cq_source_set_digest :: digest
  cq_operations :: "text_operation list"

record derivation_record_fields =
  dv_composer_version :: u32
  dv_sprint_id :: string
  dv_base_snapshot :: digest
  dv_result_snapshot :: digest
  dv_base_projection_digest :: digest
  dv_source_set_digest :: digest
  dv_complete_task_done_set_digest :: digest
  dv_final_verification :: final_verification_binding
  dv_aggregate_change_set_id :: string
  dv_aggregate_operations_digest :: digest
  dv_aggregate_touched_endpoints_digest :: digest
  dv_aggregate_result_material_digest :: digest
  dv_final_directory_state_digest :: digest
  dv_aggregate_no_op :: bool

record derivation_record = derivation_record_fields +
  dv_record_digest :: digest

record composition_plan =
  pl_change_set :: text_change_set
  pl_result_material :: "aggregate_material list"
  pl_final_directories :: "string list"
  pl_derivation_record :: derivation_record

text \<open>serde's JSON of the values that are hashed or whose size is bounded.\<close>

record composition_codec =
  cc_inputs :: "composition_inputs encoder"
  cc_base :: "base_projection encoder"
  cc_source :: "composition_source encoder"
  cc_base_fields :: "base_projection_fields encoder"
  cc_source_fields :: "composition_source_fields encoder"
  cc_source_set :: "source_set_preimage encoder"
  cc_change_set_id :: "change_set_id_preimage encoder"
  cc_material :: "aggregate_material list encoder"
  cc_directories :: "string list encoder"
  cc_record_fields :: "derivation_record_fields encoder"
  cc_operations :: "text_operation list encoder"
  cc_endpoints :: "text_endpoint list encoder"

section \<open>Base projections\<close>

definition compute_base_projection_digest ::
  "(string \<Rightarrow> string) \<Rightarrow> composition_codec \<Rightarrow> digest \<Rightarrow> base_file list \<Rightarrow> string list \<Rightarrow>
     composition_conflict + digest" where
  "compute_base_projection_digest sha cd snapshot files directories =
     composition_digest sha (cc_base_fields cd) ''base_projection''
       (domain_label ''application-composition-base-projection'')
       \<lparr>bp_composer_version = COMPOSER_VERSION, bp_snapshot = snapshot, bp_files = files,
        bp_directories = directories\<rparr>"

text \<open>
  The two loops over canonical paths: each path is checked, then compared with the one before.
\<close>

fun canonical_paths ::
  "('a \<Rightarrow> string) \<Rightarrow> ('a \<Rightarrow> composition_result) \<Rightarrow> string \<Rightarrow> string option \<Rightarrow> 'a list \<Rightarrow>
     composition_result" where
  "canonical_paths path_at check field previous [] = Inr ()"
| "canonical_paths path_at check field previous (x # xs) = seq
     [check x,
      (case previous of
         None \<Rightarrow> Inr ()
       | Some p \<Rightarrow> ensure (p < path_at x) (Non_Canonical_Path_Order field p (path_at x))),
      canonical_paths path_at check field (Some (path_at x)) xs]"

definition validate_canonical_base_files :: "base_file list \<Rightarrow> composition_result" where
  "validate_canonical_base_files files =
     canonical_paths bf_path
       (\<lambda>f. seq [validate_portable_path None (bf_path f),
          ensure (\<not> (unat (bf_byte_length f) > 2 ^ 63 - 1 \<or> bf_unix_mode f AND NOT 511 \<noteq> 0))
            (Result_Material_Mismatch None None ''base_file_metadata'')])
       ''base_projection.files'' None files"

definition validate_canonical_base_directories :: "string list \<Rightarrow> composition_result" where
  "validate_canonical_base_directories directories =
     canonical_paths (\<lambda>d. d) (validate_portable_path None) ''base_projection.directories'' None
       directories"

text \<open>The inner loop over the ancestors of one path.\<close>

definition validate_ancestors ::
  "string set \<Rightarrow> string set \<Rightarrow> string \<Rightarrow> composition_result" where
  "validate_ancestors file_set directory_set p = seq (concat (map (\<lambda>a.
     [ensure (a \<notin> file_set) (Base_Topology_Conflict p a),
      ensure (a \<in> directory_set) (Incomplete_Directory_Projection p a)]) (path_ancestors p)))"

definition base_manifest_entries :: "base_file list \<Rightarrow> manifest_entry list" where
  "base_manifest_entries files = map (\<lambda>f.
     \<lparr>me_path = bf_path f, me_content_digest = bf_content_digest f,
      me_byte_length = bf_byte_length f, me_unix_mode = bf_unix_mode f\<rparr>) files"

definition manifest_conflict :: "string \<Rightarrow> contract_error \<Rightarrow> composition_conflict" where
  "manifest_conflict field e = Workspace_Manifest_Conflict field (ce_field e @ '': '' @ ce_message e)"

definition validate_base_projection_shape ::
  "(string \<Rightarrow> string) \<Rightarrow> digest \<Rightarrow> base_file list \<Rightarrow> string list \<Rightarrow> composition_result" where
  "validate_base_projection_shape sha snapshot files directories =
     bind_ok (checked_add_usize ''base_projection.nodes'' (length files) (length directories))
       (\<lambda>node_count. seq
         [ensure (node_count \<le> MAX_MANIFEST_ENTRIES)
            (Limit_Exceeded ''base_projection.nodes'' MAX_MANIFEST_ENTRIES node_count),
          validate_canonical_base_files files,
          validate_canonical_base_directories directories,
          seq (map (\<lambda>d. seq
             [ensure (d \<notin> set (map bf_path files)) (Base_Topology_Conflict d d),
              validate_ancestors (set (map bf_path files)) (set directories) d]) directories),
          seq (map (\<lambda>f.
             validate_ancestors (set (map bf_path files)) (set directories) (bf_path f)) files),
          bind_ok (map_err (manifest_conflict ''base_projection.files'')
              (compute_workspace_manifest_digest sha (base_manifest_entries files)))
            (\<lambda>computed.
              ensure (computed = snapshot) (Base_Snapshot_Digest_Mismatch snapshot computed))])"

definition validate_base_projection ::
  "(string \<Rightarrow> string) \<Rightarrow> composition_codec \<Rightarrow> base_projection \<Rightarrow> composition_result" where
  "validate_base_projection sha cd b = seq
     [require_composer_version ''base_projection.composer_version'' (bp_composer_version b),
      validate_base_projection_shape sha (bp_snapshot b) (bp_files b) (bp_directories b),
      bind_ok (compute_base_projection_digest sha cd (bp_snapshot b) (bp_files b) (bp_directories b))
        (\<lambda>computed. ensure (bp_projection_digest b = computed)
          (Base_Projection_Digest_Mismatch (bp_projection_digest b) computed)),
      require_canonical_len (cc_base cd) ''base_projection'' b
        MAX_COMPOSITION_CANONICAL_INPUT_BYTES]"

section \<open>Inputs\<close>

definition validate_final_verification_binding :: "final_verification_binding \<Rightarrow> composition_result" where
  "validate_final_verification_binding b =
     require_identifier ''composition_inputs.final_verification.attempt_id'' (fb_attempt_id b)"

definition validate_source_identity_set :: "digest list \<Rightarrow> composition_result" where
  "validate_source_identity_set identities = seq
     [ensure (\<not> (identities = [] \<or> length identities > MAX_COMPOSITION_SOURCES))
        (Limit_Exceeded ''composition_inputs.expected_source_identities'' MAX_COMPOSITION_SOURCES
          (length identities)),
      each_unique (\<lambda>i. i) (\<lambda>_. Inr ())
        (\<lambda>i. Duplicate_Source_Member ''source_identity'' (digest_str i)) {} identities]"

definition compute_source_set_digest ::
  "(string \<Rightarrow> string) \<Rightarrow> composition_codec \<Rightarrow> string \<Rightarrow> digest \<Rightarrow> digest list \<Rightarrow>
     composition_conflict + digest" where
  "compute_source_set_digest sha cd sprint_id done_set identities =
     composition_digest sha (cc_source_set cd) ''composition_source_set''
       (domain_label ''application-composition-source-set'')
       \<lparr>sq_composer_version = COMPOSER_VERSION, sq_sprint_id = sprint_id,
        sq_complete_task_done_set_digest = done_set, sq_ordered_source_identities = identities\<rparr>"

definition validate_composition_inputs ::
  "(string \<Rightarrow> string) \<Rightarrow> composition_codec \<Rightarrow> composition_inputs \<Rightarrow> composition_result" where
  "validate_composition_inputs sha cd i = seq
     [require_composer_version ''composition_inputs.composer_version'' (ci_composer_version i),
      require_identifier ''composition_inputs.sprint_id'' (ci_sprint_id i),
      validate_final_verification_binding (ci_final_verification i),
      ensure (fb_snapshot (ci_final_verification i) = ci_result_snapshot i)
        (Snapshot_Chain_Mismatch None (ci_result_snapshot i) (fb_snapshot (ci_final_verification i))),
      validate_source_identity_set (ci_expected_source_identities i),
      bind_ok (compute_source_set_digest sha cd (ci_sprint_id i)
          (ci_complete_task_done_set_digest i) (ci_expected_source_identities i))
        (\<lambda>computed. ensure (ci_source_set_digest i = computed)
          (Source_Set_Digest_Mismatch (ci_source_set_digest i) computed)),
      require_canonical_len (cc_inputs cd) ''composition_inputs'' i
        MAX_COMPOSITION_CANONICAL_INPUT_BYTES]"

section \<open>Sources\<close>

definition operations_digest ::
  "(string \<Rightarrow> string) \<Rightarrow> composition_codec \<Rightarrow> text_change_set \<Rightarrow> contract_error + digest" where
  "operations_digest sha cd c = digest_canonical_contract sha (cc_operations cd)
     (''grok-build.applied-operations.v1'' @ [NUL]) (cx_operations c) ''change_set.operations''"

definition endpoints_digest ::
  "(string \<Rightarrow> string) \<Rightarrow> composition_codec \<Rightarrow> text_change_set \<Rightarrow> contract_error + digest" where
  "endpoints_digest sha cd c = digest_canonical_contract sha (cc_endpoints cd)
     (''grok-build.touched-path-endpoints.v1'' @ [NUL])
     (map text_endpoint_from (cx_operations c)) ''change_set.operations''"

fun source_operations_loop ::
  "u32 \<Rightarrow> string set \<Rightarrow> text_operation list \<Rightarrow> composition_result" where
  "source_operations_loop ordinal paths [] = Inr ()"
| "source_operations_loop ordinal paths (op # ops) =
     bind_ok (portable_operation_path (Some ordinal) (at_path op)) (\<lambda>p. seq
       [ensure (p \<notin> paths) (Duplicate_Operation ordinal p),
        (case op of
           Modify_At _ base_hash result_hash \<Rightarrow>
             ensure (base_hash \<noteq> result_hash) (Invalid_Source_Shape ordinal No_Op_Modify)
         | _ \<Rightarrow> Inr ()),
        source_operations_loop ordinal (insert p paths) ops])"

definition validate_source_operations :: "'a composition_source_fields_scheme \<Rightarrow> composition_result" where
  "validate_source_operations s =
     source_operations_loop (cs_ordinal s) {} (cx_operations (cs_change_set s))"

fun kind_matches :: "text_operation \<Rightarrow> result_material_kind \<Rightarrow> bool" where
  "kind_matches (Create_At p r) (Create_Material m) = True"
| "kind_matches (Modify_At p b r) Modify_Material = True"
| "kind_matches _ _ = False"

text \<open>
  One pass over the operations with their index; the index into the material is the suffix of the
  list that is still to be read. The result holds the distinct blobs and the material left over.
\<close>

fun source_material_loop ::
  "'a composition_source_fields_scheme \<Rightarrow> nat \<Rightarrow> (digest, u64) btree \<Rightarrow> text_operation list \<Rightarrow>
     result_material list \<Rightarrow> composition_conflict + (digest, u64) btree \<times> result_material list" where
  "source_material_loop s i blobs [] ms = Inr (blobs, ms)"
| "source_material_loop s i blobs (op # ops) ms =
     (if is_delete op then source_material_loop s (Suc i) blobs ops ms
      else case ms of
        [] \<Rightarrow> Inl (Result_Material_Mismatch (Some (cs_ordinal s)) (u32_try_from i) ''missing'')
      | m # ms' \<Rightarrow>
          bind_ok (ok_or (u32_try_from i) (Limit_Exceeded ''composition_source.operations''
              MAX_COMPOSITION_OPERATIONS (length (cx_operations (cs_change_set s)))))
            (\<lambda>expected_index.
              let mismatch = Result_Material_Mismatch (Some (cs_ordinal s)) (Some expected_index) in
              bind_ok (ensure (rm_operation_index m = expected_index) (mismatch ''operation_index''))
            (\<lambda>_. bind_ok (portable_operation_path (Some (cs_ordinal s)) (at_path op))
            (\<lambda>p. bind_ok (seq
                [ensure (rm_path m = p) (mismatch ''path''),
                 ensure (rm_result_digest m = at_result op) (mismatch ''result_digest''),
                 ensure (rm_source_artifact_digest m = ar_artifact_digest (cs_artifact s))
                   (mismatch ''source_artifact_digest''),
                 ensure (kind_matches op (rm_operation_kind m)) (mismatch ''operation_kind''),
                 (case rm_operation_kind m of
                    Create_Material unix_mode \<Rightarrow>
                      ensure (unix_mode AND NOT 511 = 0) (mismatch ''create_mode'')
                  | Modify_Material \<Rightarrow> Inr ()),
                 ensure (rm_byte_length m \<le> MAX_COMPOSITION_FILE_BYTES)
                   (Byte_Limit_Exceeded ''composition_source.result_material.byte_length''
                     MAX_COMPOSITION_FILE_BYTES (rm_byte_length m))])
            (\<lambda>_. bind_ok (insert_blob_length blobs (rm_result_digest m) (rm_byte_length m))
            (\<lambda>blobs'. source_material_loop s (Suc i) blobs' ops ms'))))))"

definition validate_source_result_material ::
  "'a composition_source_fields_scheme \<Rightarrow> composition_result" where
  "validate_source_result_material s =
     bind_ok (ensure (length (cs_result_material s) \<le> MAX_COMPOSITION_OPERATIONS)
         (Limit_Exceeded ''composition_source.result_material'' MAX_COMPOSITION_OPERATIONS
           (length (cs_result_material s))))
       (\<lambda>_. bind_ok (source_material_loop s 0 [] (cx_operations (cs_change_set s))
                (cs_result_material s))
       (\<lambda>(blobs, rest). bind_ok (ensure (rest = [])
             (Result_Material_Mismatch (Some (cs_ordinal s)) None ''unexpected''))
       (\<lambda>_. bind_ok (checked_blob_total ''composition_source.result_blob_bytes'' blobs)
       (\<lambda>total_bytes. ensure (total_bytes \<le> MAX_COMPOSITION_TOTAL_BYTES)
             (Byte_Limit_Exceeded ''composition_source.result_blob_bytes''
               MAX_COMPOSITION_TOTAL_BYTES total_bytes)))))"

definition validate_source_shape :: "'a composition_source_fields_scheme \<Rightarrow> composition_result" where
  "validate_source_shape s = seq
     [require_composer_version ''composition_source.composer_version'' (cs_composer_version s),
      require_identifier ''composition_source.task_id'' (cs_task_id s),
      require_identifier ''composition_source.attempt_id'' (cs_attempt_id s),
      require_identifier ''composition_source.task_done_proof_id'' (cs_task_done_proof_id s),
      require_identifier ''composition_source.integration_receipt_id'' (cs_integration_receipt_id s),
      ensure (\<not> blank (cx_change_set_id (cs_change_set s)))
        (Invalid_Source_Shape (cs_ordinal s) Blank_Change_Set_Id),
      ensure ((cx_operations (cs_change_set s) = []) =
          (cx_base_snapshot (cs_change_set s) = cx_result_snapshot (cs_change_set s)))
        (Invalid_Source_Shape (cs_ordinal s) Snapshot_Operation_Disagreement),
      ensure (\<not> (cs_input_snapshot s \<noteq> cx_base_snapshot (cs_change_set s) \<or>
          cs_result_snapshot s \<noteq> cx_result_snapshot (cs_change_set s)))
        (Source_Binding_Mismatch (cs_ordinal s) ''change_set.snapshots''),
      ensure (ar_format_version (cs_artifact s) = SOURCE_BUNDLE_FORMAT_VERSION)
        (Invalid_Source_Shape (cs_ordinal s) Invalid_Artifact_Version),
      ensure (\<not> (ar_change_set_id (cs_artifact s) \<noteq> cx_change_set_id (cs_change_set s) \<or>
          ar_base_snapshot (cs_artifact s) \<noteq> cs_input_snapshot s \<or>
          ar_result_snapshot (cs_artifact s) \<noteq> cs_result_snapshot s))
        (Source_Binding_Mismatch (cs_ordinal s) ''artifact''),
      ensure (length (cx_operations (cs_change_set s)) \<le> MAX_COMPOSITION_OPERATIONS)
        (Limit_Exceeded ''composition_source.operations'' MAX_COMPOSITION_OPERATIONS
          (length (cx_operations (cs_change_set s)))),
      validate_source_operations s,
      validate_source_result_material s]"

definition validate_source_without_identity ::
  "(string \<Rightarrow> string) \<Rightarrow> composition_codec \<Rightarrow> 'a composition_source_fields_scheme \<Rightarrow>
     composition_result" where
  "validate_source_without_identity sha cd s = seq
     [validate_source_shape s,
      bind_ok (map_err (canonical_contract_error ''composition_source.operations'')
          (operations_digest sha cd (cs_change_set s)))
        (\<lambda>d. ensure (cs_ordered_operations_digest s = d)
          (Source_Digest_Mismatch (cs_ordinal s) Ordered_Operations_Digest
            (cs_ordered_operations_digest s) d)),
      bind_ok (map_err (canonical_contract_error ''composition_source.endpoints'')
          (endpoints_digest sha cd (cs_change_set s)))
        (\<lambda>d. ensure (cs_touched_endpoints_digest s = d)
          (Source_Digest_Mismatch (cs_ordinal s) Touched_Endpoints_Digest
            (cs_touched_endpoints_digest s) d))]"

definition compute_source_identity ::
  "(string \<Rightarrow> string) \<Rightarrow> composition_codec \<Rightarrow> composition_source \<Rightarrow> composition_conflict + digest" where
  "compute_source_identity sha cd s =
     composition_digest sha (cc_source_fields cd) ''composition_source''
       (domain_label ''application-composition-source'') (composition_source_fields.truncate s)"

definition validate_composition_source ::
  "(string \<Rightarrow> string) \<Rightarrow> composition_codec \<Rightarrow> composition_source \<Rightarrow> composition_result" where
  "validate_composition_source sha cd s = seq
     [validate_source_without_identity sha cd s,
      bind_ok (compute_source_identity sha cd s)
        (\<lambda>computed. ensure (cs_source_identity s = computed)
          (Source_Digest_Mismatch (cs_ordinal s) Source_Identity (cs_source_identity s) computed)),
      require_canonical_len (cc_source cd) ''composition_source'' s
        MAX_COMPOSITION_CANONICAL_INPUT_BYTES]"

end
