(* ===== verification/Composition_Replay.thy ===== *)
theory Composition_Replay
  imports Composition
begin

text \<open>
  \<open>application_composition.rs\<close>, the derivation: sources are replayed in order over the base
  projection, the difference of the first and the last state becomes one canonical aggregate change
  set, the aggregate is replayed over the base again, and the plan records the result. The \<open>&mut\<close>
  state of the code is passed and returned; on an error the code discards it.
\<close>

section \<open>States\<close>

record result_origin =
  or_source_ordinal :: u32
  or_source_artifact_digest :: digest

record replay_endpoint =
  ep_content_digest :: digest
  ep_byte_length :: u64
  ep_unix_mode :: u32
  ep_origin :: "result_origin option"

record replay_state =
  rp_files :: "(string, replay_endpoint) btree"
  rp_directories :: "string bset"

definition replay_state_from_base :: "base_projection \<Rightarrow> replay_state" where
  "replay_state_from_base b =
     \<lparr>rp_files = bt_collect (map (\<lambda>f. (bf_path f,
        \<lparr>ep_content_digest = bf_content_digest f, ep_byte_length = bf_byte_length f,
         ep_unix_mode = bf_unix_mode f, ep_origin = None\<rparr>)) (bp_files b)),
      rp_directories = bs_collect (bp_directories b)\<rparr>"

definition state_manifest_entries :: "(string, replay_endpoint) btree \<Rightarrow> manifest_entry list" where
  "state_manifest_entries files = map (\<lambda>(p, e).
     \<lparr>me_path = p, me_content_digest = ep_content_digest e, me_byte_length = ep_byte_length e,
      me_unix_mode = ep_unix_mode e\<rparr>) files"

definition replay_state_snapshot ::
  "(string \<Rightarrow> string) \<Rightarrow> replay_state \<Rightarrow> composition_conflict + digest" where
  "replay_state_snapshot sha s =
     map_err (manifest_conflict ''composition.replayed_workspace_manifest'')
       (compute_workspace_manifest_digest sha (state_manifest_entries (rp_files s)))"

section \<open>One operation\<close>

text \<open>A descendant of a path, if there is one, is the first entry of \<open>range(prefix..)\<close>.\<close>

definition starts_with :: "string \<Rightarrow> string \<Rightarrow> bool" where
  "starts_with s p \<longleftrightarrow> take (length p) s = p"

definition present_file_collision :: "(string, replay_endpoint) btree \<Rightarrow> string \<Rightarrow> string option" where
  "present_file_collision files p =
     (case find (\<lambda>a. bt_get files a \<noteq> None) (path_ancestors p) of
        Some a \<Rightarrow> Some a
      | None \<Rightarrow>
          (case bt_first_from files (p @ ''/'') of
             Some (candidate, _) \<Rightarrow>
               if starts_with candidate (p @ ''/'') then Some candidate else None
           | None \<Rightarrow> None))"

definition require_create_absent :: "u32 option \<Rightarrow> string \<Rightarrow> replay_state \<Rightarrow> composition_result" where
  "require_create_absent ordinal p s = seq
     [ensure (bt_get (rp_files s) p = None) (Create_Over_Present ordinal p Regular_File),
      ensure (\<not> bs_mem p (rp_directories s)) (Create_Over_Present ordinal p Directory),
      (case present_file_collision (rp_files s) p of
         Some conflicting \<Rightarrow> Inl (File_Ancestor_Collision ordinal p conflicting)
       | None \<Rightarrow> Inr ())]"

fun add_directories ::
  "u32 option \<Rightarrow> string \<Rightarrow> (string, replay_endpoint) btree \<Rightarrow> string list \<Rightarrow> string bset \<Rightarrow>
     composition_conflict + string bset" where
  "add_directories ordinal p files [] dirs = Inr dirs"
| "add_directories ordinal p files (a # as) dirs =
     (if bt_get files a \<noteq> None then Inl (File_Ancestor_Collision ordinal p a)
      else let dirs' = bs_insert a dirs in
        if length dirs' > MAX_MANIFEST_ENTRIES
        then Inl (Limit_Exceeded ''composition.directory_state'' MAX_MANIFEST_ENTRIES (length dirs'))
        else add_directories ordinal p files as dirs')"

definition ensure_parent_directories ::
  "u32 option \<Rightarrow> string \<Rightarrow> replay_state \<Rightarrow> composition_conflict + replay_state" where
  "ensure_parent_directories ordinal p s =
     bind_ok (add_directories ordinal p (rp_files s) (path_ancestors p) (rp_directories s))
       (\<lambda>dirs. Inr (s\<lparr>rp_directories := dirs\<rparr>))"

text \<open>
  What the arms of \<open>Modify\<close> and \<open>Delete\<close> do before they change the state: no directory may be
  there, a file must be, and its content must be the base of the operation.
\<close>

definition endpoint_with_base ::
  "(u32 option \<Rightarrow> string \<Rightarrow> endpoint_kind option \<Rightarrow> composition_conflict) \<Rightarrow> u32 option \<Rightarrow>
     string \<Rightarrow> digest \<Rightarrow> replay_state \<Rightarrow> composition_conflict + replay_endpoint" where
  "endpoint_with_base invalid ordinal p base_hash s =
     (if bs_mem p (rp_directories s) then Inl (invalid ordinal p (Some Directory))
      else case bt_get (rp_files s) p of
        None \<Rightarrow> Inl (invalid ordinal p None)
      | Some e \<Rightarrow>
          if ep_content_digest e \<noteq> base_hash
          then Inl (Base_Hash_Mismatch ordinal p base_hash (ep_content_digest e))
          else Inr e)"

definition source_origin :: "u32 \<Rightarrow> result_material \<Rightarrow> result_origin" where
  "source_origin ordinal m = \<lparr>or_source_ordinal = ordinal,
     or_source_artifact_digest = rm_source_artifact_digest m\<rparr>"

fun replay_source_operation ::
  "u32 \<Rightarrow> text_operation \<Rightarrow> result_material option \<Rightarrow> replay_state \<Rightarrow>
     composition_conflict + replay_state" where
  "replay_source_operation ordinal (Create_At path result_hash) material s =
     bind_ok (portable_operation_path (Some ordinal) path) (\<lambda>p.
     bind_ok (require_create_absent (Some ordinal) p s) (\<lambda>_.
     bind_ok (ensure_parent_directories (Some ordinal) p s) (\<lambda>s'.
       case material of
         None \<Rightarrow> Inl (Composition_Panic ''validated create material exists'')
       | Some m \<Rightarrow>
           (case rm_operation_kind m of
              Modify_Material \<Rightarrow> Inl (Composition_Panic ''validated create material kind'')
            | Create_Material unix_mode \<Rightarrow>
                Inr (s'\<lparr>rp_files := bt_insert p
                  \<lparr>ep_content_digest = result_hash, ep_byte_length = rm_byte_length m,
                   ep_unix_mode = unix_mode, ep_origin = Some (source_origin ordinal m)\<rparr>
                  (rp_files s')\<rparr>)))))"
| "replay_source_operation ordinal (Modify_At path base_hash result_hash) material s =
     bind_ok (portable_operation_path (Some ordinal) path) (\<lambda>p.
     bind_ok (endpoint_with_base Modify_Over_Invalid_Endpoint (Some ordinal) p base_hash s) (\<lambda>e.
       case material of
         None \<Rightarrow> Inl (Composition_Panic ''validated modify material exists'')
       | Some m \<Rightarrow>
           Inr (s\<lparr>rp_files := bt_insert p
             (e\<lparr>ep_content_digest := result_hash, ep_byte_length := rm_byte_length m,
                ep_origin := Some (source_origin ordinal m)\<rparr>) (rp_files s)\<rparr>)))"
| "replay_source_operation ordinal (Delete_At path base_hash) material s =
     bind_ok (portable_operation_path (Some ordinal) path) (\<lambda>p.
     bind_ok (endpoint_with_base Delete_Over_Invalid_Endpoint (Some ordinal) p base_hash s) (\<lambda>_.
       Inr (s\<lparr>rp_files := bt_remove p (rp_files s)\<rparr>)))"

fun replay_source_loop ::
  "u32 \<Rightarrow> text_operation list \<Rightarrow> result_material list \<Rightarrow> replay_state \<Rightarrow>
     composition_conflict + replay_state" where
  "replay_source_loop ordinal [] ms s = Inr s"
| "replay_source_loop ordinal (op # ops) ms s =
     (if is_delete op
      then bind_ok (replay_source_operation ordinal op None s) (replay_source_loop ordinal ops ms)
      else case ms of
        [] \<Rightarrow> Inl (Composition_Panic ''index out of bounds: result_material'')
      | m # ms' \<Rightarrow>
          bind_ok (replay_source_operation ordinal op (Some m) s)
            (replay_source_loop ordinal ops ms'))"

definition replay_source ::
  "composition_source \<Rightarrow> replay_state \<Rightarrow> composition_conflict + replay_state" where
  "replay_source c s =
     replay_source_loop (cs_ordinal c) (cx_operations (cs_change_set c)) (cs_result_material c) s"

section \<open>The aggregate\<close>

definition next_operation_index :: "text_operation list \<Rightarrow> composition_conflict + u32" where
  "next_operation_index ops = ok_or (u32_try_from (length ops))
     (Limit_Exceeded ''composition.aggregate_operations'' MAX_COMPOSITION_OPERATIONS (length ops))"

definition require_origin :: "u32 \<Rightarrow> replay_endpoint \<Rightarrow> composition_conflict + result_origin" where
  "require_origin index e =
     ok_or (ep_origin e) (Result_Material_Mismatch None (Some index) ''aggregate_origin'')"

definition aggregate_material_of ::
  "u32 \<Rightarrow> string \<Rightarrow> replay_endpoint \<Rightarrow> u32 option \<Rightarrow> result_origin \<Rightarrow> aggregate_material" where
  "aggregate_material_of index p e mode origin =
     \<lparr>gm_operation_index = index, gm_path = p, gm_result_digest = ep_content_digest e,
      gm_byte_length = ep_byte_length e, gm_create_mode = mode,
      gm_source_ordinal = or_source_ordinal origin,
      gm_source_artifact_digest = or_source_artifact_digest origin\<rparr>"

text \<open>
  One path of the union, with the operations and the material pushed so far.
\<close>

definition derive_path ::
  "replay_state \<Rightarrow> replay_state \<Rightarrow> string \<Rightarrow> text_operation list \<times> aggregate_material list \<Rightarrow>
     composition_conflict + text_operation list \<times> aggregate_material list" where
  "derive_path base result p acc = (case acc of (ops, ms) \<Rightarrow>
     (case (bt_get (rp_files base) p, bt_get (rp_files result) p) of
        (None, Some r) \<Rightarrow>
          bind_ok (next_operation_index ops) (\<lambda>index.
          bind_ok (require_origin index r) (\<lambda>origin.
            Inr (ops @ [Create_At p (ep_content_digest r)],
                 ms @ [aggregate_material_of index p r (Some (ep_unix_mode r)) origin])))
      | (Some b, Some r) \<Rightarrow>
          if ep_unix_mode b \<noteq> ep_unix_mode r
          then Inl (Unrepresentable_Mode_Transition p (ep_unix_mode b) (ep_unix_mode r))
          else if ep_content_digest b = ep_content_digest r
          then (if ep_byte_length b \<noteq> ep_byte_length r
                then Inl (Unrepresentable_Length_Transition p (ep_content_digest b)
                       (ep_byte_length b) (ep_byte_length r))
                else Inr (ops, ms))
          else
            bind_ok (next_operation_index ops) (\<lambda>index.
            bind_ok (require_origin index r) (\<lambda>origin.
              Inr (ops @ [Modify_At p (ep_content_digest b) (ep_content_digest r)],
                   ms @ [aggregate_material_of index p r None origin])))
      | (Some b, None) \<Rightarrow> Inr (ops @ [Delete_At p (ep_content_digest b)], ms)
      | (None, None) \<Rightarrow> Inl (Composition_Panic ''path union contains an endpoint'')))"

fun derive_paths ::
  "replay_state \<Rightarrow> replay_state \<Rightarrow> string list \<Rightarrow> text_operation list \<times> aggregate_material list \<Rightarrow>
     composition_conflict + text_operation list \<times> aggregate_material list" where
  "derive_paths base result [] acc = Inr acc"
| "derive_paths base result (p # ps) acc =
     bind_ok (derive_path base result p acc) (derive_paths base result ps)"

definition union_paths :: "replay_state \<Rightarrow> replay_state \<Rightarrow> string list" where
  "union_paths base result =
     bs_elems (bs_collect (map fst (rp_files base) @ map fst (rp_files result)))"

definition derive_aggregate ::
  "replay_state \<Rightarrow> replay_state \<Rightarrow>
     composition_conflict + text_operation list \<times> aggregate_material list" where
  "derive_aggregate base result = derive_paths base result (union_paths base result) ([], [])"

definition aggregate_origin :: "aggregate_material \<Rightarrow> result_origin" where
  "aggregate_origin m = \<lparr>or_source_ordinal = gm_source_ordinal m,
     or_source_artifact_digest = gm_source_artifact_digest m\<rparr>"

text \<open>The loop of \<open>replay_aggregate\<close>; the material still to be read is a suffix, as above.\<close>

fun replay_aggregate_loop ::
  "text_operation list \<Rightarrow> aggregate_material list \<Rightarrow> replay_state \<Rightarrow>
     composition_conflict + replay_state" where
  "replay_aggregate_loop [] ms s = Inr s"
| "replay_aggregate_loop (Create_At path result_hash # ops) ms s =
     bind_ok (portable_operation_path None path) (\<lambda>p.
     bind_ok (require_create_absent None p s) (\<lambda>_.
     bind_ok (ensure_parent_directories None p s) (\<lambda>s'.
       case ms of
         [] \<Rightarrow> Inl (Composition_Panic ''index out of bounds: materials'')
       | m # ms' \<Rightarrow>
           (case gm_create_mode m of
              None \<Rightarrow> Inl (Composition_Panic ''validated create mode'')
            | Some unix_mode \<Rightarrow>
                replay_aggregate_loop ops ms' (s'\<lparr>rp_files := bt_insert p
                  \<lparr>ep_content_digest = result_hash, ep_byte_length = gm_byte_length m,
                   ep_unix_mode = unix_mode, ep_origin = Some (aggregate_origin m)\<rparr>
                  (rp_files s')\<rparr>)))))"
| "replay_aggregate_loop (Modify_At path base_hash result_hash # ops) ms s =
     bind_ok (portable_operation_path None path) (\<lambda>p.
     bind_ok (endpoint_with_base Modify_Over_Invalid_Endpoint None p base_hash s) (\<lambda>e.
       case ms of
         [] \<Rightarrow> Inl (Composition_Panic ''index out of bounds: materials'')
       | m # ms' \<Rightarrow>
           replay_aggregate_loop ops ms' (s\<lparr>rp_files := bt_insert p
             (e\<lparr>ep_content_digest := result_hash, ep_byte_length := gm_byte_length m,
                ep_origin := Some (aggregate_origin m)\<rparr>) (rp_files s)\<rparr>)))"
| "replay_aggregate_loop (Delete_At path base_hash # ops) ms s =
     bind_ok (portable_operation_path None path) (\<lambda>p.
     bind_ok (endpoint_with_base Delete_Over_Invalid_Endpoint None p base_hash s) (\<lambda>_.
       replay_aggregate_loop ops ms (s\<lparr>rp_files := bt_remove p (rp_files s)\<rparr>)))"

definition replay_aggregate ::
  "replay_state \<Rightarrow> text_operation list \<Rightarrow> aggregate_material list \<Rightarrow>
     composition_conflict + replay_state" where
  "replay_aggregate base ops ms = replay_aggregate_loop ops ms base"

section \<open>Comparing states\<close>

fun same_optional_file_endpoint ::
  "replay_endpoint option \<Rightarrow> replay_endpoint option \<Rightarrow> bool" where
  "same_optional_file_endpoint (Some l) (Some r) =
     (ep_content_digest l = ep_content_digest r \<and> ep_byte_length l = ep_byte_length r \<and>
      ep_unix_mode l = ep_unix_mode r)"
| "same_optional_file_endpoint None None = True"
| "same_optional_file_endpoint _ _ = False"

definition same_file_endpoints ::
  "(string, replay_endpoint) btree \<Rightarrow> (string, replay_endpoint) btree \<Rightarrow> bool" where
  "same_file_endpoints left right \<longleftrightarrow> length left = length right \<and>
     list_all (\<lambda>(p, e). same_optional_file_endpoint (Some e) (bt_get right p)) left"

definition first_file_state_difference ::
  "(string, replay_endpoint) btree \<Rightarrow> (string, replay_endpoint) btree \<Rightarrow> string option" where
  "first_file_state_difference left right =
     find (\<lambda>p. \<not> same_optional_file_endpoint (bt_get left p) (bt_get right p))
       (map fst left @ map fst right)"

section \<open>Bounds and shapes of a plan\<close>

fun blob_lengths ::
  "(digest, u64) btree \<Rightarrow> aggregate_material list \<Rightarrow> composition_conflict + (digest, u64) btree" where
  "blob_lengths blobs [] = Inr blobs"
| "blob_lengths blobs (m # ms) =
     bind_ok (insert_blob_length blobs (gm_result_digest m) (gm_byte_length m))
       (\<lambda>blobs'. blob_lengths blobs' ms)"

definition validate_aggregate_bounds ::
  "text_operation list \<Rightarrow> aggregate_material list \<Rightarrow> composition_result" where
  "validate_aggregate_bounds ops ms =
     bind_ok (seq
       [ensure (length ops \<le> MAX_COMPOSITION_OPERATIONS)
          (Limit_Exceeded ''composition.aggregate_operations'' MAX_COMPOSITION_OPERATIONS (length ops)),
        ensure (length ms \<le> MAX_COMPOSITION_OPERATIONS)
          (Limit_Exceeded ''composition.aggregate_blobs'' MAX_COMPOSITION_OPERATIONS (length ms))])
       (\<lambda>_. bind_ok (blob_lengths [] ms)
       (\<lambda>blobs. bind_ok (checked_blob_total ''composition.aggregate_blob_bytes'' blobs)
       (\<lambda>total_bytes. ensure (total_bytes \<le> MAX_COMPOSITION_TOTAL_BYTES)
          (Byte_Limit_Exceeded ''composition.aggregate_blob_bytes'' MAX_COMPOSITION_TOTAL_BYTES
            total_bytes))))"

fun aggregate_order_loop :: "string option \<Rightarrow> text_operation list \<Rightarrow> composition_result" where
  "aggregate_order_loop previous [] = Inr ()"
| "aggregate_order_loop previous (op # ops) =
     bind_ok (portable_operation_path None (at_path op)) (\<lambda>p. seq
       [(case previous of
           None \<Rightarrow> Inr ()
         | Some prior \<Rightarrow> ensure (prior < p)
             (Non_Canonical_Path_Order ''composition.aggregate_operations'' prior p)),
        aggregate_order_loop (Some p) ops])"

definition validate_aggregate_operation_order :: "text_operation list \<Rightarrow> composition_result" where
  "validate_aggregate_operation_order ops = aggregate_order_loop None ops"

fun mode_shape :: "text_operation \<Rightarrow> u32 option \<Rightarrow> bool" where
  "mode_shape (Create_At p r) mode = (case mode of Some m \<Rightarrow> m AND NOT 511 = 0 | None \<Rightarrow> False)"
| "mode_shape (Modify_At p b r) mode = (mode = None)"
| "mode_shape (Delete_At p b) mode = False"

fun aggregate_material_loop ::
  "nat \<Rightarrow> nat \<Rightarrow> text_operation list \<Rightarrow> aggregate_material list \<Rightarrow> composition_result" where
  "aggregate_material_loop n i [] ms =
     ensure (ms = []) (Result_Material_Mismatch None None ''unexpected_aggregate_material'')"
| "aggregate_material_loop n i (op # ops) ms =
     (if is_delete op then aggregate_material_loop n (Suc i) ops ms
      else bind_ok (ok_or (u32_try_from i) (Limit_Exceeded ''composition.aggregate_operations''
             MAX_COMPOSITION_OPERATIONS n))
        (\<lambda>index. case ms of
           [] \<Rightarrow> Inl (Result_Material_Mismatch None (Some index) ''missing_aggregate_material'')
         | m # ms' \<Rightarrow>
             bind_ok (portable_operation_path None (at_path op)) (\<lambda>p. seq
               [ensure (\<not> (gm_operation_index m \<noteq> index \<or> gm_path m \<noteq> p \<or>
                    gm_result_digest m \<noteq> at_result op \<or> \<not> mode_shape op (gm_create_mode m)))
                  (Result_Material_Mismatch None (Some index) ''aggregate_material_relationship''),
                ensure (gm_byte_length m \<le> MAX_COMPOSITION_FILE_BYTES)
                  (Byte_Limit_Exceeded ''composition.aggregate_material.byte_length''
                    MAX_COMPOSITION_FILE_BYTES (gm_byte_length m)),
                aggregate_material_loop n (Suc i) ops ms'])))"

definition validate_aggregate_result_material ::
  "text_operation list \<Rightarrow> aggregate_material list \<Rightarrow> composition_result" where
  "validate_aggregate_result_material ops ms = aggregate_material_loop (length ops) 0 ops ms"

fun directory_state_loop :: "string set \<Rightarrow> string option \<Rightarrow> string list \<Rightarrow> composition_result" where
  "directory_state_loop directory_set previous [] = Inr ()"
| "directory_state_loop directory_set previous (d # ds) = seq
     [validate_portable_path None d,
      (case previous of
         None \<Rightarrow> Inr ()
       | Some prior \<Rightarrow> ensure (prior < d)
           (Non_Canonical_Path_Order ''composition.final_directories'' prior d)),
      seq (map (\<lambda>a. ensure (a \<in> directory_set) (Incomplete_Directory_Projection d a))
        (path_ancestors d)),
      directory_state_loop directory_set (Some d) ds]"

definition validate_directory_state :: "string list \<Rightarrow> composition_result" where
  "validate_directory_state ds = seq
     [ensure (length ds \<le> MAX_MANIFEST_ENTRIES)
        (Limit_Exceeded ''composition.final_directories'' MAX_MANIFEST_ENTRIES (length ds)),
      ensure (card (set ds) = length ds)
        (Non_Canonical_Path_Order ''composition.final_directories'' ''<duplicate>'' ''<duplicate>''),
      directory_state_loop (set ds) None ds]"

end
