(* ===== verification/Composition_Derive.thy ===== *)
theory Composition_Derive
  imports Composition_Replay
begin

text \<open>
  \<open>derive_non_authorizing_application_composition_v2\<close>: coverage and identity of the sources, their
  replay against the chain of snapshots, the aggregate, and the plan with its record.
\<close>

section \<open>Digests of a plan\<close>

definition compute_result_material_digest ::
  "(string \<Rightarrow> string) \<Rightarrow> composition_codec \<Rightarrow> aggregate_material list \<Rightarrow>
     composition_conflict + digest" where
  "compute_result_material_digest sha cd ms =
     composition_digest sha (cc_material cd) ''composition_result_material''
       (domain_label ''application-composition-result-material'') ms"

definition compute_directory_state_digest ::
  "(string \<Rightarrow> string) \<Rightarrow> composition_codec \<Rightarrow> string list \<Rightarrow> composition_conflict + digest" where
  "compute_directory_state_digest sha cd ds =
     composition_digest sha (cc_directories cd) ''composition_directory_state''
       (domain_label ''application-composition-directory-state'') ds"

definition compute_derivation_record_digest ::
  "(string \<Rightarrow> string) \<Rightarrow> composition_codec \<Rightarrow> 'a derivation_record_fields_scheme \<Rightarrow>
     composition_conflict + digest" where
  "compute_derivation_record_digest sha cd r =
     composition_digest sha (cc_record_fields cd) ''composition_derivation_record''
       (domain_label ''application-composition-derivation-record'')
       (derivation_record_fields.truncate r)"

definition compute_aggregate_change_set_id_from_fields ::
  "(string \<Rightarrow> string) \<Rightarrow> composition_codec \<Rightarrow> u32 \<Rightarrow> string \<Rightarrow> digest \<Rightarrow> digest \<Rightarrow> digest \<Rightarrow>
     text_operation list \<Rightarrow> composition_conflict + digest" where
  "compute_aggregate_change_set_id_from_fields sha cd version sprint_id base result sources ops =
     composition_digest sha (cc_change_set_id cd) ''composition_change_set_id''
       (domain_label ''application-composition-change-set'')
       \<lparr>cq_composer_version = version, cq_sprint_id = sprint_id, cq_base_snapshot = base,
        cq_result_snapshot = result, cq_source_set_digest = sources, cq_operations = ops\<rparr>"

definition compute_aggregate_change_set_id ::
  "(string \<Rightarrow> string) \<Rightarrow> composition_codec \<Rightarrow> composition_inputs \<Rightarrow> text_operation list \<Rightarrow>
     composition_conflict + digest" where
  "compute_aggregate_change_set_id sha cd i ops =
     compute_aggregate_change_set_id_from_fields sha cd (ci_composer_version i) (ci_sprint_id i)
       (ci_base_snapshot i) (ci_result_snapshot i) (ci_source_set_digest i) ops"

section \<open>Integrity of a plan\<close>

definition record_mismatch :: "string \<Rightarrow> composition_conflict" where
  "record_mismatch field = Derivation_Record_Mismatch field"

definition validate_derivation_record ::
  "(string \<Rightarrow> string) \<Rightarrow> composition_codec \<Rightarrow> derivation_record \<Rightarrow> composition_result" where
  "validate_derivation_record sha cd r = seq
     [require_composer_version ''derivation_record.composer_version'' (dv_composer_version r),
      require_identifier ''derivation_record.sprint_id'' (dv_sprint_id r),
      require_identifier ''derivation_record.aggregate_change_set_id'' (dv_aggregate_change_set_id r),
      validate_final_verification_binding (dv_final_verification r),
      ensure (fb_snapshot (dv_final_verification r) = dv_result_snapshot r)
        (record_mismatch ''final_verification.snapshot''),
      ensure (dv_aggregate_no_op r = (dv_base_snapshot r = dv_result_snapshot r))
        (record_mismatch ''aggregate_no_op''),
      bind_ok (compute_derivation_record_digest sha cd r) (\<lambda>computed.
        ensure (dv_record_digest r = computed) (record_mismatch ''record_digest''))]"

definition validate_composition_plan ::
  "(string \<Rightarrow> string) \<Rightarrow> composition_codec \<Rightarrow> composition_plan \<Rightarrow> composition_result" where
  "validate_composition_plan sha cd p =
     (let c = pl_change_set p; r = pl_derivation_record p; ops = cx_operations c in
      bind_ok (seq
        [map_err (\<lambda>_. record_mismatch ''change_set'') (validate_change_set (change_set_of c)),
         validate_aggregate_operation_order ops,
         validate_aggregate_result_material ops (pl_result_material p),
         validate_aggregate_bounds ops (pl_result_material p),
         validate_directory_state (pl_final_directories p),
         validate_derivation_record sha cd r,
         ensure (\<not> (cx_change_set_id c \<noteq> dv_aggregate_change_set_id r \<or>
             cx_base_snapshot c \<noteq> dv_base_snapshot r \<or>
             cx_result_snapshot c \<noteq> dv_result_snapshot r \<or>
             (ops = []) \<noteq> dv_aggregate_no_op r))
           (record_mismatch ''change_set_relationship'')])
      (\<lambda>_. bind_ok (map_err (canonical_contract_error ''composition.operations'')
             (operations_digest sha cd c))
      (\<lambda>operations. bind_ok (map_err (canonical_contract_error ''composition.endpoints'')
             (endpoints_digest sha cd c))
      (\<lambda>endpoints. bind_ok (compute_result_material_digest sha cd (pl_result_material p))
      (\<lambda>material. bind_ok (compute_directory_state_digest sha cd (pl_final_directories p))
      (\<lambda>directories. seq
        [ensure (operations = dv_aggregate_operations_digest r)
           (record_mismatch ''aggregate_operations_digest''),
         ensure (endpoints = dv_aggregate_touched_endpoints_digest r)
           (record_mismatch ''aggregate_touched_endpoints_digest''),
         ensure (material = dv_aggregate_result_material_digest r)
           (record_mismatch ''aggregate_result_material_digest''),
         ensure (directories = dv_final_directory_state_digest r)
           (record_mismatch ''final_directory_state_digest''),
         bind_ok (compute_aggregate_change_set_id_from_fields sha cd (dv_composer_version r)
             (dv_sprint_id r) (dv_base_snapshot r) (dv_result_snapshot r) (dv_source_set_digest r)
             ops)
           (\<lambda>d. ensure (digest_str d = cx_change_set_id c)
             (record_mismatch ''aggregate_change_set_id''))]))))))"

section \<open>Coverage and replay of the sources\<close>

fun sum_canonical_lens ::
  "composition_codec \<Rightarrow> nat \<Rightarrow> composition_source list \<Rightarrow> composition_conflict + nat" where
  "sum_canonical_lens cd acc [] = Inr acc"
| "sum_canonical_lens cd acc (s # ss) =
     bind_ok (canonical_len (cc_source cd) ''composition_source'' s) (\<lambda>len.
     bind_ok (checked_add_usize ''composition.canonical_input_bytes'' acc len)
       (\<lambda>acc'. sum_canonical_lens cd acc' ss))"

definition validate_complete_input_bounds ::
  "composition_codec \<Rightarrow> composition_inputs \<Rightarrow> base_projection \<Rightarrow> composition_source list \<Rightarrow>
     composition_result" where
  "validate_complete_input_bounds cd i b ss =
     bind_ok (ensure (length ss \<le> MAX_COMPOSITION_SOURCES)
         (Limit_Exceeded ''composition.sources'' MAX_COMPOSITION_SOURCES (length ss)))
       (\<lambda>_. bind_ok (canonical_len (cc_inputs cd) ''composition_inputs'' i)
       (\<lambda>inputs_len. bind_ok (canonical_len (cc_base cd) ''base_projection'' b)
       (\<lambda>base_len. bind_ok
           (checked_add_usize ''composition.canonical_input_bytes'' inputs_len base_len)
       (\<lambda>n. bind_ok (sum_canonical_lens cd n ss)
       (\<lambda>canonical_bytes. ensure (canonical_bytes \<le> MAX_COMPOSITION_CANONICAL_INPUT_BYTES)
           (Limit_Exceeded ''composition.canonical_input_bytes''
             MAX_COMPOSITION_CANONICAL_INPUT_BYTES canonical_bytes))))))"

record source_members =
  sm_task_ids :: "string set"
  sm_attempt_ids :: "string set"
  sm_task_done_ids :: "string set"
  sm_integration_receipt_ids :: "string set"

definition no_members :: source_members where
  "no_members = \<lparr>sm_task_ids = {}, sm_attempt_ids = {}, sm_task_done_ids = {},
     sm_integration_receipt_ids = {}\<rparr>"

definition add_members :: "composition_source \<Rightarrow> source_members \<Rightarrow> source_members" where
  "add_members s m = \<lparr>sm_task_ids = insert (cs_task_id s) (sm_task_ids m),
     sm_attempt_ids = insert (cs_attempt_id s) (sm_attempt_ids m),
     sm_task_done_ids = insert (cs_task_done_proof_id s) (sm_task_done_ids m),
     sm_integration_receipt_ids =
       insert (cs_integration_receipt_id s) (sm_integration_receipt_ids m)\<rparr>"

definition require_unique_source_member :: "string set \<Rightarrow> string \<Rightarrow> string \<Rightarrow> composition_result" where
  "require_unique_source_member values field v =
     ensure (v \<notin> values) (Duplicate_Source_Member field v)"

text \<open>
  The body of the loop for the source at \<open>index\<close>: \<open>n\<close> is the number of sources, \<open>admitted\<close> the
  identity admitted for it, \<open>expected\<close> the snapshot so far and \<open>current\<close> the state.
\<close>

definition derive_source ::
  "(string \<Rightarrow> string) \<Rightarrow> composition_codec \<Rightarrow> nat \<Rightarrow> nat \<Rightarrow> digest \<Rightarrow> source_members \<Rightarrow> digest \<Rightarrow>
     replay_state \<Rightarrow> composition_source \<Rightarrow> composition_conflict + replay_state" where
  "derive_source sha cd n index admitted members expected current s =
     bind_ok (ok_or (u32_try_from index)
         (Limit_Exceeded ''composition.sources'' MAX_COMPOSITION_SOURCES n))
       (\<lambda>ordinal. bind_ok (seq
         [ensure (cs_ordinal s = ordinal) (Source_Ordinal_Mismatch ordinal (cs_ordinal s)),
          validate_composition_source sha cd s,
          ensure (cs_source_identity s = admitted)
            (Source_Coverage_Identity_Mismatch ordinal admitted (cs_source_identity s)),
          require_unique_source_member (sm_task_ids members) ''task_id'' (cs_task_id s),
          require_unique_source_member (sm_attempt_ids members) ''attempt_id'' (cs_attempt_id s),
          require_unique_source_member (sm_task_done_ids members) ''task_done_proof_id''
            (cs_task_done_proof_id s),
          require_unique_source_member (sm_integration_receipt_ids members)
            ''integration_receipt_id'' (cs_integration_receipt_id s),
          ensure (cs_input_snapshot s = expected)
            (Snapshot_Chain_Mismatch (Some ordinal) expected (cs_input_snapshot s))])
       (\<lambda>_. bind_ok (replay_source s current)
       (\<lambda>current'. bind_ok (replay_state_snapshot sha current')
       (\<lambda>computed. if computed \<noteq> cs_result_snapshot s
         then Inl (Source_Result_Snapshot_Digest_Mismatch ordinal (cs_result_snapshot s) computed)
         else Inr current'))))"

fun derive_sources ::
  "(string \<Rightarrow> string) \<Rightarrow> composition_codec \<Rightarrow> nat \<Rightarrow> nat \<Rightarrow> digest list \<Rightarrow> source_members \<Rightarrow>
     digest \<Rightarrow> replay_state \<Rightarrow> composition_source list \<Rightarrow>
     composition_conflict + digest \<times> replay_state" where
  "derive_sources sha cd n index identities members expected current [] = Inr (expected, current)"
| "derive_sources sha cd n index [] members expected current (s # ss) =
     Inl (Composition_Panic ''index out of bounds: expected_source_identities'')"
| "derive_sources sha cd n index (admitted # identities) members expected current (s # ss) =
     bind_ok (derive_source sha cd n index admitted members expected current s)
       (\<lambda>current'. derive_sources sha cd n (Suc index) identities (add_members s members)
          (cs_result_snapshot s) current' ss)"

section \<open>The derivation\<close>

definition topology_reason :: string where
  "topology_reason = ''canonical aggregate replay differs from sequential regular-file state''"

text \<open>From the replayed aggregate to the plan.\<close>

definition assemble_plan ::
  "(string \<Rightarrow> string) \<Rightarrow> composition_codec \<Rightarrow> composition_inputs \<Rightarrow> base_projection \<Rightarrow>
     text_operation list \<Rightarrow> aggregate_material list \<Rightarrow> replay_state \<Rightarrow>
     composition_conflict + composition_plan" where
  "assemble_plan sha cd i b ops ms replayed =
     bind_ok (compute_aggregate_change_set_id sha cd i ops) (\<lambda>ident.
     let c = \<lparr>cx_change_set_id = digest_str ident, cx_base_snapshot = ci_base_snapshot i,
              cx_result_snapshot = ci_result_snapshot i, cx_operations = ops\<rparr> in
     bind_ok (map_err (\<lambda>_. record_mismatch ''derived_change_set'')
         (validate_change_set (change_set_of c))) (\<lambda>_.
     bind_ok (map_err (canonical_contract_error ''composition.operations'')
         (operations_digest sha cd c)) (\<lambda>operations.
     bind_ok (map_err (canonical_contract_error ''composition.endpoints'')
         (endpoints_digest sha cd c)) (\<lambda>endpoints.
     bind_ok (compute_result_material_digest sha cd ms) (\<lambda>material.
     let final_directories = bs_elems (rp_directories replayed) in
     bind_ok (compute_directory_state_digest sha cd final_directories) (\<lambda>directories.
     let body = \<lparr>dv_composer_version = COMPOSER_VERSION, dv_sprint_id = ci_sprint_id i,
           dv_base_snapshot = ci_base_snapshot i, dv_result_snapshot = ci_result_snapshot i,
           dv_base_projection_digest = bp_projection_digest b,
           dv_source_set_digest = ci_source_set_digest i,
           dv_complete_task_done_set_digest = ci_complete_task_done_set_digest i,
           dv_final_verification = ci_final_verification i,
           dv_aggregate_change_set_id = cx_change_set_id c,
           dv_aggregate_operations_digest = operations,
           dv_aggregate_touched_endpoints_digest = endpoints,
           dv_aggregate_result_material_digest = material,
           dv_final_directory_state_digest = directories,
           dv_aggregate_no_op = (ops = [])\<rparr> in
     bind_ok (compute_derivation_record_digest sha cd body) (\<lambda>record_digest.
     let plan = \<lparr>pl_change_set = c, pl_result_material = ms,
           pl_final_directories = final_directories,
           pl_derivation_record = derivation_record_fields.extend body
             \<lparr>dv_record_digest = record_digest\<rparr>\<rparr> in
     bind_ok (validate_composition_plan sha cd plan) (\<lambda>_. Inr plan))))))))"

text \<open>From the last state to the replayed aggregate.\<close>

definition derive_plan ::
  "(string \<Rightarrow> string) \<Rightarrow> composition_codec \<Rightarrow> composition_inputs \<Rightarrow> base_projection \<Rightarrow>
     replay_state \<Rightarrow> composition_conflict + composition_plan" where
  "derive_plan sha cd i b current =
     bind_ok (derive_aggregate (replay_state_from_base b) current) (\<lambda>(ops, ms).
     bind_ok (validate_aggregate_bounds ops ms) (\<lambda>_.
     bind_ok (ensure ((ops = []) = (ci_base_snapshot i = ci_result_snapshot i))
         (Aggregate_Snapshot_Mismatch (ci_base_snapshot i) (ci_result_snapshot i) (ops = []))) (\<lambda>_.
     bind_ok (replay_aggregate (replay_state_from_base b) ops ms) (\<lambda>replayed.
     bind_ok (ensure (same_file_endpoints (rp_files replayed) (rp_files current))
         (Unrepresentable_Aggregate_Topology
           (first_file_state_difference (rp_files replayed) (rp_files current)) topology_reason)) (\<lambda>_.
       assemble_plan sha cd i b ops ms replayed)))))"

text \<open>The whole derivation.\<close>

definition derive_composition ::
  "(string \<Rightarrow> string) \<Rightarrow> composition_codec \<Rightarrow> composition_inputs \<Rightarrow> base_projection \<Rightarrow>
     composition_source list \<Rightarrow> composition_conflict + composition_plan" where
  "derive_composition sha cd i b ss =
     bind_ok (seq
       [validate_composition_inputs sha cd i,
        validate_base_projection sha cd b,
        ensure (bp_snapshot b = ci_base_snapshot i)
          (Base_Projection_Snapshot_Mismatch (ci_base_snapshot i) (bp_snapshot b)),
        ensure (length ss = length (ci_expected_source_identities i))
          (Source_Coverage_Count_Mismatch (length (ci_expected_source_identities i)) (length ss)),
        validate_complete_input_bounds cd i b ss]) (\<lambda>_.
     bind_ok (derive_sources sha cd (length ss) 0 (ci_expected_source_identities i) no_members
         (ci_base_snapshot i) (replay_state_from_base b) ss) (\<lambda>(expected, current).
     bind_ok (ensure (expected = ci_result_snapshot i)
         (Snapshot_Chain_Mismatch None (ci_result_snapshot i) expected)) (\<lambda>_.
     bind_ok (replay_state_snapshot sha current) (\<lambda>computed.
     bind_ok (ensure (computed = ci_result_snapshot i)
         (Final_Snapshot_Digest_Mismatch (ci_result_snapshot i) computed)) (\<lambda>_.
       derive_plan sha cd i b current)))))"

end
