(* ===== verification/Composition_Facts.thy ===== *)
theory Composition_Facts
  imports Composition_Derive
begin

text \<open>
  Facts about the replay of change sets: what each check of an operation means for the files and
  directories of a state, the shape that every operation keeps (files are leaves of a tree whose
  inner nodes are the directories), and what a source leaves unchanged.
\<close>

section \<open>Shared views\<close>

abbreviation file_at :: "replay_state \<Rightarrow> string \<Rightarrow> replay_endpoint option" where
  "file_at s p \<equiv> bt_get (rp_files s) p"

abbreviation dirs_of :: "replay_state \<Rightarrow> string set" where
  "dirs_of s \<equiv> bs_set (rp_directories s)"

lemma require_identifier_ok [ok_iff]:
  "require_identifier f v = Inr u \<longleftrightarrow> \<not> blank v \<and> length v \<le> MAX_COMPOSITION_IDENTIFIER_BYTES"
  by (simp add: require_identifier_def)

lemma require_composer_version_ok [ok_iff]:
  "require_composer_version f v = Inr u \<longleftrightarrow> v = COMPOSER_VERSION"
  by (simp add: require_composer_version_def)

lemma validate_portable_path_ok [ok_iff]: "validate_portable_path o' p = Inr u \<longleftrightarrow> portable p"
  by (auto simp: validate_portable_path_def portable_def list_ex_iff take1_slash)

lemma portable_operation_path_ok [ok_iff]:
  "portable_operation_path o' p = Inr q \<longleftrightarrow> utf8_valid p \<and> portable p \<and> q = p"
  by (auto simp: portable_operation_path_def ok_iff)

section \<open>The checks of one operation\<close>

lemma prefix_interval:
  "(k :: string) \<le> x \<Longrightarrow> x \<le> k @ r \<Longrightarrow> \<exists>t. x = k @ t"
proof (induction k arbitrary: x)
  case (Cons c k)
  then obtain d y where x: "x = d # y" by (cases x) auto
  with Cons.prems have "d = c" "k \<le> y" "y \<le> k @ r" by auto
  with Cons.IH show ?case by (auto simp: x)
qed simp

lemma below_descendant: "(k :: string) \<le> k @ r"
  by (induction k) auto

lemma starts_with_iff: "starts_with s k \<longleftrightarrow> (\<exists>t. s = k @ t)"
  unfolding starts_with_def by (metis append_eq_conv_conj append_take_drop_id)

lemma present_file_collision_None:
  assumes "wf_btree files"
  shows "present_file_collision files p = None \<longleftrightarrow>
    (\<forall>a\<in>set (path_ancestors p). bt_get files a = None) \<and>
    (\<forall>q. p \<in> set (path_ancestors q) \<longrightarrow> bt_get files q = None)"
proof -
  let ?k = "p @ ''/''"
  have below: "p \<in> set (path_ancestors q) \<longleftrightarrow> starts_with q ?k" for q
    by (auto simp: ancestor_iff starts_with_iff)
  have "(case bt_first_from files ?k of Some (c, _) \<Rightarrow> if starts_with c ?k then Some c else None
      | None \<Rightarrow> None) = None \<longleftrightarrow> (\<forall>q. starts_with q ?k \<longrightarrow> bt_get files q = None)"
  proof (cases "bt_first_from files ?k")
    case None
    have "q \<notin> fst ` set files" if "starts_with q ?k" for q
      using None that below_descendant [of ?k] unfolding bt_first_from_None starts_with_iff
      by (metis imageE not_le)
    with None show ?thesis by (simp add: bt_get_None_iff)
  next
    case (Some e)
    obtain c v where e: "e = (c, v)" by force
    from bt_first_from_Some [OF assms Some] have c: "(c, v) \<in> set files" "?k \<le> c"
      and least: "\<forall>e'\<in>set files. ?k \<le> fst e' \<longrightarrow> c \<le> fst e'" by (auto simp: e)
    have "starts_with c ?k" if "starts_with q ?k" "q \<in> fst ` set files" for q
    proof -
      from that obtain t where "q = ?k @ t" by (auto simp: starts_with_iff)
      moreover have "c \<le> q" using least that below_descendant [of ?k] \<open>q = ?k @ t\<close> by force
      ultimately show ?thesis using prefix_interval [OF c(2)] by (auto simp: starts_with_iff)
    qed
    moreover have "bt_get files c \<noteq> None" 
      unfolding bt_get_None_iff using c(1) by (metis fst_conv image_eqI)
    ultimately show ?thesis by (auto simp: Some e bt_get_None_iff)
  qed
  then show ?thesis
    by (auto simp: present_file_collision_def below find_None_iff split: option.splits
        dest!: find_SomeD)
qed

lemma require_create_absent_ok [ok_iff]:
  assumes "wf_btree (rp_files s)"
  shows "require_create_absent o' p s = Inr u \<longleftrightarrow> file_at s p = None \<and> p \<notin> dirs_of s \<and>
    (\<forall>a\<in>set (path_ancestors p). file_at s a = None) \<and>
    (\<forall>q. p \<in> set (path_ancestors q) \<longrightarrow> file_at s q = None)"
  using present_file_collision_None [OF assms, of p]
  by (auto simp: require_create_absent_def split: option.splits)

lemma add_directoriesD:
  assumes "add_directories o' p files as dirs = Inr dirs'" "wf_btree dirs"
  shows "wf_btree dirs' \<and> bs_set dirs' = bs_set dirs \<union> set as \<and>
    (\<forall>a\<in>set as. bt_get files a = None) \<and>
    (card (bs_set dirs) \<le> MAX_MANIFEST_ENTRIES \<longrightarrow> card (bs_set dirs') \<le> MAX_MANIFEST_ENTRIES)"
  using assms
proof (induction as arbitrary: dirs)
  case (Cons a as)
  then have "add_directories o' p files as (bs_insert a dirs) = Inr dirs'"
    and "length (bs_insert a dirs) \<le> MAX_MANIFEST_ENTRIES" "bt_get files a = None"
    by (auto simp: Let_def split: if_splits)
  with Cons.IH [OF this(1) wf_bs_insert [OF Cons.prems(2)]]
    length_bs [OF wf_bs_insert [OF Cons.prems(2)], of a]
  show ?case by auto
qed simp

lemma add_directories_succeeds:
  assumes "wf_btree dirs" "\<forall>a\<in>set as. bt_get files a = None"
    and "card (bs_set dirs \<union> set as) \<le> MAX_MANIFEST_ENTRIES" "finite (bs_set dirs)"
  shows "\<exists>dirs'. add_directories o' p files as dirs = Inr dirs'"
  using assms
proof (induction as arbitrary: dirs)
  case (Cons a as)
  have "card (insert a (bs_set dirs)) \<le> card (bs_set dirs \<union> set (a # as))"
    using Cons.prems(4) by (intro card_mono) auto
  then have "length (bs_insert a dirs) \<le> MAX_MANIFEST_ENTRIES"
    using Cons.prems(1,3) length_bs [OF wf_bs_insert [OF Cons.prems(1)], of a] by simp
  with Cons.IH [of "bs_insert a dirs"] Cons.prems show ?case by (auto simp: Let_def)
qed simp

lemma endpoint_with_base_ok [ok_iff]:
  "endpoint_with_base k o' p h s = Inr e \<longleftrightarrow>
     p \<notin> dirs_of s \<and> file_at s p = Some e \<and> ep_content_digest e = h"
  by (auto simp: endpoint_with_base_def split: option.splits)

section \<open>The shape of a state\<close>

text \<open>
  Files and directories form a tree: every ancestor of a file or of a directory is a directory, and
  no file is one. The number of directories is bounded.
\<close>

definition tree_shaped :: "replay_state \<Rightarrow> bool" where
  "tree_shaped s \<longleftrightarrow> wf_btree (rp_files s) \<and> wf_btree (rp_directories s) \<and>
     (\<forall>p. file_at s p \<noteq> None \<longrightarrow> p \<notin> dirs_of s \<and> set (path_ancestors p) \<subseteq> dirs_of s) \<and>
     (\<forall>d\<in>dirs_of s. set (path_ancestors d) \<subseteq> dirs_of s) \<and>
     card (dirs_of s) \<le> MAX_MANIFEST_ENTRIES"

lemma tree_shapedD:
  assumes "tree_shaped s"
  shows "wf_btree (rp_files s)" "wf_btree (rp_directories s)"
    "file_at s p \<noteq> None \<Longrightarrow> p \<notin> dirs_of s"
    "file_at s p \<noteq> None \<Longrightarrow> a \<in> set (path_ancestors p) \<Longrightarrow> a \<in> dirs_of s"
    "d \<in> dirs_of s \<Longrightarrow> a \<in> set (path_ancestors d) \<Longrightarrow> a \<in> dirs_of s"
    "card (dirs_of s) \<le> MAX_MANIFEST_ENTRIES"
  using assms unfolding tree_shaped_def by blast+

lemma tree_shapedI:
  assumes "wf_btree (rp_files s)" "wf_btree (rp_directories s)"
    and "\<And>p. file_at s p \<noteq> None \<Longrightarrow> p \<notin> dirs_of s"
    and "\<And>p a. file_at s p \<noteq> None \<Longrightarrow> a \<in> set (path_ancestors p) \<Longrightarrow> a \<in> dirs_of s"
    and "\<And>d a. d \<in> dirs_of s \<Longrightarrow> a \<in> set (path_ancestors d) \<Longrightarrow> a \<in> dirs_of s"
    and "card (dirs_of s) \<le> MAX_MANIFEST_ENTRIES"
  shows "tree_shaped s"
  unfolding tree_shaped_def using assms by (simp add: subset_iff)

lemma finite_dirs [simp]: "finite (dirs_of s)"
  by (simp add: bs_set_def)

text \<open>The three ways in which an operation changes a state keep its shape.\<close>

definition created :: "string \<Rightarrow> replay_endpoint \<Rightarrow> replay_state \<Rightarrow> replay_state \<Rightarrow> bool" where
  "created p e s s' \<longleftrightarrow> file_at s p = None \<and> p \<notin> dirs_of s \<and>
     (\<forall>a\<in>set (path_ancestors p). file_at s a = None) \<and>
     rp_files s' = bt_insert p e (rp_files s) \<and> wf_btree (rp_directories s') \<and>
     dirs_of s' = dirs_of s \<union> set (path_ancestors p) \<and>
     card (dirs_of s') \<le> MAX_MANIFEST_ENTRIES"

lemma tree_shaped_created:
  assumes "tree_shaped s" "created p e s s'"
  shows "tree_shaped s'"
proof (rule tree_shapedI)
  note t = tree_shapedD [OF assms(1)]
  have files: "file_at s' q = (if q = p then Some e else file_at s q)" for q
    using assms(2) by (simp add: created_def bt_get_insert [OF t(1)])
  have dirs: "dirs_of s' = dirs_of s \<union> set (path_ancestors p)"
    using assms(2) by (simp add: created_def)
  have p: "p \<notin> dirs_of s" "p \<notin> set (path_ancestors p)"
    using assms(2) ancestor_less [of p p] by (auto simp: created_def)
  show "wf_btree (rp_files s')" "wf_btree (rp_directories s')" "card (dirs_of s') \<le> MAX_MANIFEST_ENTRIES"
    using assms(2) t(1) by (auto simp: created_def wf_bt_insert)
  show "q \<notin> dirs_of s'" if "file_at s' q \<noteq> None" for q
  proof (cases "q = p")
    case False
    then have "file_at s q \<noteq> None" using that by (simp add: files)
    moreover from this have "q \<notin> set (path_ancestors p)" using assms(2) by (auto simp: created_def)
    ultimately show ?thesis using t(3) by (simp add: dirs)
  qed (use p in \<open>simp add: dirs\<close>)
  show "a \<in> dirs_of s'" if "file_at s' q \<noteq> None" "a \<in> set (path_ancestors q)" for q a
    using that t(4) [of q a] by (cases "q = p") (simp_all add: files dirs)
  show "a \<in> dirs_of s'" if "d \<in> dirs_of s'" "a \<in> set (path_ancestors d)" for d a
    using that t(5) [of d a] ancestor_trans [of a d p] by (auto simp: dirs)
qed

lemma tree_shaped_changed:
  assumes "tree_shaped s" "file_at s p \<noteq> None"
  shows "tree_shaped (s\<lparr>rp_files := bt_insert p e (rp_files s)\<rparr>)"
proof (rule tree_shapedI)
  note t = tree_shapedD [OF assms(1)]
  let ?s = "s\<lparr>rp_files := bt_insert p e (rp_files s)\<rparr>"
  have files: "file_at ?s q \<noteq> None \<longleftrightarrow> file_at s q \<noteq> None" for q
    using assms(2) by (simp add: bt_get_insert [OF t(1)])
  show "q \<notin> dirs_of ?s" if "file_at ?s q \<noteq> None" for q
    using t(3) [of q] that unfolding files by simp
  show "a \<in> dirs_of ?s" if "file_at ?s q \<noteq> None" "a \<in> set (path_ancestors q)" for q a
    using t(4) [of q a] that unfolding files by simp
  show "a \<in> dirs_of ?s" if "d \<in> dirs_of ?s" "a \<in> set (path_ancestors d)" for d a
    using t(5) [of d a] that by simp
qed (use tree_shapedD [OF assms(1)] in \<open>simp_all add: wf_bt_insert\<close>)

lemma tree_shaped_removed:
  assumes "tree_shaped s"
  shows "tree_shaped (s\<lparr>rp_files := bt_remove p (rp_files s)\<rparr>)"
proof (rule tree_shapedI)
  note t = tree_shapedD [OF assms]
  let ?s = "s\<lparr>rp_files := bt_remove p (rp_files s)\<rparr>"
  have files: "file_at ?s q \<noteq> None \<Longrightarrow> file_at s q \<noteq> None" for q
    by (simp add: bt_get_remove split: if_splits)
  show "q \<notin> dirs_of ?s" if "file_at ?s q \<noteq> None" for q
    using t(3) [OF files [OF that]] by simp
  show "a \<in> dirs_of ?s" if "file_at ?s q \<noteq> None" "a \<in> set (path_ancestors q)" for q a
    using t(4) [OF files [OF that(1)] that(2)] by simp
  show "a \<in> dirs_of ?s" if "d \<in> dirs_of ?s" "a \<in> set (path_ancestors d)" for d a
    using t(5) [of d a] that by simp
qed (use tree_shapedD [OF assms] in \<open>simp_all add: wf_bt_remove\<close>)

end
