(* ===== verification/Composition_Sources.thy ===== *)
theory Composition_Sources
  imports Composition_Facts
begin

text \<open>
  What the replay of valid sources does to a state: the shape is kept, a path that no operation
  names is unchanged, and a file that differs from the base carries as its origin the last source
  that wrote it, whose material has its digest and length.
\<close>

section \<open>Material of a valid source\<close>

text \<open>The pairing that \<open>validate_source_result_material\<close> establishes.\<close>

definition material_for ::
  "'a composition_source_fields_scheme \<Rightarrow> text_operation \<Rightarrow> result_material \<Rightarrow> bool" where
  "material_for c op m \<longleftrightarrow> rm_path m = at_path op \<and> rm_result_digest m = at_result op \<and>
     rm_source_artifact_digest m = ar_artifact_digest (cs_artifact c) \<and>
     kind_matches op (rm_operation_kind m) \<and>
     (\<forall>mode. rm_operation_kind m = Create_Material mode \<longrightarrow> mode AND NOT 511 = 0) \<and>
     rm_byte_length m \<le> MAX_COMPOSITION_FILE_BYTES"

fun paired ::
  "'a composition_source_fields_scheme \<Rightarrow> text_operation list \<Rightarrow> result_material list \<Rightarrow> bool" where
  "paired c [] ms = (ms = [])"
| "paired c (op # ops) ms =
     (if is_delete op then paired c ops ms
      else case ms of [] \<Rightarrow> False | m # ms' \<Rightarrow> material_for c op m \<and> paired c ops ms')"

lemma source_material_loop_paired:
  "source_material_loop c i blobs ops ms = Inr (blobs', []) \<Longrightarrow> paired c ops ms"
proof (induction ops arbitrary: i blobs ms)
  case (Cons op ops)
  show ?case
  proof (cases "is_delete op")
    case True
    with Cons show ?thesis by simp
  next
    case False
    with Cons.prems obtain m ms' where ms: "ms = m # ms'" by (cases ms) simp_all
    have "(\<forall>mode. k = Create_Material mode \<longrightarrow> P mode)" if "(case k of
        Create_Material mode \<Rightarrow> ensure (P mode) (f mode) | Modify_Material \<Rightarrow> Inr ()) = Inr ()"
      for k and P :: "u32 \<Rightarrow> bool" and f :: "u32 \<Rightarrow> composition_conflict"
      using that by (cases k) simp_all
    with Cons.prems Cons.IH False show ?thesis
      by (auto simp: ms Let_def bind_ok_Inr ok_iff material_for_def)
  qed
qed simp

lemma source_operations_loopD:
  "source_operations_loop k seen ops = Inr u \<Longrightarrow>
     distinct (map at_path ops) \<and> set (map at_path ops) \<inter> seen = {} \<and>
     (\<forall>op\<in>set ops. utf8_valid (at_path op) \<and> portable (at_path op))"
proof (induction ops arbitrary: seen u)
  case (Cons op ops)
  from Cons.prems have "source_operations_loop k (insert (at_path op) seen) ops = Inr ()"
    "at_path op \<notin> seen" "utf8_valid (at_path op)" "portable (at_path op)"
    by (auto simp: bind_ok_Inr ok_iff)
  with Cons.IH [OF this(1)] show ?case by auto
qed simp

lemma valid_sourceD:
  assumes "validate_composition_source sha cd c = Inr u"
  shows "paired c (cx_operations (cs_change_set c)) (cs_result_material c)"
    "distinct (map at_path (cx_operations (cs_change_set c)))"
    "op \<in> set (cx_operations (cs_change_set c)) \<Longrightarrow> utf8_valid (at_path op) \<and> portable (at_path op)"
proof -
  from assms have "validate_source_shape c = Inr ()"
    by (simp add: validate_composition_source_def validate_source_without_identity_def)
  then have ops: "validate_source_operations c = Inr ()"
    and ms: "validate_source_result_material c = Inr ()"
    by (simp_all add: validate_source_shape_def)
  from ms obtain blobs where
    "source_material_loop c 0 [] (cx_operations (cs_change_set c)) (cs_result_material c) = Inr (blobs, [])"
    unfolding validate_source_result_material_def
    by (auto simp: bind_ok_Inr split: prod.splits)
  then show "paired c (cx_operations (cs_change_set c)) (cs_result_material c)"
    by (rule source_material_loop_paired)
  from source_operations_loopD [OF ops [unfolded validate_source_operations_def]]
  show "distinct (map at_path (cx_operations (cs_change_set c)))"
    "op \<in> set (cx_operations (cs_change_set c)) \<Longrightarrow> utf8_valid (at_path op) \<and> portable (at_path op)"
    by auto
qed

section \<open>One operation\<close>

lemma ensure_parentsD:
  assumes "ensure_parent_directories o' p s = Inr s'" "tree_shaped s"
  shows "rp_files s' = rp_files s \<and> wf_btree (rp_directories s') \<and>
    dirs_of s' = dirs_of s \<union> set (path_ancestors p) \<and> card (dirs_of s') \<le> MAX_MANIFEST_ENTRIES"
proof -
  from assms(1) obtain dirs where
    "add_directories o' p (rp_files s) (path_ancestors p) (rp_directories s) = Inr dirs"
    and s': "s' = s\<lparr>rp_directories := dirs\<rparr>"
    by (auto simp: ensure_parent_directories_def bind_ok_Inr)
  from add_directoriesD [OF this(1)] tree_shapedD(2,6) [OF assms(2)] s' show ?thesis by auto
qed

lemma createdI:
  assumes "tree_shaped s" "require_create_absent o' p s = Inr ()"
    and "ensure_parent_directories o' p s = Inr s'"
  shows "created p e s (s'\<lparr>rp_files := bt_insert p e (rp_files s')\<rparr>)"
  using assms require_create_absent_ok [OF tree_shapedD(1) [OF assms(1)]] ensure_parentsD [OF assms(3,1)]
  unfolding created_def by auto

text \<open>What an operation of source \<open>c\<close> leaves at its own path.\<close>

definition wrote ::
  "'a composition_source_fields_scheme \<Rightarrow> string \<Rightarrow> replay_endpoint \<Rightarrow> bool" where
  "wrote c p e \<longleftrightarrow> (\<exists>m\<in>set (cs_result_material c). rm_path m = p \<and>
     rm_result_digest m = ep_content_digest e \<and> rm_byte_length m = ep_byte_length e \<and>
     rm_byte_length m \<le> MAX_COMPOSITION_FILE_BYTES \<and>
     ep_origin e = Some \<lparr>or_source_ordinal = cs_ordinal c,
       or_source_artifact_digest = ar_artifact_digest (cs_artifact c)\<rparr>)"

definition modes_normal :: "replay_state \<Rightarrow> bool" where
  "modes_normal s \<longleftrightarrow> (\<forall>p e. file_at s p = Some e \<longrightarrow> ep_unix_mode e AND NOT 511 = 0)"

lemma replay_source_operationD:
  assumes "replay_source_operation (cs_ordinal c) op material s = Inr s'" "tree_shaped s"
    and "case material of None \<Rightarrow> is_delete op | Some m \<Rightarrow> material_for c op m \<and> m \<in> set (cs_result_material c)"
  shows "tree_shaped s' \<and> dirs_of s \<subseteq> dirs_of s' \<and>
    dirs_of s' \<subseteq> dirs_of s \<union> set (path_ancestors (at_path op)) \<and>
    (\<forall>q. q \<noteq> at_path op \<longrightarrow> file_at s' q = file_at s q) \<and>
    (\<forall>e. file_at s' (at_path op) = Some e \<longrightarrow> wrote c (at_path op) e) \<and>
    (modes_normal s \<longrightarrow> modes_normal s')"
proof (cases op)
  case (Create_At p r)
  from assms(1) Create_At obtain s1 m mode where
    checks: "require_create_absent (Some (cs_ordinal c)) p s = Inr ()"
      "ensure_parent_directories (Some (cs_ordinal c)) p s = Inr s1"
    and m: "material = Some m" "rm_operation_kind m = Create_Material mode"
    and s': "s' = s1\<lparr>rp_files := bt_insert p
        \<lparr>ep_content_digest = r, ep_byte_length = rm_byte_length m, ep_unix_mode = mode,
         ep_origin = Some (source_origin (cs_ordinal c) m)\<rparr> (rp_files s1)\<rparr>"
    by (cases material; cases "rm_operation_kind (the material)") (auto simp: bind_ok_Inr ok_iff)
  from createdI [OF assms(2) checks] have new: "created p
      \<lparr>ep_content_digest = r, ep_byte_length = rm_byte_length m, ep_unix_mode = mode,
       ep_origin = Some (source_origin (cs_ordinal c) m)\<rparr> s s'"
    by (simp add: s')
  have "wf_btree (rp_files s)" by (rule tree_shapedD(1) [OF assms(2)])
  with new have files: "file_at s' q = (if q = p then Some
      \<lparr>ep_content_digest = r, ep_byte_length = rm_byte_length m, ep_unix_mode = mode,
       ep_origin = Some (source_origin (cs_ordinal c) m)\<rparr> else file_at s q)" for q
    by (simp add: created_def bt_get_insert)
  have grown: "dirs_of s' = dirs_of s \<union> set (path_ancestors p)"
    using new by (simp add: created_def)
  show ?thesis
    using assms(3) m tree_shaped_created [OF assms(2) new] grown
    by (auto simp: Create_At files material_for_def wrote_def source_origin_def modes_normal_def split: if_splits)
next
  case (Modify_At p b r)
  from assms(1) Modify_At obtain e m where e: "file_at s p = Some e"
    and m: "material = Some m"
    and s': "s' = s\<lparr>rp_files := bt_insert p (e\<lparr>ep_content_digest := r,
        ep_byte_length := rm_byte_length m, ep_origin := Some (source_origin (cs_ordinal c) m)\<rparr>)
        (rp_files s)\<rparr>"
    by (auto simp: bind_ok_Inr ok_iff split: option.splits)
  have "wf_btree (rp_files s)" by (rule tree_shapedD(1) [OF assms(2)])
  then have files: "file_at s' q = (if q = p then Some (e\<lparr>ep_content_digest := r,
      ep_byte_length := rm_byte_length m, ep_origin := Some (source_origin (cs_ordinal c) m)\<rparr>)
      else file_at s q)" for q
    by (simp add: s' bt_get_insert)
  have "tree_shaped s'" "dirs_of s' = dirs_of s"
    using tree_shaped_changed [OF assms(2), of p] e by (simp_all add: s')
  then show ?thesis
    using assms(3) m e
    by (auto simp: Modify_At files material_for_def wrote_def source_origin_def modes_normal_def
        split: if_splits)
next
  case (Delete_At p b)
  from assms(1) Delete_At have s': "s' = s\<lparr>rp_files := bt_remove p (rp_files s)\<rparr>"
    by (auto simp: bind_ok_Inr ok_iff)
  show ?thesis
    using tree_shaped_removed [OF assms(2), of p]
    by (auto simp: Delete_At s' bt_get_remove modes_normal_def)
qed

section \<open>One source\<close>

lemma replay_source_loopD:
  assumes "replay_source_loop (cs_ordinal c) ops ms s = Inr s'" "tree_shaped s"
    and "paired c ops ms" "distinct (map at_path ops)" "set ms \<subseteq> set (cs_result_material c)"
  shows "tree_shaped s' \<and> dirs_of s \<subseteq> dirs_of s' \<and>
    dirs_of s' \<subseteq> dirs_of s \<union> (\<Union>op\<in>set ops. set (path_ancestors (at_path op))) \<and>
    (\<forall>q. q \<notin> at_path ` set ops \<longrightarrow> file_at s' q = file_at s q) \<and>
    (\<forall>q\<in>at_path ` set ops. \<forall>e. file_at s' q = Some e \<longrightarrow> wrote c q e) \<and>
    (modes_normal s \<longrightarrow> modes_normal s')"
  using assms
proof (induction ops arbitrary: ms s)
  case (Cons op ops)
  obtain material ms' s1 where
    step: "replay_source_operation (cs_ordinal c) op material s = Inr s1"
    and rest: "replay_source_loop (cs_ordinal c) ops ms' s1 = Inr s'" "paired c ops ms'"
      "set ms' \<subseteq> set (cs_result_material c)"
    and material: "case material of None \<Rightarrow> is_delete op
      | Some m \<Rightarrow> material_for c op m \<and> m \<in> set (cs_result_material c)"
  proof (cases "is_delete op")
    case True
    with Cons.prems that [of None] show ?thesis by (auto simp: bind_ok_Inr)
  next
    case False
    with Cons.prems that [of "Some (hd ms)"] show ?thesis
      by (cases ms) (auto simp: bind_ok_Inr)
  qed
  note one = replay_source_operationD [OF step Cons.prems(2) material]
  have "distinct (map at_path ops)" using Cons.prems(4) by simp
  with Cons.IH [OF rest(1) _ rest(2) _ rest(3)] one have more:
    "tree_shaped s'" "dirs_of s1 \<subseteq> dirs_of s'" "modes_normal s1 \<longrightarrow> modes_normal s'"
    "dirs_of s' \<subseteq> dirs_of s1 \<union> (\<Union>op\<in>set ops. set (path_ancestors (at_path op)))"
    "\<And>q. q \<notin> at_path ` set ops \<Longrightarrow> file_at s' q = file_at s1 q"
    "\<And>q e. q \<in> at_path ` set ops \<Longrightarrow> file_at s' q = Some e \<Longrightarrow> wrote c q e"
    by blast+
  moreover have "at_path op \<notin> at_path ` set ops" using Cons.prems(4) by simp
  moreover have "dirs_of s' \<subseteq> dirs_of s \<union> (\<Union>op\<in>set (op # ops). set (path_ancestors (at_path op)))"
    using more(4) one by auto
  ultimately show ?case using one by auto
qed simp

section \<open>The base\<close>

lemma canonical_paths_ok:
  "canonical_paths path_at check f previous xs = Inr u \<longleftrightarrow>
     (\<forall>x\<in>set xs. check x = Inr ()) \<and>
     sorted_wrt (<) ((case previous of None \<Rightarrow> [] | Some p \<Rightarrow> [p]) @ map path_at xs)"
proof (induction xs arbitrary: previous u)
  case (Cons x xs)
  show ?case
    unfolding canonical_paths.simps seq_Cons_ok Cons.IH
    by (auto split: option.splits dest: less_trans)
qed (simp split: option.split)

lemma validate_ancestors_ok:
  "validate_ancestors fs ds p = Inr u \<longleftrightarrow> (\<forall>a\<in>set (path_ancestors p). a \<notin> fs \<and> a \<in> ds)"
proof -
  have "seq (concat (map (\<lambda>a. [ensure (a \<notin> fs) (f a), ensure (a \<in> ds) (g a)]) as)) = Inr u \<longleftrightarrow>
      (\<forall>a\<in>set as. a \<notin> fs \<and> a \<in> ds)" for f g :: "string \<Rightarrow> composition_conflict" and as
    by (induction as) auto
  then show ?thesis by (simp add: validate_ancestors_def)
qed

text \<open>A path of the workspace: a \<open>String\<close> holds UTF-8, and the checks make it portable.\<close>

definition text_paths :: "replay_state \<Rightarrow> bool" where
  "text_paths s \<longleftrightarrow> (\<forall>p e. file_at s p = Some e \<longrightarrow> utf8_valid p \<and> portable p) \<and>
     (\<forall>d\<in>dirs_of s. portable d)"

text \<open>An ancestor of a portable path is portable.\<close>

lemma segments_ancestor: "segments (a @ CHR ''/'' # q) = segments a @ segments q"
  by (induction a) (auto simp: segments_def split: prod.splits)

lemma portable_ancestor:
  assumes "portable p" "a \<in> set (path_ancestors p)"
  shows "portable a"
proof -
  obtain q where p: "p = a @ CHR ''/'' # q" using assms(2) by (auto simp: ancestor_iff)
  have "set (segments p) = set (segments a) \<union> set (segments q)"
    by (simp add: p segments_ancestor)
  moreover have "a \<noteq> []" using assms(1) by (auto simp: portable_def p)
  ultimately show ?thesis using assms(1) by (auto simp: portable_def p)
qed

definition utf8_base :: "base_projection \<Rightarrow> bool" where
  "utf8_base b \<longleftrightarrow> list_all (\<lambda>f. utf8_valid (bf_path f)) (bp_files b)"

lemma base_file_at:
  assumes "validate_base_projection sha cd b = Inr u"
  shows "file_at (replay_state_from_base b) p = Some e \<longleftrightarrow> (\<exists>f\<in>set (bp_files b). p = bf_path f \<and>
    e = \<lparr>ep_content_digest = bf_content_digest f, ep_byte_length = bf_byte_length f,
         ep_unix_mode = bf_unix_mode f, ep_origin = None\<rparr>)"
proof -
  let ?kv = "\<lambda>f. (bf_path f, \<lparr>ep_content_digest = bf_content_digest f,
    ep_byte_length = bf_byte_length f, ep_unix_mode = bf_unix_mode f, ep_origin = None\<rparr>)"
  from assms have "validate_canonical_base_files (bp_files b) = Inr ()"
    by (auto simp: validate_base_projection_def validate_base_projection_shape_def bind_ok_Inr)
  then have "distinct (map bf_path (bp_files b))"
    by (simp add: validate_canonical_base_files_def canonical_paths_ok strict_sorted_iff)
  then have "distinct (map fst (map ?kv (bp_files b)))" by (simp add: comp_def)
  from bt_get_collect_distinct [OF this] map_of_eq_Some_iff [OF this] show ?thesis
    by (auto simp: replay_state_from_base_def)
qed

lemma valid_base_state:
  assumes "validate_base_projection sha cd b = Inr u"
  shows "tree_shaped (replay_state_from_base b)" "modes_normal (replay_state_from_base b)"
    "utf8_base b \<Longrightarrow> text_paths (replay_state_from_base b)"
proof -
  note at = base_file_at [OF assms]
  from assms have shape: "validate_canonical_base_files (bp_files b) = Inr ()"
      "length (bp_files b) + length (bp_directories b) \<le> MAX_MANIFEST_ENTRIES"
      "\<forall>d\<in>set (bp_directories b). d \<notin> bf_path ` set (bp_files b) \<and>
         (\<forall>a\<in>set (path_ancestors d). a \<in> set (bp_directories b))"
      "\<forall>f\<in>set (bp_files b). \<forall>a\<in>set (path_ancestors (bf_path f)). a \<in> set (bp_directories b)"
    by (auto simp: validate_base_projection_def validate_base_projection_shape_def bind_ok_Inr
        checked_add_usize_def seq_map_ok validate_ancestors_ok split: if_splits)
  have dirs: "dirs_of (replay_state_from_base b) = set (bp_directories b)"
    by (simp add: replay_state_from_base_def)
  have present: "file_at (replay_state_from_base b) p \<noteq> None \<longleftrightarrow> p \<in> bf_path ` set (bp_files b)" for p
    using at by auto
  show "tree_shaped (replay_state_from_base b)"
  proof (rule tree_shapedI)
    show "card (dirs_of (replay_state_from_base b)) \<le> MAX_MANIFEST_ENTRIES"
      using shape(2) card_length [of "bp_directories b"] by (simp add: dirs)
    show "p \<notin> dirs_of (replay_state_from_base b)"
      if "file_at (replay_state_from_base b) p \<noteq> None" for p
      using that shape(3) unfolding present dirs by blast
    show "a \<in> dirs_of (replay_state_from_base b)"
      if "file_at (replay_state_from_base b) p \<noteq> None" "a \<in> set (path_ancestors p)" for p a
      using that shape(4) unfolding present dirs by blast
    show "a \<in> dirs_of (replay_state_from_base b)"
      if "d \<in> dirs_of (replay_state_from_base b)" "a \<in> set (path_ancestors d)" for d a
      using that shape(3) unfolding dirs by blast
  qed (simp_all add: replay_state_from_base_def)
  from shape(1) have ok: "\<forall>f\<in>set (bp_files b). portable (bf_path f) \<and> bf_unix_mode f AND NOT 511 = 0"
    by (simp add: validate_canonical_base_files_def canonical_paths_ok ok_iff)
  then show "modes_normal (replay_state_from_base b)"
    by (auto simp: modes_normal_def at)
  have "validate_canonical_base_directories (bp_directories b) = Inr ()"
    using assms by (auto simp: validate_base_projection_def validate_base_projection_shape_def bind_ok_Inr)
  then have "\<forall>d\<in>set (bp_directories b). portable d"
    by (simp add: validate_canonical_base_directories_def canonical_paths_ok ok_iff)
  show "text_paths (replay_state_from_base b)" if "utf8_base b"
    using that ok \<open>\<forall>d\<in>_. portable d\<close> by (auto simp: text_paths_def at utf8_base_def list_all_iff dirs)
qed

lemma base_origin: "validate_base_projection sha cd b = Inr u \<Longrightarrow>
  file_at (replay_state_from_base b) p = Some e \<Longrightarrow> ep_origin e = None"
  by (auto simp: base_file_at)

section \<open>All sources\<close>

definition last_written :: "composition_source list \<Rightarrow> string \<Rightarrow> replay_endpoint \<Rightarrow> bool" where
  "last_written cs p e \<longleftrightarrow> (\<exists>c\<in>set cs. wrote c p e \<and>
     (\<forall>c'\<in>set cs. cs_ordinal c < cs_ordinal c' \<longrightarrow>
        p \<notin> at_path ` set (cx_operations (cs_change_set c'))))"

definition composed :: "replay_state \<Rightarrow> composition_source list \<Rightarrow> replay_state \<Rightarrow> bool" where
  "composed base cs s \<longleftrightarrow> tree_shaped s \<and> modes_normal s \<and> text_paths s \<and>
     dirs_of base \<subseteq> dirs_of s \<and>
     (\<forall>p e. file_at s p = Some e \<longrightarrow> file_at base p = Some e \<or> last_written cs p e)"

lemma composed_source:
  assumes "composed base cs s" "replay_source c s = Inr s'"
    and "validate_composition_source sha cd c = Inr ()"
    and newest: "\<forall>d\<in>set cs. cs_ordinal d < cs_ordinal c"
  shows "composed base (cs @ [c]) s'"
proof -
  let ?ops = "cx_operations (cs_change_set c)"
  note v = valid_sourceD [OF assms(3)]
  from replay_source_loopD [OF assms(2) [unfolded replay_source_def] _ v(1,2) subset_refl] assms(1)
  have s': "tree_shaped s'" "modes_normal s'" "dirs_of s \<subseteq> dirs_of s'"
    and keep: "\<And>q. q \<notin> at_path ` set ?ops \<Longrightarrow> file_at s' q = file_at s q"
    and dirs: "dirs_of s' \<subseteq> dirs_of s \<union> (\<Union>op\<in>set ?ops. set (path_ancestors (at_path op)))"
    and touch: "\<And>q e. q \<in> at_path ` set ?ops \<Longrightarrow> file_at s' q = Some e \<Longrightarrow> wrote c q e"
    unfolding composed_def by auto
  have paths: "text_paths s'"
    unfolding text_paths_def
  proof (intro conjI ballI allI impI)
    fix d assume "d \<in> dirs_of s'"
    with dirs consider "d \<in> dirs_of s"
      | op where "op \<in> set ?ops" "d \<in> set (path_ancestors (at_path op))" by blast
    then show "portable d"
    proof cases
      case 1
      then show ?thesis using assms(1) by (simp add: composed_def text_paths_def)
    next
      case 2
      then show ?thesis using v(3) portable_ancestor by blast
    qed
  next
    fix p e assume e: "file_at s' p = Some e"
    have "utf8_valid p \<and> portable p"
    proof (cases "p \<in> at_path ` set ?ops")
      case False
      with e keep assms(1) show ?thesis by (auto simp: composed_def text_paths_def)
    qed (use v(3) in auto)
    then show "utf8_valid p" "portable p" by simp_all
  qed
  have "file_at base p = Some e \<or> last_written (cs @ [c]) p e" if e: "file_at s' p = Some e" for p e
  proof (cases "p \<in> at_path ` set ?ops")
    case True
    then have "wrote c p e" using touch e by blast
    moreover have "\<not> cs_ordinal c < cs_ordinal d" if "d \<in> set (cs @ [c])" for d
      using that newest by auto
    ultimately show ?thesis by (auto simp: last_written_def)
  next
    case False
    then have "file_at base p = Some e \<or> last_written cs p e"
      using keep e assms(1) by (simp add: composed_def)
    then show ?thesis using False by (auto simp: last_written_def)
  qed
  with s' paths assms(1) show ?thesis by (auto simp: composed_def)
qed

lemma u32_try_from_Some: "u32_try_from n = Some k \<Longrightarrow> unat k = n"
  by (auto simp: u32_try_from_def unat_of_nat take_bit_nat_eq_self split: if_splits)

lemma derive_sourcesD:
  assumes "derive_sources sha cd n i ids members expected s ss = Inr (expected', s')"
    and "composed base cs s" "\<forall>c\<in>set cs. unat (cs_ordinal c) < i"
  shows "composed base (cs @ ss) s' \<and>
    (if ss = [] then expected' = expected \<and> s' = s
     else expected' = cs_result_snapshot (last ss) \<and> replay_state_snapshot sha s' = Inr expected') \<and>
    (\<forall>c\<in>set ss. validate_composition_source sha cd c = Inr ())"
  using assms
proof (induction ss arbitrary: i ids members expected s cs)
  case (Cons c ss)
  obtain j ids' where ids: "ids = j # ids'" using Cons.prems(1) by (cases ids) auto
  from Cons.prems(1) obtain s1 where
    one: "derive_source sha cd n i j members expected s c = Inr s1"
    and rest: "derive_sources sha cd n (Suc i) ids' (add_members c members) (cs_result_snapshot c) s1 ss =
      Inr (expected', s')"
    by (auto simp: ids bind_ok_Inr)
  from one obtain k where k: "u32_try_from i = Some k" "cs_ordinal c = k"
    and valid: "validate_composition_source sha cd c = Inr ()"
    and replay: "replay_source c s = Inr s1"
    and snap: "replay_state_snapshot sha s1 = Inr (cs_result_snapshot c)"
    by (auto simp: derive_source_def bind_ok_Inr split: if_splits)
  have i: "unat (cs_ordinal c) = i" using u32_try_from_Some [OF k(1)] k(2) by simp
  have "\<forall>d\<in>set cs. cs_ordinal d < cs_ordinal c"
    using Cons.prems(3) i by (auto simp: word_less_nat_alt)
  from composed_source [OF Cons.prems(2) replay valid this]
  have "composed base (cs @ [c]) s1" .
  moreover have "\<forall>d\<in>set (cs @ [c]). unat (cs_ordinal d) < Suc i"
    using Cons.prems(3) i by auto
  ultimately show ?case using Cons.IH [OF rest, of "cs @ [c]"] snap valid by (auto split: if_splits)
qed simp

end
