(* ===== verification/Composition_Aggregate.thy ===== *)
theory Composition_Aggregate
  imports Composition_Sources
begin

text \<open>
  The aggregate change set represents the sources. Between a base and a state composed from it, the
  operations are the net changes of the paths in byte order; replaying them over the base cannot
  fail, ends with the files of the composed state, and adds only directories that the composed state
  has. Byte order is what makes it work: an ancestor sorts before its descendants, so a file that
  gives way to a directory is deleted before anything is created below it.
\<close>

section \<open>Net changes\<close>

definition net_change :: "replay_state \<Rightarrow> replay_state \<Rightarrow> string \<Rightarrow> text_operation option" where
  "net_change base result p = (case (file_at base p, file_at result p) of
     (None, Some r) \<Rightarrow> Some (Create_At p (ep_content_digest r))
   | (Some b, Some r) \<Rightarrow>
       if ep_content_digest b = ep_content_digest r then None
       else Some (Modify_At p (ep_content_digest b) (ep_content_digest r))
   | (Some b, None) \<Rightarrow> Some (Delete_At p (ep_content_digest b))
   | (None, None) \<Rightarrow> None)"

text \<open>What a successful step over one path has pushed.\<close>

definition pushed ::
  "replay_state \<Rightarrow> replay_state \<Rightarrow> nat \<Rightarrow> string \<Rightarrow> text_operation list \<Rightarrow> aggregate_material list \<Rightarrow>
     bool" where
  "pushed base result n p ops ms \<longleftrightarrow> (case (file_at base p, file_at result p) of
     (None, Some r) \<Rightarrow> \<exists>i o'. u32_try_from n = Some i \<and> ep_origin r = Some o' \<and>
       ops = [Create_At p (ep_content_digest r)] \<and>
       ms = [aggregate_material_of i p r (Some (ep_unix_mode r)) o']
   | (Some b, Some r) \<Rightarrow> ep_unix_mode b = ep_unix_mode r \<and>
       (if ep_content_digest b = ep_content_digest r
        then ep_byte_length b = ep_byte_length r \<and> ops = [] \<and> ms = []
        else \<exists>i o'. u32_try_from n = Some i \<and> ep_origin r = Some o' \<and>
          ops = [Modify_At p (ep_content_digest b) (ep_content_digest r)] \<and>
          ms = [aggregate_material_of i p r None o'])
   | (Some b, None) \<Rightarrow> ops = [Delete_At p (ep_content_digest b)] \<and> ms = []
   | (None, None) \<Rightarrow> False)"

lemma derive_path_pushed:
  assumes "derive_path base result p (ops, ms) = Inr (ops', ms')"
  shows "\<exists>new_ops new_ms. ops' = ops @ new_ops \<and> ms' = ms @ new_ms \<and>
    pushed base result (length ops) p new_ops new_ms"
  using assms
  by (cases "file_at base p"; cases "file_at result p")
    (auto simp: derive_path_def pushed_def bind_ok_Inr require_origin_def next_operation_index_def
      split: if_splits)

lemma pushed_net_change: "pushed base result n p ops ms \<Longrightarrow>
  ops = (case net_change base result p of None \<Rightarrow> [] | Some op \<Rightarrow> [op])"
  by (auto simp: pushed_def net_change_def split: option.splits if_splits)

lemma derive_paths_net_changes:
  assumes "derive_paths base result ps (ops, ms) = Inr (ops', ms')"
  shows "ops' = ops @ List.map_filter (net_change base result) ps"
  using assms
proof (induction ps arbitrary: ops ms)
  case (Cons p ps)
  then obtain ops1 ms1 where "derive_path base result p (ops, ms) = Inr (ops1, ms1)"
    and rest: "derive_paths base result ps (ops1, ms1) = Inr (ops', ms')"
    by (auto simp: bind_ok_Inr)
  with derive_path_pushed [OF this(1)] pushed_net_change
  have "ops1 = ops @ (case net_change base result p of None \<Rightarrow> [] | Some op \<Rightarrow> [op])"
    by blast
  with Cons.IH [OF rest] show ?case by (simp add: map_filter_simps split: option.split)
qed (simp add: map_filter_simps)

section \<open>Replaying the net changes\<close>

text \<open>
  A base and a state composed from it: a file that is not the base's has an origin.
\<close>

definition derivable :: "replay_state \<Rightarrow> replay_state \<Rightarrow> bool" where
  "derivable base result \<longleftrightarrow> tree_shaped base \<and> tree_shaped result \<and> text_paths base \<and>
     text_paths result \<and> dirs_of base \<subseteq> dirs_of result \<and>
     (\<forall>p e. file_at result p = Some e \<longrightarrow> file_at base p = Some e \<or> ep_origin e \<noteq> None)"

lemma last_written_origin: "last_written cs p e \<Longrightarrow> ep_origin e \<noteq> None"
  by (auto simp: last_written_def wrote_def)

lemma derivable_composed:
  assumes "composed base cs s" "tree_shaped base" "text_paths base"
  shows "derivable base s"
  using assms last_written_origin unfolding derivable_def composed_def by blast

text \<open>
  The loop invariant: the paths still to come are as in the base, all others as in the result.
\<close>

definition aligned :: "replay_state \<Rightarrow> replay_state \<Rightarrow> string list \<Rightarrow> replay_state \<Rightarrow> bool" where
  "aligned base result ps s \<longleftrightarrow> tree_shaped s \<and> dirs_of base \<subseteq> dirs_of s \<and>
     dirs_of s \<subseteq> dirs_of result \<and>
     (\<forall>q\<in>set ps. file_at s q = file_at base q \<and> (file_at base q \<noteq> None \<longrightarrow> q \<notin> dirs_of s)) \<and>
     (\<forall>q. q \<notin> set ps \<longrightarrow> same_optional_file_endpoint (file_at s q) (file_at result q))"

lemma same_endpoint_None [simp]:
  "same_optional_file_endpoint None x \<longleftrightarrow> x = None"
  "same_optional_file_endpoint x None \<longleftrightarrow> x = None"
  by (cases x; simp)+

lemma same_endpoint_absent: "same_optional_file_endpoint x y \<Longrightarrow> x = None \<longleftrightarrow> y = None"
  by (cases x; cases y) auto

lemma ensure_parents_succeeds:
  assumes "tree_shaped s" "\<forall>a\<in>set (path_ancestors p). file_at s a = None"
    and "card (dirs_of s \<union> set (path_ancestors p)) \<le> MAX_MANIFEST_ENTRIES"
  shows "\<exists>s'. ensure_parent_directories o' p s = Inr s'"
proof -
  obtain dirs where
    "add_directories o' p (rp_files s) (path_ancestors p) (rp_directories s) = Inr dirs"
    using add_directories_succeeds [OF tree_shapedD(2) [OF assms(1)] assms(2,3)] by auto
  then show ?thesis by (simp add: ensure_parent_directories_def)
qed

lemma replay_create:
  assumes "derivable base result" "aligned base result (p # ps) s" "sorted_wrt (<) (p # ps)"
    and "file_at base p = None" "file_at result p = Some r"
  shows "\<exists>s'. aligned base result ps s' \<and>
    (\<forall>ops ms. replay_aggregate_loop (Create_At p (ep_content_digest r) # ops)
         (aggregate_material_of i p r (Some (ep_unix_mode r)) o' # ms) s =
       replay_aggregate_loop ops ms s')"
proof -
  note s = assms(2) [unfolded aligned_def]
  have tree: "tree_shaped base" "tree_shaped s" "tree_shaped result"
    using assms(1) s by (simp_all add: derivable_def)
  have below: "a \<notin> set (p # ps)" if "a \<in> set (path_ancestors p)" for a
    using ancestor_less [OF that] assms(3) by (auto dest: less_trans)
  have p: "p \<notin> dirs_of result" "set (path_ancestors p) \<subseteq> dirs_of result"
    using tree_shapedD(3,4) [OF tree(3), of p] assms(5) by auto
  have up: "file_at s a = None" if "a \<in> set (path_ancestors p)" for a
  proof -
    have "file_at result a = None" using tree_shapedD(3) [OF tree(3), of a] p(2) that by blast
    moreover have "same_optional_file_endpoint (file_at s a) (file_at result a)"
      using s below [OF that] by blast
    ultimately show ?thesis by simp
  qed
  have down: "file_at s q = None" if "p \<in> set (path_ancestors q)" for q
  proof (cases "q \<in> set (p # ps)")
    case True
    then have "file_at s q = file_at base q" using s by blast
    moreover have "file_at base q = None"
      using tree_shapedD(4) [OF tree(1), of q p] that p(1) s by blast
    ultimately show ?thesis by simp
  next
    case False
    moreover have "file_at result q = None"
      using tree_shapedD(4) [OF tree(3), of q p] that p(1) by blast
    ultimately show ?thesis using s by fastforce
  qed
  have absent: "file_at s p = None" "p \<notin> dirs_of s" using s assms(4) p(1) by auto
  have "card (dirs_of s \<union> set (path_ancestors p)) \<le> card (dirs_of result)"
    using s p(2) by (intro card_mono) auto
  then have room: "card (dirs_of s \<union> set (path_ancestors p)) \<le> MAX_MANIFEST_ENTRIES"
    using tree_shapedD(6) [OF tree(3)] by simp
  obtain s1 where s1: "ensure_parent_directories None p s = Inr s1"
    using ensure_parents_succeeds [OF tree(2) _ room] up by blast
  have check: "require_create_absent None p s = Inr ()"
    using require_create_absent_ok [OF tree_shapedD(1) [OF tree(2)]] absent up down by blast
  let ?e = "\<lparr>ep_content_digest = ep_content_digest r, ep_byte_length = ep_byte_length r,
    ep_unix_mode = ep_unix_mode r, ep_origin = Some o'\<rparr>"
  let ?s = "s1\<lparr>rp_files := bt_insert p ?e (rp_files s1)\<rparr>"
  have new: "created p ?e s ?s" by (rule createdI [OF tree(2) check s1])
  have files: "file_at ?s q = (if q = p then Some ?e else file_at s q)" for q
    using new tree_shapedD(1) [OF tree(2)] by (simp add: created_def bt_get_insert)
  have dirs: "dirs_of ?s = dirs_of s \<union> set (path_ancestors p)"
    using ensure_parentsD [OF s1 tree(2)] by simp
  have fresh: "p \<notin> set ps" using assms(3) by auto
  have "aligned base result ps ?s"
    unfolding aligned_def files dirs
  proof (intro conjI ballI allI impI)
    show "tree_shaped ?s" by (rule tree_shaped_created [OF tree(2) new])
    show "dirs_of base \<subseteq> dirs_of s \<union> set (path_ancestors p)" using s by blast
    show "dirs_of s \<union> set (path_ancestors p) \<subseteq> dirs_of result" using s p(2) by blast
    fix q
    show "q \<notin> dirs_of s \<union> set (path_ancestors p)" if "q \<in> set ps" "file_at base q \<noteq> None"
      using that s below [of q] by auto
    show "(if q = p then Some ?e else file_at s q) = file_at base q" if "q \<in> set ps"
      using that s fresh by auto
    show "same_optional_file_endpoint (if q = p then Some ?e else file_at s q) (file_at result q)"
      if "q \<notin> set ps" using that s assms(5) by auto
  qed
  moreover have "portable_operation_path None p = Inr p"
    using assms(1,5) by (auto simp: derivable_def text_paths_def ok_iff)
  moreover have "aggregate_origin (aggregate_material_of i p r mode o') = o'" for mode
    by (simp add: aggregate_origin_def aggregate_material_of_def)
  ultimately show ?thesis
    by (intro exI [of _ ?s]) (simp add: check s1, simp add: aggregate_material_of_def)
qed

text \<open>Below, \<open>p\<close> is a file of the base: the invariant makes it the base's file, not a directory.\<close>

lemma aligned_base_file:
  assumes "aligned base result (p # ps) s" "file_at base p = Some b"
  shows "endpoint_with_base k None p (ep_content_digest b) s = Inr b"
  using assms unfolding aligned_def endpoint_with_base_ok by auto

lemma aligned_step:
  assumes "aligned base result (p # ps) s" "sorted_wrt (<) (p # ps)" "tree_shaped s'"
    and "dirs_of s' = dirs_of s" "\<And>q. q \<noteq> p \<Longrightarrow> file_at s' q = file_at s q"
    and "same_optional_file_endpoint (file_at s' p) (file_at result p)"
  shows "aligned base result ps s'"
proof -
  note s = assms(1) [unfolded aligned_def]
  have fresh: "p \<notin> set ps" using assms(2) by auto
  have "same_optional_file_endpoint (file_at s' q) (file_at result q)" if "q \<notin> set ps" for q
    using that assms(5,6) s by (cases "q = p") auto
  moreover have "file_at s' q = file_at base q" if "q \<in> set ps" for q
    using that fresh assms(5) s by (cases "q = p") auto
  ultimately show ?thesis using assms(3,4) s by (auto simp: aligned_def)
qed

lemma replay_modify:
  assumes "derivable base result" "aligned base result (p # ps) s" "sorted_wrt (<) (p # ps)"
    and "file_at base p = Some b" "file_at result p = Some r" "ep_unix_mode b = ep_unix_mode r"
  shows "\<exists>s'. aligned base result ps s' \<and>
    (\<forall>ops ms. replay_aggregate_loop (Modify_At p (ep_content_digest b) (ep_content_digest r) # ops)
         (aggregate_material_of i p r None o' # ms) s =
       replay_aggregate_loop ops ms s')"
proof -
  let ?m = "aggregate_material_of i p r None o'"
  let ?e = "b\<lparr>ep_content_digest := ep_content_digest r, ep_byte_length := gm_byte_length ?m,
    ep_origin := Some (aggregate_origin ?m)\<rparr>"
  let ?s = "s\<lparr>rp_files := bt_insert p ?e (rp_files s)\<rparr>"
  have tree: "tree_shaped s" and at: "file_at s p = Some b"
    using assms(2,4) by (auto simp: aligned_def)
  have len: "gm_byte_length ?m = ep_byte_length r" by (simp add: aggregate_material_of_def)
  have "tree_shaped ?s" using tree_shaped_changed [OF tree] at by simp
  then have "aligned base result ps ?s"
    by (rule aligned_step [OF assms(2,3)])
      (simp_all add: bt_get_insert [OF tree_shapedD(1) [OF tree]] assms(5,6) len)
  moreover have "portable_operation_path None p = Inr p"
    using assms(1,4) by (auto simp: derivable_def text_paths_def ok_iff)
  ultimately show ?thesis
    using aligned_base_file [OF assms(2,4)] by (intro exI [of _ ?s]) simp
qed

lemma replay_delete:
  assumes "derivable base result" "aligned base result (p # ps) s" "sorted_wrt (<) (p # ps)"
    and "file_at base p = Some b" "file_at result p = None"
  shows "\<exists>s'. aligned base result ps s' \<and>
    (\<forall>ops ms. replay_aggregate_loop (Delete_At p (ep_content_digest b) # ops) ms s =
       replay_aggregate_loop ops ms s')"
proof -
  let ?s = "s\<lparr>rp_files := bt_remove p (rp_files s)\<rparr>"
  have tree: "tree_shaped s" using assms(2) by (simp add: aligned_def)
  have "tree_shaped ?s" by (rule tree_shaped_removed [OF tree])
  then have "aligned base result ps ?s"
    by (rule aligned_step [OF assms(2,3)]) (simp_all add: bt_get_remove assms(5))
  moreover have "portable_operation_path None p = Inr p"
    using assms(1,4) by (auto simp: derivable_def text_paths_def ok_iff)
  ultimately show ?thesis
    using aligned_base_file [OF assms(2,4)] by (intro exI [of _ ?s]) simp
qed

lemma replay_pushed:
  assumes "derivable base result" "aligned base result (p # ps) s" "sorted_wrt (<) (p # ps)"
    and "pushed base result n p ops ms"
  shows "\<exists>s'. aligned base result ps s' \<and>
    (\<forall>ops' ms'. replay_aggregate_loop (ops @ ops') (ms @ ms') s = replay_aggregate_loop ops' ms' s')"
proof (cases "file_at base p")
  case None
  then obtain r i o' where "file_at result p = Some r" "ops = [Create_At p (ep_content_digest r)]"
    "ms = [aggregate_material_of i p r (Some (ep_unix_mode r)) o']"
    using assms(4) by (auto simp: pushed_def split: option.splits)
  with replay_create [OF assms(1-3) None this(1), of i o'] show ?thesis by simp
next
  case (Some b)
  show ?thesis
  proof (cases "file_at result p")
    case None
    with assms(4) Some have "ops = [Delete_At p (ep_content_digest b)]" "ms = []"
      by (auto simp: pushed_def)
    with replay_delete [OF assms(1-3) Some None] show ?thesis by simp
  next
    case result: (Some r)
    show ?thesis
    proof (cases "ep_content_digest b = ep_content_digest r")
      case True
      with assms(4) Some result have "ops = []" "ms = []"
        and same: "same_optional_file_endpoint (file_at s p) (file_at result p)"
        using assms(2) by (auto simp: pushed_def aligned_def)
      moreover have "aligned base result ps s"
        by (rule aligned_step [OF assms(2,3) _ _ _ same]) (use assms(2) in \<open>simp_all add: aligned_def\<close>)
      ultimately show ?thesis by auto
    next
      case False
      with assms(4) Some result obtain i o' where "ep_unix_mode b = ep_unix_mode r"
        "ops = [Modify_At p (ep_content_digest b) (ep_content_digest r)]"
        "ms = [aggregate_material_of i p r None o']"
        by (auto simp: pushed_def)
      with replay_modify [OF assms(1-3) Some result this(1), of i o'] show ?thesis by simp
    qed
  qed
qed

lemma replay_derived_paths:
  assumes "derivable base result" "aligned base result ps s" "sorted_wrt (<) ps"
    and "derive_paths base result ps (ops, ms) = Inr (ops', ms')"
  shows "\<exists>new_ops new_ms s'. ops' = ops @ new_ops \<and> ms' = ms @ new_ms \<and> aligned base result [] s' \<and>
    replay_aggregate_loop new_ops new_ms s = Inr s'"
  using assms(2-)
proof (induction ps arbitrary: ops ms s)
  case (Cons p ps)
  then obtain ops1 ms1 where "derive_path base result p (ops, ms) = Inr (ops1, ms1)"
    and rest: "derive_paths base result ps (ops1, ms1) = Inr (ops', ms')"
    by (auto simp: bind_ok_Inr)
  from derive_path_pushed [OF this(1)] obtain n_ops n_ms where
    one: "ops1 = ops @ n_ops" "ms1 = ms @ n_ms" "pushed base result (length ops) p n_ops n_ms" by blast
  obtain s1 where s1: "aligned base result ps s1"
    and step: "\<And>ops' ms'. replay_aggregate_loop (n_ops @ ops') (n_ms @ ms') s =
      replay_aggregate_loop ops' ms' s1"
    using replay_pushed [OF assms(1) Cons.prems(1,2) one(3)] by blast
  have "sorted_wrt (<) ps" using Cons.prems(2) by simp
  from Cons.IH [OF s1 this rest] obtain m_ops m_ms s' where
    "ops' = ops1 @ m_ops" "ms' = ms1 @ m_ms" "aligned base result [] s'"
    "replay_aggregate_loop m_ops m_ms s1 = Inr s'" by blast
  then show ?case using one step [of m_ops m_ms] by (intro exI [of _ "n_ops @ m_ops"]
      exI [of _ "n_ms @ m_ms"] exI [of _ s']) simp
qed auto

lemma union_paths_sorted: "sorted_wrt (<) (union_paths base result)"
  by (simp add: union_paths_def bs_elems_sorted)

lemma union_paths_iff: "p \<in> set (union_paths base result) \<longleftrightarrow>
  file_at base p \<noteq> None \<or> file_at result p \<noteq> None"
  by (auto simp: union_paths_def bt_get_None_iff)

lemma aligned_start:
  assumes "derivable base result"
  shows "aligned base result (union_paths base result) base"
  using assms tree_shapedD(3) [of base]
  by (auto simp: aligned_def derivable_def union_paths_iff)

lemma same_file_endpointsI:
  assumes "wf_btree l" "wf_btree r" "\<And>p. same_optional_file_endpoint (bt_get l p) (bt_get r p)"
  shows "same_file_endpoints l r"
proof -
  have "bt_get l p = None \<longleftrightarrow> bt_get r p = None" for p
    using assms(3) by (rule same_endpoint_absent)
  then have "fst ` set l = fst ` set r" by (auto simp: bt_get_None_iff)
  then have "length l = length r"
    using distinct_card [of "map fst l"] distinct_card [of "map fst r"] assms(1,2)
    by (simp add: wf_btree_distinct)
  moreover have "same_optional_file_endpoint (Some e) (bt_get r p)" if "(p, e) \<in> set l" for p e
  proof -
    have "bt_get l p = Some e" using that bt_get_Some_iff [OF assms(1)] by simp
    with assms(3) [of p] show ?thesis by simp
  qed
  ultimately show ?thesis by (auto simp: same_file_endpoints_def list_all_iff)
qed

lemma aggregate_replays:
  assumes "derivable base result" "derive_aggregate base result = Inr (ops, ms)"
  shows "\<exists>s. replay_aggregate base ops ms = Inr s \<and>
    same_file_endpoints (rp_files s) (rp_files result) \<and> tree_shaped s \<and>
    dirs_of base \<subseteq> dirs_of s \<and> dirs_of s \<subseteq> dirs_of result \<and>
    (\<forall>p. same_optional_file_endpoint (file_at s p) (file_at result p))"
proof -
  from replay_derived_paths [OF assms(1) aligned_start [OF assms(1)] union_paths_sorted
      assms(2) [unfolded derive_aggregate_def]]
  obtain s where s: "aligned base result [] s" "replay_aggregate_loop ops ms base = Inr s" by auto
  then have same: "\<And>p. same_optional_file_endpoint (file_at s p) (file_at result p)"
    and tree: "tree_shaped s" "tree_shaped result"
    using assms(1) by (simp_all add: aligned_def derivable_def)
  have "same_file_endpoints (rp_files s) (rp_files result)"
    by (rule same_file_endpointsI) (simp_all add: tree tree_shapedD(1) same)
  with s same show ?thesis by (auto simp: replay_aggregate_def aligned_def)
qed

end
