(* ===== verification/Composition_Integrity.thy ===== *)
theory Composition_Integrity
  imports Composition_Aggregate
begin

text \<open>
  A derived plan passes its own validation: the text paths are normalized relative paths, the
  operations are in strict order with their material beside them, and the directories of the
  aggregate replay are a closed set of portable paths.
\<close>

section \<open>Text paths as paths\<close>

lemma utf8_bytes_slash: "utf8_bytes (xs @ 47 # ys) \<longleftrightarrow> utf8_bytes xs \<and> utf8_bytes ys"
proof (induction xs rule: utf8_bytes.induct)
  case (2 b bs)
  have no: "\<not> cont_byte 47" by (simp add: cont_byte_def)
  consider "b < 128" | "bs = []" | c where "bs = [c]" | c d where "bs = [c, d]"
    | c d e es where "bs = c # d # e # es" by (metis neq_Nil_conv)
  then show ?case
  proof cases
    case 1
    with 2 show ?thesis by simp
  qed (use 2 no in \<open>auto split: list.splits\<close>)
qed simp

lemma utf8_valid_slash: "utf8_valid (xs @ CHR ''/'' # ys) \<longleftrightarrow> utf8_valid xs \<and> utf8_valid ys"
  using utf8_bytes_slash [of "map byte xs" "map byte ys"] by (simp add: utf8_valid_def byte_def)

lemma segments_plain: "CHR ''/'' \<notin> set p \<Longrightarrow> segments p = [p]"
  by (simp add: segments_def split_slash_plain)

lemma segments_nonempty [simp]: "segments p \<noteq> []"
  by (simp add: segments_def split: prod.split)

lemma segments_singleton: "segments q = [p] \<Longrightarrow> q = p"
proof (cases "CHR ''/'' \<in> set q")
  case True
  then obtain b r where "q = b @ CHR ''/'' # r" "CHR ''/'' \<notin> set b"
    by (meson split_list_first)
  then show "segments q = [p] \<Longrightarrow> q = p" by (simp add: segments_ancestor segments_plain)
qed (simp add: segments_plain)

lemma segments_induct [case_names plain slash]:
  assumes "\<And>p. CHR ''/'' \<notin> set p \<Longrightarrow> P p"
    and "\<And>a q. CHR ''/'' \<notin> set a \<Longrightarrow> P q \<Longrightarrow> P (a @ CHR ''/'' # q)"
  shows "P p"
proof (induction p rule: length_induct)
  case (1 p)
  show ?case
  proof (cases "CHR ''/'' \<in> set p")
    case True
    then obtain a q where "p = a @ CHR ''/'' # q" "CHR ''/'' \<notin> set a"
      by (meson split_list_first)
    with 1 assms(2) show ?thesis by simp
  qed (rule assms(1))
qed

lemma utf8_valid_segments: "utf8_valid p \<Longrightarrow> s \<in> set (segments p) \<Longrightarrow> utf8_valid s"
  by (induction p rule: segments_induct) (auto simp: segments_plain segments_ancestor utf8_valid_slash)

lemma segments_inject: "segments p = segments q \<Longrightarrow> p = q"
proof (induction p arbitrary: q rule: segments_induct)
  case (plain p)
  then show ?case using segments_singleton [of q p] by (simp add: segments_plain)
next
  case (slash a p)
  have segs: "segments q = a # segments p"
    using slash.prems slash.hyps by (simp add: segments_ancestor segments_plain)
  show ?case
  proof (cases "CHR ''/'' \<in> set q")
    case True
    then obtain b r where q: "q = b @ CHR ''/'' # r" "CHR ''/'' \<notin> set b"
      by (meson split_list_first)
    with segs have "b = a" "segments p = segments r" by (simp_all add: segments_ancestor segments_plain)
    with slash.IH q show ?thesis by simp
  qed (use segs segments_nonempty [of p] in \<open>force simp: segments_plain\<close>)
qed

lemma path_of_portable: "portable p \<Longrightarrow> path_of p = map Normal (segments p)"
proof -
  assume p: "portable p"
  obtain s ss where split: "split_slash p = (s, ss)" by force
  then have ok: "\<forall>x\<in>set (s # ss). \<not> forbidden_segment x"
    using p by (simp add: portable_def segments_def)
  then have "concat (map segment ss) = map Normal ss"
    by (induction ss) (auto simp: segment_def forbidden_segment_def)
  with ok split show ?thesis by (auto simp: path_of_def segments_def segment_def forbidden_segment_def)
qed

lemma path_of_inject: "portable p \<Longrightarrow> portable q \<Longrightarrow> path_of p = path_of q \<longleftrightarrow> p = q"
  by (metis path_of_portable segments_inject list.inj_map_strong component.inject)

lemma portable_normalized:
  assumes "portable p" "utf8_valid p"
  shows "require_normalized_relative f (path_of p) = Inr ()"
proof -
  show ?thesis
    using utf8_valid_segments [OF assms(2)]
    by (auto simp: require_normalized_relative_ok path_of_portable [OF assms(1)] path_utf8_def)
qed

section \<open>The derived operations\<close>

lemma net_change_path: "net_change base result p = Some op \<Longrightarrow> at_path op = p"
  by (auto simp: net_change_def split: option.splits if_splits)

lemma net_change_Modify: "net_change base result p = Some (Modify_At q b r) \<Longrightarrow> b \<noteq> r"
  by (auto simp: net_change_def split: option.splits if_splits)

lemma map_filter_paths:
  assumes "sorted_wrt (<) ps" "\<And>p op. f p = Some op \<Longrightarrow> at_path op = p"
  shows "sorted_wrt (<) (map at_path (List.map_filter f ps)) \<and>
    at_path ` set (List.map_filter f ps) \<subseteq> set ps"
  using assms
  by (induction ps) (auto simp: map_filter_simps split: option.splits)

lemma derived_operations:
  assumes "derivable base result" "derive_aggregate base result = Inr (ops, ms)"
  shows "ops = List.map_filter (net_change base result) (union_paths base result)"
    "sorted_wrt (<) (map at_path ops)"
    "op \<in> set ops \<Longrightarrow> portable (at_path op) \<and> utf8_valid (at_path op)"
    "Modify_At p b r \<in> set ops \<Longrightarrow> b \<noteq> r"
proof -
  show ops: "ops = List.map_filter (net_change base result) (union_paths base result)"
    using derive_paths_net_changes [OF assms(2) [unfolded derive_aggregate_def]] by simp
  from map_filter_paths [OF union_paths_sorted net_change_path, where base2 = base and result2 = result]
  have paths: "sorted_wrt (<) (map at_path ops)" "at_path ` set ops \<subseteq> set (union_paths base result)"
    unfolding ops by auto
  then show "sorted_wrt (<) (map at_path ops)" by simp
  show "portable (at_path op) \<and> utf8_valid (at_path op)" if "op \<in> set ops"
  proof -
    have "at_path op \<in> set (union_paths base result)" using paths(2) that by blast
    then show ?thesis using assms(1) by (auto simp: union_paths_iff derivable_def text_paths_def)
  qed
  show "b \<noteq> r" if "Modify_At p b r \<in> set ops"
    using that net_change_Modify unfolding ops set_map_filter_iff by blast
qed

lemma file_operation_path [simp]: "fo_path (file_operation_of op) = path_of (at_path op)"
  by (cases op) simp_all

lemma derived_change_set_valid:
  assumes "derivable base result" "derive_aggregate base result = Inr (ops, ms)"
    and "\<not> blank (cx_change_set_id c)" "cx_operations c = ops"
    and "(ops = []) = (cx_base_snapshot c = cx_result_snapshot c)"
  shows "validate_change_set (change_set_of c) = Inr ()"
proof -
  note d = derived_operations [OF assms(1,2)]
  have "distinct (map at_path ops)" using d(2) by (simp add: strict_sorted_iff)
  then have "distinct (map (path_of \<circ> at_path) ops)"
    using d(3) path_of_inject by (auto simp: distinct_map inj_on_def)
  moreover have "validate_file_operation (file_operation_of op) = Inr ()" if "op \<in> set ops" for op
    using portable_normalized d(3) [OF that] d(4) that
    by (cases op) (auto simp: validate_file_operation_def)
  ultimately show ?thesis
    using assms(3-5)
    by (auto simp: validate_change_set_def change_set_of_def each_unique_ok comp_def)
qed

lemma aggregate_order_loop_ok:
  assumes "sorted_wrt (<) ((case previous of None \<Rightarrow> [] | Some p \<Rightarrow> [p]) @ map at_path ops)"
    and "\<forall>op\<in>set ops. portable (at_path op) \<and> utf8_valid (at_path op)"
  shows "aggregate_order_loop previous ops = Inr ()"
  using assms
proof (induction ops arbitrary: previous)
  case (Cons op ops)
  then have "aggregate_order_loop (Some (at_path op)) ops = Inr ()" by (cases previous) auto
  moreover have "portable_operation_path None (at_path op) = Inr (at_path op)"
    using Cons.prems(2) by (simp add: ok_iff)
  ultimately show ?case using Cons.prems(1) by (cases previous) auto
qed simp

section \<open>The derived material\<close>

lemma seq_singleton: "seq [c] = c"
  by (cases c) auto

definition bounded_results :: "replay_state \<Rightarrow> bool" where
  "bounded_results s \<longleftrightarrow> (\<forall>p e. file_at s p = Some e \<longrightarrow> ep_origin e \<noteq> None \<longrightarrow>
     ep_byte_length e \<le> MAX_COMPOSITION_FILE_BYTES)"

lemma bounded_composed:
  assumes "composed base cs s" "\<And>p e. file_at base p = Some e \<Longrightarrow> ep_origin e = None"
  shows "bounded_results s"
proof -
  have "ep_byte_length e \<le> MAX_COMPOSITION_FILE_BYTES" if "last_written cs p e" for p e
    using that by (auto simp: last_written_def wrote_def)
  then show ?thesis using assms unfolding bounded_results_def composed_def by metis
qed

lemma pushed_material_valid:
  assumes "pushed base result i p ops ms" "modes_normal result" "bounded_results result"
    and "derivable base result"
  shows "aggregate_material_loop n i (ops @ ops') (ms @ ms') =
    aggregate_material_loop n (i + length ops) ops' ms'"
proof -
  have "portable_operation_path None p = Inr p"
    using assms(1,4) by (auto simp: pushed_def derivable_def text_paths_def ok_iff split: option.splits)
  moreover have "ep_unix_mode r AND NOT 511 = 0" if "file_at result p = Some r" for r
    using assms(2) that by (simp add: modes_normal_def)
  moreover have "ep_byte_length r \<le> MAX_COMPOSITION_FILE_BYTES"
    if "file_at result p = Some r" "ep_origin r = Some o'" for r o'
    using assms(3) that by (auto simp: bounded_results_def)
  ultimately show ?thesis
    using assms(1)
    by (cases "file_at base p"; cases "file_at result p")
      (auto simp: pushed_def aggregate_material_of_def seq_singleton split: if_splits)
qed

lemma derived_material_valid:
  assumes "derive_paths base result ps (ops, ms) = Inr (ops', ms')"
    and "modes_normal result" "bounded_results result" "derivable base result"
  shows "\<exists>new_ops new_ms. ops' = ops @ new_ops \<and> ms' = ms @ new_ms \<and>
    aggregate_material_loop n (length ops) new_ops new_ms = Inr ()"
  using assms(1)
proof (induction ps arbitrary: ops ms)
  case (Cons p ps)
  then obtain ops1 ms1 where "derive_path base result p (ops, ms) = Inr (ops1, ms1)"
    and rest: "derive_paths base result ps (ops1, ms1) = Inr (ops', ms')"
    by (auto simp: bind_ok_Inr)
  from derive_path_pushed [OF this(1)] obtain n_ops n_ms where
    one: "ops1 = ops @ n_ops" "ms1 = ms @ n_ms" "pushed base result (length ops) p n_ops n_ms" by blast
  from Cons.IH [OF rest] obtain m_ops m_ms where more: "ops' = ops1 @ m_ops" "ms' = ms1 @ m_ms"
    "aggregate_material_loop n (length ops1) m_ops m_ms = Inr ()" by blast
  have "aggregate_material_loop n (length ops) (n_ops @ m_ops) (n_ms @ m_ms) = Inr ()"
    using pushed_material_valid [OF one(3) assms(2-4)] more(3) by (simp add: one(1))
  then show ?case using one(1,2) more(1,2)
    by (intro exI [of _ "n_ops @ m_ops"] exI [of _ "n_ms @ m_ms"]) simp
qed simp

section \<open>The directories\<close>

lemma directory_state_loop_ok:
  assumes "sorted_wrt (<) ((case previous of None \<Rightarrow> [] | Some p \<Rightarrow> [p]) @ ds)"
    and "\<forall>d\<in>set ds. portable d \<and> set (path_ancestors d) \<subseteq> all"
  shows "directory_state_loop all previous ds = Inr ()"
  using assms
proof (induction ds arbitrary: previous)
  case (Cons d ds)
  then have "directory_state_loop all (Some d) ds = Inr ()" by (cases previous) auto
  with Cons.prems show ?case by (cases previous) (auto simp: ok_iff)
qed simp

lemma validate_directory_state_ok:
  assumes "tree_shaped s" "\<forall>d\<in>dirs_of s. portable d"
  shows "validate_directory_state (bs_elems (rp_directories s)) = Inr ()"
proof -
  note t = tree_shapedD [OF assms(1)]
  have len: "length (bs_elems (rp_directories s)) = card (dirs_of s)"
    using length_bs [OF t(2)] by (simp add: bs_elems_def)
  have "directory_state_loop (dirs_of s) None (bs_elems (rp_directories s)) = Inr ()"
    using bs_elems_sorted [OF t(2)] assms(2) t(5) by (intro directory_state_loop_ok) auto
  then show ?thesis using t(6) by (simp add: validate_directory_state_def len)
qed

section \<open>The plan\<close>

lemma sha_digest_nonblank:
  assumes "length (sha m) = 32"
  shows "\<not> blank (digest_str (digest_sha256 sha m))" "length (digest_str (digest_sha256 sha m)) = 64"
proof -
  have c: "canonical_digest (digest_sha256 sha m)" by (rule digest_sha256_canonical) fact
  then show "length (digest_str (digest_sha256 sha m)) = 64" by (simp add: canonical_digest_def)
  with c obtain h t where "digest_str (digest_sha256 sha m) = h # t" "is_lower_hex h"
    by (cases "digest_str (digest_sha256 sha m)") (auto simp: canonical_digest_def)
  moreover from this(2) have "32 < byte h" "byte h < 128"
    by (auto simp: is_lower_hex_def ascii_class_defs byte_def)
  ultimately show "\<not> blank (digest_str (digest_sha256 sha m))" by (simp add: graphic_not_blank)
qed

lemma composition_digest_ok:
  "composition_digest sha enc f label v = Inr d \<Longrightarrow> \<exists>m. d = digest_sha256 sha m"
  by (auto simp: composition_digest_def bind_ok_Inr)

text \<open>A valid base and a state composed from it by valid sources.\<close>

definition composition_cut :: "base_projection \<Rightarrow> composition_source list \<Rightarrow> replay_state \<Rightarrow> bool" where
  "composition_cut b ss s \<longleftrightarrow> composed (replay_state_from_base b) ss s \<and>
     tree_shaped (replay_state_from_base b) \<and> text_paths (replay_state_from_base b) \<and>
     (\<forall>p e. file_at (replay_state_from_base b) p = Some e \<longrightarrow> ep_origin e = None)"

lemma composition_cutD:
  assumes "composition_cut b ss s"
  shows "derivable (replay_state_from_base b) s" "modes_normal s" "bounded_results s"
  using assms derivable_composed bounded_composed
  unfolding composition_cut_def composed_def by blast+

lemma derived_change_set_ok:
  assumes cut: "composition_cut b ss s"
    and agg: "derive_aggregate (replay_state_from_base b) s = Inr (ops, ms)"
    and empty: "(ops = []) = (ci_base_snapshot i = ci_result_snapshot i)"
    and ident: "compute_aggregate_change_set_id sha cd i ops = Inr ident"
    and sha: "\<And>m. length (sha m) = 32"
  shows "\<not> blank (digest_str ident) \<and> length (digest_str ident) = 64 \<and>
    validate_change_set (change_set_of \<lparr>cx_change_set_id = digest_str ident,
      cx_base_snapshot = ci_base_snapshot i, cx_result_snapshot = ci_result_snapshot i,
      cx_operations = ops\<rparr>) = Inr ()"
proof -
  obtain m where "ident = digest_sha256 sha m"
    using composition_digest_ok [OF ident [unfolded compute_aggregate_change_set_id_def
      compute_aggregate_change_set_id_from_fields_def]] by blast
  then have id_ok: "\<not> blank (digest_str ident)" "length (digest_str ident) = 64"
    using sha_digest_nonblank [of sha m, OF sha [of m]] by simp_all
  then show ?thesis
    using derived_change_set_valid [OF composition_cutD(1) [OF cut] agg] empty by simp
qed

lemma derived_plan_valid:
  assumes cut: "composition_cut b ss s"
    and agg: "derive_aggregate (replay_state_from_base b) s = Inr (ops, ms)"
    and replay: "replay_aggregate (replay_state_from_base b) ops ms = Inr t"
    and bounds: "validate_aggregate_bounds ops ms = Inr ()"
    and empty: "(ops = []) = (ci_base_snapshot i = ci_result_snapshot i)"
    and inputs: "validate_composition_inputs sha cd i = Inr ()"
    and c: "c = \<lparr>cx_change_set_id = digest_str ident, cx_base_snapshot = ci_base_snapshot i,
      cx_result_snapshot = ci_result_snapshot i, cx_operations = ops\<rparr>"
    and ident: "compute_aggregate_change_set_id sha cd i ops = Inr ident"
    and digests: "operations_digest sha cd c = Inr od" "endpoints_digest sha cd c = Inr ed"
      "compute_result_material_digest sha cd ms = Inr md"
      "compute_directory_state_digest sha cd (bs_elems (rp_directories t)) = Inr dd"
    and body: "body = \<lparr>dv_composer_version = COMPOSER_VERSION, dv_sprint_id = ci_sprint_id i,
      dv_base_snapshot = ci_base_snapshot i, dv_result_snapshot = ci_result_snapshot i,
      dv_base_projection_digest = bp_projection_digest b,
      dv_source_set_digest = ci_source_set_digest i,
      dv_complete_task_done_set_digest = ci_complete_task_done_set_digest i,
      dv_final_verification = ci_final_verification i,
      dv_aggregate_change_set_id = cx_change_set_id c, dv_aggregate_operations_digest = od,
      dv_aggregate_touched_endpoints_digest = ed, dv_aggregate_result_material_digest = md,
      dv_final_directory_state_digest = dd, dv_aggregate_no_op = (ops = [])\<rparr>"
    and recorded: "compute_derivation_record_digest sha cd body = Inr rd"
    and sha: "\<And>m. length (sha m) = 32"
  shows "validate_composition_plan sha cd
    \<lparr>pl_change_set = c, pl_result_material = ms,
     pl_final_directories = bs_elems (rp_directories t),
     pl_derivation_record = derivation_record_fields.extend body \<lparr>dv_record_digest = rd\<rparr>\<rparr> = Inr ()"
proof -
  note cutD = composition_cutD [OF cut]
  note d = derived_operations [OF cutD(1) agg]
  note ids = derived_change_set_ok [OF cut agg empty ident sha]
  have id_ok: "\<not> blank (cx_change_set_id c)" "length (cx_change_set_id c) = 64"
    and change_set: "validate_change_set (change_set_of c) = Inr ()"
    using ids by (simp_all add: c)
  have version: "ci_composer_version i = COMPOSER_VERSION"
    and sprint: "require_identifier f (ci_sprint_id i) = Inr ()"
    and final: "validate_final_verification_binding (ci_final_verification i) = Inr ()"
    and snap: "fb_snapshot (ci_final_verification i) = ci_result_snapshot i" for f
    using inputs by (auto simp: validate_composition_inputs_def ok_iff)
  have order: "validate_aggregate_operation_order ops = Inr ()"
    unfolding validate_aggregate_operation_order_def
    using d(2,3) by (intro aggregate_order_loop_ok) auto
  have material: "validate_aggregate_result_material ops ms = Inr ()"
    using derived_material_valid [OF agg [unfolded derive_aggregate_def] cutD(2,3,1), of "length ops"]
    by (simp add: validate_aggregate_result_material_def)
  have directories: "validate_directory_state (bs_elems (rp_directories t)) = Inr ()"
  proof (rule validate_directory_state_ok)
    from aggregate_replays [OF cutD(1) agg] replay
    show "tree_shaped t" "\<forall>d\<in>dirs_of t. portable d"
      using cutD(1) by (auto simp: derivable_def text_paths_def)
  qed
  have again: "compute_aggregate_change_set_id_from_fields sha cd COMPOSER_VERSION (ci_sprint_id i)
      (ci_base_snapshot i) (ci_result_snapshot i) (ci_source_set_digest i) ops = Inr ident"
    using ident by (simp add: compute_aggregate_change_set_id_def version)
  have recorded': "compute_derivation_record_digest sha cd
      (derivation_record_fields.extend body \<lparr>dv_record_digest = rd\<rparr>) = Inr rd"
    using recorded by (simp add: compute_derivation_record_digest_def body derivation_record_fields.defs)
  have "validate_derivation_record sha cd
      (derivation_record_fields.extend body \<lparr>dv_record_digest = rd\<rparr>) = Inr ()"
    using recorded' sprint final snap empty id_ok
    by (simp add: validate_derivation_record_def ok_iff body derivation_record_fields.defs
        MAX_COMPOSITION_IDENTIFIER_BYTES_def)
  then show ?thesis
    using change_set order material bounds directories digests again
    by (simp add: validate_composition_plan_def Let_def c body derivation_record_fields.defs)
qed

end
