(* ===== verification/Composed.thy ===== *)
theory Composed
  imports Composition_Integrity
begin

text \<open>
  The composition as a whole: a derived plan is the sequence of its sources in one canonical change
  set, and its blobs are those of the last writers.
\<close>

section \<open>An accepted derivation\<close>

fun replay_sources ::
  "composition_source list \<Rightarrow> replay_state \<Rightarrow> composition_conflict + replay_state" where
  "replay_sources [] s = Inr s"
| "replay_sources (c # cs) s = bind_ok (replay_source c s) (replay_sources cs)"

lemma derive_sources_replay:
  "derive_sources sha cd n i ids members expected s ss = Inr (expected', s') \<Longrightarrow>
     replay_sources ss s = Inr s'"
proof (induction ss arbitrary: i ids members expected s)
  case (Cons c ss)
  then obtain j ids' where "ids = j # ids'" by (cases ids) auto
  with Cons.prems obtain s1 where "derive_source sha cd n i j members expected s c = Inr s1"
    "derive_sources sha cd n (Suc i) ids' (add_members c members) (cs_result_snapshot c) s1 ss =
      Inr (expected', s')"
    by (auto simp: bind_ok_Inr)
  then show ?case using Cons.IH
    by (auto simp: derive_source_def bind_ok_Inr split: if_splits)
qed simp

text \<open>What \<open>derive_composition\<close> has established when it comes to the last state.\<close>

definition composition_front ::
  "(string \<Rightarrow> string) \<Rightarrow> composition_codec \<Rightarrow> composition_inputs \<Rightarrow> base_projection \<Rightarrow>
     composition_source list \<Rightarrow> replay_state \<Rightarrow> bool" where
  "composition_front sha cd i b ss s \<longleftrightarrow>
     validate_composition_inputs sha cd i = Inr () \<and> validate_base_projection sha cd b = Inr () \<and>
     bp_snapshot b = ci_base_snapshot i \<and> ss \<noteq> [] \<and>
     (\<forall>c\<in>set ss. validate_composition_source sha cd c = Inr ()) \<and>
     replay_sources ss (replay_state_from_base b) = Inr s \<and>
     replay_state_snapshot sha s = Inr (ci_result_snapshot i)"

lemma front_cut:
  assumes "validate_composition_inputs sha cd i = Inr ()" "validate_base_projection sha cd b = Inr ()"
    and "length ss = length (ci_expected_source_identities i)" "bp_snapshot b = ci_base_snapshot i"
    and "derive_sources sha cd n 0 ids no_members e (replay_state_from_base b) ss = Inr (e', s)"
    and "utf8_base b"
  shows "composition_cut b ss s \<and> replay_state_snapshot sha s = Inr e' \<and>
    (e' = ci_result_snapshot i \<longrightarrow> composition_front sha cd i b ss s)"
proof -
  let ?base = "replay_state_from_base b"
  note base = valid_base_state [OF assms(2)] base_origin [OF assms(2)]
  have "ci_expected_source_identities i \<noteq> []"
    using assms(1) by (auto simp: validate_composition_inputs_def validate_source_identity_set_def)
  then have ss: "ss \<noteq> []" using assms(3) by auto
  have "composed ?base [] ?base"
    using base assms(6) by (simp add: composed_def)
  from derive_sourcesD [OF assms(5) this] ss
  have "composed ?base ss s" "replay_state_snapshot sha s = Inr e'"
    "\<forall>c\<in>set ss. validate_composition_source sha cd c = Inr ()" by auto
  then show ?thesis
    using derive_sources_replay [OF assms(5)] base assms ss
    by (auto simp: composition_cut_def composition_front_def)
qed

lemma derive_composition_ok:
  assumes "derive_composition sha cd i b ss = Inr plan" "utf8_base b"
  shows "\<exists>s. composition_front sha cd i b ss s \<and> composition_cut b ss s \<and>
    derive_plan sha cd i b s = Inr plan"
proof -
  from assms(1) obtain s where
    checks: "validate_composition_inputs sha cd i = Inr ()" "validate_base_projection sha cd b = Inr ()"
      "length ss = length (ci_expected_source_identities i)" "bp_snapshot b = ci_base_snapshot i"
    and sources: "derive_sources sha cd (length ss) 0 (ci_expected_source_identities i) no_members
        (ci_base_snapshot i) (replay_state_from_base b) ss = Inr (ci_result_snapshot i, s)"
    and plan: "derive_plan sha cd i b s = Inr plan"
    by (auto simp: derive_composition_def bind_ok_Inr)
  from front_cut [OF checks sources assms(2)] plan show ?thesis by blast
qed

lemma bt_collect_sorted: "wf_btree kvs \<Longrightarrow> bt_collect kvs = kvs"
  using bt_get_collect_distinct [OF wf_btree_distinct, of kvs]
  by (intro bt_get_ext) (simp_all add: bt_get_def)

lemma base_snapshot:
  assumes "validate_base_projection sha cd b = Inr u"
  shows "replay_state_snapshot sha (replay_state_from_base b) = Inr (bp_snapshot b)"
proof -
  let ?kv = "\<lambda>f. (bf_path f, \<lparr>ep_content_digest = bf_content_digest f,
    ep_byte_length = bf_byte_length f, ep_unix_mode = bf_unix_mode f, ep_origin = None\<rparr>)"
  from assms have files: "validate_canonical_base_files (bp_files b) = Inr ()"
    and snap: "compute_workspace_manifest_digest sha (base_manifest_entries (bp_files b)) =
      Inr (bp_snapshot b)"
    by (auto simp: validate_base_projection_def validate_base_projection_shape_def bind_ok_Inr)
  from files have "wf_btree (map ?kv (bp_files b))"
    by (simp add: validate_canonical_base_files_def canonical_paths_ok wf_btree_def comp_def)
  then have "state_manifest_entries (rp_files (replay_state_from_base b)) =
      base_manifest_entries (bp_files b)"
    by (simp add: replay_state_from_base_def bt_collect_sorted state_manifest_entries_def
        base_manifest_entries_def comp_def)
  then show ?thesis using snap by (simp add: replay_state_snapshot_def)
qed

section \<open>The plan represents the sources\<close>

lemma entries_of_keys:
  assumes "wf_btree files"
  shows "files = map (\<lambda>p. (p, the (bt_get files p))) (map fst files)"
proof -
  have "(fst e, the (bt_get files (fst e))) = e" if "e \<in> set files" for e
    using bt_get_Some_iff [OF assms, of "fst e" "snd e"] that by simp
  then have "map (\<lambda>e. (fst e, the (bt_get files (fst e)))) files = files" by (simp add: map_idI)
  then show ?thesis by (simp add: comp_def)
qed

lemma same_manifest:
  assumes "wf_btree l" "wf_btree r" "\<And>p. same_optional_file_endpoint (bt_get l p) (bt_get r p)"
  shows "state_manifest_entries l = state_manifest_entries r"
proof -
  have same: "bt_get l p = None \<longleftrightarrow> bt_get r p = None" for p
    using assms(3) by (rule same_endpoint_absent)
  then have "fst ` set l = fst ` set r" by (auto simp: bt_get_None_iff)
  then have keys: "map fst l = map fst r"
    using assms(1,2) unfolding wf_btree_def by (intro strict_sorted_equal) simp_all
  let ?entry = "\<lambda>m p. \<lparr>me_path = p, me_content_digest = ep_content_digest (the (bt_get m p)),
    me_byte_length = ep_byte_length (the (bt_get m p)), me_unix_mode = ep_unix_mode (the (bt_get m p))\<rparr>"
  have entries: "state_manifest_entries m = map (?entry m) (map fst m)" if "wf_btree m" for m
    by (subst entries_of_keys [OF that]) (simp add: state_manifest_entries_def comp_def)
  have "?entry l p = ?entry r p" if "p \<in> set (map fst l)" for p
  proof -
    have "bt_get l p \<noteq> None" unfolding bt_get_None_iff using that by simp
    then obtain e where "bt_get l p = Some e" by blast
    moreover obtain e' where "bt_get r p = Some e'" using same [of p] calculation by auto
    ultimately show ?thesis using assms(3) [of p] by simp
  qed
  then show ?thesis by (simp add: entries assms keys cong: map_cong)
qed

text \<open>
  C4. An accepted plan says in one change set what its sources say in sequence. Its operations are
  the net changes between the base and the state the sources leave, in byte order of their paths;
  replaying them over the base succeeds and ends with the same content, length, and mode at every
  path, and with the directories that the plan lists, all of them directories that the sources left,
  among them every ancestor of a file. The base snapshot of the change set is the manifest digest of
  the base, its result snapshot that of the state the sources leave and of the replayed aggregate.
\<close>

theorem composition_represents_sources:
  assumes "derive_composition sha cd i b ss = Inr plan" "utf8_base b"
  shows "\<exists>final replayed.
    replay_sources ss (replay_state_from_base b) = Inr final \<and>
    replay_state_snapshot sha (replay_state_from_base b) =
      Inr (cx_base_snapshot (pl_change_set plan)) \<and>
    replay_state_snapshot sha final = Inr (cx_result_snapshot (pl_change_set plan)) \<and>
    cx_operations (pl_change_set plan) = List.map_filter (net_change (replay_state_from_base b) final)
      (union_paths (replay_state_from_base b) final) \<and>
    replay_aggregate (replay_state_from_base b) (cx_operations (pl_change_set plan))
      (pl_result_material plan) = Inr replayed \<and>
    (\<forall>p. same_optional_file_endpoint (file_at replayed p) (file_at final p)) \<and>
    replay_state_snapshot sha replayed = replay_state_snapshot sha final \<and>
    pl_final_directories plan = bs_elems (rp_directories replayed) \<and>
    dirs_of replayed \<subseteq> dirs_of final \<and>
    (\<forall>p a. file_at final p \<noteq> None \<and> a \<in> set (path_ancestors p) \<longrightarrow> a \<in> set (pl_final_directories plan))"
proof -
  let ?base = "replay_state_from_base b"
  from derive_composition_ok [OF assms] obtain s where
    front: "composition_front sha cd i b ss s" and cut: "composition_cut b ss s"
    and plan: "derive_plan sha cd i b s = Inr plan" by blast
  from plan obtain ops ms t where agg: "derive_aggregate ?base s = Inr (ops, ms)"
    and t: "replay_aggregate ?base ops ms = Inr t"
    and asm: "assemble_plan sha cd i b ops ms t = Inr plan"
    by (auto simp: derive_plan_def bind_ok_Inr split: prod.splits)
  have fields: "cx_operations (pl_change_set plan) = ops" "pl_result_material plan = ms"
    "cx_base_snapshot (pl_change_set plan) = ci_base_snapshot i"
    "cx_result_snapshot (pl_change_set plan) = ci_result_snapshot i"
    "pl_final_directories plan = bs_elems (rp_directories t)"
    using asm by (auto simp: assemble_plan_def bind_ok_Inr Let_def)
  note drv = composition_cutD(1) [OF cut]
  from aggregate_replays [OF drv agg] t have shape: "tree_shaped t" "dirs_of t \<subseteq> dirs_of s"
    and same: "\<And>p. same_optional_file_endpoint (file_at t p) (file_at s p)" by auto
  have "state_manifest_entries (rp_files t) = state_manifest_entries (rp_files s)"
    using shape(1) drv by (intro same_manifest same) (simp_all add: tree_shapedD derivable_def)
  then have snap: "replay_state_snapshot sha t = replay_state_snapshot sha s"
    by (simp add: replay_state_snapshot_def)
  have "a \<in> dirs_of t" if "file_at s p \<noteq> None" "a \<in> set (path_ancestors p)" for p a
  proof -
    have "file_at t p \<noteq> None" using same_endpoint_absent [OF same [of p]] that(1) by simp
    then show ?thesis using tree_shapedD(4) [OF shape(1)] that(2) by blast
  qed
  then have "\<forall>p a. file_at s p \<noteq> None \<and> a \<in> set (path_ancestors p) \<longrightarrow> a \<in> dirs_of t" by blast
  then show ?thesis
    using front derived_operations(1) [OF drv agg] t same snap shape base_snapshot [of sha cd b]
    by - (rule exI [of _ s], rule exI [of _ t], simp add: fields composition_front_def)
qed

section \<open>The blobs of a plan\<close>

lemma derive_paths_material:
  assumes "derive_paths base result ps (ops, ms) = Inr (ops', ms')" "m \<in> set ms'"
  shows "m \<in> set ms \<or> (\<exists>r o'. file_at result (gm_path m) = Some r \<and>
    file_at base (gm_path m) \<noteq> Some r \<and> ep_origin r = Some o' \<and>
    gm_result_digest m = ep_content_digest r \<and> gm_byte_length m = ep_byte_length r \<and>
    gm_source_ordinal m = or_source_ordinal o' \<and>
    gm_source_artifact_digest m = or_source_artifact_digest o')"
  using assms(1)
proof (induction ps arbitrary: ops ms)
  case (Cons p ps)
  then obtain ops1 ms1 where "derive_path base result p (ops, ms) = Inr (ops1, ms1)"
    and rest: "derive_paths base result ps (ops1, ms1) = Inr (ops', ms')"
    by (auto simp: bind_ok_Inr)
  from derive_path_pushed [OF this(1)] obtain n_ops n_ms where
    one: "ms1 = ms @ n_ms" "pushed base result (length ops) p n_ops n_ms" by blast
  have "\<exists>r o'. file_at result (gm_path m) = Some r \<and> file_at base (gm_path m) \<noteq> Some r \<and>
      ep_origin r = Some o' \<and> gm_result_digest m = ep_content_digest r \<and>
      gm_byte_length m = ep_byte_length r \<and> gm_source_ordinal m = or_source_ordinal o' \<and>
      gm_source_artifact_digest m = or_source_artifact_digest o'" if "m \<in> set n_ms"
    using one(2) that
    by (cases "file_at base p"; cases "file_at result p")
      (auto simp: pushed_def aggregate_material_of_def split: if_splits)
  then show ?case using Cons.IH [OF rest] one(1) by auto
qed (use assms(2) in simp)

text \<open>What the material of one created or modified path must say.\<close>

definition blob_for :: "text_operation \<Rightarrow> aggregate_material \<Rightarrow> bool" where
  "blob_for op m \<longleftrightarrow> gm_path m = at_path op \<and> gm_result_digest m = at_result op \<and>
     (case op of Create_At p r \<Rightarrow> gm_create_mode m \<noteq> None | _ \<Rightarrow> gm_create_mode m = None)"

lemma derive_paths_blobs:
  assumes "derive_paths base result ps (ops, ms) = Inr (ops', ms')"
    and "list_all2 blob_for (filter (\<lambda>op. \<not> is_delete op) ops) ms"
  shows "list_all2 blob_for (filter (\<lambda>op. \<not> is_delete op) ops') ms'"
  using assms
proof (induction ps arbitrary: ops ms)
  case (Cons p ps)
  then obtain ops1 ms1 where "derive_path base result p (ops, ms) = Inr (ops1, ms1)"
    and rest: "derive_paths base result ps (ops1, ms1) = Inr (ops', ms')"
    by (auto simp: bind_ok_Inr)
  from derive_path_pushed [OF this(1)] obtain n_ops n_ms where
    one: "ops1 = ops @ n_ops" "ms1 = ms @ n_ms" "pushed base result (length ops) p n_ops n_ms" by blast
  have "list_all2 blob_for (filter (\<lambda>op. \<not> is_delete op) n_ops) n_ms"
    using one(3)
    by (cases "file_at base p"; cases "file_at result p")
      (auto simp: pushed_def aggregate_material_of_def blob_for_def split: if_splits)
  with Cons.prems(2) have "list_all2 blob_for (filter (\<lambda>op. \<not> is_delete op) ops1) ms1"
    by (simp add: one(1,2) list_all2_appendI)
  then show ?case by (rule Cons.IH [OF rest])
qed simp

lemma derived_blobs: "derive_aggregate base result = Inr (ops, ms) \<Longrightarrow>
  list_all2 blob_for (filter (\<lambda>op. \<not> is_delete op) ops) ms"
  unfolding derive_aggregate_def by (erule derive_paths_blobs) simp

text \<open>
  C5. A plan tells the publisher exactly which blobs to reopen. Its material lists, in the order of
  the operations, one blob for each path that is created or modified and none for any other: with
  the path and the result digest of the operation, and with a mode exactly for a creation. Each of
  them is the last blob written to its path: the source it names is one of the sources, its artifact
  is that source's, the source's material for the path has the same digest and length, and no later
  source touches the path again.
\<close>

theorem blobs_come_from_last_writers:
  assumes "derive_composition sha cd i b ss = Inr plan" "utf8_base b"
  shows "list_all2 blob_for (filter (\<lambda>op. \<not> is_delete op) (cx_operations (pl_change_set plan)))
      (pl_result_material plan) \<and>
    (\<forall>m\<in>set (pl_result_material plan). \<exists>c\<in>set ss. cs_ordinal c = gm_source_ordinal m \<and>
       ar_artifact_digest (cs_artifact c) = gm_source_artifact_digest m \<and>
       (\<exists>r\<in>set (cs_result_material c). rm_path r = gm_path m \<and>
          rm_result_digest r = gm_result_digest m \<and> rm_byte_length r = gm_byte_length m) \<and>
       (\<forall>c'\<in>set ss. cs_ordinal c < cs_ordinal c' \<longrightarrow>
          gm_path m \<notin> at_path ` set (cx_operations (cs_change_set c'))))"
proof -
  let ?base = "replay_state_from_base b"
  from derive_composition_ok [OF assms(1,2)] obtain s where cut: "composition_cut b ss s"
    and plan: "derive_plan sha cd i b s = Inr plan" by blast
  from plan obtain ops ms t where agg: "derive_aggregate ?base s = Inr (ops, ms)"
    and asm: "assemble_plan sha cd i b ops ms t = Inr plan"
    by (auto simp: derive_plan_def bind_ok_Inr split: prod.splits)
  have plan_is: "cx_operations (pl_change_set plan) = ops" "pl_result_material plan = ms"
    using asm by (auto simp: assemble_plan_def bind_ok_Inr Let_def)
  have "\<exists>c\<in>set ss. cs_ordinal c = gm_source_ordinal m \<and>
       ar_artifact_digest (cs_artifact c) = gm_source_artifact_digest m \<and>
       (\<exists>r\<in>set (cs_result_material c). rm_path r = gm_path m \<and>
          rm_result_digest r = gm_result_digest m \<and> rm_byte_length r = gm_byte_length m) \<and>
       (\<forall>c'\<in>set ss. cs_ordinal c < cs_ordinal c' \<longrightarrow>
          gm_path m \<notin> at_path ` set (cx_operations (cs_change_set c')))" if "m \<in> set ms" for m
  proof -
    from derive_paths_material [OF agg [unfolded derive_aggregate_def] that]
    obtain r o' where r: "file_at s (gm_path m) = Some r" "file_at ?base (gm_path m) \<noteq> Some r"
    "ep_origin r = Some o'" "gm_result_digest m = ep_content_digest r"
    "gm_byte_length m = ep_byte_length r" "gm_source_ordinal m = or_source_ordinal o'"
    "gm_source_artifact_digest m = or_source_artifact_digest o'" by auto
    with cut have "last_written ss (gm_path m) r" by (auto simp: composition_cut_def composed_def)
    then show ?thesis using r by (force simp: last_written_def wrote_def)
  qed
  then show ?thesis using derived_blobs [OF agg] by (simp add: plan_is)
qed

section \<open>Snapshots tell states apart\<close>

text \<open>
  Two states with one snapshot have the same files, or their manifests are a collision of SHA-256.
\<close>

text \<open>Digests in the values are canonical, as \<open>Digest\<close> can only be built by its two constructors.\<close>

definition canonical_contents :: "base_projection \<Rightarrow> composition_source list \<Rightarrow> bool" where
  "canonical_contents b ss \<longleftrightarrow>
     list_all (\<lambda>f. canonical_digest (bf_content_digest f)) (bp_files b) \<and>
     list_all (\<lambda>c. list_all (\<lambda>m. canonical_digest (rm_result_digest m)) (cs_result_material c)) ss"

definition canonical_files :: "replay_state \<Rightarrow> bool" where
  "canonical_files s \<longleftrightarrow> (\<forall>p e. file_at s p = Some e \<longrightarrow>
     canonical_digest (ep_content_digest e))"

definition manifest_of :: "replay_state \<Rightarrow> string" where
  "manifest_of s = manifest_bytes (state_manifest_entries (rp_files s))"

lemma snapshotD:
  assumes "replay_state_snapshot sha s = Inr d"
  shows "digest_str d = concat (map hex_byte (sha (manifest_of s)))"
    "length (rp_files s) < 2 ^ 64"
    "file_at s p = Some e \<Longrightarrow> wf_btree (rp_files s) \<Longrightarrow> length p < 2 ^ 64"
proof -
  let ?es = "state_manifest_entries (rp_files s)"
  from assms show "digest_str d = concat (map hex_byte (sha (manifest_of s)))"
    by (auto simp: replay_state_snapshot_def compute_workspace_manifest_digest_def bind_ok_Inr
        digest_from_sha256_output_def digest_parse_iff manifest_of_def)
  from assms have len: "length ?es < 2 ^ 64" "\<forall>x\<in>set ?es. length (me_path x) < 2 ^ 64"
    by (simp_all add: replay_state_snapshot_def compute_workspace_manifest_digest_def bind_ok_Inr
        list_all_iff)
  from len(1) show "length (rp_files s) < 2 ^ 64" by (simp add: state_manifest_entries_def)
  show "length p < 2 ^ 64" if "file_at s p = Some e" "wf_btree (rp_files s)"
    using len(2) bt_get_Some_iff [OF that(2)] that(1) by (force simp: state_manifest_entries_def)
qed

lemma manifest_entries_same:
  "state_manifest_entries l = state_manifest_entries r \<Longrightarrow>
     same_optional_file_endpoint (bt_get l p) (bt_get r p)"
proof (induction l arbitrary: r)
  case (Cons x l)
  obtain q e where x: "x = (q, e)" by force
  with Cons.prems obtain e' r' where "r = (q, e') # r'"
    "same_optional_file_endpoint (Some e) (Some e')" "state_manifest_entries l = state_manifest_entries r'"
    by (cases r) (auto simp: state_manifest_entries_def)
  with Cons.IH [of r'] x show ?case by (simp add: bt_get_def)
qed (simp add: state_manifest_entries_def bt_get_def)

lemma same_snapshot:
  assumes "replay_state_snapshot sha s = Inr d" "replay_state_snapshot sha t = Inr d"
    and "wf_btree (rp_files s)" "wf_btree (rp_files t)" "canonical_files s" "canonical_files t"
    and "manifest_of s = manifest_of t \<or> sha (manifest_of s) \<noteq> sha (manifest_of t)"
  shows "same_optional_file_endpoint (file_at s p) (file_at t p)"
proof -
  have "concat (map hex_byte (sha (manifest_of s))) = concat (map hex_byte (sha (manifest_of t)))"
    using snapshotD(1) [OF assms(1)] snapshotD(1) [OF assms(2)] by simp
  then have same: "manifest_of s = manifest_of t" using assms(7) hex_bytes_inject by blast
  have ok: "\<forall>x\<in>set (state_manifest_entries (rp_files u)). length (me_path x) < 2 ^ 64 \<and>
      length (digest_str (me_content_digest x)) = 64"
    if "wf_btree (rp_files u)" "canonical_files u" "replay_state_snapshot sha u = Inr d" for u
    using that bt_get_Some_iff [OF that(1)] snapshotD(3) [OF that(3) _ that(1)]
    by (fastforce simp: state_manifest_entries_def canonical_files_def canonical_digest_def)
  have "state_manifest_entries (rp_files s) = state_manifest_entries (rp_files t)"
    using same ok [OF assms(3,5,1)] ok [OF assms(4,6,2)] snapshotD(2) [OF assms(1)]
      snapshotD(2) [OF assms(2)]
    unfolding manifest_of_def
    by (intro manifest_bytes_inject) (auto simp: state_manifest_entries_def)
  then show ?thesis by (rule manifest_entries_same)
qed

lemma canonical_composed:
  assumes "composed (replay_state_from_base b) ss s" "canonical_contents b ss"
    and "validate_base_projection sha cd b = Inr ()"
  shows "canonical_files s" "canonical_files (replay_state_from_base b)"
proof -
  show base: "canonical_files (replay_state_from_base b)"
    using assms(2) base_file_at [OF assms(3)]
    by (auto simp: canonical_files_def canonical_contents_def list_all_iff)
  have "canonical_digest (ep_content_digest e)" if "last_written ss p e" for p e
    using that assms(2)
    by (fastforce simp: last_written_def wrote_def canonical_contents_def list_all_iff)
  then show "canonical_files s"
    using assms(1) base unfolding canonical_files_def composed_def by blast
qed

lemma empty_iff_same_snapshot:
  assumes front: "composition_front sha cd i b ss s" and cut: "composition_cut b ss s"
    and canonical: "canonical_contents b ss"
    and told: "manifest_of (replay_state_from_base b) = manifest_of s \<or>
      sha (manifest_of (replay_state_from_base b)) \<noteq> sha (manifest_of s)"
    and agg: "derive_aggregate (replay_state_from_base b) s = Inr (ops, ms)"
  shows "(ops = []) = (ci_base_snapshot i = ci_result_snapshot i)"
proof
  let ?base = "replay_state_from_base b"
  have valid: "validate_base_projection sha cd b = Inr ()"
    and snaps: "replay_state_snapshot sha ?base = Inr (ci_base_snapshot i)"
      "replay_state_snapshot sha s = Inr (ci_result_snapshot i)"
    using front base_snapshot [of sha cd b] by (auto simp: composition_front_def)
  have wf: "wf_btree (rp_files ?base)" "wf_btree (rp_files s)"
    using cut by (auto simp: composition_cut_def composed_def tree_shapedD)
  note drv = composition_cutD(1) [OF cut]
  show "ci_base_snapshot i = ci_result_snapshot i" if "ops = []"
  proof -
    have "same_optional_file_endpoint (file_at ?base p) (file_at s p)" for p
      using aggregate_replays [OF drv agg] by (auto simp: that replay_aggregate_def)
    from same_manifest [OF wf this] snaps show ?thesis by (simp add: replay_state_snapshot_def)
  qed
  show "ops = []" if "ci_base_snapshot i = ci_result_snapshot i"
  proof -
    have "composed ?base ss s" using cut by (simp add: composition_cut_def)
    note canon = canonical_composed [OF this canonical valid]
    have same: "same_optional_file_endpoint (file_at ?base p) (file_at s p)" for p
      by (rule same_snapshot [OF snaps(1) [unfolded that] snaps(2) wf canon(2,1) told])
    have "net_change ?base s p = None" for p
      using same [of p]
      by (cases "file_at ?base p"; cases "file_at s p") (auto simp: net_change_def)
    then show ?thesis
      unfolding derived_operations(1) [OF drv agg] by (simp add: List.map_filter_def)
  qed
qed

section \<open>When a derivation succeeds\<close>

text \<open>serde encodes every value of the plan: none of them has a map with keys that are not text.\<close>

definition codec_total :: "composition_codec \<Rightarrow> bool" where
  "codec_total cd \<longleftrightarrow> (\<forall>x. is_ok (cc_change_set_id cd x)) \<and> (\<forall>x. is_ok (cc_material cd x)) \<and>
     (\<forall>x. is_ok (cc_directories cd x)) \<and> (\<forall>x. is_ok (cc_record_fields cd x)) \<and>
     (\<forall>x. is_ok (cc_operations cd x)) \<and> (\<forall>x. is_ok (cc_endpoints cd x))"

lemma composition_digest_total:
  "is_ok (enc v) \<Longrightarrow> \<exists>d. composition_digest sha enc f l v = Inr d"
  by (cases "enc v") (simp_all add: composition_digest_def)

lemma contract_digest_total:
  "is_ok (enc v) \<Longrightarrow> \<exists>d. digest_canonical_contract sha enc l v f = Inr d"
  by (cases "enc v") (simp_all add: digest_canonical_contract_def)

lemma derive_plan_succeeds:
  assumes cut: "composition_cut b ss s" and inputs: "validate_composition_inputs sha cd i = Inr ()"
    and agg: "derive_aggregate (replay_state_from_base b) s = Inr (ops, ms)"
    and bounds: "validate_aggregate_bounds ops ms = Inr ()"
    and empty: "(ops = []) = (ci_base_snapshot i = ci_result_snapshot i)"
    and codec: "codec_total cd" and sha: "\<And>m. length (sha m) = 32"
  shows "\<exists>plan. derive_plan sha cd i b s = Inr plan \<and> cx_operations (pl_change_set plan) = ops \<and>
    pl_result_material plan = ms"
proof -
  let ?base = "replay_state_from_base b"
  obtain t where t: "replay_aggregate ?base ops ms = Inr t" "same_file_endpoints (rp_files t) (rp_files s)"
    using aggregate_replays [OF composition_cutD(1) [OF cut] agg] by blast
  obtain ident where ident: "compute_aggregate_change_set_id sha cd i ops = Inr ident"
    using codec composition_digest_total [of "cc_change_set_id cd"]
    unfolding codec_total_def compute_aggregate_change_set_id_def
      compute_aggregate_change_set_id_from_fields_def by blast
  let ?c = "\<lparr>cx_change_set_id = digest_str ident, cx_base_snapshot = ci_base_snapshot i,
    cx_result_snapshot = ci_result_snapshot i, cx_operations = ops\<rparr>"
  obtain od ed md dd where digests: "operations_digest sha cd ?c = Inr od"
    "endpoints_digest sha cd ?c = Inr ed" "compute_result_material_digest sha cd ms = Inr md"
    "compute_directory_state_digest sha cd (bs_elems (rp_directories t)) = Inr dd"
    using codec contract_digest_total [of "cc_operations cd"] contract_digest_total [of "cc_endpoints cd"]
      composition_digest_total [of "cc_material cd"] composition_digest_total [of "cc_directories cd"]
    unfolding operations_digest_def endpoints_digest_def compute_result_material_digest_def
      compute_directory_state_digest_def codec_total_def by metis
  have change_set: "validate_change_set (change_set_of ?c) = Inr ()"
    using derived_change_set_ok [OF cut agg empty ident sha] by blast
  let ?body = "\<lparr>dv_composer_version = COMPOSER_VERSION, dv_sprint_id = ci_sprint_id i,
      dv_base_snapshot = ci_base_snapshot i, dv_result_snapshot = ci_result_snapshot i,
      dv_base_projection_digest = bp_projection_digest b,
      dv_source_set_digest = ci_source_set_digest i,
      dv_complete_task_done_set_digest = ci_complete_task_done_set_digest i,
      dv_final_verification = ci_final_verification i,
      dv_aggregate_change_set_id = cx_change_set_id ?c, dv_aggregate_operations_digest = od,
      dv_aggregate_touched_endpoints_digest = ed, dv_aggregate_result_material_digest = md,
      dv_final_directory_state_digest = dd, dv_aggregate_no_op = (ops = [])\<rparr>"
  obtain rd where rd: "compute_derivation_record_digest sha cd ?body = Inr rd"
    using codec composition_digest_total [of "cc_record_fields cd"]
    unfolding codec_total_def compute_derivation_record_digest_def by blast
  note valid = derived_plan_valid [OF cut agg t(1) bounds empty inputs refl ident digests refl rd sha]
  have "assemble_plan sha cd i b ops ms t = Inr
    \<lparr>pl_change_set = ?c, pl_result_material = ms,
     pl_final_directories = bs_elems (rp_directories t),
     pl_derivation_record = derivation_record_fields.extend ?body \<lparr>dv_record_digest = rd\<rparr>\<rparr>"
    unfolding assemble_plan_def ident bind_ok.simps Let_def change_set map_err.simps digests rd valid ..
  then show ?thesis
    using empty by (simp add: derive_plan_def agg bounds t)
qed

end
