(* ===== verification/Composition_Errors.thy ===== *)
theory Composition_Errors
  imports Composition_Integrity
begin

text \<open>
  The code calls some arms unreachable and indexes some lists without a check; the model returns a
  panic there. Up to the aggregate, no derivation panics: replay finds the material that validation
  has counted, and there is an admitted identity for each source.
\<close>

fun panics :: "composition_conflict \<Rightarrow> bool" where
  "panics (Composition_Panic m) = True"
| "panics _ = False"

definition panic_free :: "composition_conflict + 'a \<Rightarrow> bool" where
  "panic_free r \<longleftrightarrow> (\<forall>e. r = Inl e \<longrightarrow> \<not> panics e)"

lemma panic_free_Inr [simp]: "panic_free (Inr x)"
  by (simp add: panic_free_def)

lemma panic_free_Inl [simp]: "panic_free (Inl e) \<longleftrightarrow> \<not> panics e"
  by (simp add: panic_free_def)

lemma panic_free_ensure [simp]: "panic_free (ensure b e) \<longleftrightarrow> (\<not> b \<longrightarrow> \<not> panics e)"
  by (simp add: ensure_def)

lemma panic_free_seq [simp]: "panic_free (seq (c # cs)) \<longleftrightarrow> panic_free c \<and> (c = Inr () \<longrightarrow> panic_free (seq cs))"
  by (cases c) auto

lemma panic_free_bind [simp]: "panic_free (bind_ok m k) \<longleftrightarrow> panic_free m \<and> (\<forall>x. m = Inr x \<longrightarrow> panic_free (k x))"
  by (cases m) auto

lemma panic_free_ok_or [simp]: "panic_free (ok_or m e) \<longleftrightarrow> (m = None \<longrightarrow> \<not> panics e)"
  by (cases m) auto

lemma panic_free_map_err [simp]: "panic_free (map_err f m) \<longleftrightarrow> (\<forall>e. m = Inl e \<longrightarrow> \<not> panics (f e))"
  by (cases m) auto

lemma panic_free_seq_map: "(\<And>x. x \<in> set xs \<Longrightarrow> panic_free (f x)) \<Longrightarrow> panic_free (seq (map f xs))"
  by (induction xs) auto

lemma external_conflicts [simp]:
  "\<not> panics (manifest_conflict f e)" "\<not> panics (canonical_contract_error f e)"
  by (simp_all add: manifest_conflict_def canonical_contract_error_def)

section \<open>Shared checks\<close>

lemma panic_free_checks [simp]:
  "panic_free (require_identifier f v)" "panic_free (require_composer_version f w)"
  "panic_free (validate_portable_path o' p)" "panic_free (checked_add_usize f m n)"
  "panic_free (canonical_len enc f x)" "panic_free (require_canonical_len enc f x n)"
  "panic_free (composition_digest sha enc f l x)" "panic_free (insert_blob_length blobs d k)"
  "panic_free (require_unique_source_member values f v)"
  by (simp_all add: require_identifier_def require_composer_version_def validate_portable_path_def
      checked_add_usize_def canonical_len_def require_canonical_len_def composition_digest_def
      insert_blob_length_def require_unique_source_member_def split: option.split)

lemma panic_free_operation_path [simp]: "panic_free (portable_operation_path o' p)"
  by (simp add: portable_operation_path_def)

lemma panic_free_sum_lengths [simp]: "panic_free (sum_lengths f acc blobs)"
  by (induction f acc blobs rule: sum_lengths.induct) simp_all

lemma panic_free_blob_total [simp]: "panic_free (checked_blob_total f blobs)"
  by (simp add: checked_blob_total_def)

lemma panic_free_each_unique:
  "(\<And>x. panic_free (check x)) \<Longrightarrow> (\<And>x. \<not> panics (dup x)) \<Longrightarrow> panic_free (each_unique key check dup seen xs)"
  by (induction xs arbitrary: seen) auto

section \<open>Inputs, base, sources\<close>

lemma panic_free_inputs [simp]: "panic_free (validate_composition_inputs sha cd i)"
  by (simp add: validate_composition_inputs_def validate_final_verification_binding_def
      validate_source_identity_set_def compute_source_set_digest_def panic_free_each_unique)

lemma panic_free_canonical_paths:
  "(\<And>x. panic_free (check x)) \<Longrightarrow> panic_free (canonical_paths path_at check f previous xs)"
  by (induction xs arbitrary: previous) (auto split: option.split)

lemma panic_free_ancestors [simp]: "panic_free (validate_ancestors fs ds p)"
proof -
  have "panic_free (seq (concat (map (\<lambda>a. [ensure (a \<notin> fs) (Base_Topology_Conflict p a),
      ensure (a \<in> ds) (Incomplete_Directory_Projection p a)]) as)))" for as
    by (induction as) auto
  then show ?thesis by (simp add: validate_ancestors_def)
qed

lemma panic_free_base [simp]: "panic_free (validate_base_projection sha cd b)"
  by (simp add: validate_base_projection_def validate_base_projection_shape_def
      validate_canonical_base_files_def validate_canonical_base_directories_def
      compute_base_projection_digest_def panic_free_canonical_paths panic_free_seq_map)

lemma panic_free_source_operations [simp]: "panic_free (source_operations_loop k seen ops)"
  by (induction ops arbitrary: seen) (auto split: text_operation.split)

lemma panic_free_source_material [simp]: "panic_free (source_material_loop s i blobs ops ms)"
  by (induction ops arbitrary: i blobs ms)
    (auto simp: Let_def split: list.split result_material_kind.split)

lemma panic_free_source_shape [simp]: "panic_free (validate_source_shape s)"
  by (auto simp: validate_source_shape_def validate_source_operations_def
      validate_source_result_material_def split: prod.split)

lemma panic_free_source [simp]: "panic_free (validate_composition_source sha cd s)"
  by (simp add: validate_composition_source_def validate_source_without_identity_def
      compute_source_identity_def)

section \<open>Replay\<close>

lemma panic_free_create_absent [simp]: "panic_free (require_create_absent (Some k) p s)"
  by (simp add: require_create_absent_def split: option.split)

lemma panic_free_add_directories [simp]: "panic_free (add_directories (Some k) p files as dirs)"
  by (induction as arbitrary: dirs) (auto simp: Let_def)

lemma panic_free_parents [simp]: "panic_free (ensure_parent_directories (Some k) p s)"
  by (simp add: ensure_parent_directories_def)

lemma panic_free_endpoint [simp]:
  "panic_free (endpoint_with_base Modify_Over_Invalid_Endpoint (Some k) p h s)"
  "panic_free (endpoint_with_base Delete_Over_Invalid_Endpoint (Some k) p h s)"
  by (simp_all add: endpoint_with_base_def split: option.split)

lemma panic_free_replay_operation:
  assumes "case material of None \<Rightarrow> is_delete op | Some m \<Rightarrow> kind_matches op (rm_operation_kind m)"
  shows "panic_free (replay_source_operation k op material s)"
  using assms
  by (cases op; cases material; cases "rm_operation_kind (the material)") simp_all

lemma panic_free_replay_source_loop: "paired c ops ms \<Longrightarrow> panic_free (replay_source_loop k ops ms s)"
proof (induction ops arbitrary: ms s)
  case (Cons op ops)
  show ?case
  proof (cases "is_delete op")
    case True
    with Cons panic_free_replay_operation [where material = None and op = op] show ?thesis by simp
  next
    case False
    with Cons.prems obtain m ms' where "ms = m # ms'" "material_for c op m" "paired c ops ms'"
      by (cases ms) simp_all
    with Cons.IH False panic_free_replay_operation [where material = "Some m" and op = op] show ?thesis
      by (simp add: material_for_def)
  qed
qed simp

lemma panic_free_snapshot [simp]: "panic_free (replay_state_snapshot sha s)"
  by (simp add: replay_state_snapshot_def)

lemma panic_free_derive_source [simp]: "panic_free (derive_source sha cd n i admitted members expected s c)"
proof -
  have "panic_free (replay_source c s)" if "validate_composition_source sha cd c = Inr ()"
    unfolding replay_source_def by (rule panic_free_replay_source_loop [OF valid_sourceD(1) [OF that]])
  then show ?thesis by (simp add: derive_source_def)
qed

lemma panic_free_derive_sources:
  "length ids = length ss \<Longrightarrow> panic_free (derive_sources sha cd n i ids members expected s ss)"
proof (induction ss arbitrary: i ids members expected s)
  case (Cons c ss)
  then show ?case by (cases ids) simp_all
qed simp

lemma panic_free_input_bounds [simp]: "panic_free (validate_complete_input_bounds cd i b ss)"
proof -
  have "panic_free (sum_canonical_lens cd n ss)" for n by (induction ss arbitrary: n) simp_all
  then show ?thesis by (simp add: validate_complete_input_bounds_def)
qed

end
