(* ===== verification/Composition_Refusals.thy ===== *)
theory Composition_Refusals
  imports Composed Composition_Errors
begin

text \<open>
  Why a derivation is refused once its sources are accepted. The causes are facts about the base and
  the state the sources leave; the replay of the aggregate, the comparison with that state, and the
  validation of the plan never refuse.
\<close>

section \<open>Causes\<close>

definition net_changes :: "replay_state \<Rightarrow> replay_state \<Rightarrow> text_operation list" where
  "net_changes base final = List.map_filter (net_change base final) (union_paths base final)"

text \<open>Digest and length of the files of the last state that are new or whose content changed.\<close>

definition changed_blobs :: "replay_state \<Rightarrow> replay_state \<Rightarrow> (digest \<times> u64) set" where
  "changed_blobs base final = {(ep_content_digest r, ep_byte_length r) | p r.
     file_at final p = Some r \<and>
     (\<forall>x. file_at base p = Some x \<longrightarrow> ep_content_digest x \<noteq> ep_content_digest r)}"

text \<open>
  A file that kept its path changed its mode, or its length under one digest; too many net changes;
  one digest with two lengths, or too many bytes, among the changed files; a value serde cannot
  encode; or a collision of SHA-256. No other error has a cause.
\<close>

definition refusal_cause ::
  "(string \<Rightarrow> string) \<Rightarrow> composition_codec \<Rightarrow> replay_state \<Rightarrow> replay_state \<Rightarrow> composition_conflict \<Rightarrow>
     bool" where
  "refusal_cause sha cd base final e \<longleftrightarrow> (case e of
     Unrepresentable_Mode_Transition p m n \<Rightarrow> m \<noteq> n \<and>
       (\<exists>x y. file_at base p = Some x \<and> file_at final p = Some y \<and>
          ep_unix_mode x = m \<and> ep_unix_mode y = n)
   | Unrepresentable_Length_Transition p d k l \<Rightarrow> k \<noteq> l \<and>
       (\<exists>x y. file_at base p = Some x \<and> file_at final p = Some y \<and>
          ep_content_digest x = d \<and> ep_content_digest y = d \<and>
          ep_byte_length x = k \<and> ep_byte_length y = l)
   | Limit_Exceeded f m n \<Rightarrow>
       m = MAX_COMPOSITION_OPERATIONS \<and> m < n \<and> n \<le> length (net_changes base final)
   | Result_Blob_Length_Conflict d k l \<Rightarrow>
       k \<noteq> l \<and> (d, k) \<in> changed_blobs base final \<and> (d, l) \<in> changed_blobs base final
   | Byte_Limit_Exceeded f m n \<Rightarrow> m = MAX_COMPOSITION_TOTAL_BYTES \<and> m < n \<and>
       unat n = (\<Sum>(d, k)\<in>changed_blobs base final. unat k)
   | Canonical_Encoding f m \<Rightarrow> \<not> codec_total cd
   | Aggregate_Snapshot_Mismatch c d unchanged \<Rightarrow>
       manifest_of base \<noteq> manifest_of final \<and> sha (manifest_of base) = sha (manifest_of final)
   | _ \<Rightarrow> False)"

lemma refusal_cause_no_panic: "refusal_cause sha cd base final e \<Longrightarrow> \<not> panics e"
  by (cases e) (simp_all add: refusal_cause_def)

section \<open>Deriving the aggregate\<close>

lemma derive_path_refused:
  assumes "derivable base final" "p \<in> set (union_paths base final)"
    and "derive_path base final p (ops, ms) = Inl e"
  shows "refusal_cause sha cd base final e \<or>
    (e = Limit_Exceeded ''composition.aggregate_operations'' MAX_COMPOSITION_OPERATIONS (length ops) \<and>
     2 ^ 32 \<le> length ops)"
proof -
  have "file_at final p = Some r \<Longrightarrow> ep_origin r = None \<Longrightarrow> file_at base p = Some r" for r
    using assms(1) unfolding derivable_def by blast
  then show ?thesis
    using assms(2,3)
    by (cases "file_at base p"; cases "file_at final p";
        cases "ep_origin (the (file_at final p))")
      (auto simp: derive_path_def next_operation_index_def require_origin_def union_paths_iff
        refusal_cause_def u32_try_from_def split: if_splits)
qed

lemma derive_paths_refused:
  assumes "derivable base final" "set ps \<subseteq> set (union_paths base final)"
    and "derive_paths base final ps (ops, ms) = Inl e"
  shows "refusal_cause sha cd base final e \<or>
    (\<exists>n. e = Limit_Exceeded ''composition.aggregate_operations'' MAX_COMPOSITION_OPERATIONS n \<and>
     2 ^ 32 \<le> n \<and> n \<le> length ops + length (List.map_filter (net_change base final) ps))"
  using assms(2,3)
proof (induction ps arbitrary: ops ms)
  case (Cons p ps)
  show ?case
  proof (cases "derive_path base final p (ops, ms)")
    case (Inl e')
    with Cons.prems derive_path_refused [OF assms(1) _ Inl, of sha cd] show ?thesis by auto
  next
    case (Inr x)
    obtain ops1 ms1 where x: "x = (ops1, ms1)" by force
    from derive_path_pushed [OF Inr [unfolded x]] pushed_net_change
    have "ops1 = ops @ (case net_change base final p of None \<Rightarrow> [] | Some op \<Rightarrow> [op])" by blast
    with Cons Inr x show ?thesis
      by (fastforce simp: map_filter_simps split: option.splits)
  qed
qed simp

lemma derive_aggregate_refused:
  assumes "derivable base final" "derive_aggregate base final = Inl e"
  shows "refusal_cause sha cd base final e"
proof -
  from derive_paths_refused [OF assms(1) subset_refl assms(2) [unfolded derive_aggregate_def],
      of sha cd]
  show ?thesis
    by (auto simp: refusal_cause_def net_changes_def MAX_COMPOSITION_OPERATIONS_def)
qed

section \<open>The bounds of the aggregate\<close>

definition blob_of :: "aggregate_material \<Rightarrow> digest \<times> u64" where
  "blob_of m = (gm_result_digest m, gm_byte_length m)"

lemma derived_changed_blobs:
  assumes "derive_aggregate base final = Inr (ops, ms)"
  shows "blob_of ` set ms = changed_blobs base final"
proof -
  let ?at = "\<lambda>p. {(ep_content_digest r, ep_byte_length r) | r. file_at final p = Some r \<and>
     (\<forall>x. file_at base p = Some x \<longrightarrow> ep_content_digest x \<noteq> ep_content_digest r)}"
  have "blob_of ` set ms' = blob_of ` set ms \<union> (\<Union>p\<in>set ps. ?at p)"
    if "derive_paths base final ps (ops, ms) = Inr (ops', ms')" for ps ops ms ops' ms'
    using that
  proof (induction ps arbitrary: ops ms)
    case (Cons p ps)
    then obtain ops1 ms1 where "derive_path base final p (ops, ms) = Inr (ops1, ms1)"
      and rest: "derive_paths base final ps (ops1, ms1) = Inr (ops', ms')"
      by (auto simp: bind_ok_Inr)
    from derive_path_pushed [OF this(1)] obtain n_ops n_ms where
      one: "ms1 = ms @ n_ms" "pushed base final (length ops) p n_ops n_ms" by blast
    have "blob_of ` set n_ms = ?at p"
      using one(2)
      by (cases "file_at base p"; cases "file_at final p")
        (auto simp: pushed_def aggregate_material_of_def blob_of_def split: if_splits)
    with Cons.IH [OF rest] one(1) show ?case by auto
  qed simp
  from this [OF assms [unfolded derive_aggregate_def]]
  have "blob_of ` set ms = (\<Union>p\<in>set (union_paths base final). ?at p)" by simp
  also have "\<dots> = changed_blobs base final"
  proof -
    have "p \<in> set (union_paths base final)" if "file_at final p = Some r" for p r
      using that by (simp add: union_paths_iff)
    then show ?thesis unfolding changed_blobs_def by blast
  qed
  finally show ?thesis .
qed

lemma set_bt_insert:
  assumes "wf_btree m" "bt_get m k \<in> {None, Some v}"
  shows "set (bt_insert k v m) = insert (k, v) (set m)"
proof -
  have "(a, b) \<in> set (bt_insert k v m) \<longleftrightarrow> (a, b) = (k, v) \<or> (a, b) \<in> set m" for a b
    using bt_get_Some_iff [OF wf_bt_insert [OF assms(1)], of k v a b]
      bt_get_Some_iff [OF assms(1), of a b] bt_get_insert [OF assms(1), of k v a] assms(2)
    by (auto split: if_splits)
  then show ?thesis by auto
qed

lemma blob_lengths_cases:
  assumes "wf_btree blobs" "\<forall>m\<in>set ms. gm_byte_length m \<le> MAX_COMPOSITION_FILE_BYTES"
  shows "case blob_lengths blobs ms of
     Inr blobs' \<Rightarrow> wf_btree blobs' \<and> set blobs' = set blobs \<union> blob_of ` set ms
   | Inl e \<Rightarrow> \<exists>d k l. e = Result_Blob_Length_Conflict d k l \<and> k \<noteq> l \<and>
       {(d, k), (d, l)} \<subseteq> set blobs \<union> blob_of ` set ms"
  using assms
proof (induction ms arbitrary: blobs)
  case (Cons m ms)
  let ?d = "gm_result_digest m" and ?k = "gm_byte_length m"
  have small: "\<not> MAX_COMPOSITION_FILE_BYTES < ?k" using Cons.prems(2) by (simp add: not_less)
  show ?case
  proof (cases "bt_get blobs ?d \<in> {None, Some ?k}")
    case True
    then have step: "insert_blob_length blobs ?d ?k = Inr (bt_insert ?d ?k blobs)"
      using small by (auto simp: insert_blob_length_def)
    have "set (bt_insert ?d ?k blobs) = insert (blob_of m) (set blobs)"
      using set_bt_insert [OF Cons.prems(1) True] by (simp add: blob_of_def)
    with Cons.IH [OF wf_bt_insert [OF Cons.prems(1), of ?d ?k]] Cons.prems(2) step show ?thesis
      by (auto split: sum.splits)
  next
    case False
    then obtain l where l: "bt_get blobs ?d = Some l" "l \<noteq> ?k" by auto
    then have "(?d, l) \<in> set blobs" using bt_get_Some_iff [OF Cons.prems(1)] by simp
    with l small show ?thesis by (auto simp: insert_blob_length_def blob_of_def)
  qed
qed simp

lemma sum_lengths_total:
  assumes "unat acc + sum_list (map (unat \<circ> snd) blobs) < 2 ^ 64"
  shows "\<exists>w. sum_lengths f acc blobs = Inr w \<and> unat w = unat acc + sum_list (map (unat \<circ> snd) blobs)"
  using assms
proof (induction blobs arbitrary: acc)
  case (Cons x blobs)
  obtain d k where x: "x = (d, k)" by force
  have sum: "unat acc + unat k < 2 ^ 64" using Cons.prems x by simp
  then have "unat (acc + k) = unat acc + unat k" by (simp add: unat_word_ariths)
  with Cons.IH [of "acc + k"] Cons.prems sum x show ?case
    by (simp add: checked_add_u64_def add.assoc)
qed simp

text \<open>The material is no longer than the operations, and each length within the bound for a file.\<close>

lemma derived_material_bounds:
  assumes "derivable base final" "bounded_results final"
    and "derive_aggregate base final = Inr (ops, ms)"
  shows "length ms \<le> length ops" "m \<in> set ms \<Longrightarrow> gm_byte_length m \<le> MAX_COMPOSITION_FILE_BYTES"
proof -
  show "length ms \<le> length ops"
    using derived_blobs [OF assms(3)] length_filter_le [of "\<lambda>op. \<not> is_delete op" ops]
    by (simp add: list_all2_lengthD [symmetric])
  assume "m \<in> set ms"
  with derive_paths_material [OF assms(3) [unfolded derive_aggregate_def], of m]
  obtain r o' where "file_at final (gm_path m) = Some r" "ep_origin r = Some o'"
    "gm_byte_length m = ep_byte_length r" by auto
  then show "gm_byte_length m \<le> MAX_COMPOSITION_FILE_BYTES"
    using assms(2) by (auto simp: bounded_results_def)
qed

lemma blob_total:
  assumes "wf_btree blobs" "length blobs \<le> MAX_COMPOSITION_OPERATIONS"
    and "\<forall>x\<in>set blobs. snd x \<le> MAX_COMPOSITION_FILE_BYTES"
  shows "\<exists>w. checked_blob_total f blobs = Inr w \<and> unat w = (\<Sum>(d, k)\<in>set blobs. unat k)"
proof -
  have "unat (snd x) \<le> 2 ^ 24" if "x \<in> set blobs" for x
    using assms(3) that unsigned_less [of "snd x", where 'a = nat]
    by (auto simp: MAX_COMPOSITION_FILE_BYTES_def word_le_nat_alt)
  then have "sum_list (map (unat \<circ> snd) blobs) \<le> length blobs * 2 ^ 24"
    using sum_list_mono [of blobs "unat \<circ> snd" "\<lambda>_. 2 ^ 24"] by (simp add: sum_list_triv comp_def)
  also have "\<dots> \<le> 4096 * 2 ^ 24" using assms(2) by (simp add: MAX_COMPOSITION_OPERATIONS_def)
  also have "(4096 * 2 ^ 24 :: nat) < 2 ^ 64" by simp
  finally have "sum_list (map (unat \<circ> snd) blobs) < 2 ^ 64" .
  moreover have "sum_list (map (unat \<circ> snd) blobs) = (\<Sum>(d, k)\<in>set blobs. unat k)"
    using wf_btree_distinct [OF assms(1)]
    by (simp add: sum_list_distinct_conv_sum_set distinct_map case_prod_beta comp_def)
  ultimately show ?thesis
    using sum_lengths_total [of 0 blobs f] by (simp add: checked_blob_total_def)
qed

lemma bounds_refused:
  assumes "derivable base final" "bounded_results final"
    and agg: "derive_aggregate base final = Inr (ops, ms)"
    and "validate_aggregate_bounds ops ms = Inl e"
  shows "refusal_cause sha cd base final e"
proof (cases "length ops \<le> MAX_COMPOSITION_OPERATIONS")
  case False
  with assms(4) derived_operations(1) [OF assms(1) agg] show ?thesis
    by (auto simp: validate_aggregate_bounds_def refusal_cause_def net_changes_def)
next
  case True
  note M = derived_material_bounds [OF assms(1,2) agg]
  have ms: "length ms \<le> MAX_COMPOSITION_OPERATIONS" using M(1) True by simp
  note blobs = blob_lengths_cases [of "[]" ms, simplified] and changed = derived_changed_blobs [OF agg]
  show ?thesis
  proof (cases "blob_lengths [] ms")
    case (Inl e')
    with assms(4) True ms have "e' = e" by (simp add: validate_aggregate_bounds_def)
    with Inl blobs M(2) show ?thesis by (auto simp: refusal_cause_def changed)
  next
    case (Inr bt)
    with blobs M(2) have bt: "wf_btree bt" "set bt = blob_of ` set ms" by auto
    have "distinct bt" using wf_btree_distinct [OF bt(1)] by (simp add: distinct_map)
    then have "length bt \<le> length ms"
      using card_image_le [of "set ms" blob_of] card_length [of ms] distinct_card [of bt] bt(2) by simp
    moreover have "\<forall>x\<in>set bt. snd x \<le> MAX_COMPOSITION_FILE_BYTES"
      using M(2) by (auto simp: bt(2) blob_of_def)
    ultimately obtain w where "checked_blob_total ''composition.aggregate_blob_bytes'' bt = Inr w"
      "unat w = (\<Sum>(d, k)\<in>changed_blobs base final. unat k)"
      using blob_total [OF bt(1)] ms by (fastforce simp: bt(2) changed)
    with assms(4) True ms Inr show ?thesis
      by (auto simp: validate_aggregate_bounds_def refusal_cause_def ensure_def not_le split: if_splits)
  qed
qed

section \<open>The plan\<close>

text \<open>A computation that fails only because serde cannot encode a value.\<close>

definition encoding_errors :: "composition_conflict + 'a \<Rightarrow> bool" where
  "encoding_errors r \<longleftrightarrow> (\<forall>e. r = Inl e \<longrightarrow> (\<exists>f m. e = Canonical_Encoding f m))"

lemma encoding_errors_Inr [simp]: "encoding_errors (Inr x)"
  by (simp add: encoding_errors_def)

lemma encoding_errors_bind:
  "encoding_errors m \<Longrightarrow> (\<And>x. m = Inr x \<Longrightarrow> encoding_errors (k x)) \<Longrightarrow> encoding_errors (bind_ok m k)"
  by (cases m) (simp_all add: encoding_errors_def)

lemma encoding_errors_map_err [simp]: "encoding_errors (map_err g m) \<longleftrightarrow>
  (\<forall>e. m = Inl e \<longrightarrow> (\<exists>f t. g e = Canonical_Encoding f t))"
  by (cases m) (simp_all add: encoding_errors_def)

lemma contract_error_encoding [simp]: "\<exists>f' t. canonical_contract_error f e = Canonical_Encoding f' t"
  by (simp add: canonical_contract_error_def)

lemma encoding_errors_digest [simp]: "encoding_errors (composition_digest sha enc f l v)"
  by (cases "enc v") (simp_all add: composition_digest_def encoding_errors_def)

lemma encoding_errors_digests [simp]:
  "encoding_errors (compute_aggregate_change_set_id sha cd i ops)"
  "encoding_errors (compute_result_material_digest sha cd ms)"
  "encoding_errors (compute_directory_state_digest sha cd ds)"
  "encoding_errors (compute_derivation_record_digest sha cd r)"
  by (simp_all add: compute_aggregate_change_set_id_def compute_aggregate_change_set_id_from_fields_def
      compute_result_material_digest_def compute_directory_state_digest_def
      compute_derivation_record_digest_def)

lemma encoding_errors_assemble_plan:
  assumes "composition_cut b ss s" "derive_aggregate (replay_state_from_base b) s = Inr (ops, ms)"
    and "replay_aggregate (replay_state_from_base b) ops ms = Inr t"
    and "validate_aggregate_bounds ops ms = Inr ()"
    and "(ops = []) = (ci_base_snapshot i = ci_result_snapshot i)"
    and "validate_composition_inputs sha cd i = Inr ()" and sha: "\<And>m. length (sha m) = 32"
  shows "encoding_errors (assemble_plan sha cd i b ops ms t)"
  unfolding assemble_plan_def Let_def
  using derived_change_set_ok [OF assms(1,2,5) _ sha]
    derived_plan_valid [OF assms(1-6) refl _ _ _ _ _ refl _ sha]
  by (intro encoding_errors_bind) simp_all

lemma derive_plan_refused:
  assumes front: "composition_front sha cd i b ss final" and cut: "composition_cut b ss final"
    and canonical: "canonical_contents b ss" and sha: "\<And>m. length (sha m) = 32"
    and refused: "derive_plan sha cd i b final = Inl e"
  shows "refusal_cause sha cd (replay_state_from_base b) final e"
proof -
  let ?base = "replay_state_from_base b"
  note cutD = composition_cutD [OF cut]
  have inputs: "validate_composition_inputs sha cd i = Inr ()"
    using front by (simp add: composition_front_def)
  show ?thesis
  proof (cases "derive_aggregate ?base final")
    case (Inl e')
    with refused derive_aggregate_refused [OF cutD(1) Inl] show ?thesis by (simp add: derive_plan_def)
  next
    case (Inr x)
    then obtain ops ms where agg: "derive_aggregate ?base final = Inr (ops, ms)" by (cases x) simp
    obtain t where t: "replay_aggregate ?base ops ms = Inr t"
      "same_file_endpoints (rp_files t) (rp_files final)"
      using aggregate_replays [OF cutD(1) agg] by blast
    let ?empty = "(ops = []) = (ci_base_snapshot i = ci_result_snapshot i)"
    consider (bounds) "validate_aggregate_bounds ops ms = Inl e"
      | (snapshots) "\<not> ?empty" "e = Aggregate_Snapshot_Mismatch (ci_base_snapshot i)
          (ci_result_snapshot i) (ops = [])"
      | (plan) "validate_aggregate_bounds ops ms = Inr ()" ?empty
          "assemble_plan sha cd i b ops ms t = Inl e"
      using refused
      by (cases "validate_aggregate_bounds ops ms") (auto simp: derive_plan_def agg t ensure_def split: if_splits)
    then show ?thesis
    proof cases
      case bounds
      then show ?thesis by (rule bounds_refused [OF cutD(1,3) agg])
    next
      case snapshots
      with empty_iff_same_snapshot [OF front cut canonical _ agg] show ?thesis
        by (auto simp: refusal_cause_def)
    next
      case plan
      obtain f m where "e = Canonical_Encoding f m"
        using encoding_errors_assemble_plan [OF cut agg t(1) plan(1,2) inputs sha] plan(3)
        by (auto simp: encoding_errors_def)
      moreover have "\<not> codec_total cd"
        using derive_plan_succeeds [OF cut inputs agg plan(1,2) _ sha] refused by auto
      ultimately show ?thesis by (simp add: refusal_cause_def)
    qed
  qed
qed

section \<open>The derivation\<close>

text \<open>The checks of the inputs passed, and so did every source of the loop, in its order.\<close>

definition sources_accepted ::
  "(string \<Rightarrow> string) \<Rightarrow> composition_codec \<Rightarrow> composition_inputs \<Rightarrow> base_projection \<Rightarrow>
     composition_source list \<Rightarrow> replay_state \<Rightarrow> bool" where
  "sources_accepted sha cd i b ss final \<longleftrightarrow>
     validate_composition_inputs sha cd i = Inr () \<and> validate_base_projection sha cd b = Inr () \<and>
     bp_snapshot b = ci_base_snapshot i \<and> length ss = length (ci_expected_source_identities i) \<and>
     validate_complete_input_bounds cd i b ss = Inr () \<and>
     derive_sources sha cd (length ss) 0 (ci_expected_source_identities i) no_members
       (ci_base_snapshot i) (replay_state_from_base b) ss = Inr (ci_result_snapshot i, final)"

lemma accepted_derivation:
  assumes "sources_accepted sha cd i b ss final" "utf8_base b"
  shows "composition_front sha cd i b ss final \<and> composition_cut b ss final \<and>
    derive_composition sha cd i b ss = derive_plan sha cd i b final"
proof -
  note a = assms(1) [unfolded sources_accepted_def]
  have "composition_cut b ss final \<and> composition_front sha cd i b ss final \<and>
      replay_state_snapshot sha final = Inr (ci_result_snapshot i)"
    using a front_cut [of sha cd i b ss "length ss" "ci_expected_source_identities i"
        "ci_base_snapshot i" "ci_result_snapshot i" final] assms(2) by auto
  moreover have loop: "derive_sources sha cd (length ss) 0 (ci_expected_source_identities i) no_members
      (ci_base_snapshot i) (replay_state_from_base b) ss = Inr (ci_result_snapshot i, final)"
    and len: "length ss = length (ci_expected_source_identities i)"
    using a by blast+
  ultimately show ?thesis using a by (simp add: derive_composition_def loop [unfolded len])
qed

lemma panic_free_unless_accepted:
  assumes "\<And>final. \<not> sources_accepted sha cd i b ss final" "utf8_base b"
  shows "panic_free (derive_composition sha cd i b ss)"
proof -
  have "panic_free (bind_ok (replay_state_snapshot sha final) (\<lambda>computed.
      bind_ok (ensure (computed = ci_result_snapshot i)
        (Final_Snapshot_Digest_Mismatch (ci_result_snapshot i) computed))
        (\<lambda>_. derive_plan sha cd i b final)))"
    if "validate_composition_inputs sha cd i = Inr ()" "validate_base_projection sha cd b = Inr ()"
      "length ss = length (ci_expected_source_identities i)" "bp_snapshot b = ci_base_snapshot i"
      "validate_complete_input_bounds cd i b ss = Inr ()"
      "derive_sources sha cd (length ss) 0 (ci_expected_source_identities i) no_members
         (ci_base_snapshot i) (replay_state_from_base b) ss = Inr (ci_result_snapshot i, final)" for final
    using assms(1) [of final] that by (simp add: sources_accepted_def)
  then show ?thesis
    using panic_free_derive_sources [of "ci_expected_source_identities i" ss]
    by (simp add: derive_composition_def split: prod.split)
qed

text \<open>
  C19. A derivation never finds fault with its own result. It never panics; and once the inputs, the
  base, and the sources are accepted, it is refused only for a cause that the base and the state the
  sources leave exhibit: a file that kept its path has another mode, or another length under the
  same digest; there are more net changes than an artifact may hold; one digest stands for two
  lengths, or the distinct changed contents have more bytes in total than allowed, and the error
  carries that total; serde cannot encode a value of the plan; or the manifests of the base and of
  that state collide in SHA-256. So the aggregate replay, its comparison with the sequential state,
  the order and shape of operations, material, and directories, and the record always pass.
\<close>

theorem composition_refuses_only_inputs:
  assumes "utf8_base b" "canonical_contents b ss" "\<And>m. length (sha m) = 32"
    and "derive_composition sha cd i b ss = Inl e"
  shows "(\<forall>m. e \<noteq> Composition_Panic m) \<and>
    (\<forall>final. sources_accepted sha cd i b ss final \<longrightarrow>
       refusal_cause sha cd (replay_state_from_base b) final e)"
proof -
  have cause: "refusal_cause sha cd (replay_state_from_base b) final e"
    if "sources_accepted sha cd i b ss final" for final
  proof -
    note d = accepted_derivation [OF that assms(1)]
    then have "derive_plan sha cd i b final = Inl e" using assms(4) by simp
    with d derive_plan_refused [where sha = sha, OF _ _ assms(2,3)] show ?thesis by blast
  qed
  have "\<not> panics e"
  proof (cases "\<exists>final. sources_accepted sha cd i b ss final")
    case True
    then show ?thesis using cause refusal_cause_no_panic by blast
  next
    case False
    then have "panic_free (derive_composition sha cd i b ss)"
      by (intro panic_free_unless_accepted assms(1)) blast
    then show ?thesis using assms(4) by (simp add: panic_free_def)
  qed
  then show ?thesis using cause by auto
qed

end
