(* ===== verification/Example_Composition.thy ===== *)
theory Example_Composition
  imports Composition_Refusals
begin

text \<open>
  A composition of two sources. The base has the files \<open>a\<close> and \<open>lib/b\<close>. The first source modifies
  \<open>lib/b\<close> and creates \<open>c/d\<close>; the second deletes \<open>a\<close>, creates \<open>a/e\<close> in its place, and modifies
  \<open>c/d\<close> again. It is the concrete input of the witnesses of
  \<open>Composed\<close>. A second composition brings a file back with another mode, and is refused.
\<close>

section \<open>Parameters\<close>

text \<open>A hash of 32 bytes that tells strings of different length apart, and serde as a constant.\<close>

definition len_sha :: "string \<Rightarrow> string" where
  "len_sha m = replicate 32 (char_of (length m mod 256))"

lemma length_len_sha [simp]: "length (len_sha m) = 32"
  by (simp add: len_sha_def)

definition mix_codec :: composition_codec where
  "mix_codec = \<lparr>cc_inputs = (\<lambda>_. Inr []), cc_base = (\<lambda>_. Inr []), cc_source = (\<lambda>_. Inr []),
     cc_base_fields = (\<lambda>_. Inr []),
     cc_source_fields = (\<lambda>s. Inr (replicate (unat (cs_ordinal s)) CHR ''x'')),
     cc_source_set = (\<lambda>_. Inr []), cc_change_set_id = (\<lambda>_. Inr []), cc_material = (\<lambda>_. Inr []),
     cc_directories = (\<lambda>_. Inr []), cc_record_fields = (\<lambda>_. Inr []), cc_operations = (\<lambda>_. Inr []),
     cc_endpoints = (\<lambda>_. Inr [])\<rparr>"

lemma mix_codec_total: "codec_total mix_codec"
  by (simp add: codec_total_def mix_codec_def)

definition content :: "char \<Rightarrow> digest" where
  "content c = Digest (replicate 64 c)"

lemma content_eq [simp]: "content c = content d \<longleftrightarrow> c = d"
  by (simp add: content_def)

lemma canonical_content: "is_lower_hex c \<Longrightarrow> canonical_digest (content c)"
  by (simp add: content_def canonical_digest_def list_all_iff)

section \<open>The base and the states\<close>

definition mix_entry :: "string \<Rightarrow> char \<Rightarrow> manifest_entry" where
  "mix_entry p c = \<lparr>me_path = p, me_content_digest = content c, me_byte_length = 7, me_unix_mode = 420\<rparr>"

lemma mix_entry_path [simp]: "me_path (mix_entry p c) = p"
  by (simp add: mix_entry_def)

definition mix_snapshot :: "manifest_entry list \<Rightarrow> digest" where
  "mix_snapshot es = digest_sha256 len_sha (manifest_bytes es)"

definition mix_entries_0 :: "manifest_entry list" where
  "mix_entries_0 = [mix_entry ''a'' CHR ''a'', mix_entry ''lib/b'' CHR ''b'']"

definition mix_entries_1 :: "manifest_entry list" where
  "mix_entries_1 = [mix_entry ''a'' CHR ''a'', mix_entry ''c/d'' CHR ''d'', mix_entry ''lib/b'' CHR ''c'']"

definition mix_entries_2 :: "manifest_entry list" where
  "mix_entries_2 = [mix_entry ''a/e'' CHR ''e'', mix_entry ''c/d'' CHR ''f'', mix_entry ''lib/b'' CHR ''c'']"

lemma length_entry_bytes:
  "length (entry_bytes (mix_entry p c)) = length p + 84"
  by (simp add: entry_bytes_def mix_entry_def content_def)

lemma len_digests_differ:
  assumes "length m mod 256 \<noteq> length n mod 256"
  shows "digest_sha256 len_sha m \<noteq> digest_sha256 len_sha n"
proof
  assume "digest_sha256 len_sha m = digest_sha256 len_sha n"
  then have "len_sha m = len_sha n"
    by (auto simp: digest_sha256_def dest: hex_bytes_inject)
  then have "(char_of (length m mod 256) :: char) = char_of (length n mod 256)"
    by (simp add: len_sha_def)
  then have "(of_char (char_of (length m mod 256) :: char) :: nat) =
      of_char (char_of (length n mod 256) :: char)" by (rule arg_cong)
  with assms show False by simp
qed

lemma mix_snapshots_differ:
  "mix_snapshot mix_entries_0 \<noteq> mix_snapshot mix_entries_1"
  "mix_snapshot mix_entries_1 \<noteq> mix_snapshot mix_entries_2"
  "mix_snapshot mix_entries_0 \<noteq> mix_snapshot mix_entries_2"
  unfolding mix_snapshot_def
  by (rule len_digests_differ, simp add: manifest_bytes_def length_entry_bytes
      WORKSPACE_MANIFEST_DOMAIN_def mix_entries_0_def mix_entries_1_def mix_entries_2_def)+

lemma mix_paths [simp]:
  "portable ''a''" "portable ''lib/b''" "portable ''lib''" "portable ''c/d''" "portable ''a/e''"
  "utf8_valid ''a''" "utf8_valid ''lib/b''" "utf8_valid ''c/d''" "utf8_valid ''a/e''"
  by (simp_all add: portable_def segments_def forbidden_segment_def MAX_MANIFEST_PATH_BYTES_def
      BACKSLASH_def NUL_def eq_ignore_ascii_case_def to_ascii_lowercase_def utf8_valid_def byte_def)

lemma len_sha_parsed:
  "digest_parse (concat (map hex_byte (len_sha m))) = Inr (digest_sha256 len_sha m)"
  using digest_sha256_canonical [of len_sha m] by (simp add: digest_parse_iff digest_sha256_def)

lemma mix_entry_valid: "portable p \<Longrightarrow> validate_manifest_entry (mix_entry p c) = Inr ()"
  by (simp add: validate_manifest_entry_ok mix_entry_def)

lemma mix_manifest:
  assumes "es \<in> {mix_entries_0, mix_entries_1, mix_entries_2}"
  shows "compute_workspace_manifest_digest len_sha es = Inr (mix_snapshot es)"
proof -
  have "validate_manifest_entries es = Inr ()"
    using assms
    by (auto simp: validate_manifest_entries_ok mix_entries_0_def mix_entries_1_def mix_entries_2_def
        MAX_MANIFEST_ENTRIES_def mix_entry_valid leaves_def)
  moreover have "length es < 2 ^ 64 \<and> list_all (\<lambda>e. length (me_path e) < 2 ^ 64) es"
    using assms by (auto simp: mix_entries_0_def mix_entries_1_def mix_entries_2_def)
  ultimately show ?thesis
    by (simp add: compute_workspace_manifest_digest_def digest_from_sha256_output_def mix_snapshot_def
        len_sha_parsed)
qed

definition mix_file :: "string \<Rightarrow> char \<Rightarrow> base_file" where
  "mix_file p c = \<lparr>bf_path = p, bf_content_digest = content c, bf_byte_length = 7, bf_unix_mode = 420\<rparr>"

definition mix_base :: base_projection where
  "mix_base = \<lparr>bp_composer_version = COMPOSER_VERSION, bp_snapshot = mix_snapshot mix_entries_0,
     bp_files = [mix_file ''a'' CHR ''a'', mix_file ''lib/b'' CHR ''b''], bp_directories = [''lib''],
     bp_projection_digest = digest_sha256 len_sha
       (domain_label ''application-composition-base-projection'' @ be_bytes 8 0)\<rparr>"

definition mix_point :: "char \<Rightarrow> u32 option \<Rightarrow> replay_endpoint" where
  "mix_point c origin = \<lparr>ep_content_digest = content c, ep_byte_length = 7, ep_unix_mode = 420,
     ep_origin = map_option (\<lambda>k. \<lparr>or_source_ordinal = k, or_source_artifact_digest = content CHR ''9''\<rparr>)
       origin\<rparr>"

definition mix_state_0 :: replay_state where
  "mix_state_0 = \<lparr>rp_files = [(''a'', mix_point CHR ''a'' None), (''lib/b'', mix_point CHR ''b'' None)],
     rp_directories = [(''lib'', ())]\<rparr>"

definition mix_state_1 :: replay_state where
  "mix_state_1 = \<lparr>rp_files = [(''a'', mix_point CHR ''a'' None), (''c/d'', mix_point CHR ''d'' (Some 0)),
       (''lib/b'', mix_point CHR ''c'' (Some 0))],
     rp_directories = [(''c'', ()), (''lib'', ())]\<rparr>"

definition mix_state_2 :: replay_state where
  "mix_state_2 = \<lparr>rp_files = [(''a/e'', mix_point CHR ''e'' (Some 1)),
       (''c/d'', mix_point CHR ''f'' (Some 1)), (''lib/b'', mix_point CHR ''c'' (Some 0))],
     rp_directories = [(''a'', ()), (''c'', ()), (''lib'', ())]\<rparr>"

lemma mix_base_state: "replay_state_from_base mix_base = mix_state_0"
  by (simp add: replay_state_from_base_def mix_base_def mix_state_0_def mix_file_def mix_point_def
      bt_collect_def bs_collect_def)

lemma mix_base_valid: "validate_base_projection len_sha mix_codec mix_base = Inr ()"
proof -
  have "base_manifest_entries (bp_files mix_base) = mix_entries_0"
    by (simp add: base_manifest_entries_def mix_base_def mix_file_def mix_entries_0_def mix_entry_def)
  then have manifest: "compute_workspace_manifest_digest len_sha (base_manifest_entries (bp_files mix_base))
      = Inr (mix_snapshot mix_entries_0)"
    using mix_manifest by simp
  have "validate_base_projection_shape len_sha (bp_snapshot mix_base) (bp_files mix_base)
      (bp_directories mix_base) = Inr ()"
    unfolding validate_base_projection_shape_def manifest
    by (simp add: mix_base_def mix_file_def checked_add_usize_def MAX_MANIFEST_ENTRIES_def
        validate_canonical_base_files_def validate_canonical_base_directories_def
        canonical_paths_ok validate_portable_path_ok validate_ancestors_ok)
  then show ?thesis
    by (simp add: validate_base_projection_def require_composer_version_def mix_base_def
        compute_base_projection_digest_def composition_digest_def mix_codec_def
        require_canonical_len_def canonical_len_def MAX_COMPOSITION_CANONICAL_INPUT_BYTES_def)
qed

section \<open>The sources\<close>

definition mix_material :: "u32 \<Rightarrow> string \<Rightarrow> char \<Rightarrow> result_material_kind \<Rightarrow> result_material" where
  "mix_material k p c kind = \<lparr>rm_operation_index = k, rm_path = p, rm_result_digest = content c,
     rm_byte_length = 7, rm_operation_kind = kind, rm_source_artifact_digest = content CHR ''9''\<rparr>"

definition mix_source ::
  "u32 \<Rightarrow> string \<Rightarrow> digest \<Rightarrow> digest \<Rightarrow> text_operation list \<Rightarrow> result_material list \<Rightarrow>
     composition_source" where
  "mix_source k n before after ops ms =
     \<lparr>cs_composer_version = COMPOSER_VERSION, cs_ordinal = k, cs_task_id = ''task-'' @ n,
      cs_attempt_id = ''attempt-'' @ n, cs_task_done_proof_id = ''proof-'' @ n,
      cs_task_done_proof_digest = content CHR ''0'', cs_integration_receipt_id = ''receipt-'' @ n,
      cs_integration_receipt_digest = content CHR ''0'', cs_input_snapshot = before,
      cs_result_snapshot = after,
      cs_change_set = \<lparr>cx_change_set_id = ''change-'' @ n, cx_base_snapshot = before,
        cx_result_snapshot = after, cx_operations = ops\<rparr>,
      cs_artifact = \<lparr>ar_format_version = 1, ar_artifact_digest = content CHR ''9'',
        ar_change_set_id = ''change-'' @ n, ar_base_snapshot = before, ar_result_snapshot = after\<rparr>,
      cs_result_material = ms,
      cs_ordered_operations_digest =
        digest_sha256 len_sha (''grok-build.applied-operations.v1'' @ [NUL]),
      cs_touched_endpoints_digest =
        digest_sha256 len_sha (''grok-build.touched-path-endpoints.v1'' @ [NUL]),
      cs_source_identity = digest_sha256 len_sha (domain_label ''application-composition-source'' @
        be_bytes 8 (unat k) @ replicate (unat k) CHR ''x'')\<rparr>"

definition mix_source_0 :: composition_source where
  "mix_source_0 = mix_source 0 ''1'' (mix_snapshot mix_entries_0) (mix_snapshot mix_entries_1)
     [Modify_At ''lib/b'' (content CHR ''b'') (content CHR ''c''), Create_At ''c/d'' (content CHR ''d'')]
     [mix_material 0 ''lib/b'' CHR ''c'' Modify_Material,
      mix_material 1 ''c/d'' CHR ''d'' (Create_Material 420)]"

definition mix_source_1 :: composition_source where
  "mix_source_1 = mix_source 1 ''2'' (mix_snapshot mix_entries_1) (mix_snapshot mix_entries_2)
     [Delete_At ''a'' (content CHR ''a''), Create_At ''a/e'' (content CHR ''e''),
      Modify_At ''c/d'' (content CHR ''d'') (content CHR ''f'')]
     [mix_material 1 ''a/e'' CHR ''e'' (Create_Material 420),
      mix_material 2 ''c/d'' CHR ''f'' Modify_Material]"

lemma operation_path [simp]:
  "portable p \<Longrightarrow> utf8_valid p \<Longrightarrow> portable_operation_path o' p = Inr p"
  by (simp add: portable_operation_path_ok)

lemmas mix_replay_simps = replay_source_def mix_source_0_def mix_source_1_def mix_source_def
  mix_material_def mix_state_0_def mix_state_1_def mix_state_2_def mix_point_def
  endpoint_with_base_def bt_get_def bs_set_def bs_insert_def bt_remove_def
  require_create_absent_def present_file_collision_def bt_first_from_def starts_with_def
  ensure_parent_directories_def MAX_MANIFEST_ENTRIES_def source_origin_def

lemma mix_replay_0: "replay_source mix_source_0 mix_state_0 = Inr mix_state_1"
  by (simp add: mix_replay_simps)

lemma mix_replay_1: "replay_source mix_source_1 mix_state_1 = Inr mix_state_2"
  by (simp add: mix_replay_simps)

lemma mix_state_snapshots:
  "replay_state_snapshot len_sha mix_state_1 = Inr (mix_snapshot mix_entries_1)"
  "replay_state_snapshot len_sha mix_state_2 = Inr (mix_snapshot mix_entries_2)"
proof -
  have "state_manifest_entries (rp_files mix_state_1) = mix_entries_1"
    "state_manifest_entries (rp_files mix_state_2) = mix_entries_2"
    by (simp_all add: state_manifest_entries_def mix_state_1_def mix_state_2_def mix_point_def
        mix_entries_1_def mix_entries_2_def mix_entry_def)
  then show "replay_state_snapshot len_sha mix_state_1 = Inr (mix_snapshot mix_entries_1)"
    "replay_state_snapshot len_sha mix_state_2 = Inr (mix_snapshot mix_entries_2)"
    by (simp_all add: replay_state_snapshot_def mix_manifest)
qed

lemmas printable_label [simp] = graphic_not_blank [unfolded byte_def]

lemmas mix_shape_simps = validate_source_shape_def require_composer_version_def require_identifier_def
  MAX_COMPOSITION_IDENTIFIER_BYTES_def SOURCE_BUNDLE_FORMAT_VERSION_def MAX_COMPOSITION_OPERATIONS_def
  validate_source_operations_def validate_source_result_material_def MAX_COMPOSITION_FILE_BYTES_def
  u32_try_from_def insert_blob_length_def bt_get_def checked_blob_total_def checked_add_u64_def
  MAX_COMPOSITION_TOTAL_BYTES_def less_digest less_eq_digest

lemma mix_source_shapes:
  "validate_source_shape mix_source_0 = Inr ()" "validate_source_shape mix_source_1 = Inr ()"
  using mix_snapshots_differ
  by (simp_all add: mix_shape_simps mix_source_0_def mix_source_1_def mix_source_def mix_material_def
      Let_def)

lemma shaped_source_valid:
  "validate_source_shape (mix_source k n before after ops ms) = Inr () \<Longrightarrow>
     validate_composition_source len_sha mix_codec (mix_source k n before after ops ms) = Inr ()"
  by (simp add: validate_composition_source_def validate_source_without_identity_def
      operations_digest_def endpoints_digest_def digest_canonical_contract_def mix_codec_def
      compute_source_identity_def composition_digest_def require_canonical_len_def canonical_len_def)
    (simp add: mix_source_def composition_source_fields.defs)

lemma mix_sources_valid:
  "validate_composition_source len_sha mix_codec mix_source_0 = Inr ()"
  "validate_composition_source len_sha mix_codec mix_source_1 = Inr ()"
  using mix_source_shapes shaped_source_valid unfolding mix_source_0_def mix_source_1_def by blast+

section \<open>The composition\<close>

definition mix_inputs :: composition_inputs where
  "mix_inputs = \<lparr>ci_composer_version = COMPOSER_VERSION, ci_sprint_id = ''sprint-1'',
     ci_base_snapshot = mix_snapshot mix_entries_0, ci_result_snapshot = mix_snapshot mix_entries_2,
     ci_complete_task_done_set_digest = content CHR ''0'',
     ci_final_verification = \<lparr>fb_attempt_id = ''final-1'', fb_attempt_authority_digest = content CHR ''0'',
       fb_snapshot = mix_snapshot mix_entries_2,
       fb_complete_criterion_evidence_set_digest = content CHR ''0''\<rparr>,
     ci_expected_source_identities = [cs_source_identity mix_source_0, cs_source_identity mix_source_1],
     ci_source_set_digest = digest_sha256 len_sha
       (domain_label ''application-composition-source-set'' @ be_bytes 8 0)\<rparr>"

lemma mix_identities_differ: "cs_source_identity mix_source_0 \<noteq> cs_source_identity mix_source_1"
proof -
  let ?l = "domain_label ''application-composition-source''"
  have "digest_sha256 len_sha (?l @ be_bytes 8 0) \<noteq> digest_sha256 len_sha (?l @ be_bytes 8 1 @ ''x'')"
    by (rule len_digests_differ) (simp add: domain_label_def)
  then show ?thesis by (simp add: mix_source_0_def mix_source_1_def mix_source_def)
qed

lemma mix_inputs_valid: "validate_composition_inputs len_sha mix_codec mix_inputs = Inr ()"
  using mix_identities_differ
  by (simp add: validate_composition_inputs_def mix_inputs_def require_composer_version_def
      require_identifier_def MAX_COMPOSITION_IDENTIFIER_BYTES_def validate_final_verification_binding_def
      validate_source_identity_set_def MAX_COMPOSITION_SOURCES_def compute_source_set_digest_def
      composition_digest_def mix_codec_def require_canonical_len_def canonical_len_def)

definition mix_operations :: "text_operation list" where
  "mix_operations = [Delete_At ''a'' (content CHR ''a''), Create_At ''a/e'' (content CHR ''e''),
     Create_At ''c/d'' (content CHR ''f''), Modify_At ''lib/b'' (content CHR ''b'') (content CHR ''c'')]"

definition mix_blob :: "u32 \<Rightarrow> string \<Rightarrow> char \<Rightarrow> u32 option \<Rightarrow> u32 \<Rightarrow> aggregate_material" where
  "mix_blob k p c mode source = \<lparr>gm_operation_index = k, gm_path = p, gm_result_digest = content c,
     gm_byte_length = 7, gm_create_mode = mode, gm_source_ordinal = source,
     gm_source_artifact_digest = content CHR ''9''\<rparr>"

definition mix_blobs :: "aggregate_material list" where
  "mix_blobs = [mix_blob 1 ''a/e'' CHR ''e'' (Some 420) 1, mix_blob 2 ''c/d'' CHR ''f'' (Some 420) 1,
     mix_blob 3 ''lib/b'' CHR ''c'' None 0]"

lemma mix_union: "union_paths mix_state_0 mix_state_2 = [''a'', ''a/e'', ''c/d'', ''lib/b'']"
  by (simp add: union_paths_def mix_state_0_def mix_state_2_def bs_elems_def bs_collect_def bt_collect_def)

lemma mix_aggregate: "derive_aggregate mix_state_0 mix_state_2 = Inr (mix_operations, mix_blobs)"
  unfolding derive_aggregate_def mix_union
  by (simp add: derive_path_def mix_state_0_def mix_state_2_def bt_get_def mix_point_def
      next_operation_index_def u32_try_from_def require_origin_def aggregate_material_of_def
      mix_operations_def mix_blobs_def mix_blob_def)

lemma mix_bounds: "validate_aggregate_bounds mix_operations mix_blobs = Inr ()"
  by (simp add: validate_aggregate_bounds_def mix_operations_def mix_blobs_def mix_blob_def
      mix_shape_simps)

lemma mix_loop:
  "derive_sources len_sha mix_codec 2 0 (ci_expected_source_identities mix_inputs) no_members
     (mix_snapshot mix_entries_0) mix_state_0 [mix_source_0, mix_source_1] =
   Inr (mix_snapshot mix_entries_2, mix_state_2)"
proof -
  have "derive_source len_sha mix_codec 2 0 (cs_source_identity mix_source_0) no_members
      (mix_snapshot mix_entries_0) mix_state_0 mix_source_0 = Inr mix_state_1"
    unfolding derive_source_def
    by (simp add: mix_sources_valid mix_replay_0 mix_state_snapshots u32_try_from_def no_members_def
        require_unique_source_member_def) (simp add: mix_source_0_def mix_source_def)
  moreover have "derive_source len_sha mix_codec 2 1 (cs_source_identity mix_source_1)
      (add_members mix_source_0 no_members) (mix_snapshot mix_entries_1) mix_state_1 mix_source_1 =
      Inr mix_state_2"
    unfolding derive_source_def
    by (simp add: mix_sources_valid mix_replay_1 mix_state_snapshots u32_try_from_def no_members_def
        require_unique_source_member_def add_members_def)
      (simp add: mix_source_0_def mix_source_1_def mix_source_def)
  ultimately show ?thesis
    by (simp add: mix_inputs_def) (simp add: mix_source_0_def mix_source_1_def mix_source_def)
qed

lemma mix_utf8: "utf8_base mix_base"
  by (simp add: utf8_base_def mix_base_def mix_file_def)

lemma mix_derives:
  "\<exists>plan. derive_composition len_sha mix_codec mix_inputs mix_base [mix_source_0, mix_source_1] = Inr plan \<and>
     cx_operations (pl_change_set plan) = mix_operations \<and> pl_result_material plan = mix_blobs"
proof -
  let ?ss = "[mix_source_0, mix_source_1]"
  have len: "length ?ss = length (ci_expected_source_identities mix_inputs)"
    by (simp add: mix_inputs_def)
  have snap: "bp_snapshot mix_base = ci_base_snapshot mix_inputs"
    by (simp add: mix_base_def mix_inputs_def)
  have loop: "derive_sources len_sha mix_codec 2 0 (ci_expected_source_identities mix_inputs) no_members
      (ci_base_snapshot mix_inputs) (replay_state_from_base mix_base) ?ss =
      Inr (ci_result_snapshot mix_inputs, mix_state_2)"
    using mix_loop by (simp add: mix_base_state) (simp add: mix_inputs_def)
  have cut: "composition_cut mix_base ?ss mix_state_2"
    using front_cut [OF mix_inputs_valid mix_base_valid len snap loop mix_utf8] by simp
  have empty: "(mix_operations = []) = (ci_base_snapshot mix_inputs = ci_result_snapshot mix_inputs)"
    using mix_snapshots_differ(3) by (simp add: mix_operations_def mix_inputs_def)
  have bounds: "validate_complete_input_bounds mix_codec mix_inputs mix_base ?ss = Inr ()"
    by (simp add: validate_complete_input_bounds_def canonical_len_def mix_codec_def
        checked_add_usize_def MAX_COMPOSITION_SOURCES_def MAX_COMPOSITION_CANONICAL_INPUT_BYTES_def)
  have final: "replay_state_snapshot len_sha mix_state_2 = Inr (ci_result_snapshot mix_inputs)"
    using mix_state_snapshots by (simp add: mix_inputs_def)
  have "derive_aggregate (replay_state_from_base mix_base) mix_state_2 = Inr (mix_operations, mix_blobs)"
    by (simp add: mix_base_state mix_aggregate)
  from derive_plan_succeeds [OF cut mix_inputs_valid this mix_bounds empty mix_codec_total length_len_sha]
  show ?thesis
    using loop
    by (simp add: derive_composition_def mix_inputs_valid mix_base_valid len [simplified] snap bounds final
        numeral_2_eq_2)
qed

section \<open>Witnesses\<close>

theorem composition_represents_sources_witness:
  "\<exists>plan final replayed.
    derive_composition len_sha mix_codec mix_inputs mix_base [mix_source_0, mix_source_1] = Inr plan \<and>
    cx_operations (pl_change_set plan) = mix_operations \<and>
    replay_sources [mix_source_0, mix_source_1] (replay_state_from_base mix_base) = Inr final \<and>
    replay_aggregate (replay_state_from_base mix_base) mix_operations mix_blobs = Inr replayed \<and>
    replay_state_snapshot len_sha replayed = replay_state_snapshot len_sha final"
proof -
  obtain plan where plan:
    "derive_composition len_sha mix_codec mix_inputs mix_base [mix_source_0, mix_source_1] = Inr plan"
    "cx_operations (pl_change_set plan) = mix_operations" "pl_result_material plan = mix_blobs"
    using mix_derives by blast
  from composition_represents_sources [OF plan(1) mix_utf8] plan show ?thesis by auto
qed

theorem blobs_come_from_last_writers_witness:
  "list_all2 blob_for [Create_At ''a/e'' (content CHR ''e''), Create_At ''c/d'' (content CHR ''f''),
       Modify_At ''lib/b'' (content CHR ''b'') (content CHR ''c'')] mix_blobs \<and>
   (\<exists>c\<in>set [mix_source_0, mix_source_1]. cs_ordinal c = 1 \<and>
     ''c/d'' \<in> at_path ` set (cx_operations (cs_change_set mix_source_0)) \<and>
     (\<exists>r\<in>set (cs_result_material c). rm_path r = ''c/d'' \<and> rm_result_digest r = content CHR ''f''))"
proof -
  obtain plan where plan:
    "derive_composition len_sha mix_codec mix_inputs mix_base [mix_source_0, mix_source_1] = Inr plan"
    "cx_operations (pl_change_set plan) = mix_operations" "pl_result_material plan = mix_blobs"
    using mix_derives by blast
  let ?m = "mix_blob 2 ''c/d'' CHR ''f'' (Some 420) 1"
  have m: "?m \<in> set mix_blobs" by (simp add: mix_blobs_def)
  note blobs = blobs_come_from_last_writers [OF plan(1) mix_utf8, unfolded plan(2,3)]
  have "\<exists>c\<in>set [mix_source_0, mix_source_1]. cs_ordinal c = 1 \<and>
     (\<exists>r\<in>set (cs_result_material c). rm_path r = ''c/d'' \<and> rm_result_digest r = content CHR ''f'')"
    using blobs [THEN conjunct2, rule_format, OF m] by (simp add: mix_blob_def) blast
  moreover have "''c/d'' \<in> at_path ` set (cx_operations (cs_change_set mix_source_0))"
    by (simp add: mix_source_0_def mix_source_def)
  moreover have "filter (\<lambda>op. \<not> is_delete op) mix_operations =
      [Create_At ''a/e'' (content CHR ''e''), Create_At ''c/d'' (content CHR ''f''),
       Modify_At ''lib/b'' (content CHR ''b'') (content CHR ''c'')]"
    by (simp add: mix_operations_def)
  ultimately show ?thesis using blobs by auto
qed

section \<open>A refusal\<close>

text \<open>
  The first source deletes \<open>a\<close>, the second creates it again with the mode \<open>0o600\<close>. Both are
  accepted, but no operation of a change set can say that a file has changed its mode.
\<close>

definition flip_entries_1 :: "manifest_entry list" where
  "flip_entries_1 = [mix_entry ''lib/b'' CHR ''b'']"

definition flip_entries_2 :: "manifest_entry list" where
  "flip_entries_2 = [(mix_entry ''a'' CHR ''d'')\<lparr>me_unix_mode := 384\<rparr>, mix_entry ''lib/b'' CHR ''b'']"

lemma flip_manifest:
  assumes "es \<in> {flip_entries_1, flip_entries_2}"
  shows "compute_workspace_manifest_digest len_sha es = Inr (mix_snapshot es)"
proof -
  have "validate_manifest_entry ((mix_entry ''a'' CHR ''d'')\<lparr>me_unix_mode := 384\<rparr>) = Inr ()"
    by (simp add: validate_manifest_entry_ok mix_entry_def)
  then have "validate_manifest_entries es = Inr ()"
    using assms
    by (auto simp: validate_manifest_entries_ok flip_entries_1_def flip_entries_2_def
        MAX_MANIFEST_ENTRIES_def mix_entry_valid leaves_def)
  moreover have "length es < 2 ^ 64 \<and> list_all (\<lambda>e. length (me_path e) < 2 ^ 64) es"
    using assms by (auto simp: flip_entries_1_def flip_entries_2_def)
  ultimately show ?thesis
    by (simp add: compute_workspace_manifest_digest_def digest_from_sha256_output_def mix_snapshot_def
        len_sha_parsed)
qed

lemma flip_snapshots_differ:
  "mix_snapshot mix_entries_0 \<noteq> mix_snapshot flip_entries_1"
  "mix_snapshot flip_entries_1 \<noteq> mix_snapshot flip_entries_2"
  unfolding mix_snapshot_def
  by (rule len_digests_differ, simp add: manifest_bytes_def length_entry_bytes entry_bytes_def
      WORKSPACE_MANIFEST_DOMAIN_def mix_entries_0_def flip_entries_1_def flip_entries_2_def
      mix_entry_def content_def)+

definition flip_source_0 :: composition_source where
  "flip_source_0 = mix_source 0 ''1'' (mix_snapshot mix_entries_0) (mix_snapshot flip_entries_1)
     [Delete_At ''a'' (content CHR ''a'')] []"

definition flip_source_1 :: composition_source where
  "flip_source_1 = mix_source 1 ''2'' (mix_snapshot flip_entries_1) (mix_snapshot flip_entries_2)
     [Create_At ''a'' (content CHR ''d'')] [mix_material 0 ''a'' CHR ''d'' (Create_Material 384)]"

definition flip_state_1 :: replay_state where
  "flip_state_1 = \<lparr>rp_files = [(''lib/b'', mix_point CHR ''b'' None)], rp_directories = [(''lib'', ())]\<rparr>"

definition flip_state_2 :: replay_state where
  "flip_state_2 = \<lparr>rp_files = [(''a'', (mix_point CHR ''d'' (Some 1))\<lparr>ep_unix_mode := 384\<rparr>),
       (''lib/b'', mix_point CHR ''b'' None)], rp_directories = [(''lib'', ())]\<rparr>"

definition flip_inputs :: composition_inputs where
  "flip_inputs = mix_inputs\<lparr>ci_result_snapshot := mix_snapshot flip_entries_2,
     ci_final_verification := (ci_final_verification mix_inputs)
       \<lparr>fb_snapshot := mix_snapshot flip_entries_2\<rparr>\<rparr>"

lemma flip_identities:
  "cs_source_identity flip_source_0 = cs_source_identity mix_source_0"
  "cs_source_identity flip_source_1 = cs_source_identity mix_source_1"
  by (simp_all add: flip_source_0_def flip_source_1_def mix_source_0_def mix_source_1_def mix_source_def)

lemma flip_inputs_valid: "validate_composition_inputs len_sha mix_codec flip_inputs = Inr ()"
  using mix_inputs_valid
  by (simp add: flip_inputs_def validate_composition_inputs_def validate_final_verification_binding_def
      compute_source_set_digest_def composition_digest_def mix_codec_def require_canonical_len_def
      canonical_len_def)

lemma flip_sources_valid:
  "validate_composition_source len_sha mix_codec flip_source_0 = Inr ()"
  "validate_composition_source len_sha mix_codec flip_source_1 = Inr ()"
proof -
  have "validate_source_shape flip_source_0 = Inr ()" "validate_source_shape flip_source_1 = Inr ()"
    using flip_snapshots_differ
    by (simp_all add: mix_shape_simps flip_source_0_def flip_source_1_def mix_source_def
        mix_material_def Let_def)
  then show "validate_composition_source len_sha mix_codec flip_source_0 = Inr ()"
    "validate_composition_source len_sha mix_codec flip_source_1 = Inr ()"
    unfolding flip_source_0_def flip_source_1_def by (simp_all add: shaped_source_valid)
qed

lemma flip_replay:
  "replay_source flip_source_0 mix_state_0 = Inr flip_state_1"
  "replay_source flip_source_1 flip_state_1 = Inr flip_state_2"
  by (simp_all add: mix_replay_simps flip_source_0_def flip_source_1_def flip_state_1_def flip_state_2_def)

lemma flip_state_snapshots:
  "replay_state_snapshot len_sha flip_state_1 = Inr (mix_snapshot flip_entries_1)"
  "replay_state_snapshot len_sha flip_state_2 = Inr (mix_snapshot flip_entries_2)"
proof -
  have "state_manifest_entries (rp_files flip_state_1) = flip_entries_1"
    "state_manifest_entries (rp_files flip_state_2) = flip_entries_2"
    by (simp_all add: state_manifest_entries_def flip_state_1_def flip_state_2_def mix_point_def
        flip_entries_1_def flip_entries_2_def mix_entry_def)
  then show "replay_state_snapshot len_sha flip_state_1 = Inr (mix_snapshot flip_entries_1)"
    "replay_state_snapshot len_sha flip_state_2 = Inr (mix_snapshot flip_entries_2)"
    by (simp_all add: replay_state_snapshot_def flip_manifest)
qed

lemma flip_accepted:
  "sources_accepted len_sha mix_codec flip_inputs mix_base [flip_source_0, flip_source_1] flip_state_2"
proof -
  have "derive_source len_sha mix_codec 2 0 (cs_source_identity flip_source_0) no_members
      (mix_snapshot mix_entries_0) mix_state_0 flip_source_0 = Inr flip_state_1"
    unfolding derive_source_def
    by (simp add: flip_sources_valid flip_replay flip_state_snapshots u32_try_from_def no_members_def
        require_unique_source_member_def) (simp add: flip_source_0_def mix_source_def)
  moreover have "derive_source len_sha mix_codec 2 1 (cs_source_identity flip_source_1)
      (add_members flip_source_0 no_members) (mix_snapshot flip_entries_1) flip_state_1 flip_source_1 =
      Inr flip_state_2"
    unfolding derive_source_def
    by (simp add: flip_sources_valid flip_replay flip_state_snapshots u32_try_from_def no_members_def
        require_unique_source_member_def add_members_def)
      (simp add: flip_source_0_def flip_source_1_def mix_source_def)
  moreover have "cs_result_snapshot flip_source_0 = mix_snapshot flip_entries_1"
    "cs_result_snapshot flip_source_1 = mix_snapshot flip_entries_2"
    by (simp_all add: flip_source_0_def flip_source_1_def mix_source_def)
  ultimately have "derive_sources len_sha mix_codec 2 0
      [cs_source_identity flip_source_0, cs_source_identity flip_source_1] no_members
      (mix_snapshot mix_entries_0) mix_state_0 [flip_source_0, flip_source_1] =
    Inr (mix_snapshot flip_entries_2, flip_state_2)" by simp
  moreover have "validate_complete_input_bounds mix_codec flip_inputs mix_base
      [flip_source_0, flip_source_1] = Inr ()"
    by (simp add: validate_complete_input_bounds_def canonical_len_def mix_codec_def
        checked_add_usize_def MAX_COMPOSITION_SOURCES_def MAX_COMPOSITION_CANONICAL_INPUT_BYTES_def)
  moreover have "bp_snapshot mix_base = mix_snapshot mix_entries_0"
    "ci_base_snapshot flip_inputs = mix_snapshot mix_entries_0"
    "ci_result_snapshot flip_inputs = mix_snapshot flip_entries_2"
    "ci_expected_source_identities flip_inputs =
      [cs_source_identity flip_source_0, cs_source_identity flip_source_1]"
    by (simp_all add: mix_base_def flip_inputs_def mix_inputs_def flip_identities)
  ultimately show ?thesis
    by (simp add: sources_accepted_def flip_inputs_valid mix_base_valid mix_base_state numeral_2_eq_2)
qed

lemma flip_canonical: "canonical_contents mix_base [flip_source_0, flip_source_1]"
  by (simp add: canonical_contents_def mix_base_def mix_file_def flip_source_0_def flip_source_1_def
      mix_source_def mix_material_def canonical_content ascii_class_defs byte_def)

lemma flip_refused:
  "derive_composition len_sha mix_codec flip_inputs mix_base [flip_source_0, flip_source_1] =
     Inl (Unrepresentable_Mode_Transition ''a'' 420 384)"
proof -
  have "union_paths mix_state_0 flip_state_2 = [''a'', ''lib/b'']"
    by (simp add: union_paths_def mix_state_0_def flip_state_2_def bs_elems_def bs_collect_def
        bt_collect_def)
  then have "derive_aggregate mix_state_0 flip_state_2 =
      Inl (Unrepresentable_Mode_Transition ''a'' 420 384)"
    by (simp add: derive_aggregate_def derive_path_def mix_state_0_def flip_state_2_def bt_get_def
        mix_point_def)
  then show ?thesis
    using accepted_derivation [OF flip_accepted mix_utf8] by (simp add: derive_plan_def mix_base_state)
qed

theorem composition_refuses_only_inputs_witness:
  "derive_composition len_sha mix_codec flip_inputs mix_base [flip_source_0, flip_source_1] =
     Inl (Unrepresentable_Mode_Transition ''a'' 420 384) \<and>
   (\<exists>x y. file_at mix_state_0 ''a'' = Some x \<and> file_at flip_state_2 ''a'' = Some y \<and>
      ep_unix_mode x = 420 \<and> ep_unix_mode y = 384)"
proof -
  have "refusal_cause len_sha mix_codec mix_state_0 flip_state_2
      (Unrepresentable_Mode_Transition ''a'' 420 384)"
    using composition_refuses_only_inputs [OF mix_utf8 flip_canonical length_len_sha flip_refused]
      flip_accepted by (simp add: mix_base_state)
  then show ?thesis using flip_refused by (simp add: refusal_cause_def)
qed

end
