(* ===== verification/Spec2Isabelle.thy ===== *)
theory Spec2Isabelle
  imports Example_Sprint Example_Finish Example_Effects Direct_Exec Example_Outcomes
    Example_V2 Example_Ledger Optimal_Finish Example_Composition
begin

text \<open>
  GB Plus is a desktop coding agent that turns one user request into a \<^emph>\<open>sprint\<close>: a graph of
  tasks that workers carry out in shadow workspaces, that are integrated one after another, verified
  as a whole, and applied to the user's files. The rules that decide what may happen are in the
  crate \<open>src/crates/grok-build-core/src\<close>; its other crates launch processes, talk to model
  providers, and draw windows. This development models the rules: the records with their
  validators, the planners, the completion assessment, the attempt histories, and the ledger that
  admits final-verification attempts. File names below are relative to that directory.

  \<^bold>\<open>How the parts interact.\<close> A sprint, its workspace grant and its graph are validated once
  (Contracts, Task_Graph, Graph_Check). A planner proposes leases for ready tasks (Scheduler,
  Attempt_Scheduler, Scheduler_V2); a lease opens an attempt whose history grows with the records of
  a worker (Attempts, Attempt_History, Dispositions) and is projected to one recovery action after
  a crash (Recovery). Effects are recorded as intents before they run and as observations after
  (Effects). Receipts of commands, integrations, cleanups, and the application (Evidence, Receipts,
  Runner, Application, Rollback) are what the assessment of a finished sprint reads (Assess, Finish,
  Completion). On the V2 branch the sprint and its graph are sealed as a pair with repair slots
  (Authority_V2), and the verifier ledger admits attempts, closes them with a derived outcome,
  and activates and completes repairs (Verifier_Ledger, Verifier_Steps), on the strength of complete
  sets of task-done sources and criterion evidence (Task_Done_Source, Evidence_Sets).

  \<^bold>\<open>Theories and sources.\<close>
    \<^item> Prelude, Text, Paths, Btree: results of fallible code with the collection \<open>ok_iff\<close>; the
      uses of \<open>str\<close>, \<open>std::path\<close> and \<open>BTreeMap\<close> that the sources make.
    \<^item> Contracts, Task_Graph, Lease, Direct_Exec: \<open>contracts/primitives.rs\<close>. Kahn has the
      acyclicity work list and Graph_Check the meaning of an accepted graph.
    \<^item> Execution, Evidence, Receipts: \<open>contracts/execution.rs\<close>; facts in Evidence_Facts.
    \<^item> Runner, Application, Rollback, Effects: \<open>contracts/application.rs\<close>, and
      \<open>PersistedEffect::reconciliation\<close> of \<open>ledger/state.rs\<close>.
    \<^item> Lifecycle: the transition tables of \<open>state.rs\<close>. Completion, Assess, Finish:
      \<open>completion.rs\<close>; facts in Finish_Facts and Completed.
    \<^item> Scopes, Planner, Scheduler, Attempt_Scheduler, Scheduler_V2: \<open>scheduler.rs\<close>. Planner holds
      the proposal loop the three planners share and a locale with the laws of a planner, proved once
      and interpreted for each of them (Scheduler, Attempt_Plan, Scheduler_V2).
    \<^item> Attempts, Attempt_History, Dispositions, Recovery: \<open>contracts/attempts.rs\<close>; facts in
      Attempt_Facts, Attempt_Runs, Attempt_Opening, Recovery_Facts.
    \<^item> Authority_V2, Pair_Facts, Final_Attempts: \<open>final_verification_contracts.rs\<close>.
    \<^item> Repair_Permits, Evidence_Sets, Verifier_Contracts, Verifier_Ledger, Verifier_Steps:
      \<open>ledger/final_verification_authority_v32.rs\<close>; Outcome_Guard: the outcome trigger of
      \<open>ledger/final_verification_authority_v32.sql\<close>; Task_Done_Source:
      \<open>ledger/current_task_done_source_v32.rs\<close>. Ledger_Facts has one lemma for each transaction,
      Ledger_Invariants and Ledger_Repairs the invariants of reachable ledgers.
    \<^item> Optimal_Finish: \<open>optimal_finish.rs\<close>. Workspace_Manifest: the manifests of
      \<open>live_state.rs\<close>. Composition (records and validators), Composition_Replay, Composition_Derive:
      \<open>application_composition.rs\<close>; facts in Composition_Facts, Composition_Sources,
      Composition_Aggregate, Composition_Integrity, Composition_Errors, Composed and
      Composition_Refusals. Digest_Order orders digests, which the sources use as keys.
    \<^item> Example_Sprint, Example_Finish, Example_Effects, Example_Attempts, Example_Outcomes,
      Example_V2, Example_Ledger, Example_Composition: the concrete inputs of the witnesses.

  \<^bold>\<open>Representation.\<close> Structs are records, enums datatypes, \<open>u8\<close> to \<open>u64\<close> words of their width,
  \<open>usize\<close> a natural number, as every count modelled here is bounded by the length of a list. Text
  is a list of bytes. A \<open>Result\<close> is a sum with the error on the left, with the messages of the
  source; validators are lists of checks run by \<open>seq\<close> until the first failure, so the order of the
  checks and the error of each branch are those of the code. Arms that the code calls unreachable
  are error values. SHA-256 (crate \<open>sha2\<close>) is a parameter \<open>sha\<close> and serde's JSON a parameter for
  each type that is hashed or stored; where a property needs them injective it says so, or it
  states the collision as the alternative. Paths print as the texts the code builds from them.

  \<^bold>\<open>What is shown.\<close> Graphs: accepted exactly when a specification without tables holds.
  Planners: leases never overlap in scope or worker, only for ready tasks, with fresh epochs, and no
  task is left out while there is capacity; on V2 pairs, repair slots stay dormant until they are
  permitted. Attempts: a history replays through an automaton with a budget; an integrated task
  passed every assigned check on the integrated snapshot; recovery decides exactly when the open
  attempt is closable, within the budget. Statements about checks and budgets are about attempts
  made under current authority, not about backfilled ones. Completion: a sprint completes exactly when it
  is applying and every requirement holds, and a complete sprint has an unbroken chain of integrations, backed criteria,
  released leases, no process left, and an ordered timeline. Ledger: attempts of a sprint form a
  bounded chain whose links are earned by stored outcomes, outcomes are derived from captures, a
  repair extends the history by one task, permits are for the latest failure, and the end of a
  sprint is final and has a cause. One theorem compares the classification of captures with the
  trigger that guards it and finds the one capture on which they disagree.
  Composition: the change set derived from the integrated sources is the net effect of
  replaying them in order, names one blob for each written path with the last source that wrote it,
  and, once the sources are accepted, is refused only for a named cause in the base and their final
  state. A snapshot commits to the manifest of a workspace. Finish selection returns the optimum of a cohort under the order of
  costs and digests.

  \<^bold>\<open>Termination.\<close> All loops recurse on the data they traverse; the work list of Kahn terminates by
  a measure on the remaining in-degrees. No definition uses fuel.

  \<^bold>\<open>Not modelled.\<close> The event ledger's own SQL beyond the verifier tables (effects, events,
  artifacts, migrations) and the comparisons of stored columns with stored JSON that its loaders
  make, which hold of rows written from one value; the operational attempts and events of schema
  v34; criterion receipts are rows that other components add. Processes, containment, file system,
  windows, keychain and provider transport are effects without rules of their own here.
  Of the composition, the publication claims, readbacks, closures and receipts about a derived plan
  are not modelled.
\<close>

end
